(* ===== verification/Prelude.thy ===== *)
theory Prelude
  imports Main "HOL-Library.Word" "HOL-Library.AList"
begin

text \<open>
  What the component theories share: the machine integers of the Rust code, results with errors
  and panics as values, actions that thread a mutable state through fallible calls (the Rust
  functions over \<open>&mut self\<close> that return \<open>Result\<close>), a weakest-precondition calculus for them,
  and hash maps and hash sets with an iteration order.
\<close>

section \<open>Machine integers\<close>

type_synonym u8 = "8 word"
type_synonym u16 = "16 word"
type_synonym u32 = "32 word"
type_synonym u64 = "64 word"
type_synonym u128 = "128 word"
type_synonym bytes = "u8 list"

lemma unat_u32_less: "unat (x :: u32) < 2 ^ 32"
  using unsigned_less [of x] by simp

lemma uint_u32_less: "uint (x :: u32) < 2 ^ 32"
  using unsigned_less [of x] by simp

lemma unat_u64_less: "unat (x :: u64) < 2 ^ 64"
  using unsigned_less [of x] by simp

text \<open>\<open>checked_sub(..).unwrap_or(0)\<close>: the difference, or zero where it would be negative.\<close>

definition saturating_diff :: "('l::len) word \<Rightarrow> 'l word \<Rightarrow> 'l word" where
  "saturating_diff a b = (if b \<le> a then a - b else 0)"

lemma unat_saturating_diff: "unat (saturating_diff a b) = unat a - unat b"
  by (simp add: saturating_diff_def unat_sub word_le_nat_alt)

section \<open>Results\<close>

text \<open>
  The outcome of a Rust call: a value, an error returned as \<open>Err\<close>, a panic (\<open>expect\<close>,
  \<open>unwrap\<close>, \<open>unreachable!\<close>, an amount overflow), or \<open>Hang\<close> when the fuel of a modelled
  recursion runs out.
\<close>

datatype ('e, 'a) result = Ok 'a | Err 'e | Panic string | Hang

fun rbind :: "('e, 'a) result \<Rightarrow> ('a \<Rightarrow> ('e, 'b) result) \<Rightarrow> ('e, 'b) result" where
  "rbind (Ok x) f = f x"
| "rbind (Err e) f = Err e"
| "rbind (Panic s) f = Panic s"
| "rbind Hang f = Hang"

fun is_ok :: "('e, 'a) result \<Rightarrow> bool" where
  "is_ok (Ok x) = True"
| "is_ok (Err e) = False"
| "is_ok (Panic s) = False"
| "is_ok Hang = False"

lemma rbind_Ok_conv: "rbind r f = Ok y \<longleftrightarrow> (\<exists>x. r = Ok x \<and> f x = Ok y)"
  by (cases r) auto

lemma rbind_OkE:
  assumes "rbind r f = Ok y"
  obtains x where "r = Ok x" "f x = Ok y"
  using assms by (auto simp: rbind_Ok_conv)

text \<open>\<open>opt.expect(msg)\<close>.\<close>

fun expect :: "string \<Rightarrow> 'a option \<Rightarrow> ('e, 'a) result" where
  "expect msg (Some x) = Ok x"
| "expect msg None = Panic msg"

lemma expect_Ok_conv [simp]: "expect msg x = Ok y \<longleftrightarrow> x = Some y"
  by (cases x) auto

text \<open>\<open>map_err\<close>, and the conversion of errors that \<open>?\<close> applies.\<close>

fun err_into :: "('e \<Rightarrow> 'f) \<Rightarrow> ('e, 'a) result \<Rightarrow> ('f, 'a) result" where
  "err_into f (Ok x) = Ok x"
| "err_into f (Err e) = Err (f e)"
| "err_into f (Panic p) = Panic p"
| "err_into f Hang = Hang"

lemma err_into_Ok [simp]: "err_into f r = Ok x \<longleftrightarrow> r = Ok x"
  by (cases r) auto

section \<open>Actions\<close>

text \<open>
  A function over \<open>&mut\<close> state that returns \<open>Result\<close>: the state survives an error, so it is
  paired with every outcome.
\<close>

type_synonym ('s, 'e, 'a) action = "'s \<Rightarrow> ('e, 'a) result \<times> 's"

definition ret :: "'a \<Rightarrow> ('s, 'e, 'a) action" where
  "ret x = (\<lambda>s. (Ok x, s))"

definition throw :: "'e \<Rightarrow> ('s, 'e, 'a) action" where
  "throw e = (\<lambda>s. (Err e, s))"

definition lift_res :: "('e, 'a) result \<Rightarrow> ('s, 'e, 'a) action" where
  "lift_res r = (\<lambda>s. (r, s))"

definition bind :: "('s, 'e, 'a) action \<Rightarrow> ('a \<Rightarrow> ('s, 'e, 'b) action) \<Rightarrow> ('s, 'e, 'b) action" where
  "bind m f = (\<lambda>s. case m s of
       (Ok x, s') \<Rightarrow> f x s'
     | (Err e, s') \<Rightarrow> (Err e, s')
     | (Panic p, s') \<Rightarrow> (Panic p, s')
     | (Hang, s') \<Rightarrow> (Hang, s'))"

definition modify :: "('s \<Rightarrow> 's) \<Rightarrow> ('s, 'e, unit) action" where
  "modify f = (\<lambda>s. (Ok (), f s))"

text \<open>A read of the current state followed by the code that depends on it.\<close>

definition reads :: "('s \<Rightarrow> 'a) \<Rightarrow> ('a \<Rightarrow> ('s, 'e, 'b) action) \<Rightarrow> ('s, 'e, 'b) action" where
  "reads g f = (\<lambda>s. f (g s) s)"

text \<open>A method over \<open>&mut self\<close> that cannot fail and returns a value.\<close>

definition stateful :: "('s \<Rightarrow> 'a \<times> 's) \<Rightarrow> ('s, 'e, 'a) action" where
  "stateful f = (\<lambda>s. case f s of (x, s') \<Rightarrow> (Ok x, s'))"

definition skip :: "('s, 'e, unit) action" where
  "skip = ret ()"

definition on :: "bool \<Rightarrow> ('s, 'e, unit) action \<Rightarrow> ('s, 'e, unit) action" where
  "on b m = (if b then m else skip)"

text \<open>Statements in sequence, each with the \<open>?\<close> of the code.\<close>

fun steps :: "('s, 'e, unit) action list \<Rightarrow> ('s, 'e, 'a) action \<Rightarrow> ('s, 'e, 'a) action" where
  "steps [] k = k"
| "steps (m # ms) k = bind m (\<lambda>_. steps ms k)"

text \<open>A \<open>for\<close> loop whose body can leave with \<open>?\<close>.\<close>

fun for_each :: "'x list \<Rightarrow> ('x \<Rightarrow> ('s, 'e, unit) action) \<Rightarrow> ('s, 'e, unit) action" where
  "for_each [] f = skip"
| "for_each (x # xs) f = bind (f x) (\<lambda>_. for_each xs f)"

text \<open>
  Catching an error as a value (\<open>if let Err(e) = ...\<close>, \<open>let _ = ...\<close>, \<open>.is_ok()\<close>,
  \<open>map_err\<close>): a panic is not caught.
\<close>

definition attempt :: "('s, 'e, 'a) action \<Rightarrow> ('s, 'e, 'e + 'a) action" where
  "attempt m = (\<lambda>s. case m s of
       (Ok x, s') \<Rightarrow> (Ok (Inr x), s')
     | (Err e, s') \<Rightarrow> (Ok (Inl e), s')
     | (Panic p, s') \<Rightarrow> (Panic p, s')
     | (Hang, s') \<Rightarrow> (Hang, s'))"

subsection \<open>Running actions\<close>

named_theorems run_simps "the outcome and state of the actions that always return"

lemma run_ret [run_simps]: "ret x s = (Ok x, s)" by (simp add: ret_def)
lemma run_throw [run_simps]: "throw e s = (Err e, s)" by (simp add: throw_def)
lemma run_skip [run_simps]: "skip s = (Ok (), s)" by (simp add: skip_def ret_def)
lemma run_lift_res [run_simps]: "lift_res r s = (r, s)" by (simp add: lift_res_def)
lemma run_modify [run_simps]: "modify f s = (Ok (), f s)" by (simp add: modify_def)
lemma run_reads [run_simps]: "reads g f s = f (g s) s" by (simp add: reads_def)
lemma run_stateful [run_simps]: "stateful f s = (Ok (fst (f s)), snd (f s))"
  by (simp add: stateful_def case_prod_beta)
lemma run_on [run_simps]: "on b m s = (if b then m s else (Ok (), s))"
  by (simp add: on_def skip_def ret_def)
lemma run_bind_Ok [run_simps]: "m s = (Ok x, s') \<Longrightarrow> bind m f s = f x s'" by (simp add: bind_def)
lemma run_bind_Err [run_simps]: "m s = (Err e, s') \<Longrightarrow> bind m f s = (Err e, s')" by (simp add: bind_def)
lemma run_bind_Panic [run_simps]: "m s = (Panic p, s') \<Longrightarrow> bind m f s = (Panic p, s')"
  by (simp add: bind_def)

lemma bind_OkE:
  assumes "bind m f s = (Ok y, t)"
  obtains x u where "m s = (Ok x, u)" and "f x u = (Ok y, t)"
  using assms by (auto simp: bind_def split: result.splits prod.splits)

subsection \<open>Weakest preconditions\<close>

text \<open>
  \<open>wp m Q E s\<close>: run from \<open>s\<close>, the action returns a value and state that satisfy \<open>Q\<close>, or
  leaves with an error, a panic or no fuel in a state that satisfies \<open>E\<close>.
\<close>

definition wp ::
  "('s, 'e, 'a) action \<Rightarrow> ('a \<Rightarrow> 's \<Rightarrow> bool) \<Rightarrow> (('e, unit) result \<Rightarrow> 's \<Rightarrow> bool) \<Rightarrow> 's \<Rightarrow> bool" where
  "wp m Q E s = (case m s of
       (Ok x, s') \<Rightarrow> Q x s'
     | (Err e, s') \<Rightarrow> E (Err e) s'
     | (Panic p, s') \<Rightarrow> E (Panic p) s'
     | (Hang, s') \<Rightarrow> E Hang s')"

named_theorems wp_simps "weakest preconditions of the actions"

lemma wp_ret [wp_simps]: "wp (ret x) Q E s = Q x s"
  by (simp add: wp_def ret_def)

lemma wp_throw [wp_simps]: "wp (throw e) Q E s = E (Err e) s"
  by (simp add: wp_def throw_def)

lemma wp_lift_res [wp_simps]:
  "wp (lift_res r) Q E s = (case r of Ok x \<Rightarrow> Q x s | Err e \<Rightarrow> E (Err e) s | Panic p \<Rightarrow> E (Panic p) s | Hang \<Rightarrow> E Hang s)"
  by (simp add: wp_def lift_res_def split: result.splits)

lemma wp_bind [wp_simps]: "wp (bind m f) Q E s = wp m (\<lambda>x. wp (f x) Q E) E s"
  by (simp add: wp_def bind_def split: result.splits prod.splits)

lemma wp_modify [wp_simps]: "wp (modify f) Q E s = Q () (f s)"
  by (simp add: wp_def modify_def)

lemma wp_reads [wp_simps]: "wp (reads g f) Q E s = wp (f (g s)) Q E s"
  by (simp add: wp_def reads_def)

lemma wp_stateful [wp_simps]: "wp (stateful f) Q E s = Q (fst (f s)) (snd (f s))"
  by (simp add: wp_def stateful_def split: prod.splits)

lemma wp_skip [wp_simps]: "wp skip Q E s = Q () s"
  by (simp add: skip_def wp_simps)

lemma wp_on [wp_simps]: "wp (on b m) Q E s = (if b then wp m Q E s else Q () s)"
  by (simp add: on_def wp_simps)

lemma wp_attempt [wp_simps]:
  "wp (attempt m) Q E s =
     wp m (\<lambda>x. Q (Inr x)) (\<lambda>r s'. case r of Err e \<Rightarrow> Q (Inl e) s' | _ \<Rightarrow> E r s') s"
  by (simp add: wp_def attempt_def split: result.splits prod.splits)

lemma wp_if [wp_simps]: "wp (if b then m else n) Q E s = (if b then wp m Q E s else wp n Q E s)"
  by simp

lemma wp_conseq:
  assumes "wp m Q E s"
    and "\<And>x s'. Q x s' \<Longrightarrow> Q' x s'" and "\<And>r s'. E r s' \<Longrightarrow> E' r s'"
  shows "wp m Q' E' s"
  using assms by (auto simp: wp_def split: result.splits prod.splits)

lemma wp_conj:
  assumes "wp m Q E s" and "wp m Q' E' s"
  shows "wp m (\<lambda>x s. Q x s \<and> Q' x s) (\<lambda>r s. E r s \<and> E' r s) s"
  using assms by (auto simp: wp_def split: result.splits prod.splits)

lemma wp_OkD: "wp m Q E s \<Longrightarrow> m s = (Ok x, s') \<Longrightarrow> Q x s'"
  by (simp add: wp_def)

lemma wp_ErrD: "wp m Q E s \<Longrightarrow> m s = (Err e, s') \<Longrightarrow> E (Err e) s'"
  by (simp add: wp_def)

lemma wp_OkI:
  assumes "\<And>x s'. m s = (Ok x, s') \<Longrightarrow> Q x s'"
  shows "wp m Q (\<lambda>_ _. True) s"
  using assms by (auto simp: wp_def split: result.splits prod.splits)

lemma wp_for_each:
  assumes "\<And>x s. x \<in> set xs \<Longrightarrow> I s \<Longrightarrow> wp (f x) (\<lambda>_. I) E s"
  shows "I s \<Longrightarrow> wp (for_each xs f) (\<lambda>_. I) E s"
  using assms
proof (induction xs arbitrary: s)
  case Nil
  then show ?case by (simp add: wp_simps)
next
  case (Cons x xs)
  from Cons.prems have "wp (f x) (\<lambda>_. I) E s" by simp
  then have "wp (f x) (\<lambda>_. wp (for_each xs f) (\<lambda>_. I) E) E s"
    by (rule wp_conseq) (use Cons in auto)
  then show ?case by (simp add: wp_simps)
qed

section \<open>Hash maps and hash sets\<close>

text \<open>
  A \<open>HashMap\<close> is an association list whose order is the (unspecified) iteration order of the
  map, a \<open>HashSet\<close> a list. The theorems hold for every order, so nothing rests on it.
\<close>

type_synonym ('k, 'v) hash_map = "('k \<times> 'v) list"
type_synonym 'a hash_set = "'a list"

abbreviation hm_get :: "('k, 'v) hash_map \<Rightarrow> 'k \<Rightarrow> 'v option" where
  "hm_get m k \<equiv> map_of m k"

abbreviation hm_insert :: "'k \<Rightarrow> 'v \<Rightarrow> ('k, 'v) hash_map \<Rightarrow> ('k, 'v) hash_map" where
  "hm_insert \<equiv> AList.update"

abbreviation hm_remove :: "'k \<Rightarrow> ('k, 'v) hash_map \<Rightarrow> ('k, 'v) hash_map" where
  "hm_remove \<equiv> AList.delete"

abbreviation hm_contains :: "('k, 'v) hash_map \<Rightarrow> 'k \<Rightarrow> bool" where
  "hm_contains m k \<equiv> map_of m k \<noteq> None"

definition hm_keys :: "('k, 'v) hash_map \<Rightarrow> 'k set" where
  "hm_keys m = fst ` set m"

abbreviation hs_insert :: "'a \<Rightarrow> 'a hash_set \<Rightarrow> 'a hash_set" where
  "hs_insert \<equiv> List.insert"

abbreviation hs_remove :: "'a \<Rightarrow> 'a hash_set \<Rightarrow> 'a hash_set" where
  "hs_remove \<equiv> removeAll"

lemma hm_get_insert [simp]: "hm_get (hm_insert k v m) k' = (if k' = k then Some v else hm_get m k')"
  by (simp add: update_conv')

lemma hm_get_remove [simp]: "hm_get (hm_remove k m) k' = (if k' = k then None else hm_get m k')"
  by (simp add: delete_conv')

lemma hm_keys_Nil [simp]: "hm_keys [] = {}"
  by (simp add: hm_keys_def)

lemma hm_keys_Cons [simp]: "hm_keys (e # m) = insert (fst e) (hm_keys m)"
  by (simp add: hm_keys_def)

lemma hm_keys_insert [simp]: "hm_keys (hm_insert k v m) = insert k (hm_keys m)"
  by (simp add: hm_keys_def dom_update)

lemma hm_keys_remove [simp]: "hm_keys (hm_remove k m) = hm_keys m - {k}"
  by (auto simp: hm_keys_def AList.delete_eq)

lemma hm_get_keys: "hm_get m k = None \<longleftrightarrow> k \<notin> hm_keys m"
  by (simp add: hm_keys_def map_of_eq_None_iff)

lemma hm_get_iff_key: "(\<exists>v. hm_get m k = Some v) \<longleftrightarrow> k \<in> hm_keys m"
  by (metis hm_get_keys not_None_eq)

lemma hm_get_SomeD: "hm_get m k = Some v \<Longrightarrow> k \<in> hm_keys m"
  by (metis hm_get_keys option.distinct(1))

lemma hm_keysE:
  assumes "k \<in> hm_keys m"
  obtains v where "hm_get m k = Some v"
  using assms by (metis hm_get_iff_key)

lemma hm_keys_memI: "(k, v) \<in> set m \<Longrightarrow> k \<in> hm_keys m"
  by (force simp: hm_keys_def)

lemma hm_get_iff_mem: "distinct (map fst m) \<Longrightarrow> hm_get m k = Some v \<longleftrightarrow> (k, v) \<in> set m"
  by simp

lemma hm_remove_absent: "k \<notin> hm_keys m \<Longrightarrow> hm_remove k m = m"
  by (simp add: hm_keys_def delete_id)

lemma hm_distinct_remove [simp]: "distinct (map fst m) \<Longrightarrow> distinct (map fst (hm_remove k m))"
  by (rule distinct_delete)

lemma hm_distinct_insert [simp]: "distinct (map fst m) \<Longrightarrow> distinct (map fst (hm_insert k v m))"
  by (rule distinct_update)

lemma hs_remove_Nil [simp]: "hs_remove i xs = [] \<longleftrightarrow> set xs \<subseteq> {i}"
  by (induction xs) auto

end
