(* ===== verification/Basics.thy ===== *)
theory Basics
  imports Prelude
begin

text \<open>
  The vocabulary of the node: the enumerations of \<open>farcaster_core\<close> that the sources match on,
  the chain selectors of \<open>chains.rs\<close>, the service identifiers of \<open>service.rs\<close>, the errors of
  \<open>error.rs\<close> and the shared bus types of \<open>bus/types.rs\<close>. Data that the code only stores, sends
  and hands to other crates (transactions, keys, addresses) is carried as bytes.
\<close>

section \<open>Enumerations of farcaster-core the sources match on\<close>

datatype network = Mainnet | Testnet | Local
datatype blockchain = Bitcoin | Monero
datatype swap_role = Alice | Bob
datatype trade_role = Maker | Taker
datatype tx_label = Funding | Lock | Buy | Cancel | Refund | Punish | AccLock

lemma UNIV_tx_label: "UNIV = {Funding, Lock, Buy, Cancel, Refund, Punish, AccLock}"
  using tx_label.exhaust by blast

instantiation tx_label :: finite
begin

instance by standard (simp add: UNIV_tx_label)

end

lemma card_tx_label: "card (UNIV :: tx_label set) = 7"
  by (simp add: UNIV_tx_label)

lemma card_tx_labels_le: "card (A :: tx_label set) \<le> 7"
proof -
  have "card A \<le> card (UNIV :: tx_label set)" by (rule card_mono) simp_all
  then show ?thesis by (simp add: card_tx_label)
qed

section \<open>Data carried as bytes\<close>

type_synonym swap_id = u128
type_synonym txid = bytes
type_synonym psbt = bytes
type_synonym xmr_pubkey = bytes
type_synonym xmr_privkey = bytes
type_synonym btc_privkey = bytes
type_synonym btc_pubkey = bytes
type_synonym signature = bytes

text \<open>A Bitcoin transaction, by its consensus encoding.\<close>

datatype btc_tx = BtcTx (consensus_bytes: bytes)

datatype btc_address = BtcAddress (btc_network: network) (btc_script: bytes)
datatype xmr_address = XmrAddress (xmr_network: network) (xmr_keys: bytes)

text \<open>\<open>internet2::addr::NodeAddr\<close>: the peer's node id (a public key) and its socket address.\<close>

datatype node_addr = NodeAddr (na_id: bytes) (na_addr: string)

section \<open>Chain selectors: chains.rs\<close>

datatype consensus_error = UnknownType | TypeMismatch

datatype arbitrating_blockchain = ArbBitcoin
datatype accordant_blockchain = AccMonero

definition arbitrating_from_str :: "string \<Rightarrow> (consensus_error, arbitrating_blockchain) result" where
  "arbitrating_from_str s =
     (if s = ''Bitcoin'' \<or> s = ''bitcoin'' \<or> s = ''btc'' \<or> s = ''BTC'' then Ok ArbBitcoin
      else Err UnknownType)"

fun arbitrating_into :: "arbitrating_blockchain \<Rightarrow> blockchain" where
  "arbitrating_into ArbBitcoin = Bitcoin"

fun arbitrating_try_from :: "blockchain \<Rightarrow> (consensus_error, arbitrating_blockchain) result" where
  "arbitrating_try_from Bitcoin = Ok ArbBitcoin"
| "arbitrating_try_from _ = Err TypeMismatch"

definition accordant_from_str :: "string \<Rightarrow> (consensus_error, accordant_blockchain) result" where
  "accordant_from_str s =
     (if s = ''Monero'' \<or> s = ''monero'' \<or> s = ''xmr'' \<or> s = ''XMR'' then Ok AccMonero
      else Err UnknownType)"

fun accordant_into :: "accordant_blockchain \<Rightarrow> blockchain" where
  "accordant_into AccMonero = Monero"

fun accordant_try_from :: "blockchain \<Rightarrow> (consensus_error, accordant_blockchain) result" where
  "accordant_try_from Monero = Ok AccMonero"
| "accordant_try_from _ = Err TypeMismatch"

text \<open>Every chain is a legal value of exactly one of the two selectors.\<close>

lemma chain_selectors_partition:
  "is_ok (arbitrating_try_from b) \<longleftrightarrow> \<not> is_ok (accordant_try_from b)"
  by (cases b) simp_all

section \<open>Services: service.rs\<close>

type_synonym client_name = bytes

text \<open>
  \<open>ClientName::from_str\<close>. In the branch for short names the code declares a second \<open>me\<close>,
  fills that one and then returns the outer one.
\<close>

definition client_name_from_str :: "bytes \<Rightarrow> client_name" where
  "client_name_from_str s =
     (let me = replicate 32 0 in
      if 32 < length s then take 32 s
      else (let inner_me = s @ drop (length s) (replicate 32 0) in me))"

datatype service_id =
    Loopback
  | Farcasterd
  | Peer u128 node_addr
  | Swap swap_id
  | Client u64
  | Syncer blockchain network
  | Walletd
  | Grpcd
  | GrpcdClient u64
  | Database
  | OtherService client_name

definition router :: service_id where
  "router = Farcasterd"

fun service_node_id :: "service_id \<Rightarrow> bytes option" where
  "service_node_id (Peer _ addr) = Some (na_id addr)"
| "service_node_id _ = None"

fun service_node_addr :: "service_id \<Rightarrow> node_addr option" where
  "service_node_addr (Peer _ addr) = Some addr"
| "service_node_addr _ = None"

definition dummy_peer_service_id :: "node_addr \<Rightarrow> service_id" where
  "dummy_peer_service_id addr = Peer 0 addr"

fun is_peer :: "service_id \<Rightarrow> bool" where
  "is_peer (Peer _ _) = True"
| "is_peer _ = False"

fun is_grpcd_client :: "service_id \<Rightarrow> bool" where
  "is_grpcd_client (GrpcdClient _) = True"
| "is_grpcd_client _ = False"

text \<open>
  \<open>From<Vec<u8>> for ServiceId\<close>; the strict decoder and the lossy UTF-8 conversion are
  parameters.
\<close>

definition service_id_from_vec ::
  "(bytes \<Rightarrow> service_id option) \<Rightarrow> (bytes \<Rightarrow> bytes) \<Rightarrow> bytes \<Rightarrow> service_id" where
  "service_id_from_vec strict_deserialize from_utf8_lossy vec =
     (case strict_deserialize vec of
        Some s \<Rightarrow> s
      | None \<Rightarrow> OtherService (client_name_from_str (from_utf8_lossy vec)))"

section \<open>Buses\<close>

datatype service_bus = MsgBus | CtlBus | InfoBus | SyncBus | BridgeBus

section \<open>Formatted text\<close>

text \<open>
  A string built by \<open>format!\<close>: the format with its arguments. Texts are only sent to users, no
  code reads them back.
\<close>

datatype fmt =
    Fmt string "fmt list"
  | TNum nat
  | TSwap swap_id
  | TService service_id
  | TOpaque string

section \<open>Errors: error.rs\<close>

datatype syncer_error =
    Electrum string
  | NoTxsOnAddress
  | ScriptAlreadyRegistered
  | UnknownNetwork
  | MoneroRpc string
  | InvalidConfig
  | NoIncrementToHeight
  | InvalidPsbt
  | TxNotInHistory

datatype error =
    FarcasterCoreErr string
  | FarcasterErr fmt
  | WalletErr fmt
  | ConfigErr string
  | IoErr string
  | EsbErr string
  | PeerErr string
  | BridgeErr string
  | NotSupported service_bus fmt
  | NotResponding
  | Misbehaving
  | Terminate fmt
  | OtherErr fmt
  | InvalidToken
  | SyncerErr syncer_error
  | BitcoinHashesErr string
  | CheckpointErr string
  | BitcoinKeyErr string
  | BitcoinSecp256k1Err string
  | StrictEncodingErr string
  | UuidErr string

text \<open>The \<open>From\<close> conversions that \<open>?\<close> applies to the errors of other crates.\<close>

definition from_core_error :: "string \<Rightarrow> error" where
  "from_core_error e = FarcasterCoreErr e"

definition from_encode_error :: "string \<Rightarrow> error" where
  "from_encode_error e = FarcasterErr (TOpaque e)"

text \<open>\<open>to_string\<close> of an error: the text of its documentation comment.\<close>

fun error_text :: "error \<Rightarrow> fmt" where
  "error_text (FarcasterCoreErr e) = Fmt ''Farcaster core errors: {0}'' [TOpaque e]"
| "error_text (FarcasterErr t) = Fmt ''Farcaster node errors: {0}'' [t]"
| "error_text (WalletErr t) = Fmt ''Wallet node errors: {0}'' [t]"
| "error_text (ConfigErr e) = Fmt ''Config errors: {0}'' [TOpaque e]"
| "error_text (IoErr e) = Fmt ''I/O error: {0:?}'' [TOpaque e]"
| "error_text (EsbErr e) = Fmt ''ESB error: {0}'' [TOpaque e]"
| "error_text (PeerErr e) = Fmt ''Peer interface error: {0}'' [TOpaque e]"
| "error_text (BridgeErr e) = Fmt ''Bridge interface error: {0}'' [TOpaque e]"
| "error_text (NotSupported _ _) = Fmt ''Provided RPC request is not supported for the used type of endpoint'' []"
| "error_text NotResponding = Fmt ''Peer does not respond to ping messages'' []"
| "error_text Misbehaving = Fmt ''Peer has misbehaved LN peer protocol rules'' []"
| "error_text (Terminate t) = Fmt ''unrecoverable error {0}'' [t]"
| "error_text (OtherErr t) = t"
| "error_text InvalidToken = Fmt ''Invalid walletd token error'' []"
| "error_text (SyncerErr _) = Fmt ''Syncer'' []"
| "error_text (BitcoinHashesErr e) = TOpaque e"
| "error_text (CheckpointErr _) = Fmt ''Checkpoint'' []"
| "error_text (BitcoinKeyErr e) = TOpaque e"
| "error_text (BitcoinSecp256k1Err _) = Fmt ''BitcoinSecp256k1'' []"
| "error_text (StrictEncodingErr _) = Fmt ''StrictEncoding'' []"
| "error_text (UuidErr _) = Fmt ''Uuid'' []"

section \<open>Shared bus types: bus/types.rs\<close>

datatype outcome = SuccessSwap | FailureRefund | FailurePunish | FailureAbort

datatype failure_code = UnknownFailure | TargetServiceNotFound

fun failure_code_from_u16 :: "u16 \<Rightarrow> failure_code" where
  "failure_code_from_u16 v = (if v = 0xFFE then TargetServiceNotFound else UnknownFailure)"

fun failure_code_to_u16 :: "failure_code \<Rightarrow> u16" where
  "failure_code_to_u16 UnknownFailure = 0xFFF"
| "failure_code_to_u16 TargetServiceNotFound = 0xFFE"

datatype failure = Failure failure_code fmt

text \<open>\<open>to_string\<close> of a \<open>Failure\<close> is its info.\<close>

fun failure_text :: "failure \<Rightarrow> fmt" where
  "failure_text (Failure _ info) = info"

datatype deal_status = Open | InProgress | Ended outcome

text \<open>Client names of at most 32 bytes are all parsed to the same name.\<close>

lemma client_name_short: "length s \<le> 32 \<Longrightarrow> client_name_from_str s = replicate 32 0"
  by (simp add: client_name_from_str_def)

lemma client_name_length: "length (client_name_from_str s) = 32"
  by (simp add: client_name_from_str_def)

lemma failure_code_roundtrip: "failure_code_from_u16 (failure_code_to_u16 c) = c"
  by (cases c) simp_all

end
