(* ===== verification/TemporalSafety.thy ===== *)
theory TemporalSafety
  imports Basics
begin

text \<open>
  \<open>swapd/temporal_safety.rs\<close>: the confirmation thresholds and timelocks of a swap and the
  predicates that say when a transaction is final, safe or valid. All counts are \<open>u32\<close>; the
  subtractions of the release build wrap, which the validity of the parameters excludes.
\<close>

type_synonym block_height = u32
type_synonym block_span = u32

definition SWEEP_MONERO_THRESHOLD :: u32 where
  "SWEEP_MONERO_THRESHOLD = 10"

record temporal_safety =
  cancel_timelock :: block_height
  punish_timelock :: block_height
  race_thr :: block_span
  btc_finality_thr :: block_span
  xmr_finality_thr :: block_span
  sweep_monero_thr :: block_span

definition valid_params :: "temporal_safety \<Rightarrow> (error, unit) result" where
  "valid_params ts =
     (let btc_finality = btc_finality_thr ts;
          cancel = cancel_timelock ts;
          punish = punish_timelock ts;
          race = race_thr ts
      in if btc_finality < cancel \<and> cancel < punish \<and> btc_finality < race
            \<and> punish > race \<and> cancel > race
         then Ok ()
         else Err (FarcasterErr (Fmt ''Unsafe or invalid temporal parameters between: timelocks, finality, and safety'' [])))"

definition final_tx :: "temporal_safety \<Rightarrow> u32 \<Rightarrow> blockchain \<Rightarrow> bool" where
  "final_tx ts confs b =
     (let finality_thr = (case b of Bitcoin \<Rightarrow> btc_finality_thr ts | Monero \<Rightarrow> xmr_finality_thr ts)
      in confs \<ge> finality_thr)"

definition stop_funding_before_cancel :: "temporal_safety \<Rightarrow> u32 \<Rightarrow> bool" where
  "stop_funding_before_cancel ts lock_confirmations \<longleftrightarrow>
     final_tx ts lock_confirmations Bitcoin
     \<and> lock_confirmations > cancel_timelock ts - race_thr ts + 1"

text \<open>The \<open>i64\<close> results are differences of \<open>u32\<close> values, far from the bounds of \<open>i64\<close>.\<close>

definition blocks_until_stop_funding :: "temporal_safety \<Rightarrow> u32 \<Rightarrow> int" where
  "blocks_until_stop_funding ts lock_confirmations =
     uint (cancel_timelock ts) - (uint (race_thr ts) + 1 + uint lock_confirmations)"

definition valid_cancel :: "temporal_safety \<Rightarrow> u32 \<Rightarrow> bool" where
  "valid_cancel ts lock_confirmations \<longleftrightarrow>
     final_tx ts lock_confirmations Bitcoin \<and> lock_confirmations \<ge> cancel_timelock ts"

definition blocks_until_cancel :: "temporal_safety \<Rightarrow> u32 \<Rightarrow> int" where
  "blocks_until_cancel ts lock_confirmations =
     uint (cancel_timelock ts) - uint lock_confirmations"

definition safe_buy :: "temporal_safety \<Rightarrow> u32 \<Rightarrow> bool" where
  "safe_buy ts lock_confirmations \<longleftrightarrow>
     final_tx ts lock_confirmations Bitcoin
     \<and> lock_confirmations \<le> cancel_timelock ts - race_thr ts"

definition safe_refund :: "temporal_safety \<Rightarrow> u32 \<Rightarrow> bool" where
  "safe_refund ts cancel_confirmations \<longleftrightarrow>
     final_tx ts cancel_confirmations Bitcoin
     \<and> cancel_confirmations \<le> punish_timelock ts - race_thr ts"

definition valid_punish :: "temporal_safety \<Rightarrow> u32 \<Rightarrow> bool" where
  "valid_punish ts cancel_confirmations \<longleftrightarrow>
     final_tx ts cancel_confirmations Bitcoin \<and> cancel_confirmations \<ge> punish_timelock ts"

definition blocks_until_punish_after_cancel :: "temporal_safety \<Rightarrow> u32 \<Rightarrow> int" where
  "blocks_until_punish_after_cancel ts cancel_confirmations =
     uint (punish_timelock ts) - uint cancel_confirmations"

section \<open>What the validated parameters guarantee\<close>

named_theorems timelock_defs "the predicates over the timelocks, unfolded"

lemmas timelock_unfold [timelock_defs] =
  final_tx_def stop_funding_before_cancel_def valid_cancel_def safe_buy_def safe_refund_def
  valid_punish_def

lemma valid_params_Ok:
  "valid_params ts = Ok () \<longleftrightarrow>
     btc_finality_thr ts < race_thr ts \<and> race_thr ts < cancel_timelock ts
     \<and> cancel_timelock ts < punish_timelock ts"
  by (auto simp: valid_params_def Let_def)

text \<open>The subtractions do not wrap.\<close>

lemma valid_params_no_wrap:
  assumes "valid_params ts = Ok ()"
  shows "unat (cancel_timelock ts - race_thr ts) = unat (cancel_timelock ts) - unat (race_thr ts)"
    and "unat (punish_timelock ts - race_thr ts) = unat (punish_timelock ts) - unat (race_thr ts)"
    and "unat (cancel_timelock ts - race_thr ts + 1) = unat (cancel_timelock ts) - unat (race_thr ts) + 1"
proof -
  from assms have lt: "race_thr ts < cancel_timelock ts" "cancel_timelock ts < punish_timelock ts"
      "btc_finality_thr ts < race_thr ts"
    by (auto simp: valid_params_Ok)
  then have le: "race_thr ts \<le> cancel_timelock ts" "race_thr ts \<le> punish_timelock ts" by auto
  show a: "unat (cancel_timelock ts - race_thr ts) = unat (cancel_timelock ts) - unat (race_thr ts)"
    using le by (simp add: unat_sub)
  show "unat (punish_timelock ts - race_thr ts) = unat (punish_timelock ts) - unat (race_thr ts)"
    using le by (simp add: unat_sub)
  have "unat (cancel_timelock ts) < 4294967296"
    using unat_u32_less [of "cancel_timelock ts"] by simp
  moreover have "0 < unat (race_thr ts)"
    using lt(3) by (simp add: word_less_nat_alt)
  ultimately have "unat (cancel_timelock ts - race_thr ts) + 1 < 4294967296"
    using a by linarith
  then show "unat (cancel_timelock ts - race_thr ts + 1) = unat (cancel_timelock ts) - unat (race_thr ts) + 1"
    using a by (simp add: unat_word_ariths)
qed

text \<open>
  The contract between a step and the step of the counterparty that a timelock opens: while the
  first is safe the second is not yet possible, and the second stays possible from then on.
\<close>

locale race_window =
  fixes ok :: "'p \<Rightarrow> bool"
    and safe :: "'p \<Rightarrow> u32 \<Rightarrow> bool"
    and due :: "'p \<Rightarrow> u32 \<Rightarrow> bool"
  assumes due_stays: "due p c \<Longrightarrow> c \<le> d \<Longrightarrow> due p d"
    and safe_not_due: "ok p \<Longrightarrow> safe p c \<Longrightarrow> \<not> due p c"
begin

lemma safe_precedes_due: "ok p \<Longrightarrow> safe p c \<Longrightarrow> due p d \<Longrightarrow> c < d"
  using due_stays safe_not_due by (metis linorder_not_le)

lemma never_safe_again: "ok p \<Longrightarrow> due p c \<Longrightarrow> c \<le> d \<Longrightarrow> \<not> safe p d"
  using due_stays safe_not_due by blast

end

definition params_ok :: "temporal_safety \<Rightarrow> bool" where
  "params_ok ts \<longleftrightarrow> valid_params ts = Ok ()"

text \<open>Each window in natural numbers, where the parameters are valid.\<close>

lemma windows_nat:
  assumes "params_ok ts"
  shows "safe_buy ts c \<longleftrightarrow> unat (btc_finality_thr ts) \<le> unat c
           \<and> unat c + unat (race_thr ts) \<le> unat (cancel_timelock ts)"
    and "safe_refund ts c \<longleftrightarrow> unat (btc_finality_thr ts) \<le> unat c
           \<and> unat c + unat (race_thr ts) \<le> unat (punish_timelock ts)"
    and "stop_funding_before_cancel ts c \<longleftrightarrow>
           unat (cancel_timelock ts) + 1 < unat c + unat (race_thr ts) \<and> unat (btc_finality_thr ts) \<le> unat c"
    and "valid_cancel ts c \<longleftrightarrow> unat (cancel_timelock ts) \<le> unat c"
    and "valid_punish ts c \<longleftrightarrow> unat (punish_timelock ts) \<le> unat c"
proof -
  from assms have v: "valid_params ts = Ok ()" by (simp add: params_ok_def)
  from v have lt: "unat (btc_finality_thr ts) < unat (race_thr ts)"
      "unat (race_thr ts) < unat (cancel_timelock ts)" "unat (cancel_timelock ts) < unat (punish_timelock ts)"
    by (auto simp: valid_params_Ok word_less_nat_alt)
  note sub = valid_params_no_wrap [OF v]
  show "safe_buy ts c \<longleftrightarrow> unat (btc_finality_thr ts) \<le> unat c
           \<and> unat c + unat (race_thr ts) \<le> unat (cancel_timelock ts)"
    using lt by (auto simp: timelock_defs word_le_nat_alt sub)
  show "safe_refund ts c \<longleftrightarrow> unat (btc_finality_thr ts) \<le> unat c
           \<and> unat c + unat (race_thr ts) \<le> unat (punish_timelock ts)"
    using lt by (auto simp: timelock_defs word_le_nat_alt sub)
  show "stop_funding_before_cancel ts c \<longleftrightarrow>
           unat (cancel_timelock ts) + 1 < unat c + unat (race_thr ts) \<and> unat (btc_finality_thr ts) \<le> unat c"
    using lt by (auto simp: timelock_defs word_le_nat_alt word_less_nat_alt sub)
  show "valid_cancel ts c \<longleftrightarrow> unat (cancel_timelock ts) \<le> unat c"
    using lt by (auto simp: timelock_defs word_le_nat_alt)
  show "valid_punish ts c \<longleftrightarrow> unat (punish_timelock ts) \<le> unat c"
    using lt by (auto simp: timelock_defs word_le_nat_alt)
qed

lemma params_ok_nat:
  "params_ok ts \<longleftrightarrow> unat (btc_finality_thr ts) < unat (race_thr ts)
     \<and> unat (race_thr ts) < unat (cancel_timelock ts) \<and> unat (cancel_timelock ts) < unat (punish_timelock ts)"
  by (auto simp: params_ok_def valid_params_Ok word_less_nat_alt)

interpretation buy_race: race_window params_ok safe_buy valid_cancel
proof
  show "valid_cancel p c \<Longrightarrow> c \<le> d \<Longrightarrow> valid_cancel p d" for p c d
    by (auto simp: timelock_defs)
  show "params_ok p \<Longrightarrow> safe_buy p c \<Longrightarrow> \<not> valid_cancel p c" for p c
    by (auto simp: windows_nat params_ok_nat)
qed

interpretation refund_race: race_window params_ok safe_refund valid_punish
proof
  show "valid_punish p c \<Longrightarrow> c \<le> d \<Longrightarrow> valid_punish p d" for p c d
    by (auto simp: timelock_defs)
  show "params_ok p \<Longrightarrow> safe_refund p c \<Longrightarrow> \<not> valid_punish p c" for p c
    by (auto simp: windows_nat params_ok_nat)
qed

text \<open>
  Property C1 (safety): with validated parameters, at every confirmation count of the lock at which buying is safe
  the cancel transaction is not yet valid, and stays invalid at every smaller count; the same holds
  for refunding and the punish transaction.
\<close>

theorem safe_windows_close_first:
  assumes "params_ok ts"
  shows "(safe_buy ts c \<longrightarrow> (\<forall>d. valid_cancel ts d \<longrightarrow> c < d))
       \<and> (safe_refund ts c \<longrightarrow> (\<forall>d. valid_punish ts d \<longrightarrow> c < d))"
  using assms buy_race.safe_precedes_due refund_race.safe_precedes_due by blast

definition example_timelocks :: temporal_safety where
  "example_timelocks = \<lparr>cancel_timelock = 16, punish_timelock = 32, race_thr = 4,
     btc_finality_thr = 2, xmr_finality_thr = 3, sweep_monero_thr = SWEEP_MONERO_THRESHOLD\<rparr>"

lemma example_timelocks_ok: "params_ok example_timelocks"
  by (simp add: params_ok_def valid_params_def example_timelocks_def)

theorem safe_windows_close_first_witness:
  "safe_buy example_timelocks 12 \<and> valid_cancel example_timelocks 16 \<and> (12 :: u32) < 16"
proof -
  have b: "safe_buy example_timelocks 12" "valid_cancel example_timelocks 16"
    by (simp_all add: timelock_defs example_timelocks_def)
  from safe_windows_close_first [OF example_timelocks_ok, of 12] b show ?thesis by blast
qed

text \<open>
  The countdowns shown to the user agree with the conditions they count down to: with
  validated parameters the blocks until cancel (until punish) reach zero exactly when cancel (punish)
  becomes valid. The countdown to the end of the funding period does not: it reads zero three
  confirmations before Alice stops funding, since its offset has the opposite sign.
\<close>

theorem countdowns_agree:
  assumes "params_ok ts"
  shows "(blocks_until_cancel ts c \<le> 0 \<longleftrightarrow> valid_cancel ts c)
       \<and> (blocks_until_punish_after_cancel ts c \<le> 0 \<longleftrightarrow> valid_punish ts c)
       \<and> (stop_funding_before_cancel ts c \<longleftrightarrow>
            blocks_until_stop_funding ts c \<le> -3 \<and> final_tx ts c Bitcoin)"
proof (intro conjI)
  show "blocks_until_cancel ts c \<le> 0 \<longleftrightarrow> valid_cancel ts c"
    by (simp only: windows_nat [OF assms] blocks_until_cancel_def uint_nat) linarith
  show "blocks_until_punish_after_cancel ts c \<le> 0 \<longleftrightarrow> valid_punish ts c"
    by (simp only: windows_nat [OF assms] blocks_until_punish_after_cancel_def uint_nat) linarith
  have f: "final_tx ts c Bitcoin \<longleftrightarrow> unat (btc_finality_thr ts) \<le> unat c"
    by (simp add: final_tx_def word_le_nat_alt)
  show "stop_funding_before_cancel ts c \<longleftrightarrow>
          blocks_until_stop_funding ts c \<le> -3 \<and> final_tx ts c Bitcoin"
    by (simp only: windows_nat [OF assms] blocks_until_stop_funding_def uint_nat f) linarith
qed

theorem countdowns_agree_witness:
  "blocks_until_stop_funding example_timelocks 14 = -3 \<and> stop_funding_before_cancel example_timelocks 14
   \<and> blocks_until_stop_funding example_timelocks 11 = 0 \<and> \<not> stop_funding_before_cancel example_timelocks 11"
proof -
  have f: "final_tx example_timelocks 14 Bitcoin" by (simp add: final_tx_def example_timelocks_def)
  have b: "blocks_until_stop_funding example_timelocks 14 = -3"
      "blocks_until_stop_funding example_timelocks 11 = 0"
    by (simp_all add: blocks_until_stop_funding_def example_timelocks_def)
  then show ?thesis
    using countdowns_agree [OF example_timelocks_ok, of 14] countdowns_agree [OF example_timelocks_ok, of 11] f
    by simp
qed

text \<open>Validated parameters need not leave Alice a confirmation count at which buying is safe.\<close>

definition tight_timelocks :: temporal_safety where
  "tight_timelocks = \<lparr>cancel_timelock = 6, punish_timelock = 8, race_thr = 5,
     btc_finality_thr = 4, xmr_finality_thr = 3, sweep_monero_thr = SWEEP_MONERO_THRESHOLD\<rparr>"

lemma valid_params_allow_no_buy_window:
  "params_ok tight_timelocks \<and> \<not> (\<exists>c. safe_buy tight_timelocks c)"
proof -
  have ok: "params_ok tight_timelocks"
    by (simp add: params_ok_def valid_params_def tight_timelocks_def)
  moreover have "\<not> safe_buy tight_timelocks c" for c
    by (simp add: windows_nat [OF ok]) (simp add: tight_timelocks_def)
  ultimately show ?thesis by blast
qed

end
