(* ===== verification/SyncerTypes.thy ===== *)
theory SyncerTypes
  imports Basics
begin

text \<open>
  The tasks a syncer accepts and the events it returns (\<open>syncerd/types.rs\<close>), the messages of the
  syncer bus (\<open>bus/sync.rs\<close>) and the key material of \<open>bus/types.rs\<close> that tasks carry. Heights
  and amounts keep their width. A structure of the sources is a datatype with one constructor and
  a selector per field.
\<close>

section \<open>Key material: bus/types.rs, bus/info.rs\<close>

datatype bitcoin_secret_key_info =
  BitcoinSecretKeyInfo (bsk_swap_id: "swap_id option") (bsk_secret_key: btc_privkey)

datatype monero_secret_key_info =
  MoneroSecretKeyInfo (msk_swap_id: "swap_id option") (msk_view: xmr_privkey)
    (msk_spend: xmr_privkey) (msk_creation_height: "u64 option")

datatype address_secret_key =
    BitcoinAddressKey btc_address bitcoin_secret_key_info
  | MoneroAddressKey xmr_address monero_secret_key_info

datatype address = BitcoinAddr btc_address | MoneroAddr xmr_address

section \<open>Task identifiers\<close>

datatype task_id = TaskId (task_no: u32)

text \<open>\<open>TaskId\<close> derives \<open>Ord\<close>: the order of its number.\<close>

instantiation task_id :: linorder
begin

definition less_eq_task_id :: "task_id \<Rightarrow> task_id \<Rightarrow> bool" where
  "less_eq_task_id a b \<longleftrightarrow> task_no a \<le> task_no b"

definition less_task_id :: "task_id \<Rightarrow> task_id \<Rightarrow> bool" where
  "less_task_id a b \<longleftrightarrow> task_no a < task_no b"

instance
  by standard (auto simp: less_eq_task_id_def less_task_id_def task_id.expand)

end

section \<open>Tasks\<close>

datatype btc_address_addendum = BtcAddressAddendum (baa_from_height: u64) (baa_address: btc_address)

datatype xmr_address_addendum =
  XmrAddressAddendum (xaa_spend_key: xmr_pubkey) (xaa_view_key: xmr_privkey) (xaa_from_height: u64)

datatype address_addendum =
    MoneroAddendum xmr_address_addendum
  | BitcoinAddendum btc_address_addendum

datatype sweep_monero_address =
  SweepMoneroAddress (sma_source_spend_key: xmr_privkey) (sma_source_view_key: xmr_privkey)
    (sma_destination: xmr_address) (sma_minimum_balance: u64) (sma_from_height: "u64 option")

datatype sweep_bitcoin_address =
  SweepBitcoinAddress (sba_source_secret_key: btc_privkey) (sba_source_address: btc_address)
    (sba_destination: btc_address)

datatype sweep_address_addendum =
    SweepMonero sweep_monero_address
  | SweepBitcoin sweep_bitcoin_address

datatype sweep_address =
  SweepAddress (sa_retry: bool) (sa_id: task_id) (sa_lifetime: u64) (sa_addendum: sweep_address_addendum)

datatype task_target = TargetTask task_id | AllTasks

datatype boolean = BTrue | BFalse

fun bool_from :: "boolean \<Rightarrow> bool" where
  "bool_from BTrue = True"
| "bool_from BFalse = False"

datatype abort = Abort (ab_target: task_target) (ab_respond: boolean)

datatype watch_height = WatchHeight (wh_id: task_id) (wh_lifetime: u64)

datatype tx_filter = Incoming | Outgoing | AllTxs

datatype watch_address =
  WatchAddress (wa_id: task_id) (wa_lifetime: u64) (wa_addendum: address_addendum)
    (wa_include_tx: boolean) (wa_filter: tx_filter)

datatype watch_transaction =
  WatchTransaction (wt_id: task_id) (wt_lifetime: u64) (wt_hash: bytes) (wt_confirmation_bound: u32)

datatype broadcast_transaction =
  BroadcastTransaction (bt_id: task_id) (bt_tx: bytes) (bt_after_height: "u64 option")

datatype get_tx = GetTx (gt_id: task_id) (gt_hash: bytes)

datatype watch_estimate_fee = WatchEstimateFee (we_id: task_id) (we_lifetime: u64)

datatype health_check = HealthCheck (hc_id: task_id)

datatype get_address_balance =
  GetAddressBalance (ga_id: task_id) (ga_address_secret_key: address_secret_key)

datatype task =
    AbortTask abort
  | WatchHeightTask watch_height
  | WatchAddressTask watch_address
  | WatchTransactionTask watch_transaction
  | BroadcastTransactionTask broadcast_transaction
  | SweepAddressTask sweep_address
  | GetTxTask get_tx
  | GetAddressBalanceTask get_address_balance
  | WatchEstimateFeeTask watch_estimate_fee
  | HealthCheckTask health_check
  | TerminateTask

section \<open>Events\<close>

datatype task_aborted = TaskAborted (ta_ids: "task_id list") (ta_error: "fmt option")

datatype height_changed = HeightChanged (hch_id: task_id) (hch_block: bytes) (hch_height: u64)

datatype address_transaction =
  AddressTransaction (at_id: task_id) (at_hash: bytes) (at_amount: u64) (at_block: bytes)
    (at_tx: "bytes list") (at_incoming: bool)

datatype transaction_confirmations =
  TransactionConfirmations (tc_id: task_id) (tc_block: bytes) (tc_confirmations: "u32 option")
    (tc_tx: "bytes list")

datatype transaction_broadcasted =
  TransactionBroadcasted (tb_id: task_id) (tb_tx: bytes) (tb_error: "string option")

datatype sweep_success = SweepSuccess (ss_id: task_id) (ss_txids: "bytes list")

datatype transaction_retrieved = TransactionRetrieved (tr_id: task_id) (tr_tx: "btc_tx option")

datatype fee_estimations =
  BitcoinFeeEstimation (high_priority_sats_per_kvbyte: u64) (low_priority_sats_per_kvbyte: u64)

datatype fee_estimation = FeeEstimation (fe_id: task_id) (fe_fee_estimations: fee_estimations)

datatype health =
    Healthy
  | FaultyElectrum string
  | FaultyMoneroDaemon string
  | FaultyMoneroRpcWallet string
  | ConfigUnavailable fmt

datatype health_result = HealthResult (hr_id: task_id) (hr_health: health)

datatype address_balance =
  AddressBalance (abal_id: task_id) (abal_address: address) (abal_balance: u64) (abal_err: "string option")

datatype event =
    HeightChangedEv height_changed
  | AddressTransactionEv address_transaction
  | TransactionConfirmationsEv transaction_confirmations
  | TransactionBroadcastedEv transaction_broadcasted
  | SweepSuccessEv sweep_success
  | TaskAbortedEv task_aborted
  | TransactionRetrievedEv transaction_retrieved
  | FeeEstimationEv fee_estimation
  | EmptyEv task_id
  | HealthResultEv health_result
  | AddressBalanceEv address_balance

section \<open>Messages of the syncer bus: bus/sync.rs\<close>

datatype bridge_event = BridgeEvent (be_event: event) (be_source: service_id)

datatype sync_msg =
    TaskMsg task
  | EventMsg event
  | BridgeEventMsg bridge_event

section \<open>Chunked transactions\<close>

text \<open>
  Strict encoding limits a collection to fewer than \<open>2^16\<close> items, so a transaction travels as
  chunks (\<open>chunks(STRICT_ENCODE_MAX_ITEMS)\<close>) that the receiver flattens.
\<close>

definition STRICT_ENCODE_MAX_ITEMS :: u16 where
  "STRICT_ENCODE_MAX_ITEMS = 65535 - 1"

fun slice_chunks :: "nat \<Rightarrow> 'a list \<Rightarrow> 'a list list" where
  "slice_chunks n [] = []"
| "slice_chunks n (x # xs) = (x # take (n - 1) xs) # slice_chunks n (drop (n - 1) xs)"

definition chunk_tx :: "bytes \<Rightarrow> bytes list" where
  "chunk_tx tx = slice_chunks (unat STRICT_ENCODE_MAX_ITEMS) tx"

lemma concat_slice_chunks [simp]: "concat (slice_chunks n xs) = xs"
  by (induction n xs rule: slice_chunks.induct) simp_all

lemma slice_chunks_length: "0 < n \<Longrightarrow> c \<in> set (slice_chunks n xs) \<Longrightarrow> length c \<le> n"
  by (induction n xs rule: slice_chunks.induct) auto

lemma slice_chunks_ne: "c \<in> set (slice_chunks n xs) \<Longrightarrow> c \<noteq> []"
  by (induction n xs rule: slice_chunks.induct) auto

end
