(* ===== verification/SwapTypes.thy ===== *)
theory SwapTypes
  imports TemporalSafety SyncerTypes
begin

text \<open>
  The data of a swap: the deal and the protocol messages of \<open>farcaster_core\<close> (their fields as far
  as the sources read them, the rest as bytes), the peer messages of \<open>bus/p2p.rs\<close>, the wallet of
  \<open>swapd/wallet.rs\<close>, the states of \<open>swapd/swap_state.rs\<close>, the state report of
  \<open>swapd/state_report.rs\<close>, and the control messages of \<open>bus/ctl.rs\<close>.
\<close>

section \<open>farcaster-core data the sources read\<close>

type_synonym node_id = bytes
type_synonym key_manager = bytes
type_synonym alice_role = bytes
type_synonym arbitrating_parameters = bytes
type_synonym core_arb_txs = bytes
type_synonym funding_tx = bytes
type_synonym dleq_proof = bytes
type_synonym encrypted_signature = bytes
type_synonym shared_key_id = u16

datatype (plugins only: code size) bob_role = BobRole (refund_address: btc_address) (bob_data: bytes)

datatype (plugins only: code size) deal_parameters =
  DealParameters (dp_arbitrating_blockchain: blockchain) (dp_accordant_blockchain: blockchain)
    (dp_network: network) (dp_arbitrating_amount: u64) (dp_accordant_amount: u64)
    (dp_cancel_timelock: u32) (dp_punish_timelock: u32) (dp_maker_role: swap_role) (dp_rest: bytes)

datatype (plugins only: code size) deal =
  Deal (deal_params: deal_parameters) (deal_node_id: node_id) (deal_peer_address: string)

record parameters =
  p_buy :: btc_pubkey
  p_cancel :: btc_pubkey
  p_refund :: btc_pubkey
  p_punish :: "btc_pubkey option"
  p_adaptor :: btc_pubkey
  p_spend :: xmr_pubkey
  p_accordant_shared_keys :: "(shared_key_id \<times> xmr_privkey) list"
  p_proof :: "dleq_proof option"
  p_rest :: bytes

datatype (plugins only: code size) commit_parameters = CommitParameters (cp_swap_id: swap_id) (cp_commitments: bytes)
datatype (plugins only: code size) reveal_parameters = RevealParameters (rp_swap_id: swap_id) (rp_parameters: bytes)
datatype (plugins only: code size) reveal_proof = RevealProof (rpf_swap_id: swap_id) (rpf_proof: dleq_proof)

datatype (plugins only: code size) core_arbitrating_setup =
  CoreArbitratingSetup (cas_swap_id: swap_id) (cas_lock: psbt) (cas_cancel: psbt) (cas_refund: psbt)
    (cas_cancel_sig: signature)

datatype (plugins only: code size) refund_procedure_signatures =
  RefundProcedureSignatures (rps_swap_id: swap_id) (rps_cancel_sig: signature)
    (rps_refund_adaptor_sig: encrypted_signature)

datatype (plugins only: code size) buy_procedure_signature =
  BuyProcedureSignature (bps_swap_id: swap_id) (bps_buy: psbt) (bps_buy_adaptor_sig: encrypted_signature)

datatype (plugins only: code size) abort_msg = AbortMsg (am_swap_id: swap_id) (am_error_body: "string option")

section \<open>Peer messages: bus/p2p.rs\<close>

datatype (plugins only: code size) reveal =
    RevealAlice reveal_parameters reveal_proof
  | RevealBob reveal_parameters reveal_proof

fun reveal_swap_id :: "reveal \<Rightarrow> swap_id" where
  "reveal_swap_id (RevealAlice ps _) = rp_swap_id ps"
| "reveal_swap_id (RevealBob ps _) = rp_swap_id ps"

fun validate_ids :: "reveal \<Rightarrow> bool" where
  "validate_ids (RevealAlice ps proof) = (rp_swap_id ps = rpf_swap_id proof)"
| "validate_ids (RevealBob ps proof) = (rp_swap_id ps = rpf_swap_id proof)"

datatype (plugins only: code size) commit =
    AliceCommit commit_parameters
  | BobCommit commit_parameters

fun commit_swap_id :: "commit \<Rightarrow> swap_id" where
  "commit_swap_id (AliceCommit c) = cp_swap_id c"
| "commit_swap_id (BobCommit c) = cp_swap_id c"

datatype (plugins only: code size) taker_commit = TakerCommit (tkc_commit: commit) (tkc_deal: deal)

definition taker_commit_swap_id :: "taker_commit \<Rightarrow> swap_id" where
  "taker_commit_swap_id c = commit_swap_id (tkc_commit c)"

datatype (plugins only: code size) receipt = Receipt (rc_swap_id: swap_id) (rc_msg_type: u16)

datatype (plugins only: code size) peer_msg =
    MakerCommitMsg commit
  | TakerCommitMsg taker_commit
  | DealNotFound swap_id
  | RevealMsg reveal
  | RefundProcedureSignaturesMsg refund_procedure_signatures
  | CoreArbitratingSetupMsg core_arbitrating_setup
  | BuyProcedureSignatureMsg buy_procedure_signature
  | Ping u16
  | Pong bytes
  | Identity node_id
  | AbortPeer abort_msg
  | PingPeer
  | PeerReceiverRuntimeShutdown
  | MsgReceipt receipt

text \<open>\<open>PeerMsg::swap_id\<close>, which panics on the messages that belong to no swap.\<close>

fun peer_msg_swap_id :: "peer_msg \<Rightarrow> ('e, swap_id) result" where
  "peer_msg_swap_id (MakerCommitMsg c) = Ok (commit_swap_id c)"
| "peer_msg_swap_id (TakerCommitMsg c) = Ok (taker_commit_swap_id c)"
| "peer_msg_swap_id (DealNotFound i) = Ok i"
| "peer_msg_swap_id (RevealMsg r) = Ok (reveal_swap_id r)"
| "peer_msg_swap_id (RefundProcedureSignaturesMsg m) = Ok (rps_swap_id m)"
| "peer_msg_swap_id (AbortPeer m) = Ok (am_swap_id m)"
| "peer_msg_swap_id (CoreArbitratingSetupMsg m) = Ok (cas_swap_id m)"
| "peer_msg_swap_id (BuyProcedureSignatureMsg m) = Ok (bps_swap_id m)"
| "peer_msg_swap_id (MsgReceipt m) = Ok (rc_swap_id m)"
| "peer_msg_swap_id _ = Panic ''Ping, Pong, PingPeer, PeerdShutdown and Identity do not contain swapid''"

fun on_receiver_whitelist :: "peer_msg \<Rightarrow> bool" where
  "on_receiver_whitelist (MakerCommitMsg _) = True"
| "on_receiver_whitelist (TakerCommitMsg _) = True"
| "on_receiver_whitelist (RevealMsg _) = True"
| "on_receiver_whitelist (RefundProcedureSignaturesMsg _) = True"
| "on_receiver_whitelist (CoreArbitratingSetupMsg _) = True"
| "on_receiver_whitelist (BuyProcedureSignatureMsg _) = True"
| "on_receiver_whitelist (Ping _) = True"
| "on_receiver_whitelist (Pong _) = True"
| "on_receiver_whitelist (MsgReceipt _) = True"
| "on_receiver_whitelist (DealNotFound _) = True"
| "on_receiver_whitelist _ = False"

fun is_protocol :: "peer_msg \<Rightarrow> bool" where
  "is_protocol (MakerCommitMsg _) = True"
| "is_protocol (TakerCommitMsg _) = True"
| "is_protocol (RevealMsg _) = True"
| "is_protocol (RefundProcedureSignaturesMsg _) = True"
| "is_protocol (CoreArbitratingSetupMsg _) = True"
| "is_protocol (BuyProcedureSignatureMsg _) = True"
| "is_protocol (DealNotFound _) = True"
| "is_protocol _ = False"

text \<open>The messages of the protocol belong to a swap and pass the receiver's filter.\<close>

lemma is_protocol_swap_id: "is_protocol m \<Longrightarrow> is_ok (peer_msg_swap_id m) \<and> on_receiver_whitelist m"
  by (cases m) simp_all

section \<open>The wallet: swapd/wallet.rs\<close>

datatype (plugins only: code size) params = AliceParams parameters | BobParams parameters

record alice_state =
  as_alice :: alice_role
  as_local_trade_role :: trade_role
  as_local_params :: parameters
  as_key_manager :: key_manager
  as_deal :: deal
  as_remote_commit :: "commit_parameters option"
  as_remote_params :: "parameters option"
  as_remote_proof :: "dleq_proof option"
  as_core_arb_setup :: "core_arbitrating_setup option"
  as_alice_cancel_signature :: "signature option"
  as_adaptor_refund :: "encrypted_signature option"
  as_target_bitcoin_address :: btc_address
  as_target_monero_address :: xmr_address

record bob_state =
  bs_bob :: bob_role
  bs_local_trade_role :: trade_role
  bs_local_params :: parameters
  bs_key_manager :: key_manager
  bs_deal :: deal
  bs_funding_tx :: funding_tx
  bs_remote_commit :: "commit_parameters option"
  bs_remote_params :: "parameters option"
  bs_remote_proof :: "dleq_proof option"
  bs_core_arb_setup :: "core_arbitrating_setup option"
  bs_adaptor_buy :: "buy_procedure_signature option"
  bs_target_bitcoin_address :: btc_address
  bs_target_monero_address :: xmr_address

datatype (plugins only: code size) wallet = AliceWallet alice_state | BobWallet bob_state

section \<open>The states of a swap: swapd/swap_state.rs\<close>

datatype (plugins only: code size) monero_funding_info =
  MoneroFundingInfo (mfi_swap_id: swap_id) (mfi_amount: u64) (mfi_address: xmr_address)

datatype (plugins only: code size) bitcoin_funding_info =
  BitcoinFundingInfo (bfi_swap_id: swap_id) (bfi_address: btc_address) (bfi_amount: u64)

datatype (plugins only: code size) funding_info = BitcoinFunding bitcoin_funding_info | MoneroFunding monero_funding_info

text \<open>The payload of a state lists the fields of its structure in their order.\<close>

datatype (plugins only: code size) swap_state_machine =
    StartTaker swap_role
  | StartMaker swap_role
  | BobInitMaker params commit wallet
  | AliceInitMaker params commit wallet
  | BobInitTaker params wallet
  | AliceInitTaker params wallet
  | BobTakerMakerCommit params commit wallet
  | AliceTakerMakerCommit params commit wallet
  | BobReveal params params wallet
  | BobFeeEstimated params u64 params wallet
  | BobFunded params params wallet
  | BobRefundProcedureSignatures params params wallet buy_procedure_signature
  | BobAccordantLock params params wallet buy_procedure_signature
  | BobAccordantLockFinal params params wallet
  | BobBuyFinal sweep_address
  | BobBuySweeping
  | BobCanceled
  | BobCancelFinal
  | BobAbortAwaitingBitcoinSweep
  | AliceReveal params params wallet
  | AliceCoreArbitratingSetup params params wallet
  | AliceArbitratingLockFinal wallet monero_funding_info u64
  | AliceAccordantLock wallet
  | AliceBuyProcedureSignature
  | AliceCanceled wallet
  | AliceRefund sweep_address
  | AliceRefundSweeping
  | SwapEnd outcome

fun swap_role_text :: "swap_role \<Rightarrow> string" where
  "swap_role_text Alice = ''Alice''"
| "swap_role_text Bob = ''Bob''"

fun outcome_text :: "outcome \<Rightarrow> string" where
  "outcome_text SuccessSwap = ''Success Swap''"
| "outcome_text FailureRefund = ''Failure Refund''"
| "outcome_text FailurePunish = ''Failure Punish''"
| "outcome_text FailureAbort = ''Failure Abort''"

text \<open>\<open>Display\<close> of a state.\<close>

fun swap_state_text :: "swap_state_machine \<Rightarrow> string" where
  "swap_state_text (StartTaker r) = ''Start '' @ swap_role_text r @ '' Taker''"
| "swap_state_text (StartMaker r) = ''Start '' @ swap_role_text r @ '' Maker''"
| "swap_state_text (BobInitMaker _ _ _) = ''Bob Init Maker''"
| "swap_state_text (AliceInitMaker _ _ _) = ''Alice Init Maker''"
| "swap_state_text (BobInitTaker _ _) = ''Bob Init Taker''"
| "swap_state_text (AliceInitTaker _ _) = ''Alice Init Taker''"
| "swap_state_text (BobTakerMakerCommit _ _ _) = ''Bob Taker Maker Commit''"
| "swap_state_text (AliceTakerMakerCommit _ _ _) = ''Alice Taker Maker Commit''"
| "swap_state_text (BobReveal _ _ _) = ''Bob Reveal''"
| "swap_state_text (BobFeeEstimated _ _ _ _) = ''Bob Fee Estimated''"
| "swap_state_text (BobFunded _ _ _) = ''Bob Funded''"
| "swap_state_text (BobRefundProcedureSignatures _ _ _ _) = ''Bob Refund Procedure Signatures''"
| "swap_state_text (BobAccordantLock _ _ _ _) = ''Bob Accordant Lock''"
| "swap_state_text (BobAccordantLockFinal _ _ _) = ''Bob Accordant Lock Final''"
| "swap_state_text (BobBuyFinal _) = ''Bob Buy Final''"
| "swap_state_text BobBuySweeping = ''Bob Buy Sweeping''"
| "swap_state_text BobCanceled = ''Bob Cancel''"
| "swap_state_text BobCancelFinal = ''Bob Cancel Final''"
| "swap_state_text BobAbortAwaitingBitcoinSweep = ''Bob Abort Awaiting Bitcoin Sweep''"
| "swap_state_text (AliceReveal _ _ _) = ''Alice Reveal''"
| "swap_state_text (AliceCoreArbitratingSetup _ _ _) = ''Alice Core Arbitrating Setup''"
| "swap_state_text (AliceArbitratingLockFinal _ _ _) = ''Alice Abitrating Lock Final''"
| "swap_state_text (AliceAccordantLock _) = ''Alice Accordant Lock''"
| "swap_state_text AliceBuyProcedureSignature = ''Alice Buy Procedure Signature''"
| "swap_state_text (AliceCanceled _) = ''Alice Cancel''"
| "swap_state_text (AliceRefund _) = ''Alice Refund''"
| "swap_state_text AliceRefundSweeping = ''Alice Refund Sweeping''"
| "swap_state_text (SwapEnd o') = ''Swap End: '' @ outcome_text o'"

section \<open>State reports and checkpoints: state_report.rs, runtime.rs\<close>

record state_report =
  sr_state :: string
  sr_arb_block_height :: u64
  sr_acc_block_height :: u64
  sr_arb_locked :: bool
  sr_acc_locked :: bool
  sr_canceled :: bool
  sr_buy_seen :: bool
  sr_refund_seen :: bool
  sr_overfunded :: bool
  sr_arb_lock_confirmations :: "u32 option"
  sr_acc_lock_confirmations :: "u32 option"
  sr_cancel_confirmations :: "u32 option"
  sr_blocks_until_cancel_possible :: "int option"
  sr_blocks_until_punish_possible :: "int option"
  sr_blocks_until_safe_buy :: "u32 option"
  sr_blocks_until_safe_monero_buy_sweep :: "u32 option"

datatype (plugins only: code size) state_transition = StateTransition (old_state: state_report) (new_state: state_report)

datatype (plugins only: code size) progress =
    ProgressMessage fmt
  | StateUpdate state_report
  | StateTransitionProgress state_transition

record checkpoint_swapd =
  ck_state :: swap_state_machine
  ck_pending_msg :: "peer_msg option"
  ck_enquirer :: "service_id option"
  ck_xmr_addr_addendum :: "xmr_address_addendum option"
  ck_temporal_safety :: temporal_safety
  ck_txs :: "(tx_label \<times> btc_tx) list"
  ck_txids :: "(tx_label \<times> txid) list"
  ck_pending_broadcasts :: "btc_tx list"
  ck_local_trade_role :: trade_role
  ck_connected_counterparty_node_id :: "node_id option"
  ck_deal :: deal
  ck_monero_address_creation_height :: "u64 option"

datatype (plugins only: code size) checkpoint = Checkpoint (ckp_swap_id: swap_id) (ckp_state: checkpoint_swapd)

end
