(* ===== verification/Core.thy ===== *)
theory Core
  imports SwapTypes
begin

text \<open>
  The crates the swap rests on and this repository does not contain: the cryptography and the
  transactions of \<open>farcaster_core\<close>, \<open>bitcoin\<close> and \<open>monero\<close>. Each function the sources call is a
  field of one of these records; every definition that needs them takes them as an argument. A
  fallible function returns the text of its error on the left. The cache of derived keys inside a
  \<open>KeyManager\<close> is not visible to the sources, so its methods do not return a new one.
\<close>

datatype arbitrating_key_id = LockKey | BuyKey

record deal_functions =
  role_other :: "swap_role \<Rightarrow> swap_role"
  swap_role_of :: "deal \<Rightarrow> trade_role \<Rightarrow> swap_role"
  to_arbitrating_params :: "deal \<Rightarrow> arbitrating_parameters"

record key_functions =
  get_pubkey :: "key_manager \<Rightarrow> arbitrating_key_id \<Rightarrow> string + btc_pubkey"
  derive_bitcoin_key :: "key_manager \<Rightarrow> arbitrating_key_id \<Rightarrow> string + btc_privkey"
  derive_monero_spend_key :: "key_manager \<Rightarrow> string + xmr_privkey"
  verify_proof :: "key_manager \<Rightarrow> xmr_pubkey \<Rightarrow> btc_pubkey \<Rightarrow> dleq_proof \<Rightarrow> string + unit"

record monero_functions =
  shared_view_key_id :: shared_key_id
  xmr_key_from_slice :: "bytes \<Rightarrow> xmr_privkey option"
  xmr_add_priv :: "xmr_privkey \<Rightarrow> xmr_privkey \<Rightarrow> xmr_privkey"
  xmr_add_pub :: "xmr_pubkey \<Rightarrow> xmr_pubkey \<Rightarrow> xmr_pubkey"
  address_from_keypair :: "network \<Rightarrow> xmr_privkey \<Rightarrow> xmr_privkey \<Rightarrow> xmr_address"
  address_from_viewpair :: "network \<Rightarrow> xmr_pubkey \<Rightarrow> xmr_privkey \<Rightarrow> xmr_address"

record commit_functions =
  commit_alice :: "parameters \<Rightarrow> swap_id \<Rightarrow> commit_parameters"
  commit_bob :: "parameters \<Rightarrow> swap_id \<Rightarrow> commit_parameters"
  verify_commit_alice :: "commit_parameters \<Rightarrow> reveal_parameters \<Rightarrow> string + unit"
  verify_commit_bob :: "commit_parameters \<Rightarrow> reveal_parameters \<Rightarrow> string + unit"
  reveal_alice :: "parameters \<Rightarrow> swap_id \<Rightarrow> reveal_parameters"
  reveal_bob :: "parameters \<Rightarrow> swap_id \<Rightarrow> reveal_parameters"
  into_parameters_alice :: "reveal_parameters \<Rightarrow> parameters"
  into_parameters_bob :: "reveal_parameters \<Rightarrow> parameters"

record tx_functions =
  txid_of :: "btc_tx \<Rightarrow> txid"
  extract_tx :: "psbt \<Rightarrow> btc_tx"
  deserialize_tx :: "bytes \<Rightarrow> string + btc_tx"
  consensus_decode :: "bytes \<Rightarrow> btc_tx option"
  add_witness :: "tx_label \<Rightarrow> psbt \<Rightarrow> btc_pubkey \<Rightarrow> signature \<Rightarrow> string + psbt"
  finalize_and_extract :: "tx_label \<Rightarrow> psbt \<Rightarrow> string + btc_tx"
  into_arbitrating_setup :: "core_arb_txs \<Rightarrow> swap_id \<Rightarrow> signature \<Rightarrow> core_arbitrating_setup"
  into_arbitrating_tx :: "core_arbitrating_setup \<Rightarrow> core_arb_txs"

record funding_functions =
  funding_initialize :: "btc_pubkey \<Rightarrow> network \<Rightarrow> string + funding_tx"
  funding_get_address :: "funding_tx \<Rightarrow> string + btc_address"
  funding_was_seen :: "funding_tx \<Rightarrow> bool"
  funding_apply :: "funding_tx \<Rightarrow> btc_tx \<Rightarrow> string + funding_tx"

record alice_functions =
  alice_new :: "btc_address \<Rightarrow> alice_role"
  alice_generate_parameters :: "alice_role \<Rightarrow> key_manager \<Rightarrow> deal \<Rightarrow> string + parameters"
  alice_recover_accordant_key ::
    "alice_role \<Rightarrow> key_manager \<Rightarrow> parameters \<Rightarrow> encrypted_signature \<Rightarrow> btc_tx \<Rightarrow> bytes"
  sign_adaptor_refund :: "alice_role \<Rightarrow> key_manager \<Rightarrow> parameters \<Rightarrow> parameters \<Rightarrow> core_arb_txs
    \<Rightarrow> arbitrating_parameters \<Rightarrow> string + encrypted_signature"
  alice_cosign_cancel :: "alice_role \<Rightarrow> key_manager \<Rightarrow> parameters \<Rightarrow> parameters \<Rightarrow> core_arb_txs
    \<Rightarrow> arbitrating_parameters \<Rightarrow> string + signature"
  fully_sign_punish :: "alice_role \<Rightarrow> key_manager \<Rightarrow> parameters \<Rightarrow> parameters \<Rightarrow> core_arb_txs
    \<Rightarrow> arbitrating_parameters \<Rightarrow> string + psbt \<times> signature"
  validate_adaptor_buy :: "alice_role \<Rightarrow> key_manager \<Rightarrow> parameters \<Rightarrow> parameters \<Rightarrow> core_arb_txs
    \<Rightarrow> arbitrating_parameters \<Rightarrow> buy_procedure_signature \<Rightarrow> string + unit"
  fully_sign_buy :: "alice_role \<Rightarrow> key_manager \<Rightarrow> parameters \<Rightarrow> parameters \<Rightarrow> core_arb_txs
    \<Rightarrow> arbitrating_parameters \<Rightarrow> buy_procedure_signature \<Rightarrow> string + signature \<times> signature"

record bob_functions =
  bob_new :: "btc_address \<Rightarrow> bob_role"
  bob_generate_parameters :: "bob_role \<Rightarrow> key_manager \<Rightarrow> deal \<Rightarrow> string + parameters"
  bob_recover_accordant_key ::
    "bob_role \<Rightarrow> key_manager \<Rightarrow> parameters \<Rightarrow> encrypted_signature \<Rightarrow> btc_tx \<Rightarrow> bytes"
  core_arbitrating_transactions :: "bob_role \<Rightarrow> parameters \<Rightarrow> parameters \<Rightarrow> funding_tx
    \<Rightarrow> arbitrating_parameters \<Rightarrow> string + core_arb_txs"
  bob_cosign_cancel :: "bob_role \<Rightarrow> key_manager \<Rightarrow> core_arb_txs \<Rightarrow> string + signature"
  validate_adaptor_refund :: "bob_role \<Rightarrow> key_manager \<Rightarrow> parameters \<Rightarrow> parameters \<Rightarrow> core_arb_txs
    \<Rightarrow> encrypted_signature \<Rightarrow> string + unit"
  sign_adaptor_buy :: "bob_role \<Rightarrow> swap_id \<Rightarrow> key_manager \<Rightarrow> parameters \<Rightarrow> parameters \<Rightarrow> core_arb_txs
    \<Rightarrow> arbitrating_parameters \<Rightarrow> string + buy_procedure_signature"
  sign_arbitrating_lock :: "bob_role \<Rightarrow> key_manager \<Rightarrow> core_arb_txs \<Rightarrow> string + signature"
  fully_sign_refund :: "bob_role \<Rightarrow> key_manager \<Rightarrow> core_arb_txs \<Rightarrow> encrypted_signature
    \<Rightarrow> string + signature \<times> signature"

record core =
  c_deal :: deal_functions
  c_keys :: key_functions
  c_xmr :: monero_functions
  c_commit :: commit_functions
  c_tx :: tx_functions
  c_funding :: funding_functions
  c_alice :: alice_functions
  c_bob :: bob_functions

text \<open>The \<open>?\<close> on a call of \<open>farcaster_core\<close>.\<close>

fun core_try :: "string + 'a \<Rightarrow> (error, 'a) result" where
  "core_try (Inr x) = Ok x"
| "core_try (Inl e) = Err (from_core_error e)"

fun sum_ok :: "'e + 'a \<Rightarrow> 'a option" where
  "sum_ok (Inr x) = Some x"
| "sum_ok (Inl e) = None"

lemma core_try_Ok [simp]: "core_try r = Ok x \<longleftrightarrow> r = Inr x"
  by (cases r) simp_all

end
