(* ===== verification/Messages.thy ===== *)
theory Messages
  imports SwapTypes
begin

text \<open>
  The messages of the service buses: control messages (\<open>bus/ctl.rs\<close>), information messages
  (\<open>bus/info.rs\<close>), bridge messages (\<open>bus/bridge.rs\<close>) and the type that wraps them all
  (\<open>bus/mod.rs\<close>), with the shared structures of \<open>bus/types.rs\<close> they carry.
\<close>

section \<open>Shared structures: bus/types.rs\<close>

type_synonym option_details = "fmt option"

datatype (plugins only: code size) checkpoint_entry =
  CheckpointEntry (ce_swap_id: swap_id) (ce_deal: deal) (ce_trade_role: trade_role)
    (ce_expected_counterparty_node_id: "node_id option")

datatype (plugins only: code size) deal_status_pair =
  DealStatusPair (dsp_deal: deal) (dsp_status: deal_status)

section \<open>Control messages: bus/ctl.rs\<close>

datatype (plugins only: code size) proto_deal =
  ProtoDeal (pd_deal_parameters: deal_parameters) (pd_public_addr: string)
    (pd_arbitrating_addr: btc_address) (pd_accordant_addr: xmr_address)

datatype (plugins only: code size) pub_deal =
  PubDeal (pub_deal: deal) (pub_bitcoin_address: btc_address) (pub_monero_address: xmr_address)

type_synonym token = string

text \<open>What farcasterd keeps of a swap's reports.\<close>

datatype (plugins only: code size) progress_stack =
    StackedProgress progress
  | StackedSuccess option_details
  | StackedFailure failure

datatype (plugins only: code size) swap_keys = SwapKeys (sk_key_manager: key_manager) (sk_deal: deal)

datatype (plugins only: code size) init_taker_swap =
  InitTakerSwap (its_peerd: service_id) (its_report_to: service_id) (its_swap_id: swap_id)
    (its_key_manager: key_manager) (its_target_bitcoin_address: btc_address)
    (its_target_monero_address: xmr_address)

datatype (plugins only: code size) init_maker_swap =
  InitMakerSwap (ims_peerd: service_id) (ims_report_to: service_id) (ims_swap_id: swap_id)
    (ims_key_manager: key_manager) (ims_target_bitcoin_address: btc_address)
    (ims_target_monero_address: xmr_address) (ims_commit: commit)

datatype (plugins only: code size) taker_committed =
  TakerCommitted (tcd_swap_id: swap_id) (tcd_arbitrating_addr: btc_address)
    (tcd_accordant_addr: xmr_address) (tcd_taker_commit: taker_commit)

datatype (plugins only: code size) tx =
    LockTx btc_tx
  | BuyTx btc_tx
  | FundingTx btc_tx
  | CancelTx btc_tx
  | RefundTx btc_tx
  | PunishTx btc_tx

datatype (plugins only: code size) ctl_msg =
    Hello
  | TerminateCtl
  | SuccessCtl option_details
  | FailureCtl failure
  | ProgressCtl progress
  | CleanDanglingDeals
  | MakeSwap init_maker_swap
  | TakeSwap init_taker_swap
  | CreateSwapKeys deal token
  | SwapKeysCtl swap_keys
  | ParamsCtl params
  | PeerdUnreachable service_id
  | PeerdReconnected service_id
  | PeerdTerminated
  | Disconnected
  | Reconnected
  | Connect swap_id
  | ConnectSuccess
  | RestoreCheckpoint checkpoint_entry
  | MakeDeal proto_deal
  | TakeDeal pub_deal
  | TakerCommittedCtl taker_committed
  | GetKeys token
  | RevokeDeal deal
  | AbortSwap
  | GetSweepBitcoinAddress btc_address
  | SweepAddressCtl sweep_address_addendum
  | SetAddressSecretKey address_secret_key
  | GetBalance address_secret_key
  | FundingUpdated
  | SwapOutcome outcome
  | CheckpointCtl checkpoint
  | RemoveCheckpoint swap_id
  | SetDealStatus deal_status_pair
  | Keys btc_privkey btc_pubkey
  | FundingInfoCtl funding_info
  | BitcoinAddressCtl swap_id btc_address
  | MoneroAddressCtl swap_id xmr_address
  | FundingCompleted blockchain
  | FundingCanceled blockchain
  | FailedPeerMessage peer_msg
  | ConnectFailed
  | HealthCheckCtl blockchain network
  | HealthResultCtl health

section \<open>Information messages: bus/info.rs\<close>

datatype deal_status_selector = SelectOpen | SelectInProgress | SelectEnded | SelectAll
datatype deal_selector = SelectorOpen | SelectorInProgress | SelectorEnded | SelectorAll

fun deal_status_selector_from :: "deal_selector \<Rightarrow> deal_status_selector" where
  "deal_status_selector_from SelectorOpen = SelectOpen"
| "deal_status_selector_from SelectorInProgress = SelectInProgress"
| "deal_status_selector_from SelectorEnded = SelectEnded"
| "deal_status_selector_from SelectorAll = SelectAll"

definition deal_status_selector_from_str :: "string \<Rightarrow> (unit, deal_status_selector) result" where
  "deal_status_selector_from_str input =
     (if input = ''open'' \<or> input = ''Open'' then Ok SelectOpen
      else if input = ''in_progress'' \<or> input = ''inprogress'' then Ok SelectOpen
      else if input = ''ended'' \<or> input = ''Ended'' then Ok SelectEnded
      else Err ())"

text \<open>No text selects the deals in progress.\<close>

lemma in_progress_not_selectable: "deal_status_selector_from_str s \<noteq> Ok SelectInProgress"
  by (simp add: deal_status_selector_from_str_def)

datatype (plugins only: code size) syncerd_task = SyncerdTask (sdt_task: task) (sdt_source: service_id)

datatype (plugins only: code size) progress_event =
    MessageEvent fmt
  | StateUpdateEvent state_report
  | StateTransitionEvent state_transition
  | SuccessEvent option_details
  | FailureEvent failure

datatype (plugins only: code size) deal_info = DealInfo (di_deal: string) (di_details: deal)

datatype (plugins only: code size) swap_info =
  SwapInfo (si_swap_id: swap_id) (si_connection: "node_addr option") (si_connected: bool)
    (si_uptime: nat) (si_since: u64) (si_deal: deal) (si_local_trade_role: trade_role)
    (si_local_swap_role: swap_role) (si_counterparty_node_id: "node_id option") (si_state: state_report)

datatype (plugins only: code size) syncer_info =
  SyncerInfo (syi_syncer: string) (syi_uptime: nat) (syi_since: u64) (syi_tasks: "syncerd_task list")

datatype (plugins only: code size) peer_info =
  PeerInfo (pi_local_id: node_id) (pi_remote_id: "node_id list") (pi_local_socket: "string option")
    (pi_remote_socket: "string list") (pi_uptime: nat) (pi_since: u64) (pi_messages_sent: u64)
    (pi_messages_received: u64) (pi_forked_from_listener: bool) (pi_awaits_pong: bool)

text \<open>\<open>farcasterd/stats.rs\<close>: the counters a node reports.\<close>

record stats =
  st_success :: u64
  st_refund :: u64
  st_punish :: u64
  st_abort :: u64
  st_initialized :: u64
  st_awaiting_funding_btc :: "swap_id hash_set"
  st_awaiting_funding_xmr :: "swap_id hash_set"
  st_funded_xmr :: u64
  st_funded_btc :: u64
  st_funding_canceled_xmr :: u64
  st_funding_canceled_btc :: u64

datatype (plugins only: code size) node_info =
  NodeInfo (ni_listens: "string list") (ni_uptime: nat) (ni_since: u64) (ni_peers: "node_addr list")
    (ni_swaps: "swap_id list") (ni_deals: "deal list") (ni_stats: stats)

datatype (plugins only: code size) info_msg =
    GetInfo
  | ListPeers
  | ListSwaps
  | ListTasks
  | ListDeals deal_status_selector
  | ListListens
  | RetrieveAllCheckpointInfo
  | GetAddressSecretKey address
  | GetAddresses blockchain
  | NeedsFunding blockchain
  | GetCheckpointEntry swap_id
  | ReadProgress swap_id
  | SwapProgress "progress_event list"
  | SubscribeProgress swap_id
  | UnsubscribeProgress swap_id
  | ProgressInfo progress
  | SuccessInfo option_details
  | FailureInfo failure
  | StringInfo fmt
  | MadeDeal fmt deal_info
  | TookDeal u128 fmt
  | SyncerInfoMsg syncer_info
  | NodeInfoMsg node_info
  | PeerInfoMsg peer_info
  | SwapInfoMsg swap_info
  | PeerList "node_addr list"
  | SwapList "swap_id list"
  | TaskList "syncerd_task list"
  | DealList "deal_info list"
  | DealStatusList "deal_status_pair list"
  | ListenList "string list"
  | CheckpointList "checkpoint_entry list"
  | AddressSecretKeyInfo address_secret_key
  | BitcoinAddressList "(btc_address \<times> swap_id option) list"
  | MoneroAddressList "(xmr_address \<times> swap_id option) list"
  | CheckpointEntryInfo checkpoint_entry
  | FundingInfos "funding_info list"
  | AddressBalanceInfo address u64

section \<open>The message of any bus: bus/mod.rs, bus/bridge.rs\<close>

datatype (plugins only: code size) bridge_msg =
    BridgePeer peer_msg service_id
  | BridgeCtl ctl_msg service_id
  | BridgeInfo info_msg service_id
  | BridgeSync sync_msg service_id
  | GrpcServerTerminated

datatype (plugins only: code size) bus_msg =
    P2p peer_msg
  | Ctl ctl_msg
  | Info info_msg
  | Sync sync_msg
  | Bridge bridge_msg

definition bus_msg_from_error :: "error \<Rightarrow> bus_msg" where
  "bus_msg_from_error err = Ctl (FailureCtl (Failure UnknownFailure (error_text err)))"

end
