(* ===== verification/Esb.thy ===== *)
theory Esb
  imports Messages
begin

text \<open>
  What every service shares: the endpoints it sends through (\<open>Endpoints::send_to\<close> of the
  \<open>microservices\<close> crate, which can fail), the event of \<open>event.rs\<close> with its replies, and the
  \<open>Reporter\<close> and \<open>CtlServer\<close> traits of \<open>service.rs\<close>. The outcome of the \<open>n\<close>-th send is given by
  the \<open>link\<close>; the messages that went out are the \<open>outbox\<close>, in order.
\<close>

section \<open>Endpoints\<close>

datatype (plugins only: code size) envelope =
  Envelope (env_bus: service_bus) (env_from: service_id) (env_to: service_id) (env_msg: bus_msg)

record daemon =
  identity :: service_id
  outbox :: "envelope list"
  attempts :: nat
  link :: "nat \<Rightarrow> envelope \<Rightarrow> bool"

definition send_to ::
  "service_bus \<Rightarrow> service_id \<Rightarrow> service_id \<Rightarrow> bus_msg \<Rightarrow> ('x daemon_scheme, error, unit) action" where
  "send_to bus source dest request = (\<lambda>s.
     let e = Envelope bus source dest request
     in if link s (attempts s) e
        then (Ok (), s\<lparr>outbox := outbox s @ [e], attempts := Suc (attempts s)\<rparr>)
        else (Err (EsbErr ''send_to''), s\<lparr>attempts := Suc (attempts s)\<rparr>))"

text \<open>A send from the service itself.\<close>

definition send_from_self ::
  "service_bus \<Rightarrow> service_id \<Rightarrow> bus_msg \<Rightarrow> ('x daemon_scheme, error, unit) action" where
  "send_from_self bus dest request = reads identity (\<lambda>me. send_to bus me dest request)"

lemma wp_send_to [wp_simps]:
  "wp (send_to bus source dest request) Q E s =
     (let e = Envelope bus source dest request
      in if link s (attempts s) e
         then Q () (s\<lparr>outbox := outbox s @ [e], attempts := Suc (attempts s)\<rparr>)
         else E (Err (EsbErr ''send_to'')) (s\<lparr>attempts := Suc (attempts s)\<rparr>))"
  by (simp add: wp_def send_to_def Let_def)

lemma wp_send_from_self [wp_simps]:
  "wp (send_from_self bus dest request) Q E s = wp (send_to bus (identity s) dest request) Q E s"
  by (simp add: send_from_self_def wp_simps)

text \<open>Every send goes through.\<close>

definition reliable :: "'x daemon_scheme \<Rightarrow> bool" where
  "reliable s \<longleftrightarrow> (\<forall>n e. link s n e)"

lemma send_to_reliable:
  "reliable s \<Longrightarrow> send_to bus source dest request s
     = (Ok (), s\<lparr>outbox := outbox s @ [Envelope bus source dest request], attempts := Suc (attempts s)\<rparr>)"
  by (simp add: reliable_def send_to_def)

lemma reliable_frame [simp]:
  "reliable (s\<lparr>outbox := a\<rparr>) = reliable s" "reliable (s\<lparr>attempts := n\<rparr>) = reliable s"
  by (simp_all add: reliable_def)

section \<open>Events: event.rs\<close>

datatype (plugins only: code size) esb_event =
  EsbEvent (ev_service: service_id) (ev_source: service_id) (ev_request: bus_msg)

definition complete_ctl :: "esb_event \<Rightarrow> ctl_msg \<Rightarrow> ('x daemon_scheme, error, unit) action" where
  "complete_ctl ev request = send_to CtlBus (ev_service ev) (ev_source ev) (Ctl request)"

definition complete_client_ctl :: "esb_event \<Rightarrow> ctl_msg \<Rightarrow> ('x daemon_scheme, error, unit) action" where
  "complete_client_ctl ev request =
     (if is_grpcd_client (ev_source ev)
      then send_to CtlBus (ev_source ev) Grpcd (Ctl request)
      else send_to CtlBus (ev_service ev) (ev_source ev) (Ctl request))"

definition complete_info :: "esb_event \<Rightarrow> info_msg \<Rightarrow> ('x daemon_scheme, error, unit) action" where
  "complete_info ev request = send_to InfoBus (ev_service ev) (ev_source ev) (Info request)"

definition complete_client_info :: "esb_event \<Rightarrow> info_msg \<Rightarrow> ('x daemon_scheme, error, unit) action" where
  "complete_client_info ev request =
     (if is_grpcd_client (ev_source ev)
      then send_to InfoBus (ev_source ev) Grpcd (Info request)
      else send_to InfoBus (ev_service ev) (ev_source ev) (Info request))"

definition complete_ctl_service :: "esb_event \<Rightarrow> service_id \<Rightarrow> ctl_msg \<Rightarrow> ('x daemon_scheme, error, unit) action" where
  "complete_ctl_service ev service request = send_to CtlBus (ev_service ev) service (Ctl request)"

definition complete_sync_service :: "esb_event \<Rightarrow> service_id \<Rightarrow> sync_msg \<Rightarrow> ('x daemon_scheme, error, unit) action" where
  "complete_sync_service ev service request = send_to SyncBus (ev_service ev) service (Sync request)"

definition send_ctl_service :: "esb_event \<Rightarrow> service_id \<Rightarrow> ctl_msg \<Rightarrow> ('x daemon_scheme, error, unit) action" where
  "send_ctl_service ev service request = send_to CtlBus (ev_service ev) service (Ctl request)"

definition send_info_service :: "esb_event \<Rightarrow> service_id \<Rightarrow> info_msg \<Rightarrow> ('x daemon_scheme, error, unit) action" where
  "send_info_service ev service request = send_to InfoBus (ev_service ev) service (Info request)"

definition send_sync_service :: "esb_event \<Rightarrow> service_id \<Rightarrow> sync_msg \<Rightarrow> ('x daemon_scheme, error, unit) action" where
  "send_sync_service ev service request = send_to SyncBus (ev_service ev) service (Sync request)"

definition event_send_client_info :: "esb_event \<Rightarrow> service_id \<Rightarrow> info_msg \<Rightarrow> ('x daemon_scheme, error, unit) action" where
  "event_send_client_info ev service request =
     (if is_grpcd_client service
      then send_to InfoBus service Grpcd (Info request)
      else send_to InfoBus (ev_service ev) service (Info request))"

definition event_send_client_ctl :: "esb_event \<Rightarrow> service_id \<Rightarrow> ctl_msg \<Rightarrow> ('x daemon_scheme, error, unit) action" where
  "event_send_client_ctl ev service request =
     (if is_grpcd_client service
      then send_to CtlBus service Grpcd (Ctl request)
      else send_to CtlBus (ev_service ev) service (Ctl request))"

definition send_msg_service :: "esb_event \<Rightarrow> service_id \<Rightarrow> peer_msg \<Rightarrow> ('x daemon_scheme, error, unit) action" where
  "send_msg_service ev service request = send_to MsgBus (ev_service ev) service (P2p request)"

lemmas event_defs = complete_ctl_def complete_client_ctl_def complete_info_def complete_client_info_def
  complete_ctl_service_def complete_sync_service_def send_ctl_service_def send_info_service_def
  send_sync_service_def event_send_client_info_def event_send_client_ctl_def send_msg_service_def

section \<open>Reporter: service.rs\<close>

text \<open>The trait's \<open>report_to\<close> is an argument: where a service of this type reports to.\<close>

definition report_with ::
  "('x daemon_scheme \<Rightarrow> service_id option) \<Rightarrow> ctl_msg \<Rightarrow> ('x daemon_scheme, error, unit) action" where
  "report_with report_to request = reads report_to (\<lambda>d. case d of
       Some dest \<Rightarrow> send_from_self CtlBus dest (Ctl request)
     | None \<Rightarrow> skip)"

definition report_success_message ::
  "('x daemon_scheme \<Rightarrow> service_id option) \<Rightarrow> fmt option \<Rightarrow> ('x daemon_scheme, error, unit) action" where
  "report_success_message report_to msg = report_with report_to (SuccessCtl msg)"

definition report_progress ::
  "('x daemon_scheme \<Rightarrow> service_id option) \<Rightarrow> progress \<Rightarrow> ('x daemon_scheme, error, unit) action" where
  "report_progress report_to progress = report_with report_to (ProgressCtl progress)"

definition report_progress_message ::
  "('x daemon_scheme \<Rightarrow> service_id option) \<Rightarrow> fmt \<Rightarrow> ('x daemon_scheme, error, unit) action" where
  "report_progress_message report_to msg = report_with report_to (ProgressCtl (ProgressMessage msg))"

definition report_failure ::
  "('x daemon_scheme \<Rightarrow> service_id option) \<Rightarrow> failure \<Rightarrow> ('x daemon_scheme, error, error) action" where
  "report_failure report_to failure =
     bind (attempt (report_with report_to (FailureCtl failure)))
       (\<lambda>_. ret (Terminate (failure_text failure)))"

section \<open>CtlServer: service.rs\<close>

definition send_ctl :: "service_id option \<Rightarrow> bus_msg \<Rightarrow> ('x daemon_scheme, error, unit) action" where
  "send_ctl dest request = (case dest of
       Some d \<Rightarrow> send_from_self CtlBus d request
     | None \<Rightarrow> skip)"

definition send_client_ctl :: "service_id \<Rightarrow> ctl_msg \<Rightarrow> ('x daemon_scheme, error, unit) action" where
  "send_client_ctl dest request =
     (if is_grpcd_client dest then send_to CtlBus dest Grpcd (Ctl request)
      else send_from_self CtlBus dest (Ctl request))"

definition send_client_info :: "service_id \<Rightarrow> info_msg \<Rightarrow> ('x daemon_scheme, error, unit) action" where
  "send_client_info dest request =
     (if is_grpcd_client dest then send_to InfoBus dest Grpcd (Info request)
      else send_from_self InfoBus dest (Info request))"

end
