(* ===== verification/Wallet.thy ===== *)
theory Wallet
  imports Core Esb
begin

text \<open>
  \<open>swapd/wallet.rs\<close>: the part of a swap that holds keys. A method over \<open>&mut self\<close> returns the new
  wallet with its value; the state machine keeps the old one when the method fails, since it works
  on a clone. The methods that register an address key with the database are actions.
\<close>

fun local_params :: "wallet \<Rightarrow> params" where
  "local_params (AliceWallet a) = AliceParams (as_local_params a)"
| "local_params (BobWallet b) = BobParams (bs_local_params b)"

fun funding_address :: "core \<Rightarrow> wallet \<Rightarrow> btc_address option" where
  "funding_address c (AliceWallet a) = None"
| "funding_address c (BobWallet b) = sum_ok (funding_get_address (c_funding c) (bs_funding_tx b))"

definition new_alice_state ::
  "alice_role \<Rightarrow> trade_role \<Rightarrow> parameters \<Rightarrow> key_manager \<Rightarrow> deal \<Rightarrow> commit_parameters option
     \<Rightarrow> btc_address \<Rightarrow> xmr_address \<Rightarrow> alice_state" where
  "new_alice_state alice role ps km d rc btc xmr = \<lparr>as_alice = alice, as_local_trade_role = role,
     as_local_params = ps, as_key_manager = km, as_deal = d, as_remote_commit = rc,
     as_remote_params = None, as_remote_proof = None, as_core_arb_setup = None,
     as_alice_cancel_signature = None, as_adaptor_refund = None,
     as_target_bitcoin_address = btc, as_target_monero_address = xmr\<rparr>"

definition new_bob_state ::
  "bob_role \<Rightarrow> trade_role \<Rightarrow> parameters \<Rightarrow> key_manager \<Rightarrow> deal \<Rightarrow> funding_tx \<Rightarrow> commit_parameters option
     \<Rightarrow> btc_address \<Rightarrow> xmr_address \<Rightarrow> bob_state" where
  "new_bob_state bob role ps km d funding rc btc xmr = \<lparr>bs_bob = bob, bs_local_trade_role = role,
     bs_local_params = ps, bs_key_manager = km, bs_deal = d, bs_funding_tx = funding,
     bs_remote_commit = rc, bs_remote_params = None, bs_remote_proof = None, bs_core_arb_setup = None,
     bs_adaptor_buy = None, bs_target_bitcoin_address = btc, bs_target_monero_address = xmr\<rparr>"

definition create_funding :: "core \<Rightarrow> key_manager \<Rightarrow> network \<Rightarrow> (error, funding_tx) result" where
  "create_funding c km net =
     rbind (core_try (get_pubkey (c_keys c) km LockKey)) (\<lambda>pk.
       core_try (funding_initialize (c_funding c) pk net))"

definition funding_update :: "core \<Rightarrow> funding_tx \<Rightarrow> btc_tx \<Rightarrow> (error, funding_tx) result" where
  "funding_update c funding tx = core_try (funding_apply (c_funding c) funding tx)"

text \<open>Bob's part of the constructors: parameters, funding, and the key of its address to the database.\<close>

definition bob_setup ::
  "core \<Rightarrow> deal \<Rightarrow> btc_address \<Rightarrow> key_manager \<Rightarrow> swap_id
     \<Rightarrow> ('x daemon_scheme, error, bob_role \<times> parameters \<times> funding_tx) action" where
  "bob_setup c d btc km sid =
     (let bob = bob_new (c_bob c) btc in
      bind (lift_res (core_try (bob_generate_parameters (c_bob c) bob km d))) (\<lambda>ps.
      bind (lift_res (create_funding c km (dp_network (deal_params d)))) (\<lambda>funding.
      bind (lift_res (core_try (funding_get_address (c_funding c) funding))) (\<lambda>addr.
      bind (lift_res (core_try (derive_bitcoin_key (c_keys c) km LockKey))) (\<lambda>key.
      bind (send_to CtlBus (Swap sid) Database (Ctl (SetAddressSecretKey
              (BitcoinAddressKey addr (BitcoinSecretKeyInfo (Some sid) key))))) (\<lambda>_.
      ret (bob, ps, funding)))))))"

definition new_taker ::
  "core \<Rightarrow> deal \<Rightarrow> btc_address \<Rightarrow> xmr_address \<Rightarrow> key_manager \<Rightarrow> swap_id
     \<Rightarrow> ('x daemon_scheme, error, wallet) action" where
  "new_taker c d btc xmr km sid =
     (case role_other (c_deal c) (dp_maker_role (deal_params d)) of
        Bob \<Rightarrow> bind (bob_setup c d btc km sid) (\<lambda>(bob, ps, funding).
                 ret (BobWallet (new_bob_state bob Taker ps km d funding None btc xmr)))
      | Alice \<Rightarrow> (let alice = alice_new (c_alice c) btc in
                 bind (lift_res (core_try (alice_generate_parameters (c_alice c) alice km d))) (\<lambda>ps.
                 ret (AliceWallet (new_alice_state alice Taker ps km d None btc xmr)))))"

definition new_maker ::
  "core \<Rightarrow> deal \<Rightarrow> btc_address \<Rightarrow> xmr_address \<Rightarrow> key_manager \<Rightarrow> swap_id \<Rightarrow> commit
     \<Rightarrow> ('x daemon_scheme, error, wallet) action" where
  "new_maker c d btc xmr km sid remote_commit =
     (case dp_maker_role (deal_params d) of
        Bob \<Rightarrow> bind (bob_setup c d btc km sid) (\<lambda>(bob, ps, funding).
                 case remote_commit of
                   AliceCommit rc \<Rightarrow> ret (BobWallet (new_bob_state bob Maker ps km d funding (Some rc) btc xmr))
                 | BobCommit _ \<Rightarrow> throw (FarcasterErr (Fmt ''Not Commit::Alice'' [])))
      | Alice \<Rightarrow> (let alice = alice_new (c_alice c) btc in
                 bind (lift_res (core_try (alice_generate_parameters (c_alice c) alice km d))) (\<lambda>ps.
                 case remote_commit of
                   BobCommit rc \<Rightarrow> ret (AliceWallet (new_alice_state alice Maker ps km d (Some rc) btc xmr))
                 | AliceCommit _ \<Rightarrow> throw (FarcasterErr (Fmt ''Not Commit::Bob'' [])))))"

fun process_funding_tx :: "core \<Rightarrow> wallet \<Rightarrow> tx \<Rightarrow> (error, wallet) result" where
  "process_funding_tx c (BobWallet b) (FundingTx t) =
     (if funding_was_seen (c_funding c) (bs_funding_tx b)
      then Err (FarcasterErr (Fmt ''Funding already updated'' []))
      else rbind (funding_update c (bs_funding_tx b) t) (\<lambda>f. Ok (BobWallet (b\<lparr>bs_funding_tx := f\<rparr>))))"
| "process_funding_tx c (AliceWallet a) (FundingTx t) =
     Err (FarcasterErr (Fmt ''Processing funding tx requires a Bob wallet'' []))"
| "process_funding_tx c w _ =
     Err (FarcasterErr (Fmt ''Process funding tx only processes funding transactions'' []))"

text \<open>The view key of a party, found by its tag.\<close>

definition view_key :: "core \<Rightarrow> string \<Rightarrow> parameters \<Rightarrow> (error, xmr_privkey) result" where
  "view_key c msg ps = expect msg (map_of (p_accordant_shared_keys ps) (shared_view_key_id (c_xmr c)))"

text \<open>
  The Monero keys that a published Buy or Refund transaction reveals: the counterparty's key
  recovered from it, the own key, their sum, and the sum of the view keys.
\<close>

definition sweep_keys ::
  "core \<Rightarrow> bytes \<Rightarrow> key_manager \<Rightarrow> parameters \<Rightarrow> parameters \<Rightarrow> (error, xmr_privkey \<times> xmr_privkey) result" where
  "sweep_keys c recovered km first_params second_params =
     rbind (expect ''Valid Monero Private Key'' (xmr_key_from_slice (c_xmr c) (rev recovered))) (\<lambda>theirs.
     rbind (core_try (derive_monero_spend_key (c_keys c) km)) (\<lambda>ours.
     rbind (view_key c ''unwrap on None'' first_params) (\<lambda>v1.
     rbind (view_key c ''unwrap on None'' second_params) (\<lambda>v2.
     Ok (xmr_add_priv (c_xmr c) theirs ours, xmr_add_priv (c_xmr c) v1 v2)))))"

definition register_monero_key ::
  "core \<Rightarrow> network \<Rightarrow> xmr_privkey \<Rightarrow> xmr_privkey \<Rightarrow> swap_id \<Rightarrow> u64 option \<Rightarrow> ('x daemon_scheme, error, unit) action" where
  "register_monero_key c net view spend sid creation_height =
     send_to CtlBus (Swap sid) Database (Ctl (SetAddressSecretKey
       (MoneroAddressKey (address_from_keypair (c_xmr c) net view spend)
         (MoneroSecretKeyInfo (Some sid) view spend creation_height))))"

definition process_buy_tx ::
  "core \<Rightarrow> wallet \<Rightarrow> btc_tx \<Rightarrow> swap_id \<Rightarrow> u64 option \<Rightarrow> ('x daemon_scheme, error, sweep_monero_address) action" where
  "process_buy_tx c w buy_tx sid creation_height =
     (case w of
        BobWallet b \<Rightarrow>
          (case (bs_remote_params b, bs_adaptor_buy b) of
             (Some alice_params, Some adaptor_buy) \<Rightarrow>
               let recovered = bob_recover_accordant_key (c_bob c) (bs_bob b) (bs_key_manager b)
                     alice_params (bps_buy_adaptor_sig adaptor_buy) buy_tx
               in bind (lift_res (sweep_keys c recovered (bs_key_manager b) alice_params (bs_local_params b)))
                 (\<lambda>(spend, view). steps [
                    register_monero_key c (dp_network (deal_params (bs_deal b))) view spend sid creation_height]
                  (ret (SweepMoneroAddress spend view (bs_target_monero_address b)
                     (dp_accordant_amount (deal_params (bs_deal b))) creation_height)))
           | _ \<Rightarrow> throw (FarcasterErr (Fmt ''Wallet in invalid state'' [])))
      | AliceWallet _ \<Rightarrow> throw (FarcasterErr (Fmt ''Wallet in invalid state'' [])))"

text \<open>
  Alice's side of the same. Her own view key is added first; the lookup of Bob's comes first.
\<close>

definition process_refund_tx ::
  "core \<Rightarrow> wallet \<Rightarrow> btc_tx \<Rightarrow> swap_id \<Rightarrow> u64 option \<Rightarrow> ('x daemon_scheme, error, sweep_monero_address) action" where
  "process_refund_tx c w refund_tx sid creation_height =
     (case w of
        AliceWallet a \<Rightarrow>
          (case (as_remote_params a, as_adaptor_refund a) of
             (Some bob_params, Some adaptor_refund) \<Rightarrow>
               let recovered = alice_recover_accordant_key (c_alice c) (as_alice a) (as_key_manager a)
                     bob_params adaptor_refund refund_tx
               in bind (lift_res (
                    rbind (expect ''Valid Monero Private Key'' (xmr_key_from_slice (c_xmr c) (rev recovered))) (\<lambda>sk_b.
                    rbind (core_try (derive_monero_spend_key (c_keys c) (as_key_manager a))) (\<lambda>sk_a.
                    rbind (view_key c ''unwrap on None'' bob_params) (\<lambda>view_bob.
                    rbind (view_key c ''unwrap on None'' (as_local_params a)) (\<lambda>view_alice.
                    Ok (xmr_add_priv (c_xmr c) sk_a sk_b, xmr_add_priv (c_xmr c) view_alice view_bob)))))))
                 (\<lambda>(spend, view). steps [
                    register_monero_key c (dp_network (deal_params (as_deal a))) view spend sid creation_height]
                  (ret (SweepMoneroAddress spend view (as_target_monero_address a)
                     (dp_accordant_amount (deal_params (as_deal a))) creation_height)))
           | _ \<Rightarrow> throw (FarcasterErr (Fmt ''Refund transaction requires an Alice wallet'' [])))
      | BobWallet _ \<Rightarrow> throw (FarcasterErr (Fmt ''Refund transaction requires an Alice wallet'' [])))"

fun process_get_sweep_bitcoin_address ::
  "core \<Rightarrow> wallet \<Rightarrow> btc_address \<Rightarrow> (error, sweep_bitcoin_address) result" where
  "process_get_sweep_bitcoin_address c (BobWallet b) source_address =
     rbind (core_try (derive_bitcoin_key (c_keys c) (bs_key_manager b) LockKey)) (\<lambda>key.
       Ok (SweepBitcoinAddress key source_address (refund_address (bs_bob b))))"
| "process_get_sweep_bitcoin_address c (AliceWallet a) source_address =
     Err (FarcasterErr (Fmt ''Funding key requires a Bob wallet'' []))"


section \<open>The messages of the counterparty\<close>

text \<open>The reveal of a wallet: its parameters opened, and its proof, which is always there.\<close>

definition reveal_of :: "core \<Rightarrow> swap_id \<Rightarrow> wallet \<Rightarrow> (error, reveal) result" where
  "reveal_of c sid w = (case w of
       AliceWallet a \<Rightarrow> rbind (expect ''local always some'' (p_proof (as_local_params a))) (\<lambda>proof.
         Ok (RevealAlice (reveal_alice (c_commit c) (as_local_params a) sid) (RevealProof sid proof)))
     | BobWallet b \<Rightarrow> rbind (expect ''local always some'' (p_proof (bs_local_params b))) (\<lambda>proof.
         Ok (RevealBob (reveal_bob (c_commit c) (bs_local_params b) sid) (RevealProof sid proof))))"

text \<open>A commitment that is already set is kept (the code only logs the second one).\<close>

definition handle_maker_commit :: "core \<Rightarrow> wallet \<Rightarrow> commit \<Rightarrow> swap_id \<Rightarrow> (error, reveal \<times> wallet) result" where
  "handle_maker_commit c w commit sid =
     rbind (case commit of
              BobCommit rc \<Rightarrow> (case w of
                  AliceWallet a \<Rightarrow> Ok (if as_remote_commit a \<noteq> None then w
                                     else AliceWallet (a\<lparr>as_remote_commit := Some rc\<rparr>))
                | BobWallet b \<Rightarrow> Err (FarcasterErr (Fmt ''Needs to be an Alice wallet to process Bob Commit'' [])))
            | AliceCommit rc \<Rightarrow> (case w of
                  BobWallet b \<Rightarrow> Ok (if bs_remote_commit b \<noteq> None then w
                                   else BobWallet (b\<lparr>bs_remote_commit := Some rc\<rparr>))
                | AliceWallet a \<Rightarrow> Err (FarcasterErr (Fmt ''Needs to be a Bob wallet to process Alice Commit'' []))))
       (\<lambda>w. rbind (reveal_of c sid w) (\<lambda>r. Ok (r, w)))"

definition handle_bob_reveals ::
  "core \<Rightarrow> wallet \<Rightarrow> reveal \<Rightarrow> swap_id \<Rightarrow> (error, reveal option \<times> wallet) result" where
  "handle_bob_reveals c w reveal sid = (case reveal of
       RevealBob ps proof \<Rightarrow> (case w of
           AliceWallet a \<Rightarrow> (case as_remote_commit a of
               Some remote_commit \<Rightarrow>
                 (if as_remote_params a \<noteq> None \<or> as_remote_proof a \<noteq> None
                  then Err (FarcasterErr (Fmt ''Bob params or proof already set'' []))
                  else rbind (core_try (verify_commit_bob (c_commit c) remote_commit ps)) (\<lambda>_.
                    let candidate = into_parameters_bob (c_commit c) ps in
                    case verify_proof (c_keys c) (as_key_manager a) (p_spend candidate) (p_adaptor candidate)
                           (rpf_proof proof) of
                      Inl e \<Rightarrow> Err (FarcasterErr (Fmt ''DLEQ invalid'' []))
                    | Inr _ \<Rightarrow>
                        let w' = AliceWallet (a\<lparr>as_remote_params := Some candidate,
                                                as_remote_proof := Some (rpf_proof proof)\<rparr>)
                        in if swap_role_of (c_deal c) (as_deal a) Maker = Alice
                           then rbind (reveal_of c sid w') (\<lambda>r. Ok (Some r, w'))
                           else Ok (None, w')))
             | None \<Rightarrow> Err (FarcasterErr (Fmt ''Needs to be a n Alice wallet'' [])))
         | BobWallet _ \<Rightarrow> Err (FarcasterErr (Fmt ''Needs to be a n Alice wallet'' [])))
     | RevealAlice _ _ \<Rightarrow> Err (FarcasterErr (Fmt ''Handle bob reveal can only handle a Bob Reveal message'' [])))"

definition handle_alice_reveals ::
  "core \<Rightarrow> wallet \<Rightarrow> reveal \<Rightarrow> swap_id \<Rightarrow> (error, reveal option \<times> wallet) result" where
  "handle_alice_reveals c w reveal sid = (case reveal of
       RevealAlice ps proof \<Rightarrow> (case w of
           BobWallet b \<Rightarrow> (case bs_remote_commit b of
               Some remote_commit \<Rightarrow>
                 (if bs_remote_params b \<noteq> None \<or> bs_remote_proof b \<noteq> None
                  then Err (FarcasterErr (Fmt ''Alice params or proof already set'' []))
                  else rbind (core_try (verify_commit_alice (c_commit c) remote_commit ps)) (\<lambda>_.
                    let candidate = into_parameters_alice (c_commit c) ps in
                    case verify_proof (c_keys c) (bs_key_manager b) (p_spend candidate) (p_adaptor candidate)
                           (rpf_proof proof) of
                      Inl e \<Rightarrow> Err (FarcasterErr (Fmt ''DLEQ proof invalid'' []))
                    | Inr _ \<Rightarrow>
                        let w' = BobWallet (b\<lparr>bs_remote_params := Some candidate,
                                              bs_remote_proof := Some (rpf_proof proof)\<rparr>)
                        in if swap_role_of (c_deal c) (bs_deal b) Maker = Bob
                           then rbind (reveal_of c sid w') (\<lambda>r. Ok (Some r, w'))
                           else Ok (None, w')))
             | None \<Rightarrow> Err (FarcasterErr (Fmt ''Only wallet::Bob is allowed'' [])))
         | AliceWallet _ \<Rightarrow> Err (FarcasterErr (Fmt ''Only wallet::Bob is allowed'' [])))
     | RevealBob _ _ \<Rightarrow> Err (FarcasterErr (Fmt ''handle_alice_reveals can only handle an Alice Reveal'' [])))"

definition create_core_arb :: "core \<Rightarrow> wallet \<Rightarrow> swap_id \<Rightarrow> (error, core_arbitrating_setup \<times> wallet) result" where
  "create_core_arb c w sid = (case w of
       BobWallet b \<Rightarrow>
         (if bs_core_arb_setup b \<noteq> None then Err (FarcasterErr (Fmt ''Core arb txs already set'' []))
          else if \<not> funding_was_seen (c_funding c) (bs_funding_tx b)
          then Err (FarcasterErr (Fmt ''Funding not seen yet'' []))
          else rbind (expect ''alice_params set above'' (bs_remote_params b)) (\<lambda>alice_params.
               rbind (core_try (core_arbitrating_transactions (c_bob c) (bs_bob b) alice_params
                        (bs_local_params b) (bs_funding_tx b) (to_arbitrating_params (c_deal c) (bs_deal b)))) (\<lambda>txs.
               rbind (core_try (bob_cosign_cancel (c_bob c) (bs_bob b) (bs_key_manager b) txs)) (\<lambda>cosig.
               let setup = into_arbitrating_setup (c_tx c) txs sid cosig
               in Ok (setup, BobWallet (b\<lparr>bs_core_arb_setup := Some setup\<rparr>))))))
     | AliceWallet _ \<Rightarrow> Err (FarcasterErr (Fmt ''Only Wallet::Bob is allowed'' [])))"

section \<open>Signing the transactions of the swap\<close>

text \<open>A partial transaction with its witnesses added in order, finalized.\<close>

fun finalized_tx ::
  "core \<Rightarrow> tx_label \<Rightarrow> psbt \<Rightarrow> (btc_pubkey \<times> signature) list \<Rightarrow> (error, btc_tx) result" where
  "finalized_tx c l tx [] = core_try (finalize_and_extract (c_tx c) l tx)"
| "finalized_tx c l tx ((pk, sig) # ws) =
     rbind (core_try (add_witness (c_tx c) l tx pk sig)) (\<lambda>tx. finalized_tx c l tx ws)"

datatype (plugins only: code size) refund_procedure_res =
  RefundProcedureRes (rpr_buy_procedure_signature: buy_procedure_signature) (rpr_lock_tx: btc_tx)
    (rpr_cancel_tx: btc_tx) (rpr_refund_tx: btc_tx)

definition handle_refund_procedure_signatures ::
  "core \<Rightarrow> wallet \<Rightarrow> refund_procedure_signatures \<Rightarrow> swap_id \<Rightarrow> (error, refund_procedure_res \<times> wallet) result" where
  "handle_refund_procedure_signatures c w rps sid = (case w of
       BobWallet b \<Rightarrow> (case (bs_remote_params b, bs_core_arb_setup b) of
           (Some remote, Some setup) \<Rightarrow>
             let txs = into_arbitrating_tx (c_tx c) setup;
                 bob = bs_bob b; local = bs_local_params b; km = bs_key_manager b;
                 adaptor_sig = rps_refund_adaptor_sig rps
             in rbind (core_try (validate_adaptor_refund (c_bob c) bob km remote local txs adaptor_sig)) (\<lambda>_.
                if bs_adaptor_buy b \<noteq> None then Err (FarcasterErr (Fmt ''adaptor buy already set'' []))
                else rbind (core_try (sign_adaptor_buy (c_bob c) bob sid km remote local txs
                            (to_arbitrating_params (c_deal c) (bs_deal b)))) (\<lambda>adaptor_buy.
                rbind (core_try (sign_arbitrating_lock (c_bob c) bob km txs)) (\<lambda>lock_sig.
                rbind (core_try (get_pubkey (c_keys c) km LockKey)) (\<lambda>lock_pubkey.
                rbind (finalized_tx c Lock (cas_lock setup) [(lock_pubkey, lock_sig)]) (\<lambda>lock_tx.
                rbind (finalized_tx c Cancel (cas_cancel setup)
                        [(p_cancel remote, rps_cancel_sig rps), (p_cancel local, cas_cancel_sig setup)]) (\<lambda>cancel_tx.
                rbind (core_try (fully_sign_refund (c_bob c) bob km txs adaptor_sig)) (\<lambda>(sig, adapted_sig).
                rbind (finalized_tx c Refund (cas_refund setup)
                        [(p_refund local, sig), (p_refund remote, adapted_sig)]) (\<lambda>refund_tx.
                Ok (RefundProcedureRes adaptor_buy lock_tx cancel_tx refund_tx,
                    BobWallet (b\<lparr>bs_adaptor_buy := Some adaptor_buy\<rparr>))))))))))
         | _ \<Rightarrow> Err (FarcasterErr (Fmt ''Unknown wallet and swap id'' [])))
     | AliceWallet _ \<Rightarrow> Err (FarcasterErr (Fmt ''Unknown wallet and swap id'' [])))"

datatype (plugins only: code size) core_arbitrating_setup_res =
  CoreArbitratingSetupRes (car_refund_procedure_signatures: refund_procedure_signatures)
    (car_cancel_tx: btc_tx) (car_punish_tx: btc_tx)

definition handle_core_arbitrating_setup ::
  "core \<Rightarrow> wallet \<Rightarrow> core_arbitrating_setup \<Rightarrow> swap_id \<Rightarrow> (error, core_arbitrating_setup_res \<times> wallet) result" where
  "handle_core_arbitrating_setup c w setup sid = (case w of
       AliceWallet a \<Rightarrow> (case as_remote_params a of
           Some bob_params \<Rightarrow>
             if as_core_arb_setup a \<noteq> None then Err (FarcasterErr (Fmt ''Core arb already set'' []))
             else if as_alice_cancel_signature a \<noteq> None
             then Err (FarcasterErr (Fmt ''Alice cancel sig already set'' []))
             else let txs = into_arbitrating_tx (c_tx c) setup;
                      alice = as_alice a; local = as_local_params a; km = as_key_manager a;
                      arb = to_arbitrating_params (c_deal c) (as_deal a)
                  in rbind (core_try (sign_adaptor_refund (c_alice c) alice km local bob_params txs arb)) (\<lambda>adaptor_refund.
                     rbind (core_try (alice_cosign_cancel (c_alice c) alice km local bob_params txs arb)) (\<lambda>cancel_sig.
                     rbind (finalized_tx c Cancel (cas_cancel setup)
                             [(p_cancel local, cancel_sig), (p_cancel bob_params, cas_cancel_sig setup)]) (\<lambda>cancel_tx.
                     rbind (core_try (fully_sign_punish (c_alice c) alice km local bob_params txs arb)) (\<lambda>(punish, punish_sig).
                     rbind (expect ''Alice has punish key'' (p_punish local)) (\<lambda>punish_key.
                     rbind (finalized_tx c Punish punish [(punish_key, punish_sig)]) (\<lambda>punish_tx.
                     Ok (CoreArbitratingSetupRes
                           (RefundProcedureSignatures sid cancel_sig adaptor_refund) cancel_tx punish_tx,
                         AliceWallet (a\<lparr>as_core_arb_setup := Some setup, as_adaptor_refund := Some adaptor_refund,
                                         as_alice_cancel_signature := Some cancel_sig\<rparr>))))))))
         | None \<Rightarrow> Err (FarcasterErr (Fmt ''Only Wallet::Alice is allowed'' [])))
     | BobWallet _ \<Rightarrow> Err (FarcasterErr (Fmt ''Only Wallet::Alice is allowed'' [])))"

datatype (plugins only: code size) buy_procedure_res =
  BuyProcedureRes (bpr_cancel_tx: btc_tx) (bpr_buy_tx: btc_tx)

definition handle_buy_procedure_signature ::
  "core \<Rightarrow> wallet \<Rightarrow> buy_procedure_signature \<Rightarrow> swap_id \<Rightarrow> (error, buy_procedure_res) result" where
  "handle_buy_procedure_signature c w bps sid = (case w of
       AliceWallet a \<Rightarrow> (case (as_remote_params a, as_core_arb_setup a, as_alice_cancel_signature a) of
           (Some bob_params, Some setup, Some cancel_sig) \<Rightarrow>
             let txs = into_arbitrating_tx (c_tx c) setup;
                 alice = as_alice a; local = as_local_params a; km = as_key_manager a;
                 arb = to_arbitrating_params (c_deal c) (as_deal a)
             in rbind (finalized_tx c Cancel (cas_cancel setup)
                        [(p_cancel local, cancel_sig), (p_cancel bob_params, cas_cancel_sig setup)]) (\<lambda>cancel_tx.
                rbind (core_try (validate_adaptor_buy (c_alice c) alice km local bob_params txs arb bps)) (\<lambda>_.
                rbind (core_try (fully_sign_buy (c_alice c) alice km local bob_params txs arb bps)) (\<lambda>(sig, adapted_sig).
                rbind (core_try (get_pubkey (c_keys c) km BuyKey)) (\<lambda>buy_key.
                rbind (finalized_tx c Buy (bps_buy bps) [(buy_key, sig), (p_buy bob_params, adapted_sig)]) (\<lambda>buy_tx.
                Ok (BuyProcedureRes cancel_tx buy_tx))))))
         | _ \<Rightarrow> Err (FarcasterErr (Fmt ''Could not get alice wallet'' [])))
     | BobWallet _ \<Rightarrow> Err (FarcasterErr (Fmt ''Could not get alice wallet'' [])))"

end
