(* ===== verification/SyncerClient.thy ===== *)
theory SyncerClient
  imports Messages
begin

text \<open>
  \<open>swapd/syncer_client.rs\<close>: what a swap knows of the chains and which tasks it has given to its
  syncers. The methods are functions on the state; those that also send are in the theory of the
  swap's runtime. Logging is left out.
\<close>

record syncer_tasks =
  counter :: u32
  watched_txs :: "(task_id, tx_label) hash_map"
  final_txs :: "(tx_label, bool) hash_map"
  watched_addrs :: "(task_id, tx_label) hash_map"
  retrieving_txs :: "(task_id, tx_label \<times> task) hash_map"
  broadcasting_txs :: "task_id hash_set"
  sweeping_addr :: "task_id option"
  txids :: "(tx_label, txid) hash_map"
  task_map :: "(task_id, task) hash_map"

record syncer_client =
  sc_swap_id :: swap_id
  tasks :: syncer_tasks
  bitcoin_height :: u64
  monero_height :: u64
  confirmation_bound :: u32
  lock_tx_confs :: "sync_msg option"
  cancel_tx_confs :: "sync_msg option"
  buy_tx_confs :: "sync_msg option"
  sc_network :: network
  bitcoin_syncer :: service_id
  monero_syncer :: service_id
  xmr_addr_addendum :: "xmr_address_addendum option"
  confirmations :: "(tx_label, u32 option) hash_map"
  awaiting_funding :: bool

text \<open>The updates of the tasks, in place.\<close>

definition on_tasks :: "(syncer_tasks \<Rightarrow> syncer_tasks) \<Rightarrow> syncer_client \<Rightarrow> syncer_client" where
  "on_tasks f s = s\<lparr>tasks := f (tasks s)\<rparr>"

definition add_task :: "task_id \<Rightarrow> task \<Rightarrow> syncer_client \<Rightarrow> syncer_client" where
  "add_task i t = on_tasks (\<lambda>ts. ts\<lparr>task_map := hm_insert i t (task_map ts)\<rparr>)"

definition new_taskid :: "syncer_client \<Rightarrow> task_id \<times> syncer_client" where
  "new_taskid s = (TaskId (counter (tasks s) + 1), on_tasks (\<lambda>ts. ts\<lparr>counter := counter ts + 1\<rparr>) s)"

fun height :: "syncer_client \<Rightarrow> blockchain \<Rightarrow> u64" where
  "height s Bitcoin = bitcoin_height s"
| "height s Monero = monero_height s"

definition task_lifetime :: "syncer_client \<Rightarrow> blockchain \<Rightarrow> u64" where
  "task_lifetime s b = (let h = height s b in if h > 0 then h + 500 else -1)"

definition handle_height_change :: "u64 \<Rightarrow> blockchain \<Rightarrow> syncer_client \<Rightarrow> syncer_client" where
  "handle_height_change new_height b s =
     (case b of
        Bitcoin \<Rightarrow> if new_height > bitcoin_height s then s\<lparr>bitcoin_height := new_height\<rparr> else s
      | Monero \<Rightarrow> if new_height > monero_height s then s\<lparr>monero_height := new_height\<rparr> else s)"

definition abort_task :: "task_id \<Rightarrow> task" where
  "abort_task i = AbortTask (Abort (TargetTask i) BFalse)"

definition estimate_fee_btc :: "syncer_client \<Rightarrow> task \<times> syncer_client" where
  "estimate_fee_btc s =
     (let (i, s) = new_taskid s;
          task = WatchEstimateFeeTask (WatchEstimateFee i (task_lifetime s Bitcoin))
      in (task, add_task i task s))"

definition is_watched_tx :: "tx_label \<Rightarrow> syncer_client \<Rightarrow> bool" where
  "is_watched_tx l s \<longleftrightarrow> list_ex (\<lambda>(_, tx). tx = l) (watched_txs (tasks s))"

definition is_watched_addr :: "tx_label \<Rightarrow> syncer_client \<Rightarrow> bool" where
  "is_watched_addr l s \<longleftrightarrow> list_ex (\<lambda>(_, tx). tx = l) (watched_addrs (tasks s))"

definition watch_tx_btc :: "txid \<Rightarrow> tx_label \<Rightarrow> syncer_client \<Rightarrow> task \<times> syncer_client" where
  "watch_tx_btc txid l s =
     (let (i, s) = new_taskid s;
          s = on_tasks (\<lambda>ts. ts\<lparr>watched_txs := hm_insert i l (watched_txs ts),
                               txids := hm_insert l txid (txids ts)\<rparr>) s;
          task = WatchTransactionTask (WatchTransaction i (task_lifetime s Bitcoin) txid (confirmation_bound s))
      in (task, add_task i task s))"

definition watch_tx_xmr :: "bytes \<Rightarrow> tx_label \<Rightarrow> syncer_client \<Rightarrow> task \<times> syncer_client" where
  "watch_tx_xmr hash l s =
     (let (i, s) = new_taskid s;
          s = on_tasks (\<lambda>ts. ts\<lparr>watched_txs := hm_insert i l (watched_txs ts)\<rparr>) s;
          task = WatchTransactionTask (WatchTransaction i (task_lifetime s Monero) hash (confirmation_bound s))
      in (task, add_task i task s))"

definition retrieve_tx_btc :: "txid \<Rightarrow> tx_label \<Rightarrow> syncer_client \<Rightarrow> task \<times> syncer_client" where
  "retrieve_tx_btc txid l s =
     (let (i, s) = new_taskid s;
          task = GetTxTask (GetTx i txid);
          s = on_tasks (\<lambda>ts. ts\<lparr>retrieving_txs := hm_insert i (l, task) (retrieving_txs ts)\<rparr>) s
      in (task, add_task i task s))"

definition from_height :: "blockchain \<Rightarrow> u64 \<Rightarrow> syncer_client \<Rightarrow> u64" where
  "from_height b delta s =
     (let h = height s b;
          delta = (if h > delta then delta else h)
      in h - delta)"

definition watch_addr_btc :: "btc_address \<Rightarrow> tx_label \<Rightarrow> syncer_client \<Rightarrow> task \<times> syncer_client" where
  "watch_addr_btc addr l s =
     (let (i, s) = new_taskid s;
          start = from_height Bitcoin 6 s;
          s = on_tasks (\<lambda>ts. ts\<lparr>watched_addrs := hm_insert i l (watched_addrs ts)\<rparr>) s;
          filt = (if Cancel = l then Outgoing else Incoming);
          task = WatchAddressTask (WatchAddress i (task_lifetime s Bitcoin)
                   (BitcoinAddendum (BtcAddressAddendum start addr)) BTrue filt)
      in (task, add_task i task s))"

definition watch_addr_xmr ::
  "xmr_pubkey \<Rightarrow> xmr_privkey \<Rightarrow> tx_label \<Rightarrow> u64 option \<Rightarrow> syncer_client \<Rightarrow> task \<times> syncer_client" where
  "watch_addr_xmr spend view l start s =
     (let start = (case start of Some h \<Rightarrow> h | None \<Rightarrow> from_height Monero 20 s);
          addendum = XmrAddressAddendum spend view start;
          s = s\<lparr>xmr_addr_addendum := Some addendum\<rparr>;
          (i, s) = new_taskid s;
          s = on_tasks (\<lambda>ts. ts\<lparr>watched_addrs := hm_insert i l (watched_addrs ts)\<rparr>) s;
          task = WatchAddressTask (WatchAddress i (task_lifetime s Monero) (MoneroAddendum addendum) BFalse Incoming)
      in (task, add_task i task s))"

definition watch_height_task :: "blockchain \<Rightarrow> syncer_client \<Rightarrow> task \<times> syncer_client" where
  "watch_height_task b s =
     (let (i, s) = new_taskid s;
          task = WatchHeightTask (WatchHeight i (task_lifetime s b))
      in (task, add_task i task s))"

definition sweep_task :: "blockchain \<Rightarrow> sweep_address_addendum \<Rightarrow> bool \<Rightarrow> syncer_client \<Rightarrow> sweep_address \<times> syncer_client" where
  "sweep_task b addendum retry s =
     (let (i, s) = new_taskid s;
          s = on_tasks (\<lambda>ts. ts\<lparr>sweeping_addr := Some i\<rparr>) s;
          sweep = SweepAddress retry i (task_lifetime s b) addendum
      in (sweep, add_task i (SweepAddressTask sweep) s))"

definition sweep_btc :: "sweep_bitcoin_address \<Rightarrow> bool \<Rightarrow> syncer_client \<Rightarrow> task \<times> syncer_client" where
  "sweep_btc addendum retry s =
     (let (sweep, s) = sweep_task Bitcoin (SweepBitcoin addendum) retry s in (SweepAddressTask sweep, s))"

definition sweep_xmr :: "sweep_monero_address \<Rightarrow> bool \<Rightarrow> syncer_client \<Rightarrow> task \<times> syncer_client" where
  "sweep_xmr addendum retry s =
     (let (sweep, s) = sweep_task Monero (SweepMonero addendum) retry s in (SweepAddressTask sweep, s))"

definition broadcast_task :: "btc_tx \<Rightarrow> syncer_client \<Rightarrow> task \<times> syncer_client" where
  "broadcast_task tx s =
     (let (i, s) = new_taskid s;
          task = BroadcastTransactionTask (BroadcastTransaction i (consensus_bytes tx) None);
          s = add_task i task s
      in (task, on_tasks (\<lambda>ts. ts\<lparr>broadcasting_txs := hs_insert i (broadcasting_txs ts)\<rparr>) s))"

definition transaction_broadcasted :: "transaction_broadcasted \<Rightarrow> syncer_client \<Rightarrow> syncer_client" where
  "transaction_broadcasted ev =
     on_tasks (\<lambda>ts. ts\<lparr>broadcasting_txs := hs_remove (tb_id ev) (broadcasting_txs ts),
                      task_map := hm_remove (tb_id ev) (task_map ts)\<rparr>)"

text \<open>The transactions not yet broadcasted; the decoder of the \<open>bitcoin\<close> crate is an argument.\<close>

definition pending_broadcast_txs :: "(bytes \<Rightarrow> btc_tx option) \<Rightarrow> syncer_client \<Rightarrow> btc_tx list" where
  "pending_broadcast_txs decode s =
     List.map_filter (\<lambda>i. case hm_get (task_map (tasks s)) i of
         Some (BroadcastTransactionTask b) \<Rightarrow> decode (bt_tx b)
       | _ \<Rightarrow> None) (broadcasting_txs (tasks s))"

definition acc_lock_watched :: "syncer_client \<Rightarrow> bool" where
  "acc_lock_watched s \<longleftrightarrow> list_ex (\<lambda>(_, x). x = AccLock) (watched_addrs (tasks s))"

definition handle_tx_confs :: "task_id \<Rightarrow> u32 option \<Rightarrow> u32 \<Rightarrow> syncer_client \<Rightarrow> syncer_client" where
  "handle_tx_confs i confs finality_thr s =
     (case hm_get (watched_txs (tasks s)) i of
        None \<Rightarrow> s
      | Some l \<Rightarrow>
          (let s = (case confs of
                      Some c \<Rightarrow> if \<not> hm_contains (final_txs (tasks s)) l \<and> c \<ge> finality_thr
                                then on_tasks (\<lambda>ts. ts\<lparr>final_txs := hm_insert l True (final_txs ts)\<rparr>) s
                                else s
                    | None \<Rightarrow> s)
           in s\<lparr>confirmations := hm_insert l confs (confirmations s)\<rparr>))"

definition get_confs :: "syncer_client \<Rightarrow> tx_label \<Rightarrow> u32 option" where
  "get_confs s l = (case hm_get (confirmations s) l of Some c \<Rightarrow> c | None \<Rightarrow> None)"

section \<open>State reports: state_report.rs\<close>

definition new_state_report :: "string \<Rightarrow> temporal_safety \<Rightarrow> syncer_client \<Rightarrow> state_report" where
  "new_state_report state ts s = \<lparr>
     sr_state = state,
     sr_arb_block_height = bitcoin_height s,
     sr_acc_block_height = monero_height s,
     sr_arb_locked = final_tx ts (case get_confs s Lock of Some c \<Rightarrow> c | None \<Rightarrow> 0) Bitcoin,
     sr_acc_locked = final_tx ts (case get_confs s AccLock of Some c \<Rightarrow> c | None \<Rightarrow> 0) Bitcoin,
     sr_canceled = final_tx ts (case get_confs s Cancel of Some c \<Rightarrow> c | None \<Rightarrow> 0) Bitcoin,
     sr_buy_seen = (get_confs s Buy \<noteq> None),
     sr_refund_seen = (get_confs s Refund \<noteq> None),
     sr_overfunded = False,
     sr_arb_lock_confirmations = get_confs s Lock,
     sr_acc_lock_confirmations = get_confs s AccLock,
     sr_cancel_confirmations = get_confs s Cancel,
     sr_blocks_until_cancel_possible = map_option (blocks_until_cancel ts) (get_confs s Lock),
     sr_blocks_until_punish_possible = map_option (blocks_until_punish_after_cancel ts) (get_confs s Cancel),
     sr_blocks_until_safe_buy = map_option (saturating_diff (btc_finality_thr ts)) (get_confs s Lock),
     sr_blocks_until_safe_monero_buy_sweep =
       map_option (saturating_diff (sweep_monero_thr ts)) (get_confs s AccLock)\<rparr>"

definition generate_progress_update_or_transition :: "state_report \<Rightarrow> state_report \<Rightarrow> progress" where
  "generate_progress_update_or_transition old new =
     (if sr_state old = sr_state new then StateUpdate new
      else StateTransitionProgress (StateTransition old new))"

end
