(* ===== verification/SwapRuntime.thy ===== *)
theory SwapRuntime
  imports Wallet SyncerClient
begin

text \<open>
  The state of a swap daemon (\<open>Runtime\<close> of \<open>swapd/runtime.rs\<close>) and the operations its state
  machine calls: sending to the counterparty, giving tasks to the syncers, broadcasting,
  checkpointing, reporting. Logging is left out.
\<close>

record runtime = daemon +
  rt_swap_id :: swap_id
  peer_service :: service_id
  connected :: bool
  started :: int
  enquirer :: "service_id option"
  syncer :: syncer_client
  safety :: temporal_safety
  pending_peer_request :: "peer_msg list"
  rt_txs :: "(tx_label, btc_tx) hash_map"
  rt_deal :: deal
  rt_trade_role :: trade_role
  rt_swap_role :: swap_role
  latest_state_report :: state_report
  monero_address_creation_height :: "u64 option"
  swap_state :: swap_state_machine
  unhandled_peer_message :: "peer_msg option"

type_synonym 'a swapd_action = "(runtime, error, 'a) action"

section \<open>Start: run\<close>

text \<open>What the command line and the environment give a swap daemon.\<close>

record swapd_opts =
  opt_swap_id :: swap_id
  opt_deal :: deal
  opt_trade_role :: trade_role
  opt_arbitrating_finality :: u8
  opt_arbitrating_safety :: u8
  opt_accordant_finality :: u8

definition start_state :: "swap_role \<Rightarrow> trade_role \<Rightarrow> swap_state_machine" where
  "start_state role trade = (case trade of Maker \<Rightarrow> StartMaker role | Taker \<Rightarrow> StartTaker role)"

definition opts_temporal_safety :: "swapd_opts \<Rightarrow> temporal_safety" where
  "opts_temporal_safety o' = \<lparr>
     cancel_timelock = dp_cancel_timelock (deal_params (opt_deal o')),
     punish_timelock = dp_punish_timelock (deal_params (opt_deal o')),
     race_thr = ucast (opt_arbitrating_safety o'),
     btc_finality_thr = ucast (opt_arbitrating_finality o'),
     xmr_finality_thr = ucast (opt_accordant_finality o'),
     sweep_monero_thr = SWEEP_MONERO_THRESHOLD\<rparr>"

definition initial_syncer_client :: "swap_id \<Rightarrow> network \<Rightarrow> syncer_client" where
  "initial_syncer_client sid net = \<lparr>
     sc_swap_id = sid,
     tasks = \<lparr>counter = 0, watched_txs = [], final_txs = [], watched_addrs = [], retrieving_txs = [],
              broadcasting_txs = [], sweeping_addr = None, txids = [], task_map = []\<rparr>,
     bitcoin_height = 0, monero_height = 0, confirmation_bound = 50000,
     lock_tx_confs = None, cancel_tx_confs = None, buy_tx_confs = None,
     sc_network = net, bitcoin_syncer = Syncer Bitcoin net, monero_syncer = Syncer Monero net,
     xmr_addr_addendum = None, confirmations = [], awaiting_funding = False\<rparr>"

definition initial_runtime ::
  "core \<Rightarrow> swapd_opts \<Rightarrow> int \<Rightarrow> (nat \<Rightarrow> envelope \<Rightarrow> bool) \<Rightarrow> (error, runtime) result" where
  "initial_runtime c o' now outcomes =
     (let d = opt_deal o';
          maker_role = dp_maker_role (deal_params d);
          role = (case opt_trade_role o' of Maker \<Rightarrow> maker_role | Taker \<Rightarrow> role_other (c_deal c) maker_role);
          ts = opts_temporal_safety o';
          sc = initial_syncer_client (opt_swap_id o') (dp_network (deal_params d))
      in rbind (valid_params ts) (\<lambda>_. Ok \<lparr>
           identity = Swap (opt_swap_id o'), outbox = [], attempts = 0, link = outcomes,
           rt_swap_id = opt_swap_id o',
           peer_service = dummy_peer_service_id (NodeAddr (deal_node_id d) (deal_peer_address d)),
           connected = False, started = now, enquirer = None, syncer = sc, safety = ts,
           pending_peer_request = [], rt_txs = [], rt_deal = d, rt_trade_role = opt_trade_role o',
           rt_swap_role = role, latest_state_report = new_state_report ''Start'' ts sc,
           monero_address_creation_height = None,
           swap_state = start_state role (opt_trade_role o'),
           unhandled_peer_message = None\<rparr>))"

section \<open>The syncer client in the runtime\<close>

definition on_syncer :: "(syncer_client \<Rightarrow> syncer_client) \<Rightarrow> runtime \<Rightarrow> runtime" where
  "on_syncer f rt = rt\<lparr>syncer := f (syncer rt)\<rparr>"

text \<open>A method of the client that returns a value, called on the runtime's client.\<close>

definition with_syncer :: "(syncer_client \<Rightarrow> 'a \<times> syncer_client) \<Rightarrow> 'a swapd_action" where
  "with_syncer f = stateful (\<lambda>rt. (fst (f (syncer rt)), on_syncer (\<lambda>s. snd (f s)) rt))"

text \<open>Whether the client watches a transaction with this label under the task.\<close>

definition watches_tx :: "runtime \<Rightarrow> task_id \<Rightarrow> tx_label \<Rightarrow> bool" where
  "watches_tx rt i l \<longleftrightarrow> hm_get (watched_txs (tasks (syncer rt))) i = Some l"

definition watches_addr :: "runtime \<Rightarrow> task_id \<Rightarrow> tx_label \<Rightarrow> bool" where
  "watches_addr rt i l \<longleftrightarrow> hm_get (watched_addrs (tasks (syncer rt))) i = Some l"

text \<open>The syncer of a chain.\<close>

fun syncer_of :: "blockchain \<Rightarrow> syncer_client \<Rightarrow> service_id" where
  "syncer_of Bitcoin s = bitcoin_syncer s"
| "syncer_of Monero s = monero_syncer s"

definition send_task :: "blockchain \<Rightarrow> task \<Rightarrow> unit swapd_action" where
  "send_task b task = reads syncer (\<lambda>s. send_from_self SyncBus (syncer_of b s) (Sync (TaskMsg task)))"

text \<open>\<open>syncer_client.rs\<close>: the two methods that also send.\<close>

definition watch_height :: "blockchain \<Rightarrow> unit swapd_action" where
  "watch_height b = bind (with_syncer (watch_height_task b)) (\<lambda>task.
     reads syncer (\<lambda>s. send_to SyncBus (Swap (sc_swap_id s)) (syncer_of b s) (Sync (TaskMsg task))))"

definition watch_bitcoin_fee :: "unit swapd_action" where
  "watch_bitcoin_fee = bind (with_syncer estimate_fee_btc) (\<lambda>task.
     reads syncer (\<lambda>s. send_to SyncBus (Swap (sc_swap_id s)) (bitcoin_syncer s) (Sync (TaskMsg task))))"

text \<open>The confirmations of a watched transaction, recorded with the Bitcoin finality threshold.\<close>

definition record_btc_confs :: "task_id \<Rightarrow> u32 \<Rightarrow> unit swapd_action" where
  "record_btc_confs i confs =
     modify (\<lambda>rt. on_syncer (handle_tx_confs i (Some confs) (btc_finality_thr (safety rt))) rt)"

section \<open>Methods of the runtime\<close>

text \<open>
  A message that cannot be sent is kept for the reconnection, once farcasterd knows of it.
\<close>

definition send_peer :: "peer_msg \<Rightarrow> unit swapd_action" where
  "send_peer msg =
     bind (attempt (reads peer_service (\<lambda>peer. send_from_self MsgBus peer (P2p msg)))) (\<lambda>r. case r of
       Inr _ \<Rightarrow> skip
     | Inl _ \<Rightarrow> steps [
         modify (\<lambda>rt. rt\<lparr>connected := False\<rparr>),
         reads peer_service (\<lambda>peer. send_from_self CtlBus Farcasterd (Ctl (PeerdUnreachable peer)))]
         (modify (\<lambda>rt. rt\<lparr>pending_peer_request := pending_peer_request rt @ [msg]\<rparr>)))"

text \<open>\<open>swap_id()\<close>, from the identity.\<close>

fun swap_id_of :: "service_id \<Rightarrow> (error, swap_id) result" where
  "swap_id_of (Swap i) = Ok i"
| "swap_id_of _ = Panic ''not ServiceId::Swap''"

definition own_swap_id :: "swap_id swapd_action" where
  "own_swap_id = reads identity (\<lambda>me. lift_res (swap_id_of me))"

definition broadcast :: "btc_tx \<Rightarrow> tx_label \<Rightarrow> unit swapd_action" where
  "broadcast tx l = bind (with_syncer (broadcast_task tx)) (send_task Bitcoin)"

definition report_potential_state_change :: "unit swapd_action" where
  "report_potential_state_change = reads id (\<lambda>rt.
     let report = new_state_report (swap_state_text (swap_state rt)) (safety rt) (syncer rt);
         old = latest_state_report rt
     in if old \<noteq> report
        then bind (modify (\<lambda>rt. rt\<lparr>latest_state_report := report\<rparr>))
               (\<lambda>_. report_progress enquirer (generate_progress_update_or_transition old report))
        else skip)"

subsection \<open>The fee of the Lock transaction: syncerd/bitcoin_syncer.rs\<close>

text \<open>
  A non-negative \<open>f64\<close>, scaled to an integer, rounded to its 53 significant bits (to nearest, ties
  to even). The constant \<open>1e-3\<close> is the double \<open>1152921504606847 / 2^60\<close>. No product here
  overflows or is subnormal.
\<close>

fun bit_len :: "nat \<Rightarrow> nat" where
  "bit_len n = (if n = 0 then 0 else Suc (bit_len (n div 2)))"

declare bit_len.simps [simp del]

definition f64_round :: "nat \<Rightarrow> nat" where
  "f64_round n =
     (let k = bit_len n - 53 in
      if k = 0 then n
      else let q = n div 2 ^ k; r = n mod 2 ^ k; half = 2 ^ (k - 1)
           in (if half < r \<or> half = r \<and> odd q then q + 1 else q) * 2 ^ k)"

definition p2wpkh_signed_tx_fee :: "u64 \<Rightarrow> nat \<Rightarrow> nat \<Rightarrow> u64" where
  "p2wpkh_signed_tx_fee fee_sat_per_kvb unsigned_tx_vsize nr_inputs =
     (let signed_tx_size = unsigned_tx_vsize + 28 * nr_inputs;
          fee = f64_round (f64_round (f64_round (unat fee_sat_per_kvb) * f64_round signed_tx_size)
                  * 1152921504606847);
          sats = (fee + (2 ^ 60 - 1)) div 2 ^ 60
      in of_nat (min sats (2 ^ 64 - 1)))"

text \<open>The addition of two \<open>Amount\<close>s, which panics on overflow.\<close>

definition amount_add :: "u64 \<Rightarrow> u64 \<Rightarrow> (error, u64) result" where
  "amount_add a b = (if unat a + unat b < 2 ^ 64 then Ok (a + b) else Panic ''Amount addition error'')"

definition ask_bob_to_fund :: "u64 \<Rightarrow> btc_address \<Rightarrow> u64 swapd_action" where
  "ask_bob_to_fund sat_per_kvb address =
     bind own_swap_id (\<lambda>sid.
     reads rt_deal (\<lambda>d.
     bind (lift_res (amount_add (dp_arbitrating_amount (deal_params d)) (p2wpkh_signed_tx_fee sat_per_kvb 94 1))) (\<lambda>amount.
     bind (modify (on_syncer (\<lambda>s. s\<lparr>awaiting_funding := True\<rparr>))) (\<lambda>_.
     reads enquirer (\<lambda>dest. case dest of
         Some enq \<Rightarrow> bind (send_from_self CtlBus enq
             (Ctl (FundingInfoCtl (BitcoinFunding (BitcoinFundingInfo sid address amount))))) (\<lambda>_. ret amount)
       | None \<Rightarrow> ret amount)))))"

subsection \<open>Commitments\<close>

definition commitment :: "core \<Rightarrow> params \<Rightarrow> swap_id \<Rightarrow> commit" where
  "commitment c ps sid = (case ps of
       BobParams p \<Rightarrow> BobCommit (commit_bob (c_commit c) p sid)
     | AliceParams p \<Rightarrow> AliceCommit (commit_alice (c_commit c) p sid))"

definition taker_commit :: "core \<Rightarrow> params \<Rightarrow> commit swapd_action" where
  "taker_commit c ps =
     bind own_swap_id (\<lambda>sid.
     bind (attempt (report_progress_message enquirer
             (Fmt ''Proposing to take swap {} to Maker remote peer'' [TSwap sid]))) (\<lambda>_.
     ret (commitment c ps sid)))"

definition maker_commit :: "core \<Rightarrow> swap_id \<Rightarrow> params \<Rightarrow> commit swapd_action" where
  "maker_commit c swap ps =
     reads peer_service (\<lambda>peer.
     bind (attempt (report_progress_message enquirer
             (Fmt ''Accepting swap {} as Maker from Taker through peerd {}'' [TSwap swap, TService peer]))) (\<lambda>_.
     bind own_swap_id (\<lambda>sid.
     ret (commitment c ps sid))))"

subsection \<open>Checkpoints\<close>

fun get_swap_id :: "service_id \<Rightarrow> (error, swap_id) result" where
  "get_swap_id (Swap i) = Ok i"
| "get_swap_id _ = Err (FarcasterErr (Fmt ''Not swapd'' []))"

fun get_node_id :: "service_id \<Rightarrow> node_id option" where
  "get_node_id (Peer _ addr) = Some (na_id addr)"
| "get_node_id _ = None"

definition abort_swap :: "unit swapd_action" where
  "abort_swap = send_ctl (Some Farcasterd) (Ctl (SwapOutcome FailureAbort))"

definition checkpoint_of :: "core \<Rightarrow> peer_msg option \<Rightarrow> swap_state_machine \<Rightarrow> runtime \<Rightarrow> checkpoint_swapd" where
  "checkpoint_of c pending_msg next_state rt = \<lparr>
     ck_state = next_state, ck_pending_msg = pending_msg, ck_enquirer = enquirer rt,
     ck_xmr_addr_addendum = xmr_addr_addendum (syncer rt), ck_temporal_safety = safety rt,
     ck_txs = rt_txs rt, ck_txids = txids (tasks (syncer rt)),
     ck_pending_broadcasts = pending_broadcast_txs (consensus_decode (c_tx c)) (syncer rt),
     ck_local_trade_role = rt_trade_role rt,
     ck_connected_counterparty_node_id = get_node_id (peer_service rt),
     ck_deal = rt_deal rt,
     ck_monero_address_creation_height = monero_address_creation_height rt\<rparr>"

definition checkpoint_state :: "core \<Rightarrow> peer_msg option \<Rightarrow> swap_state_machine \<Rightarrow> unit swapd_action" where
  "checkpoint_state c pending_msg next_state = reads id (\<lambda>rt.
     send_from_self CtlBus Database
       (Ctl (CheckpointCtl (Checkpoint (rt_swap_id rt) (checkpoint_of c pending_msg next_state rt)))))"

subsection \<open>Parameters of the counterparty\<close>

definition shared_view :: "core \<Rightarrow> parameters \<Rightarrow> (error, xmr_privkey) result" where
  "shared_view c ps = view_key c ''accordant shared keys should always have a view key'' ps"

definition aggregate_xmr_spend_view ::
  "core \<Rightarrow> parameters \<Rightarrow> parameters \<Rightarrow> (error, xmr_pubkey \<times> xmr_privkey) result" where
  "aggregate_xmr_spend_view c alice_params bob_params =
     rbind (shared_view c alice_params) (\<lambda>alice_view.
     rbind (shared_view c bob_params) (\<lambda>bob_view.
     Ok (xmr_add_pub (c_xmr c) (p_spend alice_params) (p_spend bob_params),
         xmr_add_priv (c_xmr c) alice_view bob_view)))"

fun validate_reveal :: "core \<Rightarrow> reveal \<Rightarrow> commit \<Rightarrow> (error, params) result" where
  "validate_reveal c (RevealAlice ps _) (AliceCommit commit) =
     rbind (core_try (verify_commit_alice (c_commit c) commit ps))
       (\<lambda>_. Ok (AliceParams (into_parameters_alice (c_commit c) ps)))"
| "validate_reveal c (RevealBob ps _) (BobCommit commit) =
     rbind (core_try (verify_commit_bob (c_commit c) commit ps))
       (\<lambda>_. Ok (BobParams (into_parameters_bob (c_commit c) ps)))"
| "validate_reveal c (RevealAlice _ _) (BobCommit commit) =
     Err (FarcasterErr (Fmt ''expected Some(Commit::Alice(commit)), found {}'' [TOpaque ''BobCommit'']))"
| "validate_reveal c (RevealBob _ _) (AliceCommit commit) =
     Err (FarcasterErr (Fmt ''expected Some(Commit::Bob(commit)), found {}'' [TOpaque ''AliceCommit'']))"

end
