(* ===== verification/SwapState.thy ===== *)
theory SwapState
  imports SwapRuntime
begin

text \<open>
  \<open>swapd/swap_state.rs\<close>: the state machine of a swap. One definition per function of the file, in
  its order; \<open>next_state\<close> is \<open>SwapStateMachine::next\<close>. A handler returns the new state, or \<open>None\<close> when
  the event causes no transition. A match guard of the code is a conditional whose other branch
  goes on to the arms that follow.
\<close>

type_synonym transition = "swap_state_machine option swapd_action"

section \<open>What an event carries\<close>

text \<open>The patterns of the match arms: the payload of an event of the kind, if it is one.\<close>

fun seen_confs :: "bus_msg \<Rightarrow> (task_id \<times> u32) option" where
  "seen_confs (Sync (EventMsg (TransactionConfirmationsEv (TransactionConfirmations i _ (Some confs) _)))) = Some (i, confs)"
| "seen_confs _ = None"

fun seen_address_tx :: "bus_msg \<Rightarrow> address_transaction option" where
  "seen_address_tx (Sync (EventMsg (AddressTransactionEv t))) = Some t"
| "seen_address_tx _ = None"

fun seen_fees :: "bus_msg \<Rightarrow> fee_estimations option" where
  "seen_fees (Sync (EventMsg (FeeEstimationEv (FeeEstimation _ fees)))) = Some fees"
| "seen_fees _ = None"

fun retrieved_tx :: "bus_msg \<Rightarrow> (task_id \<times> btc_tx) option" where
  "retrieved_tx (Sync (EventMsg (TransactionRetrievedEv (TransactionRetrieved i (Some tx))))) = Some (i, tx)"
| "retrieved_tx _ = None"

fun empty_event :: "bus_msg \<Rightarrow> task_id option" where
  "empty_event (Sync (EventMsg (EmptyEv i))) = Some i"
| "empty_event _ = None"

fun sweep_success :: "bus_msg \<Rightarrow> task_id option" where
  "sweep_success (Sync (EventMsg (SweepSuccessEv (SweepSuccess i _)))) = Some i"
| "sweep_success _ = None"

fun tasks_aborted :: "bus_msg \<Rightarrow> task_id list option" where
  "tasks_aborted (Sync (EventMsg (TaskAbortedEv (TaskAborted ids _)))) = Some ids"
| "tasks_aborted _ = None"

fun take_swap_request :: "bus_msg \<Rightarrow> init_taker_swap option" where
  "take_swap_request (Ctl (TakeSwap m)) = Some m"
| "take_swap_request _ = None"

fun make_swap_request :: "bus_msg \<Rightarrow> init_maker_swap option" where
  "make_swap_request (Ctl (MakeSwap m)) = Some m"
| "make_swap_request _ = None"

fun peer_request :: "bus_msg \<Rightarrow> peer_msg option" where
  "peer_request (P2p m) = Some m"
| "peer_request _ = None"

definition abort_requested :: "esb_event \<Rightarrow> bool" where
  "abort_requested ev \<longleftrightarrow> ev_request ev = Ctl AbortSwap"

section \<open>Endings: the functions at the end of the file\<close>

definition handle_abort_swap :: "esb_event \<Rightarrow> transition" where
  "handle_abort_swap ev = steps [complete_client_info ev (StringInfo (Fmt ''Aborted swap'' []))]
     (ret (Some (SwapEnd FailureAbort)))"

definition handle_abort_impossible :: "esb_event \<Rightarrow> transition" where
  "handle_abort_impossible ev = steps [complete_client_ctl ev (FailureCtl (Failure UnknownFailure
       (Fmt ''Swap is already locked-in, cannot manually abort anymore.'' [])))]
     (ret None)"

text \<open>\<open>event.send_sync_service(syncer, SyncMsg::Task(task))\<close>.\<close>

definition give_task :: "esb_event \<Rightarrow> blockchain \<Rightarrow> task \<Rightarrow> unit swapd_action" where
  "give_task ev b task = reads syncer (\<lambda>s. send_sync_service ev (syncer_of b s) (TaskMsg task))"

text \<open>The next task of the client, given to the syncer of a chain.\<close>

definition give_new_task :: "esb_event \<Rightarrow> blockchain \<Rightarrow> (syncer_client \<Rightarrow> task \<times> syncer_client) \<Rightarrow> unit swapd_action" where
  "give_new_task ev b f = bind (with_syncer f) (give_task ev b)"

definition handle_bob_abort_swap :: "core \<Rightarrow> esb_event \<Rightarrow> wallet \<Rightarrow> transition" where
  "handle_bob_abort_swap c ev w =
     bind (lift_res (expect ''Am Bob, so have funding address'' (funding_address c w))) (\<lambda>addr.
     bind (lift_res (process_get_sweep_bitcoin_address c w addr)) (\<lambda>sweep.
     steps [
       give_new_task ev Bitcoin (sweep_btc sweep False),
       complete_client_info ev (StringInfo (Fmt ''Aborting swap, checking if funds can be sweeped.'' []))]
     (ret (Some BobAbortAwaitingBitcoinSweep))))"

text \<open>Every task of both syncers is aborted at the end of a swap.\<close>

definition abort_all_tasks :: "esb_event \<Rightarrow> unit swapd_action" where
  "abort_all_tasks ev = (let abort_all = AbortTask (Abort AllTasks BFalse) in
     steps [give_task ev Monero abort_all] (give_task ev Bitcoin abort_all))"

definition remove_txs :: "tx_label list \<Rightarrow> unit swapd_action" where
  "remove_txs ls = modify (\<lambda>rt. rt\<lparr>rt_txs := fold hm_remove ls (rt_txs rt)\<rparr>)"

definition outdated_txs :: "tx_label list" where
  "outdated_txs = [Cancel, Refund, Buy, Punish]"

definition set_awaiting_funding :: "bool \<Rightarrow> unit swapd_action" where
  "set_awaiting_funding b = modify (on_syncer (\<lambda>s. s\<lparr>awaiting_funding := b\<rparr>))"

definition insert_tx :: "tx_label \<Rightarrow> btc_tx \<Rightarrow> unit swapd_action" where
  "insert_tx l tx = modify (\<lambda>rt. rt\<lparr>rt_txs := hm_insert l tx (rt_txs rt)\<rparr>)"

text \<open>A stored transaction, taken out of the map and broadcast.\<close>

definition take_tx :: "tx_label \<Rightarrow> btc_tx swapd_action" where
  "take_tx l = reads (\<lambda>rt. hm_get (rt_txs rt) l) (\<lambda>tx.
     bind (lift_res (expect ''remove_entry unwrap'' tx)) (\<lambda>tx.
     bind (modify (\<lambda>rt. rt\<lparr>rt_txs := hm_remove l (rt_txs rt)\<rparr>)) (\<lambda>_. ret tx)))"

definition broadcast_stored :: "tx_label \<Rightarrow> unit swapd_action" where
  "broadcast_stored l = bind (take_tx l) (\<lambda>tx. broadcast tx l)"

text \<open>The same, with a task that watches the transaction given first.\<close>

definition watch_and_broadcast_stored :: "core \<Rightarrow> esb_event \<Rightarrow> tx_label \<Rightarrow> unit swapd_action" where
  "watch_and_broadcast_stored c ev l = bind (take_tx l) (\<lambda>tx. steps [
     give_new_task ev Bitcoin (watch_tx_btc (txid_of (c_tx c) tx) l)]
     (broadcast tx l))"

text \<open>The id of a transaction, taken out of the map, and a task that retrieves the transaction.\<close>

definition retrieve_known_tx :: "esb_event \<Rightarrow> tx_label \<Rightarrow> unit swapd_action" where
  "retrieve_known_tx ev l = reads (\<lambda>rt. hm_get (txids (tasks (syncer rt))) l) (\<lambda>txid.
     bind (lift_res (expect ''remove_entry unwrap'' txid)) (\<lambda>txid.
     bind (modify (on_syncer (on_tasks (\<lambda>ts. ts\<lparr>txids := hm_remove l (txids ts)\<rparr>)))) (\<lambda>_.
     give_new_task ev Bitcoin (retrieve_tx_btc txid l))))"

text \<open>The watch tasks of the Lock, Cancel and Refund transactions.\<close>

definition watch_core_txs :: "core \<Rightarrow> esb_event \<Rightarrow> core_arbitrating_setup \<Rightarrow> unit swapd_action" where
  "watch_core_txs c ev setup = for_each
     [(cas_lock setup, Lock), (cas_cancel setup, Cancel), (cas_refund setup, Refund)]
     (\<lambda>(tx, l). give_new_task ev Bitcoin (watch_tx_btc (txid_of (c_tx c) (extract_tx (c_tx c) tx)) l))"

section \<open>Interrupts after the lock\<close>

definition handle_bob_swap_interrupt_after_lock :: "esb_event \<Rightarrow> transition" where
  "handle_bob_swap_interrupt_after_lock ev =
     (if abort_requested ev then handle_abort_impossible ev else
      case seen_confs (ev_request ev) of
        Some (i, confs) \<Rightarrow> reads id (\<lambda>rt.
          if final_tx (safety rt) confs Bitcoin \<and> watches_tx rt i Lock \<and> valid_cancel (safety rt) confs
             \<and> hm_contains (rt_txs rt) Cancel
          then steps [broadcast_stored Cancel] (ret None)
          else if watches_tx rt i Cancel then ret (Some BobCanceled)
          else ret None)
      | None \<Rightarrow> ret None)"

definition handle_alice_swap_interrupt_after_lock :: "esb_event \<Rightarrow> wallet \<Rightarrow> transition" where
  "handle_alice_swap_interrupt_after_lock ev w =
     (case seen_confs (ev_request ev) of
        Some (i, confs) \<Rightarrow> reads id (\<lambda>rt.
          if watches_tx rt i Cancel
          then steps [
            reads (\<lambda>rt. awaiting_funding (syncer rt)) (\<lambda>awaiting. on awaiting (steps [
              send_ctl_service ev Farcasterd (FundingCanceled Monero)]
              (set_awaiting_funding False)))]
            (ret (Some (AliceCanceled w)))
          else if watches_tx rt i Lock \<and> valid_cancel (safety rt) confs \<and> hm_contains (rt_txs rt) Cancel
          then steps [broadcast_stored Cancel] (ret None)
          else if watches_tx rt i Cancel then ret (Some (AliceCanceled w))
          else ret None)
      | None \<Rightarrow> if abort_requested ev then handle_abort_impossible ev else ret None)"

section \<open>Start\<close>

text \<open>\<open>map_err\<close> with a report of the failure, whose own error is replaced by a termination.\<close>

definition or_report_failure :: "'a swapd_action \<Rightarrow> 'a swapd_action" where
  "or_report_failure m = bind (attempt m) (\<lambda>r. case r of
       Inr x \<Rightarrow> ret x
     | Inl err \<Rightarrow> bind (report_failure enquirer (Failure UnknownFailure (error_text err))) throw)"

definition attempt_transition_to_init_taker :: "core \<Rightarrow> esb_event \<Rightarrow> swap_role \<Rightarrow> transition" where
  "attempt_transition_to_init_taker c ev role = (case take_swap_request (ev_request ev) of
       Some (InitTakerSwap peerd report_to sid km btc xmr) \<Rightarrow>
         reads id (\<lambda>rt. if Swap sid \<noteq> identity rt then ret None else
         steps [
           watch_height Bitcoin,
           watch_height Monero,
           modify (\<lambda>rt. rt\<lparr>peer_service := peerd,
                          connected := (case peerd of Peer n _ \<Rightarrow> n \<noteq> 0 | _ \<Rightarrow> True)\<rparr>),
           modify (\<lambda>rt. rt\<lparr>enquirer := Some report_to\<rparr>)]
         (bind (new_taker c (rt_deal rt) btc xmr km sid) (\<lambda>w.
          bind (or_report_failure (taker_commit c (local_params w))) (\<lambda>local_commit.
          steps [send_peer (TakerCommitMsg (TakerCommit local_commit (rt_deal rt)))]
          (ret (Some (case role of
              Bob \<Rightarrow> BobInitTaker (local_params w) w
            | Alice \<Rightarrow> AliceInitTaker (local_params w) w)))))))
     | None \<Rightarrow> if abort_requested ev then handle_abort_swap ev else ret None)"

definition attempt_transition_to_init_maker :: "core \<Rightarrow> esb_event \<Rightarrow> swap_role \<Rightarrow> transition" where
  "attempt_transition_to_init_maker c ev role = (case make_swap_request (ev_request ev) of
       Some (InitMakerSwap peerd report_to sid km btc xmr remote_commit) \<Rightarrow>
         steps [
           watch_height Bitcoin,
           watch_height Monero]
         (reads rt_deal (\<lambda>d.
          bind (new_maker c d btc xmr km sid remote_commit) (\<lambda>w.
          steps [
            modify (\<lambda>rt. rt\<lparr>peer_service := peerd\<rparr>),
            modify (\<lambda>rt. if peerd \<noteq> Loopback then rt\<lparr>connected := True\<rparr> else rt),
            modify (\<lambda>rt. rt\<lparr>enquirer := Some report_to\<rparr>)]
          (bind (or_report_failure (maker_commit c sid (local_params w))) (\<lambda>local_commit.
          steps [send_peer (MakerCommitMsg local_commit)]
          (ret (Some (case role of
              Bob \<Rightarrow> BobInitMaker (local_params w) remote_commit w
            | Alice \<Rightarrow> AliceInitMaker (local_params w) remote_commit w))))))))
     | None \<Rightarrow> if abort_requested ev then handle_abort_swap ev else ret None)"

section \<open>Commitments and reveals\<close>

definition try_bob_init_taker_to_bob_taker_maker_commit ::
  "core \<Rightarrow> esb_event \<Rightarrow> params \<Rightarrow> wallet \<Rightarrow> transition" where
  "try_bob_init_taker_to_bob_taker_maker_commit c ev local w = (case peer_request (ev_request ev) of
       Some (DealNotFound _) \<Rightarrow> handle_bob_abort_swap c ev w
     | Some (MakerCommitMsg remote_commit) \<Rightarrow> reads rt_swap_id (\<lambda>sid.
         bind (lift_res (handle_maker_commit c w remote_commit sid)) (\<lambda>(reveal, w).
         steps [send_peer (RevealMsg reveal)]
         (ret (Some (BobTakerMakerCommit local remote_commit w)))))
     | _ \<Rightarrow> if abort_requested ev then handle_bob_abort_swap c ev w else ret None)"

definition try_alice_init_taker_to_alice_taker_maker_commit ::
  "core \<Rightarrow> esb_event \<Rightarrow> params \<Rightarrow> wallet \<Rightarrow> transition" where
  "try_alice_init_taker_to_alice_taker_maker_commit c ev local w = (case peer_request (ev_request ev) of
       Some (DealNotFound _) \<Rightarrow> handle_abort_swap ev
     | Some (MakerCommitMsg remote_commit) \<Rightarrow> reads rt_swap_id (\<lambda>sid.
         bind (lift_res (handle_maker_commit c w remote_commit sid)) (\<lambda>(reveal, w).
         steps [send_peer (RevealMsg reveal)]
         (ret (Some (AliceTakerMakerCommit local remote_commit w)))))
     | _ \<Rightarrow> if abort_requested ev then handle_abort_swap ev else ret None)"

text \<open>The reveal must open the commitment; any error becomes the same one.\<close>

definition validated_params :: "core \<Rightarrow> reveal \<Rightarrow> commit \<Rightarrow> string \<Rightarrow> (error, params) result" where
  "validated_params c reveal remote_commit msg = (case validate_reveal c reveal remote_commit of
       Ok ps \<Rightarrow> Ok ps
     | _ \<Rightarrow> Err (FarcasterErr (Fmt msg [])))"

definition attempt_transition_to_bob_reveal ::
  "core \<Rightarrow> esb_event \<Rightarrow> params \<Rightarrow> commit \<Rightarrow> wallet \<Rightarrow> transition" where
  "attempt_transition_to_bob_reveal c ev local remote_commit w = (case peer_request (ev_request ev) of
       Some (RevealMsg reveal) \<Rightarrow>
         bind (lift_res (validated_params c reveal remote_commit ''remote params validation failed'')) (\<lambda>remote.
         reads rt_swap_id (\<lambda>sid.
         bind (lift_res (handle_alice_reveals c w reveal sid)) (\<lambda>(bob_reveal, w).
         steps [
           (case bob_reveal of Some r \<Rightarrow> send_peer (RevealMsg r) | None \<Rightarrow> skip),
           watch_bitcoin_fee]
         (ret (Some (BobReveal local remote w))))))
     | _ \<Rightarrow> if abort_requested ev then handle_bob_abort_swap c ev w else ret None)"

definition attempt_transition_to_alice_reveal ::
  "core \<Rightarrow> esb_event \<Rightarrow> params \<Rightarrow> commit \<Rightarrow> wallet \<Rightarrow> transition" where
  "attempt_transition_to_alice_reveal c ev local remote_commit w = (case peer_request (ev_request ev) of
       Some (RevealMsg reveal) \<Rightarrow>
         bind (lift_res (validated_params c reveal remote_commit ''Remote params validation failed'')) (\<lambda>remote.
         reads rt_swap_id (\<lambda>sid.
         bind (lift_res (handle_bob_reveals c w reveal sid)) (\<lambda>(alice_reveal, w).
         steps [case alice_reveal of Some r \<Rightarrow> send_peer (RevealMsg r) | None \<Rightarrow> skip]
         (ret (Some (AliceReveal local remote w))))))
     | _ \<Rightarrow> if abort_requested ev then handle_abort_swap ev else ret None)"

definition try_bob_taker_maker_commit_to_bob_reveal ::
  "core \<Rightarrow> esb_event \<Rightarrow> params \<Rightarrow> commit \<Rightarrow> wallet \<Rightarrow> transition" where
  "try_bob_taker_maker_commit_to_bob_reveal = attempt_transition_to_bob_reveal"

definition try_alice_taker_maker_commit_to_alice_reveal ::
  "core \<Rightarrow> esb_event \<Rightarrow> params \<Rightarrow> commit \<Rightarrow> wallet \<Rightarrow> transition" where
  "try_alice_taker_maker_commit_to_alice_reveal = attempt_transition_to_alice_reveal"

definition try_bob_init_maker_to_bob_reveal ::
  "core \<Rightarrow> esb_event \<Rightarrow> params \<Rightarrow> commit \<Rightarrow> wallet \<Rightarrow> transition" where
  "try_bob_init_maker_to_bob_reveal = attempt_transition_to_bob_reveal"

definition try_alice_init_maker_to_alice_reveal ::
  "core \<Rightarrow> esb_event \<Rightarrow> params \<Rightarrow> commit \<Rightarrow> wallet \<Rightarrow> transition" where
  "try_alice_init_maker_to_alice_reveal = attempt_transition_to_alice_reveal"


section \<open>Bob, from the reveal to the lock\<close>

definition try_bob_reveal_to_bob_fee_estimated ::
  "core \<Rightarrow> esb_event \<Rightarrow> params \<Rightarrow> params \<Rightarrow> wallet \<Rightarrow> transition" where
  "try_bob_reveal_to_bob_fee_estimated c ev local remote w = (case seen_fees (ev_request ev) of
       Some (BitcoinFeeEstimation high _) \<Rightarrow>
         bind (lift_res (expect ''Am Bob, so have funding address'' (funding_address c w))) (\<lambda>addr.
         bind (ask_bob_to_fund high addr) (\<lambda>amount.
         steps [give_new_task ev Bitcoin (watch_addr_btc addr Funding)]
         (ret (Some (BobFeeEstimated local amount remote w)))))
     | None \<Rightarrow> if abort_requested ev then handle_bob_abort_swap c ev w else ret None)"

text \<open>The address creation height is set once, before the first checkpoint.\<close>

definition set_creation_height :: "unit swapd_action" where
  "set_creation_height = modify (\<lambda>rt. case monero_address_creation_height rt of
       None \<Rightarrow> rt\<lparr>monero_address_creation_height := Some (height (syncer rt) Monero)\<rparr>
     | Some _ \<Rightarrow> rt)"

definition try_bob_fee_estimated_to_bob_funded ::
  "core \<Rightarrow> esb_event \<Rightarrow> params \<Rightarrow> u64 \<Rightarrow> params \<Rightarrow> wallet \<Rightarrow> transition" where
  "try_bob_fee_estimated_to_bob_funded c ev local required remote w = reads id (\<lambda>rt.
     case seen_address_tx (ev_request ev) of
       Some (AddressTransaction i _ amount _ chunks _) \<Rightarrow>
         (if watches_addr rt i Funding \<and> awaiting_funding (syncer rt) then
           bind (lift_res (case deserialize_tx (c_tx c) (concat chunks) of
                    Inr tx \<Rightarrow> Ok tx | Inl e \<Rightarrow> Err (from_encode_error e))) (\<lambda>tx.
           bind (set_awaiting_funding False) (\<lambda>_.
           if amount \<noteq> required
           then bind (report_progress_message enquirer
                  (Fmt ''Incorrect amount funded. Required: {}, Funded: {}. Do not fund this swap anymore, will abort and atttempt to sweep the Bitcoin to the provided address.''
                     [TNum (unat amount), TNum (unat required)])) (\<lambda>_.
                handle_bob_abort_swap c ev w)
           else
             bind (send_ctl_service ev Farcasterd (FundingCompleted Bitcoin)) (\<lambda>_.
             bind (lift_res (process_funding_tx c w (FundingTx tx))) (\<lambda>w.
             bind (lift_res (create_core_arb c w (rt_swap_id rt))) (\<lambda>(setup, w).
             let new_ssm = BobFunded local remote w in
             steps [
               watch_core_txs c ev setup,
               set_creation_height,
               checkpoint_state c (Some (CoreArbitratingSetupMsg setup)) new_ssm,
               send_peer (CoreArbitratingSetupMsg setup)]
             (ret (Some new_ssm)))))))
          else ret None)
     | None \<Rightarrow> if abort_requested ev then handle_bob_abort_swap c ev w else ret None)"

text \<open>The shared Monero address is watched when both parameters are of the right kind.\<close>

definition watch_shared_address ::
  "core \<Rightarrow> esb_event \<Rightarrow> parameters \<Rightarrow> parameters \<Rightarrow> u64 option \<Rightarrow> unit swapd_action" where
  "watch_shared_address c ev alice_params bob_params start =
     bind (lift_res (aggregate_xmr_spend_view c alice_params bob_params)) (\<lambda>(spend, view).
     give_new_task ev Monero (watch_addr_xmr spend view AccLock start))"

definition try_bob_funded_to_bob_refund_procedure_signature ::
  "core \<Rightarrow> esb_event \<Rightarrow> params \<Rightarrow> params \<Rightarrow> wallet \<Rightarrow> transition" where
  "try_bob_funded_to_bob_refund_procedure_signature c ev local remote w =
     (case peer_request (ev_request ev) of
       Some (RefundProcedureSignaturesMsg refund_proc) \<Rightarrow>
         reads rt_swap_id (\<lambda>sid.
         bind (lift_res (handle_refund_procedure_signatures c w refund_proc sid))
           (\<lambda>(res, w). case res of RefundProcedureRes bps lock_tx cancel_tx refund_tx \<Rightarrow>
         let buy_txid = txid_of (c_tx c) (extract_tx (c_tx c) (bps_buy bps));
             new_ssm = BobRefundProcedureSignatures local remote w bps
         in steps [
           (case (local, remote) of
              (BobParams bob_params, AliceParams alice_params) \<Rightarrow>
                watch_shared_address c ev alice_params bob_params None
            | _ \<Rightarrow> skip),
           insert_tx Cancel cancel_tx,
           insert_tx Refund refund_tx,
           give_new_task ev Bitcoin (watch_tx_btc buy_txid Buy),
           modify (on_syncer (\<lambda>s. snd (broadcast_task lock_tx s))),
           checkpoint_state c None new_ssm,
           broadcast lock_tx Lock]
         (ret (Some new_ssm))))
     | _ \<Rightarrow> if abort_requested ev then handle_bob_abort_swap c ev w else ret None)"

section \<open>Bob, after the lock\<close>

text \<open>
  The watched Monero address has received: its task is dropped and the transaction is watched
  instead. The task of the transaction is given before the other is aborted.
\<close>

definition watch_found_xmr :: "esb_event \<Rightarrow> task_id \<Rightarrow> bytes \<Rightarrow> unit swapd_action" where
  "watch_found_xmr ev i hash =
     reads (\<lambda>rt. hm_get (watched_addrs (tasks (syncer rt))) i) (\<lambda>l. case l of
       None \<Rightarrow> skip
     | Some l \<Rightarrow> steps [
         modify (on_syncer (on_tasks (\<lambda>ts. ts\<lparr>watched_addrs := hm_remove i (watched_addrs ts)\<rparr>))),
         give_new_task ev Monero (watch_tx_xmr hash l)]
         (give_task ev Monero (abort_task i)))"

definition try_bob_refund_procedure_signatures_to_bob_accordant_lock ::
  "esb_event \<Rightarrow> params \<Rightarrow> params \<Rightarrow> wallet \<Rightarrow> buy_procedure_signature \<Rightarrow> transition" where
  "try_bob_refund_procedure_signatures_to_bob_accordant_lock ev local remote w bps = reads id (\<lambda>rt.
     case seen_address_tx (ev_request ev) of
       Some (AddressTransaction i hash amount _ _ incoming) \<Rightarrow>
         (if hm_contains (watched_addrs (tasks (syncer rt))) i
             \<and> is_watched_addr AccLock (syncer rt) \<and> watches_addr rt i AccLock \<and> incoming
          then (if amount < dp_accordant_amount (deal_params (rt_deal rt)) then ret None
                else steps [watch_found_xmr ev i hash] (ret (Some (BobAccordantLock local remote w bps))))
          else handle_bob_swap_interrupt_after_lock ev)
     | None \<Rightarrow> handle_bob_swap_interrupt_after_lock ev)"

definition try_bob_accordant_lock_to_bob_accordant_lock_final ::
  "esb_event \<Rightarrow> params \<Rightarrow> params \<Rightarrow> wallet \<Rightarrow> buy_procedure_signature \<Rightarrow> transition" where
  "try_bob_accordant_lock_to_bob_accordant_lock_final ev local remote w bps = reads id (\<lambda>rt.
     case seen_confs (ev_request ev) of
       Some (i, confs) \<Rightarrow>
         (if final_tx (safety rt) confs Monero \<and> watches_tx rt i AccLock
          then steps [send_peer (BuyProcedureSignatureMsg bps)] (ret (Some (BobAccordantLockFinal local remote w)))
          else handle_bob_swap_interrupt_after_lock ev)
     | None \<Rightarrow> handle_bob_swap_interrupt_after_lock ev)"

text \<open>The sweep task of the client, kept in the new state until the outputs are spendable.\<close>

definition sweep_monero_to :: "(sweep_address \<Rightarrow> swap_state_machine) \<Rightarrow> sweep_monero_address \<Rightarrow> transition" where
  "sweep_monero_to final_state addendum = bind (with_syncer (sweep_xmr addendum True)) (\<lambda>task. case task of
       SweepAddressTask sweep \<Rightarrow> ret (Some (final_state sweep))
     | _ \<Rightarrow> ret None)"

text \<open>
  The guard of the second arm takes the retrieving task out of the map, whether or not it is of
  the Buy transaction.
\<close>

definition try_bob_accordant_lock_final_to_bob_buy_final ::
  "core \<Rightarrow> esb_event \<Rightarrow> params \<Rightarrow> params \<Rightarrow> wallet \<Rightarrow> transition" where
  "try_bob_accordant_lock_final_to_bob_buy_final c ev local remote w = reads id (\<lambda>rt.
     case seen_confs (ev_request ev) of
       Some (i, confs) \<Rightarrow>
         (if final_tx (safety rt) confs Bitcoin \<and> watches_tx rt i Buy \<and> hm_contains (txids (tasks (syncer rt))) Buy
          then steps [record_btc_confs i confs, retrieve_known_tx ev Buy]
                 (ret (Some (BobAccordantLockFinal local remote w)))
          else handle_bob_swap_interrupt_after_lock ev)
     | None \<Rightarrow> (case retrieved_tx (ev_request ev) of
         Some (i, tx) \<Rightarrow>
           steps [modify (on_syncer (on_tasks (\<lambda>ts. ts\<lparr>retrieving_txs := hm_remove i (retrieving_txs ts)\<rparr>)))]
           (case hm_get (retrieving_txs (tasks (syncer rt))) i of
              Some (Buy, _) \<Rightarrow>
                bind (process_buy_tx c w tx (rt_swap_id rt) (monero_address_creation_height rt))
                  (sweep_monero_to BobBuyFinal)
            | _ \<Rightarrow> handle_bob_swap_interrupt_after_lock ev)
       | None \<Rightarrow> handle_bob_swap_interrupt_after_lock ev))"

definition try_bob_buy_final_to_bob_buy_sweeping :: "esb_event \<Rightarrow> sweep_address \<Rightarrow> transition" where
  "try_bob_buy_final_to_bob_buy_sweeping ev sweep = reads id (\<lambda>rt.
     case seen_confs (ev_request ev) of
       Some (_, confs) \<Rightarrow>
         (if confs \<ge> sweep_monero_thr (safety rt)
          then steps [give_task ev Monero (SweepAddressTask sweep)] (ret (Some BobBuySweeping))
          else ret None)
     | None \<Rightarrow> ret None)"

definition try_bob_cancel_final_to_swap_end :: "esb_event \<Rightarrow> transition" where
  "try_bob_cancel_final_to_swap_end ev = reads id (\<lambda>rt.
     case seen_confs (ev_request ev) of
       Some (i, confs) \<Rightarrow>
         (if final_tx (safety rt) confs Bitcoin \<and> watches_tx rt i Refund
          then steps [record_btc_confs i confs, abort_all_tasks ev, remove_txs outdated_txs]
                 (ret (Some (SwapEnd FailureRefund)))
          else ret None)
     | None \<Rightarrow> ret None)"

definition try_bob_canceled_to_bob_cancel_final :: "esb_event \<Rightarrow> transition" where
  "try_bob_canceled_to_bob_cancel_final ev = reads id (\<lambda>rt.
     case seen_confs (ev_request ev) of
       Some (i, confs) \<Rightarrow>
         (if final_tx (safety rt) confs Bitcoin \<and> watches_tx rt i Cancel \<and> hm_contains (rt_txs rt) Refund
          then steps [record_btc_confs i confs, broadcast_stored Refund] (ret (Some BobCancelFinal))
          else ret None)
     | None \<Rightarrow> ret None)"

definition end_aborted_sweep :: "esb_event \<Rightarrow> transition" where
  "end_aborted_sweep ev = steps [event_send_client_ctl ev Farcasterd (FundingCanceled Bitcoin)]
     (ret (Some (SwapEnd FailureAbort)))"

definition try_awaiting_sweep_to_swap_end :: "esb_event \<Rightarrow> transition" where
  "try_awaiting_sweep_to_swap_end ev = reads id (\<lambda>rt.
     case tasks_aborted (ev_request ev) of
       Some ids \<Rightarrow> (case ids of
           [i] \<Rightarrow> if sweeping_addr (tasks (syncer rt)) = Some i then end_aborted_sweep ev else ret None
         | _ \<Rightarrow> ret None)
     | None \<Rightarrow> (case sweep_success (ev_request ev) of
         Some i \<Rightarrow> if sweeping_addr (tasks (syncer rt)) = Some i then end_aborted_sweep ev else ret None
       | None \<Rightarrow> ret None))"


section \<open>Alice\<close>

definition try_alice_reveal_to_alice_core_arbitrating_setup ::
  "core \<Rightarrow> esb_event \<Rightarrow> params \<Rightarrow> params \<Rightarrow> wallet \<Rightarrow> transition" where
  "try_alice_reveal_to_alice_core_arbitrating_setup c ev local remote w =
     (case peer_request (ev_request ev) of
       Some (CoreArbitratingSetupMsg setup) \<Rightarrow>
         bind (watch_core_txs c ev setup) (\<lambda>_.
         reads rt_swap_id (\<lambda>sid.
         bind (lift_res (handle_core_arbitrating_setup c w setup sid)) (\<lambda>(res, w).
         case res of CoreArbitratingSetupRes rps cancel_tx punish_tx \<Rightarrow>
         let new_ssm = AliceCoreArbitratingSetup local remote w in
         steps [
           insert_tx Cancel cancel_tx,
           insert_tx Punish punish_tx,
           checkpoint_state c (Some (RefundProcedureSignaturesMsg rps)) new_ssm,
           send_peer (RefundProcedureSignaturesMsg rps)]
         (ret (Some new_ssm)))))
     | _ \<Rightarrow> if abort_requested ev then handle_abort_swap ev else ret None)"

definition try_alice_core_arbitrating_setup_to_alice_arbitrating_lock_final ::
  "core \<Rightarrow> esb_event \<Rightarrow> params \<Rightarrow> params \<Rightarrow> wallet \<Rightarrow> transition" where
  "try_alice_core_arbitrating_setup_to_alice_arbitrating_lock_final c ev local remote w = reads id (\<lambda>rt.
     case seen_confs (ev_request ev) of
       Some (i, confs) \<Rightarrow>
         (if final_tx (safety rt) confs Bitcoin \<and> watches_tx rt i Lock then
           (case (local, remote) of
              (AliceParams alice_params, BobParams bob_params) \<Rightarrow>
                bind (lift_res (aggregate_xmr_spend_view c alice_params bob_params)) (\<lambda>(spend, view).
                bind set_creation_height (\<lambda>_.
                bind own_swap_id (\<lambda>sid.
                let address = address_from_viewpair (c_xmr c) (sc_network (syncer rt)) spend view;
                    amount = dp_accordant_amount (deal_params (rt_deal rt))
                in reads monero_address_creation_height (\<lambda>start.
                steps [give_new_task ev Monero (watch_addr_xmr spend view AccLock start)]
                (ret (Some (AliceArbitratingLockFinal w (MoneroFundingInfo sid amount address) amount)))))))
            | _ \<Rightarrow> ret None)
          else handle_alice_swap_interrupt_after_lock ev w)
     | None \<Rightarrow> handle_alice_swap_interrupt_after_lock ev w)"

text \<open>The user is asked to fund, and told not to, only while the funding is awaited.\<close>

definition funding_completed_if_awaited :: "esb_event \<Rightarrow> blockchain \<Rightarrow> unit swapd_action" where
  "funding_completed_if_awaited ev b = reads (\<lambda>rt. awaiting_funding (syncer rt)) (\<lambda>awaiting.
     on awaiting (steps [send_ctl_service ev Farcasterd (FundingCompleted b)] (set_awaiting_funding False)))"

definition clear_funding_then_complete :: "esb_event \<Rightarrow> blockchain \<Rightarrow> unit swapd_action" where
  "clear_funding_then_complete ev b = reads (\<lambda>rt. awaiting_funding (syncer rt)) (\<lambda>awaiting.
     on awaiting (steps [set_awaiting_funding False] (send_ctl_service ev Farcasterd (FundingCompleted b))))"

text \<open>The Monero funding of Alice has arrived.\<close>

definition alice_funded :: "esb_event \<Rightarrow> wallet \<Rightarrow> u64 \<Rightarrow> task_id \<Rightarrow> bytes \<Rightarrow> u64 \<Rightarrow> transition" where
  "alice_funded ev w required i hash amount =
     bind (with_syncer (watch_tx_xmr hash AccLock)) (\<lambda>task. steps [
       funding_completed_if_awaited ev Monero,
       give_task ev Monero task,
       reads (\<lambda>rt. hm_contains (watched_addrs (tasks (syncer rt))) i) (\<lambda>watched. on watched (steps [
         modify (on_syncer (on_tasks (\<lambda>ts. ts\<lparr>watched_addrs := hm_remove i (watched_addrs ts)\<rparr>)))]
         (give_task ev Monero (abort_task i)))),
       on (amount < required) (report_progress_message enquirer
         (Fmt ''Too small amount funded. Required: {}, Funded: {}. Do not fund this swap anymore, will attempt to refund.'' [TNum (unat required), TNum (unat amount)])),
       on (amount > required) (report_progress_message enquirer
         (Fmt ''Too big amount funded. Required: {}, Funded: {}. Do not fund this swap anymore, will attempt to refund.'' [TNum (unat required), TNum (unat amount)]))]
     (ret (Some (if amount > required then AliceCanceled w else AliceAccordantLock w))))"

definition try_alice_arbitrating_lock_final_to_alice_accordant_lock ::
  "esb_event \<Rightarrow> wallet \<Rightarrow> monero_funding_info \<Rightarrow> u64 \<Rightarrow> transition" where
  "try_alice_arbitrating_lock_final_to_alice_accordant_lock ev w info required = reads id (\<lambda>rt.
     let same = AliceArbitratingLockFinal w info required in
     case empty_event (ev_request ev) of
       Some i \<Rightarrow>
         (if watches_addr rt i AccLock
          then steps [
            set_awaiting_funding True,
            (case enquirer rt of
               Some enq \<Rightarrow> send_ctl_service ev enq (FundingInfoCtl (MoneroFunding info))
             | None \<Rightarrow> skip)]
            (ret (Some same))
          else handle_alice_swap_interrupt_after_lock ev w)
     | None \<Rightarrow> (case seen_confs (ev_request ev) of
         Some (i, confs) \<Rightarrow>
           (if final_tx (safety rt) confs Bitcoin \<and> watches_tx rt i Lock
               \<and> stop_funding_before_cancel (safety rt) confs \<and> awaiting_funding (syncer rt)
            then steps [
              complete_ctl_service ev Farcasterd (FundingCanceled Monero),
              set_awaiting_funding False]
              (ret (Some same))
            else handle_alice_swap_interrupt_after_lock ev w)
       | None \<Rightarrow> (case seen_address_tx (ev_request ev) of
           Some (AddressTransaction i hash amount _ _ incoming) \<Rightarrow>
             (if watches_addr rt i AccLock \<and> incoming then alice_funded ev w required i hash amount
              else handle_alice_swap_interrupt_after_lock ev w)
         | None \<Rightarrow> handle_alice_swap_interrupt_after_lock ev w)))"

text \<open>The confirmations in the last final event of the Lock transaction.\<close>

definition last_lock_confs :: "runtime \<Rightarrow> u32 option" where
  "last_lock_confs rt = (case lock_tx_confs (syncer rt) of
       Some m \<Rightarrow> map_option snd (seen_confs (Sync m))
     | None \<Rightarrow> None)"

definition try_alice_accordant_lock_to_alice_buy_procedure_signature ::
  "core \<Rightarrow> esb_event \<Rightarrow> wallet \<Rightarrow> transition" where
  "try_alice_accordant_lock_to_alice_buy_procedure_signature c ev w =
     (case peer_request (ev_request ev) of
       Some (BuyProcedureSignatureMsg bps) \<Rightarrow>
         bind (give_new_task ev Bitcoin
                (watch_tx_btc (txid_of (c_tx c) (extract_tx (c_tx c) (bps_buy bps))) Buy)) (\<lambda>_.
         reads rt_swap_id (\<lambda>sid.
         bind (lift_res (handle_buy_procedure_signature c w bps sid)) (\<lambda>res.
         case res of BuyProcedureRes cancel_tx buy_tx \<Rightarrow>
         steps [
           insert_tx Cancel cancel_tx,
           insert_tx Buy buy_tx]
         (reads id (\<lambda>rt.
           if (case last_lock_confs rt of Some confs \<Rightarrow> valid_cancel (safety rt) confs | None \<Rightarrow> False)
           then steps [broadcast cancel_tx Cancel] (ret (Some (AliceCanceled w)))
           else steps [
             broadcast buy_tx Buy,
             checkpoint_state c None AliceBuyProcedureSignature]
             (ret (Some AliceBuyProcedureSignature)))))))
     | _ \<Rightarrow> handle_alice_swap_interrupt_after_lock ev w)"

definition try_alice_buy_procedure_signature_to_swap_end :: "esb_event \<Rightarrow> transition" where
  "try_alice_buy_procedure_signature_to_swap_end ev = reads id (\<lambda>rt.
     case seen_confs (ev_request ev) of
       Some (i, confs) \<Rightarrow>
         (if final_tx (safety rt) confs Bitcoin \<and> watches_tx rt i Buy
          then steps [record_btc_confs i confs, abort_all_tasks ev, remove_txs [Cancel, Punish]]
                 (ret (Some (SwapEnd SuccessSwap)))
          else ret None)
     | None \<Rightarrow> ret None)"

definition end_of_swap :: "esb_event \<Rightarrow> outcome \<Rightarrow> transition" where
  "end_of_swap ev o' = steps [abort_all_tasks ev, remove_txs outdated_txs] (ret (Some (SwapEnd o')))"

definition try_alice_canceled_to_alice_refund_or_alice_punish ::
  "core \<Rightarrow> esb_event \<Rightarrow> wallet \<Rightarrow> transition" where
  "try_alice_canceled_to_alice_refund_or_alice_punish c ev w = reads id (\<lambda>rt.
     case seen_confs (ev_request ev) of
       Some (i, confs) \<Rightarrow>
         (if \<not> final_tx (safety rt) confs Bitcoin then ret None
          else if watches_tx rt i Refund \<and> hm_contains (txids (tasks (syncer rt))) Refund
          then steps [retrieve_known_tx ev Refund] (ret (Some (AliceCanceled w)))
          else if watches_tx rt i Cancel \<and> valid_punish (safety rt) confs \<and> hm_contains (rt_txs rt) Punish
          then steps [watch_and_broadcast_stored c ev Punish] (ret (Some (AliceCanceled w)))
          else if watches_tx rt i Punish then end_of_swap ev FailurePunish
          else if watches_tx rt i Lock \<and> valid_cancel (safety rt) confs \<and> hm_contains (rt_txs rt) Cancel
          then steps [watch_and_broadcast_stored c ev Cancel] (ret (Some (AliceCanceled w)))
          else ret None)
     | None \<Rightarrow> (case retrieved_tx (ev_request ev) of
         Some (i, tx) \<Rightarrow> (case hm_get (retrieving_txs (tasks (syncer rt))) i of
             Some (Refund, _) \<Rightarrow>
               bind (modify (on_syncer (on_tasks (\<lambda>ts. ts\<lparr>retrieving_txs := hm_remove i (retrieving_txs ts)\<rparr>)))) (\<lambda>_.
               bind (process_refund_tx c w tx (rt_swap_id rt) (monero_address_creation_height rt)) (\<lambda>addendum.
               reads id (\<lambda>rt.
               if hm_contains (confirmations (syncer rt)) AccLock then sweep_monero_to AliceRefund addendum
               else bind (clear_funding_then_complete ev Monero) (\<lambda>_. end_of_swap ev FailureRefund))))
           | _ \<Rightarrow> ret None)
       | None \<Rightarrow> ret None))"

definition try_alice_refund_to_alice_refund_sweeping :: "esb_event \<Rightarrow> sweep_address \<Rightarrow> transition" where
  "try_alice_refund_to_alice_refund_sweeping ev sweep = reads id (\<lambda>rt.
     case seen_confs (ev_request ev) of
       Some (_, confs) \<Rightarrow>
         (if confs \<ge> sweep_monero_thr (safety rt)
          then steps [give_task ev Monero (SweepAddressTask sweep)] (ret (Some AliceRefundSweeping))
          else ret None)
     | None \<Rightarrow> ret None)"

definition end_after_sweep :: "esb_event \<Rightarrow> blockchain \<Rightarrow> outcome \<Rightarrow> transition" where
  "end_after_sweep ev b o' = reads id (\<lambda>rt.
     case sweep_success (ev_request ev) of
       Some i \<Rightarrow>
         (if sweeping_addr (tasks (syncer rt)) = Some i
          then steps [clear_funding_then_complete ev b] (end_of_swap ev o')
          else ret None)
     | None \<Rightarrow> ret None)"

definition try_alice_refund_sweeping_to_swap_end :: "esb_event \<Rightarrow> transition" where
  "try_alice_refund_sweeping_to_swap_end ev = end_after_sweep ev Monero FailureRefund"

definition try_bob_buy_sweeping_to_swap_end :: "esb_event \<Rightarrow> transition" where
  "try_bob_buy_sweeping_to_swap_end ev = end_after_sweep ev Bitcoin SuccessSwap"

section \<open>The state machine\<close>

fun next_state :: "core \<Rightarrow> swap_state_machine \<Rightarrow> esb_event \<Rightarrow> transition" where
  "next_state c (StartTaker role) ev = attempt_transition_to_init_taker c ev role"
| "next_state c (StartMaker role) ev = attempt_transition_to_init_maker c ev role"
| "next_state c (BobInitTaker l w) ev = try_bob_init_taker_to_bob_taker_maker_commit c ev l w"
| "next_state c (AliceInitTaker l w) ev = try_alice_init_taker_to_alice_taker_maker_commit c ev l w"
| "next_state c (BobTakerMakerCommit l rc w) ev = try_bob_taker_maker_commit_to_bob_reveal c ev l rc w"
| "next_state c (AliceTakerMakerCommit l rc w) ev = try_alice_taker_maker_commit_to_alice_reveal c ev l rc w"
| "next_state c (BobInitMaker l rc w) ev = try_bob_init_maker_to_bob_reveal c ev l rc w"
| "next_state c (AliceInitMaker l rc w) ev = try_alice_init_maker_to_alice_reveal c ev l rc w"
| "next_state c (BobReveal l r w) ev = try_bob_reveal_to_bob_fee_estimated c ev l r w"
| "next_state c (BobFeeEstimated l amount r w) ev = try_bob_fee_estimated_to_bob_funded c ev l amount r w"
| "next_state c (BobFunded l r w) ev = try_bob_funded_to_bob_refund_procedure_signature c ev l r w"
| "next_state c (BobRefundProcedureSignatures l r w bps) ev =
     try_bob_refund_procedure_signatures_to_bob_accordant_lock ev l r w bps"
| "next_state c (BobAccordantLock l r w bps) ev = try_bob_accordant_lock_to_bob_accordant_lock_final ev l r w bps"
| "next_state c (BobAccordantLockFinal l r w) ev = try_bob_accordant_lock_final_to_bob_buy_final c ev l r w"
| "next_state c (BobBuyFinal sweep) ev = try_bob_buy_final_to_bob_buy_sweeping ev sweep"
| "next_state c BobBuySweeping ev = try_bob_buy_sweeping_to_swap_end ev"
| "next_state c BobCanceled ev = try_bob_canceled_to_bob_cancel_final ev"
| "next_state c BobCancelFinal ev = try_bob_cancel_final_to_swap_end ev"
| "next_state c BobAbortAwaitingBitcoinSweep ev = try_awaiting_sweep_to_swap_end ev"
| "next_state c (AliceReveal l r w) ev = try_alice_reveal_to_alice_core_arbitrating_setup c ev l r w"
| "next_state c (AliceCoreArbitratingSetup l r w) ev =
     try_alice_core_arbitrating_setup_to_alice_arbitrating_lock_final c ev l r w"
| "next_state c (AliceArbitratingLockFinal w info amount) ev =
     try_alice_arbitrating_lock_final_to_alice_accordant_lock ev w info amount"
| "next_state c (AliceAccordantLock w) ev = try_alice_accordant_lock_to_alice_buy_procedure_signature c ev w"
| "next_state c AliceBuyProcedureSignature ev = try_alice_buy_procedure_signature_to_swap_end ev"
| "next_state c (AliceCanceled w) ev = try_alice_canceled_to_alice_refund_or_alice_punish c ev w"
| "next_state c (AliceRefund sweep) ev = try_alice_refund_to_alice_refund_sweeping ev sweep"
| "next_state c AliceRefundSweeping ev = try_alice_refund_sweeping_to_swap_end ev"
| "next_state c (SwapEnd _) ev = ret None"

text \<open>\<open>SwapStateMachineExecutor::execute\<close>.\<close>

definition sm_execute :: "core \<Rightarrow> service_id \<Rightarrow> bus_msg \<Rightarrow> swap_state_machine \<Rightarrow> transition" where
  "sm_execute c source request sm = reads identity (\<lambda>me. next_state c sm (EsbEvent me source request))"

end
