(* ===== verification/SwapdRuntime.thy ===== *)
theory SwapdRuntime
  imports SwapState
begin

text \<open>
  \<open>swapd/runtime.rs\<close>: the message handlers of a swap daemon and the loop that runs its state
  machine. After a transition the loop replays the peer message that was not handled yet and the
  last final confirmations of the Buy, Lock and Cancel transactions, and each replay can run the
  loop again: the recursion takes fuel, and running out of it is the outcome \<open>Hang\<close>.
\<close>

section \<open>Peer messages\<close>

text \<open>The handlers the loop calls take the loop as an argument.\<close>

type_synonym runner = "service_id \<Rightarrow> bus_msg \<Rightarrow> unit swapd_action"

fun unsupported_peer_msg :: "peer_msg \<Rightarrow> error option" where
  "unsupported_peer_msg (AbortPeer _) = Some (FarcasterErr (Fmt ''Abort not yet supported'' []))"
| "unsupported_peer_msg (Ping _) = Some (FarcasterErr (Fmt ''Ping/Pong must remain in peerd, not supported in swapd'' []))"
| "unsupported_peer_msg (Pong _) = Some (FarcasterErr (Fmt ''Ping/Pong must remain in peerd, not supported in swapd'' []))"
| "unsupported_peer_msg PingPeer = Some (FarcasterErr (Fmt ''Ping/Pong must remain in peerd, not supported in swapd'' []))"
| "unsupported_peer_msg _ = None"

definition handle_msg :: "runner \<Rightarrow> service_id \<Rightarrow> peer_msg \<Rightarrow> unit swapd_action" where
  "handle_msg run source request = reads id (\<lambda>rt.
     if is_peer source \<and> peer_service rt \<noteq> source
     then throw (FarcasterErr (Fmt ''Incorrect peer connection: expected {}, found {}''
            [TService (peer_service rt), TService source]))
     else bind (lift_res (peer_msg_swap_id request)) (\<lambda>msg_swap_id.
          bind own_swap_id (\<lambda>own.
          if msg_swap_id \<noteq> own
          then throw (FarcasterErr (Fmt ''{} | Incorrect swap_id: expected {}, found {}''
                 [TSwap (rt_swap_id rt), TSwap own, TSwap msg_swap_id]))
          else case unsupported_peer_msg request of
            Some err \<Rightarrow> throw err
          | None \<Rightarrow> run source (P2p request))))"

section \<open>Syncer messages\<close>

definition monero_event :: "event \<Rightarrow> unit swapd_action" where
  "monero_event ev = (case ev of
       HeightChangedEv h \<Rightarrow> modify (on_syncer (handle_height_change (hch_height h) Monero))
     | TransactionConfirmationsEv t \<Rightarrow>
         modify (\<lambda>rt. on_syncer (handle_tx_confs (tc_id t) (tc_confirmations t) (xmr_finality_thr (safety rt))) rt)
     | _ \<Rightarrow> skip)"

text \<open>The last final confirmations of the three transactions, kept to be replayed.\<close>

definition save_confs :: "sync_msg \<Rightarrow> task_id \<Rightarrow> syncer_client \<Rightarrow> syncer_client" where
  "save_confs request i s = (case hm_get (watched_txs (tasks s)) i of
       Some Lock \<Rightarrow> s\<lparr>lock_tx_confs := Some request\<rparr>
     | Some Cancel \<Rightarrow> s\<lparr>cancel_tx_confs := Some request\<rparr>
     | Some Buy \<Rightarrow> s\<lparr>buy_tx_confs := Some request\<rparr>
     | _ \<Rightarrow> s)"

definition bitcoin_event :: "event \<Rightarrow> unit swapd_action" where
  "bitcoin_event ev = (case ev of
       HeightChangedEv h \<Rightarrow> modify (on_syncer (handle_height_change (hch_height h) Bitcoin))
     | TransactionRetrievedEv (TransactionRetrieved i tx) \<Rightarrow>
         reads (\<lambda>rt. hm_get (retrieving_txs (tasks (syncer rt))) i) (\<lambda>retrieving. case (tx, retrieving) of
             (None, Some (_, task)) \<Rightarrow> send_task Bitcoin task
           | _ \<Rightarrow> skip)
     | TransactionConfirmationsEv (TransactionConfirmations i blk confs tx) \<Rightarrow>
         reads id (\<lambda>rt. steps [
           modify (on_syncer (handle_tx_confs i confs (btc_finality_thr (safety rt))))]
           (case confs of
              Some n \<Rightarrow> on (final_tx (safety rt) n Bitcoin \<and> hm_contains (watched_txs (tasks (syncer rt))) i)
                (modify (on_syncer (save_confs (EventMsg ev) i)))
            | None \<Rightarrow> skip))
     | TransactionBroadcastedEv t \<Rightarrow> modify (on_syncer (transaction_broadcasted t))
     | _ \<Rightarrow> skip)"

definition handle_sync :: "runner \<Rightarrow> service_id \<Rightarrow> sync_msg \<Rightarrow> unit swapd_action" where
  "handle_sync run source request = reads syncer (\<lambda>s. steps [
     case request of
       EventMsg ev \<Rightarrow> if source = monero_syncer s then monero_event ev
                       else if source = bitcoin_syncer s then bitcoin_event ev
                       else skip
     | _ \<Rightarrow> skip]
     (run source (Sync request)))"

section \<open>The loop: execute_state_machine\<close>

text \<open>
  The end of a swap is reported at once, and again after the outcome went to farcasterd. The
  comparison of \<open>type_id()\<close> is between two values of the type of peer messages: it holds whenever
  there is an unhandled message, so a transition on a peer message always clears it.
\<close>

definition replay_events :: "runner \<Rightarrow> service_id \<Rightarrow> unit swapd_action" where
  "replay_events run source = steps [
     reads unhandled_peer_message (\<lambda>m. case m of Some m \<Rightarrow> handle_msg run source m | None \<Rightarrow> skip),
     reads (\<lambda>rt. buy_tx_confs (syncer rt)) (\<lambda>m. case m of Some m \<Rightarrow> handle_sync run source m | None \<Rightarrow> skip),
     reads (\<lambda>rt. lock_tx_confs (syncer rt)) (\<lambda>m. case m of Some m \<Rightarrow> handle_sync run source m | None \<Rightarrow> skip)]
     (reads (\<lambda>rt. cancel_tx_confs (syncer rt)) (\<lambda>m. case m of Some m \<Rightarrow> handle_sync run source m | None \<Rightarrow> skip))"

definition report_end :: "outcome \<Rightarrow> unit swapd_action" where
  "report_end o' = steps [
     report_potential_state_change,
     send_ctl (Some Farcasterd) (Ctl (SwapOutcome o'))]
     report_potential_state_change"

definition after_transition :: "runner \<Rightarrow> service_id \<Rightarrow> bus_msg \<Rightarrow> swap_state_machine \<Rightarrow> unit swapd_action" where
  "after_transition run source msg ssm = (case ssm of
       SwapEnd o' \<Rightarrow> report_end o'
     | _ \<Rightarrow> steps [on (peer_request msg \<noteq> None) (modify (\<lambda>rt. rt\<lparr>unhandled_peer_message := None\<rparr>))]
              (replay_events run source))"

definition execute_step :: "core \<Rightarrow> runner \<Rightarrow> runner" where
  "execute_step c run source msg = reads swap_state (\<lambda>sm.
     bind (sm_execute c source msg sm) (\<lambda>r. case r of
       Some ssm \<Rightarrow> steps [modify (\<lambda>rt. rt\<lparr>swap_state := ssm\<rparr>)] (after_transition run source msg ssm)
     | None \<Rightarrow> (case peer_request msg of
         Some m \<Rightarrow> modify (\<lambda>rt. rt\<lparr>unhandled_peer_message := Some m\<rparr>)
       | None \<Rightarrow> skip)))"

primrec execute_state_machine :: "core \<Rightarrow> nat \<Rightarrow> runner" where
  "execute_state_machine c 0 = (\<lambda>source msg. lift_res Hang)"
| "execute_state_machine c (Suc n) = execute_step c (execute_state_machine c n)"

text \<open>More fuel than any run of the loop uses.\<close>

definition replay_fuel :: nat where
  "replay_fuel = 4096"

definition machine :: "core \<Rightarrow> runner" where
  "machine c = execute_state_machine c replay_fuel"

section \<open>Control messages\<close>

text \<open>
  A checkpoint restored: the state, then both heights, the transactions that were watched, those
  still to be broadcast, and the message that was on its way.
\<close>

definition restore_checkpoint :: "checkpoint_swapd \<Rightarrow> unit swapd_action" where
  "restore_checkpoint ck = steps [
     modify (\<lambda>rt. rt\<lparr>swap_state := ck_state ck, enquirer := ck_enquirer ck, safety := ck_temporal_safety ck,
       monero_address_creation_height := ck_monero_address_creation_height ck,
       rt_trade_role := ck_local_trade_role ck,
       rt_txs := fold (\<lambda>(l, tx). hm_insert l tx) (ck_txs ck) []\<rparr>),
     watch_height Bitcoin,
     watch_height Monero,
     for_each (ck_txids ck) (\<lambda>(l, txid). bind (with_syncer (watch_tx_btc txid l)) (send_task Bitcoin)),
     for_each (ck_pending_broadcasts ck) (\<lambda>tx. bind (with_syncer (broadcast_task tx)) (send_task Bitcoin)),
     (case ck_xmr_addr_addendum ck of
        Some (XmrAddressAddendum spend view start) \<Rightarrow>
          bind (with_syncer (watch_addr_xmr spend view AccLock (Some start))) (send_task Monero)
      | None \<Rightarrow> skip)]
     (case ck_pending_msg ck of Some m \<Rightarrow> send_peer m | None \<Rightarrow> skip)"

text \<open>\<open>Terminate\<close> ends the process: nothing follows it, as after a panic.\<close>

definition handle_ctl :: "runner \<Rightarrow> service_id \<Rightarrow> ctl_msg \<Rightarrow> unit swapd_action" where
  "handle_ctl run source request = (case request of
       Hello \<Rightarrow> skip
     | Disconnected \<Rightarrow> modify (\<lambda>rt. rt\<lparr>connected := False\<rparr>)
     | Reconnected \<Rightarrow> modify (\<lambda>rt. rt\<lparr>connected := True\<rparr>)
     | PeerdReconnected service \<Rightarrow> steps [
         modify (\<lambda>rt. rt\<lparr>peer_service := service, connected := True\<rparr>),
         reads pending_peer_request (\<lambda>pending. for_each pending send_peer)]
         (modify (\<lambda>rt. rt\<lparr>pending_peer_request := []\<rparr>))
     | FailedPeerMessage m \<Rightarrow> modify (\<lambda>rt. rt\<lparr>pending_peer_request := pending_peer_request rt @ [m]\<rparr>)
     | CheckpointCtl ck \<Rightarrow> restore_checkpoint (ckp_state ck)
     | _ \<Rightarrow> if request = TerminateCtl \<and> source = Farcasterd then lift_res (Panic ''exit(0)'')
            else run source (Ctl request))"

section \<open>Information requests\<close>

text \<open>Times are nanoseconds since the epoch; \<open>duration_since\<close> of a later time is taken as zero.\<close>

definition swap_info_of :: "core \<Rightarrow> int \<Rightarrow> runtime \<Rightarrow> swap_info" where
  "swap_info_of c now rt = SwapInfo (rt_swap_id rt) (service_node_addr (peer_service rt)) (connected rt)
     (nat (now - started rt)) (of_nat (nat (started rt) div 10 ^ 9)) (rt_deal rt) (rt_trade_role rt)
     (swap_role_of (c_deal c) (rt_deal rt) (rt_trade_role rt)) (get_node_id (peer_service rt))
     (latest_state_report rt)"

definition handle_info :: "core \<Rightarrow> int \<Rightarrow> service_id \<Rightarrow> info_msg \<Rightarrow> unit swapd_action" where
  "handle_info c now source request = (case request of
       GetInfo \<Rightarrow> reads id (\<lambda>rt. send_client_info source (SwapInfoMsg (swap_info_of c now rt)))
     | _ \<Rightarrow> skip)"

section \<open>The handler of the service\<close>

definition handle :: "core \<Rightarrow> int \<Rightarrow> service_bus \<Rightarrow> service_id \<Rightarrow> bus_msg \<Rightarrow> unit swapd_action" where
  "handle c now bus source request = (case (bus, request) of
       (MsgBus, P2p req) \<Rightarrow> steps [handle_msg (machine c) source req] report_potential_state_change
     | (CtlBus, Ctl req) \<Rightarrow> steps [handle_ctl (machine c) source req] report_potential_state_change
     | (InfoBus, Info req) \<Rightarrow> handle_info c now source req
     | (SyncBus, Sync req) \<Rightarrow> steps [handle_sync (machine c) source req] report_potential_state_change
     | _ \<Rightarrow> throw (NotSupported bus (TOpaque ''request'')))"

end
