(* ===== verification/Frames.thy ===== *)
theory Frames
  imports Prelude
begin

text \<open>
  Rules for what holds of an action on every run, without looking at the state: what it can return
  (\<open>results\<close>), that it never runs out of fuel (\<open>no_hang\<close>), and, for a reflexive and transitive
  relation of states, that every run stays in it whatever its outcome (\<open>keeps\<close>, in the locale
  \<open>frame\<close>). The component theories interpret the locale with the relations they need.
\<close>

section \<open>What an action returns\<close>

definition results :: "('s, 'e, 'a) action \<Rightarrow> ('a \<Rightarrow> bool) \<Rightarrow> bool" where
  "results m P \<longleftrightarrow> (\<forall>s x s'. m s = (Ok x, s') \<longrightarrow> P x)"

named_theorems results_intros "introduction rules for what an action returns"

lemma resultsD: "results m P \<Longrightarrow> m s = (Ok x, s') \<Longrightarrow> P x"
  unfolding results_def by blast

lemma results_ret [results_intros]: "P x \<Longrightarrow> results (ret x) P"
  by (simp add: results_def ret_def)

lemma results_throw [results_intros]: "results (throw e) P"
  by (simp add: results_def throw_def)

lemma results_bind [results_intros]:
  assumes "\<And>x. results (f x) P"
  shows "results (bind m f) P"
  using assms by (auto simp: results_def bind_def split: result.splits prod.splits)

lemma results_reads [results_intros]:
  assumes "\<And>x. results (f x) P"
  shows "results (reads g f) P"
  using assms by (auto simp: results_def reads_def)

lemma results_steps [results_intros]: "results k P \<Longrightarrow> results (steps ms k) P"
  by (induction ms) (auto intro: results_intros)

lemma results_if [results_intros]:
  "(b \<Longrightarrow> results m P) \<Longrightarrow> (\<not> b \<Longrightarrow> results n P) \<Longrightarrow> results (if b then m else n) P"
  by simp

lemma results_option [results_intros]:
  "(x = None \<Longrightarrow> results m P) \<Longrightarrow> (\<And>y. x = Some y \<Longrightarrow> results (f y) P)
     \<Longrightarrow> results (case x of None \<Rightarrow> m | Some y \<Rightarrow> f y) P"
  by (cases x) simp_all

lemma results_prod [results_intros]:
  "(\<And>a b. x = (a, b) \<Longrightarrow> results (f a b) P) \<Longrightarrow> results (case x of (a, b) \<Rightarrow> f a b) P"
  by (cases x) simp

lemma results_let [results_intros]: "results (f x) P \<Longrightarrow> results (let y = x in f y) P"
  by simp

lemma results_mono: "results m P \<Longrightarrow> (\<And>x. P x \<Longrightarrow> Q x) \<Longrightarrow> results m Q"
  by (auto simp: results_def)

section \<open>Fuel\<close>

text \<open>A result that is not out of fuel: the result of a call and not of a loop.\<close>

definition settled :: "('e, 'a) result \<Rightarrow> bool" where
  "settled r \<longleftrightarrow> r \<noteq> Hang"

named_theorems settled_intros "results that are not out of fuel"

lemma settled_simps [simp]: "settled (Ok x)" "settled (Err e)" "settled (Panic s)" "\<not> settled Hang"
  by (simp_all add: settled_def)

lemma settled_rbind [settled_intros]: "settled r \<Longrightarrow> (\<And>x. settled (f x)) \<Longrightarrow> settled (rbind r f)"
  by (cases r) auto

lemma settled_expect [settled_intros]: "settled (expect msg x)"
  by (cases x) simp_all

definition no_hang :: "('s, 'e, 'a) action \<Rightarrow> bool" where
  "no_hang m \<longleftrightarrow> (\<forall>s. fst (m s) \<noteq> Hang)"

named_theorems no_hang_intros "introduction rules for actions that need no fuel"

lemma no_hang_ret [no_hang_intros]: "no_hang (ret x)" by (simp add: no_hang_def ret_def)
lemma no_hang_throw [no_hang_intros]: "no_hang (throw e)" by (simp add: no_hang_def throw_def)
lemma no_hang_skip [no_hang_intros]: "no_hang skip" by (simp add: no_hang_def skip_def ret_def)
lemma no_hang_modify [no_hang_intros]: "no_hang (modify f)" by (simp add: no_hang_def modify_def)
lemma no_hang_stateful [no_hang_intros]: "no_hang (stateful f)"
  by (simp add: no_hang_def stateful_def split: prod.splits)
lemma no_hang_lift_res [no_hang_intros]: "settled r \<Longrightarrow> no_hang (lift_res r)"
  by (simp add: no_hang_def lift_res_def settled_def)

lemma no_hang_bind [no_hang_intros]:
  assumes "no_hang m" and "\<And>x. no_hang (f x)"
  shows "no_hang (bind m f)"
proof (unfold no_hang_def, rule allI)
  fix s
  show "fst (bind m f s) \<noteq> Hang"
    using assms by (cases "m s"; cases "fst (m s)") (auto simp: bind_def no_hang_def, metis fst_conv)
qed

lemma no_hang_reads [no_hang_intros]: "(\<And>x. no_hang (f x)) \<Longrightarrow> no_hang (reads g f)"
  by (simp add: no_hang_def reads_def)

lemma no_hang_on [no_hang_intros]: "(b \<Longrightarrow> no_hang m) \<Longrightarrow> no_hang (on b m)"
  by (simp add: on_def no_hang_intros)

lemma no_hang_attempt [no_hang_intros]: "no_hang m \<Longrightarrow> no_hang (attempt m)"
  by (auto simp: no_hang_def attempt_def split: result.splits prod.splits) (metis fst_conv)

lemma no_hang_steps [no_hang_intros]:
  "(\<And>m. m \<in> set ms \<Longrightarrow> no_hang m) \<Longrightarrow> no_hang k \<Longrightarrow> no_hang (steps ms k)"
  by (induction ms) (auto intro: no_hang_intros)

lemma no_hang_for_each [no_hang_intros]: "(\<And>x. x \<in> set xs \<Longrightarrow> no_hang (f x)) \<Longrightarrow> no_hang (for_each xs f)"
  by (induction xs) (auto intro: no_hang_intros)

lemma no_hang_if [no_hang_intros]:
  "(b \<Longrightarrow> no_hang m) \<Longrightarrow> (\<not> b \<Longrightarrow> no_hang n) \<Longrightarrow> no_hang (if b then m else n)"
  by simp

lemma no_hang_option [no_hang_intros]:
  "(x = None \<Longrightarrow> no_hang m) \<Longrightarrow> (\<And>y. x = Some y \<Longrightarrow> no_hang (f y))
     \<Longrightarrow> no_hang (case x of None \<Rightarrow> m | Some y \<Rightarrow> f y)"
  by (cases x) simp_all

lemma no_hang_prod [no_hang_intros]:
  "(\<And>a b. x = (a, b) \<Longrightarrow> no_hang (f a b)) \<Longrightarrow> no_hang (case x of (a, b) \<Rightarrow> f a b)"
  by (cases x) simp

lemma no_hang_let [no_hang_intros]: "no_hang (f x) \<Longrightarrow> no_hang (let y = x in f y)"
  by simp

section \<open>Frames\<close>

definition keeps :: "('s \<Rightarrow> 's \<Rightarrow> bool) \<Rightarrow> ('s, 'e, 'a) action \<Rightarrow> bool" where
  "keeps R m \<longleftrightarrow> (\<forall>s. R s (snd (m s)))"

lemma keepsD: "keeps R m \<Longrightarrow> m s = (r, s') \<Longrightarrow> R s s'"
  by (metis keeps_def snd_conv)

lemma keeps_modify: "(\<And>s. R s (f s)) \<Longrightarrow> keeps R (modify f)"
  by (simp add: keeps_def modify_def)

lemma keeps_stateful: "(\<And>s. R s (snd (f s))) \<Longrightarrow> keeps R (stateful f)"
  by (simp add: keeps_def stateful_def case_prod_beta)

lemma keeps_reads: "(\<And>x. keeps R (f x)) \<Longrightarrow> keeps R (reads g f)"
  by (simp add: keeps_def reads_def)

lemma keeps_if: "(b \<Longrightarrow> keeps R m) \<Longrightarrow> (\<not> b \<Longrightarrow> keeps R n) \<Longrightarrow> keeps R (if b then m else n)"
  by simp

lemma keeps_option:
  "(x = None \<Longrightarrow> keeps R m) \<Longrightarrow> (\<And>y. x = Some y \<Longrightarrow> keeps R (f y))
     \<Longrightarrow> keeps R (case x of None \<Rightarrow> m | Some y \<Rightarrow> f y)"
  by (cases x) simp_all

lemma keeps_prod: "(\<And>a b. x = (a, b) \<Longrightarrow> keeps R (f a b)) \<Longrightarrow> keeps R (case x of (a, b) \<Rightarrow> f a b)"
  by (cases x) simp

lemma keeps_let: "keeps R (f x) \<Longrightarrow> keeps R (let y = x in f y)"
  by simp

lemma keeps_attempt: "keeps R m \<Longrightarrow> keeps R (attempt m)"
  by (auto simp: keeps_def attempt_def split: result.splits prod.splits) (metis snd_conv)+

text \<open>Both at once: the actions that are steps of the program rather than loops.\<close>

definition calm :: "('s \<Rightarrow> 's \<Rightarrow> bool) \<Rightarrow> ('s, 'e, 'a) action \<Rightarrow> bool" where
  "calm R m \<longleftrightarrow> no_hang m \<and> keeps R m"

lemma calm_keeps: "calm R m \<Longrightarrow> keeps R m" and calm_no_hang: "calm R m \<Longrightarrow> no_hang m"
  by (simp_all add: calm_def)

lemma calm_weaken: "calm R m \<Longrightarrow> (\<And>s t. R s t \<Longrightarrow> R' s t) \<Longrightarrow> calm R' m"
  by (simp add: calm_def keeps_def)

lemma calm_modify: "(\<And>s. R s (f s)) \<Longrightarrow> calm R (modify f)"
  by (simp add: calm_def keeps_modify no_hang_modify)

lemma calm_stateful: "(\<And>s. R s (snd (f s))) \<Longrightarrow> calm R (stateful f)"
  by (simp add: calm_def keeps_stateful no_hang_stateful)

lemma calm_reads: "(\<And>x. calm R (f x)) \<Longrightarrow> calm R (reads g f)"
  by (simp add: calm_def keeps_reads no_hang_reads)

lemma calm_if: "(b \<Longrightarrow> calm R m) \<Longrightarrow> (\<not> b \<Longrightarrow> calm R n) \<Longrightarrow> calm R (if b then m else n)"
  by simp

lemma calm_option:
  "(x = None \<Longrightarrow> calm R m) \<Longrightarrow> (\<And>y. x = Some y \<Longrightarrow> calm R (f y))
     \<Longrightarrow> calm R (case x of None \<Rightarrow> m | Some y \<Rightarrow> f y)"
  by (cases x) simp_all

lemma calm_prod: "(\<And>a b. x = (a, b) \<Longrightarrow> calm R (f a b)) \<Longrightarrow> calm R (case x of (a, b) \<Rightarrow> f a b)"
  by (cases x) simp

lemma calm_let: "calm R (f x) \<Longrightarrow> calm R (let y = x in f y)"
  by simp

lemma calm_attempt: "calm R m \<Longrightarrow> calm R (attempt m)"
  by (simp add: calm_def keeps_attempt no_hang_attempt)

locale frame =
  fixes R :: "'s \<Rightarrow> 's \<Rightarrow> bool"
  assumes frame_refl: "R s s"
    and frame_trans: "R s t \<Longrightarrow> R t u \<Longrightarrow> R s u"
begin

lemma keeps_ret: "keeps R (ret x)" by (simp add: keeps_def ret_def frame_refl)
lemma keeps_throw: "keeps R (throw e)" by (simp add: keeps_def throw_def frame_refl)
lemma keeps_skip: "keeps R skip" by (simp add: skip_def keeps_ret)
lemma keeps_lift_res: "keeps R (lift_res r)" by (simp add: keeps_def lift_res_def frame_refl)

lemma keeps_bind:
  assumes "keeps R m" and "\<And>x. keeps R (f x)"
  shows "keeps R (bind m f)"
proof (unfold keeps_def, rule allI)
  fix s
  obtain r t where m: "m s = (r, t)" by (cases "m s")
  then have "R s t" using assms(1) keepsD by metis
  moreover have "R t (snd (f x t))" for x using assms(2) by (simp add: keeps_def)
  ultimately show "R s (snd (bind m f s))"
    using m by (auto simp: bind_def intro: frame_trans split: result.splits)
qed

lemma keeps_on: "(b \<Longrightarrow> keeps R m) \<Longrightarrow> keeps R (on b m)"
  by (simp add: on_def keeps_skip)

lemma keeps_steps: "(\<And>m. m \<in> set ms \<Longrightarrow> keeps R m) \<Longrightarrow> keeps R k \<Longrightarrow> keeps R (steps ms k)"
  by (induction ms) (auto intro: keeps_bind)

lemma keeps_for_each: "(\<And>x. x \<in> set xs \<Longrightarrow> keeps R (f x)) \<Longrightarrow> keeps R (for_each xs f)"
  by (induction xs) (auto intro: keeps_bind keeps_skip)

lemmas keeps_intros = keeps_ret keeps_throw keeps_skip keeps_lift_res keeps_bind keeps_on keeps_steps
  keeps_for_each keeps_modify keeps_stateful keeps_reads keeps_if keeps_option keeps_prod keeps_let
  keeps_attempt

lemma calm_ret: "calm R (ret x)" by (simp add: calm_def no_hang_ret keeps_ret)
lemma calm_throw: "calm R (throw e)" by (simp add: calm_def no_hang_throw keeps_throw)
lemma calm_skip: "calm R skip" by (simp add: calm_def no_hang_skip keeps_skip)

lemma calm_lift_res: "settled r \<Longrightarrow> calm R (lift_res r)"
  by (simp add: calm_def no_hang_lift_res keeps_lift_res)

lemma calm_bind: "calm R m \<Longrightarrow> (\<And>x. calm R (f x)) \<Longrightarrow> calm R (bind m f)"
  by (simp add: calm_def no_hang_bind keeps_bind)

lemma calm_on: "(b \<Longrightarrow> calm R m) \<Longrightarrow> calm R (on b m)"
  by (simp add: on_def calm_skip)

lemma calm_steps: "(\<And>m. m \<in> set ms \<Longrightarrow> calm R m) \<Longrightarrow> calm R k \<Longrightarrow> calm R (steps ms k)"
  by (simp add: calm_def no_hang_steps keeps_steps)

lemma calm_for_each: "(\<And>x. x \<in> set xs \<Longrightarrow> calm R (f x)) \<Longrightarrow> calm R (for_each xs f)"
  by (simp add: calm_def no_hang_for_each keeps_for_each)

lemmas calm_intros = calm_ret calm_throw calm_skip calm_lift_res calm_bind calm_on calm_steps
  calm_for_each calm_modify calm_stateful calm_reads calm_if calm_option calm_prod calm_let calm_attempt

text \<open>A frame carried through a precondition.\<close>

lemma keeps_wp:
  assumes "keeps R m"
    and "\<And>x t. R s t \<Longrightarrow> m s = (Ok x, t) \<Longrightarrow> Q x t" and "\<And>r t. R s t \<Longrightarrow> E r t"
  shows "wp m Q E s"
proof -
  obtain r t where m: "m s = (r, t)" by (cases "m s")
  then have "R s t" using assms(1) keepsD by metis
  then show ?thesis using m assms(2,3) by (auto simp: wp_def split: result.splits)
qed

end

text \<open>Agreement on what a function of the state reads is such a relation.\<close>

definition same :: "('s \<Rightarrow> 'a) \<Rightarrow> 's \<Rightarrow> 's \<Rightarrow> bool" where
  "same f s t \<longleftrightarrow> f t = f s"

interpretation same: frame "same f" for f
  by unfold_locales (simp_all add: same_def)

end
