(* ===== verification/SwapFrames.thy ===== *)
theory SwapFrames
  imports SwapdRuntime Frames
begin

text \<open>
  What no transition of a swap changes: its identity, deal, roles and temporal parameters, the
  syncers it uses, the state and the unhandled message (which the loop sets), and the confirmations
  kept to be replayed. The lemmas also say that no handler of the state machine takes fuel.
\<close>

definition client_part ::
  "syncer_client \<Rightarrow> (swap_id \<times> network \<times> service_id \<times> service_id \<times> u32) \<times> (u64 \<times> u64)
     \<times> (sync_msg option \<times> sync_msg option \<times> sync_msg option)" where
  "client_part s = ((sc_swap_id s, sc_network s, bitcoin_syncer s, monero_syncer s, confirmation_bound s),
     (bitcoin_height s, monero_height s), (lock_tx_confs s, cancel_tx_confs s, buy_tx_confs s))"

definition fixed_part ::
  "runtime \<Rightarrow> (service_id \<times> swap_id \<times> int \<times> deal \<times> trade_role \<times> swap_role \<times> temporal_safety)
     \<times> (state_report \<times> swap_state_machine \<times> peer_msg option)
     \<times> ((swap_id \<times> network \<times> service_id \<times> service_id \<times> u32) \<times> (u64 \<times> u64)
     \<times> (sync_msg option \<times> sync_msg option \<times> sync_msg option))" where
  "fixed_part rt = ((identity rt, rt_swap_id rt, started rt, rt_deal rt, rt_trade_role rt, rt_swap_role rt, safety rt),
     (latest_state_report rt, swap_state rt, unhandled_peer_message rt), client_part (syncer rt))"

abbreviation fixed :: "runtime \<Rightarrow> runtime \<Rightarrow> bool" where
  "fixed \<equiv> same fixed_part"

named_theorems fixed_rules "actions that keep the fixed part of the runtime and take no fuel"

section \<open>Primitive actions\<close>

lemma bind_assoc: "bind (bind m f) g = bind m (\<lambda>x. bind (f x) g)"
  by (rule ext) (auto simp: bind_def split: result.splits prod.splits)

lemma fixed_send_to [fixed_rules]: "calm fixed (send_to bus src dest m)"
  by (auto simp: calm_def no_hang_def keeps_def same_def fixed_part_def send_to_def Let_def)

lemma fixed_send_from_self [fixed_rules]: "calm fixed (send_from_self bus dest m)"
  unfolding send_from_self_def by (intro calm_reads fixed_rules)

lemma fixed_events [fixed_rules]:
  "calm fixed (complete_client_info ev i)" "calm fixed (complete_client_ctl ev t)"
  "calm fixed (complete_ctl_service ev d t)" "calm fixed (send_ctl_service ev d t)"
  "calm fixed (send_sync_service ev d y)" "calm fixed (event_send_client_ctl ev d t)"
  unfolding event_defs by (intro calm_if fixed_rules)+

lemma fixed_send_ctl [fixed_rules]: "calm fixed (send_ctl d m)"
  unfolding send_ctl_def by (intro same.calm_intros fixed_rules)

lemma fixed_report_with [fixed_rules]: "calm fixed (report_with f t)"
  unfolding report_with_def by (intro same.calm_intros fixed_rules)

lemma fixed_reports [fixed_rules]:
  "calm fixed (report_progress f p)" "calm fixed (report_progress_message f t)"
  "calm fixed (report_failure f x)"
  unfolding report_progress_def report_progress_message_def report_failure_def
  by (intro same.calm_intros fixed_rules)+

lemma client_part_frame [simp]:
  "client_part (on_tasks f s) = client_part s" "client_part (add_task i t s) = client_part s"
  "client_part (s\<lparr>awaiting_funding := b\<rparr>) = client_part s"
  "client_part (s\<lparr>xmr_addr_addendum := a\<rparr>) = client_part s"
  "client_part (s\<lparr>confirmations := k\<rparr>) = client_part s"
  "client_part (handle_tx_confs i confs thr s) = client_part s"
  by (simp_all add: client_part_def on_tasks_def add_task_def handle_tx_confs_def Let_def split: option.split)

lemmas client_defs = new_taskid_def estimate_fee_btc_def watch_tx_btc_def watch_tx_xmr_def
  retrieve_tx_btc_def watch_addr_btc_def watch_addr_xmr_def watch_height_task_def sweep_task_def
  sweep_btc_def sweep_xmr_def broadcast_task_def

lemma client_part_ops [simp]:
  "client_part (snd (new_taskid s)) = client_part s"
  "client_part (snd (estimate_fee_btc s)) = client_part s"
  "client_part (snd (watch_tx_btc txid l s)) = client_part s"
  "client_part (snd (watch_tx_xmr hash l s)) = client_part s"
  "client_part (snd (retrieve_tx_btc txid l s)) = client_part s"
  "client_part (snd (watch_addr_btc addr l s)) = client_part s"
  "client_part (snd (watch_addr_xmr spend view l start s)) = client_part s"
  "client_part (snd (watch_height_task b s)) = client_part s"
  "client_part (snd (sweep_btc ba retry s)) = client_part s"
  "client_part (snd (sweep_xmr ma retry s)) = client_part s"
  "client_part (snd (broadcast_task tx s)) = client_part s"
  by (simp_all add: client_defs Let_def split: option.split)

lemma fixed_frame [simp]:
  "fixed rt (rt\<lparr>connected := b\<rparr>)" "fixed rt (rt\<lparr>peer_service := p, connected := b\<rparr>)"
  "fixed rt (rt\<lparr>peer_service := p\<rparr>)" "fixed rt (rt\<lparr>enquirer := e\<rparr>)"
  "fixed rt (rt\<lparr>pending_peer_request := q\<rparr>)" "fixed rt (rt\<lparr>rt_txs := t\<rparr>)"
  "fixed rt (rt\<lparr>monero_address_creation_height := h\<rparr>)" "fixed rt rt"
  by (simp_all add: same_def fixed_part_def)

lemma fixed_on_syncer [simp]: "client_part (f (syncer rt)) = client_part (syncer rt) \<Longrightarrow> fixed rt (on_syncer f rt)"
  by (simp add: same_def fixed_part_def on_syncer_def)

lemma fixed_with_syncer [fixed_rules]:
  "(\<And>s. client_part (snd (f s)) = client_part s) \<Longrightarrow> calm fixed (with_syncer f)"
  unfolding with_syncer_def by (rule calm_stateful) simp

lemma fixed_tasks [fixed_rules]:
  "calm fixed (send_task b t)" "calm fixed (give_task ev b t)" "calm fixed (record_btc_confs i k)"
  "calm fixed (set_awaiting_funding a)" "calm fixed (insert_tx l tx)" "calm fixed (remove_txs ls)"
  unfolding send_task_def give_task_def record_btc_confs_def set_awaiting_funding_def insert_tx_def remove_txs_def
  by (intro same.calm_intros fixed_rules; simp)+

lemma fixed_give_new_task [fixed_rules]:
  "(\<And>s. client_part (snd (f s)) = client_part s) \<Longrightarrow> calm fixed (give_new_task ev b f)"
  unfolding give_new_task_def by (intro same.calm_intros fixed_rules)

lemma fixed_watches [fixed_rules]: "calm fixed (watch_height b)" "calm fixed watch_bitcoin_fee"
  unfolding watch_height_def watch_bitcoin_fee_def by (intro same.calm_intros fixed_rules; simp)+

lemma fixed_send_peer [fixed_rules]: "calm fixed (send_peer m)"
  unfolding send_peer_def by (auto intro!: same.calm_intros fixed_rules split: sum.split)

lemma settled_core_try [settled_intros]: "settled (core_try r)"
  by (cases r) simp_all

lemma settled_amount_add [settled_intros]: "settled (amount_add a b)"
  by (simp add: amount_add_def)

lemma settled_swap_id_of [settled_intros]: "settled (swap_id_of d)"
  by (cases d) simp_all

lemma fixed_own_swap_id [fixed_rules]: "calm fixed own_swap_id"
  unfolding own_swap_id_def by (intro same.calm_intros settled_intros)

lemma fixed_take_tx [fixed_rules]: "calm fixed (take_tx l)"
  unfolding take_tx_def by (intro same.calm_intros settled_intros) simp

lemma fixed_broadcasts [fixed_rules]:
  "calm fixed (broadcast tx l)" "calm fixed (broadcast_stored l)"
  "calm fixed (watch_and_broadcast_stored c ev l)" "calm fixed (retrieve_known_tx ev l)"
  unfolding broadcast_def broadcast_stored_def watch_and_broadcast_stored_def retrieve_known_tx_def
  by (auto intro!: same.calm_intros fixed_rules settled_intros)

lemma fixed_abort_all [fixed_rules]: "calm fixed (abort_all_tasks ev)"
  unfolding abort_all_tasks_def by (auto intro!: same.calm_intros fixed_rules)

lemma fixed_watch_core_txs [fixed_rules]: "calm fixed (watch_core_txs c ev setup)"
  unfolding watch_core_txs_def by (auto intro!: same.calm_intros fixed_rules)

lemma fixed_ask_bob [fixed_rules]: "calm fixed (ask_bob_to_fund fee addr)"
  unfolding ask_bob_to_fund_def by (auto intro!: same.calm_intros fixed_rules settled_intros)

lemma fixed_commits [fixed_rules]: "calm fixed (taker_commit c ps)" "calm fixed (maker_commit c sid ps)"
  unfolding taker_commit_def maker_commit_def by (intro same.calm_intros fixed_rules)+

lemma fixed_checkpoint [fixed_rules]: "calm fixed (checkpoint_state c m sm)"
  unfolding checkpoint_state_def by (intro same.calm_intros fixed_rules)

lemma fixed_creation_height [fixed_rules]: "calm fixed set_creation_height"
  unfolding set_creation_height_def by (rule calm_modify) (simp split: option.split)

lemma fixed_or_report_failure [fixed_rules]: "calm fixed m \<Longrightarrow> calm fixed (or_report_failure m)"
  unfolding or_report_failure_def by (auto intro!: same.calm_intros fixed_rules split: sum.split)

section \<open>The wallet\<close>

lemma settled_wallet [settled_intros]:
  "settled (create_funding c km net)" "settled (funding_update c f tx)" "settled (view_key c msg ps)"
  "settled (sweep_keys c rec km ps qs)" "settled (reveal_of c sid w)"
  "settled (finalized_tx c l p ws)"
proof -
  show "settled (create_funding c km net)" unfolding create_funding_def by (intro settled_intros)
  show "settled (funding_update c f tx)" unfolding funding_update_def by (intro settled_intros)
  show v: "settled (view_key c msg ps)" for msg ps unfolding view_key_def by (intro settled_intros)
  show "settled (sweep_keys c rec km ps qs)"
    unfolding sweep_keys_def by (intro settled_intros v) simp
  show "settled (reveal_of c sid w)"
    unfolding reveal_of_def by (cases w) (auto intro!: settled_intros)
  show "settled (finalized_tx c l p ws)"
    by (induction ws arbitrary: p) (auto intro!: settled_intros)
qed

lemma settled_wallet_messages [settled_intros]:
  "settled (handle_maker_commit c w commit sid)" "settled (handle_bob_reveals c w reveal sid)"
  "settled (handle_alice_reveals c w reveal sid)" "settled (create_core_arb c w sid)"
  "settled (handle_refund_procedure_signatures c w rps sid)"
  "settled (handle_core_arbitrating_setup c w setup sid)"
  "settled (handle_buy_procedure_signature c w bps sid)"
  "settled (process_get_sweep_bitcoin_address c w addr)"
proof -
  show "settled (handle_maker_commit c w commit sid)"
    unfolding handle_maker_commit_def by (cases commit; cases w) (auto intro!: settled_intros)
  show "settled (handle_bob_reveals c w reveal sid)"
    unfolding handle_bob_reveals_def
    by (cases reveal; cases w) (auto intro!: settled_intros simp: Let_def split: option.split sum.split)
  show "settled (handle_alice_reveals c w reveal sid)"
    unfolding handle_alice_reveals_def
    by (cases reveal; cases w) (auto intro!: settled_intros simp: Let_def split: option.split sum.split)
  show "settled (create_core_arb c w sid)"
    unfolding create_core_arb_def by (cases w) (auto intro!: settled_intros simp: Let_def)
  show "settled (handle_refund_procedure_signatures c w rps sid)"
    unfolding handle_refund_procedure_signatures_def
    by (cases w) (auto intro!: settled_intros simp: Let_def split: option.split)
  show "settled (handle_core_arbitrating_setup c w setup sid)"
    unfolding handle_core_arbitrating_setup_def
    by (cases w) (auto intro!: settled_intros simp: Let_def split: option.split)
  show "settled (handle_buy_procedure_signature c w bps sid)"
    unfolding handle_buy_procedure_signature_def
    by (cases w) (auto intro!: settled_intros simp: Let_def split: option.split)
  show "settled (process_get_sweep_bitcoin_address c w addr)"
    by (cases w) (auto intro!: settled_intros)
qed

lemma settled_process_funding_tx [settled_intros]: "settled (process_funding_tx c w tx)"
  by (cases w; cases tx) (auto intro!: settled_intros)

lemma settled_reveal [settled_intros]:
  "settled (validated_params c reveal rc msg)" "settled (aggregate_xmr_spend_view c ps qs)"
  unfolding validated_params_def aggregate_xmr_spend_view_def shared_view_def
  by (auto intro!: settled_intros split: result.split)

lemma fixed_wallet_setup [fixed_rules]:
  "calm fixed (bob_setup c d btc km sid)" "calm fixed (register_monero_key c net view spend sid h)"
  unfolding bob_setup_def register_monero_key_def
  by (auto simp: Let_def intro!: same.calm_intros fixed_rules settled_intros)

lemma fixed_new_wallet [fixed_rules]:
  "calm fixed (new_taker c d btc xmr km sid)" "calm fixed (new_maker c d btc xmr km sid rc)"
  unfolding new_taker_def new_maker_def
  by (auto simp: Let_def intro!: same.calm_intros fixed_rules settled_intros split: swap_role.split commit.split)

lemma fixed_sweeps [fixed_rules]:
  "calm fixed (process_buy_tx c w tx sid h)" "calm fixed (process_refund_tx c w tx sid h)"
  "calm fixed (sweep_monero_to f a)"
  unfolding process_buy_tx_def process_refund_tx_def sweep_monero_to_def
  by (cases w; auto simp: Let_def intro!: same.calm_intros fixed_rules settled_intros split: option.split task.split)+


section \<open>The handlers of the state machine\<close>

lemma fixed_endings [fixed_rules]:
  "calm fixed (handle_abort_swap ev)" "calm fixed (handle_abort_impossible ev)"
  "calm fixed (end_aborted_sweep ev)" "calm fixed (end_of_swap ev o')"
  "calm fixed (clear_funding_then_complete ev b)" "calm fixed (funding_completed_if_awaited ev b)"
  unfolding handle_abort_swap_def handle_abort_impossible_def end_aborted_sweep_def end_of_swap_def
    clear_funding_then_complete_def funding_completed_if_awaited_def
  by (auto intro!: same.calm_intros fixed_rules)

lemma fixed_end_after_sweep [fixed_rules]: "calm fixed (end_after_sweep ev b o')"
  unfolding end_after_sweep_def by (auto intro!: same.calm_intros fixed_rules)

lemma fixed_bob_abort [fixed_rules]: "calm fixed (handle_bob_abort_swap c ev w)"
  unfolding handle_bob_abort_swap_def by (auto intro!: same.calm_intros fixed_rules settled_intros)

lemma fixed_interrupts [fixed_rules]:
  "calm fixed (handle_bob_swap_interrupt_after_lock ev)"
  "calm fixed (handle_alice_swap_interrupt_after_lock ev w)"
  unfolding handle_bob_swap_interrupt_after_lock_def handle_alice_swap_interrupt_after_lock_def
  by (auto intro!: same.calm_intros fixed_rules split: option.split)

lemma fixed_start [fixed_rules]:
  "calm fixed (attempt_transition_to_init_taker c ev role)"
  "calm fixed (attempt_transition_to_init_maker c ev role)"
  unfolding attempt_transition_to_init_taker_def attempt_transition_to_init_maker_def
  by (auto intro!: same.calm_intros fixed_rules
        split: option.split init_taker_swap.split init_maker_swap.split)

lemma fixed_commit_reveal [fixed_rules]:
  "calm fixed (try_bob_init_taker_to_bob_taker_maker_commit c ev l w)"
  "calm fixed (try_alice_init_taker_to_alice_taker_maker_commit c ev l w)"
  "calm fixed (attempt_transition_to_bob_reveal c ev l rc w)"
  "calm fixed (attempt_transition_to_alice_reveal c ev l rc w)"
  unfolding try_bob_init_taker_to_bob_taker_maker_commit_def
    try_alice_init_taker_to_alice_taker_maker_commit_def attempt_transition_to_bob_reveal_def
    attempt_transition_to_alice_reveal_def
  by (auto intro!: same.calm_intros fixed_rules settled_intros split: option.split peer_msg.split)

lemma fixed_bob_funding [fixed_rules]:
  "calm fixed (try_bob_reveal_to_bob_fee_estimated c ev l r w)"
  "calm fixed (try_bob_fee_estimated_to_bob_funded c ev l amount r w)"
  unfolding try_bob_reveal_to_bob_fee_estimated_def try_bob_fee_estimated_to_bob_funded_def
  by (auto intro!: same.calm_intros fixed_rules settled_intros
        split: option.split fee_estimations.split address_transaction.split sum.split)

lemma fixed_watch_xmr [fixed_rules]:
  "calm fixed (watch_shared_address c ev ps qs start)" "calm fixed (watch_found_xmr ev i hash)"
  unfolding watch_shared_address_def watch_found_xmr_def
  by (auto intro!: same.calm_intros fixed_rules settled_intros split: option.split)

lemma fixed_bob_locking [fixed_rules]:
  "calm fixed (try_bob_funded_to_bob_refund_procedure_signature c ev l r w)"
  "calm fixed (try_bob_refund_procedure_signatures_to_bob_accordant_lock ev l r w bps)"
  "calm fixed (try_bob_accordant_lock_to_bob_accordant_lock_final ev l r w bps)"
  unfolding try_bob_funded_to_bob_refund_procedure_signature_def
    try_bob_refund_procedure_signatures_to_bob_accordant_lock_def
    try_bob_accordant_lock_to_bob_accordant_lock_final_def
  by (auto simp: Let_def intro!: same.calm_intros fixed_rules settled_intros
        split: option.split peer_msg.split refund_procedure_res.split params.split address_transaction.split)

lemma fixed_bob_ending [fixed_rules]:
  "calm fixed (try_bob_accordant_lock_final_to_bob_buy_final c ev l r w)"
  "calm fixed (try_bob_buy_final_to_bob_buy_sweeping ev sweep)"
  "calm fixed (try_bob_cancel_final_to_swap_end ev)"
  "calm fixed (try_bob_canceled_to_bob_cancel_final ev)"
  "calm fixed (try_awaiting_sweep_to_swap_end ev)"
  unfolding try_bob_accordant_lock_final_to_bob_buy_final_def try_bob_buy_final_to_bob_buy_sweeping_def
    try_bob_cancel_final_to_swap_end_def try_bob_canceled_to_bob_cancel_final_def
    try_awaiting_sweep_to_swap_end_def
  by (auto intro!: same.calm_intros fixed_rules split: option.split tx_label.split list.split)

lemma fixed_alice_setup [fixed_rules]:
  "calm fixed (try_alice_reveal_to_alice_core_arbitrating_setup c ev l r w)"
  unfolding try_alice_reveal_to_alice_core_arbitrating_setup_def
  by (auto simp: Let_def intro!: same.calm_intros fixed_rules settled_intros
        split: option.split peer_msg.split core_arbitrating_setup_res.split)

lemma fixed_alice_lock_final [fixed_rules]:
  "calm fixed (try_alice_core_arbitrating_setup_to_alice_arbitrating_lock_final c ev l r w)"
  unfolding try_alice_core_arbitrating_setup_to_alice_arbitrating_lock_final_def
  by (auto simp: Let_def intro!: same.calm_intros fixed_rules settled_intros split: option.split params.split)

lemma fixed_alice_funded [fixed_rules]: "calm fixed (alice_funded ev w required i hash amount)"
  unfolding alice_funded_def by (auto intro!: same.calm_intros fixed_rules)

lemma fixed_alice_acc_lock [fixed_rules]:
  "calm fixed (try_alice_arbitrating_lock_final_to_alice_accordant_lock ev w info amount)"
  unfolding try_alice_arbitrating_lock_final_to_alice_accordant_lock_def
  by (auto simp: Let_def intro!: same.calm_intros fixed_rules split: option.split address_transaction.split)

lemma fixed_alice_buy [fixed_rules]:
  "calm fixed (try_alice_accordant_lock_to_alice_buy_procedure_signature c ev w)"
  unfolding try_alice_accordant_lock_to_alice_buy_procedure_signature_def
  by (auto intro!: same.calm_intros fixed_rules settled_intros
        split: option.split peer_msg.split buy_procedure_res.split)

lemma fixed_alice_ending [fixed_rules]:
  "calm fixed (try_alice_buy_procedure_signature_to_swap_end ev)"
  "calm fixed (try_alice_canceled_to_alice_refund_or_alice_punish c ev w)"
  "calm fixed (try_alice_refund_to_alice_refund_sweeping ev sweep)"
  unfolding try_alice_buy_procedure_signature_to_swap_end_def
    try_alice_canceled_to_alice_refund_or_alice_punish_def try_alice_refund_to_alice_refund_sweeping_def
  by (auto intro!: same.calm_intros fixed_rules split: option.split tx_label.split)

lemmas wrapper_defs = try_bob_taker_maker_commit_to_bob_reveal_def
  try_alice_taker_maker_commit_to_alice_reveal_def try_bob_init_maker_to_bob_reveal_def
  try_alice_init_maker_to_alice_reveal_def try_alice_refund_sweeping_to_swap_end_def
  try_bob_buy_sweeping_to_swap_end_def

lemma fixed_next_state: "calm fixed (next_state c sm ev)"
  by (cases sm) (simp_all add: wrapper_defs fixed_rules same.calm_ret)

lemma fixed_sm_execute: "calm fixed (sm_execute c source msg sm)"
  unfolding sm_execute_def by (intro calm_reads fixed_next_state)

end
