(* ===== verification/SwapDiagram.thy ===== *)
theory SwapDiagram
  imports SwapFrames
begin

text \<open>
  The abstract specification of a swap: the phases of its state machine and the transitions between
  them (the diagram at the head of \<open>swapd/swap_state.rs\<close>, with the transitions it leaves out), and
  the proof that every transition of the code is one of them. The transitions are also split by where
  the source states them: drawn, described with a state, or in neither. A phase is a state without its data.
\<close>

section \<open>Phases\<close>

datatype phase =
    Starting swap_role trade_role
  | Initiated swap_role trade_role
  | Committed swap_role
  | Revealed swap_role
  | BobFeeP | BobFundedP | BobLockedP | BobAccLockP | BobAccLockFinalP | BobBuyFinalP | BobSweepingP
  | BobCanceledP | BobCancelFinalP | BobAbortingP
  | AliceSetupP | AliceLockFinalP | AliceAccLockP | AliceBuyP | AliceCanceledP | AliceRefundP
  | AliceRefundSweepingP
  | Over outcome

fun phase_of :: "swap_state_machine \<Rightarrow> phase" where
  "phase_of (StartTaker role) = Starting role Taker"
| "phase_of (StartMaker role) = Starting role Maker"
| "phase_of (BobInitMaker _ _ _) = Initiated Bob Maker"
| "phase_of (AliceInitMaker _ _ _) = Initiated Alice Maker"
| "phase_of (BobInitTaker _ _) = Initiated Bob Taker"
| "phase_of (AliceInitTaker _ _) = Initiated Alice Taker"
| "phase_of (BobTakerMakerCommit _ _ _) = Committed Bob"
| "phase_of (AliceTakerMakerCommit _ _ _) = Committed Alice"
| "phase_of (BobReveal _ _ _) = Revealed Bob"
| "phase_of (BobFeeEstimated _ _ _ _) = BobFeeP"
| "phase_of (BobFunded _ _ _) = BobFundedP"
| "phase_of (BobRefundProcedureSignatures _ _ _ _) = BobLockedP"
| "phase_of (BobAccordantLock _ _ _ _) = BobAccLockP"
| "phase_of (BobAccordantLockFinal _ _ _) = BobAccLockFinalP"
| "phase_of (BobBuyFinal _) = BobBuyFinalP"
| "phase_of BobBuySweeping = BobSweepingP"
| "phase_of BobCanceled = BobCanceledP"
| "phase_of BobCancelFinal = BobCancelFinalP"
| "phase_of BobAbortAwaitingBitcoinSweep = BobAbortingP"
| "phase_of (AliceReveal _ _ _) = Revealed Alice"
| "phase_of (AliceCoreArbitratingSetup _ _ _) = AliceSetupP"
| "phase_of (AliceArbitratingLockFinal _ _ _) = AliceLockFinalP"
| "phase_of (AliceAccordantLock _) = AliceAccLockP"
| "phase_of AliceBuyProcedureSignature = AliceBuyP"
| "phase_of (AliceCanceled _) = AliceCanceledP"
| "phase_of (AliceRefund _) = AliceRefundP"
| "phase_of AliceRefundSweeping = AliceRefundSweepingP"
| "phase_of (SwapEnd o') = Over o'"

section \<open>The diagram\<close>

text \<open>An abort before the lock: Bob first sweeps what was funded, Alice ends at once.\<close>

fun abort_phase :: "swap_role \<Rightarrow> phase" where
  "abort_phase Bob = BobAbortingP"
| "abort_phase Alice = Over FailureAbort"

fun successors :: "phase \<Rightarrow> phase list" where
  "successors (Starting role trade) = [Initiated role trade, Over FailureAbort]"
| "successors (Initiated role Taker) = [Committed role, abort_phase role]"
| "successors (Initiated role Maker) = [Revealed role, abort_phase role]"
| "successors (Committed role) = [Revealed role, abort_phase role]"
| "successors (Revealed Bob) = [BobFeeP, BobAbortingP]"
| "successors (Revealed Alice) = [AliceSetupP, Over FailureAbort]"
| "successors BobFeeP = [BobFundedP, BobAbortingP]"
| "successors BobFundedP = [BobLockedP, BobAbortingP]"
| "successors BobLockedP = [BobAccLockP, BobCanceledP]"
| "successors BobAccLockP = [BobAccLockFinalP, BobCanceledP]"
| "successors BobAccLockFinalP = [BobAccLockFinalP, BobBuyFinalP, BobCanceledP]"
| "successors BobBuyFinalP = [BobSweepingP]"
| "successors BobSweepingP = [Over SuccessSwap]"
| "successors BobCanceledP = [BobCancelFinalP]"
| "successors BobCancelFinalP = [Over FailureRefund]"
| "successors BobAbortingP = [Over FailureAbort]"
| "successors AliceSetupP = [AliceLockFinalP, AliceCanceledP]"
| "successors AliceLockFinalP = [AliceLockFinalP, AliceAccLockP, AliceCanceledP]"
| "successors AliceAccLockP = [AliceBuyP, AliceCanceledP]"
| "successors AliceBuyP = [Over SuccessSwap]"
| "successors AliceCanceledP = [AliceCanceledP, AliceRefundP, Over FailurePunish, Over FailureRefund]"
| "successors AliceRefundP = [AliceRefundSweepingP]"
| "successors AliceRefundSweepingP = [Over FailureRefund]"
| "successors (Over _) = []"

text \<open>
  The same transitions by where the source names them: the edges drawn in the diagram at the head of
  \<open>swapd/swap_state.rs\<close> (\<open>SwapEnd\<close> with the outcome the code ends with), the aborts that the comments
  of the states describe, and three transitions of a state to itself that neither mentions.
\<close>

fun drawn :: "phase \<Rightarrow> phase list" where
  "drawn (Starting role trade) = [Initiated role trade]"
| "drawn (Initiated role Maker) = [Revealed role]"
| "drawn (Initiated role Taker) = [Committed role]"
| "drawn (Committed role) = [Revealed role]"
| "drawn (Revealed Bob) = [BobFeeP]"
| "drawn BobFeeP = [BobFundedP]"
| "drawn BobFundedP = [BobLockedP]"
| "drawn BobLockedP = [BobAccLockP, BobCanceledP]"
| "drawn BobAccLockP = [BobAccLockFinalP, BobCanceledP]"
| "drawn BobAccLockFinalP = [BobBuyFinalP, BobCanceledP]"
| "drawn BobBuyFinalP = [BobSweepingP]"
| "drawn BobSweepingP = [Over SuccessSwap]"
| "drawn BobCanceledP = [BobCancelFinalP]"
| "drawn BobCancelFinalP = [Over FailureRefund]"
| "drawn (Revealed Alice) = [AliceSetupP]"
| "drawn AliceSetupP = [AliceLockFinalP, AliceCanceledP]"
| "drawn AliceLockFinalP = [AliceAccLockP, AliceCanceledP]"
| "drawn AliceAccLockP = [AliceBuyP, AliceCanceledP]"
| "drawn AliceBuyP = [Over SuccessSwap]"
| "drawn AliceCanceledP = [AliceRefundP, Over FailurePunish, Over FailureRefund]"
| "drawn AliceRefundP = [AliceRefundSweepingP]"
| "drawn AliceRefundSweepingP = [Over FailureRefund]"
| "drawn BobAbortingP = []"
| "drawn (Over _) = []"

fun described_aborts :: "phase \<Rightarrow> phase list" where
  "described_aborts (Starting _ _) = [Over FailureAbort]"
| "described_aborts (Initiated role _) = [abort_phase role]"
| "described_aborts (Committed role) = [abort_phase role]"
| "described_aborts (Revealed role) = [abort_phase role]"
| "described_aborts BobFeeP = [BobAbortingP]"
| "described_aborts BobFundedP = [BobAbortingP]"
| "described_aborts BobAbortingP = [Over FailureAbort]"
| "described_aborts _ = []"

inductive diagram_edge :: "phase \<Rightarrow> phase \<Rightarrow> bool" where
  drawn_edge: "q \<in> set (drawn p) \<Longrightarrow> diagram_edge p q"
| abort_edge: "q \<in> set (described_aborts p) \<Longrightarrow> diagram_edge p q"
| waiting_edge: "p \<in> {BobAccLockFinalP, AliceLockFinalP, AliceCanceledP} \<Longrightarrow> diagram_edge p p"

lemma diagram_edge_successors: "diagram_edge p q \<longleftrightarrow> q \<in> set (successors p)"
  by (cases p rule: successors.cases) (auto simp: diagram_edge.simps)

inductive phase_steps :: "phase \<Rightarrow> phase \<Rightarrow> bool" where
  phase_refl: "phase_steps p p"
| phase_step: "phase_steps p q \<Longrightarrow> r \<in> set (successors q) \<Longrightarrow> phase_steps p r"

lemma phase_steps_trans: "phase_steps q r \<Longrightarrow> phase_steps p q \<Longrightarrow> phase_steps p r"
  by (induction rule: phase_steps.induct) (auto intro: phase_steps.intros)

lemma phase_steps_once: "q \<in> set (successors p) \<Longrightarrow> phase_steps p q"
  by (rule phase_step [OF phase_refl])

inductive_cases phase_stepsE: "phase_steps p q"

lemma phase_steps_edges: "phase_steps p q \<longleftrightarrow> diagram_edge\<^sup>*\<^sup>* p q"
proof
  show "diagram_edge\<^sup>*\<^sup>* p q" if "phase_steps p q"
    using that by (induction rule: phase_steps.induct)
      (auto simp: diagram_edge_successors intro: rtranclp.rtrancl_into_rtrancl)
  show "phase_steps p q" if "diagram_edge\<^sup>*\<^sup>* p q"
    using that by (induction rule: rtranclp_induct)
      (auto simp: diagram_edge_successors intro: phase_steps.intros)
qed

text \<open>A set of phases closed under the diagram keeps every run that enters it.\<close>

lemma phase_steps_closed:
  assumes "phase_steps p q" and "p \<in> A" and "\<And>x y. x \<in> A \<Longrightarrow> y \<in> set (successors x) \<Longrightarrow> y \<in> A"
  shows "q \<in> A"
  using assms by (induction rule: phase_steps.induct) auto

section \<open>Every transition of the code is in the diagram\<close>

definition moves_to :: "phase list \<Rightarrow> swap_state_machine option \<Rightarrow> bool" where
  "moves_to ps r \<longleftrightarrow> (case r of None \<Rightarrow> True | Some sm \<Rightarrow> phase_of sm \<in> set ps)"

lemma moves_to_simps [simp]:
  "moves_to ps None" "moves_to ps (Some sm) \<longleftrightarrow> phase_of sm \<in> set ps"
  by (simp_all add: moves_to_def)

named_theorems moves "the phases a handler can move to"

lemma moves_abort_swap [moves]: "Over FailureAbort \<in> set ps \<Longrightarrow> results (handle_abort_swap ev) (moves_to ps)"
  unfolding handle_abort_swap_def by (intro results_intros) simp

lemma moves_abort_impossible [moves]: "results (handle_abort_impossible ev) (moves_to ps)"
  unfolding handle_abort_impossible_def by (intro results_intros) simp

lemma moves_bob_abort [moves]: "BobAbortingP \<in> set ps \<Longrightarrow> results (handle_bob_abort_swap c ev w) (moves_to ps)"
  unfolding handle_bob_abort_swap_def by (intro results_intros) simp

lemma moves_bob_interrupt [moves]:
  "BobCanceledP \<in> set ps \<Longrightarrow> results (handle_bob_swap_interrupt_after_lock ev) (moves_to ps)"
  unfolding handle_bob_swap_interrupt_after_lock_def
  by (intro results_intros moves) (simp_all add: results_intros)

lemma moves_alice_interrupt [moves]:
  "AliceCanceledP \<in> set ps \<Longrightarrow> results (handle_alice_swap_interrupt_after_lock ev w) (moves_to ps)"
  unfolding handle_alice_swap_interrupt_after_lock_def
  by (intro results_intros moves) (simp_all add: results_intros)

lemma moves_sweep_monero [moves]:
  "(\<And>sweep. phase_of (f sweep) \<in> set ps) \<Longrightarrow> results (sweep_monero_to f addendum) (moves_to ps)"
  unfolding sweep_monero_to_def by (rule results_bind) (auto intro!: results_intros split: task.split)

lemma moves_end_of_swap [moves]: "Over o' \<in> set ps \<Longrightarrow> results (end_of_swap ev o') (moves_to ps)"
  unfolding end_of_swap_def by (intro results_intros) simp

lemma moves_end_aborted_sweep [moves]: "Over FailureAbort \<in> set ps \<Longrightarrow> results (end_aborted_sweep ev) (moves_to ps)"
  unfolding end_aborted_sweep_def by (intro results_intros) simp

lemma moves_end_after_sweep [moves]: "Over o' \<in> set ps \<Longrightarrow> results (end_after_sweep ev b o') (moves_to ps)"
  unfolding end_after_sweep_def by (intro results_intros moves) simp_all

lemma moves_alice_funded [moves]:
  "AliceAccLockP \<in> set ps \<Longrightarrow> AliceCanceledP \<in> set ps \<Longrightarrow> results (alice_funded ev w required i hash amount) (moves_to ps)"
  unfolding alice_funded_def by (intro results_intros) simp

text \<open>One tactic for the handlers: unfold, follow the rules, split what is left.\<close>

lemmas moves_rules = results_intros moves

lemma moves_init_taker:
  "results (attempt_transition_to_init_taker c ev role) (moves_to [Initiated role Taker, Over FailureAbort])"
  unfolding attempt_transition_to_init_taker_def
  by (cases role; auto intro!: moves_rules split: init_taker_swap.split option.split)

lemma moves_init_maker:
  "results (attempt_transition_to_init_maker c ev role) (moves_to [Initiated role Maker, Over FailureAbort])"
  unfolding attempt_transition_to_init_maker_def
  by (cases role; auto intro!: moves_rules split: init_maker_swap.split option.split)

lemma moves_bob_init_taker:
  "results (try_bob_init_taker_to_bob_taker_maker_commit c ev l w) (moves_to [Committed Bob, BobAbortingP])"
  unfolding try_bob_init_taker_to_bob_taker_maker_commit_def
  by (auto intro!: moves_rules split: peer_msg.split option.split)

lemma moves_alice_init_taker:
  "results (try_alice_init_taker_to_alice_taker_maker_commit c ev l w) (moves_to [Committed Alice, Over FailureAbort])"
  unfolding try_alice_init_taker_to_alice_taker_maker_commit_def
  by (auto intro!: moves_rules split: peer_msg.split option.split)

lemma moves_bob_reveal:
  "results (attempt_transition_to_bob_reveal c ev l rc w) (moves_to [Revealed Bob, BobAbortingP])"
  unfolding attempt_transition_to_bob_reveal_def
  by (auto intro!: moves_rules split: peer_msg.split option.split)

lemma moves_alice_reveal:
  "results (attempt_transition_to_alice_reveal c ev l rc w) (moves_to [Revealed Alice, Over FailureAbort])"
  unfolding attempt_transition_to_alice_reveal_def
  by (auto intro!: moves_rules split: peer_msg.split option.split)

lemma moves_fee_estimated:
  "results (try_bob_reveal_to_bob_fee_estimated c ev l r w) (moves_to [BobFeeP, BobAbortingP])"
  unfolding try_bob_reveal_to_bob_fee_estimated_def
  by (auto intro!: moves_rules split: fee_estimations.split option.split)

lemma moves_funded:
  "results (try_bob_fee_estimated_to_bob_funded c ev l amount r w) (moves_to [BobFundedP, BobAbortingP])"
  unfolding try_bob_fee_estimated_to_bob_funded_def
  by (auto intro!: moves_rules split: address_transaction.split option.split)

lemma moves_locked:
  "results (try_bob_funded_to_bob_refund_procedure_signature c ev l r w) (moves_to [BobLockedP, BobAbortingP])"
  unfolding try_bob_funded_to_bob_refund_procedure_signature_def
  by (auto intro!: moves_rules split: peer_msg.split option.split refund_procedure_res.split)

lemma moves_bob_acc_lock:
  "results (try_bob_refund_procedure_signatures_to_bob_accordant_lock ev l r w bps)
     (moves_to [BobAccLockP, BobCanceledP])"
  unfolding try_bob_refund_procedure_signatures_to_bob_accordant_lock_def
  by (auto intro!: moves_rules split: address_transaction.split option.split)

lemma moves_bob_acc_lock_final:
  "results (try_bob_accordant_lock_to_bob_accordant_lock_final ev l r w bps)
     (moves_to [BobAccLockFinalP, BobCanceledP])"
  unfolding try_bob_accordant_lock_to_bob_accordant_lock_final_def
  by (auto intro!: moves_rules split: option.split)

lemma moves_bob_buy_final:
  "results (try_bob_accordant_lock_final_to_bob_buy_final c ev l r w)
     (moves_to [BobAccLockFinalP, BobBuyFinalP, BobCanceledP])"
  unfolding try_bob_accordant_lock_final_to_bob_buy_final_def
  by (auto intro!: moves_rules split: option.split tx_label.split)

lemma moves_bob_sweeping:
  "results (try_bob_buy_final_to_bob_buy_sweeping ev sweep) (moves_to [BobSweepingP])"
  unfolding try_bob_buy_final_to_bob_buy_sweeping_def
  by (auto intro!: moves_rules split: option.split)

lemma moves_bob_canceled: "results (try_bob_canceled_to_bob_cancel_final ev) (moves_to [BobCancelFinalP])"
  unfolding try_bob_canceled_to_bob_cancel_final_def
  by (auto intro!: moves_rules split: option.split)

lemma moves_bob_cancel_final: "results (try_bob_cancel_final_to_swap_end ev) (moves_to [Over FailureRefund])"
  unfolding try_bob_cancel_final_to_swap_end_def
  by (auto intro!: moves_rules split: option.split)

lemma moves_bob_aborting: "results (try_awaiting_sweep_to_swap_end ev) (moves_to [Over FailureAbort])"
  unfolding try_awaiting_sweep_to_swap_end_def
  by (auto intro!: moves_rules split: option.split list.split)

lemma moves_alice_setup:
  "results (try_alice_reveal_to_alice_core_arbitrating_setup c ev l r w) (moves_to [AliceSetupP, Over FailureAbort])"
  unfolding try_alice_reveal_to_alice_core_arbitrating_setup_def
  by (auto intro!: moves_rules split: peer_msg.split option.split core_arbitrating_setup_res.split)

lemma moves_alice_lock_final:
  "results (try_alice_core_arbitrating_setup_to_alice_arbitrating_lock_final c ev l r w)
     (moves_to [AliceLockFinalP, AliceCanceledP])"
  unfolding try_alice_core_arbitrating_setup_to_alice_arbitrating_lock_final_def
  by (auto intro!: moves_rules split: option.split params.split)

lemma moves_alice_acc_lock:
  "results (try_alice_arbitrating_lock_final_to_alice_accordant_lock ev w info amount)
     (moves_to [AliceLockFinalP, AliceAccLockP, AliceCanceledP])"
  unfolding try_alice_arbitrating_lock_final_to_alice_accordant_lock_def
  by (auto intro!: moves_rules split: option.split address_transaction.split)

lemma moves_alice_buy:
  "results (try_alice_accordant_lock_to_alice_buy_procedure_signature c ev w)
     (moves_to [AliceBuyP, AliceCanceledP])"
  unfolding try_alice_accordant_lock_to_alice_buy_procedure_signature_def
  by (auto intro!: moves_rules split: peer_msg.split option.split buy_procedure_res.split)

lemma moves_alice_success:
  "results (try_alice_buy_procedure_signature_to_swap_end ev) (moves_to [Over SuccessSwap])"
  unfolding try_alice_buy_procedure_signature_to_swap_end_def
  by (auto intro!: moves_rules split: option.split)

lemma moves_alice_canceled:
  "results (try_alice_canceled_to_alice_refund_or_alice_punish c ev w)
     (moves_to [AliceCanceledP, AliceRefundP, Over FailurePunish, Over FailureRefund])"
  unfolding try_alice_canceled_to_alice_refund_or_alice_punish_def
  by (auto intro!: moves_rules split: option.split tx_label.split)

lemma moves_alice_refund:
  "results (try_alice_refund_to_alice_refund_sweeping ev sweep) (moves_to [AliceRefundSweepingP])"
  unfolding try_alice_refund_to_alice_refund_sweeping_def
  by (auto intro!: moves_rules split: option.split)

lemmas handler_moves = moves_init_taker moves_init_maker moves_bob_init_taker moves_alice_init_taker
  moves_bob_reveal moves_alice_reveal moves_fee_estimated moves_funded moves_locked moves_bob_acc_lock
  moves_bob_acc_lock_final moves_bob_buy_final moves_bob_sweeping moves_bob_canceled
  moves_bob_cancel_final moves_bob_aborting moves_alice_setup moves_alice_lock_final
  moves_alice_acc_lock moves_alice_buy moves_alice_success moves_alice_canceled moves_alice_refund
  moves_end_after_sweep

lemma next_state_moves: "results (next_state c sm ev) (moves_to (successors (phase_of sm)))"
  by (cases sm) (simp_all add: wrapper_defs handler_moves results_ret)

end
