(* ===== verification/Examples.thy ===== *)
theory Examples
  imports SwapdRuntime
begin

text \<open>
  A concrete instance of the crates (functions that tag what they are given), a swap started with
  it, and events for it: the inputs of the witnesses.
\<close>

definition example_deal :: deal where
  "example_deal = Deal (DealParameters Bitcoin Monero Testnet 1000 2000 10 30 Alice []) [7] ''127.0.0.1:9735''"

definition example_deal_functions :: deal_functions where
  "example_deal_functions = \<lparr>
     role_other = (\<lambda>r. case r of Alice \<Rightarrow> Bob | Bob \<Rightarrow> Alice),
     swap_role_of = (\<lambda>d t. case t of Maker \<Rightarrow> dp_maker_role (deal_params d)
       | Taker \<Rightarrow> (case dp_maker_role (deal_params d) of Alice \<Rightarrow> Bob | Bob \<Rightarrow> Alice)),
     to_arbitrating_params = (\<lambda>_. [])\<rparr>"

definition example_key_functions :: key_functions where
  "example_key_functions = \<lparr>
     get_pubkey = (\<lambda>km k. Inr (1 # km)), derive_bitcoin_key = (\<lambda>km k. Inr (2 # km)),
     derive_monero_spend_key = (\<lambda>km. Inr (3 # km)),
     verify_proof = (\<lambda>km spend adaptor proof. if proof = spend then Inr () else Inl ''proof'')\<rparr>"

definition example_monero_functions :: monero_functions where
  "example_monero_functions = \<lparr>
     shared_view_key_id = 1, xmr_key_from_slice = Some, xmr_add_priv = (@), xmr_add_pub = (@),
     address_from_keypair = (\<lambda>net view spend. XmrAddress net (spend @ view)),
     address_from_viewpair = (\<lambda>net spend view. XmrAddress net (spend @ view))\<rparr>"

definition example_parameters :: "bytes \<Rightarrow> parameters" where
  "example_parameters k = \<lparr>p_buy = k, p_cancel = k, p_refund = k, p_punish = Some k, p_adaptor = k,
     p_spend = k, p_accordant_shared_keys = [(1, k)], p_proof = Some k, p_rest = []\<rparr>"

definition example_commit_functions :: commit_functions where
  "example_commit_functions = \<lparr>
     commit_alice = (\<lambda>ps sid. CommitParameters sid (p_spend ps)),
     commit_bob = (\<lambda>ps sid. CommitParameters sid (p_spend ps)),
     verify_commit_alice = (\<lambda>k r. if cp_commitments k = rp_parameters r then Inr () else Inl ''commit''),
     verify_commit_bob = (\<lambda>k r. if cp_commitments k = rp_parameters r then Inr () else Inl ''commit''),
     reveal_alice = (\<lambda>ps sid. RevealParameters sid (p_spend ps)),
     reveal_bob = (\<lambda>ps sid. RevealParameters sid (p_spend ps)),
     into_parameters_alice = (\<lambda>r. example_parameters (rp_parameters r)),
     into_parameters_bob = (\<lambda>r. example_parameters (rp_parameters r))\<rparr>"

definition example_tx_functions :: tx_functions where
  "example_tx_functions = \<lparr>
     txid_of = consensus_bytes, extract_tx = BtcTx, deserialize_tx = (\<lambda>b. Inr (BtcTx b)),
     consensus_decode = (\<lambda>b. Some (BtcTx b)),
     add_witness = (\<lambda>l p k s. Inr p), finalize_and_extract = (\<lambda>l p. Inr (BtcTx p)),
     into_arbitrating_setup = (\<lambda>b sid sig. CoreArbitratingSetup sid (1 # b) (2 # b) (3 # b) sig),
     into_arbitrating_tx = cas_lock\<rparr>"

definition example_funding_functions :: funding_functions where
  "example_funding_functions = \<lparr>
     funding_initialize = (\<lambda>pk net. Inr []), funding_get_address = (\<lambda>f. Inr (BtcAddress Testnet [5])),
     funding_was_seen = (\<lambda>f. f \<noteq> []), funding_apply = (\<lambda>f tx. Inr (9 # consensus_bytes tx))\<rparr>"

definition example_alice_functions :: alice_functions where
  "example_alice_functions = \<lparr>
     alice_new = btc_script, alice_generate_parameters = (\<lambda>a km d. Inr (example_parameters km)),
     alice_recover_accordant_key = (\<lambda>a km ps s tx. s), sign_adaptor_refund = (\<lambda>a km ps qs b arb. Inr [20]),
     alice_cosign_cancel = (\<lambda>a km ps qs b arb. Inr [21]),
     fully_sign_punish = (\<lambda>a km ps qs b arb. Inr ([22], [23])),
     validate_adaptor_buy = (\<lambda>a km ps qs b arb bps. Inr ()),
     fully_sign_buy = (\<lambda>a km ps qs b arb bps. Inr ([24], [25]))\<rparr>"

definition example_bob_functions :: bob_functions where
  "example_bob_functions = \<lparr>
     bob_new = (\<lambda>a. BobRole a []), bob_generate_parameters = (\<lambda>b km d. Inr (example_parameters km)),
     bob_recover_accordant_key = (\<lambda>b km ps s tx. s),
     core_arbitrating_transactions = (\<lambda>b ps qs f arb. Inr f),
     bob_cosign_cancel = (\<lambda>b km txs. Inr [30]),
     validate_adaptor_refund = (\<lambda>b km ps qs txs s. Inr ()),
     sign_adaptor_buy = (\<lambda>b sid km ps qs txs arb. Inr (BuyProcedureSignature sid [4] [31])),
     sign_arbitrating_lock = (\<lambda>b km txs. Inr [32]),
     fully_sign_refund = (\<lambda>b km txs s. Inr ([33], [34]))\<rparr>"

definition example_core :: core where
  "example_core = \<lparr>c_deal = example_deal_functions, c_keys = example_key_functions,
     c_xmr = example_monero_functions, c_commit = example_commit_functions,
     c_tx = example_tx_functions, c_funding = example_funding_functions,
     c_alice = example_alice_functions, c_bob = example_bob_functions\<rparr>"

lemmas example_core_defs = example_core_def example_deal_functions_def example_key_functions_def
  example_monero_functions_def example_commit_functions_def example_tx_functions_def
  example_funding_functions_def example_alice_functions_def example_bob_functions_def
  example_parameters_def

definition example_timing :: temporal_safety where
  "example_timing = \<lparr>cancel_timelock = 10, punish_timelock = 30, race_thr = 3, btc_finality_thr = 1,
     xmr_finality_thr = 2, sweep_monero_thr = 10\<rparr>"

text \<open>A daemon in a state, with the transactions it watches and stores.\<close>

definition example_client ::
  "(task_id \<times> tx_label) list \<Rightarrow> (task_id \<times> tx_label) list \<Rightarrow> syncer_client" where
  "example_client watched addrs = (initial_syncer_client 5 Testnet)\<lparr>
     tasks := (tasks (initial_syncer_client 5 Testnet))\<lparr>watched_txs := watched, watched_addrs := addrs, counter := 9\<rparr>\<rparr>"

definition example_runtime ::
  "swap_state_machine \<Rightarrow> syncer_client \<Rightarrow> (tx_label \<times> btc_tx) list \<Rightarrow> runtime" where
  "example_runtime sm sc stored = \<lparr>
     identity = Swap 5, outbox = [], attempts = 0, link = (\<lambda>_ _. True),
     rt_swap_id = 5, peer_service = Peer 1 (NodeAddr [7] ''127.0.0.1:9735''), connected = True, started = 0,
     enquirer = Some Farcasterd, syncer = sc, safety = example_timing,
     pending_peer_request = [], rt_txs = stored, rt_deal = example_deal,
     rt_trade_role = Maker, rt_swap_role = Alice,
     latest_state_report = new_state_report ''Start'' example_timing sc,
     monero_address_creation_height = None, swap_state = sm, unhandled_peer_message = None\<rparr>"

definition confs_msg :: "u32 \<Rightarrow> u32 \<Rightarrow> sync_msg" where
  "confs_msg i n = EventMsg (TransactionConfirmationsEv (TransactionConfirmations (TaskId i) [] (Some n) []))"

definition example_event :: "bus_msg \<Rightarrow> esb_event" where
  "example_event msg = EsbEvent (Swap 5) (Syncer Bitcoin Testnet) msg"

lemmas example_defs = example_runtime_def example_client_def example_timing_def initial_syncer_client_def
  confs_msg_def example_event_def example_deal_def

text \<open>The actions unfolded, to run a handler on a concrete runtime.\<close>

lemmas run_handlers = bind_def ret_def skip_def modify_def reads_def stateful_def lift_res_def throw_def
  on_def attempt_def send_to_def send_from_self_def event_defs give_task_def send_task_def with_syncer_def
  give_new_task_def abort_all_tasks_def remove_txs_def record_btc_confs_def on_syncer_def watches_tx_def
  watches_addr_def final_tx_def Let_def

end
