(* ===== verification/SwapMachine.thy ===== *)
theory SwapMachine
  imports SwapDiagram Examples
begin

text \<open>
  The loop of a swap daemon. First what every run of it keeps, whatever its fuel (a locale over
  frames, interpreted with the diagram of phases and with the permanent part of the runtime), then
  that it needs no more fuel than \<open>replay_fuel\<close>: every replay that causes a transition lowers a
  measure of the runtime.
\<close>

section \<open>Frames of the loop\<close>

locale machine_frame = frame R
  for R :: "runtime \<Rightarrow> runtime \<Rightarrow> bool" +
  fixes c :: core
  assumes transition_keeps: "sm_execute c source msg (swap_state s) s = (Ok (Some ssm), t)
      \<Longrightarrow> R s (t\<lparr>swap_state := ssm\<rparr>)"
    and fixed_keeps: "fixed s t \<Longrightarrow> R s t"
    and unhandled_keeps: "R s (s\<lparr>unhandled_peer_message := m\<rparr>)"
    and report_keeps: "keeps R report_potential_state_change"
    and events_keep: "keeps R (monero_event e)" "keeps R (bitcoin_event e)"
begin

lemma calm_fixed: "calm fixed m \<Longrightarrow> keeps R m"
  using calm_keeps calm_weaken fixed_keeps by blast

lemma handle_msg_keeps: "(\<And>source msg. keeps R (run source msg)) \<Longrightarrow> keeps R (handle_msg run source m)"
  unfolding handle_msg_def
  by (intro keeps_intros calm_fixed [OF fixed_own_swap_id])

lemma handle_sync_keeps: "(\<And>source msg. keeps R (run source msg)) \<Longrightarrow> keeps R (handle_sync run source m)"
  unfolding handle_sync_def
  by (cases m) (auto intro!: keeps_intros events_keep)

lemma replay_events_keeps: "(\<And>source msg. keeps R (run source msg)) \<Longrightarrow> keeps R (replay_events run source)"
  unfolding replay_events_def by (auto intro!: keeps_intros handle_msg_keeps handle_sync_keeps)

lemma report_end_keeps: "keeps R (report_end o')"
  unfolding report_end_def by (auto intro!: keeps_intros report_keeps calm_fixed [OF fixed_send_ctl])

lemma after_transition_keeps:
  "(\<And>source msg. keeps R (run source msg)) \<Longrightarrow> keeps R (after_transition run source msg ssm)"
  unfolding after_transition_def
  by (cases ssm) (auto intro!: keeps_intros unhandled_keeps replay_events_keeps report_end_keeps)

lemma execute_step_keeps:
  assumes run: "\<And>source msg. keeps R (run source msg)"
  shows "keeps R (execute_step c run source msg)"
proof (unfold keeps_def, rule allI)
  fix s
  obtain r t where m: "sm_execute c source msg (swap_state s) s = (r, t)" by fastforce
  have fx: "R s t" using fixed_keeps fixed_sm_execute calm_keeps keepsD m by metis
  have after: "R u (snd (after_transition run source msg ssm u))" for ssm u
    using after_transition_keeps [OF run] by (simp add: keeps_def)
  have un: "R s (t\<lparr>unhandled_peer_message := x\<rparr>)" for x
    using fx unhandled_keeps frame_trans by blast
  have tr: "R s (t\<lparr>swap_state := ssm\<rparr>)" if "r = Ok (Some ssm)" for ssm
    using that m transition_keeps by blast
  show "R s (snd (execute_step c run source msg s))"
    using fx un frame_trans [OF tr after]
    by (auto simp: execute_step_def reads_def bind_def m skip_def ret_def modify_def
          split: result.split option.split)
qed

lemma execute_keeps: "keeps R (execute_state_machine c n source msg)"
  by (induction n arbitrary: source msg) (auto intro!: keeps_intros execute_step_keeps)

lemma machine_keeps: "keeps R (machine c source msg)"
  unfolding machine_def by (rule execute_keeps)

text \<open>Every message but a checkpoint to restore.\<close>

lemma handle_ctl_keeps:
  assumes "\<And>ck. request \<noteq> CheckpointCtl ck"
  shows "keeps R (handle_ctl (machine c) source request)"
  using assms unfolding handle_ctl_def
  by (cases request) (auto intro!: keeps_intros machine_keeps fixed_keeps calm_fixed [OF fixed_send_peer])

lemma handle_info_keeps: "keeps R (handle_info c now source request)"
proof -
  have "keeps R (send_client_info dest m)" for dest m
    by (rule calm_fixed) (auto simp: send_client_info_def intro!: same.calm_intros fixed_rules)
  then show ?thesis
    unfolding handle_info_def by (cases request) (auto intro!: keeps_intros)
qed

lemma handle_keeps:
  assumes "\<And>ck. request \<noteq> Ctl (CheckpointCtl ck)"
  shows "keeps R (handle c now bus source request)"
  using assms unfolding handle_def
  by (cases bus; cases request)
    (auto intro!: keeps_intros handle_msg_keeps handle_sync_keeps handle_ctl_keeps handle_info_keeps
       machine_keeps report_keeps)

end

section \<open>The diagram, over every event\<close>

definition follows_diagram :: "runtime \<Rightarrow> runtime \<Rightarrow> bool" where
  "follows_diagram s t \<longleftrightarrow> phase_steps (phase_of (swap_state s)) (phase_of (swap_state t))"

abbreviation same_state :: "runtime \<Rightarrow> runtime \<Rightarrow> bool" where
  "same_state \<equiv> same swap_state"

lemma swap_state_fixed: "fixed s t \<Longrightarrow> swap_state t = swap_state s"
  by (simp add: same_def fixed_part_def)

lemma follows_same: "swap_state t = swap_state s \<Longrightarrow> follows_diagram s t"
  by (simp add: follows_diagram_def phase_refl)

lemma sm_execute_moves:
  assumes "sm_execute c source msg sm s = (Ok (Some ssm), t)"
  shows "phase_of ssm \<in> set (successors (phase_of sm))"
proof -
  have "next_state c sm (EsbEvent (identity s) source msg) s = (Ok (Some ssm), t)"
    using assms by (simp add: sm_execute_def reads_def)
  from resultsD [OF next_state_moves this] show ?thesis by simp
qed

lemma swap_state_report: "keeps (same_state) report_potential_state_change"
proof -
  have send: "keeps (same_state) (report_progress f p)" for f p
    by (rule calm_keeps [OF calm_weaken [OF fixed_reports(1)]]) (simp add: same_def fixed_part_def)
  show ?thesis
    unfolding report_potential_state_change_def
    by (auto simp: Let_def same_def intro!: same.keeps_intros send)
qed

lemma swap_state_events:
  "keeps (same_state) (monero_event e)" "keeps (same_state) (bitcoin_event e)"
proof -
  have send: "keeps (same_state) (send_task b t)" for b t
    by (rule calm_keeps [OF calm_weaken [OF fixed_tasks(1)]]) (simp add: same_def fixed_part_def)
  show "keeps (same_state) (monero_event e)"
    unfolding monero_event_def
    by (cases e) (auto simp: same_def on_syncer_def intro!: same.keeps_intros)
  show "keeps (same_state) (bitcoin_event e)"
    unfolding bitcoin_event_def
    by (cases e) (auto simp: same_def on_syncer_def intro!: same.keeps_intros send
          split: transaction_confirmations.split transaction_retrieved.split option.split)
qed

interpretation diagram: machine_frame follows_diagram c for c
proof
  show "follows_diagram s s" for s by (rule follows_same) simp
  show "follows_diagram s t \<Longrightarrow> follows_diagram t u \<Longrightarrow> follows_diagram s u" for s t u
    unfolding follows_diagram_def by (rule phase_steps_trans)
  show "follows_diagram s (t\<lparr>swap_state := ssm\<rparr>)"
    if "sm_execute c source msg (swap_state s) s = (Ok (Some ssm), t)" for source msg s ssm t
    using sm_execute_moves [OF that] by (simp add: follows_diagram_def phase_steps_once)
  show "fixed s t \<Longrightarrow> follows_diagram s t" for s t
    by (rule follows_same) (rule swap_state_fixed)
  show "follows_diagram s (s\<lparr>unhandled_peer_message := m\<rparr>)" for s m
    by (rule follows_same) simp
  show "keeps follows_diagram report_potential_state_change" "keeps follows_diagram (monero_event e)"
    "keeps follows_diagram (bitcoin_event e)" for e
    using swap_state_report swap_state_events follows_same unfolding keeps_def same_def by blast+
qed

text \<open>A swap that ends when its Buy transaction is final.\<close>

definition buy_runtime :: runtime where
  "buy_runtime = example_runtime AliceBuyProcedureSignature (example_client [(TaskId 1, Buy)] []) []"

lemma buy_runtime_step:
  "\<exists>s'. next_state example_core AliceBuyProcedureSignature (example_event (Sync (confs_msg 1 3))) buy_runtime
     = (Ok (Some (SwapEnd SuccessSwap)), s')"
  by (simp add: try_alice_buy_procedure_signature_to_swap_end_def buy_runtime_def run_handlers example_defs)


lemma machine_step: "machine c source msg = execute_step c (execute_state_machine c 4095) source msg"
proof -
  have fuel: "replay_fuel = Suc 4095" by (simp add: replay_fuel_def)
  show ?thesis unfolding machine_def fuel by (simp only: execute_state_machine.simps)
qed

lemmas run_loop = handle_def handle_sync_def bitcoin_event_def machine_step execute_step_def sm_execute_def
  after_transition_def report_end_def report_potential_state_change_def report_progress_def
  report_with_def send_ctl_def handle_tx_confs_def save_confs_def on_tasks_def new_state_report_def get_confs_def

lemma buy_runtime_handled:
  "\<exists>s'. handle example_core 0 SyncBus (Syncer Bitcoin Testnet) (Sync (confs_msg 1 3)) buy_runtime = (Ok (), s')
     \<and> swap_state s' = SwapEnd SuccessSwap"
  by (simp add: run_loop try_alice_buy_procedure_signature_to_swap_end_def buy_runtime_def run_handlers example_defs)


section \<open>The permanent part of a daemon\<close>

definition permanent_part ::
  "runtime \<Rightarrow> (service_id \<times> swap_id \<times> int \<times> deal \<times> trade_role \<times> swap_role \<times> temporal_safety)
     \<times> (swap_id \<times> network \<times> service_id \<times> service_id \<times> u32)" where
  "permanent_part rt = (fst (fixed_part rt), fst (client_part (syncer rt)))"

abbreviation permanent :: "runtime \<Rightarrow> runtime \<Rightarrow> bool" where
  "permanent \<equiv> same permanent_part"

lemma permanent_fixed: "fixed s t \<Longrightarrow> permanent s t"
  by (simp add: same_def permanent_part_def fixed_part_def)

lemma permanent_frame [simp]:
  "permanent s (s\<lparr>swap_state := x\<rparr>)" "permanent s (s\<lparr>unhandled_peer_message := m\<rparr>)"
  "permanent s (s\<lparr>latest_state_report := p\<rparr>)"
  by (simp_all add: same_def permanent_part_def fixed_part_def)

lemma permanent_on_syncer [simp]:
  "fst (client_part (f (syncer s))) = fst (client_part (syncer s)) \<Longrightarrow> permanent s (on_syncer f s)"
  by (simp add: same_def permanent_part_def fixed_part_def on_syncer_def)

lemma permanent_ops [simp]:
  "fst (client_part (handle_height_change h b s)) = fst (client_part s)"
  "fst (client_part (transaction_broadcasted tb s)) = fst (client_part s)"
  "fst (client_part (save_confs y i s)) = fst (client_part s)"
  by (simp_all add: client_part_def handle_height_change_def transaction_broadcasted_def on_tasks_def
      save_confs_def split: blockchain.split option.split tx_label.split)

lemma permanent_calm: "calm fixed m \<Longrightarrow> calm permanent m"
  by (erule calm_weaken) (rule permanent_fixed)

lemma permanent_report: "calm permanent report_potential_state_change"
  unfolding report_potential_state_change_def
  by (auto simp: Let_def intro!: same.calm_intros permanent_calm [OF fixed_reports(1)])

lemma permanent_events: "calm permanent (monero_event e)" "calm permanent (bitcoin_event e)"
proof -
  show "calm permanent (monero_event e)"
    unfolding monero_event_def by (cases e) (auto intro!: same.calm_intros)
  show "calm permanent (bitcoin_event e)"
    unfolding bitcoin_event_def
    by (cases e) (auto intro!: same.calm_intros permanent_calm [OF fixed_tasks(1)]
        split: transaction_confirmations.split transaction_retrieved.split option.split)
qed

interpretation permanent: machine_frame permanent c for c
proof
  show "permanent s (t\<lparr>swap_state := ssm\<rparr>)"
    if "sm_execute c source msg (swap_state s) s = (Ok (Some ssm), t)" for source msg s ssm t
  proof -
    have "permanent s t"
      using keepsD [OF calm_keeps [OF fixed_sm_execute] that] by (rule permanent_fixed)
    then show ?thesis using permanent_frame(1) [of t ssm] by (simp add: same_def)
  qed
  show "fixed s t \<Longrightarrow> permanent s t" for s t by (rule permanent_fixed)
qed (simp_all add: calm_keeps [OF permanent_report] calm_keeps [OF permanent_events(1)]
      calm_keeps [OF permanent_events(2)])

section \<open>Reachable daemons\<close>

text \<open>
  A daemon started with valid options, after any messages, on any bus and from any source, with any
  of its sends failing. The relation also keeps the checkpoint that was restored last, if any.
\<close>

definition restored_by :: "service_bus \<Rightarrow> bus_msg \<Rightarrow> checkpoint_swapd option" where
  "restored_by bus request = (case request of
     Ctl (CheckpointCtl cp) \<Rightarrow> if bus = CtlBus then Some (ckp_state cp) else None | _ \<Rightarrow> None)"

lemma restored_by_Some:
  "restored_by bus request = Some ck \<longleftrightarrow> (\<exists>cp. bus = CtlBus \<and> request = Ctl (CheckpointCtl cp) \<and> ck = ckp_state cp)"
  by (auto simp: restored_by_def split: bus_msg.split ctl_msg.split)

inductive swapd_reach :: "core \<Rightarrow> swapd_opts \<Rightarrow> checkpoint_swapd option \<Rightarrow> runtime \<Rightarrow> bool"
  for c :: core and o' :: swapd_opts where
  swapd_start: "initial_runtime c o' now outcomes = Ok s \<Longrightarrow> swapd_reach c o' None s"
| swapd_handle: "swapd_reach c o' k s \<Longrightarrow> restored_by bus request = None
    \<Longrightarrow> handle c now bus source request s = (r, s') \<Longrightarrow> swapd_reach c o' k s'"
| swapd_restore: "swapd_reach c o' k s \<Longrightarrow> restored_by bus request = Some ck
    \<Longrightarrow> handle c now bus source request s = (r, s') \<Longrightarrow> swapd_reach c o' (Some ck) s'"

inductive_cases swapd_reachE: "swapd_reach c o' k s"

text \<open>The phases of a role, and those from which the swap cannot be aborted.\<close>

fun plays :: "swap_role \<Rightarrow> phase \<Rightarrow> bool" where
  "plays r (Starting r' _) = (r' = r)"
| "plays r (Initiated r' _) = (r' = r)"
| "plays r (Committed r') = (r' = r)"
| "plays r (Revealed r') = (r' = r)"
| "plays r (Over _) = True"
| "plays r p = (r = (if p \<in> {AliceSetupP, AliceLockFinalP, AliceAccLockP, AliceBuyP, AliceCanceledP,
     AliceRefundP, AliceRefundSweepingP} then Alice else Bob))"

lemma plays_abort [simp]: "plays r (abort_phase r') = (r' = r \<or> abort_phase r' = Over FailureAbort)"
  by (cases r; cases r') simp_all

lemma plays_successor: "plays r p \<Longrightarrow> q \<in> set (successors p) \<Longrightarrow> plays r q"
  by (induction p rule: successors.induct) auto

fun locked_in :: "phase \<Rightarrow> bool" where
  "locked_in (Starting _ _) = False"
| "locked_in (Initiated _ _) = False"
| "locked_in (Committed _) = False"
| "locked_in (Revealed _) = False"
| "locked_in BobFeeP = False"
| "locked_in BobFundedP = False"
| "locked_in BobAbortingP = False"
| "locked_in (Over o') = (o' \<noteq> FailureAbort)"
| "locked_in _ = True"

lemma locked_successor: "locked_in p \<Longrightarrow> q \<in> set (successors p) \<Longrightarrow> locked_in q"
  by (induction p rule: successors.induct) auto

lemma over_steps: "phase_steps (Over o') q \<Longrightarrow> q = Over o'"
  using phase_steps_closed [of "Over o'" q "{Over o'}"] by auto

lemma phase_over: "phase_of sm = Over o' \<Longrightarrow> sm = SwapEnd o'"
  by (cases sm) simp_all

lemma handle_refused:
  assumes "restored_by bus request = None" and "request = Ctl (CheckpointCtl ck)"
  shows "snd (handle c now bus source request s) = s"
  using assms by (cases bus) (simp_all add: restored_by_def handle_def throw_def)

lemma handle_frame:
  assumes frame: "\<And>s. R s s" and keeps: "\<And>request. (\<And>ck. request \<noteq> Ctl (CheckpointCtl ck)) \<Longrightarrow> keeps R (handle c now bus source request)"
    and run: "handle c now bus source request s = (r, s')" and other: "restored_by bus request = None"
  shows "R s s'"
proof (cases "\<exists>ck. request = Ctl (CheckpointCtl ck)")
  case True
  then show ?thesis using handle_refused [OF other] run frame by (metis snd_conv)
next
  case False
  then show ?thesis using keepsD [OF keeps run] by blast
qed

lemma handle_follows:
  assumes "handle c now bus source request s = (r, s')" and "restored_by bus request = None"
  shows "phase_steps (phase_of (swap_state s)) (phase_of (swap_state s'))"
  using handle_frame [OF _ diagram.handle_keeps assms] by (simp add: follows_diagram_def phase_refl)

lemma handle_permanent:
  assumes "handle c now bus source request s = (r, s')" and "restored_by bus request = None"
  shows "permanent_part s' = permanent_part s"
  using handle_frame [OF _ permanent.handle_keeps assms] by (simp add: same_def)

text \<open>A restored checkpoint: the daemon keeps what it was started with, the rest is the checkpoint's.\<close>

definition restored_part :: "runtime
    \<Rightarrow> (service_id \<times> swap_id \<times> deal \<times> swap_role) \<times> (trade_role \<times> temporal_safety \<times> swap_state_machine)" where
  "restored_part rt = ((identity rt, rt_swap_id rt, rt_deal rt, rt_swap_role rt),
     (rt_trade_role rt, safety rt, swap_state rt))"

lemma fixed_restored: "fixed s t \<Longrightarrow> same restored_part s t"
  by (simp add: same_def fixed_part_def restored_part_def)

lemma restored_calm: "calm fixed m \<Longrightarrow> calm (same restored_part) m"
  by (erule calm_weaken) (rule fixed_restored)

lemma restored_report: "calm (same restored_part) report_potential_state_change"
proof -
  have latest: "same restored_part rt (rt\<lparr>latest_state_report := p\<rparr>)" for rt p
    by (simp add: same_def restored_part_def)
  show ?thesis
    unfolding report_potential_state_change_def
    by (auto simp: Let_def latest intro!: same.calm_intros restored_calm [OF fixed_reports(1)])
qed

lemma restored_tasks:
  "calm fixed (for_each ids (\<lambda>(l, txid). bind (with_syncer (watch_tx_btc txid l)) (send_task Bitcoin)))"
  "calm fixed (for_each broadcasts (\<lambda>tx. bind (with_syncer (broadcast_task tx)) (send_task Bitcoin)))"
  "calm fixed (case addendum of
        Some (XmrAddressAddendum spend view start) \<Rightarrow>
          bind (with_syncer (watch_addr_xmr spend view AccLock (Some start))) (send_task Monero)
      | None \<Rightarrow> skip)"
  "calm fixed (case pending of Some m \<Rightarrow> send_peer m | None \<Rightarrow> skip)"
  by (auto intro!: same.calm_intros fixed_rules split: option.split xmr_address_addendum.split)

lemma handle_restores:
  assumes "handle c now bus source request s = (r, s')" and "restored_by bus request = Some ck"
  shows "restored_part s' = ((identity s, rt_swap_id s, rt_deal s, rt_swap_role s),
     (ck_local_trade_role ck, ck_temporal_safety ck, ck_state ck))"
proof -
  obtain cp where msg: "bus = CtlBus" "request = Ctl (CheckpointCtl cp)" "ckp_state cp = ck"
    using assms(2) by (auto simp: restored_by_Some)
  define put where "put rt = rt\<lparr>swap_state := ck_state ck, enquirer := ck_enquirer ck, safety := ck_temporal_safety ck,
       monero_address_creation_height := ck_monero_address_creation_height ck,
       rt_trade_role := ck_local_trade_role ck, rt_txs := fold (\<lambda>(l, tx). hm_insert l tx) (ck_txs ck) []\<rparr>"
    for rt :: runtime
  define rest where "rest = steps [
       watch_height Bitcoin, watch_height Monero,
       for_each (ck_txids ck) (\<lambda>(l, txid). bind (with_syncer (watch_tx_btc txid l)) (send_task Bitcoin)),
       for_each (ck_pending_broadcasts ck) (\<lambda>tx. bind (with_syncer (broadcast_task tx)) (send_task Bitcoin)),
       (case ck_xmr_addr_addendum ck of
          Some (XmrAddressAddendum spend view start) \<Rightarrow>
            bind (with_syncer (watch_addr_xmr spend view AccLock (Some start))) (send_task Monero)
        | None \<Rightarrow> skip)]
       (case ck_pending_msg ck of Some m \<Rightarrow> send_peer m | None \<Rightarrow> skip)"
  have "calm fixed rest"
    unfolding rest_def steps.simps
    by (intro same.calm_intros fixed_watches restored_tasks)
  then have frame: "keeps (same restored_part) (bind rest (\<lambda>_. report_potential_state_change))"
    by (intro calm_keeps same.calm_intros restored_report restored_calm)
  have "handle c now bus source request = bind (bind (modify put) (\<lambda>_. rest)) (\<lambda>_. report_potential_state_change)"
    unfolding handle_def handle_ctl_def restore_checkpoint_def msg rest_def put_def
    by (simp only: prod.case service_bus.case bus_msg.case ctl_msg.case steps.simps msg)
  then have "bind rest (\<lambda>_. report_potential_state_change) (put s) = (r, s')"
    using assms(1) by (simp add: bind_assoc) (simp add: bind_def modify_def)
  from keepsD [OF frame this] show ?thesis
    by (simp add: same_def restored_part_def put_def)
qed

lemma handle_cases:
  assumes "handle c now bus source request s = (r, s')"
  shows "phase_steps (phase_of (swap_state s)) (phase_of (swap_state s'))
    \<or> (\<exists>cp. bus = CtlBus \<and> request = Ctl (CheckpointCtl cp) \<and> swap_state s' = ck_state (ckp_state cp))"
proof (cases "restored_by bus request")
  case None
  then show ?thesis using handle_follows [OF assms] by blast
next
  case (Some ck)
  with handle_restores [OF assms Some] show ?thesis by (auto simp: restored_part_def restored_by_Some)
qed

lemma locked_steps:
  assumes "phase_steps p q" and "locked_in p"
  shows "locked_in q"
  using phase_steps_closed [OF assms(1), of "{p. locked_in p}"] assms(2) locked_successor by auto

section \<open>Properties\<close>

text \<open>
  Property C6 (refinement): every transition of the state machine, from any state, on any event and
  with any failing sends, is drawn in the diagram at the head of \<open>swapd/swap_state.rs\<close>, is an abort
  that the comment of its state describes, or is one of three transitions of a state to itself
  (\<open>BobAccordantLockFinal\<close>, \<open>AliceArbitratingLockFinal\<close>, \<open>AliceCanceled\<close>), which the source states
  nowhere but in its code. (The comment of \<open>AliceArbitratingLockFinal\<close> names a transition back to
  \<open>AliceCoreArbitratingSetup\<close>, which is neither drawn nor made.)
\<close>

theorem transitions_follow_diagram:
  assumes "next_state c sm ev s = (Ok (Some sm'), s')"
  shows "phase_of sm' \<in> set (drawn (phase_of sm)) \<or> phase_of sm' \<in> set (described_aborts (phase_of sm))
    \<or> phase_of sm' = phase_of sm \<and> phase_of sm \<in> {BobAccLockFinalP, AliceLockFinalP, AliceCanceledP}"
proof -
  have "diagram_edge (phase_of sm) (phase_of sm')"
    using resultsD [OF next_state_moves assms] by (simp add: diagram_edge_successors)
  then show ?thesis by (auto simp: diagram_edge.simps)
qed

theorem transitions_follow_diagram_witness:
  "\<exists>s'. next_state example_core AliceBuyProcedureSignature (example_event (Sync (confs_msg 1 3))) buy_runtime
     = (Ok (Some (SwapEnd SuccessSwap)), s')
     \<and> Over SuccessSwap \<in> set (drawn AliceBuyP)"
  using buy_runtime_step transitions_follow_diagram by fastforce

text \<open>
  Property C7 (refinement): whatever message a swap daemon handles, on any bus and with any outcome,
  errors included, its phase moves along the edges of the diagram of transitions only. The one
  exception is stated with it: the control message that restores a checkpoint, which puts the
  checkpoint's state in the place of the present one, whatever that is.
\<close>

theorem handled_messages_follow_diagram:
  assumes "handle c now bus source request s = (r, s')"
  shows "diagram_edge\<^sup>*\<^sup>* (phase_of (swap_state s)) (phase_of (swap_state s'))
    \<or> (\<exists>cp. bus = CtlBus \<and> request = Ctl (CheckpointCtl cp) \<and> swap_state s' = ck_state (ckp_state cp))"
  using handle_cases [OF assms] by (simp add: phase_steps_edges)

theorem handled_messages_follow_diagram_witness: "diagram_edge\<^sup>*\<^sup>* AliceBuyP (Over SuccessSwap)"
proof -
  obtain s' where run: "handle example_core 0 SyncBus (Syncer Bitcoin Testnet) (Sync (confs_msg 1 3)) buy_runtime
      = (Ok (), s')" and end_state: "swap_state s' = SwapEnd SuccessSwap"
    using buy_runtime_handled by blast
  have "swap_state buy_runtime = AliceBuyProcedureSignature"
    by (simp add: buy_runtime_def example_runtime_def)
  with handled_messages_follow_diagram [OF run] end_state show ?thesis by simp
qed

text \<open>
  Property C9 (safety): once the funds are at stake (Bob has the signatures for his Lock
  transaction, Alice has sent hers) no message makes the swap end as aborted, with one exception: a
  control message that restores a checkpoint of a state before that, which the daemon takes in any
  state.
\<close>

theorem locked_swaps_never_abort:
  assumes "locked_in (phase_of (swap_state s))" and "handle c now bus source request s = (r, s')"
  shows "locked_in (phase_of (swap_state s'))
    \<or> (\<exists>cp. bus = CtlBus \<and> request = Ctl (CheckpointCtl cp) \<and> swap_state s' = ck_state (ckp_state cp)
         \<and> \<not> locked_in (phase_of (ck_state (ckp_state cp))))"
  using handle_cases [OF assms(2)] locked_steps assms(1) by metis

theorem locked_swaps_never_abort_witness:
  "\<exists>s'. handle example_core 0 SyncBus (Syncer Bitcoin Testnet) (Sync (confs_msg 1 3)) buy_runtime = (Ok (), s')
     \<and> locked_in (phase_of (swap_state s'))"
proof -
  have "locked_in (phase_of (swap_state buy_runtime))"
    by (simp add: buy_runtime_def example_runtime_def)
  then show ?thesis
    using buy_runtime_handled locked_swaps_never_abort by (metis bus_msg.distinct(11))
qed

text \<open>
  Property C10 (invariant): of every reachable daemon, the identity is the swap it was started for,
  deal and swap role are those of its options (the maker's role of the deal, or the other one for a
  taker). As long as no checkpoint was restored its trade role and its temporal parameters are those
  of its options too, the parameters are valid, and its state is one of its role. After a restored
  checkpoint trade role and parameters are the ones the checkpoint has, without a check, and its
  state is the checkpoint's or one that follows it in the diagram.
\<close>

theorem reachable_daemon_invariant:
  assumes "swapd_reach c o' k s"
  shows "identity s = Swap (opt_swap_id o') \<and> rt_swap_id s = opt_swap_id o' \<and> rt_deal s = opt_deal o'
     \<and> rt_swap_role s = (case opt_trade_role o' of Maker \<Rightarrow> dp_maker_role (deal_params (opt_deal o'))
          | Taker \<Rightarrow> role_other (c_deal c) (dp_maker_role (deal_params (opt_deal o'))))
     \<and> (case k of
          None \<Rightarrow> rt_trade_role s = opt_trade_role o'
            \<and> cancel_timelock (safety s) = dp_cancel_timelock (deal_params (opt_deal o'))
            \<and> punish_timelock (safety s) = dp_punish_timelock (deal_params (opt_deal o'))
            \<and> race_thr (safety s) = ucast (opt_arbitrating_safety o')
            \<and> btc_finality_thr (safety s) = ucast (opt_arbitrating_finality o')
            \<and> xmr_finality_thr (safety s) = ucast (opt_accordant_finality o')
            \<and> valid_params (safety s) = Ok () \<and> plays (rt_swap_role s) (phase_of (swap_state s))
        | Some ck \<Rightarrow> rt_trade_role s = ck_local_trade_role ck \<and> safety s = ck_temporal_safety ck
            \<and> diagram_edge\<^sup>*\<^sup>* (phase_of (ck_state ck)) (phase_of (swap_state s)))"
  using assms
proof (induction rule: swapd_reach.induct)
  case (swapd_start now outcomes s)
  then show ?case
    by (auto simp: initial_runtime_def opts_temporal_safety_def Let_def rbind_Ok_conv start_state_def
        split: trade_role.splits)
next
  case (swapd_handle k s bus request now source r s')
  have same: "permanent_part s' = permanent_part s"
    using handle_permanent swapd_handle.hyps by blast
  have steps: "phase_steps (phase_of (swap_state s)) (phase_of (swap_state s'))"
    using handle_follows swapd_handle.hyps by blast
  have "plays r (phase_of (swap_state s'))" if "plays r (phase_of (swap_state s))" for r
    using phase_steps_closed [OF steps, of "{p. plays r p}"] that plays_successor by auto
  moreover have "diagram_edge\<^sup>*\<^sup>* p (phase_of (swap_state s'))" if "diagram_edge\<^sup>*\<^sup>* p (phase_of (swap_state s))" for p
    using that steps by (simp add: phase_steps_edges)
  ultimately show ?case
    using same swapd_handle.IH by (auto simp: permanent_part_def fixed_part_def split: option.splits)
next
  case (swapd_restore k s bus request ck now source r s')
  then show ?case
    using handle_restores [OF swapd_restore.hyps(3,2)] by (simp add: restored_part_def)
qed

definition example_opts :: swapd_opts where
  "example_opts = \<lparr>opt_swap_id = 5, opt_deal = example_deal, opt_trade_role = Taker,
     opt_arbitrating_finality = 1, opt_arbitrating_safety = 3, opt_accordant_finality = 2\<rparr>"

theorem reachable_daemon_invariant_witness:
  "\<exists>s. initial_runtime example_core example_opts 0 (\<lambda>_ _. True) = Ok s
     \<and> identity s = Swap 5 \<and> race_thr (safety s) = 3 \<and> plays Bob (phase_of (swap_state s))"
proof -
  obtain s where s: "initial_runtime example_core example_opts 0 (\<lambda>_ _. True) = Ok s" and role: "rt_swap_role s = Bob"
    by (simp add: initial_runtime_def example_opts_def opts_temporal_safety_def example_deal_def
        valid_params_def example_core_defs Let_def)
  show ?thesis
    using reachable_daemon_invariant [OF swapd_start [OF s]] s role by (simp add: example_opts_def)
qed

text \<open>
  Property C11 (invariant): the outcome of a swap never changes once it has ended, whatever message
  its daemon handles; only the control message that restores a checkpoint replaces the ended state by
  the checkpoint's.
\<close>

theorem outcome_is_final:
  assumes "swap_state s = SwapEnd o'" and "handle c now bus source request s = (r, s')"
  shows "swap_state s' = SwapEnd o'
    \<or> (\<exists>cp. bus = CtlBus \<and> request = Ctl (CheckpointCtl cp) \<and> swap_state s' = ck_state (ckp_state cp))"
  using handle_cases [OF assms(2)] assms(1) over_steps phase_over by auto

theorem outcome_is_final_witness:
  "\<exists>r s'. handle example_core 0 CtlBus Farcasterd (Ctl AbortSwap)
       (example_runtime (SwapEnd FailureRefund) (example_client [] []) []) = (r, s')
     \<and> swap_state s' = SwapEnd FailureRefund"
proof -
  let ?s = "example_runtime (SwapEnd FailureRefund) (example_client [] []) []"
  obtain r s' where run: "handle example_core 0 CtlBus Farcasterd (Ctl AbortSwap) ?s = (r, s')" by fastforce
  have "swap_state ?s = SwapEnd FailureRefund" by (simp add: example_runtime_def)
  from outcome_is_final [OF this run] run show ?thesis by auto
qed

end
