(* ===== verification/SwapReplay.thy ===== *)
theory SwapReplay
  imports SwapMachine
begin

text \<open>
  The loop of a swap daemon ends. A transition on a replayed event either goes on to a later phase
  or, in the three phases with a transition to themselves, uses up a transaction, the id of one, or
  the wait for the funding; so a measure of the runtime drops at every replayed transition, and
  \<open>replay_fuel\<close> is above its maximum.
\<close>

section \<open>The measure\<close>

fun rank :: "phase \<Rightarrow> nat" where
  "rank (Starting _ _) = 11"
| "rank (Initiated _ _) = 10"
| "rank (Committed _) = 9"
| "rank (Revealed _) = 8"
| "rank BobFeeP = 7"
| "rank BobFundedP = 6"
| "rank BobLockedP = 5"
| "rank BobAccLockP = 4"
| "rank BobAccLockFinalP = 3"
| "rank BobBuyFinalP = 2"
| "rank BobSweepingP = 1"
| "rank BobCanceledP = 2"
| "rank BobCancelFinalP = 1"
| "rank BobAbortingP = 1"
| "rank AliceSetupP = 6"
| "rank AliceLockFinalP = 5"
| "rank AliceAccLockP = 4"
| "rank AliceBuyP = 1"
| "rank AliceCanceledP = 3"
| "rank AliceRefundP = 2"
| "rank AliceRefundSweepingP = 1"
| "rank (Over _) = 0"

lemma rank_le: "rank p \<le> 11"
  by (cases p) simp_all

lemma rank_abort: "rank (abort_phase role) \<le> 1"
  by (cases role) simp_all

lemma rank_successor: "q \<in> set (successors p) \<Longrightarrow> q \<noteq> p \<Longrightarrow> rank q < rank p"
  by (induction p rule: successors.induct) (auto intro: le_less_trans [OF rank_abort])

definition weight :: "runtime \<Rightarrow> nat" where
  "weight rt = 16 * card (hm_keys (rt_txs rt)) + 2 * card (hm_keys (txids (tasks (syncer rt))))
     + (if awaiting_funding (syncer rt) then 1 else 0)"

lemma weight_less: "weight rt < 128"
proof -
  have "card (hm_keys (rt_txs rt)) \<le> 7" "card (hm_keys (txids (tasks (syncer rt)))) \<le> 7"
    by (rule card_tx_labels_le)+
  then show ?thesis by (simp add: weight_def)
qed

definition replay_measure :: "runtime \<Rightarrow> nat" where
  "replay_measure rt = 128 * rank (phase_of (swap_state rt)) + weight rt"

lemma replay_measure_less: "replay_measure rt < 1536"
  using rank_le [of "phase_of (swap_state rt)"] weight_less [of rt] by (simp add: replay_measure_def)

section \<open>What is left to use\<close>

text \<open>The runtime has no more transactions, ids and funding to wait for than before.\<close>

definition lighter :: "runtime \<Rightarrow> runtime \<Rightarrow> bool" where
  "lighter s t \<longleftrightarrow> hm_keys (rt_txs t) \<subseteq> hm_keys (rt_txs s)
     \<and> hm_keys (txids (tasks (syncer t))) \<subseteq> hm_keys (txids (tasks (syncer s)))
     \<and> (awaiting_funding (syncer t) \<longrightarrow> awaiting_funding (syncer s))"

interpretation lighter: frame lighter
  by unfold_locales (auto simp: lighter_def)

lemma lighter_weight: "lighter s t \<Longrightarrow> weight t \<le> weight s"
  unfolding lighter_def weight_def
  by (intro add_mono mult_left_mono card_mono) (auto intro: finite_subset [OF subset_UNIV])

named_theorems lighter_rules "actions that use and never add"

lemma lighter_send_to [lighter_rules]: "calm lighter (send_to bus src dest m)"
  by (auto simp: calm_def no_hang_def keeps_def lighter_def send_to_def Let_def)

lemma lighter_send_from_self [lighter_rules]: "calm lighter (send_from_self bus dest m)"
  unfolding send_from_self_def by (intro calm_reads lighter_rules)

lemma lighter_events [lighter_rules]:
  "calm lighter (complete_client_info ev i)" "calm lighter (complete_client_ctl ev t)"
  "calm lighter (send_ctl_service ev d t)" "calm lighter (complete_ctl_service ev d t)"
  "calm lighter (send_sync_service ev d y)"
  unfolding event_defs by (intro calm_if lighter_rules)+

definition counts :: "syncer_client \<Rightarrow> (tx_label, txid) hash_map \<times> bool" where
  "counts s = (txids (tasks s), awaiting_funding s)"

lemma counts_frame [simp]:
  "counts (on_tasks f s) = (txids (f (tasks s)), awaiting_funding s)"
  "counts (add_task i t s) = counts s" "counts (s\<lparr>xmr_addr_addendum := a\<rparr>) = counts s"
  "counts (handle_tx_confs i confs thr s) = counts s" "counts (handle_height_change h b s) = counts s"
  "counts (save_confs y i s) = counts s" "counts (transaction_broadcasted tb s) = counts s"
  by (simp_all add: counts_def on_tasks_def add_task_def handle_tx_confs_def handle_height_change_def
      save_confs_def transaction_broadcasted_def Let_def split: option.split tx_label.split blockchain.split)

lemma counts_ops [simp]:
  "counts (snd (estimate_fee_btc s)) = counts s" "counts (snd (watch_tx_xmr hash l s)) = counts s"
  "counts (snd (retrieve_tx_btc txid l s)) = counts s" "counts (snd (watch_addr_btc addr l s)) = counts s"
  "counts (snd (watch_addr_xmr spend view l start s)) = counts s"
  "counts (snd (watch_height_task b s)) = counts s" "counts (snd (sweep_btc ba retry s)) = counts s"
  "counts (snd (sweep_xmr ma retry s)) = counts s" "counts (snd (broadcast_task tx s)) = counts s"
  by (simp_all add: client_defs Let_def counts_def on_tasks_def add_task_def split: option.split)

lemma counts_watch_tx [simp]:
  "counts (snd (watch_tx_btc txid l s)) = (hm_insert l txid (txids (tasks s)), awaiting_funding s)"
  by (simp add: client_defs Let_def counts_def on_tasks_def add_task_def)

lemma lighter_on_syncer [simp]: "counts (f (syncer rt)) = counts (syncer rt) \<Longrightarrow> lighter rt (on_syncer f rt)"
  by (simp add: lighter_def on_syncer_def counts_def)

lemma lighter_with_syncer [lighter_rules]:
  "(\<And>s. counts (snd (f s)) = counts s) \<Longrightarrow> calm lighter (with_syncer f)"
  unfolding with_syncer_def by (rule calm_stateful) simp

lemma lighter_tasks [lighter_rules]:
  "calm lighter (send_task b t)" "calm lighter (give_task ev b t)" "calm lighter (record_btc_confs i k)"
  unfolding send_task_def give_task_def record_btc_confs_def
  by (intro lighter.calm_intros lighter_rules; simp)+

lemma lighter_give_new_task [lighter_rules]:
  "(\<And>s. counts (snd (f s)) = counts s) \<Longrightarrow> calm lighter (give_new_task ev b f)"
  unfolding give_new_task_def by (intro lighter.calm_intros lighter_rules)

lemma lighter_broadcasts [lighter_rules]: "calm lighter (broadcast tx l)" "calm lighter (broadcast_stored l)"
  unfolding broadcast_def broadcast_stored_def take_tx_def
  by (auto intro!: lighter.calm_intros lighter_rules settled_intros simp: lighter_def)

lemma lighter_interrupts [lighter_rules]:
  "calm lighter (handle_abort_impossible ev)"
  "calm lighter (handle_bob_swap_interrupt_after_lock ev)"
  "calm lighter (handle_alice_swap_interrupt_after_lock ev w)"
proof -
  show i: "calm lighter (handle_abort_impossible ev)"
    unfolding handle_abort_impossible_def by (auto intro!: lighter.calm_intros lighter_rules)
  show "calm lighter (handle_bob_swap_interrupt_after_lock ev)"
    unfolding handle_bob_swap_interrupt_after_lock_def
    by (auto intro!: lighter.calm_intros lighter_rules i)
  have "calm lighter (set_awaiting_funding False)"
    unfolding set_awaiting_funding_def by (rule calm_modify) (simp add: lighter_def on_syncer_def)
  then show "calm lighter (handle_alice_swap_interrupt_after_lock ev w)"
    unfolding handle_alice_swap_interrupt_after_lock_def
    by (auto intro!: lighter.calm_intros lighter_rules i)
qed

section \<open>No transition adds nothing\<close>

text \<open>An action that uses nothing up and adds nothing when it returns no new state.\<close>

definition quiet :: "transition \<Rightarrow> bool" where
  "quiet m \<longleftrightarrow> (\<forall>s t. m s = (Ok None, t) \<longrightarrow> lighter s t)"

definition returns_state :: "transition \<Rightarrow> bool" where
  "returns_state m \<longleftrightarrow> results m (\<lambda>r. r \<noteq> None)"

named_theorems quiet_intros "introduction rules for quiet handlers"

lemma quiet_ret [quiet_intros]: "quiet (ret None)"
  by (simp add: quiet_def ret_def lighter.frame_refl)

lemma quiet_reads [quiet_intros]: "(\<And>x. quiet (f x)) \<Longrightarrow> quiet (reads g f)"
  by (simp add: quiet_def reads_def)

lemma quiet_if [quiet_intros]: "(b \<Longrightarrow> quiet m) \<Longrightarrow> (\<not> b \<Longrightarrow> quiet n) \<Longrightarrow> quiet (if b then m else n)"
  by simp

lemma quiet_returns: "returns_state m \<Longrightarrow> quiet m"
  unfolding quiet_def returns_state_def results_def by blast

lemma quiet_steps_returns [quiet_intros]: "returns_state k \<Longrightarrow> quiet (steps ms k)"
  by (rule quiet_returns) (simp add: returns_state_def results_steps)

lemma quiet_bind_returns [quiet_intros]: "(\<And>x. returns_state (f x)) \<Longrightarrow> quiet (bind m f)"
  by (rule quiet_returns) (simp add: returns_state_def results_bind)

lemma quiet_calm: "calm lighter m \<Longrightarrow> quiet m"
  using keepsD calm_keeps unfolding quiet_def by metis

lemma quiet_bind:
  assumes "calm lighter m" and "\<And>x. quiet (f x)"
  shows "quiet (bind m f)"
proof (unfold quiet_def, intro allI impI)
  fix s t
  assume run: "bind m f s = (Ok None, t)"
  then obtain x u where "m s = (Ok x, u)" "f x u = (Ok None, t)"
    by (auto simp: bind_def split: prod.splits result.splits)
  then have "lighter s u" "lighter u t"
    using assms keepsD calm_keeps unfolding quiet_def by metis+
  then show "lighter s t" by (rule lighter.frame_trans)
qed

lemma returns_ret [quiet_intros]: "returns_state (ret (Some x))"
  unfolding returns_state_def by (rule results_ret) simp

lemma returns_bind [quiet_intros]: "(\<And>x. returns_state (f x)) \<Longrightarrow> returns_state (bind m f)"
  unfolding returns_state_def by (rule results_bind)

lemma returns_reads [quiet_intros]: "(\<And>x. returns_state (f x)) \<Longrightarrow> returns_state (reads g f)"
  unfolding returns_state_def by (rule results_reads)

lemma returns_steps [quiet_intros]: "returns_state k \<Longrightarrow> returns_state (steps ms k)"
  unfolding returns_state_def by (rule results_steps)

lemma returns_if [quiet_intros]:
  "(b \<Longrightarrow> returns_state m) \<Longrightarrow> (\<not> b \<Longrightarrow> returns_state n) \<Longrightarrow> returns_state (if b then m else n)"
  by simp

lemma returns_prod [quiet_intros]:
  "(\<And>a b. x = (a, b) \<Longrightarrow> returns_state (f a b)) \<Longrightarrow> returns_state (case x of (a, b) \<Rightarrow> f a b)"
  by (cases x) simp

lemma returns_let [quiet_intros]: "returns_state (f x) \<Longrightarrow> returns_state (let y = x in f y)"
  by simp

lemma returns_endings [quiet_intros]:
  "returns_state (handle_abort_swap ev)" "returns_state (handle_bob_abort_swap c ev w)"
  "returns_state (end_of_swap ev o')" "returns_state (end_aborted_sweep ev)"
  "returns_state (alice_funded ev w required i hash amount)"
  unfolding handle_abort_swap_def handle_bob_abort_swap_def end_of_swap_def end_aborted_sweep_def
    alice_funded_def
  by (intro quiet_intros)+

lemma returns_sweep [quiet_intros]: "returns_state (sweep_monero_to f addendum)"
  unfolding returns_state_def results_def sweep_monero_to_def
  by (auto simp: bind_def with_syncer_def stateful_def ret_def sweep_xmr_def split: prod.splits)

lemma returns_option_mix [quiet_intros]:
  "(x = None \<Longrightarrow> quiet m) \<Longrightarrow> (\<And>y. x = Some y \<Longrightarrow> quiet (f y))
     \<Longrightarrow> quiet (case x of None \<Rightarrow> m | Some y \<Rightarrow> f y)"
  by (cases x) simp_all

lemma quiet_prod [quiet_intros]:
  "(\<And>a b. x = (a, b) \<Longrightarrow> quiet (f a b)) \<Longrightarrow> quiet (case x of (a, b) \<Rightarrow> f a b)"
  by (cases x) simp

lemma quiet_let [quiet_intros]: "quiet (f x) \<Longrightarrow> quiet (let y = x in f y)"
  by simp

lemma quiet_interrupts [quiet_intros]:
  "quiet (handle_bob_swap_interrupt_after_lock ev)" "quiet (handle_alice_swap_interrupt_after_lock ev w)"
  by (rule quiet_calm, rule lighter_rules)+

subsection \<open>The handlers\<close>

lemma quiet_start:
  "quiet (attempt_transition_to_init_taker c ev role)" "quiet (attempt_transition_to_init_maker c ev role)"
  unfolding attempt_transition_to_init_taker_def attempt_transition_to_init_maker_def
  by (auto intro!: quiet_intros intro: quiet_returns
        split: option.split init_taker_swap.split init_maker_swap.split)

lemma quiet_commit_reveal:
  "quiet (try_bob_init_taker_to_bob_taker_maker_commit c ev l w)"
  "quiet (try_alice_init_taker_to_alice_taker_maker_commit c ev l w)"
  "quiet (attempt_transition_to_bob_reveal c ev l rc w)"
  "quiet (attempt_transition_to_alice_reveal c ev l rc w)"
  unfolding try_bob_init_taker_to_bob_taker_maker_commit_def
    try_alice_init_taker_to_alice_taker_maker_commit_def attempt_transition_to_bob_reveal_def
    attempt_transition_to_alice_reveal_def
  by (auto intro!: quiet_intros intro: quiet_returns split: option.split peer_msg.split)

lemma quiet_bob_funding:
  "quiet (try_bob_reveal_to_bob_fee_estimated c ev l r w)"
  "quiet (try_bob_fee_estimated_to_bob_funded c ev l amount r w)"
  unfolding try_bob_reveal_to_bob_fee_estimated_def try_bob_fee_estimated_to_bob_funded_def
  by (auto intro!: quiet_intros intro: quiet_returns
        split: option.split fee_estimations.split address_transaction.split)

lemma quiet_bob_locking:
  "quiet (try_bob_funded_to_bob_refund_procedure_signature c ev l r w)"
  "quiet (try_bob_refund_procedure_signatures_to_bob_accordant_lock ev l r w bps)"
  "quiet (try_bob_accordant_lock_to_bob_accordant_lock_final ev l r w bps)"
  unfolding try_bob_funded_to_bob_refund_procedure_signature_def
    try_bob_refund_procedure_signatures_to_bob_accordant_lock_def
    try_bob_accordant_lock_to_bob_accordant_lock_final_def
  by (auto intro!: quiet_intros intro: quiet_returns
        split: option.split peer_msg.split refund_procedure_res.split address_transaction.split)

lemma lighter_forget_retrieving:
  "calm lighter (modify (on_syncer (on_tasks (\<lambda>ts. ts\<lparr>retrieving_txs := hm_remove i (retrieving_txs ts)\<rparr>))))"
  by (rule calm_modify, rule lighter_on_syncer) (simp add: counts_def on_tasks_def)

lemma quiet_forget_retrieving:
  "quiet k \<Longrightarrow> quiet (steps [modify (on_syncer (on_tasks
     (\<lambda>ts. ts\<lparr>retrieving_txs := hm_remove i (retrieving_txs ts)\<rparr>)))] k)"
  by (simp add: quiet_bind [OF lighter_forget_retrieving])

lemma quiet_bob_buy_final: "quiet (try_bob_accordant_lock_final_to_bob_buy_final c ev l r w)"
  unfolding try_bob_accordant_lock_final_to_bob_buy_final_def
  apply (intro quiet_reads returns_option_mix quiet_prod quiet_if quiet_forget_retrieving quiet_interrupts)
     apply (auto intro!: quiet_intros intro: quiet_returns split: tx_label.split)
  done

lemma quiet_bob_ending:
  "quiet (try_bob_buy_final_to_bob_buy_sweeping ev sweep)" "quiet (try_bob_cancel_final_to_swap_end ev)"
  "quiet (try_bob_canceled_to_bob_cancel_final ev)" "quiet (try_awaiting_sweep_to_swap_end ev)"
  unfolding try_bob_buy_final_to_bob_buy_sweeping_def try_bob_cancel_final_to_swap_end_def
    try_bob_canceled_to_bob_cancel_final_def try_awaiting_sweep_to_swap_end_def
  by (auto intro!: quiet_intros intro: quiet_returns split: option.split list.split)

lemma lighter_creation_height: "calm lighter set_creation_height"
  unfolding set_creation_height_def by (rule calm_modify) (simp add: lighter_def split: option.split)

lemma quiet_alice_locking:
  "quiet (try_alice_reveal_to_alice_core_arbitrating_setup c ev l r w)"
  "quiet (try_alice_core_arbitrating_setup_to_alice_arbitrating_lock_final c ev l r w)"
  "quiet (try_alice_arbitrating_lock_final_to_alice_accordant_lock ev w info amount)"
  "quiet (try_alice_accordant_lock_to_alice_buy_procedure_signature c ev w)"
  unfolding try_alice_reveal_to_alice_core_arbitrating_setup_def
    try_alice_core_arbitrating_setup_to_alice_arbitrating_lock_final_def
    try_alice_arbitrating_lock_final_to_alice_accordant_lock_def
    try_alice_accordant_lock_to_alice_buy_procedure_signature_def
  by (auto intro!: quiet_intros intro: quiet_returns
        split: option.split peer_msg.split core_arbitrating_setup_res.split params.split
          address_transaction.split buy_procedure_res.split)

lemma quiet_alice_ending:
  "quiet (try_alice_buy_procedure_signature_to_swap_end ev)"
  "quiet (try_alice_canceled_to_alice_refund_or_alice_punish c ev w)"
  "quiet (try_alice_refund_to_alice_refund_sweeping ev sweep)" "quiet (end_after_sweep ev b o')"
  unfolding try_alice_buy_procedure_signature_to_swap_end_def
    try_alice_canceled_to_alice_refund_or_alice_punish_def
    try_alice_refund_to_alice_refund_sweeping_def end_after_sweep_def
  by (auto intro!: quiet_intros intro: quiet_returns split: option.split tx_label.split)

lemma quiet_next_state: "quiet (next_state c sm ev)"
  by (cases sm) (simp_all add: wrapper_defs quiet_start quiet_commit_reveal quiet_bob_funding
      quiet_bob_locking quiet_bob_buy_final quiet_bob_ending quiet_alice_locking quiet_alice_ending quiet_ret)

section \<open>A transition to the same phase uses something up\<close>

text \<open>The transitions of interest: to the phase the machine is already in.\<close>

definition uses_up :: "phase \<Rightarrow> transition \<Rightarrow> runtime \<Rightarrow> bool" where
  "uses_up p m s \<longleftrightarrow> wp m (\<lambda>r t. moves_to [p] r \<and> r \<noteq> None \<longrightarrow> weight t < weight s) (\<lambda>_ _. True) s"

lemma uses_up_moves: "results m (moves_to ps) \<Longrightarrow> p \<notin> set ps \<Longrightarrow> uses_up p m s"
  unfolding uses_up_def by (rule wp_OkI) (auto simp: moves_to_def dest: resultsD split: option.splits)

lemma uses_up_ret: "phase_of sm \<noteq> p \<Longrightarrow> uses_up p (ret (Some sm)) s" "uses_up p (ret None) s"
  by (simp_all add: uses_up_def wp_simps)

lemma weight_outbox [simp]:
  "weight (s\<lparr>outbox := x, attempts := n\<rparr>) = weight s" "weight (s\<lparr>attempts := n\<rparr>) = weight s"
  by (simp_all add: weight_def)

lemma weight_on_syncer: "weight (on_syncer f s) = 16 * card (hm_keys (rt_txs s))
    + 2 * card (hm_keys (fst (counts (f (syncer s))))) + (if snd (counts (f (syncer s))) then 1 else 0)"
  by (simp add: weight_def on_syncer_def counts_def)

lemma weight_counts: "weight s = 16 * card (hm_keys (rt_txs s))
    + 2 * card (hm_keys (fst (counts (syncer s)))) + (if snd (counts (syncer s)) then 1 else 0)"
  by (simp add: weight_def counts_def)

lemma card_remove_label: "l \<in> A \<Longrightarrow> card (A - {l :: tx_label}) < card A"
  by (rule card_Diff1_less) (auto intro: finite_subset [OF subset_UNIV])

lemma card_insert_label: "card (insert (l :: tx_label) A) \<le> Suc (card A)"
  using card_insert_le_m1 [of "Suc (card A)" A l] by simp

text \<open>An action that leaves the counts alone, before one that uses something up.\<close>

lemma wp_lighter: "calm lighter m \<Longrightarrow> (\<And>t. lighter s t \<Longrightarrow> Q t) \<Longrightarrow> wp m (\<lambda>_. Q) (\<lambda>_ _. True) s"
  by (rule lighter.keeps_wp [OF calm_keeps]) auto

lemma uses_up_retrieve:
  assumes "hm_contains (txids (tasks (syncer s))) l"
  shows "wp (retrieve_known_tx ev l) (\<lambda>_ t. weight t < weight s) (\<lambda>_ _. True) s"
proof -
  from assms obtain txid where txid: "hm_get (txids (tasks (syncer s))) l = Some txid" by blast
  then have mem: "l \<in> hm_keys (txids (tasks (syncer s)))" by (rule hm_get_SomeD)
  let ?t = "on_syncer (on_tasks (\<lambda>ts. ts\<lparr>txids := hm_remove l (txids ts)\<rparr>)) s"
  have less: "weight ?t < weight s"
    using card_remove_label [OF mem] by (simp add: weight_def on_syncer_def on_tasks_def)
  have "wp (give_new_task ev Bitcoin (retrieve_tx_btc txid l)) (\<lambda>_ t. weight t < weight s) (\<lambda>_ _. True) ?t"
    by (rule wp_lighter) (use less in \<open>auto intro!: lighter_rules dest: lighter_weight\<close>)
  then show ?thesis
    by (simp add: retrieve_known_tx_def wp_simps txid)
qed

lemma uses_up_stored:
  assumes "hm_contains (rt_txs s) l"
  shows "wp (watch_and_broadcast_stored c ev l) (\<lambda>_ t. weight t < weight s) (\<lambda>_ _. True) s"
proof -
  from assms obtain tx where tx: "hm_get (rt_txs s) l = Some tx" by blast
  then have mem: "l \<in> hm_keys (rt_txs s)" by (rule hm_get_SomeD)
  let ?t = "s\<lparr>rt_txs := hm_remove l (rt_txs s)\<rparr>"
  let ?u = "on_syncer (\<lambda>sc. snd (watch_tx_btc (txid_of (c_tx c) tx) l sc)) ?t"
  have "weight ?u < weight s"
    using card_remove_label [OF mem] card_insert_label [of l "hm_keys (txids (tasks (syncer s)))"]
    by (simp add: weight_on_syncer weight_counts [of s] del: One_nat_def) (simp add: counts_def)
  then have less: "lighter ?u t \<Longrightarrow> weight t < weight s" for t
    by (auto dest: lighter_weight)
  have "wp (bind (give_task ev Bitcoin task) (\<lambda>_. broadcast tx l)) (\<lambda>_ t. weight t < weight s) (\<lambda>_ _. True) ?u" for task
    by (rule wp_lighter) (use less in \<open>auto intro!: lighter.calm_intros lighter_rules\<close>)
  then show ?thesis
    by (simp add: watch_and_broadcast_stored_def take_tx_def give_new_task_def with_syncer_def wp_simps tx)
qed

lemma uses_up_reads: "uses_up p (f (g s)) s \<Longrightarrow> uses_up p (reads g f) s"
  by (simp add: uses_up_def wp_simps)

lemma uses_up_steps:
  "wp m (\<lambda>_ t. weight t < weight s) (\<lambda>_ _. True) s \<Longrightarrow> uses_up p (steps [m] (ret x)) s"
  unfolding uses_up_def by (simp add: wp_simps) (erule wp_conseq; simp add: wp_simps)

lemma uses_up_confs:
  assumes "hm_contains (txids (tasks (syncer s))) l"
  shows "uses_up p (steps [record_btc_confs i confs, retrieve_known_tx ev l] (ret x)) s"
proof -
  let ?t = "on_syncer (handle_tx_confs i (Some confs) (btc_finality_thr (safety s))) s"
  have same: "weight ?t = weight s"
    by (simp add: weight_on_syncer weight_counts [of s])
  have "txids (tasks (syncer ?t)) = txids (tasks (syncer s))"
    using counts_frame(4) [of i "Some confs" "btc_finality_thr (safety s)" "syncer s"]
    by (simp add: counts_def on_syncer_def)
  then have "wp (retrieve_known_tx ev l) (\<lambda>_ t. weight t < weight ?t) (\<lambda>_ _. True) ?t"
    using assms by (intro uses_up_retrieve) simp
  then have "uses_up p (steps [retrieve_known_tx ev l] (ret x)) ?t"
    by (rule uses_up_steps)
  then show ?thesis
    by (simp add: uses_up_def record_btc_confs_def wp_simps same)
qed

lemma uses_up_bob: "uses_up BobAccLockFinalP (try_bob_accordant_lock_final_to_bob_buy_final c ev l r w) s"
proof -
  have interrupt: "uses_up BobAccLockFinalP (handle_bob_swap_interrupt_after_lock ev) t" for t
    by (rule uses_up_moves [OF moves_bob_interrupt [of "[BobCanceledP]"]]) simp_all
  have buy: "uses_up BobAccLockFinalP (steps ms (bind m (sweep_monero_to BobBuyFinal))) t" for ms m t
    by (rule uses_up_moves [of _ "[BobBuyFinalP]"]) (auto intro!: results_intros moves_sweep_monero)
  have other: "uses_up BobAccLockFinalP (steps ms (handle_bob_swap_interrupt_after_lock ev)) t" for ms t
    by (rule uses_up_moves [of _ "[BobCanceledP]"]) (auto intro!: results_intros moves_bob_interrupt)
  show ?thesis
    unfolding try_bob_accordant_lock_final_to_bob_buy_final_def
    by (rule uses_up_reads)
      (auto simp del: steps.simps simp: interrupt buy other intro!: uses_up_confs
        split: option.split tx_label.split)
qed

lemma uses_up_alice_lock:
  assumes "empty_event (ev_request ev) = None"
  shows "uses_up AliceLockFinalP (try_alice_arbitrating_lock_final_to_alice_accordant_lock ev w info amount) s"
proof -
  have interrupt: "uses_up AliceLockFinalP (handle_alice_swap_interrupt_after_lock ev w) t" for t
    by (rule uses_up_moves [OF moves_alice_interrupt [of "[AliceCanceledP]"]]) simp_all
  have funded: "uses_up AliceLockFinalP (alice_funded ev w amount i hash a) t" for i hash a t
    by (rule uses_up_moves [OF moves_alice_funded [of "[AliceAccLockP, AliceCanceledP]"]]) simp_all
  have stop: "uses_up AliceLockFinalP (steps [complete_ctl_service ev Farcasterd m, set_awaiting_funding False] (ret x)) s"
    if "awaiting_funding (syncer s)" for m x
  proof -
    have "weight (on_syncer (\<lambda>s. s\<lparr>awaiting_funding := False\<rparr>) t) < weight s"
      if "lighter s t" for t
      using lighter_weight [of "s" "t"] that \<open>awaiting_funding (syncer s)\<close> lighter_weight
      by (cases "awaiting_funding (syncer t)")
        (auto simp: weight_def on_syncer_def lighter_def intro!: le_imp_less_Suc add_mono mult_left_mono card_mono
          intro: finite_subset [OF subset_UNIV])
    then have "wp (complete_ctl_service ev Farcasterd m)
        (\<lambda>_ t. weight (on_syncer (\<lambda>s. s\<lparr>awaiting_funding := False\<rparr>) t) < weight s) (\<lambda>_ _. True) s"
      by (intro wp_lighter lighter_rules)
    then show ?thesis
      by (simp add: uses_up_def set_awaiting_funding_def wp_simps) (erule wp_conseq; simp add: wp_simps)
  qed
  show ?thesis
    using assms unfolding try_alice_arbitrating_lock_final_to_alice_accordant_lock_def
    by (intro uses_up_reads)
      (auto simp del: steps.simps simp: interrupt funded stop Let_def split: option.split address_transaction.split)
qed

lemma uses_up_alice_canceled:
  "uses_up AliceCanceledP (try_alice_canceled_to_alice_refund_or_alice_punish c ev w) s"
proof -
  have over: "uses_up AliceCanceledP (end_of_swap ev o') t" for o' t
    by (rule uses_up_moves [OF moves_end_of_swap [of o' "[Over o']"]]) simp_all
  have refund: "uses_up AliceCanceledP
      (bind m (\<lambda>_. bind n (\<lambda>addendum. reads id (\<lambda>rt. if ready rt
        then sweep_monero_to AliceRefund addendum
        else bind k (\<lambda>_. end_of_swap ev FailureRefund))))) t" for ready m n k t
    by (rule uses_up_moves [of _ "[AliceRefundP, Over FailureRefund]"])
      (auto intro!: results_intros moves_sweep_monero moves_end_of_swap)
  show ?thesis
    unfolding try_alice_canceled_to_alice_refund_or_alice_punish_def
    by (rule uses_up_reads)
      (auto simp del: steps.simps simp: over refund uses_up_ret
        intro!: uses_up_steps uses_up_retrieve uses_up_stored split: option.split tx_label.split)
qed

lemma self_successor: "p \<in> set (successors p) \<Longrightarrow> p \<in> {BobAccLockFinalP, AliceLockFinalP, AliceCanceledP}"
  by (cases p rule: successors.cases) (auto dest: sym elim!: abort_phase.elims)

lemma same_phase_uses_up:
  assumes run: "next_state c sm ev s = (Ok (Some sm'), t)" and same: "phase_of sm' = phase_of sm"
    and ev: "empty_event (ev_request ev) = None"
  shows "weight t < weight s"
proof -
  have "phase_of sm \<in> set (successors (phase_of sm))"
    using resultsD [OF next_state_moves run] same by simp
  from self_successor [OF this] have "uses_up (phase_of sm) (next_state c sm ev) s"
    using ev by (cases sm) (auto simp: uses_up_bob uses_up_alice_lock uses_up_alice_canceled)
  then show ?thesis
    using run same by (simp add: uses_up_def wp_def)
qed

section \<open>The events kept to be replayed\<close>

text \<open>They are confirmations, so replaying one never asks for the funding again.\<close>

definition replayable :: "runtime \<Rightarrow> bool" where
  "replayable rt \<longleftrightarrow> (\<forall>m. buy_tx_confs (syncer rt) = Some m \<or> lock_tx_confs (syncer rt) = Some m
     \<or> cancel_tx_confs (syncer rt) = Some m \<longrightarrow> seen_confs (Sync m) \<noteq> None)"

definition stays_replayable :: "runtime \<Rightarrow> runtime \<Rightarrow> bool" where
  "stays_replayable s t \<longleftrightarrow> (replayable s \<longrightarrow> replayable t)"

definition confs_part :: "syncer_client \<Rightarrow> sync_msg option \<times> sync_msg option \<times> sync_msg option" where
  "confs_part s = (lock_tx_confs s, cancel_tx_confs s, buy_tx_confs s)"

lemma replayable_confs: "confs_part (syncer t) = confs_part (syncer s) \<Longrightarrow> replayable t = replayable s"
  by (simp only: confs_part_def replayable_def prod.inject)

lemma confs_part_client: "client_part t = client_part s \<Longrightarrow> confs_part t = confs_part s"
  by (simp add: client_part_def confs_part_def)

lemma replayable_fixed: "fixed s t \<Longrightarrow> replayable t = replayable s"
  by (rule replayable_confs [OF confs_part_client]) (simp add: same_def fixed_part_def)

lemma stays_frame [simp]:
  "stays_replayable s (s\<lparr>swap_state := x\<rparr>)" "stays_replayable s (s\<lparr>unhandled_peer_message := m\<rparr>)"
  "stays_replayable s (s\<lparr>latest_state_report := p\<rparr>)"
  "stays_replayable s (s\<lparr>swap_state := x, enquirer := e, safety := y, monero_address_creation_height := h,
     rt_trade_role := q, rt_txs := z\<rparr>)"
  by (simp_all add: stays_replayable_def replayable_def)

lemma stays_confs [simp]:
  "confs_part (f (syncer s)) = confs_part (syncer s) \<Longrightarrow> stays_replayable s (on_syncer f s)"
  by (simp add: stays_replayable_def replayable_def on_syncer_def confs_part_def)

lemma confs_part_ops [simp]:
  "confs_part (handle_height_change h b s) = confs_part s"
  "confs_part (handle_tx_confs i confs thr s) = confs_part s"
  "confs_part (transaction_broadcasted tb s) = confs_part s"
  by (simp_all add: confs_part_def handle_height_change_def handle_tx_confs_def on_tasks_def
      transaction_broadcasted_def split: blockchain.split option.split)

lemma replayable_save:
  "seen_confs (Sync m) \<noteq> None \<Longrightarrow> stays_replayable s (on_syncer (save_confs m i) s)"
  by (auto simp: stays_replayable_def replayable_def on_syncer_def save_confs_def split: option.split tx_label.split)

interpretation stays: frame stays_replayable
  by unfold_locales (auto simp: stays_replayable_def)

lemma stays_calm: "calm fixed m \<Longrightarrow> calm stays_replayable m"
  by (erule calm_weaken) (simp add: stays_replayable_def replayable_fixed)

lemma stays_report: "calm stays_replayable report_potential_state_change"
  unfolding report_potential_state_change_def
  by (auto simp: Let_def intro!: stays.calm_intros stays_calm [OF fixed_reports(1)])

lemma stays_events: "calm stays_replayable (monero_event e)" "calm stays_replayable (bitcoin_event e)"
proof -
  show "calm stays_replayable (monero_event e)"
    unfolding monero_event_def by (cases e) (auto intro!: stays.calm_intros)
  show "calm stays_replayable (bitcoin_event e)"
    unfolding bitcoin_event_def
    by (cases e) (auto intro!: stays.calm_intros stays_calm [OF fixed_tasks(1)] replayable_save
        split: transaction_confirmations.split transaction_retrieved.split option.split)
qed

interpretation stays: machine_frame stays_replayable c for c
proof
  show "stays_replayable s (t\<lparr>swap_state := ssm\<rparr>)"
    if "sm_execute c source msg (swap_state s) s = (Ok (Some ssm), t)" for source msg s ssm t
  proof -
    have "fixed s t" using keepsD [OF calm_keeps [OF fixed_sm_execute] that] .
    then show ?thesis
      using stays_frame(1) [of t ssm] by (simp add: stays_replayable_def replayable_fixed)
  qed
  show "fixed s t \<Longrightarrow> stays_replayable s t" for s t
    by (simp add: stays_replayable_def replayable_fixed)
qed (simp_all add: calm_keeps [OF stays_report] calm_keeps [OF stays_events(1)] calm_keeps [OF stays_events(2)])

section \<open>The loop ends\<close>

definition advances :: "runtime \<Rightarrow> runtime \<Rightarrow> bool" where
  "advances s t \<longleftrightarrow> replayable t \<and> replay_measure t \<le> replay_measure s"

lemma replay_measure_cong:
  "swap_state t = swap_state s \<Longrightarrow> weight t \<le> weight s \<Longrightarrow> replay_measure t \<le> replay_measure s"
  by (simp add: replay_measure_def)

lemma transition_measure:
  assumes run: "next_state c (swap_state s) ev s = (Ok r, t)" and ev: "empty_event (ev_request ev) = None"
  shows "case r of None \<Rightarrow> replay_measure t \<le> replay_measure s
    | Some sm \<Rightarrow> replay_measure (t\<lparr>swap_state := sm\<rparr>) < replay_measure s"
proof (cases r)
  case None
  then have "lighter s t" using run quiet_next_state unfolding quiet_def by blast
  moreover have "swap_state t = swap_state s"
    using keepsD [OF calm_keeps [OF fixed_next_state] run] by (rule swap_state_fixed)
  ultimately show ?thesis
    using None by (simp add: replay_measure_cong lighter_weight)
next
  case (Some sm)
  have w: "weight (t\<lparr>swap_state := sm\<rparr>) = weight t" by (simp add: weight_def)
  show ?thesis
  proof (cases "phase_of sm = phase_of (swap_state s)")
    case True
    then have "weight t < weight s" using same_phase_uses_up run ev Some by blast
    then show ?thesis using Some True w by (simp add: replay_measure_def)
  next
    case False
    have "phase_of sm \<in> set (successors (phase_of (swap_state s)))"
      using resultsD [OF next_state_moves run] Some by simp
    then have "rank (phase_of sm) < rank (phase_of (swap_state s))"
      using False by (intro rank_successor)
    then show ?thesis
      using Some w weight_less [of t] by (simp add: replay_measure_def)
  qed
qed

text \<open>What the loop keeps while it replays, relative to the state it started from.\<close>

lemma sm_execute_wp:
  assumes "replayable s" and "empty_event msg = None"
  shows "wp (sm_execute c source msg (swap_state s)) (\<lambda>r t. case r of
       None \<Rightarrow> advances s t
     | Some sm \<Rightarrow> replayable (t\<lparr>swap_state := sm\<rparr>) \<and> replay_measure (t\<lparr>swap_state := sm\<rparr>) < replay_measure s)
     (\<lambda>r _. r \<noteq> Hang) s"
proof -
  let ?ev = "EsbEvent (identity s) source msg"
  have fx: "fixed s t" if "next_state c (swap_state s) ?ev s = (r, t)" for r t
    using keepsD [OF calm_keeps [OF fixed_next_state] that] .
  then have re: "replayable t" if "next_state c (swap_state s) ?ev s = (r, t)" for r t
    using replayable_fixed that assms(1) by blast
  have hang: "next_state c (swap_state s) ?ev s \<noteq> (Hang, t)" for t
    using calm_no_hang [OF fixed_next_state] unfolding no_hang_def by (metis fst_conv)
  have re': "replayable (t\<lparr>swap_state := sm\<rparr>)" if "replayable t" for t sm
    using that stays_frame(1) [of t sm] by (simp add: stays_replayable_def)
  show ?thesis
    using transition_measure [of c s ?ev] assms(2) re re' hang
    by (auto simp: sm_execute_def reads_def wp_def advances_def split: prod.split result.split option.split)
qed

text \<open>A part of the loop, run from a state it has got to.\<close>

definition ends :: "'a swapd_action \<Rightarrow> runtime \<Rightarrow> bool" where
  "ends m s \<longleftrightarrow> (\<forall>t. advances s t \<longrightarrow> wp m (\<lambda>_. advances s) (\<lambda>r _. r \<noteq> Hang) t)"

lemma ends_calm: "calm stays_replayable m \<Longrightarrow> calm (same replay_measure) m \<Longrightarrow> ends m s"
  unfolding ends_def
proof (intro allI impI)
  fix t
  assume m: "calm stays_replayable m" "calm (same replay_measure) m" and t: "advances s t"
  obtain r u where run: "m t = (r, u)" by (cases "m t")
  have "stays_replayable t u" "same replay_measure t u" "r \<noteq> Hang"
    using keepsD [OF calm_keeps [OF m(1)] run] keepsD [OF calm_keeps [OF m(2)] run]
      calm_no_hang [OF m(1)] run unfolding no_hang_def by (auto, metis fst_conv)
  then show "wp m (\<lambda>_. advances s) (\<lambda>r _. r \<noteq> Hang) t"
    using t run by (auto simp: wp_def advances_def stays_replayable_def same_def split: result.split)
qed

lemma ends_bind: "ends m s \<Longrightarrow> (\<And>x. ends (f x) s) \<Longrightarrow> ends (bind m f) s"
  unfolding ends_def by (auto simp: wp_bind elim!: wp_conseq)

lemma ends_throw: "ends (throw e) s"
  by (simp add: ends_def wp_simps)

lemma ends_lift_res: "settled r \<Longrightarrow> ends (lift_res r) s"
  by (cases r) (simp_all add: ends_def wp_simps)

lemma ends_steps: "(\<And>m. m \<in> set ms \<Longrightarrow> ends m s) \<Longrightarrow> ends k s \<Longrightarrow> ends (steps ms k) s"
  by (induction ms) (auto intro: ends_bind)

lemma ends_reads: "(\<And>x. ends (f x) s) \<Longrightarrow> ends (reads g f) s"
  by (simp add: ends_def wp_simps)

lemma ends_reads_at:
  "(\<And>t. advances s t \<Longrightarrow> wp (f (g t)) (\<lambda>_. advances s) (\<lambda>r _. r \<noteq> Hang) t) \<Longrightarrow> ends (reads g f) s"
  by (simp add: ends_def wp_simps)

lemma ends_skip: "ends skip s"
  by (simp add: ends_def wp_simps)

lemma same_measure [simp]:
  "same replay_measure s (s\<lparr>unhandled_peer_message := m\<rparr>)" "same replay_measure s (s\<lparr>latest_state_report := p\<rparr>)"
  by (simp_all add: same_def replay_measure_def weight_def)

lemma same_measure_syncer [simp]:
  "counts (f (syncer s)) = counts (syncer s) \<Longrightarrow> same replay_measure s (on_syncer f s)"
  by (simp add: same_def replay_measure_def weight_def on_syncer_def counts_def)

lemma measure_sends: "calm (same replay_measure) (send_to bus src dest m)"
  by (auto simp: calm_def no_hang_def keeps_def same_def replay_measure_def weight_def send_to_def Let_def)

lemma measure_report: "calm (same replay_measure) report_potential_state_change"
  unfolding report_potential_state_change_def report_progress_def report_with_def send_from_self_def
  by (auto simp: Let_def intro!: same.calm_intros measure_sends)

lemma measure_events: "calm (same replay_measure) (monero_event e)" "calm (same replay_measure) (bitcoin_event e)"
proof -
  show "calm (same replay_measure) (monero_event e)"
    unfolding monero_event_def by (cases e) (auto intro!: same.calm_intros)
  show "calm (same replay_measure) (bitcoin_event e)"
    unfolding bitcoin_event_def send_task_def send_from_self_def
    by (cases e) (auto intro!: same.calm_intros measure_sends
        split: transaction_confirmations.split transaction_retrieved.split option.split)
qed

lemma ends_report_end: "ends (report_end o') s"
proof -
  have "ends report_potential_state_change s"
    by (rule ends_calm [OF stays_report measure_report])
  moreover have "ends (send_ctl (Some Farcasterd) m) s" for m
    by (rule ends_calm) (auto intro!: stays_calm fixed_rules same.calm_intros measure_sends
        simp: send_ctl_def send_from_self_def)
  ultimately show ?thesis unfolding report_end_def by (intro ends_steps) auto
qed

lemma settled_peer_msg_swap_id: "settled (peer_msg_swap_id m)"
  by (cases m) simp_all

lemma ends_handle_msg:
  assumes "ends (run source (P2p m)) s"
  shows "ends (handle_msg run source m) s"
  using assms unfolding handle_msg_def own_swap_id_def
  by (auto intro!: ends_reads ends_bind ends_throw ends_lift_res settled_peer_msg_swap_id settled_intros
      split: option.split)

lemma ends_handle_sync:
  assumes "ends (run source (Sync m)) s"
  shows "ends (handle_sync run source m) s"
proof -
  have "ends (monero_event e) s" "ends (bitcoin_event e) s" for e
    using ends_calm stays_events measure_events by blast+
  then have "ends (case m of EventMsg ev \<Rightarrow> if source = d then monero_event ev
      else if source = d' then bitcoin_event ev else skip | _ \<Rightarrow> skip) s" for d d'
    by (cases m) (auto intro: ends_skip)
  then show ?thesis
    using assms unfolding handle_sync_def by (intro ends_reads ends_steps) auto
qed

lemma seen_confs_not_empty: "seen_confs msg \<noteq> None \<Longrightarrow> empty_event msg = None"
  by (cases msg rule: empty_event.cases) simp_all

lemma ends_replays:
  assumes run: "\<And>msg. empty_event msg = None \<Longrightarrow> ends (run source msg) s"
  shows "ends (replay_events run source) s"
proof -
  have sync: "ends (reads (\<lambda>rt. g (syncer rt)) (\<lambda>m. case m of Some m \<Rightarrow> handle_sync run source m | None \<Rightarrow> skip)) s"
    if "\<And>t m. replayable t \<Longrightarrow> g (syncer t) = Some m \<Longrightarrow> seen_confs (Sync m) \<noteq> None" for g
  proof (rule ends_reads_at)
    fix t assume t: "advances s t"
    show "wp (case g (syncer t) of Some m \<Rightarrow> handle_sync run source m | None \<Rightarrow> skip)
      (\<lambda>_. advances s) (\<lambda>r _. r \<noteq> Hang) t"
    proof (cases "g (syncer t)")
      case None then show ?thesis using t by (simp add: wp_simps)
    next
      case (Some m)
      then have "empty_event (Sync m) = None"
        using that t seen_confs_not_empty unfolding advances_def by blast
      then have "ends (handle_sync run source m) s"
        by (intro ends_handle_sync run)
      then show ?thesis using Some t unfolding ends_def by simp
    qed
  qed
  have msg: "ends (reads unhandled_peer_message (\<lambda>m. case m of Some m \<Rightarrow> handle_msg run source m | None \<Rightarrow> skip)) s"
    by (auto intro!: ends_reads ends_handle_msg run ends_skip split: option.split)
  show ?thesis
    unfolding replay_events_def
    by (intro ends_steps sync) (use msg sync in \<open>auto simp: replayable_def\<close>)
qed

lemma ends_after_transition:
  assumes run: "\<And>msg. empty_event msg = None \<Longrightarrow> ends (run source msg) s"
  shows "ends (after_transition run source msg ssm) s"
proof -
  have "ends (modify (\<lambda>rt. rt\<lparr>unhandled_peer_message := None\<rparr>)) s"
    by (rule ends_calm) (auto intro!: calm_modify)
  then have "ends (on b (modify (\<lambda>rt. rt\<lparr>unhandled_peer_message := None\<rparr>))) s" for b
    by (simp add: on_def ends_skip)
  then have "ends (steps [on b (modify (\<lambda>rt. rt\<lparr>unhandled_peer_message := None\<rparr>))] (replay_events run source)) s" for b
    by (intro ends_steps ends_replays run) auto
  then show ?thesis
    unfolding after_transition_def
    by (cases ssm) (auto simp del: steps.simps intro: ends_report_end)
qed

text \<open>One step of the loop, when runs from smaller states end.\<close>

lemma execute_step_ends:
  assumes sm: "wp (sm_execute c source msg (swap_state s)) (\<lambda>r t. case r of
       None \<Rightarrow> advances s' t
     | Some sm \<Rightarrow> replayable (t\<lparr>swap_state := sm\<rparr>) \<and> replay_measure (t\<lparr>swap_state := sm\<rparr>) < n)
     (\<lambda>r _. r \<noteq> Hang) s"
    and run: "\<And>u msg. replayable u \<Longrightarrow> replay_measure u < n \<Longrightarrow> empty_event msg = None
      \<Longrightarrow> wp (run source msg) (\<lambda>_. advances u) (\<lambda>r _. r \<noteq> Hang) u"
    and le: "\<And>u. replayable u \<Longrightarrow> replay_measure u < n \<Longrightarrow> replay_measure u \<le> replay_measure s'"
  shows "wp (execute_step c run source msg) (\<lambda>_. advances s') (\<lambda>r _. r \<noteq> Hang) s"
proof -
  have ends: "ends (run source msg') u" if "replayable u" "replay_measure u < n" "empty_event msg' = None" for u msg'
    unfolding ends_def
  proof (intro allI impI)
    fix t assume "advances u t"
    then have "wp (run source msg') (\<lambda>_. advances t) (\<lambda>r _. r \<noteq> Hang) t" and "replay_measure t \<le> replay_measure u"
      using run that by (auto simp: advances_def)
    then show "wp (run source msg') (\<lambda>_. advances u) (\<lambda>r _. r \<noteq> Hang) t"
      by (elim wp_conseq) (auto simp: advances_def)
  qed
  have some: "wp (after_transition run source msg ssm) (\<lambda>_. advances s') (\<lambda>r _. r \<noteq> Hang) u"
    if u: "replayable u" "replay_measure u < n" for ssm u
  proof -
    have "ends (after_transition run source msg ssm) u"
      using u ends by (intro ends_after_transition) auto
    then have "wp (after_transition run source msg ssm) (\<lambda>_. advances u) (\<lambda>r _. r \<noteq> Hang) u"
      using u unfolding ends_def advances_def by simp
    then show ?thesis
      using le [OF u] by (elim wp_conseq) (auto simp: advances_def)
  qed
  have none: "advances s' (t\<lparr>unhandled_peer_message := m\<rparr>)" if "advances s' t" for t m
    using that stays_frame(2) [of t m] same_measure(1) [of t m]
    by (simp add: advances_def stays_replayable_def same_def)
  show ?thesis
    unfolding execute_step_def
    by (simp add: wp_simps, rule wp_conseq [OF sm])
      (auto simp: wp_simps some none split: option.splits)
qed

lemma replay_ends:
  "replayable s \<Longrightarrow> replay_measure s < n \<Longrightarrow> empty_event msg = None
     \<Longrightarrow> wp (execute_state_machine c n source msg) (\<lambda>_. advances s) (\<lambda>r _. r \<noteq> Hang) s"
proof (induction n arbitrary: s msg)
  case (Suc n)
  show ?case
    unfolding execute_state_machine.simps
  proof (rule execute_step_ends [where n = "min n (replay_measure s)"])
    show "wp (sm_execute c source msg (swap_state s)) (\<lambda>r t. case r of None \<Rightarrow> advances s t
       | Some sm \<Rightarrow> replayable (t\<lparr>swap_state := sm\<rparr>) \<and> replay_measure (t\<lparr>swap_state := sm\<rparr>) < min n (replay_measure s))
       (\<lambda>r _. r \<noteq> Hang) s"
      by (rule wp_conseq [OF sm_execute_wp]) (use Suc.prems in \<open>auto split: option.splits\<close>)
  qed (use Suc.IH in auto)
qed simp

text \<open>The fuel of the machine is enough for any message.\<close>

lemma machine_ends:
  assumes "replayable s"
  shows "wp (machine c source msg) (\<lambda>_ _. True) (\<lambda>r _. r \<noteq> Hang) s"
proof -
  have fx: "fixed s t" "r \<noteq> Hang" if "sm_execute c source msg (swap_state s) s = (r, t)" for r t
    using keepsD [OF calm_keeps [OF fixed_sm_execute] that] calm_no_hang [OF fixed_sm_execute] that
    unfolding no_hang_def by (auto, metis fst_conv)
  have re: "replayable (t\<lparr>swap_state := sm\<rparr>)" if "replayable t" for t sm
    using that stays_frame(1) [of t sm] by (simp add: stays_replayable_def)
  obtain r t where m: "sm_execute c source msg (swap_state s) s = (r, t)" by fastforce
  then have t: "replayable t" using fx assms replayable_fixed by blast
  let ?n = "4095 :: nat"
  have ends: "wp (after_transition (execute_state_machine c ?n) source msg ssm) (\<lambda>_ _. True) (\<lambda>r _. r \<noteq> Hang) (t\<lparr>swap_state := ssm\<rparr>)" for ssm
  proof -
    let ?u = "t\<lparr>swap_state := ssm\<rparr>"
    have "ends (execute_state_machine c ?n source msg') ?u" if "empty_event msg' = None" for msg'
      unfolding ends_def
    proof (intro allI impI)
      fix v assume v: "advances ?u v"
      then have "wp (execute_state_machine c ?n source msg') (\<lambda>_. advances v) (\<lambda>r _. r \<noteq> Hang) v"
        using replay_measure_less [of v] that by (intro replay_ends) (auto simp: advances_def)
      then show "wp (execute_state_machine c ?n source msg') (\<lambda>_. advances ?u) (\<lambda>r _. r \<noteq> Hang) v"
        using v by (elim wp_conseq) (auto simp: advances_def)
    qed
    then have "ends (after_transition (execute_state_machine c ?n) source msg ssm) ?u"
      by (rule ends_after_transition)
    then have "wp (after_transition (execute_state_machine c ?n) source msg ssm) (\<lambda>_. advances ?u) (\<lambda>r _. r \<noteq> Hang) ?u"
      using re [OF t] unfolding ends_def advances_def by simp
    then show ?thesis by (elim wp_conseq) auto
  qed
  have fuel: "replay_fuel = Suc ?n" by (simp add: replay_fuel_def)
  have "machine c = execute_step c (execute_state_machine c ?n)"
    unfolding machine_def fuel by (rule execute_state_machine.simps(2))
  then show ?thesis
    using ends fx(2) m
    by (auto simp: execute_step_def wp_def reads_def bind_def modify_def skip_def ret_def
          split: result.splits option.splits prod.splits)
qed

section \<open>No message makes the daemon run forever\<close>

lemma calm_wp:
  assumes "calm R m" and "\<And>x t. R s t \<Longrightarrow> Q x t"
  shows "wp m Q (\<lambda>r _. r \<noteq> Hang) s"
proof -
  obtain r t where m: "m s = (r, t)" by (cases "m s")
  then have "R s t" "r \<noteq> Hang"
    using assms(1) keepsD [of R m] by (auto simp: calm_def no_hang_def) (metis fst_conv)
  then show ?thesis using m assms(2) by (cases r) (auto simp: wp_def)
qed

lemma wp_no_hang: "fst (m s) \<noteq> Hang \<Longrightarrow> wp m (\<lambda>_ _. True) (\<lambda>r _. r \<noteq> Hang) s"
  by (auto simp: wp_def split: prod.splits result.splits)

lemma wp_then_report:
  assumes "wp m (\<lambda>_ _. True) (\<lambda>r _. r \<noteq> Hang) s"
  shows "wp (steps [m] report_potential_state_change) (\<lambda>_ _. True) (\<lambda>r _. r \<noteq> Hang) s"
proof -
  have "wp report_potential_state_change (\<lambda>_ _. True) (\<lambda>r _. r \<noteq> Hang) t" for t
    using calm_no_hang [OF stays_report] by (intro wp_no_hang) (simp add: no_hang_def)
  then show ?thesis
    using assms by (simp add: wp_bind) (erule wp_conseq; simp)
qed

lemma handle_msg_ends:
  assumes "replayable s"
  shows "wp (handle_msg (machine c) source m) (\<lambda>_ _. True) (\<lambda>r _. r \<noteq> Hang) s"
  using machine_ends [OF assms] settled_peer_msg_swap_id [of m] settled_swap_id_of [of "identity s"]
  by (auto simp: handle_msg_def own_swap_id_def wp_simps settled_def split: result.split option.split)

lemma handle_sync_ends:
  assumes "replayable s"
  shows "wp (handle_sync (machine c) source m) (\<lambda>_ _. True) (\<lambda>r _. r \<noteq> Hang) s"
proof -
  define pre :: "syncer_client \<Rightarrow> unit swapd_action" where
    "pre sc = (case m of EventMsg ev \<Rightarrow> if source = monero_syncer sc then monero_event ev
       else if source = bitcoin_syncer sc then bitcoin_event ev else skip | _ \<Rightarrow> skip)" for sc
  have pre: "calm stays_replayable (pre sc)" for sc
    unfolding pre_def using stays_events stays.calm_skip by (cases m) auto
  have "wp (pre sc) (\<lambda>_. replayable) (\<lambda>r _. r \<noteq> Hang) s" for sc
    using assms by (intro calm_wp [OF pre]) (simp add: stays_replayable_def)
  then have "wp (pre sc) (\<lambda>_. wp (machine c source (Sync m)) (\<lambda>_ _. True) (\<lambda>r _. r \<noteq> Hang)) (\<lambda>r _. r \<noteq> Hang) s" for sc
    by (rule wp_conseq) (auto intro: machine_ends)
  then have "wp (steps [pre sc] (machine c source (Sync m))) (\<lambda>_ _. True) (\<lambda>r _. r \<noteq> Hang) s" for sc
    by (simp add: wp_bind)
  then show ?thesis
    unfolding handle_sync_def pre_def by (simp add: wp_reads)
qed

lemma stays_restore: "calm stays_replayable (restore_checkpoint ck)"
proof -
  have step: "calm stays_replayable (bind (with_syncer f) (send_task b))"
    if "\<And>sc. client_part (snd (f sc)) = client_part sc" for f b
    by (rule stays_calm) (auto intro!: same.calm_intros fixed_rules that)
  show ?thesis
    unfolding restore_checkpoint_def
    by (auto intro!: stays.calm_intros step stays_calm [OF fixed_watches(1)] stays_calm [OF fixed_send_peer]
        split: option.split xmr_address_addendum.split)
qed

lemma handle_ctl_ends:
  assumes "replayable s"
  shows "wp (handle_ctl (machine c) source request) (\<lambda>_ _. True) (\<lambda>r _. r \<noteq> Hang) s"
proof -
  have restore: "wp (restore_checkpoint ck) (\<lambda>_ _. True) (\<lambda>r _. r \<noteq> Hang) s" for ck
    by (rule calm_wp [OF stays_restore]) simp
  have again: "no_hang (steps [
         modify (\<lambda>rt. rt\<lparr>peer_service := service, connected := True\<rparr>),
         reads pending_peer_request (\<lambda>pending. for_each pending send_peer)]
         (modify (\<lambda>rt. rt\<lparr>pending_peer_request := []\<rparr>)))" for service
    by (auto intro!: no_hang_intros calm_no_hang [OF fixed_send_peer])
  then have again': "wp (steps [
         modify (\<lambda>rt. rt\<lparr>peer_service := service, connected := True\<rparr>),
         reads pending_peer_request (\<lambda>pending. for_each pending send_peer)]
         (modify (\<lambda>rt. rt\<lparr>pending_peer_request := []\<rparr>))) (\<lambda>_ _. True) (\<lambda>r _. r \<noteq> Hang) s" for service
    by (intro wp_no_hang) (simp add: no_hang_def)
  show ?thesis
    using machine_ends [OF assms] restore again' unfolding handle_ctl_def
    by (cases request) (auto simp: wp_skip wp_modify wp_lift_res simp del: steps.simps)
qed

text \<open>
  Property C8 (termination): replays are never endless. In a state whose kept events are
  confirmations, handling any message returns, fails or panics, but the fuel of the loop does not
  run out; and the state it leaves is such a state again.
\<close>

theorem handling_terminates:
  assumes "replayable s" and "handle c now bus source request s = (r, s')"
  shows "r \<noteq> Hang \<and> replayable s'"
proof
  have "no_hang (handle_info c now source i)" for i
    unfolding handle_info_def send_client_info_def
    by (cases i) (auto intro!: no_hang_intros calm_no_hang [OF fixed_send_to] calm_no_hang [OF fixed_send_from_self])
  then have info: "wp (handle_info c now source i) (\<lambda>_ _. True) (\<lambda>r _. r \<noteq> Hang) s" for i
    by (intro wp_no_hang) (simp add: no_hang_def)
  have "wp (handle c now bus source request) (\<lambda>_ _. True) (\<lambda>r _. r \<noteq> Hang) s"
    using wp_then_report handle_msg_ends handle_sync_ends handle_ctl_ends info assms(1)
    unfolding handle_def by (cases bus; cases request) (auto simp: wp_throw simp del: steps.simps)
  then show "r \<noteq> Hang" using assms(2) by (auto simp: wp_def split: result.splits)
  have "keeps stays_replayable (handle c now bus source request)"
  proof (cases "\<exists>ck. request = Ctl (CheckpointCtl ck)")
    case True
    have "keeps stays_replayable (handle_ctl (machine c) source (CheckpointCtl ck))" for ck
      unfolding handle_ctl_def by (simp add: calm_keeps [OF stays_restore])
    then show ?thesis
      using True calm_keeps [OF stays_report] unfolding handle_def
      by (cases bus) (auto intro!: stays.keeps_intros)
  next
    case False
    then show ?thesis by (intro stays.handle_keeps) blast
  qed
  from keepsD [OF this assms(2)] show "replayable s'" using assms(1) by (simp add: stays_replayable_def)
qed

theorem handling_terminates_witness:
  "\<exists>r s'. handle example_core 0 SyncBus (Syncer Bitcoin Testnet) (Sync (confs_msg 1 3)) buy_runtime = (r, s')
     \<and> r \<noteq> Hang \<and> replayable s'"
proof -
  have start: "replayable buy_runtime"
    by (simp add: replayable_def buy_runtime_def example_defs)
  obtain r s' where run: "handle example_core 0 SyncBus (Syncer Bitcoin Testnet) (Sync (confs_msg 1 3)) buy_runtime
      = (r, s')" by fastforce
  from run handling_terminates [OF start run] show ?thesis by blast
qed

end
