(* ===== verification/SyncerState.thy ===== *)
theory SyncerState
  imports SyncerTypes
begin

text \<open>
  \<open>syncerd/syncer_state.rs\<close>: the tables of a syncer's running tasks, keyed by an internal id, the
  service each task answers to, the ids that expire at each height, and the operations that add
  tasks, abort them and turn what the chain shows into events. The channel to the syncer runtime is
  the list of the events sent; a send panics once the runtime has dropped the receiver.
\<close>

section \<open>State\<close>

type_synonym internal_id = u32

datatype address_tx = AddressTx (atx_amount: u64) (atx_tx_id: bytes) (atx_tx: bytes) (atx_incoming: bool)

datatype watched_transaction =
  WatchedTransaction (wtx_task: watch_transaction) (wtx_confirmations: transaction_confirmations)

record address_transactions =
  at_task :: watch_address
  known_txs :: "address_tx hash_set"
  subscribed :: bool
  initial_check_done :: bool

record syncer_state =
  syncer_blockchain :: blockchain
  block_height :: u64
  block_hash :: bytes
  tasks_sources :: "(internal_id, service_id) hash_map"
  height_tasks :: "(internal_id, watch_height) hash_map"
  fee_tasks :: "(internal_id, watch_estimate_fee) hash_map"
  lifetimes :: "(u64, internal_id hash_set) hash_map"
  addresses :: "(internal_id, address_transactions) hash_map"
  transactions :: "(internal_id, watched_transaction) hash_map"
  unseen_transactions :: "internal_id hash_set"
  sweep_addresses :: "(internal_id, sweep_address) hash_map"
  tx_event :: "bridge_event list"
  receiver_dropped :: bool
  task_count :: u32
  subscribed_addresses :: "address_addendum hash_set"
  fee_estimate :: "fee_estimations option"
  pending_broadcasts :: "(broadcast_transaction \<times> service_id) hash_set"

definition new_syncer_state :: "blockchain \<Rightarrow> syncer_state" where
  "new_syncer_state b = \<lparr>syncer_blockchain = b, block_height = 0, block_hash = [0], tasks_sources = [],
     height_tasks = [], fee_tasks = [], lifetimes = [], addresses = [], transactions = [],
     unseen_transactions = [], sweep_addresses = [], tx_event = [], receiver_dropped = False,
     task_count = 0, subscribed_addresses = [], fee_estimate = None, pending_broadcasts = []\<rparr>"

definition increment :: "syncer_state \<Rightarrow> syncer_state" where
  "increment s = s\<lparr>task_count := task_count s + 1\<rparr>"

definition send_event :: "(event \<times> service_id) list \<Rightarrow> (syncer_state, error, unit) action" where
  "send_event events = (\<lambda>s.
     if events \<noteq> [] \<and> receiver_dropped s then (Panic ''error sending event from the syncer state'', s)
     else (Ok (), s\<lparr>tx_event := tx_event s @ map (\<lambda>(e, source). BridgeEvent e source) events\<rparr>))"

section \<open>Lifetimes\<close>

definition insert_lifetime :: "u64 \<Rightarrow> internal_id \<Rightarrow> syncer_state \<Rightarrow> syncer_state" where
  "insert_lifetime lifetime i s =
     s\<lparr>lifetimes := (case hm_get (lifetimes s) lifetime of
          Some ids \<Rightarrow> hm_insert lifetime (hs_insert i ids) (lifetimes s)
        | None \<Rightarrow> hm_insert lifetime (hs_insert i []) (lifetimes s))\<rparr>"

definition add_lifetime :: "u64 \<Rightarrow> internal_id \<Rightarrow> syncer_state \<Rightarrow> (error, unit) result \<times> syncer_state" where
  "add_lifetime lifetime i s =
     (if lifetime < block_height s
      then (Err (FarcasterErr (Fmt ''task lifetime expired'' [])), s)
      else (Ok (), insert_lifetime lifetime i s))"

text \<open>The clean-up shared by every removal: an emptied set of ids leaves the map.\<close>

definition forget_lifetime :: "u64 \<Rightarrow> internal_id \<Rightarrow> syncer_state \<Rightarrow> syncer_state" where
  "forget_lifetime lifetime i s =
     (case hm_get (lifetimes s) lifetime of
        None \<Rightarrow> s
      | Some ids \<Rightarrow>
          (let ids' = hs_remove i ids
           in if ids' = [] then s\<lparr>lifetimes := hm_remove lifetime (lifetimes s)\<rparr>
              else s\<lparr>lifetimes := hm_insert lifetime ids' (lifetimes s)\<rparr>))"

definition drop_task :: "internal_id \<Rightarrow> syncer_state \<Rightarrow> syncer_state" where
  "drop_task i s =
     s\<lparr>addresses := hm_remove i (addresses s),
       transactions := hm_remove i (transactions s),
       unseen_transactions := hs_remove i (unseen_transactions s),
       height_tasks := hm_remove i (height_tasks s),
       fee_tasks := hm_remove i (fee_tasks s),
       sweep_addresses := hm_remove i (sweep_addresses s),
       tasks_sources := hm_remove i (tasks_sources s)\<rparr>"

definition drop_lifetime :: "u64 \<Rightarrow> syncer_state \<Rightarrow> syncer_state" where
  "drop_lifetime lifetime s =
     (case hm_get (lifetimes s) lifetime of
        Some ids \<Rightarrow> fold drop_task ids (s\<lparr>lifetimes := hm_remove lifetime (lifetimes s)\<rparr>)
      | None \<Rightarrow> s)"

definition drop_lifetimes :: "syncer_state \<Rightarrow> syncer_state" where
  "drop_lifetimes s =
     fold (\<lambda>lifetime s. if lifetime < block_height s then drop_lifetime lifetime s else s)
       (map fst (lifetimes s)) s"

section \<open>Removing one task\<close>

definition remove_transaction :: "internal_id \<Rightarrow> syncer_state \<Rightarrow> syncer_state" where
  "remove_transaction i s =
     (let s = (case hm_get (transactions s) i of
                 Some w \<Rightarrow> forget_lifetime (wt_lifetime (wtx_task w)) i s | None \<Rightarrow> s)
      in s\<lparr>transactions := hm_remove i (transactions s),
           unseen_transactions := hs_remove i (unseen_transactions s),
           tasks_sources := hm_remove i (tasks_sources s)\<rparr>)"

definition remove_address :: "internal_id \<Rightarrow> syncer_state \<Rightarrow> syncer_state" where
  "remove_address i s =
     (let s = (case hm_get (addresses s) i of
                 Some a \<Rightarrow> forget_lifetime (wa_lifetime (at_task a)) i s | None \<Rightarrow> s)
      in s\<lparr>addresses := hm_remove i (addresses s), tasks_sources := hm_remove i (tasks_sources s)\<rparr>)"

definition remove_height :: "internal_id \<Rightarrow> syncer_state \<Rightarrow> syncer_state" where
  "remove_height i s =
     (let s = (case hm_get (height_tasks s) i of
                 Some w \<Rightarrow> forget_lifetime (wh_lifetime w) i s | None \<Rightarrow> s)
      in s\<lparr>height_tasks := hm_remove i (height_tasks s), tasks_sources := hm_remove i (tasks_sources s)\<rparr>)"

definition remove_sweep_address :: "internal_id \<Rightarrow> syncer_state \<Rightarrow> syncer_state" where
  "remove_sweep_address i s =
     (let s = (case hm_get (sweep_addresses s) i of
                 Some w \<Rightarrow> forget_lifetime (sa_lifetime w) i s | None \<Rightarrow> s)
      in s\<lparr>sweep_addresses := hm_remove i (sweep_addresses s), tasks_sources := hm_remove i (tasks_sources s)\<rparr>)"

section \<open>Aborting tasks\<close>

text \<open>The ids of a table's tasks that an abort names, with the ids the clients gave them.\<close>

fun matching_ids :: "task_id option \<Rightarrow> ('v \<Rightarrow> task_id) \<Rightarrow> (internal_id, 'v) hash_map \<Rightarrow> (internal_id \<times> task_id) list" where
  "matching_ids task_id tid [] = []"
| "matching_ids task_id tid ((i, v) # m) =
     (if task_id = None \<or> Some (tid v) = task_id then (i, tid v) # matching_ids task_id tid m
      else matching_ids task_id tid m)"

text \<open>Each is removed, and reported, when it belongs to the aborting service.\<close>

fun abort_ids ::
  "(internal_id \<Rightarrow> syncer_state \<Rightarrow> syncer_state) \<Rightarrow> service_id \<Rightarrow> (internal_id \<times> task_id) list
     \<Rightarrow> syncer_state \<Rightarrow> task_id list \<times> syncer_state" where
  "abort_ids remove source [] s = ([], s)"
| "abort_ids remove source ((i, found) # ids) s =
     (if hm_get (tasks_sources s) i = Some source
      then (let (aborted, s') = abort_ids remove source ids (remove i s) in (found # aborted, s'))
      else abort_ids remove source ids s)"

fun abort_target :: "task_target \<Rightarrow> task_id option" where
  "abort_target AllTasks = None"
| "abort_target (TargetTask t) = Some t"

definition abort_tasks :: "task_id option \<Rightarrow> service_id \<Rightarrow> syncer_state \<Rightarrow> task_id list \<times> syncer_state" where
  "abort_tasks task_id source s0 =
     (let (a1, s1) = abort_ids remove_address source
              (matching_ids task_id (\<lambda>a. wa_id (at_task a)) (addresses s0)) s0;
          (a2, s2) = abort_ids remove_transaction source
              (matching_ids task_id (\<lambda>w. wt_id (wtx_task w)) (transactions s1)) s1;
          (a3, s3) = abort_ids remove_height source (matching_ids task_id wh_id (height_tasks s2)) s2;
          (a4, s4) = abort_ids remove_sweep_address source
              (matching_ids task_id sa_id (sweep_addresses s3)) s3
      in (a1 @ a2 @ a3 @ a4, s4))"

definition abort :: "task_target \<Rightarrow> service_id \<Rightarrow> bool \<Rightarrow> (syncer_state, error, unit) action" where
  "abort target source respond =
     bind (stateful (abort_tasks (abort_target target) source)) (\<lambda>aborted_ids.
       if aborted_ids = []
       then send_event [(TaskAbortedEv (TaskAborted []
              (Some (Fmt ''abort failed, task from source {} not found'' [TService source]))), source)]
       else on respond (send_event [(TaskAbortedEv (TaskAborted aborted_ids None), source)]))"

section \<open>Adding tasks\<close>

definition watch_height :: "watch_height \<Rightarrow> service_id \<Rightarrow> (syncer_state, error, unit) action" where
  "watch_height task source =
     bind (modify increment) (\<lambda>_. reads task_count (\<lambda>i.
     bind (stateful (add_lifetime (wh_lifetime task) i)) (\<lambda>added.
       if \<not> is_ok added then skip
       else steps [
         modify (\<lambda>s. s\<lparr>height_tasks := hm_insert i task (height_tasks s)\<rparr>),
         modify (\<lambda>s. s\<lparr>tasks_sources := hm_insert i source (tasks_sources s)\<rparr>)]
         (reads id (\<lambda>s. on (block_height s \<noteq> 0)
            (send_event [(HeightChangedEv (HeightChanged (wh_id task) (block_hash s) (block_height s)), source)]))))))"

definition watch_address :: "watch_address \<Rightarrow> service_id \<Rightarrow> syncer_state \<Rightarrow> syncer_state" where
  "watch_address task source s0 =
     (let s1 = increment s0; i = task_count s1; (added, s2) = add_lifetime (wa_lifetime task) i s1
      in if \<not> is_ok added then s2
         else s2\<lparr>tasks_sources := hm_insert i source (tasks_sources s2),
                addresses := hm_insert i \<lparr>at_task = task, known_txs = [], subscribed = False,
                  initial_check_done = False\<rparr> (addresses s2)\<rparr>)"

definition address_subscribed :: "internal_id \<Rightarrow> syncer_state \<Rightarrow> syncer_state" where
  "address_subscribed i s =
     (case hm_get (addresses s) i of
        Some address \<Rightarrow> s\<lparr>subscribed_addresses := hs_insert (wa_addendum (at_task address)) (subscribed_addresses s)\<rparr>
      | None \<Rightarrow> s)"

definition unsubscribe_addresses :: "syncer_state \<Rightarrow> syncer_state" where
  "unsubscribe_addresses s =
     s\<lparr>addresses := map (\<lambda>(i, a). (i, a\<lparr>subscribed := False\<rparr>)) (addresses s)\<rparr>"

definition watch_transaction :: "watch_transaction \<Rightarrow> service_id \<Rightarrow> syncer_state \<Rightarrow> syncer_state" where
  "watch_transaction task source s0 =
     (let s1 = increment s0; i = task_count s1; (added, s2) = add_lifetime (wt_lifetime task) i s1
      in if \<not> is_ok added then s2
         else s2\<lparr>tasks_sources := hm_insert i source (tasks_sources s2),
                transactions := hm_insert i (WatchedTransaction task
                  (TransactionConfirmations (wt_id task) [] None [])) (transactions s2),
                unseen_transactions := hs_insert i (unseen_transactions s2)\<rparr>)"

definition estimate_fee :: "watch_estimate_fee \<Rightarrow> service_id \<Rightarrow> (syncer_state, error, unit) action" where
  "estimate_fee task source =
     bind (modify increment) (\<lambda>_. reads task_count (\<lambda>i. steps [
         modify (\<lambda>s. s\<lparr>fee_tasks := hm_insert i task (fee_tasks s)\<rparr>),
         modify (\<lambda>s. s\<lparr>tasks_sources := hm_insert i source (tasks_sources s)\<rparr>)]
       (reads fee_estimate (\<lambda>cached. case cached of
          Some est \<Rightarrow> send_event [(FeeEstimationEv (FeeEstimation (we_id task) est), source)]
        | None \<Rightarrow> skip))))"

definition sweep_address :: "sweep_address \<Rightarrow> service_id \<Rightarrow> syncer_state \<Rightarrow> syncer_state" where
  "sweep_address task source s0 =
     (let s1 = increment s0; i = task_count s1; s2 = insert_lifetime (sa_lifetime task) i s1
      in s2\<lparr>sweep_addresses := hm_insert i task (sweep_addresses s2),
            tasks_sources := hm_insert i source (tasks_sources s2)\<rparr>)"

section \<open>What the chain shows\<close>

definition handle_change_height :: "u64 \<Rightarrow> bytes \<Rightarrow> syncer_state \<Rightarrow> syncer_state" where
  "handle_change_height new_height block s =
     (if new_height > block_height s \<and> block \<noteq> block_hash s
      then s\<lparr>block_height := new_height, block_hash := block\<rparr>
      else if new_height = block_height s \<and> block \<noteq> block_hash s
      then s\<lparr>block_hash := block\<rparr>
      else if new_height < block_height s \<and> block \<noteq> block_hash s
      then s\<lparr>block_height := new_height, block_hash := block\<rparr>
      else s)"

text \<open>\<open>self.tasks_sources.get(id)\<close> unwrapped.\<close>

definition source_of :: "string \<Rightarrow> internal_id \<Rightarrow> syncer_state \<Rightarrow> (error, service_id) result" where
  "source_of msg i s = expect msg (hm_get (tasks_sources s) i)"

definition change_height :: "u64 \<Rightarrow> bytes \<Rightarrow> (syncer_state, error, bool) action" where
  "change_height new_height block = reads id (\<lambda>s0.
     if block_height s0 \<noteq> new_height \<or> block_hash s0 \<noteq> block
     then steps [
         modify (handle_change_height new_height block),
         modify drop_lifetimes,
         reads id (\<lambda>s. for_each (height_tasks s) (\<lambda>(i, task).
           bind (lift_res (source_of ''unwrap on None'' i s)) (\<lambda>source.
             send_event [(HeightChangedEv (HeightChanged (wh_id task) block (block_height s)), source)])))]
       (ret True)
     else ret False)"

text \<open>
  The pass over the watched addresses: the address' new entry and the events it raises. The loop of
  the code drains the map, so a panic in it leaves no address behind; the process ends there.
\<close>

definition address_tx_event :: "task_id \<Rightarrow> address_tx \<Rightarrow> event" where
  "address_tx_event tid t =
     AddressTransactionEv (AddressTransaction tid (atx_tx_id t) (atx_amount t) [] (chunk_tx (atx_tx t)) (atx_incoming t))"

definition change_address_entry ::
  "(internal_id, service_id) hash_map \<Rightarrow> address_addendum \<Rightarrow> address_tx hash_set
     \<Rightarrow> internal_id \<times> address_transactions
     \<Rightarrow> (error, (internal_id \<times> address_transactions) \<times> (event \<times> service_id) list) result" where
  "change_address_entry sources addendum txs entry =
     (case entry of (i, addr) \<Rightarrow>
       if wa_addendum (at_task addr) \<noteq> addendum then Ok ((i, addr), [])
       else
         let txs_diff = filter (\<lambda>t. t \<notin> set (known_txs addr)) txs
         in if txs_diff = [] \<and> \<not> initial_check_done addr
            then rbind (expect ''task source missing'' (hm_get sources i)) (\<lambda>source.
                   Ok ((i, addr\<lparr>initial_check_done := True\<rparr>), [(EmptyEv (wa_id (at_task addr)), source)]))
            else if txs_diff = []
            then Ok ((i, addr\<lparr>known_txs := txs, initial_check_done := True\<rparr>), [])
            else rbind (expect ''task source missing'' (hm_get sources i)) (\<lambda>source.
                   Ok ((i, addr\<lparr>known_txs := txs, initial_check_done := True\<rparr>),
                       map (\<lambda>t. (address_tx_event (wa_id (at_task addr)) t, source)) txs_diff)))"

fun collect_entries :: "('a \<Rightarrow> ('e, 'b \<times> 'c list) result) \<Rightarrow> 'a list \<Rightarrow> ('e, 'b list \<times> 'c list) result" where
  "collect_entries f [] = Ok ([], [])"
| "collect_entries f (x # xs) =
     rbind (f x) (\<lambda>(y, evs). rbind (collect_entries f xs) (\<lambda>(ys, evs'). Ok (y # ys, evs @ evs')))"

definition change_address :: "address_addendum \<Rightarrow> address_tx hash_set \<Rightarrow> (syncer_state, error, unit) action" where
  "change_address addendum txs =
     bind (modify drop_lifetimes) (\<lambda>_. reads id (\<lambda>s.
     bind (lift_res (collect_entries (change_address_entry (tasks_sources s) addendum txs) (addresses s)))
       (\<lambda>(addrs, events). steps [modify (\<lambda>s. s\<lparr>addresses := addrs\<rparr>)] (send_event (remdups_adj events)))))"

text \<open>
  The pass over the watched transactions: an unseen mark per matching task, an event where the
  confirmations or the block changed, and no entry any more once the bound is reached.
\<close>

fun option_ge :: "u32 option \<Rightarrow> u32 option \<Rightarrow> bool" where
  "option_ge _ None = True"
| "option_ge None (Some _) = False"
| "option_ge (Some a) (Some b) = (a \<ge> b)"

definition mark_unseen ::
  "bytes \<Rightarrow> u32 option \<Rightarrow> internal_id \<times> watched_transaction \<Rightarrow> internal_id hash_set \<Rightarrow> internal_id hash_set" where
  "mark_unseen tx_id confirmations entry unseen =
     (case entry of (i, w) \<Rightarrow>
       if tx_id \<noteq> wt_hash (wtx_task w) then unseen
       else if confirmations \<noteq> None then hs_remove i unseen
       else hs_insert i unseen)"

definition change_transaction_entry ::
  "(internal_id, service_id) hash_map \<Rightarrow> bytes \<Rightarrow> bytes \<Rightarrow> u32 option \<Rightarrow> bytes
     \<Rightarrow> internal_id \<times> watched_transaction
     \<Rightarrow> (error, (internal_id \<times> watched_transaction) list \<times> (event \<times> service_id) list) result" where
  "change_transaction_entry sources tx_id block confirmations tx entry =
     (case entry of (i, w) \<Rightarrow>
       if tx_id \<noteq> wt_hash (wtx_task w) then Ok ([(i, w)], [])
       else
         let keep = (\<lambda>confs. if option_ge confirmations (Some (wt_confirmation_bound (wtx_task w))) then []
                             else [(i, WatchedTransaction (wtx_task w) confs)])
         in if confirmations \<noteq> tc_confirmations (wtx_confirmations w) \<or> block \<noteq> tc_block (wtx_confirmations w)
            then let tx_confs = TransactionConfirmations (wt_id (wtx_task w)) block confirmations (chunk_tx tx)
                 in rbind (expect ''unwrap on None'' (hm_get sources i)) (\<lambda>source.
                      Ok (keep tx_confs, [(TransactionConfirmationsEv tx_confs, source)]))
            else Ok (keep (wtx_confirmations w), []))"

definition change_transaction ::
  "bytes \<Rightarrow> bytes option \<Rightarrow> u32 option \<Rightarrow> bytes \<Rightarrow> (syncer_state, error, unit) action" where
  "change_transaction tx_id bhash confirmations tx =
     bind (modify drop_lifetimes) (\<lambda>_. reads id (\<lambda>s.
     let block = (case bhash of Some bh \<Rightarrow> bh | None \<Rightarrow> [0])
     in bind (lift_res (collect_entries
            (change_transaction_entry (tasks_sources s) tx_id block confirmations tx) (transactions s)))
       (\<lambda>(txs, events). steps [
           modify (\<lambda>s. s\<lparr>unseen_transactions :=
               fold (mark_unseen tx_id confirmations) (transactions s) (unseen_transactions s)\<rparr>),
           modify (\<lambda>s. s\<lparr>transactions := concat txs\<rparr>)]
         (send_event events))))"

section \<open>Sweeps, fees and health\<close>

text \<open>A sweep task that is done, with either event, leaves the tables.\<close>

definition finish_sweep :: "internal_id \<Rightarrow> sweep_address \<Rightarrow> syncer_state \<Rightarrow> syncer_state" where
  "finish_sweep i w s =
     (let s = forget_lifetime (sa_lifetime w) i s
      in s\<lparr>sweep_addresses := hm_remove i (sweep_addresses s), tasks_sources := hm_remove i (tasks_sources s)\<rparr>)"

definition success_sweep :: "internal_id \<Rightarrow> bytes list \<Rightarrow> (syncer_state, error, unit) action" where
  "success_sweep i txids = reads id (\<lambda>s.
     case hm_get (sweep_addresses s) i of
       None \<Rightarrow> skip
     | Some w \<Rightarrow> bind (lift_res (source_of ''task source missing'' i s)) (\<lambda>source. steps [
           send_event [(SweepSuccessEv (SweepSuccess (sa_id w) txids), source)],
           modify (finish_sweep i w)] skip))"

definition fail_sweep :: "internal_id \<Rightarrow> (syncer_state, error, unit) action" where
  "fail_sweep i = reads id (\<lambda>s.
     case hm_get (sweep_addresses s) i of
       None \<Rightarrow> skip
     | Some w \<Rightarrow> bind (lift_res (source_of ''task source missing'' i s)) (\<lambda>source. steps [
           send_event [(TaskAbortedEv (TaskAborted [sa_id w]
             (Some (Fmt ''Sweep failed, did not find any assets associated with the address'' []))), source)],
           modify (finish_sweep i w)] skip))"

definition fee_estimated :: "fee_estimations \<Rightarrow> (syncer_state, error, unit) action" where
  "fee_estimated estimations = reads id (\<lambda>s0.
     bind (on (fee_estimate s0 \<noteq> Some estimations) (steps [
         for_each (fee_tasks s0) (\<lambda>(i, task).
           bind (lift_res (source_of ''unwrap on None'' i s0)) (\<lambda>source.
             send_event [(FeeEstimationEv (FeeEstimation (we_id task) estimations), source)])),
         modify (\<lambda>s. s\<lparr>fee_estimate := Some estimations\<rparr>)] skip))
       (\<lambda>_. modify drop_lifetimes))"

definition send_health_result :: "task_id \<Rightarrow> health \<Rightarrow> service_id \<Rightarrow> (syncer_state, error, unit) action" where
  "send_health_result i h source = send_event [(HealthResultEv (HealthResult i h), source)]"

end
