(* ===== verification/SyncerInvariants.thy ===== *)
theory SyncerInvariants
  imports SyncerState
begin

text \<open>
  What keeps a syncer running: every task in a table has its source and its place in the lifetimes,
  so that no operation panics, aborts and expiries remove the tasks they mean to and no others, and
  each event goes to the service that asked for it.
\<close>

section \<open>The invariant\<close>

definition table_ids :: "syncer_state \<Rightarrow> internal_id set" where
  "table_ids s = hm_keys (addresses s) \<union> hm_keys (transactions s) \<union> hm_keys (height_tasks s)
     \<union> hm_keys (sweep_addresses s) \<union> hm_keys (fee_tasks s)"

text \<open>\<open>i\<close> is a task that expires at height \<open>l\<close>; fee estimations never do.\<close>

definition expires :: "syncer_state \<Rightarrow> internal_id \<Rightarrow> u64 \<Rightarrow> bool" where
  "expires s i l \<longleftrightarrow>
     (\<exists>a. hm_get (addresses s) i = Some a \<and> wa_lifetime (at_task a) = l)
     \<or> (\<exists>w. hm_get (transactions s) i = Some w \<and> wt_lifetime (wtx_task w) = l)
     \<or> (\<exists>w. hm_get (height_tasks s) i = Some w \<and> wh_lifetime w = l)
     \<or> (\<exists>w. hm_get (sweep_addresses s) i = Some w \<and> sa_lifetime w = l)"

definition disjoint_tables :: "syncer_state \<Rightarrow> bool" where
  "disjoint_tables s \<longleftrightarrow>
     hm_keys (addresses s) \<inter> (hm_keys (transactions s) \<union> hm_keys (height_tasks s)
         \<union> hm_keys (sweep_addresses s) \<union> hm_keys (fee_tasks s)) = {}
     \<and> hm_keys (transactions s) \<inter> (hm_keys (height_tasks s) \<union> hm_keys (sweep_addresses s)
         \<union> hm_keys (fee_tasks s)) = {}
     \<and> hm_keys (height_tasks s) \<inter> (hm_keys (sweep_addresses s) \<union> hm_keys (fee_tasks s)) = {}
     \<and> hm_keys (sweep_addresses s) \<inter> hm_keys (fee_tasks s) = {}"

definition in_bucket :: "syncer_state \<Rightarrow> u64 \<Rightarrow> internal_id \<Rightarrow> bool" where
  "in_bucket s l i \<longleftrightarrow> (\<exists>ids. hm_get (lifetimes s) l = Some ids \<and> i \<in> set ids)"

definition sources_cover :: "syncer_state \<Rightarrow> bool" where
  "sources_cover s \<longleftrightarrow> table_ids s \<subseteq> hm_keys (tasks_sources s)"

definition ids_bounded :: "syncer_state \<Rightarrow> bool" where
  "ids_bounded s \<longleftrightarrow> (\<forall>i. i \<in> hm_keys (tasks_sources s) \<or> (\<exists>l. in_bucket s l i) \<longrightarrow> i \<le> task_count s)"

definition buckets_exact :: "syncer_state \<Rightarrow> bool" where
  "buckets_exact s \<longleftrightarrow> (\<forall>i l. expires s i l \<longrightarrow> in_bucket s l i)
     \<and> (\<forall>i l l'. in_bucket s l i \<longrightarrow> expires s i l' \<longrightarrow> l' = l)"

definition keys_distinct :: "syncer_state \<Rightarrow> bool" where
  "keys_distinct s \<longleftrightarrow> distinct (map fst (addresses s)) \<and> distinct (map fst (transactions s))
     \<and> distinct (map fst (height_tasks s)) \<and> distinct (map fst (sweep_addresses s))
     \<and> distinct (map fst (fee_tasks s)) \<and> distinct (map fst (lifetimes s))"

definition syncer_inv :: "syncer_state \<Rightarrow> bool" where
  "syncer_inv s \<longleftrightarrow> sources_cover s \<and> ids_bounded s \<and> disjoint_tables s \<and> buckets_exact s \<and> keys_distinct s"

named_theorems syncer_unfold "the parts of the syncer invariant, unfolded"

lemmas syncer_inv_unfold [syncer_unfold] =
  sources_cover_def ids_bounded_def disjoint_tables_def buckets_exact_def keys_distinct_def
  table_ids_def in_bucket_def expires_def

lemma syncer_inv_new: "syncer_inv (new_syncer_state b)"
  by (simp add: syncer_inv_def syncer_unfold new_syncer_state_def)

text \<open>Fields the invariant does not read.\<close>

lemma syncer_inv_frame [simp]:
  "syncer_inv (s\<lparr>tx_event := a\<rparr>) = syncer_inv s"
  "syncer_inv (s\<lparr>unseen_transactions := b\<rparr>) = syncer_inv s"
  "syncer_inv (s\<lparr>block_height := h\<rparr>) = syncer_inv s"
  "syncer_inv (s\<lparr>block_hash := k\<rparr>) = syncer_inv s"
  "syncer_inv (s\<lparr>fee_estimate := e\<rparr>) = syncer_inv s"
  "syncer_inv (s\<lparr>subscribed_addresses := d\<rparr>) = syncer_inv s"
  by (simp_all add: syncer_inv_def syncer_unfold)

lemma hm_keys_tables: "i \<in> table_ids s \<longleftrightarrow> (\<exists>l. expires s i l) \<or> i \<in> hm_keys (fee_tasks s)"
proof -
  have "(\<exists>l. expires s i l) \<longleftrightarrow> i \<in> hm_keys (addresses s) \<or> i \<in> hm_keys (transactions s)
      \<or> i \<in> hm_keys (height_tasks s) \<or> i \<in> hm_keys (sweep_addresses s)"
    unfolding expires_def hm_get_iff_key [symmetric] by blast
  then show ?thesis by (simp add: table_ids_def)
qed

section \<open>Removals\<close>

lemma expires_drop_task [simp]: "expires (drop_task i s) j l \<longleftrightarrow> j \<noteq> i \<and> expires s j l"
  by (auto simp: expires_def drop_task_def)

lemma in_bucket_drop_task [simp]: "in_bucket (drop_task i s) l j = in_bucket s l j"
  by (simp add: in_bucket_def drop_task_def)

lemma in_bucket_forget [simp]:
  "in_bucket (forget_lifetime l i s) l' j \<longleftrightarrow> in_bucket s l' j \<and> (l' = l \<longrightarrow> j \<noteq> i)"
  by (auto simp: forget_lifetime_def in_bucket_def Let_def split: option.splits)

lemma expires_forget [simp]: "expires (forget_lifetime l i s) j l' = expires s j l'"
  by (simp add: forget_lifetime_def expires_def Let_def split: option.splits)

lemma syncer_inv_drop_task:
  assumes "syncer_inv s"
  shows "syncer_inv (drop_task i s)"
proof -
  from assms have parts: "sources_cover s" "ids_bounded s" "disjoint_tables s" "buckets_exact s" "keys_distinct s"
    by (simp_all add: syncer_inv_def)
  have "sources_cover (drop_task i s)"
    using parts(1) by (auto simp: sources_cover_def table_ids_def drop_task_def)
  moreover have "ids_bounded (drop_task i s)"
    using parts(2) by (simp add: ids_bounded_def) (simp add: drop_task_def)
  moreover have "disjoint_tables (drop_task i s)"
    using parts(3) by (auto simp: disjoint_tables_def drop_task_def)
  moreover have "buckets_exact (drop_task i s)"
    using parts(4) by (simp add: buckets_exact_def)
  moreover have "keys_distinct (drop_task i s)"
    using parts(5) by (simp add: keys_distinct_def drop_task_def)
  ultimately show ?thesis by (simp add: syncer_inv_def)
qed

lemma forget_lifetime_frame [simp]:
  "addresses (forget_lifetime l i s) = addresses s"
  "transactions (forget_lifetime l i s) = transactions s"
  "height_tasks (forget_lifetime l i s) = height_tasks s"
  "sweep_addresses (forget_lifetime l i s) = sweep_addresses s"
  "fee_tasks (forget_lifetime l i s) = fee_tasks s"
  "tasks_sources (forget_lifetime l i s) = tasks_sources s"
  "task_count (forget_lifetime l i s) = task_count s"
  "tx_event (forget_lifetime l i s) = tx_event s"
  "receiver_dropped (forget_lifetime l i s) = receiver_dropped s"
  "unseen_transactions (forget_lifetime l i s) = unseen_transactions s"
  "block_height (forget_lifetime l i s) = block_height s"
  by (simp_all add: forget_lifetime_def Let_def split: option.splits)

lemma forget_lifetime_distinct:
  "distinct (map fst (lifetimes s)) \<Longrightarrow> distinct (map fst (lifetimes (forget_lifetime l i s)))"
  by (simp add: forget_lifetime_def Let_def split: option.splits)

lemma drop_task_frame [simp]:
  "task_count (drop_task i s) = task_count s"
  "lifetimes (drop_task i s) = lifetimes s"
  "tx_event (drop_task i s) = tx_event s"
  "receiver_dropped (drop_task i s) = receiver_dropped s"
  "block_height (drop_task i s) = block_height s"
  "block_hash (drop_task i s) = block_hash s"
  by (simp_all add: drop_task_def)

text \<open>A task dropped together with its place in the lifetimes.\<close>

lemma syncer_inv_forget_drop:
  assumes "syncer_inv s"
  shows "syncer_inv (drop_task i (forget_lifetime l i s))"
proof -
  from assms have parts: "sources_cover s" "ids_bounded s" "disjoint_tables s" "buckets_exact s" "keys_distinct s"
    by (simp_all add: syncer_inv_def)
  have "sources_cover (drop_task i (forget_lifetime l i s))"
    using parts(1) by (auto simp: sources_cover_def table_ids_def drop_task_def)
  moreover have "ids_bounded (drop_task i (forget_lifetime l i s))"
    using parts(2) by (auto simp: ids_bounded_def) (simp_all add: drop_task_def)
  moreover have "disjoint_tables (drop_task i (forget_lifetime l i s))"
    using parts(3) by (auto simp: disjoint_tables_def drop_task_def)
  moreover have "buckets_exact (drop_task i (forget_lifetime l i s))"
    using parts(4) by (auto simp: buckets_exact_def)
  moreover have "keys_distinct (drop_task i (forget_lifetime l i s))"
    using parts(5) by (simp add: keys_distinct_def drop_task_def forget_lifetime_distinct)
  ultimately show ?thesis by (simp add: syncer_inv_def)
qed

text \<open>The tables are disjoint, so removing a task from its own table removes it everywhere.\<close>

lemma remove_address_eq:
  assumes "syncer_inv s" "i \<in> hm_keys (addresses s)"
  shows "\<exists>l u. remove_address i s = (drop_task i (forget_lifetime l i s))\<lparr>unseen_transactions := u\<rparr>"
proof -
  from assms(2) obtain a where a: "hm_get (addresses s) i = Some a" by (rule hm_keysE)
  from assms have out: "i \<notin> hm_keys (transactions s)" "i \<notin> hm_keys (height_tasks s)"
      "i \<notin> hm_keys (sweep_addresses s)" "i \<notin> hm_keys (fee_tasks s)"
    by (auto simp: syncer_inv_def disjoint_tables_def)
  show ?thesis
    by (rule exI [of _ "wa_lifetime (at_task a)"], rule exI [of _ "unseen_transactions s"])
      (simp add: remove_address_def drop_task_def a hm_remove_absent out)
qed

lemma remove_transaction_eq:
  assumes "syncer_inv s" "i \<in> hm_keys (transactions s)"
  shows "\<exists>l u. remove_transaction i s = (drop_task i (forget_lifetime l i s))\<lparr>unseen_transactions := u\<rparr>"
proof -
  from assms(2) obtain a where a: "hm_get (transactions s) i = Some a" by (rule hm_keysE)
  from assms have out: "i \<notin> hm_keys (addresses s)" "i \<notin> hm_keys (height_tasks s)"
      "i \<notin> hm_keys (sweep_addresses s)" "i \<notin> hm_keys (fee_tasks s)"
    by (auto simp: syncer_inv_def disjoint_tables_def)
  show ?thesis
    by (rule exI [of _ "wt_lifetime (wtx_task a)"], rule exI [of _ "hs_remove i (unseen_transactions s)"])
      (simp add: remove_transaction_def drop_task_def a hm_remove_absent out)
qed

lemma remove_height_eq:
  assumes "syncer_inv s" "i \<in> hm_keys (height_tasks s)"
  shows "\<exists>l u. remove_height i s = (drop_task i (forget_lifetime l i s))\<lparr>unseen_transactions := u\<rparr>"
proof -
  from assms(2) obtain a where a: "hm_get (height_tasks s) i = Some a" by (rule hm_keysE)
  from assms have out: "i \<notin> hm_keys (addresses s)" "i \<notin> hm_keys (transactions s)"
      "i \<notin> hm_keys (sweep_addresses s)" "i \<notin> hm_keys (fee_tasks s)"
    by (auto simp: syncer_inv_def disjoint_tables_def)
  show ?thesis
    by (rule exI [of _ "wh_lifetime a"], rule exI [of _ "unseen_transactions s"])
      (simp add: remove_height_def drop_task_def a hm_remove_absent out)
qed

lemma finish_sweep_eq:
  assumes "syncer_inv s" "hm_get (sweep_addresses s) i = Some w"
  shows "finish_sweep i w s =
           (drop_task i (forget_lifetime (sa_lifetime w) i s))\<lparr>unseen_transactions := unseen_transactions s\<rparr>"
proof -
  from assms have out: "i \<notin> hm_keys (addresses s)" "i \<notin> hm_keys (transactions s)"
      "i \<notin> hm_keys (height_tasks s)" "i \<notin> hm_keys (fee_tasks s)"
    by (auto simp: syncer_inv_def disjoint_tables_def dest: hm_get_SomeD)
  show ?thesis by (simp add: finish_sweep_def drop_task_def hm_remove_absent out)
qed

lemma remove_sweep_address_eq:
  assumes "syncer_inv s" "i \<in> hm_keys (sweep_addresses s)"
  shows "\<exists>l u. remove_sweep_address i s = (drop_task i (forget_lifetime l i s))\<lparr>unseen_transactions := u\<rparr>"
proof -
  from assms(2) obtain a where a: "hm_get (sweep_addresses s) i = Some a" by (rule hm_keysE)
  then have "remove_sweep_address i s = finish_sweep i a s"
    by (simp add: remove_sweep_address_def finish_sweep_def)
  also note finish_sweep_eq [OF assms(1) a]
  finally show ?thesis by (intro exI)
qed

section \<open>The tasks an abort names\<close>

definition named :: "task_id option \<Rightarrow> task_id \<Rightarrow> bool" where
  "named t x \<longleftrightarrow> t = None \<or> Some x = t"

lemma matching_ids_eq:
  "matching_ids t tid m = map (\<lambda>(i, v). (i, tid v)) (filter (\<lambda>(i, v). named t (tid v)) m)"
  by (induction m rule: matching_ids.induct) (auto simp: named_def)

lemma map_fst_pairs: "map fst (map (\<lambda>(i, v). (i, f v)) m) = map fst m"
  by (simp add: comp_def case_prod_beta)

lemma map_snd_matching:
  "map snd (filter (\<lambda>(i, _). P i) (map (\<lambda>(i, v). (i, tid v)) (filter (\<lambda>(i, v). Q (tid v)) m)))
     = map (\<lambda>(i, v). tid v) (filter (\<lambda>(i, v). Q (tid v) \<and> P i) m)"
  by (induction m) auto

section \<open>The contract of a task table\<close>

text \<open>
  What the abort loop relies on, for each of the four tables: removing one of the table's tasks
  takes it out of the table and of the sources and keeps the invariant.
\<close>

locale task_table =
  fixes table :: "syncer_state \<Rightarrow> (internal_id, 'v) hash_map"
    and remove :: "internal_id \<Rightarrow> syncer_state \<Rightarrow> syncer_state"
  assumes table_covered: "syncer_inv s \<Longrightarrow> distinct (map fst (table s))"
    and remove_inv: "syncer_inv s \<Longrightarrow> i \<in> hm_keys (table s) \<Longrightarrow> syncer_inv (remove i s)"
    and remove_table: "table (remove i s) = hm_remove i (table s)"
    and remove_source: "tasks_sources (remove i s) = hm_remove i (tasks_sources s)"
begin

lemma abort_ids_spec:
  assumes "syncer_inv s" "distinct (map fst ids)" "fst ` set ids \<subseteq> hm_keys (table s)"
  shows "fst (abort_ids remove source ids s) = map snd (filter (\<lambda>(i, _). hm_get (tasks_sources s) i = Some source) ids)
    \<and> syncer_inv (snd (abort_ids remove source ids s))
    \<and> table (snd (abort_ids remove source ids s))
        = filter (\<lambda>(i, _). \<not> (i \<in> fst ` set ids \<and> hm_get (tasks_sources s) i = Some source)) (table s)
    \<and> (\<forall>j. hm_get (tasks_sources (snd (abort_ids remove source ids s))) j
          = (if j \<in> fst ` set ids \<and> hm_get (tasks_sources s) j = Some source then None else hm_get (tasks_sources s) j))"
  using assms
proof (induction ids arbitrary: s)
  case Nil
  then show ?case by simp
next
  case (Cons x ids)
  obtain i found where x: "x = (i, found)" by (cases x)
  show ?case
  proof (cases "hm_get (tasks_sources s) i = Some source")
    case False
    then have "abort_ids remove source (x # ids) s = abort_ids remove source ids s" by (simp add: x)
    with Cons.IH [of s] Cons.prems False show ?thesis
      by (auto simp: x split: if_splits intro!: filter_cong)
  next
    case True
    let ?s = "remove i s"
    have inv: "syncer_inv ?s" using Cons.prems by (simp add: x remove_inv)
    have ids: "distinct (map fst ids)" "fst ` set ids \<subseteq> hm_keys (table ?s)" "i \<notin> fst ` set ids"
      using Cons.prems by (auto simp: x remove_table)
    from Cons.IH [OF inv ids(1,2)] have IH:
      "fst (abort_ids remove source ids ?s)
         = map snd (filter (\<lambda>(j, _). hm_get (tasks_sources ?s) j = Some source) ids)"
      "syncer_inv (snd (abort_ids remove source ids ?s))"
      "table (snd (abort_ids remove source ids ?s))
         = filter (\<lambda>(j, _). \<not> (j \<in> fst ` set ids \<and> hm_get (tasks_sources ?s) j = Some source)) (table ?s)"
      "\<And>j. hm_get (tasks_sources (snd (abort_ids remove source ids ?s))) j
         = (if j \<in> fst ` set ids \<and> hm_get (tasks_sources ?s) j = Some source then None
            else hm_get (tasks_sources ?s) j)"
      by auto
    have rec: "abort_ids remove source (x # ids) s
        = (found # fst (abort_ids remove source ids ?s), snd (abort_ids remove source ids ?s))"
      using True by (simp add: x split: prod.splits)
    have same: "filter (\<lambda>(j, _). hm_get (tasks_sources ?s) j = Some source) ids
        = filter (\<lambda>(j, _). hm_get (tasks_sources s) j = Some source) ids"
      using ids(3) by (intro filter_cong) (force simp: remove_source split: if_splits)+
    have tab: "table (snd (abort_ids remove source ids ?s))
        = filter (\<lambda>(j, _). \<not> (j \<in> fst ` set (x # ids) \<and> hm_get (tasks_sources s) j = Some source)) (table s)"
    proof -
      have t: "table ?s = filter (\<lambda>(k, _). i \<noteq> k) (table s)"
        by (simp add: remove_table AList.delete_eq)
      show ?thesis
        using True unfolding IH(3) unfolding t remove_source filter_filter
        by (intro filter_cong) (auto simp: x split: if_splits)
    qed
    show ?thesis
      using True ids(3) unfolding rec
      by (simp only: fst_conv snd_conv tab IH(1) [unfolded same] IH(2,4) remove_source) (simp add: x)
  qed
qed

lemma abort_matching_spec:
  fixes tid :: "'v \<Rightarrow> task_id" and t :: "task_id option" and source :: service_id and s :: syncer_state
  assumes "syncer_inv s"
  defines "s' \<equiv> snd (abort_ids remove source (matching_ids t tid (table s)) s)"
  shows "fst (abort_ids remove source (matching_ids t tid (table s)) s)
      = map (\<lambda>(i, v). tid v)
          (filter (\<lambda>(i, v). named t (tid v) \<and> hm_get (tasks_sources s) i = Some source) (table s))"
    and "syncer_inv s'"
    and "table s' = filter (\<lambda>(i, v). \<not> (named t (tid v) \<and> hm_get (tasks_sources s) i = Some source)) (table s)"
    and "j \<notin> hm_keys (table s) \<Longrightarrow> hm_get (tasks_sources s') j = hm_get (tasks_sources s) j"
proof -
  note m = matching_ids_eq [of t tid "table s"]
  have d: "distinct (map fst (table s))" using assms(1) by (rule table_covered)
  have dm: "distinct (map fst (matching_ids t tid (table s)))"
    unfolding m map_fst_pairs using d by (rule distinct_map_filter)
  have sub: "fst ` set (matching_ids t tid (table s)) \<subseteq> hm_keys (table s)"
    by (force simp: m hm_keys_def)
  note spec = abort_ids_spec [OF assms(1) dm sub, of source]
  have mem: "i \<in> fst ` set (matching_ids t tid (table s)) \<longleftrightarrow> named t (tid v)"
    if "(i, v) \<in> set (table s)" for i v
    using that d by (auto simp: m image_iff dest: eq_key_imp_eq_value intro: bexI [of _ "(i, v)"])
  from spec show "syncer_inv s'" by (simp add: s'_def)
  have "fst (abort_ids remove source (matching_ids t tid (table s)) s)
      = map snd (filter (\<lambda>(i, _). hm_get (tasks_sources s) i = Some source) (matching_ids t tid (table s)))"
    using spec by blast
  also have "\<dots> = map (\<lambda>(i, v). tid v)
          (filter (\<lambda>(i, v). named t (tid v) \<and> hm_get (tasks_sources s) i = Some source) (table s))"
    unfolding m by (rule map_snd_matching)
  finally show "fst (abort_ids remove source (matching_ids t tid (table s)) s) = \<dots>" .
  have "table s' = filter (\<lambda>(i, _). \<not> (i \<in> fst ` set (matching_ids t tid (table s))
      \<and> hm_get (tasks_sources s) i = Some source)) (table s)"
    using spec by (simp add: s'_def)
  also have "\<dots> = filter (\<lambda>(i, v). \<not> (named t (tid v) \<and> hm_get (tasks_sources s) i = Some source)) (table s)"
  proof (rule filter_cong [OF refl])
    show "(case x of (i, _) \<Rightarrow> \<not> (i \<in> fst ` set (matching_ids t tid (table s))
          \<and> hm_get (tasks_sources s) i = Some source))
        = (case x of (i, v) \<Rightarrow> \<not> (named t (tid v) \<and> hm_get (tasks_sources s) i = Some source))"
      if "x \<in> set (table s)" for x
      using that mem [of "fst x" "snd x"] by (simp add: case_prod_beta)
  qed
  finally show "table s' = filter (\<lambda>(i, v). \<not> (named t (tid v)
      \<and> hm_get (tasks_sources s) i = Some source)) (table s)" .
  show "hm_get (tasks_sources s') j = hm_get (tasks_sources s) j" if "j \<notin> hm_keys (table s)"
    using spec that sub by (auto simp: s'_def)
qed

end

lemma remove_frames:
  "addresses (remove_transaction i s) = addresses s" "addresses (remove_height i s) = addresses s"
  "addresses (remove_sweep_address i s) = addresses s"
  "transactions (remove_address i s) = transactions s" "transactions (remove_height i s) = transactions s"
  "transactions (remove_sweep_address i s) = transactions s"
  "height_tasks (remove_address i s) = height_tasks s" "height_tasks (remove_transaction i s) = height_tasks s"
  "height_tasks (remove_sweep_address i s) = height_tasks s"
  "sweep_addresses (remove_address i s) = sweep_addresses s"
  "sweep_addresses (remove_transaction i s) = sweep_addresses s"
  "sweep_addresses (remove_height i s) = sweep_addresses s"
  "fee_tasks (remove_address i s) = fee_tasks s" "fee_tasks (remove_transaction i s) = fee_tasks s"
  "fee_tasks (remove_height i s) = fee_tasks s" "fee_tasks (remove_sweep_address i s) = fee_tasks s"
  "tx_event (remove_address i s) = tx_event s" "tx_event (remove_transaction i s) = tx_event s"
  "tx_event (remove_height i s) = tx_event s" "tx_event (remove_sweep_address i s) = tx_event s"
  "receiver_dropped (remove_address i s) = receiver_dropped s"
  "receiver_dropped (remove_transaction i s) = receiver_dropped s"
  "receiver_dropped (remove_height i s) = receiver_dropped s"
  "receiver_dropped (remove_sweep_address i s) = receiver_dropped s"
  by (simp_all add: remove_transaction_def remove_address_def remove_height_def
      remove_sweep_address_def Let_def split: option.splits)

text \<open>A field that the removal leaves alone survives the loop.\<close>

lemma abort_ids_frame:
  assumes "\<And>i s. g (remove i s) = g s"
  shows "g (snd (abort_ids remove source ids s)) = g s"
proof (induction ids arbitrary: s)
  case (Cons x ids)
  then show ?case by (cases x) (simp add: assms split: prod.splits, metis assms snd_conv)
qed simp

lemma inv_unseen: "s = t\<lparr>unseen_transactions := u\<rparr> \<Longrightarrow> syncer_inv t \<Longrightarrow> syncer_inv s"
  by simp

interpretation addresses_table: task_table addresses remove_address
proof
  show "distinct (map fst (addresses s))" if "syncer_inv s" for s
    using that by (simp add: syncer_inv_def keys_distinct_def)
  show "syncer_inv (remove_address i s)" if "syncer_inv s" "i \<in> hm_keys (addresses s)" for s i
    using remove_address_eq [OF that] that(1) by (metis inv_unseen syncer_inv_forget_drop)
  show "addresses (remove_address i s) = hm_remove i (addresses s)"
    and "tasks_sources (remove_address i s) = hm_remove i (tasks_sources s)" for s i
    by (simp_all add: remove_address_def Let_def split: option.splits)
qed

interpretation transactions_table: task_table transactions remove_transaction
proof
  show "distinct (map fst (transactions s))" if "syncer_inv s" for s
    using that by (simp add: syncer_inv_def keys_distinct_def)
  show "syncer_inv (remove_transaction i s)" if "syncer_inv s" "i \<in> hm_keys (transactions s)" for s i
    using remove_transaction_eq [OF that] that(1) by (metis inv_unseen syncer_inv_forget_drop)
  show "transactions (remove_transaction i s) = hm_remove i (transactions s)"
    and "tasks_sources (remove_transaction i s) = hm_remove i (tasks_sources s)" for s i
    by (simp_all add: remove_transaction_def Let_def split: option.splits)
qed

interpretation heights_table: task_table height_tasks remove_height
proof
  show "distinct (map fst (height_tasks s))" if "syncer_inv s" for s
    using that by (simp add: syncer_inv_def keys_distinct_def)
  show "syncer_inv (remove_height i s)" if "syncer_inv s" "i \<in> hm_keys (height_tasks s)" for s i
    using remove_height_eq [OF that] that(1) by (metis inv_unseen syncer_inv_forget_drop)
  show "height_tasks (remove_height i s) = hm_remove i (height_tasks s)"
    and "tasks_sources (remove_height i s) = hm_remove i (tasks_sources s)" for s i
    by (simp_all add: remove_height_def Let_def split: option.splits)
qed

interpretation sweeps_table: task_table sweep_addresses remove_sweep_address
proof
  show "distinct (map fst (sweep_addresses s))" if "syncer_inv s" for s
    using that by (simp add: syncer_inv_def keys_distinct_def)
  show "syncer_inv (remove_sweep_address i s)" if "syncer_inv s" "i \<in> hm_keys (sweep_addresses s)" for s i
    using remove_sweep_address_eq [OF that] that(1) by (metis inv_unseen syncer_inv_forget_drop)
  show "sweep_addresses (remove_sweep_address i s) = hm_remove i (sweep_addresses s)"
    and "tasks_sources (remove_sweep_address i s) = hm_remove i (tasks_sources s)" for s i
    by (simp_all add: remove_sweep_address_def Let_def split: option.splits)
qed

section \<open>Aborting\<close>

text \<open>An entry an abort hits: it is named, and the aborting service asked for it.\<close>

definition abort_hits :: "task_target \<Rightarrow> service_id \<Rightarrow> syncer_state \<Rightarrow> internal_id \<Rightarrow> task_id \<Rightarrow> bool" where
  "abort_hits target source s i t \<longleftrightarrow>
     named (abort_target target) t \<and> hm_get (tasks_sources s) i = Some source"

definition address_tid :: "address_transactions \<Rightarrow> task_id" where
  "address_tid a = wa_id (at_task a)"

definition transaction_tid :: "watched_transaction \<Rightarrow> task_id" where
  "transaction_tid w = wt_id (wtx_task w)"

text \<open>The ids an abort reports, table by table.\<close>

definition hit_ids ::
  "task_target \<Rightarrow> service_id \<Rightarrow> syncer_state \<Rightarrow> ('v \<Rightarrow> task_id) \<Rightarrow> (internal_id, 'v) hash_map \<Rightarrow> task_id list" where
  "hit_ids target source s tid m = map (\<lambda>(i, v). tid v) (filter (\<lambda>(i, v). abort_hits target source s i (tid v)) m)"

definition survivors ::
  "task_target \<Rightarrow> service_id \<Rightarrow> syncer_state \<Rightarrow> ('v \<Rightarrow> task_id) \<Rightarrow> (internal_id, 'v) hash_map \<Rightarrow> (internal_id, 'v) hash_map" where
  "survivors target source s tid m = filter (\<lambda>(i, v). \<not> abort_hits target source s i (tid v)) m"

definition all_hits :: "task_target \<Rightarrow> service_id \<Rightarrow> syncer_state \<Rightarrow> task_id list" where
  "all_hits target source s =
     hit_ids target source s address_tid (addresses s) @ hit_ids target source s transaction_tid (transactions s)
     @ hit_ids target source s wh_id (height_tasks s) @ hit_ids target source s sa_id (sweep_addresses s)"

lemma hits_cong:
  assumes "\<And>i. i \<in> hm_keys m \<Longrightarrow> hm_get (tasks_sources s') i = hm_get (tasks_sources s) i"
  shows "hit_ids target source s' tid m = hit_ids target source s tid m"
    and "survivors target source s' tid m = survivors target source s tid m"
proof -
  have "filter (\<lambda>(i, v). abort_hits target source s' i (tid v)) m
      = filter (\<lambda>(i, v). abort_hits target source s i (tid v)) m"
    by (rule filter_cong) (auto simp: abort_hits_def assms hm_keys_memI)
  moreover have "filter (\<lambda>(i, v). \<not> abort_hits target source s' i (tid v)) m
      = filter (\<lambda>(i, v). \<not> abort_hits target source s i (tid v)) m"
    by (rule filter_cong) (auto simp: abort_hits_def assms hm_keys_memI)
  ultimately show "hit_ids target source s' tid m = hit_ids target source s tid m"
    and "survivors target source s' tid m = survivors target source s tid m"
    by (simp_all add: hit_ids_def survivors_def)
qed

lemma abort_tasks_spec:
  fixes target :: task_target and source :: service_id and s :: syncer_state
  assumes inv: "syncer_inv s"
  defines "t \<equiv> abort_target target"
  shows "fst (abort_tasks t source s) = all_hits target source s"
    and "syncer_inv (snd (abort_tasks t source s))"
    and "addresses (snd (abort_tasks t source s)) = survivors target source s address_tid (addresses s)"
    and "transactions (snd (abort_tasks t source s)) = survivors target source s transaction_tid (transactions s)"
    and "height_tasks (snd (abort_tasks t source s)) = survivors target source s wh_id (height_tasks s)"
    and "sweep_addresses (snd (abort_tasks t source s)) = survivors target source s sa_id (sweep_addresses s)"
    and "fee_tasks (snd (abort_tasks t source s)) = fee_tasks s"
    and "tx_event (snd (abort_tasks t source s)) = tx_event s"
    and "receiver_dropped (snd (abort_tasks t source s)) = receiver_dropped s"
proof -
  define r1 where "r1 = abort_ids remove_address source (matching_ids t address_tid (addresses s)) s"
  define r2 where "r2 = abort_ids remove_transaction source
    (matching_ids t transaction_tid (transactions (snd r1))) (snd r1)"
  define r3 where "r3 = abort_ids remove_height source (matching_ids t wh_id (height_tasks (snd r2))) (snd r2)"
  define r4 where "r4 = abort_ids remove_sweep_address source
    (matching_ids t sa_id (sweep_addresses (snd r3))) (snd r3)"
  have run: "abort_tasks t source s = (fst r1 @ fst r2 @ fst r3 @ fst r4, snd r4)"
    by (simp add: abort_tasks_def r1_def r2_def r3_def r4_def address_tid_def [abs_def]
        transaction_tid_def [abs_def] case_prod_beta Let_def)
  note frames = abort_ids_frame [where g = addresses] abort_ids_frame [where g = transactions]
    abort_ids_frame [where g = height_tasks] abort_ids_frame [where g = sweep_addresses]
    abort_ids_frame [where g = fee_tasks] abort_ids_frame [where g = tx_event]
    abort_ids_frame [where g = receiver_dropped]
  have f1: "transactions (snd r1) = transactions s" "height_tasks (snd r1) = height_tasks s"
      "sweep_addresses (snd r1) = sweep_addresses s" "fee_tasks (snd r1) = fee_tasks s"
      "tx_event (snd r1) = tx_event s" "receiver_dropped (snd r1) = receiver_dropped s"
    unfolding r1_def by (rule frames; simp add: remove_frames)+
  have f2: "addresses (snd r2) = addresses (snd r1)" "height_tasks (snd r2) = height_tasks s"
      "sweep_addresses (snd r2) = sweep_addresses s" "fee_tasks (snd r2) = fee_tasks s"
      "tx_event (snd r2) = tx_event s" "receiver_dropped (snd r2) = receiver_dropped s"
    unfolding r2_def f1 [symmetric] by (rule frames; simp add: remove_frames)+
  have f3: "addresses (snd r3) = addresses (snd r1)" "transactions (snd r3) = transactions (snd r2)"
      "sweep_addresses (snd r3) = sweep_addresses s" "fee_tasks (snd r3) = fee_tasks s"
      "tx_event (snd r3) = tx_event s" "receiver_dropped (snd r3) = receiver_dropped s"
    unfolding r3_def f2 [symmetric] by (rule frames; simp add: remove_frames)+
  have f4: "addresses (snd r4) = addresses (snd r1)" "transactions (snd r4) = transactions (snd r2)"
      "height_tasks (snd r4) = height_tasks (snd r3)" "fee_tasks (snd r4) = fee_tasks s"
      "tx_event (snd r4) = tx_event s" "receiver_dropped (snd r4) = receiver_dropped s"
    unfolding r4_def f3 [symmetric] by (rule frames; simp add: remove_frames)+
  note spec1 = addresses_table.abort_matching_spec [OF inv, where source = source and t = t and tid = address_tid, folded r1_def]
  note spec2 = transactions_table.abort_matching_spec [OF spec1(2), where source = source and t = t and tid = transaction_tid, folded r2_def]
  note spec3 = heights_table.abort_matching_spec [OF spec2(2), where source = source and t = t and tid = wh_id, folded r3_def]
  note spec4 = sweeps_table.abort_matching_spec [OF spec3(2), where source = source and t = t and tid = sa_id, folded r4_def]
  from inv have disj: "disjoint_tables s" by (simp add: syncer_inv_def)
  have src1: "hm_get (tasks_sources (snd r1)) i = hm_get (tasks_sources s) i" if "i \<in> hm_keys (transactions s)" for i
    using disj that by (intro spec1(4)) (auto simp: disjoint_tables_def)
  have src2: "hm_get (tasks_sources (snd r2)) i = hm_get (tasks_sources s) i" if "i \<in> hm_keys (height_tasks s)" for i
  proof -
    have "i \<notin> hm_keys (addresses s)" "i \<notin> hm_keys (transactions s)"
      using disj that by (auto simp: disjoint_tables_def)
    then show ?thesis by (simp add: spec2(4) f1 spec1(4))
  qed
  have src3: "hm_get (tasks_sources (snd r3)) i = hm_get (tasks_sources s) i" if "i \<in> hm_keys (sweep_addresses s)" for i
  proof -
    have "i \<notin> hm_keys (addresses s)" "i \<notin> hm_keys (transactions s)" "i \<notin> hm_keys (height_tasks s)"
      using disj that by (auto simp: disjoint_tables_def)
    then show ?thesis by (simp add: spec3(4) f2 spec2(4) f1 spec1(4))
  qed
  have h: "fst r1 = hit_ids target source s address_tid (addresses s)"
      "fst r2 = hit_ids target source (snd r1) transaction_tid (transactions s)"
      "fst r3 = hit_ids target source (snd r2) wh_id (height_tasks s)"
      "fst r4 = hit_ids target source (snd r3) sa_id (sweep_addresses s)"
    using spec1(1) spec2(1) spec3(1) spec4(1)
    by (simp_all add: hit_ids_def abort_hits_def t_def f1 f2 f3)
  show "fst (abort_tasks t source s) = all_hits target source s"
    by (simp add: run all_hits_def h hits_cong(1) [OF src1] hits_cong(1) [OF src2] hits_cong(1) [OF src3])
  show "syncer_inv (snd (abort_tasks t source s))"
    using spec4(2) by (simp add: run)
  have v: "addresses (snd r1) = survivors target source s address_tid (addresses s)"
      "transactions (snd r2) = survivors target source (snd r1) transaction_tid (transactions s)"
      "height_tasks (snd r3) = survivors target source (snd r2) wh_id (height_tasks s)"
      "sweep_addresses (snd r4) = survivors target source (snd r3) sa_id (sweep_addresses s)"
    using spec1(3) spec2(3) spec3(3) spec4(3)
    by (simp_all add: survivors_def abort_hits_def t_def f1 f2 f3)
  show "addresses (snd (abort_tasks t source s)) = survivors target source s address_tid (addresses s)"
    and "transactions (snd (abort_tasks t source s)) = survivors target source s transaction_tid (transactions s)"
    and "height_tasks (snd (abort_tasks t source s)) = survivors target source s wh_id (height_tasks s)"
    and "sweep_addresses (snd (abort_tasks t source s)) = survivors target source s sa_id (sweep_addresses s)"
    and "fee_tasks (snd (abort_tasks t source s)) = fee_tasks s"
    and "tx_event (snd (abort_tasks t source s)) = tx_event s"
    and "receiver_dropped (snd (abort_tasks t source s)) = receiver_dropped s"
    by (simp_all add: run f4 v hits_cong(2) [OF src1] hits_cong(2) [OF src2] hits_cong(2) [OF src3])
qed

section \<open>Adding tasks\<close>

text \<open>The counter has a next value: in a release build it wraps after \<open>2^32 - 1\<close> tasks.\<close>

definition has_next_id :: "syncer_state \<Rightarrow> bool" where
  "has_next_id s \<longleftrightarrow> task_count s < task_count s + 1"

lemma fresh_id:
  assumes "syncer_inv s" "has_next_id s"
  defines "i \<equiv> task_count s + 1"
  shows "i \<notin> hm_keys (tasks_sources s)" "i \<notin> hm_keys (addresses s)" "i \<notin> hm_keys (transactions s)"
    "i \<notin> hm_keys (height_tasks s)" "i \<notin> hm_keys (sweep_addresses s)" "i \<notin> hm_keys (fee_tasks s)"
    "\<not> expires s i l" "\<not> in_bucket s l i"
proof -
  from assms show src: "i \<notin> hm_keys (tasks_sources s)"
    by (auto simp: syncer_inv_def ids_bounded_def has_next_id_def)
  then have tables: "i \<notin> table_ids s"
    using assms(1) by (auto simp: syncer_inv_def sources_cover_def)
  then show "i \<notin> hm_keys (addresses s)" "i \<notin> hm_keys (transactions s)" "i \<notin> hm_keys (height_tasks s)"
      "i \<notin> hm_keys (sweep_addresses s)" "i \<notin> hm_keys (fee_tasks s)"
    by (simp_all add: table_ids_def)
  from tables show "\<not> expires s i l"
    using hm_keys_tables [of i s] by blast
  from assms show "\<not> in_bucket s l i"
    by (auto simp: syncer_inv_def ids_bounded_def has_next_id_def)
qed

lemma next_id_le: "has_next_id s \<Longrightarrow> j \<le> task_count s \<Longrightarrow> j \<le> task_count s + 1"
  unfolding has_next_id_def by (rule order_trans [OF _ less_imp_le])

lemma in_bucket_insert_lifetime [simp]:
  "in_bucket (insert_lifetime l i s) l' j \<longleftrightarrow> in_bucket s l' j \<or> l' = l \<and> j = i"
  by (auto simp: in_bucket_def insert_lifetime_def split: option.splits)

lemma insert_lifetime_frame [simp]:
  "addresses (insert_lifetime l i s) = addresses s"
  "transactions (insert_lifetime l i s) = transactions s"
  "height_tasks (insert_lifetime l i s) = height_tasks s"
  "sweep_addresses (insert_lifetime l i s) = sweep_addresses s"
  "fee_tasks (insert_lifetime l i s) = fee_tasks s"
  "tasks_sources (insert_lifetime l i s) = tasks_sources s"
  "task_count (insert_lifetime l i s) = task_count s"
  "tx_event (insert_lifetime l i s) = tx_event s"
  "receiver_dropped (insert_lifetime l i s) = receiver_dropped s"
  "unseen_transactions (insert_lifetime l i s) = unseen_transactions s"
  "block_height (insert_lifetime l i s) = block_height s"
  "block_hash (insert_lifetime l i s) = block_hash s"
  by (simp_all add: insert_lifetime_def)

lemma insert_lifetime_distinct [simp]:
  "distinct (map fst (lifetimes s)) \<Longrightarrow> distinct (map fst (lifetimes (insert_lifetime l i s)))"
  by (simp add: insert_lifetime_def split: option.splits)

lemma increment_frame [simp]:
  "task_count (increment s) = task_count s + 1" "block_height (increment s) = block_height s"
  "addresses (increment s) = addresses s" "transactions (increment s) = transactions s"
  "height_tasks (increment s) = height_tasks s" "sweep_addresses (increment s) = sweep_addresses s"
  "fee_tasks (increment s) = fee_tasks s" "tasks_sources (increment s) = tasks_sources s"
  "lifetimes (increment s) = lifetimes s" "tx_event (increment s) = tx_event s"
  "receiver_dropped (increment s) = receiver_dropped s"
  "unseen_transactions (increment s) = unseen_transactions s" "in_bucket (increment s) l i = in_bucket s l i"
  by (simp_all add: increment_def in_bucket_def)

lemma expires_increment [simp]: "expires (increment s) i l = expires s i l"
  by (simp add: expires_def)

lemma syncer_inv_increment:
  assumes "syncer_inv s" "has_next_id s"
  shows "syncer_inv (increment s)"
proof -
  have old: "i \<le> task_count s" if "i \<in> hm_keys (tasks_sources s) \<or> (\<exists>l. in_bucket s l i)" for i
    using assms(1) that unfolding syncer_inv_def ids_bounded_def by blast
  have "ids_bounded (increment s)"
    unfolding ids_bounded_def increment_frame using next_id_le [OF assms(2) old] by blast
  moreover have "sources_cover (increment s)" "disjoint_tables (increment s)" "keys_distinct (increment s)"
    using assms(1) by (simp_all add: syncer_inv_def sources_cover_def table_ids_def disjoint_tables_def keys_distinct_def)
  moreover have "buckets_exact (increment s)"
    using assms(1) unfolding syncer_inv_def buckets_exact_def expires_increment increment_frame by blast
  ultimately show ?thesis by (simp add: syncer_inv_def)
qed

text \<open>
  What makes a new state good: it has the old one's tasks and the fresh id in one more table, in the
  sources and, where it expires, in the lifetimes.
\<close>

lemma syncer_inv_added:
  assumes inv: "syncer_inv s" and nx: "has_next_id s"
    and src: "tasks_sources s' = hm_insert (task_count s + 1) source (tasks_sources s)"
    and cnt: "task_count s' = task_count s + 1"
    and tbl: "table_ids s' = insert (task_count s + 1) (table_ids s)"
    and dis: "disjoint_tables s'" and key: "keys_distinct s'"
    and exp: "\<And>j l. expires s' j l \<longleftrightarrow> expires s j l \<or> j = task_count s + 1 \<and> lt = Some l"
    and bkt: "\<And>j l. in_bucket s' l j \<longleftrightarrow> in_bucket s l j \<or> j = task_count s + 1 \<and> lt = Some l"
  shows "syncer_inv s'"
proof -
  have "sources_cover s'"
    using inv by (auto simp: syncer_inv_def sources_cover_def tbl src)
  moreover have "ids_bounded s'"
    using inv next_id_le [OF nx] unfolding syncer_inv_def ids_bounded_def src cnt bkt hm_keys_insert by blast
  moreover have "buckets_exact s'"
    using inv fresh_id [OF inv nx] by (auto simp: syncer_inv_def buckets_exact_def exp bkt)
  ultimately show ?thesis using dis key by (simp add: syncer_inv_def)
qed

lemma syncer_inv_add_address:
  assumes inv: "syncer_inv s" and nx: "has_next_id s" and a: "wa_lifetime (at_task a) = l"
  shows "syncer_inv ((insert_lifetime l (task_count s + 1) (increment s))
     \<lparr>tasks_sources := hm_insert (task_count s + 1) source (tasks_sources s),
      addresses := hm_insert (task_count s + 1) a (addresses s)\<rparr>)" (is "syncer_inv ?s")
proof (rule syncer_inv_added [OF inv nx, where s' = ?s and lt = "Some l" and source = source])
  note fresh = fresh_id [OF inv nx]
  show "disjoint_tables ?s"
    using inv fresh by (auto simp: syncer_inv_def disjoint_tables_def)
  show "keys_distinct ?s"
    using inv by (simp add: syncer_inv_def keys_distinct_def)
  show "expires ?s j k \<longleftrightarrow> expires s j k \<or> j = task_count s + 1 \<and> Some l = Some k" for j k
    using fresh a by (auto simp: expires_def dest: hm_get_SomeD)
  show "in_bucket ?s k j \<longleftrightarrow> in_bucket s k j \<or> j = task_count s + 1 \<and> Some l = Some k" for j k
    using in_bucket_insert_lifetime [of l "task_count s + 1" "increment s" k j] by (auto simp: in_bucket_def)
qed (simp_all add: table_ids_def)

lemma syncer_inv_add_transaction:
  assumes inv: "syncer_inv s" and nx: "has_next_id s" and a: "wt_lifetime (wtx_task a) = l"
  shows "syncer_inv ((insert_lifetime l (task_count s + 1) (increment s))
     \<lparr>tasks_sources := hm_insert (task_count s + 1) source (tasks_sources s),
      transactions := hm_insert (task_count s + 1) a (transactions s)\<rparr>)" (is "syncer_inv ?s")
proof (rule syncer_inv_added [OF inv nx, where s' = ?s and lt = "Some l" and source = source])
  note fresh = fresh_id [OF inv nx]
  show "disjoint_tables ?s"
    using inv fresh by (auto simp: syncer_inv_def disjoint_tables_def)
  show "keys_distinct ?s"
    using inv by (simp add: syncer_inv_def keys_distinct_def)
  show "expires ?s j k \<longleftrightarrow> expires s j k \<or> j = task_count s + 1 \<and> Some l = Some k" for j k
    using fresh a by (auto simp: expires_def dest: hm_get_SomeD)
  show "in_bucket ?s k j \<longleftrightarrow> in_bucket s k j \<or> j = task_count s + 1 \<and> Some l = Some k" for j k
    using in_bucket_insert_lifetime [of l "task_count s + 1" "increment s" k j] by (auto simp: in_bucket_def)
qed (simp_all add: table_ids_def)

lemma syncer_inv_add_height:
  assumes inv: "syncer_inv s" and nx: "has_next_id s" and a: "wh_lifetime a = l"
  shows "syncer_inv ((insert_lifetime l (task_count s + 1) (increment s))
     \<lparr>height_tasks := hm_insert (task_count s + 1) a (height_tasks s),
      tasks_sources := hm_insert (task_count s + 1) source (tasks_sources s)\<rparr>)" (is "syncer_inv ?s")
proof (rule syncer_inv_added [OF inv nx, where s' = ?s and lt = "Some l" and source = source])
  note fresh = fresh_id [OF inv nx]
  show "disjoint_tables ?s"
    using inv fresh by (auto simp: syncer_inv_def disjoint_tables_def)
  show "keys_distinct ?s"
    using inv by (simp add: syncer_inv_def keys_distinct_def)
  show "expires ?s j k \<longleftrightarrow> expires s j k \<or> j = task_count s + 1 \<and> Some l = Some k" for j k
    using fresh a by (auto simp: expires_def dest: hm_get_SomeD)
  show "in_bucket ?s k j \<longleftrightarrow> in_bucket s k j \<or> j = task_count s + 1 \<and> Some l = Some k" for j k
    using in_bucket_insert_lifetime [of l "task_count s + 1" "increment s" k j] by (auto simp: in_bucket_def)
qed (simp_all add: table_ids_def)

lemma syncer_inv_add_sweep:
  assumes inv: "syncer_inv s" and nx: "has_next_id s" and a: "sa_lifetime a = l"
  shows "syncer_inv ((insert_lifetime l (task_count s + 1) (increment s))
     \<lparr>sweep_addresses := hm_insert (task_count s + 1) a (sweep_addresses s),
      tasks_sources := hm_insert (task_count s + 1) source (tasks_sources s)\<rparr>)" (is "syncer_inv ?s")
proof (rule syncer_inv_added [OF inv nx, where s' = ?s and lt = "Some l" and source = source])
  note fresh = fresh_id [OF inv nx]
  show "disjoint_tables ?s"
    using inv fresh by (auto simp: syncer_inv_def disjoint_tables_def)
  show "keys_distinct ?s"
    using inv by (simp add: syncer_inv_def keys_distinct_def)
  show "expires ?s j k \<longleftrightarrow> expires s j k \<or> j = task_count s + 1 \<and> Some l = Some k" for j k
    using fresh a by (auto simp: expires_def dest: hm_get_SomeD)
  show "in_bucket ?s k j \<longleftrightarrow> in_bucket s k j \<or> j = task_count s + 1 \<and> Some l = Some k" for j k
    using in_bucket_insert_lifetime [of l "task_count s + 1" "increment s" k j] by (auto simp: in_bucket_def)
qed (simp_all add: table_ids_def)

lemma syncer_inv_add_fee:
  assumes inv: "syncer_inv s" and nx: "has_next_id s"
  shows "syncer_inv ((increment s)
     \<lparr>fee_tasks := hm_insert (task_count s + 1) a (fee_tasks s),
      tasks_sources := hm_insert (task_count s + 1) source (tasks_sources s)\<rparr>)" (is "syncer_inv ?s")
proof (rule syncer_inv_added [OF inv nx, where s' = ?s and lt = None and source = source])
  note fresh = fresh_id [OF inv nx]
  show "disjoint_tables ?s"
    using inv fresh by (auto simp: syncer_inv_def disjoint_tables_def)
  show "keys_distinct ?s"
    using inv by (simp add: syncer_inv_def keys_distinct_def)
  show "expires ?s j k \<longleftrightarrow> expires s j k \<or> j = task_count s + 1 \<and> None = Some k" for j k
    by (simp add: expires_def)
  show "in_bucket ?s k j \<longleftrightarrow> in_bucket s k j \<or> j = task_count s + 1 \<and> None = Some k" for j k
    by (simp add: in_bucket_def)
qed (simp_all add: table_ids_def)

section \<open>Expiry\<close>

lemma fold_drop_task_frame [simp]:
  "task_count (fold drop_task ids s) = task_count s" "lifetimes (fold drop_task ids s) = lifetimes s"
  "tx_event (fold drop_task ids s) = tx_event s" "receiver_dropped (fold drop_task ids s) = receiver_dropped s"
  "block_height (fold drop_task ids s) = block_height s" "block_hash (fold drop_task ids s) = block_hash s"
  by (induction ids arbitrary: s) simp_all

lemma fold_drop_task_expires [simp]:
  "expires (fold drop_task ids s) j l \<longleftrightarrow> j \<notin> set ids \<and> expires s j l"
  by (induction ids arbitrary: s) auto

lemma fold_drop_task_tables:
  "addresses (fold drop_task ids s) = filter (\<lambda>(i, _). i \<notin> set ids) (addresses s)"
  "transactions (fold drop_task ids s) = filter (\<lambda>(i, _). i \<notin> set ids) (transactions s)"
  "height_tasks (fold drop_task ids s) = filter (\<lambda>(i, _). i \<notin> set ids) (height_tasks s)"
  "sweep_addresses (fold drop_task ids s) = filter (\<lambda>(i, _). i \<notin> set ids) (sweep_addresses s)"
  "fee_tasks (fold drop_task ids s) = filter (\<lambda>(i, _). i \<notin> set ids) (fee_tasks s)"
  "tasks_sources (fold drop_task ids s) = filter (\<lambda>(i, _). i \<notin> set ids) (tasks_sources s)"
  by (induction ids arbitrary: s)
    (auto simp: drop_task_def AList.delete_eq split_def intro!: filter_cong)

lemma hm_keys_filter: "hm_keys (filter (\<lambda>(i, _). P i) m) = {i \<in> hm_keys m. P i}"
  by (auto simp: hm_keys_def image_iff)

text \<open>Dropping the tasks of one height, and its entry in the lifetimes.\<close>

lemma syncer_inv_drop_lifetime:
  assumes inv: "syncer_inv s"
  shows "syncer_inv (drop_lifetime l s)"
proof (cases "hm_get (lifetimes s) l")
  case None
  with inv show ?thesis by (simp add: drop_lifetime_def)
next
  case (Some ids)
  let ?s = "fold drop_task ids (s\<lparr>lifetimes := hm_remove l (lifetimes s)\<rparr>)"
  from inv have parts: "sources_cover s" "ids_bounded s" "disjoint_tables s" "buckets_exact s" "keys_distinct s"
    by (simp_all add: syncer_inv_def)
  have bkt: "in_bucket ?s k j \<longleftrightarrow> in_bucket s k j \<and> k \<noteq> l" for k j
    by (auto simp: in_bucket_def)
  have exp: "expires ?s j k \<longleftrightarrow> j \<notin> set ids \<and> expires s j k" for j k
    by (simp add: expires_def [of "s\<lparr>lifetimes := hm_remove l (lifetimes s)\<rparr>"] expires_def [of s])
  have "sources_cover ?s"
    using parts(1) by (auto simp: sources_cover_def table_ids_def fold_drop_task_tables hm_keys_filter)
  moreover have "ids_bounded ?s"
    using parts(2) unfolding ids_bounded_def bkt by (auto simp: fold_drop_task_tables hm_keys_filter)
  moreover have "disjoint_tables ?s"
    using parts(3) by (auto simp: disjoint_tables_def fold_drop_task_tables hm_keys_filter)
  moreover have "buckets_exact ?s"
  proof -
    have "j \<in> set ids" if "in_bucket s l j" for j
      using that Some by (simp add: in_bucket_def)
    then show ?thesis
      using parts(4) unfolding buckets_exact_def bkt exp by blast
  qed
  moreover have "keys_distinct ?s"
    using parts(5) by (simp add: keys_distinct_def fold_drop_task_tables distinct_map_filter)
  ultimately show ?thesis
    using Some by (simp add: drop_lifetime_def syncer_inv_def)
qed

lemma drop_lifetime_height [simp]:
  "block_height (drop_lifetime l s) = block_height s" "block_hash (drop_lifetime l s) = block_hash s"
  "tx_event (drop_lifetime l s) = tx_event s" "receiver_dropped (drop_lifetime l s) = receiver_dropped s"
  "task_count (drop_lifetime l s) = task_count s"
  by (simp_all add: drop_lifetime_def split: option.splits)

text \<open>The loop of \<open>drop_lifetimes\<close> over a list of heights.\<close>

definition drop_expired :: "u64 list \<Rightarrow> syncer_state \<Rightarrow> syncer_state" where
  "drop_expired ls s = fold (\<lambda>lifetime s. if lifetime < block_height s then drop_lifetime lifetime s else s) ls s"

lemma drop_lifetimes_expired: "drop_lifetimes s = drop_expired (map fst (lifetimes s)) s"
  by (simp add: drop_lifetimes_def drop_expired_def)

lemma drop_expired_simps [simp]:
  "drop_expired [] s = s"
  "drop_expired (l # ls) s = drop_expired ls (if l < block_height s then drop_lifetime l s else s)"
  by (simp_all add: drop_expired_def)

lemma drop_expired_frame [simp]:
  "block_height (drop_expired ls s) = block_height s" "block_hash (drop_expired ls s) = block_hash s"
  "tx_event (drop_expired ls s) = tx_event s" "receiver_dropped (drop_expired ls s) = receiver_dropped s"
  "task_count (drop_expired ls s) = task_count s"
  by (induction ls arbitrary: s) simp_all

lemma syncer_inv_drop_expired: "syncer_inv s \<Longrightarrow> syncer_inv (drop_expired ls s)"
  by (induction ls arbitrary: s) (simp_all add: syncer_inv_drop_lifetime)

lemma syncer_inv_drop_lifetimes: "syncer_inv s \<Longrightarrow> syncer_inv (drop_lifetimes s)"
  by (simp add: drop_lifetimes_expired syncer_inv_drop_expired)

lemma drop_lifetimes_frame [simp]:
  "block_height (drop_lifetimes s) = block_height s" "block_hash (drop_lifetimes s) = block_hash s"
  "tx_event (drop_lifetimes s) = tx_event s" "receiver_dropped (drop_lifetimes s) = receiver_dropped s"
  "task_count (drop_lifetimes s) = task_count s"
  by (simp_all add: drop_lifetimes_expired)

text \<open>A table whose tasks expire: its entries know their lifetime, and the clean-up filters it.\<close>

locale expiring_table =
  fixes table :: "syncer_state \<Rightarrow> (internal_id, 'v) hash_map"
    and life :: "'v \<Rightarrow> u64"
  assumes entry_expires: "syncer_inv s \<Longrightarrow> (i, v) \<in> set (table s) \<Longrightarrow> expires s i (life v)"
    and fold_drop: "table (fold drop_task ids s) = filter (\<lambda>(i, _). i \<notin> set ids) (table s)"
    and lifetimes_frame: "table (s\<lparr>lifetimes := m\<rparr>) = table s"
begin

lemma table_drop_lifetime:
  assumes inv: "syncer_inv s"
  shows "table (drop_lifetime l s) = filter (\<lambda>(_, v). life v \<noteq> l) (table s)"
proof -
  from inv have ex: "buckets_exact s" by (simp add: syncer_inv_def)
  have mem: "in_bucket s l i \<longleftrightarrow> life v = l" if "(i, v) \<in> set (table s)" for i v
    using ex entry_expires [OF inv that] unfolding buckets_exact_def by blast
  show ?thesis
  proof (cases "hm_get (lifetimes s) l")
    case None
    then have "\<not> in_bucket s l i" for i by (simp add: in_bucket_def)
    with mem have "filter (\<lambda>(_, v). life v \<noteq> l) (table s) = table s"
      by (auto simp: filter_id_conv)
    with None show ?thesis by (simp add: drop_lifetime_def)
  next
    case (Some ids)
    then have "in_bucket s l i \<longleftrightarrow> i \<in> set ids" for i by (simp add: in_bucket_def)
    with mem Some show ?thesis
      by (auto simp: drop_lifetime_def fold_drop lifetimes_frame intro!: filter_cong)
  qed
qed

lemma table_drop_expired:
  "syncer_inv s \<Longrightarrow> table (drop_expired ls s)
     = filter (\<lambda>(_, v). \<not> (life v \<in> set ls \<and> life v < block_height s)) (table s)"
proof (induction ls arbitrary: s)
  case Nil
  then show ?case by (simp add: case_prod_beta)
next
  case (Cons l ls)
  show ?case
  proof (cases "l < block_height s")
    case True
    then show ?thesis
      using Cons.IH [OF syncer_inv_drop_lifetime [OF Cons.prems, of l]] Cons.prems
      by (auto simp: table_drop_lifetime intro!: filter_cong)
  next
    case False
    then show ?thesis
      using Cons.IH [OF Cons.prems] by (auto intro!: filter_cong)
  qed
qed

lemma table_drop_lifetimes:
  assumes inv: "syncer_inv s"
  shows "table (drop_lifetimes s) = filter (\<lambda>(_, v). block_height s \<le> life v) (table s)"
proof -
  have "life v \<in> set (map fst (lifetimes s))" if "(i, v) \<in> set (table s)" for i v
  proof -
    from inv entry_expires [OF inv that] have "in_bucket s (life v) i"
      by (simp add: syncer_inv_def buckets_exact_def)
    then show ?thesis by (force simp: in_bucket_def dest: map_of_SomeD)
  qed
  then show ?thesis
    unfolding drop_lifetimes_expired table_drop_expired [OF inv]
    by (intro filter_cong) (auto simp: not_less)
qed

end

interpretation expiring_addresses: expiring_table addresses "\<lambda>a. wa_lifetime (at_task a)"
  by unfold_locales (simp_all add: fold_drop_task_tables expires_def syncer_inv_def keys_distinct_def)

interpretation expiring_transactions: expiring_table transactions "\<lambda>w. wt_lifetime (wtx_task w)"
  by unfold_locales (simp_all add: fold_drop_task_tables expires_def syncer_inv_def keys_distinct_def)

interpretation expiring_heights: expiring_table height_tasks wh_lifetime
  by unfold_locales (simp_all add: fold_drop_task_tables expires_def syncer_inv_def keys_distinct_def)

interpretation expiring_sweeps: expiring_table sweep_addresses sa_lifetime
  by unfold_locales (simp_all add: fold_drop_task_tables expires_def syncer_inv_def keys_distinct_def)

section \<open>Every operation keeps the invariant and returns\<close>

text \<open>A syncer that is served: the invariant holds and the runtime still reads its events.\<close>

definition served :: "syncer_state \<Rightarrow> bool" where
  "served s \<longleftrightarrow> syncer_inv s \<and> \<not> receiver_dropped s"

definition no_failure :: "('e, unit) result \<Rightarrow> 's \<Rightarrow> bool" where
  "no_failure r s \<longleftrightarrow> False"

lemma no_failure_simp [simp]: "\<not> no_failure r s"
  by (simp add: no_failure_def)

lemma wp_send_event [wp_simps]:
  "\<not> receiver_dropped s \<Longrightarrow> wp (send_event evs) Q E s
     = Q () (s\<lparr>tx_event := tx_event s @ map (\<lambda>(e, source). BridgeEvent e source) evs\<rparr>)"
  by (simp add: wp_def send_event_def)

lemma served_tx_event [simp]: "served (s\<lparr>tx_event := a\<rparr>) = served s"
  by (simp add: served_def)

lemma receiver_forwarded [simp]: "receiver_dropped (s\<lparr>tx_event := a\<rparr>) = receiver_dropped s"
  by simp

lemma source_of_covered:
  assumes "syncer_inv s" "i \<in> table_ids s"
  obtains source where "hm_get (tasks_sources s) i = Some source"
  using assms by (auto simp: syncer_inv_def sources_cover_def elim: hm_keysE)

lemma add_lifetime_cases:
  "add_lifetime l i s = (Err (FarcasterErr (Fmt ''task lifetime expired'' [])), s) \<and> l < block_height s
   \<or> add_lifetime l i s = (Ok (), insert_lifetime l i s) \<and> block_height s \<le> l"
  by (auto simp: add_lifetime_def not_less)

lemma served_watch_address:
  assumes "served s" "has_next_id s"
  shows "served (watch_address task source s)"
  using assms add_lifetime_cases [of "wa_lifetime task" "task_count s + 1" "increment s"]
    syncer_inv_add_address [of s "\<lparr>at_task = task, known_txs = [], subscribed = False, initial_check_done = False\<rparr>"
      "wa_lifetime task" source]
  by (auto simp: served_def watch_address_def syncer_inv_increment Let_def)

lemma served_watch_transaction:
  assumes "served s" "has_next_id s"
  shows "served (watch_transaction task source s)"
  using assms add_lifetime_cases [of "wt_lifetime task" "task_count s + 1" "increment s"]
    syncer_inv_add_transaction [of s "WatchedTransaction task (TransactionConfirmations (wt_id task) [] None [])"
      "wt_lifetime task" source]
  by (auto simp: served_def watch_transaction_def syncer_inv_increment Let_def)

lemma served_sweep_address:
  assumes "served s" "has_next_id s"
  shows "served (sweep_address task source s)"
  using assms syncer_inv_add_sweep [of s task "sa_lifetime task" source]
  by (simp add: served_def sweep_address_def Let_def)

lemma served_watch_height:
  assumes "served s" "has_next_id s"
  shows "wp (watch_height task source) (\<lambda>_. served) no_failure s"
  using assms add_lifetime_cases [of "wh_lifetime task" "task_count s + 1" "increment s"]
    syncer_inv_add_height [of s task "wh_lifetime task" source]
  by (auto simp: served_def watch_height_def syncer_inv_increment wp_simps)

lemma served_estimate_fee:
  assumes "served s" "has_next_id s"
  shows "wp (estimate_fee task source) (\<lambda>_. served) no_failure s"
  using assms syncer_inv_add_fee [of s source task]
  by (auto simp: served_def estimate_fee_def wp_simps split: option.splits)

text \<open>What a clean-up leaves keeps its source.\<close>

lemma hm_get_filter_key: "hm_get (filter (\<lambda>(i, _). P i) m) k = (if P k then hm_get m k else None)"
  by (induction m) auto

lemma drop_lifetime_source:
  "hm_get (tasks_sources (drop_lifetime l s)) i = Some x \<Longrightarrow> hm_get (tasks_sources s) i = Some x"
  by (simp add: drop_lifetime_def fold_drop_task_tables hm_get_filter_key split: option.splits if_splits)

lemma drop_expired_source:
  "hm_get (tasks_sources (drop_expired ls s)) i = Some x \<Longrightarrow> hm_get (tasks_sources s) i = Some x"
  by (induction ls arbitrary: s) (fastforce dest: drop_lifetime_source split: if_splits)+

lemma drop_lifetimes_source:
  assumes "syncer_inv s" "i \<in> table_ids (drop_lifetimes s)"
  shows "hm_get (tasks_sources (drop_lifetimes s)) i = hm_get (tasks_sources s) i"
    and "hm_get (tasks_sources s) i \<noteq> None"
proof -
  obtain x where x: "hm_get (tasks_sources (drop_lifetimes s)) i = Some x"
    using source_of_covered [OF syncer_inv_drop_lifetimes [OF assms(1)] assms(2)] by blast
  then have "hm_get (tasks_sources s) i = Some x"
    unfolding drop_lifetimes_expired by (rule drop_expired_source)
  with x show "hm_get (tasks_sources (drop_lifetimes s)) i = hm_get (tasks_sources s) i"
    and "hm_get (tasks_sources s) i \<noteq> None" by simp_all
qed

text \<open>Telling every task of a list, each at its source.\<close>

definition owner :: "syncer_state \<Rightarrow> internal_id \<Rightarrow> service_id" where
  "owner s i = the (hm_get (tasks_sources s) i)"

lemma for_each_notify:
  assumes "\<not> receiver_dropped s"
    and "\<forall>(i, t) \<in> set tasks. f i = Ok (src i)"
  shows "for_each tasks (\<lambda>(i, t). bind (lift_res (f i)) (\<lambda>source. send_event [(ev t, source)])) s
       = (Ok (), s\<lparr>tx_event := tx_event s @ map (\<lambda>(i, t). BridgeEvent (ev t) (src i)) tasks\<rparr>)"
  using assms
proof (induction tasks arbitrary: s)
  case Nil
  then show ?case by (simp add: skip_def ret_def)
next
  case (Cons x tasks)
  obtain i t where x: "x = (i, t)" by (cases x)
  have "bind (lift_res (f i)) (\<lambda>source. send_event [(ev t, source)]) s
      = (Ok (), s\<lparr>tx_event := tx_event s @ [BridgeEvent (ev t) (src i)]\<rparr>)"
    using Cons.prems by (simp add: x bind_def lift_res_def send_event_def)
  moreover have "for_each tasks (\<lambda>(i, t). bind (lift_res (f i)) (\<lambda>source. send_event [(ev t, source)]))
      (s\<lparr>tx_event := tx_event s @ [BridgeEvent (ev t) (src i)]\<rparr>)
      = (Ok (), s\<lparr>tx_event := tx_event s @ BridgeEvent (ev t) (src i)
            # map (\<lambda>(i, t). BridgeEvent (ev t) (src i)) tasks\<rparr>)"
    using Cons.IH [of "s\<lparr>tx_event := tx_event s @ [BridgeEvent (ev t) (src i)]\<rparr>"]
      Cons.prems by simp
  ultimately show ?case
    by (simp add: x run_bind_Ok)
qed

lemma table_ids_memI:
  "(i, v1) \<in> set (height_tasks s) \<Longrightarrow> i \<in> table_ids s" "(i, v2) \<in> set (fee_tasks s) \<Longrightarrow> i \<in> table_ids s"
  "(i, v3) \<in> set (addresses s) \<Longrightarrow> i \<in> table_ids s" "(i, v4) \<in> set (transactions s) \<Longrightarrow> i \<in> table_ids s"
  "(i, v5) \<in> set (sweep_addresses s) \<Longrightarrow> i \<in> table_ids s"
  by (auto simp: table_ids_def dest: hm_keys_memI)

lemma source_of_owner:
  assumes "syncer_inv s" "i \<in> table_ids s"
  shows "source_of msg i s = Ok (owner s i)"
  by (rule source_of_covered [OF assms]) (simp add: source_of_def owner_def)

lemma handle_change_height_frame [simp]:
  "tx_event (handle_change_height h b s) = tx_event s"
  "receiver_dropped (handle_change_height h b s) = receiver_dropped s"
  "height_tasks (handle_change_height h b s) = height_tasks s"
  "tasks_sources (handle_change_height h b s) = tasks_sources s"
  "task_count (handle_change_height h b s) = task_count s"
  "syncer_inv (handle_change_height h b s) = syncer_inv s"
  by (simp_all add: handle_change_height_def)

text \<open>
  The height a change leaves behind: the new one, unless the block hash did not change, which the
  code reports as unreachable and ignores.
\<close>

lemma handle_change_height_height:
  "block_height (handle_change_height h b s) = (if b \<noteq> block_hash s then h else block_height s)"
  by (auto simp: handle_change_height_def)

lemma change_height_run:
  assumes "served s" "block_height s \<noteq> h \<or> block_hash s \<noteq> b"
  defines "s1 \<equiv> drop_lifetimes (handle_change_height h b s)"
  shows "change_height h b s = (Ok True, s1\<lparr>tx_event := tx_event s @
     map (\<lambda>(i, t). BridgeEvent (HeightChangedEv (HeightChanged (wh_id t) b (block_height s1))) (owner s1 i))
       (height_tasks s1)\<rparr>)"
proof -
  from assms(1) have inv: "syncer_inv s1" and open_channel: "\<not> receiver_dropped s1"
    by (simp_all add: served_def s1_def syncer_inv_drop_lifetimes)
  have "for_each (height_tasks s1) (\<lambda>(i, task). bind (lift_res (source_of ''unwrap on None'' i s1)) (\<lambda>source.
          send_event [(HeightChangedEv (HeightChanged (wh_id task) b (block_height s1)), source)])) s1
      = (Ok (), s1\<lparr>tx_event := tx_event s1 @
          map (\<lambda>(i, t). BridgeEvent (HeightChangedEv (HeightChanged (wh_id t) b (block_height s1))) (owner s1 i))
            (height_tasks s1)\<rparr>)"
    using source_of_owner [OF inv table_ids_memI(1)] by (intro for_each_notify [OF open_channel]) auto
  then show ?thesis
    using assms(2) by (simp add: change_height_def run_simps s1_def)
qed

lemma served_drop_lifetimes: "served s \<Longrightarrow> served (drop_lifetimes s)"
  by (simp add: served_def syncer_inv_drop_lifetimes)

lemma served_change_height:
  assumes "served s"
  shows "wp (change_height h b) (\<lambda>_. served) no_failure s"
proof (cases "block_height s \<noteq> h \<or> block_hash s \<noteq> b")
  case True
  from assms have "served (drop_lifetimes (handle_change_height h b s))"
    by (intro served_drop_lifetimes) (simp add: served_def)
  then show ?thesis
    by (simp add: wp_def change_height_run [OF assms True])
next
  case False
  with assms show ?thesis by (simp add: wp_def change_height_def run_simps)
qed

lemma served_abort:
  assumes "served s"
  shows "wp (abort target source respond) (\<lambda>_. served) no_failure s"
  using assms abort_tasks_spec [of s target source]
  by (auto simp: abort_def served_def wp_simps)

subsection \<open>The passes over addresses and transactions\<close>

text \<open>A pass whose entries all return.\<close>

lemma collect_entries_Ok:
  "collect_entries f xs = Ok (ys, evs) \<longleftrightarrow>
     (\<exists>rs. map f xs = map Ok rs \<and> ys = map fst rs \<and> evs = concat (map snd rs))"
proof (induction xs arbitrary: ys evs)
  case Nil
  then show ?case by auto
next
  case (Cons x xs)
  have "collect_entries f (x # xs) = Ok (ys, evs) \<longleftrightarrow>
      (\<exists>y e ys' e'. f x = Ok (y, e) \<and> collect_entries f xs = Ok (ys', e') \<and> ys = y # ys' \<and> evs = e @ e')"
    by (auto simp: rbind_Ok_conv)
  also have "\<dots> \<longleftrightarrow> (\<exists>y e rs. f x = Ok (y, e) \<and> map f xs = map Ok rs \<and> ys = y # map fst rs
      \<and> evs = e @ concat (map snd rs))"
    by (auto simp: Cons.IH)
  also have "\<dots> \<longleftrightarrow> (\<exists>rs. map f (x # xs) = map Ok rs \<and> ys = map fst rs \<and> evs = concat (map snd rs))"
    by (force simp: map_eq_Cons_conv Cons_eq_map_conv)
  finally show ?case .
qed

lemma collect_entries_map:
  "map f xs = map Ok rs \<Longrightarrow> collect_entries f xs = Ok (map fst rs, concat (map snd rs))"
  by (auto simp: collect_entries_Ok)

text \<open>The new entry of an address and its events.\<close>

definition address_next :: "address_addendum \<Rightarrow> address_tx hash_set \<Rightarrow> address_transactions \<Rightarrow> address_transactions" where
  "address_next addendum txs a =
     (if wa_addendum (at_task a) \<noteq> addendum then a
      else if filter (\<lambda>t. t \<notin> set (known_txs a)) txs = [] \<and> \<not> initial_check_done a
      then a\<lparr>initial_check_done := True\<rparr>
      else a\<lparr>known_txs := txs, initial_check_done := True\<rparr>)"

definition address_events :: "address_addendum \<Rightarrow> address_tx hash_set \<Rightarrow> address_transactions \<Rightarrow> event list" where
  "address_events addendum txs a =
     (let news = filter (\<lambda>t. t \<notin> set (known_txs a)) txs
      in if wa_addendum (at_task a) \<noteq> addendum then []
         else if news = [] \<and> \<not> initial_check_done a then [EmptyEv (wa_id (at_task a))]
         else map (address_tx_event (wa_id (at_task a))) news)"

lemma change_address_entry_eq:
  assumes "hm_get sources i = Some source"
  shows "change_address_entry sources addendum txs (i, a)
       = Ok ((i, address_next addendum txs a), map (\<lambda>e. (e, source)) (address_events addendum txs a))"
  using assms by (simp add: change_address_entry_def address_next_def address_events_def Let_def)

lemma address_next_task [simp]: "at_task (address_next addendum txs a) = at_task a"
  by (simp add: address_next_def)

lemma change_address_run:
  assumes "served s"
  defines "s1 \<equiv> drop_lifetimes s"
  shows "change_address addendum txs s =
     (Ok (), s1\<lparr>addresses := map (\<lambda>(i, a). (i, address_next addendum txs a)) (addresses s1),
        tx_event := tx_event s @ map (\<lambda>(e, source). BridgeEvent e source) (remdups_adj
          (concat (map (\<lambda>(i, a). map (\<lambda>e. (e, owner s1 i)) (address_events addendum txs a)) (addresses s1))))\<rparr>)"
proof -
  from assms(1) have inv: "syncer_inv s1" and open_channel: "\<not> receiver_dropped s1"
    by (simp_all add: served_def s1_def syncer_inv_drop_lifetimes)
  have own: "hm_get (tasks_sources s1) i = Some (owner s1 i)" if "(i, a) \<in> set (addresses s1)" for i a
    by (rule source_of_covered [OF inv table_ids_memI(3) [OF that]]) (simp add: owner_def)
  have "map (change_address_entry (tasks_sources s1) addendum txs) (addresses s1)
      = map Ok (map (\<lambda>(i, a). ((i, address_next addendum txs a),
          map (\<lambda>e. (e, owner s1 i)) (address_events addendum txs a))) (addresses s1))"
    by (auto simp: change_address_entry_eq [OF own])
  from collect_entries_map [OF this]
  have "collect_entries (change_address_entry (tasks_sources s1) addendum txs) (addresses s1)
      = Ok (map (\<lambda>(i, a). (i, address_next addendum txs a)) (addresses s1),
          concat (map (\<lambda>(i, a). map (\<lambda>e. (e, owner s1 i)) (address_events addendum txs a)) (addresses s1)))"
    by (simp add: split_def comp_def)
  then show ?thesis
    using open_channel by (simp add: change_address_def run_simps send_event_def s1_def)
qed

lemma map_entries [simp]:
  "hm_keys (map (\<lambda>(i, a). (i, f a)) m) = hm_keys m"
  "map fst (map (\<lambda>(i, a). (i, f a)) m) = map fst m"
  by (force simp: hm_keys_def, simp add: split_def comp_def)

lemma hm_get_map_entries: "hm_get (map (\<lambda>(i, a). (i, f a)) m) k = map_option f (hm_get m k)"
  by (induction m) auto

lemma syncer_inv_addresses:
  assumes "syncer_inv s" "\<And>a. wa_lifetime (at_task (f a)) = wa_lifetime (at_task a)"
  shows "syncer_inv (s\<lparr>addresses := map (\<lambda>(i, a). (i, f a)) (addresses s)\<rparr>)" (is "syncer_inv ?s")
proof -
  have "expires ?s i l = expires s i l" for i l
    by (auto simp: expires_def hm_get_map_entries assms(2))
  moreover have "in_bucket ?s l i = in_bucket s l i" for i l
    by (simp add: in_bucket_def)
  moreover have "map fst (addresses ?s) = map fst (addresses s)"
    by auto
  ultimately show ?thesis
    using assms(1)
    by (simp add: syncer_inv_def sources_cover_def ids_bounded_def disjoint_tables_def buckets_exact_def
        keys_distinct_def table_ids_def del: map_map)
qed

lemma served_change_address:
  assumes "served s"
  shows "wp (change_address addendum txs) (\<lambda>_. served) no_failure s"
proof -
  from assms have "served (drop_lifetimes s)" by (rule served_drop_lifetimes)
  then have "served ((drop_lifetimes s)\<lparr>addresses :=
      map (\<lambda>(i, a). (i, address_next addendum txs a)) (addresses (drop_lifetimes s))\<rparr>)"
    by (simp add: served_def syncer_inv_addresses)
  then show ?thesis
    by (simp add: wp_def change_address_run [OF assms] served_def)
qed

lemma served_unsubscribe_addresses: "served s \<Longrightarrow> served (unsubscribe_addresses s)"
  by (simp add: served_def unsubscribe_addresses_def syncer_inv_addresses)

lemma served_address_subscribed: "served s \<Longrightarrow> served (address_subscribed i s)"
  by (simp add: served_def address_subscribed_def split: option.splits)

text \<open>The new entry of a transaction, if it stays, and its event, if there is one.\<close>

definition transaction_changed :: "bytes \<Rightarrow> u32 option \<Rightarrow> watched_transaction \<Rightarrow> bool" where
  "transaction_changed block confirmations w \<longleftrightarrow>
     confirmations \<noteq> tc_confirmations (wtx_confirmations w) \<or> block \<noteq> tc_block (wtx_confirmations w)"

definition transaction_status :: "bytes \<Rightarrow> u32 option \<Rightarrow> bytes \<Rightarrow> watched_transaction \<Rightarrow> transaction_confirmations" where
  "transaction_status block confirmations tx w =
     (if transaction_changed block confirmations w
      then TransactionConfirmations (wt_id (wtx_task w)) block confirmations (chunk_tx tx)
      else wtx_confirmations w)"

definition transaction_next ::
  "bytes \<Rightarrow> bytes \<Rightarrow> u32 option \<Rightarrow> bytes \<Rightarrow> internal_id \<times> watched_transaction \<Rightarrow> (internal_id \<times> watched_transaction) list" where
  "transaction_next tx_id block confirmations tx = (\<lambda>(i, w).
     if tx_id \<noteq> wt_hash (wtx_task w) then [(i, w)]
     else if option_ge confirmations (Some (wt_confirmation_bound (wtx_task w))) then []
     else [(i, WatchedTransaction (wtx_task w) (transaction_status block confirmations tx w))])"

definition transaction_events ::
  "bytes \<Rightarrow> bytes \<Rightarrow> u32 option \<Rightarrow> bytes \<Rightarrow> watched_transaction \<Rightarrow> event list" where
  "transaction_events tx_id block confirmations tx w =
     (if tx_id = wt_hash (wtx_task w) \<and> transaction_changed block confirmations w
      then [TransactionConfirmationsEv (transaction_status block confirmations tx w)] else [])"

lemma change_transaction_entry_eq:
  assumes "hm_get sources i = Some source"
  shows "change_transaction_entry sources tx_id block confirmations tx (i, w)
       = Ok (transaction_next tx_id block confirmations tx (i, w),
             map (\<lambda>e. (e, source)) (transaction_events tx_id block confirmations tx w))"
  using assms
  by (simp add: change_transaction_entry_def transaction_next_def transaction_events_def
      transaction_status_def transaction_changed_def Let_def)

definition block_of :: "bytes option \<Rightarrow> bytes" where
  "block_of bhash = (case bhash of Some bh \<Rightarrow> bh | None \<Rightarrow> [0])"

lemma change_transaction_run:
  assumes "served s"
  defines "s1 \<equiv> drop_lifetimes s"
  shows "change_transaction tx_id bhash confirmations tx s =
     (Ok (), s1\<lparr>
        unseen_transactions := fold (mark_unseen tx_id confirmations) (transactions s1) (unseen_transactions s1),
        transactions := concat (map (transaction_next tx_id (block_of bhash) confirmations tx) (transactions s1)),
        tx_event := tx_event s @ concat (map (\<lambda>(i, w). map (\<lambda>e. BridgeEvent e (owner s1 i))
          (transaction_events tx_id (block_of bhash) confirmations tx w)) (transactions s1))\<rparr>)"
proof -
  from assms(1) have inv: "syncer_inv s1" and open_channel: "\<not> receiver_dropped s1"
    by (simp_all add: served_def s1_def syncer_inv_drop_lifetimes)
  have own: "hm_get (tasks_sources s1) i = Some (owner s1 i)" if "(i, w) \<in> set (transactions s1)" for i w
    by (rule source_of_covered [OF inv table_ids_memI(4) [OF that]]) (simp add: owner_def)
  have "map (change_transaction_entry (tasks_sources s1) tx_id (block_of bhash) confirmations tx) (transactions s1)
      = map Ok (map (\<lambda>(i, w). (transaction_next tx_id (block_of bhash) confirmations tx (i, w),
          map (\<lambda>e. (e, owner s1 i)) (transaction_events tx_id (block_of bhash) confirmations tx w))) (transactions s1))"
    by (auto simp: change_transaction_entry_eq [OF own])
  from collect_entries_map [OF this]
  have "collect_entries (change_transaction_entry (tasks_sources s1) tx_id (block_of bhash) confirmations tx) (transactions s1)
      = Ok (map (transaction_next tx_id (block_of bhash) confirmations tx) (transactions s1),
          concat (map (\<lambda>(i, w). map (\<lambda>e. (e, owner s1 i))
            (transaction_events tx_id (block_of bhash) confirmations tx w)) (transactions s1)))"
    by (simp add: split_def comp_def)
  then show ?thesis
    using open_channel
    by (simp add: change_transaction_def run_simps send_event_def s1_def block_of_def map_concat split_def comp_def)
qed

text \<open>The pass keeps the transactions below their bound, with their tasks.\<close>

definition transaction_kept :: "bytes \<Rightarrow> u32 option \<Rightarrow> watched_transaction \<Rightarrow> bool" where
  "transaction_kept tx_id confirmations w \<longleftrightarrow>
     tx_id \<noteq> wt_hash (wtx_task w) \<or> \<not> option_ge confirmations (Some (wt_confirmation_bound (wtx_task w)))"

definition transaction_update :: "bytes \<Rightarrow> bytes \<Rightarrow> u32 option \<Rightarrow> bytes \<Rightarrow> watched_transaction \<Rightarrow> watched_transaction" where
  "transaction_update tx_id block confirmations tx w =
     (if tx_id \<noteq> wt_hash (wtx_task w) then w
      else WatchedTransaction (wtx_task w) (transaction_status block confirmations tx w))"

lemma transaction_update_task [simp]: "wtx_task (transaction_update tx_id block confirmations tx w) = wtx_task w"
  by (simp add: transaction_update_def)

lemma transactions_next_eq:
  "concat (map (transaction_next tx_id block confirmations tx) m)
     = map (\<lambda>(i, w). (i, transaction_update tx_id block confirmations tx w))
         (filter (\<lambda>(i, w). transaction_kept tx_id confirmations w) m)"
  by (induction m)
    (auto simp: transaction_next_def transaction_kept_def transaction_update_def)

lemma hm_get_filter_sub:
  assumes "distinct (map fst m)"
  shows "hm_get (filter P m) k = Some v \<longleftrightarrow> hm_get m k = Some v \<and> P (k, v)"
proof -
  have "distinct (map fst (filter P m))" using assms by (rule distinct_map_filter)
  then show ?thesis using assms by auto
qed

lemma syncer_inv_transactions:
  assumes inv: "syncer_inv s" and same: "\<And>w. wtx_task (f w) = wtx_task w"
  shows "syncer_inv (s\<lparr>transactions := map (\<lambda>(i, w). (i, f w)) (filter P (transactions s))\<rparr>)" (is "syncer_inv ?s")
proof -
  from inv have d: "distinct (map fst (transactions s))" by (simp add: syncer_inv_def keys_distinct_def)
  have k: "hm_keys (transactions ?s) \<subseteq> hm_keys (transactions s)"
    by (force simp: hm_keys_def)
  have exp: "expires s i l" if "expires ?s i l" for i l
    using that by (auto simp: expires_def hm_get_map_entries hm_get_filter_sub [OF d] same)
  have bkt: "in_bucket ?s l i = in_bucket s l i" for i l
    by (simp add: in_bucket_def)
  have "sources_cover ?s"
    using inv k by (auto simp: syncer_inv_def sources_cover_def table_ids_def)
  moreover have "ids_bounded ?s"
    using inv by (simp add: syncer_inv_def ids_bounded_def bkt)
  moreover have "disjoint_tables ?s"
    using inv k unfolding syncer_inv_def disjoint_tables_def by auto
  moreover have "buckets_exact ?s"
    using inv exp unfolding syncer_inv_def buckets_exact_def bkt by blast
  moreover have "distinct (map fst (transactions ?s))"
    using distinct_map_filter [OF d, of P] by (simp add: split_def comp_def)
  then have "keys_distinct ?s"
    using inv by (simp add: syncer_inv_def keys_distinct_def)
  ultimately show ?thesis by (simp add: syncer_inv_def)
qed

lemma served_change_transaction:
  assumes "served s"
  shows "wp (change_transaction tx_id bhash confirmations tx) (\<lambda>_. served) no_failure s"
proof -
  from assms have inv: "syncer_inv ((drop_lifetimes s)\<lparr>unseen_transactions := u\<rparr>)"
      "\<not> receiver_dropped (drop_lifetimes s)" for u
    using served_drop_lifetimes [OF assms] by (simp_all add: served_def)
  from syncer_inv_transactions [OF inv(1)] inv(2) show ?thesis
    by (simp add: wp_def change_transaction_run [OF assms] transactions_next_eq served_def)
qed

lemma served_finish_sweep:
  assumes "served s" "hm_get (sweep_addresses s) i = Some w"
  shows "served (finish_sweep i w s)"
  using assms finish_sweep_eq [of s i w] by (simp add: served_def syncer_inv_forget_drop)

lemma finish_sweep_tx_event: "finish_sweep i w (s\<lparr>tx_event := a\<rparr>) = (finish_sweep i w s)\<lparr>tx_event := a\<rparr>"
  by (simp add: finish_sweep_def forget_lifetime_def Let_def split: option.splits)

lemma sweep_source:
  assumes "served s" "hm_get (sweep_addresses s) i = Some w"
  shows "source_of msg i s = Ok (owner s i)"
  using assms source_of_owner [of s i msg] by (auto simp: served_def table_ids_def dest: hm_get_SomeD)

lemma success_sweep_run:
  assumes "served s"
  shows "success_sweep i txids s = (Ok (), case hm_get (sweep_addresses s) i of None \<Rightarrow> s
     | Some w \<Rightarrow> (finish_sweep i w s)\<lparr>tx_event := tx_event s @
          [BridgeEvent (SweepSuccessEv (SweepSuccess (sa_id w) txids)) (owner s i)]\<rparr>)"
  using assms sweep_source [OF assms]
  by (auto simp: success_sweep_def run_simps send_event_def served_def finish_sweep_tx_event split: option.splits)

lemma fail_sweep_run:
  assumes "served s"
  shows "fail_sweep i s = (Ok (), case hm_get (sweep_addresses s) i of None \<Rightarrow> s
     | Some w \<Rightarrow> (finish_sweep i w s)\<lparr>tx_event := tx_event s @
          [BridgeEvent (TaskAbortedEv (TaskAborted [sa_id w]
             (Some (Fmt ''Sweep failed, did not find any assets associated with the address'' [])))) (owner s i)]\<rparr>)"
  using assms sweep_source [OF assms]
  by (auto simp: fail_sweep_def run_simps send_event_def served_def finish_sweep_tx_event split: option.splits)

lemma fee_estimated_run:
  assumes "served s"
  shows "fee_estimated est s = (Ok (), drop_lifetimes (if fee_estimate s = Some est then s
     else s\<lparr>tx_event := tx_event s @ map (\<lambda>(i, t). BridgeEvent (FeeEstimationEv (FeeEstimation (we_id t) est))
            (owner s i)) (fee_tasks s), fee_estimate := Some est\<rparr>))"
proof -
  from assms have inv: "syncer_inv s" and open_channel: "\<not> receiver_dropped s" by (simp_all add: served_def)
  have "for_each (fee_tasks s) (\<lambda>(i, task). bind (lift_res (source_of ''unwrap on None'' i s)) (\<lambda>source.
          send_event [(FeeEstimationEv (FeeEstimation (we_id task) est), source)])) s
      = (Ok (), s\<lparr>tx_event := tx_event s @
          map (\<lambda>(i, t). BridgeEvent (FeeEstimationEv (FeeEstimation (we_id t) est)) (owner s i)) (fee_tasks s)\<rparr>)"
    using source_of_owner [OF inv table_ids_memI(2)] by (intro for_each_notify [OF open_channel]) auto
  then show ?thesis by (simp add: fee_estimated_def run_simps)
qed

section \<open>The life of a syncer state\<close>

text \<open>
  The states a syncer can be in while its events are read: from the new state, by any operation.
  Adding a task needs a next id.
\<close>

inductive syncer_reach :: "syncer_state \<Rightarrow> bool" where
  new: "syncer_reach (new_syncer_state b)"
| abort: "syncer_reach s \<Longrightarrow> abort target source respond s = (r, s') \<Longrightarrow> syncer_reach s'"
| watch_height: "syncer_reach s \<Longrightarrow> has_next_id s \<Longrightarrow> SyncerState.watch_height wh source s = (r, s') \<Longrightarrow> syncer_reach s'"
| watch_address: "syncer_reach s \<Longrightarrow> has_next_id s \<Longrightarrow> syncer_reach (SyncerState.watch_address wa source s)"
| address_subscribed: "syncer_reach s \<Longrightarrow> syncer_reach (address_subscribed i s)"
| unsubscribe_addresses: "syncer_reach s \<Longrightarrow> syncer_reach (unsubscribe_addresses s)"
| watch_transaction: "syncer_reach s \<Longrightarrow> has_next_id s \<Longrightarrow> syncer_reach (SyncerState.watch_transaction wt source s)"
| estimate_fee: "syncer_reach s \<Longrightarrow> has_next_id s \<Longrightarrow> estimate_fee we source s = (r, s') \<Longrightarrow> syncer_reach s'"
| sweep_address: "syncer_reach s \<Longrightarrow> has_next_id s \<Longrightarrow> syncer_reach (SyncerState.sweep_address sw source s)"
| change_height: "syncer_reach s \<Longrightarrow> change_height h b s = (r', s') \<Longrightarrow> syncer_reach s'"
| change_address: "syncer_reach s \<Longrightarrow> change_address addendum txs s = (r, s') \<Longrightarrow> syncer_reach s'"
| change_transaction: "syncer_reach s \<Longrightarrow> change_transaction tx_id bhash confs tx s = (r, s') \<Longrightarrow> syncer_reach s'"
| success_sweep: "syncer_reach s \<Longrightarrow> success_sweep i txids s = (r, s') \<Longrightarrow> syncer_reach s'"
| fail_sweep: "syncer_reach s \<Longrightarrow> fail_sweep i s = (r, s') \<Longrightarrow> syncer_reach s'"
| fee_estimated: "syncer_reach s \<Longrightarrow> fee_estimated est s = (r, s') \<Longrightarrow> syncer_reach s'"
| health_result: "syncer_reach s \<Longrightarrow> send_health_result tid hl source s = (r, s') \<Longrightarrow> syncer_reach s'"

lemma wp_total_state: "wp m (\<lambda>_. Q) no_failure s \<Longrightarrow> m s = (r, s') \<Longrightarrow> Q s'"
  by (simp add: wp_def split: result.splits)

lemma wp_total_result: "wp m (\<lambda>_. Q) no_failure s \<Longrightarrow> \<exists>x. fst (m s) = Ok x"
  by (simp add: wp_def split: prod.splits result.splits)

lemma served_sweeps:
  assumes "served s"
  shows "wp (success_sweep i txids) (\<lambda>_. served) no_failure s"
    and "wp (fail_sweep i) (\<lambda>_. served) no_failure s"
    and "wp (fee_estimated est) (\<lambda>_. served) no_failure s"
proof -
  show "wp (success_sweep i txids) (\<lambda>_. served) no_failure s" and "wp (fail_sweep i) (\<lambda>_. served) no_failure s"
    using assms served_finish_sweep [OF assms]
    by (simp_all add: wp_def success_sweep_run [OF assms] fail_sweep_run [OF assms] split: option.splits)
  have "served (s\<lparr>tx_event := a, fee_estimate := e\<rparr>)" for a e
    using assms by (simp add: served_def)
  with assms show "wp (fee_estimated est) (\<lambda>_. served) no_failure s"
    by (simp add: wp_def fee_estimated_run [OF assms] served_drop_lifetimes)
qed

lemma syncer_reach_served: "syncer_reach s \<Longrightarrow> served s"
proof (induction rule: syncer_reach.induct)
  case (new b)
  then show ?case by (simp add: served_def syncer_inv_new) (simp add: new_syncer_state_def)
next
  case (health_result s tid hl source r s')
  then show ?case by (auto simp: send_health_result_def send_event_def served_def)
next
  case abort
  show ?case by (rule served_abort [OF abort.IH, THEN wp_total_state, OF abort.hyps(2)])
next
  case watch_height
  show ?case by (rule served_watch_height [OF watch_height.IH watch_height.hyps(2), THEN wp_total_state, OF watch_height.hyps(3)])
next
  case estimate_fee
  show ?case by (rule served_estimate_fee [OF estimate_fee.IH estimate_fee.hyps(2), THEN wp_total_state, OF estimate_fee.hyps(3)])
next
  case change_height
  show ?case by (rule served_change_height [OF change_height.IH, THEN wp_total_state, OF change_height.hyps(2)])
next
  case change_address
  show ?case by (rule served_change_address [OF change_address.IH, THEN wp_total_state, OF change_address.hyps(2)])
next
  case change_transaction
  show ?case by (rule served_change_transaction [OF change_transaction.IH, THEN wp_total_state, OF change_transaction.hyps(2)])
next
  case success_sweep
  show ?case by (rule served_sweeps(1) [OF success_sweep.IH, THEN wp_total_state, OF success_sweep.hyps(2)])
next
  case fail_sweep
  show ?case by (rule served_sweeps(2) [OF fail_sweep.IH, THEN wp_total_state, OF fail_sweep.hyps(2)])
next
  case fee_estimated
  show ?case by (rule served_sweeps(3) [OF fee_estimated.IH, THEN wp_total_state, OF fee_estimated.hyps(2)])
qed (simp_all add: served_watch_address served_watch_transaction served_sweep_address
    served_address_subscribed served_unsubscribe_addresses)

lemma served_results:
  assumes "served s"
  shows "fst (SyncerState.watch_height wh source s) = Ok ()"
    and "fst (estimate_fee we source s) = Ok ()"
    and "fst (send_health_result tid health source s) = Ok ()"
proof -
  from assms have forwards: "\<not> receiver_dropped s" by (simp add: served_def)
  have "wp (SyncerState.watch_height wh source) (\<lambda>_ _. True) no_failure s"
    using forwards add_lifetime_cases [of "wh_lifetime wh" "task_count s + 1" "increment s"]
    by (auto simp: SyncerState.watch_height_def wp_simps)
  from wp_total_result [OF this] show "fst (SyncerState.watch_height wh source s) = Ok ()" by simp
  have "wp (estimate_fee we source) (\<lambda>_ _. True) no_failure s"
    using forwards by (auto simp: estimate_fee_def wp_simps split: option.splits)
  from wp_total_result [OF this] show "fst (estimate_fee we source s) = Ok ()" by simp
  have "wp (send_health_result tid health source) (\<lambda>_ _. True) no_failure s"
    using forwards by (simp add: send_health_result_def wp_simps)
  from wp_total_result [OF this] show "fst (send_health_result tid health source s) = Ok ()" by simp
qed

text \<open>
  Property C2 (invariant): a syncer never panics: in every state it can reach while its events are read and while ids of
  tasks last (its counter wraps at \<open>2^32\<close>; a state is reached by additions made below that),
  whatever the client asks and whatever the chain shows, each operation that can fail at all
  returns normally; no lookup of a task's source fails, and the tables, the sources and the
  lifetimes stay consistent. The operations not named here (watching an address or a transaction,
  adding a sweep, marking or unmarking a subscription) have no failing branch in the code.
\<close>

theorem syncer_never_panics:
  assumes "syncer_reach s"
  shows "syncer_inv s
    \<and> fst (SyncerState.watch_height wh source s) = Ok ()
    \<and> fst (estimate_fee we source s) = Ok ()
    \<and> fst (abort target source respond s) = Ok ()
    \<and> (\<exists>changed. fst (change_height h b s) = Ok changed)
    \<and> fst (change_address addendum txs s) = Ok ()
    \<and> fst (change_transaction tx_id bhash confs tx s) = Ok ()
    \<and> fst (success_sweep i txids s) = Ok () \<and> fst (fail_sweep i s) = Ok ()
    \<and> fst (fee_estimated est s) = Ok ()
    \<and> fst (send_health_result tid health source s) = Ok ()"
proof -
  from assms have s: "served s" by (rule syncer_reach_served)
  then have "syncer_inv s" by (simp add: served_def)
  moreover have "\<exists>changed. fst (change_height h b s) = Ok changed"
    by (rule wp_total_result [OF served_change_height [OF s]])
  moreover have "fst (abort target source respond s) = Ok ()"
    using wp_total_result [OF served_abort [OF s, of target source respond]] by simp
  ultimately show ?thesis
    by (simp add: change_address_run [OF s] change_transaction_run [OF s] success_sweep_run [OF s]
        fail_sweep_run [OF s] fee_estimated_run [OF s] served_results [OF s])
qed

text \<open>A syncer that two services use: one height task and two transactions.\<close>

definition busy_syncer :: syncer_state where
  "busy_syncer =
     SyncerState.watch_transaction (WatchTransaction (TaskId 2) 50 [7] 3) (Swap 2)
      (SyncerState.watch_transaction (WatchTransaction (TaskId 1) 90 [7] 6) (Swap 1)
        (snd (SyncerState.watch_height (WatchHeight (TaskId 1) 100) (Swap 2) (new_syncer_state Bitcoin))))"

lemma busy_syncer_reach: "syncer_reach busy_syncer"
  unfolding busy_syncer_def
proof (intro syncer_reach.watch_transaction)
  show "syncer_reach (snd (SyncerState.watch_height (WatchHeight (TaskId 1) 100) (Swap 2) (new_syncer_state Bitcoin)))"
    by (rule syncer_reach.watch_height [OF syncer_reach.new _ surjective_pairing])
      (simp add: has_next_id_def new_syncer_state_def)
qed code_simp+

theorem syncer_never_panics_witness:
  "syncer_inv busy_syncer \<and> fst (change_transaction [7] (Some [9]) (Some 3) [1, 2] busy_syncer) = Ok ()
   \<and> fst (send_health_result (TaskId 4) Healthy (Swap 1) busy_syncer) = Ok ()
   \<and> map fst (transactions busy_syncer) = [2, 3]"
proof -
  have "map fst (transactions busy_syncer) = [2, 3]" by code_simp
  then show ?thesis using syncer_never_panics [OF busy_syncer_reach] by simp
qed

text \<open>
  Property C3 (functional): an abort stops exactly the watch and sweep tasks it means to: of the tasks in the four tables
  of watched addresses, transactions and heights and of sweeps, the aborting service's own with the
  named id (or, for an abort of all, all its own) leave their tables, every other task stays; fee estimations
  are never aborted, neither by their id nor by an abort of all; and one event tells the service the ids, or that nothing was found, or nothing at all when
  it asked for no response.
\<close>

theorem abort_removes_exactly_own:
  fixes target :: task_target and source :: service_id and respond :: bool
  assumes "syncer_reach s"
  defines "s' \<equiv> snd (abort target source respond s)"
  shows "addresses s' = survivors target source s address_tid (addresses s)
    \<and> transactions s' = survivors target source s transaction_tid (transactions s)
    \<and> height_tasks s' = survivors target source s wh_id (height_tasks s)
    \<and> sweep_addresses s' = survivors target source s sa_id (sweep_addresses s)
    \<and> fee_tasks s' = fee_tasks s
    \<and> tx_event s' = tx_event s @
        (if all_hits target source s = []
         then [BridgeEvent (TaskAbortedEv (TaskAborted []
                (Some (Fmt ''abort failed, task from source {} not found'' [TService source])))) source]
         else if respond
         then [BridgeEvent (TaskAbortedEv (TaskAborted (all_hits target source s) None)) source]
         else [])"
proof -
  from assms(1) have s: "served s" by (rule syncer_reach_served)
  then have inv: "syncer_inv s" by (simp add: served_def)
  note spec = abort_tasks_spec [OF inv, of target source]
  show ?thesis
    using s by (simp add: s'_def abort_def run_simps send_event_def spec served_def)
qed

theorem abort_removes_exactly_own_witness:
  "map fst (transactions (snd (abort AllTasks (Swap 1) True busy_syncer))) = [3]
   \<and> map fst (height_tasks (snd (abort AllTasks (Swap 1) True busy_syncer))) = [1]"
proof -
  have "map fst (survivors AllTasks (Swap 1) busy_syncer transaction_tid (transactions busy_syncer)) = [3]"
      "map fst (survivors AllTasks (Swap 1) busy_syncer wh_id (height_tasks busy_syncer)) = [1]"
    by code_simp+
  then show ?thesis
    using abort_removes_exactly_own [OF busy_syncer_reach, of AllTasks "Swap 1" True] by simp
qed

text \<open>
  Property C4 (functional): a change of the tip prunes and notifies exactly: afterwards the tables hold the tasks whose
  lifetime has not ended at the new height and no others, and every remaining height task is told
  the new tip once, at the service that asked for it.
\<close>

theorem change_height_expires_exactly:
  fixes h :: u64 and b :: bytes
  assumes "syncer_reach s" "block_height s \<noteq> h \<or> block_hash s \<noteq> b"
  defines "s' \<equiv> snd (change_height h b s)"
  shows "addresses s' = filter (\<lambda>(_, a). block_height s' \<le> wa_lifetime (at_task a)) (addresses s)
    \<and> transactions s' = filter (\<lambda>(_, w). block_height s' \<le> wt_lifetime (wtx_task w)) (transactions s)
    \<and> height_tasks s' = filter (\<lambda>(_, w). block_height s' \<le> wh_lifetime w) (height_tasks s)
    \<and> sweep_addresses s' = filter (\<lambda>(_, w). block_height s' \<le> sa_lifetime w) (sweep_addresses s)
    \<and> tx_event s' = tx_event s @ map (\<lambda>(i, t). BridgeEvent
         (HeightChangedEv (HeightChanged (wh_id t) b (block_height s'))) (owner s i)) (height_tasks s')
    \<and> (b \<noteq> block_hash s \<longrightarrow> block_height s' = h)"
proof -
  from assms(1) have s: "served s" by (rule syncer_reach_served)
  define s0 where "s0 = handle_change_height h b s"
  have inv: "syncer_inv s0" using s by (simp add: served_def s0_def)
  have same: "addresses s0 = addresses s" "transactions s0 = transactions s" "height_tasks s0 = height_tasks s"
      "sweep_addresses s0 = sweep_addresses s" "tasks_sources s0 = tasks_sources s"
    by (simp_all add: s0_def handle_change_height_def)
  note run = change_height_run [OF s assms(2), folded s0_def]
  have own: "owner (drop_lifetimes s0) i = owner s i" if "(i, t) \<in> set (height_tasks (drop_lifetimes s0))" for i t
    using drop_lifetimes_source(1) [OF inv table_ids_memI(1) [OF that]] by (simp add: owner_def same)
  have "map (\<lambda>(i, t). BridgeEvent (HeightChangedEv (HeightChanged (wh_id t) b (block_height s0)))
          (owner (drop_lifetimes s0) i)) (height_tasks (drop_lifetimes s0))
      = map (\<lambda>(i, t). BridgeEvent (HeightChangedEv (HeightChanged (wh_id t) b (block_height s0)))
          (owner s i)) (height_tasks (drop_lifetimes s0))"
    by (auto simp: own)
  then show ?thesis
    by (simp add: s'_def run expiring_addresses.table_drop_lifetimes [OF inv]
        expiring_transactions.table_drop_lifetimes [OF inv] expiring_heights.table_drop_lifetimes [OF inv]
        expiring_sweeps.table_drop_lifetimes [OF inv] same)
      (simp add: s0_def handle_change_height_height)
qed

theorem change_height_expires_exactly_witness:
  "map fst (transactions (snd (change_height 60 [9] busy_syncer))) = [2]
   \<and> length (tx_event (snd (change_height 60 [9] busy_syncer))) = 1"
proof -
  have ne: "block_height busy_syncer \<noteq> 60 \<or> block_hash busy_syncer \<noteq> [9]" by code_simp
  have "block_hash busy_syncer \<noteq> [9]" "tx_event busy_syncer = []" by code_simp+
  moreover have "map fst (filter (\<lambda>(_, w). 60 \<le> wt_lifetime (wtx_task w)) (transactions busy_syncer)) = [2]"
      "length (filter (\<lambda>(_, w). 60 \<le> wh_lifetime w) (height_tasks busy_syncer)) = 1"
    by code_simp+
  ultimately show ?thesis
    using change_height_expires_exactly [OF busy_syncer_reach ne] by auto
qed

lemma syncer_reach_change_transaction:
  "syncer_reach s \<Longrightarrow> syncer_reach (snd (change_transaction tx_id bhash confs tx s))"
  by (rule syncer_reach.change_transaction [OF _ surjective_pairing])

lemma change_transaction_table:
  assumes "served s"
  shows "transactions (snd (change_transaction tx_id bhash confs tx s))
     = map (\<lambda>(i, w). (i, transaction_update tx_id (block_of bhash) confs tx w))
         (filter (\<lambda>(i, w). transaction_kept tx_id confs w \<and> block_height s \<le> wt_lifetime (wtx_task w)) (transactions s))"
proof -
  from assms have inv: "syncer_inv s" by (simp add: served_def)
  have both: "filter (\<lambda>(i, w). transaction_kept tx_id confs w) (filter (\<lambda>(_, w). block_height s \<le> wt_lifetime (wtx_task w)) m)
      = filter (\<lambda>(i, w). transaction_kept tx_id confs w \<and> block_height s \<le> wt_lifetime (wtx_task w)) m" for m
    by (induction m) auto
  show ?thesis
    by (simp add: change_transaction_run [OF assms] transactions_next_eq
        expiring_transactions.table_drop_lifetimes [OF inv] del: filter_filter)
      (simp only: both)
qed

lemma transaction_update_twice:
  "transaction_update tx_id block confs tx (transaction_update tx_id block confs tx w)
     = transaction_update tx_id block confs tx w"
  by (simp add: transaction_update_def transaction_status_def transaction_changed_def)

lemma transaction_events_update:
  "transaction_events tx_id block confs tx (transaction_update tx_id block confs tx w) = []"
  by (simp add: transaction_events_def transaction_update_def transaction_status_def transaction_changed_def)

lemma filter_changed_events:
  "concat (map (\<lambda>(i, w). map (\<lambda>e. f e i) (transaction_events tx_id block confs tx w)) m)
     = map (\<lambda>(i, w). f (TransactionConfirmationsEv
             (TransactionConfirmations (wt_id (wtx_task w)) block confs (chunk_tx tx))) i)
         (filter (\<lambda>(_, w). wt_hash (wtx_task w) = tx_id
            \<and> (tc_confirmations (wtx_confirmations w) \<noteq> confs \<or> tc_block (wtx_confirmations w) \<noteq> block)) m)"
proof -
  have "transaction_events tx_id block confs tx w
      = (if wt_hash (wtx_task w) = tx_id
            \<and> (tc_confirmations (wtx_confirmations w) \<noteq> confs \<or> tc_block (wtx_confirmations w) \<noteq> block)
         then [TransactionConfirmationsEv (TransactionConfirmations (wt_id (wtx_task w)) block confs (chunk_tx tx))]
         else [])" for w
    by (auto simp: transaction_events_def transaction_status_def transaction_changed_def)
  then show ?thesis by (induction m) (auto split: if_splits)
qed

lemma change_transaction_sends:
  assumes "served s"
  shows "tx_event (snd (change_transaction tx_id bhash confs tx s)) = tx_event s
     @ concat (map (\<lambda>(i, w). map (\<lambda>e. BridgeEvent e (owner s i)) (transaction_events tx_id (block_of bhash) confs tx w))
         (filter (\<lambda>(_, w). block_height s \<le> wt_lifetime (wtx_task w)) (transactions s)))"
proof -
  from assms have inv: "syncer_inv s" by (simp add: served_def)
  have own: "owner (drop_lifetimes s) i = owner s i" if "(i, w) \<in> set (transactions (drop_lifetimes s))" for i w
    using drop_lifetimes_source(1) [OF inv table_ids_memI(4) [OF that]] by (simp add: owner_def)
  have "map (\<lambda>(i, w). map (\<lambda>e. BridgeEvent e (owner (drop_lifetimes s) i)) (f w)) (transactions (drop_lifetimes s))
      = map (\<lambda>(i, w). map (\<lambda>e. BridgeEvent e (owner s i)) (f w)) (transactions (drop_lifetimes s))" for f
    by (auto simp: own)
  from arg_cong [OF this, of concat] show ?thesis
    unfolding expiring_transactions.table_drop_lifetimes [OF inv, symmetric] by (simp add: change_transaction_run [OF assms])
qed

text \<open>
  Property C5 (functional): a change of status is reported to those who watch, once. Among the watched transactions whose
  lifetime has not ended, each one with the shown hash whose confirmations or block differ from what
  was recorded is reported by one event, with the new block and confirmations, to the service that
  watches it; nothing else is sent. Their entries record the new status, those that reached their
  confirmation bound are gone, all others stay as they were. Showing the syncer the same status a
  second time sends nothing and changes no entry. The transaction sent along is the chain's, in
  pieces short enough for the encoding.
\<close>

theorem change_transaction_settles:
  fixes tx_id :: bytes and bhash :: "bytes option" and confs :: "u32 option" and tx :: bytes
  assumes "syncer_reach s"
  defines "s1 \<equiv> snd (change_transaction tx_id bhash confs tx s)"
  defines "s2 \<equiv> snd (change_transaction tx_id bhash confs tx s1)"
  defines "block \<equiv> (case bhash of Some hash \<Rightarrow> hash | None \<Rightarrow> [0])"
  defines "status \<equiv> \<lambda>w. TransactionConfirmations (wt_id (wtx_task w)) block confs (chunk_tx tx)"
  defines "changed \<equiv> \<lambda>w. wt_hash (wtx_task w) = tx_id
    \<and> (tc_confirmations (wtx_confirmations w) \<noteq> confs \<or> tc_block (wtx_confirmations w) \<noteq> block)"
  defines "live \<equiv> filter (\<lambda>(_, w). block_height s \<le> wt_lifetime (wtx_task w)) (transactions s)"
  shows "tx_event s1 = tx_event s
      @ map (\<lambda>(i, w). BridgeEvent (TransactionConfirmationsEv (status w)) (owner s i)) (filter (\<lambda>(_, w). changed w) live)
    \<and> transactions s1 = map (\<lambda>(i, w). (i, if changed w then WatchedTransaction (wtx_task w) (status w) else w))
        (filter (\<lambda>(_, w). wt_hash (wtx_task w) = tx_id \<longrightarrow>
           \<not> option_ge confs (Some (wt_confirmation_bound (wtx_task w)))) live)
    \<and> tx_event s2 = tx_event s1 \<and> transactions s2 = transactions s1
    \<and> concat (chunk_tx tx) = tx \<and> (\<forall>c \<in> set (chunk_tx tx). length c < 2 ^ 16)"
proof (intro conjI)
  from assms(1) have s: "served s" by (rule syncer_reach_served)
  have s1: "served s1"
    unfolding s1_def by (rule syncer_reach_served [OF syncer_reach_change_transaction [OF assms(1)]])
  have block: "block_of bhash = block" by (simp add: block_of_def block_def)
  let ?upd = "transaction_update tx_id block confs tx"
  show "tx_event s1 = tx_event s
      @ map (\<lambda>(i, w). BridgeEvent (TransactionConfirmationsEv (status w)) (owner s i)) (filter (\<lambda>(_, w). changed w) live)"
    unfolding s1_def change_transaction_sends [OF s] filter_changed_events
    by (simp add: block status_def changed_def live_def del: filter_filter)
  have t1: "transactions s1 = map (\<lambda>(i, w). (i, ?upd w))
      (filter (\<lambda>(i, w). transaction_kept tx_id confs w \<and> block_height s \<le> wt_lifetime (wtx_task w)) (transactions s))"
    unfolding s1_def change_transaction_table [OF s] block ..
  show "transactions s1 = map (\<lambda>(i, w). (i, if changed w then WatchedTransaction (wtx_task w) (status w) else w))
        (filter (\<lambda>(_, w). wt_hash (wtx_task w) = tx_id \<longrightarrow>
           \<not> option_ge confs (Some (wt_confirmation_bound (wtx_task w)))) live)"
    unfolding t1 live_def filter_filter
  proof (rule map_cong)
    show "filter (\<lambda>(i, w). transaction_kept tx_id confs w \<and> block_height s \<le> wt_lifetime (wtx_task w)) (transactions s)
        = filter (\<lambda>x. (case x of (_, w) \<Rightarrow> block_height s \<le> wt_lifetime (wtx_task w))
            \<and> (case x of (_, w) \<Rightarrow> wt_hash (wtx_task w) = tx_id \<longrightarrow>
                 \<not> option_ge confs (Some (wt_confirmation_bound (wtx_task w))))) (transactions s)"
      by (rule filter_cong [OF refl]) (auto simp: transaction_kept_def)
  next
    fix x :: "internal_id \<times> watched_transaction"
    show "(case x of (i, w) \<Rightarrow> (i, ?upd w))
        = (case x of (i, w) \<Rightarrow> (i, if changed w then WatchedTransaction (wtx_task w) (status w) else w))"
      by (cases x; cases "snd x")
        (auto simp: transaction_update_def transaction_status_def transaction_changed_def changed_def status_def)
  qed
  have h: "block_height s1 = block_height s"
    by (simp add: s1_def change_transaction_run [OF s])
  have kept: "transaction_kept tx_id confs w \<and> block_height s1 \<le> wt_lifetime (wtx_task w) \<and> ?upd w = w
      \<and> transaction_events tx_id block confs tx w = []" if "(i, w) \<in> set (transactions s1)" for i w
    using that unfolding t1 h
    by (auto simp: transaction_update_twice transaction_events_update transaction_kept_def)
  then have all: "filter (\<lambda>(i, w). transaction_kept tx_id confs w \<and> block_height s1 \<le> wt_lifetime (wtx_task w))
      (transactions s1) = transactions s1"
    by (auto simp: filter_id_conv)
  show "transactions s2 = transactions s1"
    unfolding s2_def change_transaction_table [OF s1] block all using kept by (auto intro!: map_idI)
  show "tx_event s2 = tx_event s1"
    unfolding s2_def change_transaction_sends [OF s1] block using kept by auto
  show "concat (chunk_tx tx) = tx" by (simp add: chunk_tx_def)
  show "\<forall>c \<in> set (chunk_tx tx). length c < 2 ^ 16"
    using slice_chunks_length [of "unat STRICT_ENCODE_MAX_ITEMS"]
    by (force simp: chunk_tx_def STRICT_ENCODE_MAX_ITEMS_def)
qed

theorem change_transaction_settles_witness:
  "tx_event (snd (change_transaction [7] None (Some 3) [1, 2] busy_syncer))
     = [BridgeEvent (TransactionConfirmationsEv (TransactionConfirmations (TaskId 1) [0] (Some 3) [[1, 2]])) (Swap 1),
        BridgeEvent (TransactionConfirmationsEv (TransactionConfirmations (TaskId 2) [0] (Some 3) [[1, 2]])) (Swap 2)]
   \<and> map fst (transactions (snd (change_transaction [7] None (Some 3) [1, 2] busy_syncer))) = [2]"
proof -
  have "block_height busy_syncer = 0" "tx_event busy_syncer = []" by code_simp+
  moreover have "chunk_tx [1, 2] = [[1, 2]]"
    by (simp add: chunk_tx_def STRICT_ENCODE_MAX_ITEMS_def take_Cons' drop_Cons')
  moreover have "transactions busy_syncer =
      [(2, WatchedTransaction (WatchTransaction (TaskId 1) 90 [7] 6) (TransactionConfirmations (TaskId 1) [] None [])),
       (3, WatchedTransaction (WatchTransaction (TaskId 2) 50 [7] 3) (TransactionConfirmations (TaskId 2) [] None []))]"
    by code_simp
  moreover have "owner busy_syncer 2 = Swap 1" "owner busy_syncer 3 = Swap 2" by code_simp+
  moreover note settles = change_transaction_settles [OF busy_syncer_reach, of "[7]" None "Some 3" "[1, 2]", simplified option.case]
  note sent = settles [THEN conjunct1] and kept = settles [THEN conjunct2, THEN conjunct1]
  ultimately show ?thesis unfolding sent kept by simp
qed

end
