(* ===== verification/SwapSends.thy ===== *)
theory SwapSends
  imports SwapFrames Examples
begin

text \<open>
  What the transitions of a swap give away: the transactions handed to the Bitcoin syncer for
  broadcast and the messages sent to the counterparty. The specification lists what a state and an
  event call for (\<open>due_broadcasts\<close>, \<open>due_messages\<close>); the locale \<open>emission\<close> carries a predicate on
  envelopes through every action that sends neither, and is interpreted with the specification.
\<close>

section \<open>What an envelope gives away\<close>

fun broadcast_bytes :: "envelope \<Rightarrow> bytes option" where
  "broadcast_bytes (Envelope SyncBus _ _ (Sync (TaskMsg (BroadcastTransactionTask b)))) = Some (bt_tx b)"
| "broadcast_bytes _ = None"

fun peer_message :: "envelope \<Rightarrow> peer_msg option" where
  "peer_message (Envelope MsgBus _ _ (P2p m)) = Some m"
| "peer_message _ = None"

text \<open>The envelopes sent between two states, each satisfying a predicate.\<close>

definition emits :: "(envelope \<Rightarrow> bool) \<Rightarrow> runtime \<Rightarrow> runtime \<Rightarrow> bool" where
  "emits P s t \<longleftrightarrow> (\<exists>new. outbox t = outbox s @ new \<and> (\<forall>e \<in> set new. P e))"

interpretation emits: frame "emits P" for P
proof
  show "emits P s s" for s by (simp add: emits_def)
  show "emits P s t \<Longrightarrow> emits P t u \<Longrightarrow> emits P s u" for s t u
    by (auto simp: emits_def)
qed

lemma emits_same_outbox [simp]: "outbox t = outbox s \<Longrightarrow> emits P s t"
  by (simp add: emits_def)

lemma outbox_on_syncer [simp]: "outbox (on_syncer f s) = outbox s"
  by (simp add: on_syncer_def)

section \<open>What a state and an event call for\<close>

fun when_ok :: "('e, 'a) result \<Rightarrow> ('a \<Rightarrow> 'b list) \<Rightarrow> 'b list" where
  "when_ok (Ok x) f = f x"
| "when_ok _ f = []"

definition stored :: "runtime \<Rightarrow> tx_label \<Rightarrow> btc_tx list" where
  "stored s l = (case hm_get (rt_txs s) l of Some tx \<Rightarrow> [tx] | None \<Rightarrow> [])"

text \<open>The stored transaction of a label, when a watched transaction has enough confirmations.\<close>

definition due_on_confs ::
  "esb_event \<Rightarrow> runtime \<Rightarrow> tx_label \<Rightarrow> (temporal_safety \<Rightarrow> u32 \<Rightarrow> bool) \<Rightarrow> tx_label \<Rightarrow> btc_tx list" where
  "due_on_confs ev s watched ripe l = (case seen_confs (ev_request ev) of
       Some (i, confs) \<Rightarrow> if watches_tx s i watched \<and> ripe (safety s) confs then stored s l else []
     | None \<Rightarrow> [])"

text \<open>Cancel when its timelock on Lock is over, Refund when Cancel is final, Punish when its timelock is over.\<close>

definition due_cancel :: "esb_event \<Rightarrow> runtime \<Rightarrow> btc_tx list" where
  "due_cancel ev s = due_on_confs ev s Lock valid_cancel Cancel"

definition due_refund :: "esb_event \<Rightarrow> runtime \<Rightarrow> btc_tx list" where
  "due_refund ev s = due_on_confs ev s Cancel (\<lambda>ts confs. final_tx ts confs Bitcoin) Refund"

definition due_punish :: "esb_event \<Rightarrow> runtime \<Rightarrow> btc_tx list" where
  "due_punish ev s = due_on_confs ev s Cancel valid_punish Punish"

text \<open>The Lock transaction, once the wallet has accepted the refund signatures of Alice.\<close>

definition due_lock :: "core \<Rightarrow> wallet \<Rightarrow> esb_event \<Rightarrow> runtime \<Rightarrow> btc_tx list" where
  "due_lock c w ev s = (case peer_request (ev_request ev) of
       Some (RefundProcedureSignaturesMsg rps) \<Rightarrow>
         when_ok (handle_refund_procedure_signatures c w rps (rt_swap_id s)) (\<lambda>(res, _). [rpr_lock_tx res])
     | _ \<Rightarrow> [])"

text \<open>
  Of the two transactions that Bob's adaptor signature gives Alice: Cancel when the last final
  confirmations of Lock allow it, Buy otherwise.
\<close>

definition due_buy :: "core \<Rightarrow> wallet \<Rightarrow> esb_event \<Rightarrow> runtime \<Rightarrow> btc_tx list" where
  "due_buy c w ev s = (case peer_request (ev_request ev) of
       Some (BuyProcedureSignatureMsg bps) \<Rightarrow>
         when_ok (handle_buy_procedure_signature c w bps (rt_swap_id s)) (\<lambda>res.
           case last_lock_confs s of
             Some confs \<Rightarrow> if valid_cancel (safety s) confs then [bpr_cancel_tx res] else [bpr_buy_tx res]
           | None \<Rightarrow> [bpr_buy_tx res])
     | _ \<Rightarrow> [])"

fun due_broadcasts :: "core \<Rightarrow> swap_state_machine \<Rightarrow> esb_event \<Rightarrow> runtime \<Rightarrow> btc_tx list" where
  "due_broadcasts c (BobFunded _ _ w) ev s = due_lock c w ev s"
| "due_broadcasts c (BobRefundProcedureSignatures _ _ _ _) ev s = due_cancel ev s"
| "due_broadcasts c (BobAccordantLock _ _ _ _) ev s = due_cancel ev s"
| "due_broadcasts c (BobAccordantLockFinal _ _ _) ev s = due_cancel ev s"
| "due_broadcasts c BobCanceled ev s = due_refund ev s"
| "due_broadcasts c (AliceCoreArbitratingSetup _ _ _) ev s = due_cancel ev s"
| "due_broadcasts c (AliceArbitratingLockFinal _ _ _) ev s = due_cancel ev s"
| "due_broadcasts c (AliceAccordantLock w) ev s = due_cancel ev s @ due_buy c w ev s"
| "due_broadcasts c (AliceCanceled _) ev s = due_cancel ev s @ due_punish ev s"
| "due_broadcasts c _ ev s = []"

text \<open>
  The messages: commitments at the start, a reveal only for the commitment of the counterparty or a
  reveal that opens it, the setup only once the exact amount has arrived, the refund signatures for a
  setup that the wallet accepts, and the signature of Buy only once the Monero lock is final.
\<close>

definition due_maker_commit_reveal :: "core \<Rightarrow> wallet \<Rightarrow> esb_event \<Rightarrow> runtime \<Rightarrow> peer_msg list" where
  "due_maker_commit_reveal c w ev s = (case peer_request (ev_request ev) of
       Some (MakerCommitMsg remote) \<Rightarrow>
         when_ok (handle_maker_commit c w remote (rt_swap_id s)) (\<lambda>(reveal, _). [RevealMsg reveal])
     | _ \<Rightarrow> [])"

definition due_reveal ::
  "(core \<Rightarrow> wallet \<Rightarrow> reveal \<Rightarrow> swap_id \<Rightarrow> (error, reveal option \<times> wallet) result)
     \<Rightarrow> core \<Rightarrow> commit \<Rightarrow> wallet \<Rightarrow> esb_event \<Rightarrow> runtime \<Rightarrow> peer_msg list" where
  "due_reveal handle_reveals c remote w ev s = (case peer_request (ev_request ev) of
       Some (RevealMsg reveal) \<Rightarrow> when_ok (validate_reveal c reveal remote) (\<lambda>_.
         when_ok (handle_reveals c w reveal (rt_swap_id s)) (\<lambda>(own, _).
           case own of Some r \<Rightarrow> [RevealMsg r] | None \<Rightarrow> []))
     | _ \<Rightarrow> [])"

definition due_setup :: "core \<Rightarrow> u64 \<Rightarrow> wallet \<Rightarrow> esb_event \<Rightarrow> runtime \<Rightarrow> peer_msg list" where
  "due_setup c required w ev s = (case seen_address_tx (ev_request ev) of
       Some (AddressTransaction i _ amount _ chunks _) \<Rightarrow>
         (case deserialize_tx (c_tx c) (concat chunks) of
            Inr tx \<Rightarrow> if watches_addr s i Funding \<and> awaiting_funding (syncer s) \<and> amount = required
              then when_ok (process_funding_tx c w (FundingTx tx)) (\<lambda>w.
                   when_ok (create_core_arb c w (rt_swap_id s)) (\<lambda>(setup, _). [CoreArbitratingSetupMsg setup]))
              else []
          | Inl _ \<Rightarrow> [])
     | None \<Rightarrow> [])"

definition due_refund_signatures :: "core \<Rightarrow> wallet \<Rightarrow> esb_event \<Rightarrow> runtime \<Rightarrow> peer_msg list" where
  "due_refund_signatures c w ev s = (case peer_request (ev_request ev) of
       Some (CoreArbitratingSetupMsg setup) \<Rightarrow>
         when_ok (handle_core_arbitrating_setup c w setup (rt_swap_id s))
           (\<lambda>(res, _). [RefundProcedureSignaturesMsg (car_refund_procedure_signatures res)])
     | _ \<Rightarrow> [])"

definition due_buy_signature :: "buy_procedure_signature \<Rightarrow> esb_event \<Rightarrow> runtime \<Rightarrow> peer_msg list" where
  "due_buy_signature bps ev s = (case seen_confs (ev_request ev) of
       Some (i, confs) \<Rightarrow> if watches_tx s i AccLock \<and> final_tx (safety s) confs Monero
         then [BuyProcedureSignatureMsg bps] else []
     | None \<Rightarrow> [])"

fun due_messages :: "core \<Rightarrow> swap_state_machine \<Rightarrow> esb_event \<Rightarrow> runtime \<Rightarrow> peer_msg list" where
  "due_messages c (BobInitTaker _ w) ev s = due_maker_commit_reveal c w ev s"
| "due_messages c (AliceInitTaker _ w) ev s = due_maker_commit_reveal c w ev s"
| "due_messages c (BobTakerMakerCommit _ remote w) ev s = due_reveal handle_alice_reveals c remote w ev s"
| "due_messages c (BobInitMaker _ remote w) ev s = due_reveal handle_alice_reveals c remote w ev s"
| "due_messages c (AliceTakerMakerCommit _ remote w) ev s = due_reveal handle_bob_reveals c remote w ev s"
| "due_messages c (AliceInitMaker _ remote w) ev s = due_reveal handle_bob_reveals c remote w ev s"
| "due_messages c (BobFeeEstimated _ required _ w) ev s = due_setup c required w ev s"
| "due_messages c (AliceReveal _ _ w) ev s = due_refund_signatures c w ev s"
| "due_messages c (BobAccordantLock _ _ _ bps) ev s = due_buy_signature bps ev s"
| "due_messages c _ ev s = []"

fun is_commit_msg :: "peer_msg \<Rightarrow> bool" where
  "is_commit_msg (TakerCommitMsg _) = True"
| "is_commit_msg (MakerCommitMsg _) = True"
| "is_commit_msg _ = False"

fun starting :: "swap_state_machine \<Rightarrow> bool" where
  "starting (StartTaker _) = True"
| "starting (StartMaker _) = True"
| "starting _ = False"

section \<open>A predicate carried through the actions\<close>

locale emission =
  fixes P :: "envelope \<Rightarrow> bool"
  assumes ordinary: "broadcast_bytes e = None \<Longrightarrow> peer_message e = None \<Longrightarrow> P e"
begin

abbreviation sends :: "'a swapd_action \<Rightarrow> bool" where
  "sends m \<equiv> keeps (emits P) m"

lemma sends_send_to: "P (Envelope bus src dest m) \<Longrightarrow> sends (send_to bus src dest m)"
  by (auto simp: keeps_def send_to_def Let_def emits_def)

lemma sends_from_self: "(\<And>me. P (Envelope bus me dest m)) \<Longrightarrow> sends (send_from_self bus dest m)"
  unfolding send_from_self_def by (rule keeps_reads) (rule sends_send_to)

lemma sends_events:
  "sends (complete_client_info ev i)" "sends (complete_client_ctl ev t)"
  "sends (complete_ctl_service ev d t)" "sends (send_ctl_service ev d t)"
  "sends (event_send_client_ctl ev d t)" "sends (send_ctl x (Ctl t))"
  unfolding event_defs send_ctl_def
  by (auto intro!: emits.keeps_intros sends_send_to sends_from_self ordinary)

lemma sends_task:
  assumes "\<And>b. t \<noteq> BroadcastTransactionTask b"
  shows "sends (send_task b t)" "sends (give_task ev b t)" "sends (send_to SyncBus src dest (Sync (TaskMsg t)))"
  using assms unfolding send_task_def give_task_def send_sync_service_def
  by (cases t; auto intro!: emits.keeps_intros sends_send_to sends_from_self ordinary)+

lemma sends_reports:
  "sends (report_progress f p)" "sends (report_progress_message f t)" "sends (report_failure f x)"
  unfolding report_progress_def report_progress_message_def report_failure_def report_with_def
  by (auto intro!: emits.keeps_intros sends_from_self ordinary)

lemma sends_with_syncer: "sends (with_syncer f)"
  unfolding with_syncer_def by (rule keeps_stateful) simp

lemma sends_give_new_task:
  assumes "\<And>s b. fst (f s) \<noteq> BroadcastTransactionTask b"
  shows "sends (give_new_task ev b f)"
proof (unfold keeps_def, rule allI)
  fix s :: runtime
  have "sends (give_task ev b (fst (f (syncer s))))" by (rule sends_task) (rule assms)
  then have "emits P (on_syncer (\<lambda>x. snd (f x)) s) (snd (give_task ev b (fst (f (syncer s))) (on_syncer (\<lambda>x. snd (f x)) s)))"
    by (simp add: keeps_def)
  then have "emits P s (snd (give_task ev b (fst (f (syncer s))) (on_syncer (\<lambda>x. snd (f x)) s)))"
    by (simp add: emits_def)
  then show "emits P s (snd (give_new_task ev b f s))"
    by (simp add: give_new_task_def bind_def with_syncer_def stateful_def)
qed

lemma not_broadcast:
  "fst (estimate_fee_btc s) \<noteq> BroadcastTransactionTask b" "fst (watch_tx_btc txid l s) \<noteq> BroadcastTransactionTask b"
  "fst (watch_tx_xmr hash l s) \<noteq> BroadcastTransactionTask b" "fst (retrieve_tx_btc txid l s) \<noteq> BroadcastTransactionTask b"
  "fst (watch_addr_btc addr l s) \<noteq> BroadcastTransactionTask b" "fst (watch_height_task c s) \<noteq> BroadcastTransactionTask b"
  "fst (watch_addr_xmr spend view l start s) \<noteq> BroadcastTransactionTask b"
  "fst (sweep_btc ba retry s) \<noteq> BroadcastTransactionTask b" "fst (sweep_xmr ma retry s) \<noteq> BroadcastTransactionTask b"
  "abort_task i \<noteq> BroadcastTransactionTask b"
  by (simp_all add: client_defs Let_def abort_task_def)

lemma sends_watch_height: "sends (watch_height b)"
proof (unfold keeps_def, rule allI)
  fix s :: runtime
  show "emits P s (snd (watch_height b s))"
    by (auto simp: watch_height_def bind_def with_syncer_def stateful_def reads_def send_to_def Let_def emits_def
        watch_height_task_def new_taskid_def ordinary)
qed

lemma sends_watch_fee: "sends watch_bitcoin_fee"
proof (unfold keeps_def, rule allI)
  fix s :: runtime
  show "emits P s (snd (watch_bitcoin_fee s))"
    by (auto simp: watch_bitcoin_fee_def bind_def with_syncer_def stateful_def reads_def send_to_def Let_def emits_def
        estimate_fee_btc_def new_taskid_def ordinary)
qed

lemma sends_updates:
  "sends (record_btc_confs i k)" "sends (set_awaiting_funding a)" "sends (insert_tx l tx)"
  "sends (remove_txs ls)" "sends set_creation_height" "sends own_swap_id" "sends (take_tx l)"
  unfolding record_btc_confs_def set_awaiting_funding_def insert_tx_def remove_txs_def
    set_creation_height_def own_swap_id_def take_tx_def
  by (auto intro!: emits.keeps_intros split: option.split)

text \<open>The two that give something away.\<close>

lemma sends_send_peer: "(\<And>me dest. P (Envelope MsgBus me dest (P2p m))) \<Longrightarrow> sends (send_peer m)"
  unfolding send_peer_def
  by (auto intro!: emits.keeps_intros sends_from_self simp: ordinary split: sum.split)

lemma sends_broadcast:
  assumes "\<And>me dest i. P (Envelope SyncBus me dest (Sync (TaskMsg (BroadcastTransactionTask
             (BroadcastTransaction i (consensus_bytes tx) None)))))"
  shows "sends (broadcast tx l)"
proof (unfold keeps_def, rule allI)
  fix s :: runtime
  show "emits P s (snd (broadcast tx l s))"
    using assms
    by (auto simp: broadcast_def bind_def with_syncer_def stateful_def send_task_def reads_def
        send_from_self_def send_to_def Let_def emits_def broadcast_task_def new_taskid_def)
qed

lemma sends_checkpoint: "sends (checkpoint_state c m sm)"
  unfolding checkpoint_state_def by (intro emits.keeps_intros sends_from_self ordinary) simp_all

lemmas sends_steps = sends_events sends_task [of "AbortTask _", simplified] sends_reports sends_with_syncer
  sends_give_new_task not_broadcast sends_watch_height sends_watch_fee sends_updates sends_checkpoint

lemma sends_or_report_failure: "sends m \<Longrightarrow> sends (or_report_failure m)"
  unfolding or_report_failure_def by (auto intro!: emits.keeps_intros sends_reports split: sum.split)

lemma sends_sweep_task: "sends (give_task ev b (SweepAddressTask x))" "sends (give_task ev b (abort_task i))"
  by (rule sends_task; simp add: abort_task_def)+

lemma sends_ask_bob: "sends (ask_bob_to_fund fee addr)"
  unfolding ask_bob_to_fund_def by (auto intro!: emits.keeps_intros sends_updates sends_from_self ordinary)

lemma sends_commits: "sends (taker_commit c ps)" "sends (maker_commit c sid ps)"
  unfolding taker_commit_def maker_commit_def by (intro emits.keeps_intros sends_steps)+

lemma sends_wallet:
  "sends (bob_setup c d btc km sid)" "sends (new_taker c d btc xmr km sid)"
  "sends (new_maker c d btc xmr km sid rc)" "sends (process_buy_tx c w tx sid h)"
  "sends (process_refund_tx c w tx sid h)"
proof -
  show bob: "sends (bob_setup c d btc km sid)" for d btc km sid
    unfolding bob_setup_def by (auto simp: Let_def intro!: emits.keeps_intros sends_send_to ordinary)
  show "sends (new_taker c d btc xmr km sid)" "sends (new_maker c d btc xmr km sid rc)"
    unfolding new_taker_def new_maker_def
    by (auto simp: Let_def intro!: emits.keeps_intros bob split: swap_role.split commit.split)
  have key: "sends (register_monero_key c net view spend sid h)" for net view spend
    unfolding register_monero_key_def by (rule sends_send_to) (simp add: ordinary)
  show "sends (process_buy_tx c w tx sid h)" "sends (process_refund_tx c w tx sid h)"
    unfolding process_buy_tx_def process_refund_tx_def
    by (cases w; auto simp: Let_def intro!: emits.keeps_intros key split: option.split)+
qed

lemma sends_sweep_monero: "sends (sweep_monero_to f a)"
  unfolding sweep_monero_to_def by (auto intro!: emits.keeps_intros sends_with_syncer split: task.split)

lemma sends_abort_all: "sends (abort_all_tasks ev)"
  unfolding abort_all_tasks_def by (auto simp: Let_def intro!: emits.keeps_intros sends_task)

lemma sends_watches:
  "sends (watch_core_txs c ev setup)" "sends (watch_shared_address c ev ps qs start)"
  "sends (watch_found_xmr ev i hash)" "sends (retrieve_known_tx ev l)"
  unfolding watch_core_txs_def watch_shared_address_def watch_found_xmr_def retrieve_known_tx_def
  by (auto intro!: emits.keeps_intros sends_give_new_task sends_sweep_task not_broadcast split: option.split)

lemma sends_funding:
  "sends (funding_completed_if_awaited ev b)" "sends (clear_funding_then_complete ev b)"
  unfolding funding_completed_if_awaited_def clear_funding_then_complete_def
  by (auto intro!: emits.keeps_intros sends_steps)

lemma sends_endings:
  "sends (handle_abort_swap ev)" "sends (handle_abort_impossible ev)" "sends (handle_bob_abort_swap c ev w)"
  "sends (end_of_swap ev o')" "sends (end_aborted_sweep ev)" "sends (end_after_sweep ev b o')"
proof -
  show "sends (handle_abort_swap ev)" "sends (handle_abort_impossible ev)" "sends (handle_bob_abort_swap c ev w)"
    "sends (end_aborted_sweep ev)"
    unfolding handle_abort_swap_def handle_abort_impossible_def handle_bob_abort_swap_def end_aborted_sweep_def
    by (auto intro!: emits.keeps_intros sends_steps)
  show e: "sends (end_of_swap ev o')"
    unfolding end_of_swap_def by (auto intro!: emits.keeps_intros sends_abort_all sends_updates)
  show "sends (end_after_sweep ev b o')"
    unfolding end_after_sweep_def by (auto intro!: emits.keeps_intros e sends_funding split: option.split)
qed

lemma sends_alice_funded: "sends (alice_funded ev w required i hash amount)"
proof -
  have watch: "sends (bind (with_syncer (watch_tx_xmr hash AccLock)) k)"
    if "\<And>x. (\<And>b. x \<noteq> BroadcastTransactionTask b) \<Longrightarrow> sends (k x)" for k :: "task \<Rightarrow> transition"
  proof (unfold keeps_def, rule allI)
    fix s :: runtime
    have "sends (k (fst (watch_tx_xmr hash AccLock (syncer s))))" by (rule that) (rule not_broadcast)
    then have "emits P (on_syncer (\<lambda>x. snd (watch_tx_xmr hash AccLock x)) s)
        (snd (k (fst (watch_tx_xmr hash AccLock (syncer s))) (on_syncer (\<lambda>x. snd (watch_tx_xmr hash AccLock x)) s)))"
      by (simp add: keeps_def)
    then show "emits P s (snd (bind (with_syncer (watch_tx_xmr hash AccLock)) k s))"
      by (simp add: bind_def with_syncer_def stateful_def emits_def)
  qed
  show ?thesis
    unfolding alice_funded_def
    by (rule watch)
      (auto intro!: emits.keeps_intros sends_funding sends_reports sends_sweep_task sends_task split: option.split)
qed

subsection \<open>In a given state\<close>

definition may_broadcast :: "btc_tx \<Rightarrow> bool" where
  "may_broadcast tx \<longleftrightarrow> (\<forall>me dest i. P (Envelope SyncBus me dest (Sync (TaskMsg (BroadcastTransactionTask
     (BroadcastTransaction i (consensus_bytes tx) None))))))"

definition may_send :: "peer_msg \<Rightarrow> bool" where
  "may_send m \<longleftrightarrow> (\<forall>me dest. P (Envelope MsgBus me dest (P2p m)))"

lemma sends_may_broadcast: "may_broadcast tx \<Longrightarrow> sends (broadcast tx l)"
  by (rule sends_broadcast) (simp add: may_broadcast_def)

lemma sends_may_send: "may_send m \<Longrightarrow> sends (send_peer m)"
  by (rule sends_send_peer) (simp add: may_send_def)

lemma emits_run: "sends m \<Longrightarrow> emits P s (snd (m s))"
  by (simp add: keeps_def)

lemmas emits_run_bind = emits_run [of "bind a b" for a b]

lemma emits_bind:
  assumes "sends m" and "calm fixed m" and "\<And>x t. fixed s t \<Longrightarrow> m s = (Ok x, t) \<Longrightarrow> emits P t (snd (f x t))"
  shows "emits P s (snd (bind m f s))"
proof -
  obtain r t where m: "m s = (r, t)" by (cases "m s")
  have "emits P s t" "fixed s t"
    using assms(1,2) m keepsD calm_keeps by metis+
  then show ?thesis
    using m assms(3) by (cases r) (auto simp: bind_def intro: emits.frame_trans)
qed

lemma emits_lift: "(\<And>x. r = Ok x \<Longrightarrow> emits P s (snd (f x s))) \<Longrightarrow> emits P s (snd (bind (lift_res r) f s))"
  by (cases r) (simp_all add: bind_def lift_res_def)

lemma emits_stored:
  assumes "\<And>tx. tx \<in> set (stored s l) \<Longrightarrow> may_broadcast tx"
  shows "emits P s (snd (broadcast_stored l s))" "emits P s (snd (watch_and_broadcast_stored c ev l s))"
proof -
  have taken: "emits P s (snd (bind (take_tx l) f s))" if "\<And>tx. may_broadcast tx \<Longrightarrow> sends (f tx)" for f :: "btc_tx \<Rightarrow> unit swapd_action"
  proof (cases "hm_get (rt_txs s) l")
    case None
    then show ?thesis by (simp add: take_tx_def reads_def bind_def lift_res_def)
  next
    case (Some tx)
    then have "may_broadcast tx" using assms by (simp add: stored_def)
    from emits_run [OF that [OF this], of "s\<lparr>rt_txs := hm_remove l (rt_txs s)\<rparr>"] show ?thesis
      using Some by (simp add: take_tx_def reads_def bind_def lift_res_def modify_def ret_def emits_def)
  qed
  show "emits P s (snd (broadcast_stored l s))"
    unfolding broadcast_stored_def by (rule taken) (rule sends_may_broadcast)
  show "emits P s (snd (watch_and_broadcast_stored c ev l s))"
    unfolding watch_and_broadcast_stored_def
    by (rule taken) (auto intro!: emits.keeps_intros sends_may_broadcast sends_give_new_task not_broadcast)
qed

lemma emits_reads: "emits P s (snd (f (g s) s)) \<Longrightarrow> emits P s (snd (reads g f s))"
  by (simp add: reads_def)

lemma due_on_confsI:
  assumes "seen_confs (ev_request ev) = Some (i, confs)" and "watches_tx s i watched" and "ripe (safety s) confs"
    and "hm_get (rt_txs s) l = Some tx"
  shows "tx \<in> set (due_on_confs ev s watched ripe l)"
  using assms by (simp add: due_on_confs_def stored_def)

lemma stored_due:
  assumes "seen_confs (ev_request ev) = Some (i, confs)" and "watches_tx s i watched" and "ripe (safety s) confs"
  shows "stored s l = due_on_confs ev s watched ripe l"
  using assms by (simp add: due_on_confs_def)

lemma emits_steps_then:
  assumes "emits P s (snd (m s))" and "\<And>t. emits P t (snd (k t))"
  shows "emits P s (snd (steps [m] k s))"
  using assms by (cases "m s"; cases "fst (m s)") (auto simp: bind_def intro: emits.frame_trans)

lemma emits_interrupts:
  assumes due: "\<And>tx. tx \<in> set (due_cancel ev s) \<Longrightarrow> may_broadcast tx"
  shows "emits P s (snd (handle_bob_swap_interrupt_after_lock ev s))"
    and "emits P s (snd (handle_alice_swap_interrupt_after_lock ev w s))"
proof -
  have cancel: "emits P s (snd (steps [broadcast_stored Cancel] (ret x) s))"
    if "seen_confs (ev_request ev) = Some (i, confs)" "watches_tx s i Lock" "valid_cancel (safety s) confs"
    for i confs and x :: "swap_state_machine option"
    using due stored_due [of ev i confs s Lock valid_cancel Cancel] that
    by (intro emits_steps_then emits_stored) (auto simp: due_cancel_def ret_def)
  show "emits P s (snd (handle_bob_swap_interrupt_after_lock ev s))"
    unfolding handle_bob_swap_interrupt_after_lock_def
    using cancel by (auto simp: run_reads run_ret emits_run sends_endings split: option.split simp del: steps.simps)
  have canceled: "sends (steps [reads (\<lambda>rt. awaiting_funding (syncer rt)) (\<lambda>awaiting. on awaiting (steps [
       send_ctl_service ev Farcasterd (FundingCanceled Monero)] (set_awaiting_funding False)))] (ret x))" for x
    by (auto intro!: emits.keeps_intros sends_steps)
  show "emits P s (snd (handle_alice_swap_interrupt_after_lock ev w s))"
    unfolding handle_alice_swap_interrupt_after_lock_def
    using cancel by (auto simp: run_reads run_ret emits_run sends_endings canceled split: option.split simp del: steps.simps)
qed

subsection \<open>The handlers\<close>

lemma sends_start:
  assumes "\<And>m. is_commit_msg m \<Longrightarrow> may_send m"
  shows "sends (attempt_transition_to_init_taker c ev role)" "sends (attempt_transition_to_init_maker c ev role)"
  unfolding attempt_transition_to_init_taker_def attempt_transition_to_init_maker_def
  by (auto intro!: emits.keeps_intros sends_watch_height sends_wallet sends_endings sends_or_report_failure
        sends_commits sends_may_send assms split: option.split init_taker_swap.split init_maker_swap.split)

lemma sends_plain:
  "sends (try_bob_reveal_to_bob_fee_estimated c ev l r w)" "sends (try_bob_buy_final_to_bob_buy_sweeping ev sweep)"
  "sends (try_bob_cancel_final_to_swap_end ev)" "sends (try_awaiting_sweep_to_swap_end ev)"
  "sends (try_alice_buy_procedure_signature_to_swap_end ev)" "sends (try_alice_refund_to_alice_refund_sweeping ev sweep)"
  unfolding try_bob_reveal_to_bob_fee_estimated_def try_bob_buy_final_to_bob_buy_sweeping_def
    try_bob_cancel_final_to_swap_end_def try_awaiting_sweep_to_swap_end_def
    try_alice_buy_procedure_signature_to_swap_end_def try_alice_refund_to_alice_refund_sweeping_def
  by (auto intro!: emits.keeps_intros sends_ask_bob sends_give_new_task not_broadcast sends_sweep_task sends_endings
        sends_updates sends_abort_all split: option.split fee_estimations.split list.split)

lemma emits_init_taker:
  assumes "\<And>m. m \<in> set (due_maker_commit_reveal c w ev s) \<Longrightarrow> may_send m"
  shows "emits P s (snd (try_bob_init_taker_to_bob_taker_maker_commit c ev l w s))"
    "emits P s (snd (try_alice_init_taker_to_alice_taker_maker_commit c ev l w s))"
  using assms
  unfolding try_bob_init_taker_to_bob_taker_maker_commit_def try_alice_init_taker_to_alice_taker_maker_commit_def
    due_maker_commit_reveal_def
  by (auto simp: run_reads run_ret intro!: emits_lift emits_run [OF sends_may_send] emits_run [OF sends_endings(1)]
        emits_run [OF sends_endings(3)] emits_steps_then split: option.split peer_msg.split simp del: steps.simps)

lemma validated_paramsD: "validated_params c reveal rc msg = Ok ps \<Longrightarrow> validate_reveal c reveal rc = Ok ps"
  by (auto simp: validated_params_def split: result.splits)

lemma emits_reveals:
  shows "(\<And>m. m \<in> set (due_reveal handle_alice_reveals c rc w ev s) \<Longrightarrow> may_send m)
      \<Longrightarrow> emits P s (snd (attempt_transition_to_bob_reveal c ev l rc w s))"
    and "(\<And>m. m \<in> set (due_reveal handle_bob_reveals c rc w ev s) \<Longrightarrow> may_send m)
      \<Longrightarrow> emits P s (snd (attempt_transition_to_alice_reveal c ev l rc w s))"
  unfolding attempt_transition_to_bob_reveal_def attempt_transition_to_alice_reveal_def due_reveal_def
  apply (auto simp: run_reads run_ret emits_run [OF sends_endings(1)] emits_run [OF sends_endings(3)]
      dest!: validated_paramsD intro!: emits_lift split: option.split peer_msg.split simp del: steps.simps)
  by (auto intro!: emits_run emits.keeps_intros sends_may_send sends_watch_fee split: option.split)

lemma emits_funded:
  assumes "\<And>m. m \<in> set (due_setup c required w ev s) \<Longrightarrow> may_send m"
  shows "emits P s (snd (try_bob_fee_estimated_to_bob_funded c ev l required r w s))"
proof (cases "seen_address_tx (ev_request ev)")
  case None
  then show ?thesis
    unfolding try_bob_fee_estimated_to_bob_funded_def
    by (simp add: run_reads run_ret emits_run [OF sends_endings(3)])
next
  case (Some t)
  then show ?thesis
    using assms unfolding try_bob_fee_estimated_to_bob_funded_def due_setup_def
    apply (cases t)
    apply (auto simp: run_reads run_ret intro!: emits_lift split: sum.splits)
    apply (auto intro!: emits_bind [OF sends_updates(2) fixed_tasks(4)] emits_bind [OF sends_events(4) fixed_events(4)] emits_lift
       emits_run [OF emits.keeps_bind [OF sends_reports(2) sends_endings(3)]] simp del: steps.simps)
    apply (auto intro!: emits_run emits.keeps_intros sends_watches sends_updates sends_checkpoint sends_may_send)
    done
qed

lemma emits_locked:
  assumes "\<And>tx. tx \<in> set (due_lock c w ev s) \<Longrightarrow> may_broadcast tx"
  shows "emits P s (snd (try_bob_funded_to_bob_refund_procedure_signature c ev l r w s))"
  using assms unfolding try_bob_funded_to_bob_refund_procedure_signature_def due_lock_def
  apply (auto simp: run_reads run_ret emits_run [OF sends_endings(3)] Let_def
      intro!: emits_lift split: option.split peer_msg.split refund_procedure_res.split simp del: steps.simps)
  by (auto intro!: emits_run emits.keeps_intros sends_watches sends_updates sends_give_new_task not_broadcast
      sends_checkpoint sends_may_broadcast split: params.split)

lemma emits_bob_acc_lock:
  assumes "\<And>tx. tx \<in> set (due_cancel ev s) \<Longrightarrow> may_broadcast tx"
  shows "emits P s (snd (try_bob_refund_procedure_signatures_to_bob_accordant_lock ev l r w bps s))"
  using emits_interrupts(1) [OF assms]
  unfolding try_bob_refund_procedure_signatures_to_bob_accordant_lock_def
  apply (auto simp: run_reads run_ret split: option.split address_transaction.split simp del: steps.simps)
  by (auto intro!: emits_run emits.keeps_intros sends_watches)

lemma emits_bob_acc_lock_final:
  assumes "\<And>tx. tx \<in> set (due_cancel ev s) \<Longrightarrow> may_broadcast tx"
    and "\<And>m. m \<in> set (due_buy_signature bps ev s) \<Longrightarrow> may_send m"
  shows "emits P s (snd (try_bob_accordant_lock_to_bob_accordant_lock_final ev l r w bps s))"
  using emits_interrupts(1) [OF assms(1)] assms(2)
  unfolding try_bob_accordant_lock_to_bob_accordant_lock_final_def due_buy_signature_def
  apply (auto simp: run_reads run_ret split: option.split simp del: steps.simps)
  by (auto intro!: emits_run emits.keeps_intros sends_may_send)

lemma due_cancel_retrieved: "retrieved_tx m = Some x \<Longrightarrow> seen_confs m = None"
  by (induction m rule: retrieved_tx.induct) auto

lemma emits_bob_buy_final:
  assumes "\<And>tx. tx \<in> set (due_cancel ev s) \<Longrightarrow> may_broadcast tx"
  shows "emits P s (snd (try_bob_accordant_lock_final_to_bob_buy_final c ev l r w s))"
proof -
  have interrupt: "sends (handle_bob_swap_interrupt_after_lock ev)" if "seen_confs (ev_request ev) = None"
    using that unfolding handle_bob_swap_interrupt_after_lock_def
    by (auto intro!: emits.keeps_intros sends_endings)
  have retrieved: "sends (steps [modify f] (case x of
        Some (Buy, _) \<Rightarrow> bind (process_buy_tx c w tx sid h) (sweep_monero_to BobBuyFinal)
      | _ \<Rightarrow> handle_bob_swap_interrupt_after_lock ev))"
    if "seen_confs (ev_request ev) = None" and "\<And>s :: runtime. outbox (f s) = outbox s"
    for f and x :: "(tx_label \<times> task) option" and tx sid h
    using interrupt [OF that(1)] that(2)
    by (auto intro!: emits.keeps_intros sends_wallet sends_sweep_monero split: option.split tx_label.split)
  have confirmed: "sends (steps [record_btc_confs i k, retrieve_known_tx ev Buy] (ret x))"
    for i k and x :: "swap_state_machine option"
    by (auto intro!: emits.keeps_intros sends_updates sends_watches)
  show ?thesis
    using emits_interrupts(1) [OF assms] retrieved confirmed
    unfolding try_bob_accordant_lock_final_to_bob_buy_final_def
    by (auto simp: run_reads emits_run split: option.split simp del: steps.simps)
qed

lemma emits_bob_canceled:
  assumes "\<And>tx. tx \<in> set (due_refund ev s) \<Longrightarrow> may_broadcast tx"
  shows "emits P s (snd (try_bob_canceled_to_bob_cancel_final ev s))"
proof -
  have go: "emits P s (snd (steps [record_btc_confs i k, broadcast_stored Refund] (ret x) s))"
    if "\<And>tx. tx \<in> set (stored s Refund) \<Longrightarrow> may_broadcast tx" for i k and x :: "swap_state_machine option"
  proof -
    have "stored t Refund = stored s Refund" if "record_btc_confs i k s = (Ok y, t)" for y t
      using that by (auto simp: record_btc_confs_def modify_def stored_def on_syncer_def)
    then have "emits P t (snd (steps [broadcast_stored Refund] (ret x) t))" if "record_btc_confs i k s = (Ok y, t)" for y t
      using that \<open>\<And>tx. tx \<in> set (stored s Refund) \<Longrightarrow> may_broadcast tx\<close>
      by (intro emits_steps_then emits_stored) (simp_all add: run_ret)
    then show ?thesis
      unfolding steps.simps(2) [of "record_btc_confs i k"]
      by (intro emits_bind [OF sends_updates(1) fixed_tasks(3)])
  qed
  show ?thesis
    using go assms unfolding try_bob_canceled_to_bob_cancel_final_def due_refund_def due_on_confs_def
    by (auto simp: run_reads run_ret split: option.splits simp del: steps.simps)
qed

lemma fixed_reads:
  "fixed s t \<Longrightarrow> rt_swap_id t = rt_swap_id s" "fixed s t \<Longrightarrow> safety t = safety s"
  "fixed s t \<Longrightarrow> last_lock_confs t = last_lock_confs s"
  by (simp_all add: same_def fixed_part_def client_part_def last_lock_confs_def)

lemma emits_alice_setup:
  assumes "\<And>m. m \<in> set (due_refund_signatures c w ev s) \<Longrightarrow> may_send m"
  shows "emits P s (snd (try_alice_reveal_to_alice_core_arbitrating_setup c ev l r w s))"
  using assms unfolding try_alice_reveal_to_alice_core_arbitrating_setup_def due_refund_signatures_def
  apply (auto simp: run_reads run_ret emits_run [OF sends_endings(1)] Let_def fixed_reads
      intro!: emits_bind [OF sends_watches(1) fixed_watch_core_txs] emits_lift
      split: option.split peer_msg.split core_arbitrating_setup_res.split simp del: steps.simps)
  by (auto intro!: emits_run emits.keeps_intros sends_updates sends_checkpoint sends_may_send)

lemma emits_alice_lock_final:
  assumes "\<And>tx. tx \<in> set (due_cancel ev s) \<Longrightarrow> may_broadcast tx"
  shows "emits P s (snd (try_alice_core_arbitrating_setup_to_alice_arbitrating_lock_final c ev l r w s))"
proof -
  show ?thesis
    using emits_interrupts(2) [OF assms]
    unfolding try_alice_core_arbitrating_setup_to_alice_arbitrating_lock_final_def
    apply (auto simp: run_reads run_ret Let_def split: option.split params.split simp del: steps.simps)
    by (auto intro!: emits_run_bind emits.keeps_intros sends_updates sends_give_new_task not_broadcast)
qed

lemma emits_alice_acc_lock:
  assumes "\<And>tx. tx \<in> set (due_cancel ev s) \<Longrightarrow> may_broadcast tx"
  shows "emits P s (snd (try_alice_arbitrating_lock_final_to_alice_accordant_lock ev w info required s))"
proof -
  have asked: "sends (steps [set_awaiting_funding True, (case e of
        Some enq \<Rightarrow> send_ctl_service ev enq (FundingInfoCtl m) | None \<Rightarrow> skip)] (ret x))"
    and stopped: "sends (steps [complete_ctl_service ev Farcasterd (FundingCanceled Monero), set_awaiting_funding False] (ret x))"
    for e m and x :: "swap_state_machine option"
    by (auto intro!: emits.keeps_intros sends_updates sends_events split: option.split)
  show ?thesis
    using emits_interrupts(2) [OF assms] asked stopped
    unfolding try_alice_arbitrating_lock_final_to_alice_accordant_lock_def
    by (auto simp: run_reads run_ret Let_def emits_run sends_alice_funded
        split: option.split address_transaction.split simp del: steps.simps)
qed

lemma emits_alice_buy:
  assumes "\<And>tx. tx \<in> set (due_cancel ev s) \<Longrightarrow> may_broadcast tx"
    and "\<And>tx. tx \<in> set (due_buy c w ev s) \<Longrightarrow> may_broadcast tx"
  shows "emits P s (snd (try_alice_accordant_lock_to_alice_buy_procedure_signature c ev w s))"
proof (cases "\<exists>bps. peer_request (ev_request ev) = Some (BuyProcedureSignatureMsg bps)")
  case False
  then show ?thesis
    using emits_interrupts(2) [OF assms(1)]
    unfolding try_alice_accordant_lock_to_alice_buy_procedure_signature_def
    by (auto split: option.split peer_msg.split)
next
  case True
  then obtain bps where bps: "peer_request (ev_request ev) = Some (BuyProcedureSignatureMsg bps)" by blast
  let ?decide = "\<lambda>cancel_tx buy_tx. reads id (\<lambda>rt :: runtime.
           if (case last_lock_confs rt of Some confs \<Rightarrow> valid_cancel (safety rt) confs | None \<Rightarrow> False)
           then steps [broadcast cancel_tx Cancel] (ret (Some (AliceCanceled w)))
           else steps [broadcast buy_tx Buy, checkpoint_state c None AliceBuyProcedureSignature]
             (ret (Some AliceBuyProcedureSignature)))"
  have decide: "emits P u (snd (?decide cancel_tx buy_tx u))"
    if "fixed s u" and "handle_buy_procedure_signature c w bps (rt_swap_id s) = Ok (BuyProcedureRes cancel_tx buy_tx)"
    for u cancel_tx buy_tx
    using assms(2) that
    by (auto simp: run_reads due_buy_def bps fixed_reads intro!: emits_run emits.keeps_intros sends_may_broadcast
        sends_checkpoint split: option.splits if_splits)
  have trans: "fixed s t \<Longrightarrow> fixed t u \<Longrightarrow> fixed s u" for t u
    by (rule same.frame_trans)
  show ?thesis
    unfolding try_alice_accordant_lock_to_alice_buy_procedure_signature_def bps
    apply (auto simp: run_reads fixed_reads intro!: emits_lift
        emits_bind [OF sends_give_new_task [OF not_broadcast(2)] fixed_give_new_task] split: buy_procedure_res.split)
    apply (auto intro!: emits_bind [OF sends_updates(3) fixed_tasks(5)] decide)
    apply (auto intro: trans)
    done
qed

lemma emits_alice_canceled:
  assumes "\<And>tx. tx \<in> set (due_cancel ev s) \<Longrightarrow> may_broadcast tx"
    and "\<And>tx. tx \<in> set (due_punish ev s) \<Longrightarrow> may_broadcast tx"
  shows "emits P s (snd (try_alice_canceled_to_alice_refund_or_alice_punish c ev w s))"
proof -
  have go: "emits P s (snd (steps [watch_and_broadcast_stored c ev l] (ret x) s))"
    if "\<And>tx. tx \<in> set (stored s l) \<Longrightarrow> may_broadcast tx" for l and x :: "swap_state_machine option"
    using that by (intro emits_steps_then emits_stored) (simp_all add: run_ret)
  have refund: "sends (bind (modify f) (\<lambda>_. bind (process_refund_tx c w tx sid h) (\<lambda>addendum. reads id (\<lambda>rt.
         if g rt then sweep_monero_to AliceRefund addendum
         else bind (clear_funding_then_complete ev Monero) (\<lambda>_. end_of_swap ev FailureRefund)))))"
    if "\<And>s :: runtime. outbox (f s) = outbox s" for f tx sid h and g :: "runtime \<Rightarrow> bool"
    using that by (auto intro!: emits.keeps_intros sends_wallet sends_sweep_monero sends_funding sends_endings)
  show ?thesis
  proof (cases "seen_confs (ev_request ev)")
    case None
    then show ?thesis
      unfolding try_alice_canceled_to_alice_refund_or_alice_punish_def
      by (auto simp: run_reads run_ret emits_run refund split: option.split tx_label.split)
  next
    case (Some x)
    obtain i confs where x: "x = (i, confs)" by (cases x)
    have due: "watches_tx s i Lock \<and> valid_cancel (safety s) confs \<Longrightarrow> tx \<in> set (stored s Cancel) \<Longrightarrow> may_broadcast tx"
      "watches_tx s i Cancel \<and> valid_punish (safety s) confs \<Longrightarrow> tx \<in> set (stored s Punish) \<Longrightarrow> may_broadcast tx" for tx
      using assms Some by (auto simp: x due_cancel_def due_punish_def due_on_confs_def)
    have known: "sends (steps [retrieve_known_tx ev Refund] (ret x))" for x :: "swap_state_machine option"
      by (auto intro!: emits.keeps_intros sends_watches)
    show ?thesis
      using Some unfolding try_alice_canceled_to_alice_refund_or_alice_punish_def
      by (simp add: x run_reads run_ret emits_run known sends_endings go due del: steps.simps)
  qed
qed

lemma emits_next_state:
  assumes "\<And>tx. tx \<in> set (due_broadcasts c sm ev s) \<Longrightarrow> may_broadcast tx"
    and "\<And>m. m \<in> set (due_messages c sm ev s) \<Longrightarrow> may_send m"
    and "\<And>m. starting sm \<Longrightarrow> is_commit_msg m \<Longrightarrow> may_send m"
  shows "emits P s (snd (next_state c sm ev s))"
  using assms
  by (cases sm)
    (simp_all add: wrapper_defs run_ret emits_run sends_start sends_plain sends_endings emits_init_taker
      emits_reveals emits_funded emits_locked emits_bob_acc_lock emits_bob_acc_lock_final emits_bob_buy_final
      emits_bob_canceled emits_alice_setup emits_alice_lock_final emits_alice_acc_lock emits_alice_buy
      emits_alice_canceled)

end

definition due :: "core \<Rightarrow> swap_state_machine \<Rightarrow> esb_event \<Rightarrow> runtime \<Rightarrow> envelope \<Rightarrow> bool" where
  "due c sm ev s e \<longleftrightarrow>
     (\<forall>b. broadcast_bytes e = Some b \<longrightarrow> b \<in> consensus_bytes ` set (due_broadcasts c sm ev s))
     \<and> (\<forall>m. peer_message e = Some m \<longrightarrow> m \<in> set (due_messages c sm ev s) \<or> starting sm \<and> is_commit_msg m)"

interpretation due: emission "due c sm ev s" for c sm ev s
  by unfold_locales (simp add: due_def)

section \<open>Properties\<close>

text \<open>
  Property C12 (safety): a transition gives away nothing that its state and event do not call for.
  Every transaction it hands out for broadcast is due (Cancel and Punish only after their timelocks,
  Refund only once Cancel is final, Lock only once the wallet accepted the refund signatures, Buy
  only while the last final confirmations of Lock do not allow Cancel), and so is every message it
  sends to the counterparty (in particular the signature of Buy only once the Monero lock is final).
\<close>

theorem transitions_give_only_what_is_due:
  assumes "next_state c sm ev s = (r, s')"
  shows "\<exists>new. outbox s' = outbox s @ new \<and> (\<forall>e \<in> set new. due c sm ev s e)"
proof -
  have "emits (due c sm ev s) s (snd (next_state c sm ev s))"
    by (rule due.emits_next_state)
      (auto simp: due.may_broadcast_def due.may_send_def due_def)
  then show ?thesis using assms by (simp add: emits_def)
qed

definition canceled_runtime :: runtime where
  "canceled_runtime = example_runtime BobCanceled (example_client [(TaskId 1, Cancel)] []) [(Refund, BtcTx [33])]"

theorem transitions_give_only_what_is_due_witness:
  "\<exists>s' e. next_state example_core BobCanceled (example_event (Sync (confs_msg 1 3))) canceled_runtime
       = (Ok (Some BobCancelFinal), s')
     \<and> outbox s' = [e] \<and> broadcast_bytes e = Some [33]
     \<and> due example_core BobCanceled (example_event (Sync (confs_msg 1 3))) canceled_runtime e"
proof -
  have "\<exists>s' e. next_state example_core BobCanceled (example_event (Sync (confs_msg 1 3))) canceled_runtime
       = (Ok (Some BobCancelFinal), s') \<and> outbox s' = [e] \<and> broadcast_bytes e = Some [33]"
    by (simp add: try_bob_canceled_to_bob_cancel_final_def broadcast_stored_def take_tx_def broadcast_def
        broadcast_task_def new_taskid_def on_tasks_def add_task_def canceled_runtime_def run_handlers example_defs
        handle_tx_confs_def)
  then obtain s' e where run: "next_state example_core BobCanceled (example_event (Sync (confs_msg 1 3))) canceled_runtime
       = (Ok (Some BobCancelFinal), s')" and sent: "outbox s' = [e]" "broadcast_bytes e = Some [33]" by blast
  have "outbox canceled_runtime = []"
    by (simp add: canceled_runtime_def example_runtime_def)
  then show ?thesis
    using transitions_give_only_what_is_due [OF run] run sent by auto
qed

end
