(* ===== verification/SwapCheckpoints.thy ===== *)
theory SwapCheckpoints
  imports SwapSends
begin

text \<open>
  Checkpoints: what is stored before anything irrevocable is sent, what a restored daemon has, and
  what it gives to its syncers again.
\<close>

section \<open>Stored first\<close>

definition silent :: "envelope \<Rightarrow> bool" where
  "silent e \<longleftrightarrow> broadcast_bytes e = None"

interpretation silent: emission silent
  by unfold_locales (simp add: silent_def)

lemma steps_append: "steps (xs @ ys) k = steps xs (steps ys k)"
  by (induction xs) simp_all

lemma when_okD: "when_ok r f \<noteq> [] \<Longrightarrow> \<exists>x. r = Ok x"
  by (cases r) simp_all

lemma steps_skip: "steps xs k = bind (steps xs skip) (\<lambda>_. k)"
proof (induction xs)
  case Nil
  then show ?case by (simp add: bind_def skip_def ret_def)
next
  case (Cons m xs)
  have "steps (m # xs) k = bind m (\<lambda>_. bind (steps xs skip) (\<lambda>_. k))"
    by (simp only: steps.simps(2) Cons [symmetric])
  also have "\<dots> = bind (bind m (\<lambda>_. steps xs skip)) (\<lambda>_. k)"
    by (simp only: bind_assoc)
  finally show ?case by (simp only: steps.simps(2))
qed

lemma pending_broadcast_after:
  assumes "decode (consensus_bytes tx) = Some tx"
  shows "tx \<in> set (pending_broadcast_txs decode (snd (broadcast_task tx s)))"
  using assms
  by (force simp: pending_broadcast_txs_def broadcast_task_def new_taskid_def Let_def on_tasks_def add_task_def
      map_filter_def)

text \<open>The state in which Bob's daemon makes its second checkpoint.\<close>

lemma before_lock:
  "wp (steps [m, insert_tx Cancel a, insert_tx Refund b, give_new_task ev Bitcoin (watch_tx_btc x l),
       modify (on_syncer (\<lambda>s. snd (broadcast_task tx s)))] skip)
     (\<lambda>_ u. hm_get (rt_txs u) Cancel = Some a \<and> hm_get (rt_txs u) Refund = Some b
        \<and> (\<exists>sc. syncer u = snd (broadcast_task tx sc)))
     (\<lambda>_ _. True) s"
proof -
  have rest: "wp (steps [insert_tx Cancel a, insert_tx Refund b, give_new_task ev Bitcoin (watch_tx_btc x l),
       modify (on_syncer (\<lambda>s. snd (broadcast_task tx s)))] skip)
     (\<lambda>_ u. hm_get (rt_txs u) Cancel = Some a \<and> hm_get (rt_txs u) Refund = Some b
        \<and> (\<exists>sc. syncer u = snd (broadcast_task tx sc)))
     (\<lambda>_ _. True) t" for t
    by (auto simp: wp_simps insert_tx_def give_new_task_def with_syncer_def give_task_def send_sync_service_def
        on_syncer_def Let_def)
  have "wp m (\<lambda>_. wp (steps [insert_tx Cancel a, insert_tx Refund b, give_new_task ev Bitcoin (watch_tx_btc x l),
       modify (on_syncer (\<lambda>s. snd (broadcast_task tx s)))] skip)
     (\<lambda>_ u. hm_get (rt_txs u) Cancel = Some a \<and> hm_get (rt_txs u) Refund = Some b
        \<and> (\<exists>sc. syncer u = snd (broadcast_task tx sc)))
     (\<lambda>_ _. True)) (\<lambda>_ _. True) s"
    by (rule wp_OkI) (rule rest)
  then show ?thesis by (simp add: wp_bind)
qed

lemma checkpoint_then_broadcast:
  assumes "steps [checkpoint_state c pending sm, broadcast tx l] (ret x) u = (r, t)"
  obtains extra where "\<forall>e \<in> set extra. silent e" "outbox t = outbox u @ extra"
  | me e where "outbox t = outbox u @ [Envelope CtlBus me Database
        (Ctl (CheckpointCtl (Checkpoint (rt_swap_id u) (checkpoint_of c pending sm u)))), e]"
      "broadcast_bytes e = Some (consensus_bytes tx)"
proof -
  have "wp (steps [checkpoint_state c pending sm, broadcast tx l] (ret x))
      (\<lambda>_ t. \<exists>e. broadcast_bytes e = Some (consensus_bytes tx) \<and> outbox t = outbox u @ [Envelope CtlBus (identity u) Database
        (Ctl (CheckpointCtl (Checkpoint (rt_swap_id u) (checkpoint_of c pending sm u)))), e])
      (\<lambda>_ t. \<exists>extra. (\<forall>e \<in> set extra. silent e) \<and> outbox t = outbox u @ extra) u"
    by (auto simp: wp_simps checkpoint_state_def broadcast_def with_syncer_def send_task_def broadcast_task_def
        new_taskid_def Let_def on_syncer_def silent_def)
  then show ?thesis
    using assms that by (cases r) (auto simp: wp_def)
qed

text \<open>
  Property C13 (safety): Bob's Lock transaction leaves his daemon last, right after a checkpoint that
  holds everything he needs to go on or to get his funds back: the state that follows, the Cancel and
  Refund transactions, and the Lock transaction itself among those still to be broadcast. If the
  checkpoint cannot be sent, neither is the transaction. The decoder of transactions is assumed to
  give back what the encoder was given.
\<close>

theorem lock_follows_its_checkpoint:
  assumes "next_state c (BobFunded local remote w) ev s = (r, s')"
    and decodes: "\<And>tx. consensus_decode (c_tx c) (consensus_bytes tx) = Some tx"
  shows "\<exists>quiet. (\<forall>e \<in> set quiet. broadcast_bytes e = None)
     \<and> (outbox s' = outbox s @ quiet
        \<or> (\<exists>me ck e refunds bps lock_tx cancel_tx refund_tx w'.
             peer_request (ev_request ev) = Some (RefundProcedureSignaturesMsg refunds)
             \<and> handle_refund_procedure_signatures c w refunds (rt_swap_id s)
                 = Ok (RefundProcedureRes bps lock_tx cancel_tx refund_tx, w')
             \<and> outbox s' = outbox s @ quiet
                 @ [Envelope CtlBus me Database (Ctl (CheckpointCtl (Checkpoint (rt_swap_id s) ck))), e]
             \<and> broadcast_bytes e = Some (consensus_bytes lock_tx)
             \<and> ck_state ck = BobRefundProcedureSignatures local remote w' bps
             \<and> hm_get (ck_txs ck) Cancel = Some cancel_tx \<and> hm_get (ck_txs ck) Refund = Some refund_tx
             \<and> lock_tx \<in> set (ck_pending_broadcasts ck)))"
  (is "\<exists>quiet. ?silent quiet \<and> (?only quiet \<or> ?locked quiet)")
proof -
  have only: ?thesis if "emits silent s s'"
    using that by (auto simp: emits_def silent_def)
  have quiet: ?thesis if "\<And>tx. tx \<in> set (due_lock c w ev s) \<Longrightarrow> silent.may_broadcast tx"
  proof -
    have "emits silent s s'"
      using silent.emits_locked [where c = c and w = w and ev = ev and s = s and l = local and r = remote]
        that assms(1) by simp
    then show ?thesis by (rule only)
  qed
  show ?thesis
  proof (cases "due_lock c w ev s = []")
    case True
    then show ?thesis using quiet by simp
  next
    case False
    then obtain refunds res w' where req: "peer_request (ev_request ev) = Some (RefundProcedureSignaturesMsg refunds)"
      and res: "handle_refund_procedure_signatures c w refunds (rt_swap_id s) = Ok (res, w')"
      by (auto simp: due_lock_def split: option.splits peer_msg.splits dest!: when_okD)
    obtain bps lock_tx cancel_tx refund_tx where
      txs: "res = RefundProcedureRes bps lock_tx cancel_tx refund_tx" by (cases res)
    let ?sm = "BobRefundProcedureSignatures local remote w' bps"
    let ?pre = "[(case (local, remote) of (BobParams bob_params, AliceParams alice_params) \<Rightarrow>
           watch_shared_address c ev alice_params bob_params None | _ \<Rightarrow> skip),
         insert_tx Cancel cancel_tx, insert_tx Refund refund_tx,
         give_new_task ev Bitcoin (watch_tx_btc (txid_of (c_tx c) (extract_tx (c_tx c) (bps_buy bps))) Buy),
         modify (on_syncer (\<lambda>s. snd (broadcast_task lock_tx s)))]"
    obtain r1 u where pre: "steps ?pre skip s = (r1, u)" by fastforce
    have "steps ?pre (steps [checkpoint_state c None ?sm, broadcast lock_tx Lock] (ret (Some ?sm))) s = (r, s')"
      using assms(1) res
      by (simp add: try_bob_funded_to_bob_refund_procedure_signature_def req txs run_reads run_lift_res Let_def bind_def)
    then have run: "bind (steps ?pre skip) (\<lambda>_. steps [checkpoint_state c None ?sm, broadcast lock_tx Lock]
        (ret (Some ?sm))) s = (r, s')"
      by (simp only: steps_skip [of ?pre "steps _ _"])
    have "silent.sends (steps ?pre skip)"
      by (cases local; cases remote)
        (auto intro!: emits.keeps_intros silent.sends_watches silent.sends_updates silent.sends_give_new_task
          silent.not_broadcast)
    from keepsD [OF this pre] have out: "emits silent s u" .
    have fx: "fixed s u"
    proof -
      have "calm fixed (steps ?pre skip)"
        by (cases local; cases remote) (auto intro!: same.calm_intros fixed_rules)
      from keepsD [OF calm_keeps [OF this] pre] show ?thesis .
    qed
    show ?thesis
    proof (cases "r1 = Ok ()")
      case False
      then have "s' = u" using run pre by (cases r1) (auto simp: bind_def)
      then show ?thesis using out only by simp
    next
      case True
      then have u: "hm_get (rt_txs u) Cancel = Some cancel_tx" "hm_get (rt_txs u) Refund = Some refund_tx"
          "\<exists>sc. syncer u = snd (broadcast_task lock_tx sc)"
        using wp_OkD [OF before_lock pre [unfolded True]] by blast+
      have "steps [checkpoint_state c None ?sm, broadcast lock_tx Lock] (ret (Some ?sm)) u = (r, s')"
        using run pre True by (simp add: bind_def del: steps.simps)
      then show ?thesis
      proof (cases rule: checkpoint_then_broadcast)
        case (1 extra)
        then have "emits silent u s'" by (auto simp: emits_def)
        then show ?thesis using out emits.frame_trans only by blast
      next
        case (2 me e)
        let ?ck = "checkpoint_of c None ?sm u"
        have "lock_tx \<in> set (ck_pending_broadcasts ?ck)"
          using u(3) pending_broadcast_after [of "consensus_decode (c_tx c)", OF decodes]
          by (auto simp: checkpoint_of_def)
        moreover have "rt_swap_id u = rt_swap_id s" using fx by (simp add: silent.fixed_reads)
        moreover obtain quiet where "outbox u = outbox s @ quiet" "\<forall>e \<in> set quiet. silent e"
          using out by (auto simp: emits_def)
        ultimately have "?silent quiet" "?locked quiet"
          using 2 u(1,2) req res unfolding txs
          by (auto simp: silent_def checkpoint_of_def)
        then show ?thesis by blast
      qed
    qed
  qed
qed

definition funded_bob :: bob_state where
  "funded_bob = \<lparr>bs_bob = BobRole (BtcAddress Testnet [5]) [], bs_local_trade_role = Taker,
     bs_local_params = example_parameters [1], bs_key_manager = [], bs_deal = example_deal, bs_funding_tx = [9],
     bs_remote_commit = None, bs_remote_params = Some (example_parameters [2]), bs_remote_proof = None,
     bs_core_arb_setup = Some (CoreArbitratingSetup 5 [11] [12] [13] [14]), bs_adaptor_buy = None,
     bs_target_bitcoin_address = BtcAddress Testnet [5], bs_target_monero_address = XmrAddress Testnet [6]\<rparr>"

definition funded_state :: swap_state_machine where
  "funded_state = BobFunded (BobParams (example_parameters [1])) (AliceParams (example_parameters [2])) (BobWallet funded_bob)"

definition funded_runtime :: runtime where
  "funded_runtime = example_runtime funded_state (example_client [(TaskId 1, Lock)] []) []"

definition refund_signatures_event :: esb_event where
  "refund_signatures_event = example_event (P2p (RefundProcedureSignaturesMsg (RefundProcedureSignatures 5 [21] [20])))"

lemma funded_run: "map broadcast_bytes (outbox (snd (next_state example_core funded_state refund_signatures_event
    funded_runtime))) = [None, None, None, Some [11]]"
  by (simp add: funded_state_def refund_signatures_event_def funded_runtime_def funded_bob_def
      try_bob_funded_to_bob_refund_procedure_signature_def handle_refund_procedure_signatures_def
      watch_shared_address_def aggregate_xmr_spend_view_def shared_view_def view_key_def insert_tx_def
      checkpoint_state_def broadcast_def broadcast_task_def client_defs on_tasks_def add_task_def
      run_handlers example_defs example_core_defs)

theorem lock_follows_its_checkpoint_witness:
  "\<exists>pre me ck e. outbox (snd (next_state example_core funded_state refund_signatures_event funded_runtime))
       = pre @ [Envelope CtlBus me Database (Ctl (CheckpointCtl (Checkpoint 5 ck))), e]
     \<and> broadcast_bytes e = Some [11] \<and> BtcTx [11] \<in> set (ck_pending_broadcasts ck)"
proof -
  obtain r s' where run: "next_state example_core funded_state refund_signatures_event funded_runtime = (r, s')"
    by fastforce
  have decodes: "consensus_decode (c_tx example_core) (consensus_bytes tx) = Some tx" for tx
    by (cases tx) (simp add: example_core_defs)
  have start: "outbox funded_runtime = []" "rt_swap_id funded_runtime = 5"
    by (simp_all add: funded_runtime_def example_runtime_def)
  have sent: "map broadcast_bytes (outbox s') = [None, None, None, Some [11]]"
    using funded_run run by simp
  from lock_follows_its_checkpoint [OF run [unfolded funded_state_def] decodes] sent start
  obtain quiet me ck e lock_tx where "outbox s' = quiet @
        [Envelope CtlBus me Database (Ctl (CheckpointCtl (Checkpoint 5 ck))), e]"
      "broadcast_bytes e = Some (consensus_bytes lock_tx)" "lock_tx \<in> set (ck_pending_broadcasts ck)"
    by auto
  moreover from this sent have "lock_tx = BtcTx [11]"
    by (cases lock_tx) (auto simp: append_eq_Cons_conv)
  ultimately show ?thesis using run by auto
qed

section \<open>Stored and restored\<close>

definition handed :: "service_id \<Rightarrow> task \<Rightarrow> runtime \<Rightarrow> bool" where
  "handed dest task t \<longleftrightarrow> (\<exists>me. Envelope SyncBus me dest (Sync (TaskMsg task)) \<in> set (outbox t))"

text \<open>What the steps of a restoration after the first leave alone.\<close>

definition restoring :: "runtime \<Rightarrow> runtime \<Rightarrow> bool" where
  "restoring s t \<longleftrightarrow> reliable t \<and> (swap_state t, enquirer t, safety t, rt_trade_role t, monero_address_creation_height t, rt_txs t)
       = (swap_state s, enquirer s, safety s, rt_trade_role s, monero_address_creation_height s, rt_txs s)
     \<and> client_part (syncer t) = client_part (syncer s) \<and> (\<exists>new. outbox t = outbox s @ new)"

lemma restoring_trans: "restoring s t \<Longrightarrow> restoring t u \<Longrightarrow> restoring s u"
  by (auto simp: restoring_def)

lemma restoring_outbox: "restoring s t \<Longrightarrow> e \<in> set (outbox s) \<Longrightarrow> e \<in> set (outbox t)"
  by (auto simp: restoring_def)

lemma restoring_handed: "restoring s t \<Longrightarrow> handed dest task s \<Longrightarrow> handed dest task t"
  unfolding handed_def by (blast dest: restoring_outbox)

lemma restoring_syncer: "restoring s t \<Longrightarrow> syncer_of b (syncer t) = syncer_of b (syncer s)"
  by (cases b) (simp_all add: restoring_def client_part_def)

abbreviation no_error :: "('e, unit) result \<Rightarrow> runtime \<Rightarrow> bool" where
  "no_error \<equiv> \<lambda>_ _. False"

lemma wp_give:
  assumes "reliable s" and "client_part (snd (f (syncer s))) = client_part (syncer s)"
  shows "wp (bind (with_syncer f) (send_task b))
     (\<lambda>_ t. restoring s t \<and> syncer t = snd (f (syncer s))
        \<and> handed (syncer_of b (syncer s)) (fst (f (syncer s))) t) no_error s"
proof -
  have "syncer_of b (snd (f (syncer s))) = syncer_of b (syncer s)"
    using assms(2) by (cases b) (simp_all add: client_part_def)
  then show ?thesis
    using assms
    by (auto simp: wp_simps with_syncer_def send_task_def on_syncer_def reliable_def restoring_def handed_def Let_def)
qed

text \<open>A loop that gives a task per entry.\<close>

lemma wp_give_all:
  assumes "reliable s" and "\<And>x sc. x \<in> set xs \<Longrightarrow> T x (fst (f x sc))"
    and "\<And>x sc. x \<in> set xs \<Longrightarrow> txids (tasks (snd (f x sc))) = g x (txids (tasks sc))"
    and "\<And>x sc. x \<in> set xs \<Longrightarrow> client_part (snd (f x sc)) = client_part sc"
  shows "wp (for_each xs (\<lambda>x. bind (with_syncer (f x)) (send_task b)))
     (\<lambda>_ t. restoring s t \<and> txids (tasks (syncer t)) = fold g xs (txids (tasks (syncer s)))
        \<and> (\<forall>x \<in> set xs. \<exists>task. handed (syncer_of b (syncer s)) task t \<and> T x task)) no_error s"
  using assms
proof (induction xs arbitrary: s)
  case Nil
  then show ?case by (simp add: wp_simps restoring_def)
next
  case (Cons x xs)
  let ?Q = "\<lambda>t u. restoring t u \<and> txids (tasks (syncer u)) = fold g xs (txids (tasks (syncer t)))
        \<and> (\<forall>x \<in> set xs. \<exists>task. handed (syncer_of b (syncer t)) task u \<and> T x task)"
  let ?P = "\<lambda>u. restoring s u \<and> txids (tasks (syncer u)) = fold g (x # xs) (txids (tasks (syncer s)))
          \<and> (\<forall>x \<in> set (x # xs). \<exists>task. handed (syncer_of b (syncer s)) task u \<and> T x task)"
  have following: "wp (for_each xs (\<lambda>x. bind (with_syncer (f x)) (send_task b))) (\<lambda>_. ?Q t) no_error t" if "restoring s t" for t
    using that Cons.prems by (intro Cons.IH) (auto simp: restoring_def)
  have "wp (bind (with_syncer (f x)) (send_task b))
      (\<lambda>_ t. wp (for_each xs (\<lambda>x. bind (with_syncer (f x)) (send_task b))) (\<lambda>_. ?P) no_error t) no_error s"
  proof (intro wp_conseq [OF wp_give [OF Cons.prems(1)]])
    show "client_part (snd (f x (syncer s))) = client_part (syncer s)" using Cons.prems(4) by simp
    fix t
    assume t: "restoring s t \<and> syncer t = snd (f x (syncer s))
      \<and> handed (syncer_of b (syncer s)) (fst (f x (syncer s))) t"
    have "T x (fst (f x (syncer s)))" using Cons.prems(2) by simp
    then have "?Q t u \<Longrightarrow> ?P u" for u
      using t Cons.prems(3) [of x] restoring_trans [of s t u] restoring_handed [of t u] restoring_syncer [of s t b] by auto
    then show "wp (for_each xs (\<lambda>x. bind (with_syncer (f x)) (send_task b))) (\<lambda>_. ?P) no_error t"
      by (intro wp_conseq [OF following]) (use t in auto)
  qed simp
  then show ?case by (simp add: wp_bind)
qed

lemma wp_watch_height:
  assumes "reliable s"
  shows "wp (watch_height b) (\<lambda>_ t. restoring s t \<and> txids (tasks (syncer t)) = txids (tasks (syncer s))
     \<and> (\<exists>w. handed (syncer_of b (syncer s)) (WatchHeightTask w) t)) no_error s"
proof -
  have "syncer_of b (snd (watch_height_task b sc)) = syncer_of b sc" for sc
    by (cases b) (simp_all add: watch_height_task_def new_taskid_def on_tasks_def add_task_def Let_def)
  then show ?thesis
    using assms
    by (auto simp: wp_simps watch_height_def with_syncer_def on_syncer_def reliable_def restoring_def handed_def Let_def
        client_part_def watch_height_task_def new_taskid_def on_tasks_def add_task_def)
qed

lemma wp_send_peer:
  assumes "reliable s"
  shows "wp (send_peer m) (\<lambda>_ t. restoring s t \<and> syncer t = syncer s
     \<and> (\<exists>e \<in> set (outbox t). peer_message e = Some m)) no_error s"
  using assms
  by (auto simp: wp_simps send_peer_def reliable_def restoring_def Let_def)

lemma fold_hm_insert:
  "distinct (map fst xs) \<Longrightarrow> hm_get (fold (\<lambda>(k, v). hm_insert k v) xs m) k
     = (case hm_get xs k of Some v \<Rightarrow> Some v | None \<Rightarrow> hm_get m k)"
proof (induction xs arbitrary: m)
  case Nil
  then show ?case by simp
next
  case (Cons e xs)
  obtain k' v where e: "e = (k', v)" by (cases e)
  have "hm_get xs k' = None" using Cons.prems e by (simp add: map_of_eq_None_iff)
  then show ?case using Cons by (simp add: e split: option.split)
qed

definition rewatched :: "service_id \<Rightarrow> (tx_label \<times> txid) list \<Rightarrow> runtime \<Rightarrow> bool" where
  "rewatched dest xs t \<longleftrightarrow> (\<forall>x \<in> set xs. \<exists>w. handed dest (WatchTransactionTask w) t \<and> wt_hash w = snd x)"

definition rebroadcast :: "service_id \<Rightarrow> btc_tx list \<Rightarrow> runtime \<Rightarrow> bool" where
  "rebroadcast dest txs t \<longleftrightarrow> (\<forall>tx \<in> set txs. \<exists>b. handed dest (BroadcastTransactionTask b) t \<and> bt_tx b = consensus_bytes tx)"

definition heights_watched :: "service_id list \<Rightarrow> runtime \<Rightarrow> bool" where
  "heights_watched dests t \<longleftrightarrow> (\<forall>dest \<in> set dests. \<exists>w. handed dest (WatchHeightTask w) t)"

lemma restoring_later:
  "restoring t u \<Longrightarrow> rewatched dest xs t \<Longrightarrow> rewatched dest xs u"
  "restoring t u \<Longrightarrow> rebroadcast dest txs t \<Longrightarrow> rebroadcast dest txs u"
  "restoring t u \<Longrightarrow> heights_watched dests t \<Longrightarrow> heights_watched dests u"
  unfolding rewatched_def rebroadcast_def heights_watched_def by (fast dest: restoring_handed)+

abbreviation known_txids :: "runtime \<Rightarrow> (tx_label, txid) hash_map" where
  "known_txids t \<equiv> txids (tasks (syncer t))"

lemma wp_rewatch:
  assumes "reliable s"
  shows "wp (for_each xs (\<lambda>(l, txid). bind (with_syncer (watch_tx_btc txid l)) (send_task Bitcoin)))
     (\<lambda>_ t. restoring s t \<and> known_txids t = fold (\<lambda>(l, x). hm_insert l x) xs (known_txids s)
        \<and> rewatched (bitcoin_syncer (syncer s)) xs t) no_error s"
proof -
  have "wp (for_each xs (\<lambda>x. bind (with_syncer (watch_tx_btc (snd x) (fst x))) (send_task Bitcoin)))
     (\<lambda>_ t. restoring s t \<and> known_txids t = fold (\<lambda>x. hm_insert (fst x) (snd x)) xs (known_txids s)
        \<and> (\<forall>x \<in> set xs. \<exists>task. handed (syncer_of Bitcoin (syncer s)) task t
             \<and> (\<exists>w. task = WatchTransactionTask w \<and> wt_hash w = snd x))) no_error s"
    by (rule wp_give_all [OF assms])
      (simp_all add: watch_tx_btc_def new_taskid_def on_tasks_def add_task_def client_part_def Let_def)
  then show ?thesis
    unfolding case_prod_unfold rewatched_def syncer_of.simps by (rule wp_conseq) blast+
qed

lemma wp_rebroadcast:
  assumes "reliable s"
  shows "wp (for_each txs (\<lambda>tx. bind (with_syncer (broadcast_task tx)) (send_task Bitcoin)))
     (\<lambda>_ t. restoring s t \<and> known_txids t = known_txids s \<and> rebroadcast (bitcoin_syncer (syncer s)) txs t) no_error s"
proof -
  have "wp (for_each txs (\<lambda>tx. bind (with_syncer (broadcast_task tx)) (send_task Bitcoin)))
     (\<lambda>_ t. restoring s t \<and> known_txids t = fold (\<lambda>_ ids. ids) txs (known_txids s)
        \<and> (\<forall>tx \<in> set txs. \<exists>task. handed (syncer_of Bitcoin (syncer s)) task t
             \<and> (\<exists>b. task = BroadcastTransactionTask b \<and> bt_tx b = consensus_bytes tx))) no_error s"
    by (rule wp_give_all [OF assms])
      (simp_all add: broadcast_task_def new_taskid_def on_tasks_def add_task_def client_part_def Let_def)
  moreover have "fold (\<lambda>_ ids. ids) txs m = m" for m :: "(tx_label, txid) hash_map"
    by (induction txs) simp_all
  ultimately show ?thesis
    unfolding rebroadcast_def syncer_of.simps by (auto elim!: wp_conseq)
qed

lemma wp_rewatch_address:
  assumes "reliable s"
  shows "wp (bind (with_syncer (watch_addr_xmr spend view AccLock (Some start))) (send_task Monero))
     (\<lambda>_ t. restoring s t \<and> known_txids t = known_txids s
        \<and> (\<exists>w. handed (monero_syncer (syncer s)) (WatchAddressTask w) t
             \<and> wa_addendum w = MoneroAddendum (XmrAddressAddendum spend view start)
             \<and> hm_get (watched_addrs (tasks (syncer t))) (wa_id w) = Some AccLock)) no_error s"
  by (rule wp_conseq [OF wp_give [OF assms]])
    (auto simp: watch_addr_xmr_def new_taskid_def on_tasks_def add_task_def client_part_def Let_def)

text \<open>
  Property C14 (roundtrip): a daemon restored from a checkpoint goes on where the checkpoint was made:
  it has the state, the enquirer, the temporal parameters, the trade role, the creation height and the
  transactions stored then, and knows the ids of the watched transactions. It hands its syncers their
  tasks again: the heights of both chains, each watched transaction, each transaction not yet
  broadcast, and the address of the Monero lock if it was watched, under its label. And it sends again
  the message that was on its way.
\<close>

theorem checkpoint_restores:
  assumes "reliable fresh" and "distinct (map fst (rt_txs rt))" and "distinct (map fst (txids (tasks (syncer rt))))"
  shows "\<exists>t. restore_checkpoint (checkpoint_of c pending sm rt) fresh = (Ok (), t)
     \<and> swap_state t = sm \<and> enquirer t = enquirer rt \<and> safety t = safety rt \<and> rt_trade_role t = rt_trade_role rt
     \<and> monero_address_creation_height t = monero_address_creation_height rt
     \<and> (\<forall>l. hm_get (rt_txs t) l = hm_get (rt_txs rt) l)
     \<and> (\<forall>dest \<in> {bitcoin_syncer (syncer fresh), monero_syncer (syncer fresh)}. \<exists>w. handed dest (WatchHeightTask w) t)
     \<and> (\<forall>(l, txid) \<in> set (txids (tasks (syncer rt))). hm_get (txids (tasks (syncer t))) l = Some txid
          \<and> (\<exists>w. handed (bitcoin_syncer (syncer fresh)) (WatchTransactionTask w) t \<and> wt_hash w = txid))
     \<and> (\<forall>tx \<in> set (pending_broadcast_txs (consensus_decode (c_tx c)) (syncer rt)).
          \<exists>b. handed (bitcoin_syncer (syncer fresh)) (BroadcastTransactionTask b) t \<and> bt_tx b = consensus_bytes tx)
     \<and> (\<forall>addendum. xmr_addr_addendum (syncer rt) = Some addendum \<longrightarrow>
          (\<exists>w. handed (monero_syncer (syncer fresh)) (WatchAddressTask w) t \<and> wa_addendum w = MoneroAddendum addendum
             \<and> hm_get (watched_addrs (tasks (syncer t))) (wa_id w) = Some AccLock))
     \<and> (\<forall>m. pending = Some m \<longrightarrow> (\<exists>e \<in> set (outbox t). peer_message e = Some m))"
proof -
  define ck where "ck = checkpoint_of c pending sm rt"
  define s0 where "s0 = fresh\<lparr>swap_state := ck_state ck, enquirer := ck_enquirer ck, safety := ck_temporal_safety ck,
       monero_address_creation_height := ck_monero_address_creation_height ck,
       rt_trade_role := ck_local_trade_role ck,
       rt_txs := fold (\<lambda>(l, tx). hm_insert l tx) (ck_txs ck) []\<rparr>"
  let ?known = "fold (\<lambda>(l, x). hm_insert l x) (ck_txids ck) (known_txids fresh)"
  let ?B = "bitcoin_syncer (syncer fresh)" and ?M = "monero_syncer (syncer fresh)"
  let ?H = "\<lambda>dests ids t. restoring s0 t \<and> known_txids t = ids \<and> heights_watched dests t"
  have reliable: "reliable t" and dest: "syncer_of b (syncer t) = syncer_of b (syncer fresh)" if "restoring s0 t" for b t
    using that restoring_syncer [OF that] by (simp_all add: restoring_def s0_def)
  have height: "wp (watch_height b) (\<lambda>_. ?H (syncer_of b (syncer fresh) # dests) ids) no_error t" if "?H dests ids t" for b dests ids t
    by (rule wp_conseq [OF wp_watch_height [OF reliable]])
      (use that dest [of t b] restoring_later(3) [of t] in \<open>auto intro: restoring_trans simp: heights_watched_def\<close>)
  have ids: "wp (for_each (ck_txids ck) (\<lambda>(l, txid). bind (with_syncer (watch_tx_btc txid l)) (send_task Bitcoin)))
      (\<lambda>_ t. ?H [?M, ?B] ?known t \<and> rewatched ?B (ck_txids ck) t) no_error t"
    if "?H [?M, ?B] (known_txids fresh) t" for t
    by (rule wp_conseq [OF wp_rewatch [OF reliable]])
      (use that dest [of t Bitcoin] in \<open>auto intro: restoring_trans restoring_later\<close>)
  let ?A = "\<lambda>t. ?H [?M, ?B] ?known t \<and> rewatched ?B (ck_txids ck) t \<and> rebroadcast ?B (ck_pending_broadcasts ck) t"
  have txs: "wp (for_each (ck_pending_broadcasts ck) (\<lambda>tx. bind (with_syncer (broadcast_task tx)) (send_task Bitcoin)))
      (\<lambda>_. ?A) no_error t" if "?H [?M, ?B] ?known t \<and> rewatched ?B (ck_txids ck) t" for t
    by (rule wp_conseq [OF wp_rebroadcast [OF reliable]])
      (use that dest [of t Bitcoin] in \<open>auto intro: restoring_trans restoring_later\<close>)
  have stays: "?A u" if "?A t" "restoring t u" "known_txids u = known_txids t" for t u
    using that restoring_trans restoring_later by metis
  let ?W = "\<lambda>t. ?A t \<and> (\<forall>addendum. ck_xmr_addr_addendum ck = Some addendum \<longrightarrow>
      (\<exists>w. handed ?M (WatchAddressTask w) t \<and> wa_addendum w = MoneroAddendum addendum
         \<and> hm_get (watched_addrs (tasks (syncer t))) (wa_id w) = Some AccLock))"
  have addr: "wp (case ck_xmr_addr_addendum ck of
        Some (XmrAddressAddendum spend view start) \<Rightarrow>
          bind (with_syncer (watch_addr_xmr spend view AccLock (Some start))) (send_task Monero)
      | None \<Rightarrow> skip) (\<lambda>_. ?W) no_error t" if A: "?A t" for t
  proof (cases "ck_xmr_addr_addendum ck")
    case None
    then show ?thesis using A by (simp add: wp_simps)
  next
    case (Some a)
    obtain spend view start where a: "a = XmrAddressAddendum spend view start" by (cases a)
    have "wp (bind (with_syncer (watch_addr_xmr spend view AccLock (Some start))) (send_task Monero)) (\<lambda>_. ?W) no_error t"
    proof (rule wp_conseq [OF wp_rewatch_address])
      show "reliable t" using A reliable by blast
      show "?W u" if "restoring t u \<and> known_txids u = known_txids t
        \<and> (\<exists>w. handed (monero_syncer (syncer t)) (WatchAddressTask w) u
             \<and> wa_addendum w = MoneroAddendum (XmrAddressAddendum spend view start)
             \<and> hm_get (watched_addrs (tasks (syncer u))) (wa_id w) = Some AccLock)" for u
        using that stays [OF A, of u] dest [of t Monero] A by (simp add: Some a)
    qed
    then show ?thesis by (simp add: Some a)
  qed
  let ?Q = "\<lambda>t. ?W t \<and> (\<forall>m. pending = Some m \<longrightarrow> (\<exists>e \<in> set (outbox t). peer_message e = Some m))"
  have message: "wp (case ck_pending_msg ck of Some m \<Rightarrow> send_peer m | None \<Rightarrow> skip) (\<lambda>_. ?Q) no_error t" if W: "?W t" for t
  proof (cases pending)
    case None
    then show ?thesis using W by (simp add: wp_simps ck_def checkpoint_of_def)
  next
    case (Some m)
    have "wp (send_peer m) (\<lambda>_. ?Q) no_error t"
    proof (rule wp_conseq [OF wp_send_peer])
      show "reliable t" using W reliable by blast
      show "?Q u" if "restoring t u \<and> syncer u = syncer t \<and> (\<exists>e \<in> set (outbox u). peer_message e = Some m)" for u
        using that stays [of t u] W Some restoring_handed [of t u] by simp metis
    qed
    then show ?thesis by (simp add: Some ck_def checkpoint_of_def)
  qed
  have start: "?H [] (known_txids fresh) s0"
    using assms(1) by (simp add: s0_def reliable_def restoring_def heights_watched_def)
  have run: "wp (restore_checkpoint ck) (\<lambda>_. ?Q) no_error fresh"
    unfolding restore_checkpoint_def steps.simps wp_bind wp_modify s0_def [symmetric]
    apply (rule wp_conseq [OF height [OF start, of Bitcoin]])
     apply (rule wp_conseq [OF height [of _ _ _ Monero]], assumption)
      apply (simp only: syncer_of.simps)
      apply (rule wp_conseq [OF ids], assumption)
       apply (rule wp_conseq [OF txs], assumption)
        apply (rule wp_conseq [OF addr], assumption)
         apply (erule message)
        apply simp_all
    done
  then obtain t where t: "restore_checkpoint ck fresh = (Ok (), t)" "?Q t"
    by (auto simp: wp_def split: prod.splits result.splits)
  have fields: "swap_state t = sm" "enquirer t = enquirer rt" "safety t = safety rt" "rt_trade_role t = rt_trade_role rt"
      "monero_address_creation_height t = monero_address_creation_height rt"
    using t(2) by (simp_all add: restoring_def s0_def ck_def checkpoint_of_def)
  have stored: "hm_get (rt_txs t) l = hm_get (rt_txs rt) l" for l
    using t(2) fold_hm_insert [OF assms(2), of "[]" l]
    by (simp add: restoring_def s0_def ck_def checkpoint_of_def split: option.splits)
  have "hm_get (known_txids t) l = Some txid" if "(l, txid) \<in> set (known_txids rt)" for l txid
    using t(2) fold_hm_insert [OF assms(3), of "known_txids fresh" l] that assms(3)
    by (simp add: ck_def checkpoint_of_def)
  moreover have "\<exists>w. handed ?B (WatchTransactionTask w) t \<and> wt_hash w = txid"
    if "(l, txid) \<in> set (known_txids rt)" for l txid
    using t(2) that by (force simp: rewatched_def ck_def checkpoint_of_def)
  moreover have "rebroadcast ?B (pending_broadcast_txs (consensus_decode (c_tx c)) (syncer rt)) t"
    using t(2) by (simp add: ck_def checkpoint_of_def)
  moreover have "xmr_addr_addendum (syncer rt) = ck_xmr_addr_addendum ck"
    by (simp add: ck_def checkpoint_of_def)
  ultimately show ?thesis
    using t fields stored unfolding rebroadcast_def heights_watched_def
    by (intro exI [of _ t]) (auto simp: ck_def [symmetric])
qed

text \<open>A daemon of Alice that watches the Monero lock when its checkpoint is made.\<close>

definition locking_runtime :: runtime where
  "locking_runtime = canceled_runtime\<lparr>syncer := (syncer canceled_runtime)
     \<lparr>xmr_addr_addendum := Some (XmrAddressAddendum [6] [7] 40)\<rparr>\<rparr>"

theorem checkpoint_restores_witness:
  "\<exists>t. restore_checkpoint (checkpoint_of example_core None BobCanceled locking_runtime)
         (example_runtime (StartMaker Alice) (example_client [] []) []) = (Ok (), t)
     \<and> swap_state t = BobCanceled \<and> hm_get (rt_txs t) Refund = Some (BtcTx [33])
     \<and> (\<exists>w. handed (Syncer Monero Testnet) (WatchHeightTask w) t)
     \<and> (\<exists>w. handed (Syncer Monero Testnet) (WatchAddressTask w) t
          \<and> wa_addendum w = MoneroAddendum (XmrAddressAddendum [6] [7] 40))"
proof -
  let ?fresh = "example_runtime (StartMaker Alice) (example_client [] []) []"
  have "reliable ?fresh" "distinct (map fst (rt_txs locking_runtime))"
      "distinct (map fst (txids (tasks (syncer locking_runtime))))"
      "hm_get (rt_txs locking_runtime) Refund = Some (BtcTx [33])"
      "monero_syncer (syncer ?fresh) = Syncer Monero Testnet"
      "xmr_addr_addendum (syncer locking_runtime) = Some (XmrAddressAddendum [6] [7] 40)"
    by (simp_all add: reliable_def locking_runtime_def canceled_runtime_def example_defs)
  then show ?thesis
    using checkpoint_restores [of ?fresh locking_runtime example_core None BobCanceled] by fastforce
qed

end
