(* ===== verification/SwapGuards.thy ===== *)
theory SwapGuards
  imports SwapSends
begin

text \<open>
  What a swap daemon lets in and keeps: the checks on messages of peers, the queue of messages that
  could not be sent, the proofs behind the parameters of the counterparty, and the report it keeps.
\<close>

section \<open>The counterparty\<close>

definition buy_start :: runtime where
  "buy_start = example_runtime (StartMaker Alice) (example_client [] []) []"

text \<open>
  Property C15 (error): a swap daemon takes messages of its own counterparty for its own swap only.
  Every message of another peer, every message that names another swap, and every \<open>Abort\<close> is refused
  with an error and changes nothing. A message of the connection itself (\<open>Ping\<close>, \<open>Pong\<close>, \<open>PingPeer\<close>,
  \<open>Identity\<close>, the shutdown of the receiver), which has no swap id, is not refused: unless it comes from
  another peer, the check of the swap id makes the daemon panic, before the arm that would refuse it.
\<close>

theorem foreign_messages_are_refused:
  fixes s :: runtime and source :: service_id
  assumes "identity s = Swap sid"
  defines "foreign \<equiv> is_peer source \<and> source \<noteq> peer_service s"
  shows "(foreign \<longrightarrow> (\<exists>e. handle c now MsgBus source (P2p m) s = (Err e, s)))
    \<and> ((\<exists>other. peer_msg_swap_id m = (Ok other :: (error, swap_id) result) \<and> other \<noteq> sid)
         \<longrightarrow> (\<exists>e. handle c now MsgBus source (P2p m) s = (Err e, s)))
    \<and> ((\<exists>a. m = AbortPeer a) \<longrightarrow> (\<exists>e. handle c now MsgBus source (P2p m) s = (Err e, s)))
    \<and> (\<not> foreign \<and> (m = PingPeer \<or> m = PeerReceiverRuntimeShutdown \<or> (\<exists>x. m = Ping x) \<or> (\<exists>x. m = Pong x) \<or> (\<exists>x. m = Identity x))
         \<longrightarrow> (\<exists>p. handle c now MsgBus source (P2p m) s = (Panic p, s)))"
proof (intro conjI impI)
  have through: "\<exists>e. handle c now MsgBus source (P2p m) s = (Err e, s)"
    if "\<exists>e. handle_msg (machine c) source m s = (Err e, s)"
    using that by (auto simp: handle_def bind_def)
  show "\<exists>e. handle c now MsgBus source (P2p m) s = (Err e, s)" if "foreign"
    using that by (intro through) (auto simp: foreign_def handle_msg_def run_reads run_throw)
  show "\<exists>e. handle c now MsgBus source (P2p m) s = (Err e, s)"
    if "\<exists>other. peer_msg_swap_id m = (Ok other :: (error, swap_id) result) \<and> other \<noteq> sid"
    using that assms(1)
    by (intro through) (auto simp: handle_msg_def own_swap_id_def run_reads run_throw bind_def lift_res_def)
  show "\<exists>e. handle c now MsgBus source (P2p m) s = (Err e, s)" if "\<exists>a. m = AbortPeer a"
    using that assms(1)
    by (intro through) (auto simp: handle_msg_def own_swap_id_def run_reads run_throw bind_def lift_res_def)
  assume "\<not> foreign \<and> (m = PingPeer \<or> m = PeerReceiverRuntimeShutdown \<or> (\<exists>x. m = Ping x) \<or> (\<exists>x. m = Pong x) \<or> (\<exists>x. m = Identity x))"
  then show "\<exists>p. handle c now MsgBus source (P2p m) s = (Panic p, s)"
    by (auto simp: foreign_def handle_def handle_msg_def run_reads bind_def lift_res_def)
qed

theorem foreign_messages_are_refused_witness:
  "(\<exists>e. handle example_core 0 MsgBus (Peer 9 (NodeAddr [9] ''other'')) (P2p (DealNotFound 5)) buy_start = (Err e, buy_start))
   \<and> (\<exists>p. handle example_core 0 MsgBus (Peer 1 (NodeAddr [7] ''127.0.0.1:9735'')) (P2p PingPeer) buy_start = (Panic p, buy_start))"
proof -
  have start: "identity buy_start = Swap 5" and peer: "peer_service buy_start = Peer 1 (NodeAddr [7] ''127.0.0.1:9735'')"
    by (simp_all add: buy_start_def example_runtime_def)
  show ?thesis
    using foreign_messages_are_refused [OF start, of "Peer 9 (NodeAddr [9] ''other'')" example_core 0 "DealNotFound 5"]
      foreign_messages_are_refused [OF start, of "Peer 1 (NodeAddr [7] ''127.0.0.1:9735'')" example_core 0 PingPeer] peer
    by simp
qed

text \<open>
  A message to the counterparty is never dropped silently. When the call
  returns it was either sent, or it is last in the queue, the daemon knows it is disconnected, and
  farcasterd was asked to reconnect.
\<close>

theorem peer_messages_are_sent_or_queued:
  assumes "send_peer m s = (Ok (), t)"
  shows "outbox t = outbox s @ [Envelope MsgBus (identity s) (peer_service s) (P2p m)]
         \<and> pending_peer_request t = pending_peer_request s
       \<or> outbox t = outbox s @ [Envelope CtlBus (identity s) Farcasterd (Ctl (PeerdUnreachable (peer_service s)))]
         \<and> pending_peer_request t = pending_peer_request s @ [m] \<and> \<not> connected t"
proof -
  have "wp (send_peer m) (\<lambda>_ t. outbox t = outbox s @ [Envelope MsgBus (identity s) (peer_service s) (P2p m)]
         \<and> pending_peer_request t = pending_peer_request s
       \<or> outbox t = outbox s @ [Envelope CtlBus (identity s) Farcasterd (Ctl (PeerdUnreachable (peer_service s)))]
         \<and> pending_peer_request t = pending_peer_request s @ [m] \<and> \<not> connected t) (\<lambda>_ _. True) s"
    by (auto simp: wp_simps send_peer_def Let_def)
  then show ?thesis using assms by (rule wp_OkD)
qed

text \<open>A daemon whose messages to peers cannot be sent.\<close>

definition offline_runtime :: "peer_msg list \<Rightarrow> runtime" where
  "offline_runtime pending = buy_start\<lparr>pending_peer_request := pending,
     link := (\<lambda>_ e. case e of Envelope MsgBus _ _ _ \<Rightarrow> False | _ \<Rightarrow> True)\<rparr>"

lemma offline_send:
  "\<exists>t. send_peer m (offline_runtime ms) = (Ok (), t) \<and> \<not> connected t \<and> (\<forall>e \<in> set (outbox t). peer_message e = None)"
  by (simp add: send_peer_def run_handlers example_defs offline_runtime_def buy_start_def)

theorem peer_messages_are_sent_or_queued_witness:
  "\<exists>t. send_peer (DealNotFound 5) (offline_runtime []) = (Ok (), t)
     \<and> pending_peer_request t = [DealNotFound 5] \<and> \<not> connected t"
proof -
  obtain t where t: "send_peer (DealNotFound 5) (offline_runtime []) = (Ok (), t)"
      "\<forall>e \<in> set (outbox t). peer_message e = None"
    using offline_send by blast
  have "pending_peer_request (offline_runtime []) = []" by (simp add: offline_runtime_def)
  then show ?thesis using peer_messages_are_sent_or_queued [OF t(1)] t by auto
qed

text \<open>What the loop over the queue leaves behind of a message.\<close>

definition sent_or_told :: "service_id \<Rightarrow> service_id \<Rightarrow> peer_msg \<Rightarrow> runtime \<Rightarrow> bool" where
  "sent_or_told me peer m t \<longleftrightarrow> Envelope MsgBus me peer (P2p m) \<in> set (outbox t)
     \<or> Envelope CtlBus me Farcasterd (Ctl (PeerdUnreachable peer)) \<in> set (outbox t)"

lemma resend_queue:
  "wp (for_each ms send_peer) (\<lambda>_ t. identity t = identity s \<and> peer_service t = peer_service s
       \<and> (\<exists>new. outbox t = outbox s @ new) \<and> (\<forall>m \<in> set ms. sent_or_told (identity s) (peer_service s) m t))
     (\<lambda>_ _. True) s"
proof (induction ms arbitrary: s)
  case Nil
  then show ?case by (simp add: wp_simps)
next
  case (Cons m ms)
  have "wp (send_peer m) (\<lambda>_ t. identity t = identity s \<and> peer_service t = peer_service s
       \<and> (\<exists>new. outbox t = outbox s @ new) \<and> sent_or_told (identity s) (peer_service s) m t) (\<lambda>_ _. True) s"
    by (auto simp: wp_simps send_peer_def Let_def sent_or_told_def)
  then have "wp (send_peer m) (\<lambda>_ t. wp (for_each ms send_peer) (\<lambda>_ u. identity u = identity s \<and> peer_service u = peer_service s
       \<and> (\<exists>new. outbox u = outbox s @ new) \<and> (\<forall>m \<in> set (m # ms). sent_or_told (identity s) (peer_service s) m u))
     (\<lambda>_ _. True) t) (\<lambda>_ _. True) s"
  proof (rule wp_conseq)
    fix t
    assume t: "identity t = identity s \<and> peer_service t = peer_service s
       \<and> (\<exists>new. outbox t = outbox s @ new) \<and> sent_or_told (identity s) (peer_service s) m t"
    show "wp (for_each ms send_peer) (\<lambda>_ u. identity u = identity s \<and> peer_service u = peer_service s
       \<and> (\<exists>new. outbox u = outbox s @ new) \<and> (\<forall>m \<in> set (m # ms). sent_or_told (identity s) (peer_service s) m u))
     (\<lambda>_ _. True) t"
      by (rule wp_conseq [OF Cons.IH [of t]]) (use t in \<open>auto simp: sent_or_told_def\<close>)
  qed simp
  then show ?case by (simp add: wp_bind)
qed

text \<open>
  A reconnection empties the queue. Each queued message was sent again, or its
  send failed and farcasterd was told once more; in the second case the message is lost, since the
  queue it was put back into is cleared.
\<close>

theorem reconnection_empties_queue:
  assumes "handle_ctl run source (PeerdReconnected peer) s = (Ok (), t)"
  shows "peer_service t = peer \<and> pending_peer_request t = []
     \<and> (\<forall>m \<in> set (pending_peer_request s).
          Envelope MsgBus (identity s) peer (P2p m) \<in> set (outbox t)
          \<or> Envelope CtlBus (identity s) Farcasterd (Ctl (PeerdUnreachable peer)) \<in> set (outbox t))"
proof -
  have ctl: "wp (handle_ctl run source (PeerdReconnected peer))
      (\<lambda>_ t. peer_service t = peer \<and> pending_peer_request t = []
         \<and> (\<forall>m \<in> set (pending_peer_request s). sent_or_told (identity s) peer m t)) (\<lambda>_ _. True) s"
    using resend_queue [where s = "s\<lparr>peer_service := peer, connected := True\<rparr>" and ms = "pending_peer_request s"]
    by (simp add: handle_ctl_def wp_simps) (erule wp_conseq; simp add: wp_simps sent_or_told_def)
  then show ?thesis using wp_OkD [OF ctl assms] by (simp add: sent_or_told_def)
qed

theorem reconnection_empties_queue_witness:
  "\<exists>t. handle_ctl (machine example_core) Farcasterd (PeerdReconnected (Peer 2 (NodeAddr [7] ''peer''))) (offline_runtime [DealNotFound 5])
       = (Ok (), t) \<and> pending_peer_request t = [] \<and> (\<forall>e \<in> set (outbox t). peer_message e = None)"
proof -
  obtain t where t: "handle_ctl (machine example_core) Farcasterd (PeerdReconnected (Peer 2 (NodeAddr [7] ''peer'')))
      (offline_runtime [DealNotFound 5]) = (Ok (), t)" "\<forall>e \<in> set (outbox t). peer_message e = None"
    by (simp add: handle_ctl_def send_peer_def run_handlers example_defs offline_runtime_def buy_start_def)
  then show ?thesis using reconnection_empties_queue [OF t(1)] by blast
qed

end
