(* ===== verification/Config.thy ===== *)
theory Config
  imports Basics
begin

text \<open>
  The configuration of a node (\<open>config.rs\<close>): what farcasterd reads from its file, the defaults of
  the thresholds per network, and the look-ups with their fall-backs. Reading and writing the file
  is left out. The parser of socket addresses (\<open>InetSocketAddr::from_str\<close>) is a parameter.
\<close>

section \<open>Constants\<close>

definition FARCASTER_BIND_PORT :: u16 where "FARCASTER_BIND_PORT = 7067"
definition FARCASTER_BIND_IP :: string where "FARCASTER_BIND_IP = ''0.0.0.0''"
definition GRPC_BIND_IP_ADDRESS :: string where "GRPC_BIND_IP_ADDRESS = ''127.0.0.1''"

definition SWAP_MAINNET_BITCOIN_SAFETY :: u8 where "SWAP_MAINNET_BITCOIN_SAFETY = 7"
definition SWAP_MAINNET_BITCOIN_FINALITY :: u8 where "SWAP_MAINNET_BITCOIN_FINALITY = 6"
definition SWAP_MAINNET_MONERO_FINALITY :: u8 where "SWAP_MAINNET_MONERO_FINALITY = 20"
definition SWAP_TESTNET_BITCOIN_SAFETY :: u8 where "SWAP_TESTNET_BITCOIN_SAFETY = 3"
definition SWAP_TESTNET_BITCOIN_FINALITY :: u8 where "SWAP_TESTNET_BITCOIN_FINALITY = 1"
definition SWAP_TESTNET_MONERO_FINALITY :: u8 where "SWAP_TESTNET_MONERO_FINALITY = 1"

lemmas swap_thresholds = SWAP_MAINNET_BITCOIN_SAFETY_def SWAP_MAINNET_BITCOIN_FINALITY_def
  SWAP_MAINNET_MONERO_FINALITY_def SWAP_TESTNET_BITCOIN_SAFETY_def SWAP_TESTNET_BITCOIN_FINALITY_def
  SWAP_TESTNET_MONERO_FINALITY_def

section \<open>Decimal text of numbers\<close>

fun decimal :: "nat \<Rightarrow> string" where
  "decimal n = (if n < 10 then [char_of (48 + n)] else decimal (n div 10) @ [char_of (48 + n mod 10)])"

declare decimal.simps [simp del]

section \<open>Data\<close>

record 'a networked =
  on_mainnet :: 'a
  on_testnet :: 'a
  on_local :: 'a

definition get_for_network :: "'a networked \<Rightarrow> network \<Rightarrow> 'a" where
  "get_for_network n net = (case net of
       Mainnet \<Rightarrow> on_mainnet n
     | Testnet \<Rightarrow> on_testnet n
     | Local \<Rightarrow> on_local n)"

datatype (plugins only: code size) arb_config = ArbConfig (ac_safety: u8) (ac_finality: u8)
datatype (plugins only: code size) acc_config = AccConfig (acc_finality: u8)

datatype (plugins only: code size) parsed_swap_config =
  ParsedSwapConfig (psc_arbitrating: arb_config) (psc_accordant: acc_config)

datatype (plugins only: code size) swap_config =
  SwapConfig (swc_bitcoin: "arb_config option networked") (swc_monero: "acc_config option networked")

datatype (plugins only: code size) auto_funding_servers =
  AutoFundingServers (afs_bitcoin_rpc: string) (afs_bitcoin_cookie_path: "string option")
    (afs_bitcoin_rpc_user: "string option") (afs_bitcoin_rpc_pass: "string option")
    (afs_monero_rpc_wallet: string)

datatype (plugins only: code size) auto_funding_config =
  AutoFundingConfig (afc_enable: bool) (afc_mainnet: "auto_funding_servers option")
    (afc_testnet: "auto_funding_servers option") (afc_local: "auto_funding_servers option")

datatype (plugins only: code size) farcasterd_config =
  FarcasterdConfig (fc_auto_funding: "auto_funding_config option") (fc_bind_port: "u16 option")
    (fc_bind_ip: "string option") (fc_auto_restore: "bool option")

datatype (plugins only: code size) grpc_config =
  GrpcConfig (gc_enable: bool) (gc_bind_port: u16) (gc_bind_ip: "string option")

datatype (plugins only: code size) syncer_servers =
  SyncerServers (sys_electrum_server: string) (sys_monero_daemon: string)
    (sys_monero_rpc_wallet: string) (sys_monero_lws: "string option")
    (sys_monero_wallet_dir: "string option")

record config =
  cfg_farcasterd :: "farcasterd_config option"
  cfg_swap :: "swap_config option"
  cfg_grpc :: "grpc_config option"
  cfg_syncers :: "syncer_servers option networked option"

section \<open>Defaults\<close>

definition btc_mainnet_default :: arb_config where
  "btc_mainnet_default = ArbConfig SWAP_MAINNET_BITCOIN_SAFETY SWAP_MAINNET_BITCOIN_FINALITY"

definition btc_testnet_default :: arb_config where
  "btc_testnet_default = ArbConfig SWAP_TESTNET_BITCOIN_SAFETY SWAP_TESTNET_BITCOIN_FINALITY"

fun get_arb_config :: "arbitrating_blockchain \<Rightarrow> network \<Rightarrow> arb_config option" where
  "get_arb_config ArbBitcoin Mainnet = Some btc_mainnet_default"
| "get_arb_config ArbBitcoin Testnet = Some btc_testnet_default"
| "get_arb_config ArbBitcoin Local = None"

definition xmr_mainnet_default :: acc_config where
  "xmr_mainnet_default = AccConfig SWAP_MAINNET_MONERO_FINALITY"

definition xmr_testnet_default :: acc_config where
  "xmr_testnet_default = AccConfig SWAP_TESTNET_MONERO_FINALITY"

fun get_acc_config :: "accordant_blockchain \<Rightarrow> network \<Rightarrow> acc_config option" where
  "get_acc_config AccMonero Mainnet = Some xmr_mainnet_default"
| "get_acc_config AccMonero Testnet = Some xmr_testnet_default"
| "get_acc_config AccMonero Local = None"

definition acc_config_from :: "arb_config \<Rightarrow> acc_config" where
  "acc_config_from arb = AccConfig (ac_finality arb)"

definition default_swap_config :: swap_config where
  "default_swap_config = SwapConfig
     \<lparr>on_mainnet = Some btc_mainnet_default, on_testnet = Some btc_testnet_default, on_local = None\<rparr>
     \<lparr>on_mainnet = Some xmr_mainnet_default, on_testnet = Some xmr_testnet_default, on_local = None\<rparr>"

definition default_farcasterd_config :: farcasterd_config where
  "default_farcasterd_config =
     FarcasterdConfig None (Some FARCASTER_BIND_PORT) (Some FARCASTER_BIND_IP) (Some True)"

definition default_config :: config where
  "default_config = \<lparr>
     cfg_farcasterd = Some default_farcasterd_config,
     cfg_swap = Some default_swap_config,
     cfg_grpc = None,
     cfg_syncers = Some \<lparr>
       on_mainnet = Some (SyncerServers ''ssl://blockstream.info:700'' ''http://node.community.rino.io:18081''
         ''http://localhost:18083'' None None),
       on_testnet = Some (SyncerServers ''ssl://blockstream.info:993'' ''http://stagenet.community.rino.io:38081''
         ''http://localhost:38083'' None None),
       on_local = None\<rparr>\<rparr>"

section \<open>Look-ups\<close>

definition is_auto_funding_enable :: "config \<Rightarrow> bool" where
  "is_auto_funding_enable cfg = (case cfg_farcasterd cfg of
       Some fc \<Rightarrow> (case fc_auto_funding fc of Some af \<Rightarrow> afc_enable af | None \<Rightarrow> False)
     | None \<Rightarrow> False)"

definition is_grpc_enable :: "config \<Rightarrow> bool" where
  "is_grpc_enable cfg = (case cfg_grpc cfg of Some g \<Rightarrow> gc_enable g | None \<Rightarrow> False)"

definition grpc_bind_ip :: "config \<Rightarrow> string" where
  "grpc_bind_ip cfg = (case Option.bind (cfg_grpc cfg) gc_bind_ip of
       Some ip \<Rightarrow> ip
     | None \<Rightarrow> GRPC_BIND_IP_ADDRESS)"

definition auto_restore_enable :: "config \<Rightarrow> bool" where
  "auto_restore_enable cfg = (case Option.bind (cfg_farcasterd cfg) fc_auto_restore of
       Some enable \<Rightarrow> enable
     | None \<Rightarrow> True)"

definition get_auto_funding_config :: "config \<Rightarrow> network \<Rightarrow> auto_funding_servers option" where
  "get_auto_funding_config cfg net = (case Option.bind (cfg_farcasterd cfg) fc_auto_funding of
       Some af \<Rightarrow> if afc_enable af then (case net of
           Mainnet \<Rightarrow> afc_mainnet af
         | Testnet \<Rightarrow> afc_testnet af
         | Local \<Rightarrow> afc_local af) else None
     | None \<Rightarrow> None)"

definition get_bind_addr :: "(string \<Rightarrow> string + string) \<Rightarrow> config \<Rightarrow> (error, string) result" where
  "get_bind_addr inet_from_str cfg =
     (let addr = (case cfg_farcasterd cfg of
          Some fc \<Rightarrow> (case fc_bind_ip fc of Some ip \<Rightarrow> ip | None \<Rightarrow> FARCASTER_BIND_IP) @ '':''
            @ decimal (unat (case fc_bind_port fc of Some port \<Rightarrow> port | None \<Rightarrow> FARCASTER_BIND_PORT))
        | None \<Rightarrow> FARCASTER_BIND_IP @ '':'' @ decimal (unat FARCASTER_BIND_PORT))
      in case inet_from_str addr of
           Inr a \<Rightarrow> Ok a
         | Inl e \<Rightarrow> Err (FarcasterErr (TOpaque e)))"

definition get_syncer_servers :: "config \<Rightarrow> network \<Rightarrow> syncer_servers option" where
  "get_syncer_servers cfg net = Option.bind (cfg_syncers cfg) (\<lambda>n. get_for_network n net)"

text \<open>\<open>opt.or_else(..)\<close> and \<open>opt.ok_or(ConfigError::Message(..))\<close>.\<close>

definition or_else :: "'a option \<Rightarrow> 'a option \<Rightarrow> 'a option" where
  "or_else x y = (case x of Some v \<Rightarrow> Some v | None \<Rightarrow> y)"

definition ok_or_config :: "string \<Rightarrow> 'a option \<Rightarrow> (error, 'a) result" where
  "ok_or_config msg x = (case x of Some v \<Rightarrow> Ok v | None \<Rightarrow> Err (ConfigErr msg))"

definition get_swap_config ::
  "config \<Rightarrow> arbitrating_blockchain \<Rightarrow> accordant_blockchain \<Rightarrow> network \<Rightarrow> (error, parsed_swap_config) result" where
  "get_swap_config cfg arb acc net = (case cfg_swap cfg of
       Some swap \<Rightarrow>
         rbind (ok_or_config ''No configuration nor defaults founds!''
             (or_else (get_for_network (swc_bitcoin swap) net) (get_arb_config arb net))) (\<lambda>arbitrating.
         rbind (ok_or_config ''No configuration nor defaults founds!''
             (or_else (get_for_network (swc_monero swap) net) (get_acc_config acc net))) (\<lambda>accordant.
         Ok (ParsedSwapConfig arbitrating accordant)))
     | None \<Rightarrow>
         rbind (ok_or_config ''No defaults founds!'' (get_arb_config arb net)) (\<lambda>arbitrating.
         rbind (ok_or_config ''No defaults founds!'' (get_acc_config acc net)) (\<lambda>accordant.
         Ok (ParsedSwapConfig arbitrating accordant))))"

lemmas config_defs = get_for_network_def or_else_def ok_or_config_def get_swap_config_def
  default_config_def default_swap_config_def default_farcasterd_config_def
  btc_mainnet_default_def btc_testnet_default_def xmr_mainnet_default_def xmr_testnet_default_def

section \<open>Thresholds\<close>

text \<open>Off the local network, the thresholds are those of the file or the defaults: never an error.\<close>

lemma swap_config_found:
  assumes "net \<noteq> Local"
  shows "\<exists>p. get_swap_config cfg arb acc net = Ok p"
  using assms by (cases net; cases arb; cases acc) (auto simp: config_defs split: option.split)

text \<open>A value in the file is the one that is used.\<close>

lemma swap_config_from_file:
  assumes "cfg_swap cfg = Some swap" and "get_for_network (swc_bitcoin swap) net = Some a"
    and "get_for_network (swc_monero swap) net = Some b"
  shows "get_swap_config cfg arb acc net = Ok (ParsedSwapConfig a b)"
  using assms by (simp add: config_defs)

end
