(* ===== verification/Stats.thy ===== *)
theory Stats
  imports Messages
begin

text \<open>
  \<open>farcasterd/stats.rs\<close>: the counters farcasterd keeps of its swaps. Counters are \<open>u64\<close>; the two
  sets hold the swaps that still wait for funds. Warnings about swaps that were or were not waiting
  are log lines and left out, and so is \<open>success_rate\<close>, whose value is only logged.
\<close>

definition no_stats :: stats where
  "no_stats = \<lparr>st_success = 0, st_refund = 0, st_punish = 0, st_abort = 0, st_initialized = 0,
     st_awaiting_funding_btc = [], st_awaiting_funding_xmr = [], st_funded_xmr = 0, st_funded_btc = 0,
     st_funding_canceled_xmr = 0, st_funding_canceled_btc = 0\<rparr>"

definition incr_outcome :: "outcome \<Rightarrow> stats \<Rightarrow> stats" where
  "incr_outcome out s = (case out of
       SuccessSwap \<Rightarrow> s\<lparr>st_success := st_success s + 1\<rparr>
     | FailureRefund \<Rightarrow> s\<lparr>st_refund := st_refund s + 1\<rparr>
     | FailurePunish \<Rightarrow> s\<lparr>st_punish := st_punish s + 1\<rparr>
     | FailureAbort \<Rightarrow> s\<lparr>st_abort := st_abort s + 1\<rparr>)"

definition incr_initiated :: "stats \<Rightarrow> stats" where
  "incr_initiated s = s\<lparr>st_initialized := st_initialized s + 1\<rparr>"

definition incr_awaiting_funding :: "blockchain \<Rightarrow> swap_id \<Rightarrow> stats \<Rightarrow> stats" where
  "incr_awaiting_funding b i s = (case b of
       Monero \<Rightarrow> s\<lparr>st_awaiting_funding_xmr := hs_insert i (st_awaiting_funding_xmr s)\<rparr>
     | Bitcoin \<Rightarrow> s\<lparr>st_awaiting_funding_btc := hs_insert i (st_awaiting_funding_btc s)\<rparr>)"

definition incr_funded :: "blockchain \<Rightarrow> swap_id \<Rightarrow> stats \<Rightarrow> stats" where
  "incr_funded b i s = (case b of
       Monero \<Rightarrow> s\<lparr>st_funded_xmr := st_funded_xmr s + 1,
         st_awaiting_funding_xmr := hs_remove i (st_awaiting_funding_xmr s)\<rparr>
     | Bitcoin \<Rightarrow> s\<lparr>st_funded_btc := st_funded_btc s + 1,
         st_awaiting_funding_btc := hs_remove i (st_awaiting_funding_btc s)\<rparr>)"

definition incr_funding_canceled :: "blockchain \<Rightarrow> swap_id \<Rightarrow> stats \<Rightarrow> stats" where
  "incr_funding_canceled b i s = (case b of
       Monero \<Rightarrow> s\<lparr>st_awaiting_funding_xmr := hs_remove i (st_awaiting_funding_xmr s),
         st_funding_canceled_xmr := st_funding_canceled_xmr s + 1\<rparr>
     | Bitcoin \<Rightarrow> s\<lparr>st_awaiting_funding_btc := hs_remove i (st_awaiting_funding_btc s),
         st_funding_canceled_btc := st_funding_canceled_btc s + 1\<rparr>)"

lemmas stats_defs = no_stats_def incr_outcome_def incr_initiated_def incr_awaiting_funding_def
  incr_funded_def incr_funding_canceled_def

section \<open>Counters\<close>

fun awaiting_funding_of :: "blockchain \<Rightarrow> stats \<Rightarrow> swap_id hash_set" where
  "awaiting_funding_of Monero s = st_awaiting_funding_xmr s"
| "awaiting_funding_of Bitcoin s = st_awaiting_funding_btc s"

fun outcome_count :: "outcome \<Rightarrow> stats \<Rightarrow> u64" where
  "outcome_count SuccessSwap s = st_success s"
| "outcome_count FailureRefund s = st_refund s"
| "outcome_count FailurePunish s = st_punish s"
| "outcome_count FailureAbort s = st_abort s"

lemma outcome_count_incr [simp]:
  "outcome_count p (incr_outcome out s) = outcome_count p s + (if p = out then 1 else 0)"
  by (cases p; cases out) (simp_all add: incr_outcome_def)

text \<open>A swap waits for funds on a chain from its request to its funding or to the cancellation.\<close>

lemma awaiting_funding_incr [simp]:
  "set (awaiting_funding_of b (incr_awaiting_funding b' i s))
     = set (awaiting_funding_of b s) \<union> (if b = b' then {i} else {})"
  "set (awaiting_funding_of b (incr_funded b' i s))
     = set (awaiting_funding_of b s) - (if b = b' then {i} else {})"
  "set (awaiting_funding_of b (incr_funding_canceled b' i s))
     = set (awaiting_funding_of b s) - (if b = b' then {i} else {})"
  "awaiting_funding_of b (incr_outcome out s) = awaiting_funding_of b s"
  "awaiting_funding_of b (incr_initiated s) = awaiting_funding_of b s"
  by (cases b; cases b'; cases out; auto simp: stats_defs)+

end
