(* ===== verification/Farcasterd.thy ===== *)
theory Farcasterd
  imports Esb Config Stats
begin

text \<open>
  The state of farcasterd (\<open>Runtime\<close> of \<open>farcasterd/runtime.rs\<close>) with the states of its two kinds
  of state machine (\<open>farcasterd/trade_state_machine.rs\<close>, \<open>farcasterd/syncer_state_machine.rs\<close>), and
  the operations on it that the machines call: the services it has launched and registered, its
  connections to peers, the syncers, and the clean-up when a swap or a syncer is no longer used.

  The world around it is part of the state, as functions of the number of the call: whether a
  launched process starts and stays up, and what the wallets used for automatic funding answer.
\<close>

section \<open>The crates and the operating system\<close>

text \<open>What farcasterd calls of \<open>farcaster_core\<close>, \<open>internet2\<close> and \<open>bitcoin\<close>.\<close>

record node_functions =
  deal_id :: "deal \<Rightarrow> u128"
  deal_text :: "deal \<Rightarrow> string"
  to_v1 :: "deal_parameters \<Rightarrow> btc_pubkey \<Rightarrow> string \<Rightarrow> deal"
  node_id_from :: "btc_pubkey \<Rightarrow> node_id"
  node_public_key_of :: "node_id \<Rightarrow> btc_pubkey"
  inet_from_str :: "string \<Rightarrow> string + string"
  inet_address :: "string \<Rightarrow> string"
  inet_port :: "string \<Rightarrow> u16 option"
  txid_from_slice :: "bytes \<Rightarrow> txid option"
  to_hex :: "bytes \<Rightarrow> string"
  uuid_text :: "u128 \<Rightarrow> string"
  node_addr_text :: "node_addr \<Rightarrow> string"
  blockchain_text :: "blockchain \<Rightarrow> string"
  network_text :: "network \<Rightarrow> string"
  trade_role_text :: "trade_role \<Rightarrow> string"
  expand_tilde :: "string \<Rightarrow> string"

text \<open>What \<open>spawn\<close> and \<open>try_wait\<close> say of a process: it does not start, its status cannot be read, it
  runs, or it has already ended.\<close>

datatype spawned = NotSpawned | NoStatus | StillRunning | EndedAlready

datatype rpc_auth = CookieFile string | UserPass string string

record world =
  spawn :: "nat \<Rightarrow> string \<Rightarrow> string list \<Rightarrow> spawned"
  bitcoin_client :: "string \<Rightarrow> rpc_auth \<Rightarrow> bool"
  send_to_address :: "nat \<Rightarrow> btc_address \<Rightarrow> u64 \<Rightarrow> string + txid"
  monero_client :: "string \<Rightarrow> bool"
  wallet_transfer :: "nat \<Rightarrow> xmr_address \<Rightarrow> u64 \<Rightarrow> string + txid"

text \<open>The options farcasterd forwards to what it launches.\<close>

record shared_options =
  so_data_dir :: "string option"
  so_msg_socket :: "string option"
  so_ctl_socket :: "string option"
  so_info_socket :: "string option"
  so_sync_socket :: "string option"
  so_tor_proxy :: "string option"

section \<open>State machines for requests to syncers\<close>

record awaiting_syncer =
  aws_source :: service_id
  aws_syncer :: service_id
  aws_syncer_task :: task
  aws_syncer_task_id :: task_id

record awaiting_syncer_request =
  awr_source :: service_id
  awr_syncer :: service_id
  awr_syncer_task_id :: task_id

datatype (plugins only: code size) syncer_state_machine =
    SyncerStart
  | AwaitingSyncer awaiting_syncer
  | AwaitingSyncerRequest awaiting_syncer_request

fun ssm_task_id :: "syncer_state_machine \<Rightarrow> task_id option" where
  "ssm_task_id (AwaitingSyncer a) = Some (aws_syncer_task_id a)"
| "ssm_task_id (AwaitingSyncerRequest a) = Some (awr_syncer_task_id a)"
| "ssm_task_id SyncerStart = None"

fun ssm_syncer :: "syncer_state_machine \<Rightarrow> service_id option" where
  "ssm_syncer (AwaitingSyncer a) = Some (aws_syncer a)"
| "ssm_syncer (AwaitingSyncerRequest a) = Some (awr_syncer a)"
| "ssm_syncer SyncerStart = None"

section \<open>State machines for trades\<close>

record make_deal =
  md_deal :: deal
  md_arb_addr :: btc_address
  md_acc_addr :: xmr_address

record tsm_taker_commit =
  tc_peerd :: service_id
  tc_deal :: deal
  tc_commit :: commit
  tc_target_bitcoin_address :: btc_address
  tc_target_monero_address :: xmr_address

record taker_connect =
  tco_deal :: deal
  tco_arb_addr :: btc_address
  tco_acc_addr :: xmr_address
  tco_source :: service_id

record take_deal =
  td_deal :: deal
  td_arb_addr :: btc_address
  td_acc_addr :: xmr_address
  td_peerd :: service_id

datatype (plugins only: code size) consumed_deal_role = ConsumedTaker | ConsumedMaker commit

fun trade_role_from :: "consumed_deal_role \<Rightarrow> trade_role" where
  "trade_role_from ConsumedTaker = Taker"
| "trade_role_from (ConsumedMaker _) = Maker"

record swapd_launched =
  sl_peerd :: service_id
  sl_deal :: deal
  sl_swap_id :: swap_id
  sl_arbitrating_syncer_up :: "service_id option"
  sl_accordant_syncer_up :: "service_id option"
  sl_swapd_up :: bool
  sl_consumed_deal_role :: consumed_deal_role
  sl_peerd_reconnected :: bool
  sl_key_manager :: key_manager
  sl_target_bitcoin_address :: btc_address
  sl_target_monero_address :: xmr_address

record restoring_swapd =
  rs_swap_id :: swap_id
  rs_deal :: deal
  rs_trade_role :: trade_role
  rs_expected_counterparty_node_id :: "node_id option"
  rs_arbitrating_syncer_up :: "service_id option"
  rs_accordant_syncer_up :: "service_id option"
  rs_swapd_up :: bool
  rs_expect_connection :: bool
  rs_peerd :: "service_id option"
  rs_listening :: bool

record swapd_running =
  sr_peerd :: "service_id option"
  sr_deal :: deal
  sr_arbitrating_syncer :: service_id
  sr_accordant_syncer :: service_id
  sr_swap_id :: swap_id
  sr_funding_info :: "funding_info option"
  sr_auto_funded :: bool
  sr_clients_awaiting_connect_result :: "service_id list"
  sr_trade_role :: trade_role
  sr_expected_counterparty_node_id :: "node_id option"

datatype (plugins only: code size) trade_state_machine =
    TradeStartMaker
  | TradeStartTaker
  | TradeStartRestore
  | TradeTakerConnect taker_connect
  | TradeMakeDeal make_deal
  | TradeTakerCommit tsm_taker_commit
  | TradeTakeDeal take_deal
  | RestoringSwapd restoring_swapd
  | SwapdLaunched swapd_launched
  | SwapdRunning swapd_running

fun open_deal :: "trade_state_machine \<Rightarrow> deal option" where
  "open_deal (TradeMakeDeal m) = Some (md_deal m)"
| "open_deal _ = None"

fun consumed_deal :: "trade_state_machine \<Rightarrow> deal option" where
  "consumed_deal (TradeTakeDeal t) = Some (td_deal t)"
| "consumed_deal (TradeTakerCommit t) = Some (tc_deal t)"
| "consumed_deal (TradeTakerConnect t) = Some (tco_deal t)"
| "consumed_deal (SwapdLaunched t) = Some (sl_deal t)"
| "consumed_deal (RestoringSwapd t) = Some (rs_deal t)"
| "consumed_deal (SwapdRunning t) = Some (sr_deal t)"
| "consumed_deal _ = None"

fun tsm_swap_id :: "trade_state_machine \<Rightarrow> swap_id option" where
  "tsm_swap_id (SwapdLaunched t) = Some (sl_swap_id t)"
| "tsm_swap_id (RestoringSwapd t) = Some (rs_swap_id t)"
| "tsm_swap_id (SwapdRunning t) = Some (sr_swap_id t)"
| "tsm_swap_id _ = None"

fun opt_list :: "'a option \<Rightarrow> 'a list" where
  "opt_list None = []"
| "opt_list (Some x) = [x]"

fun tsm_syncers :: "trade_state_machine \<Rightarrow> service_id list" where
  "tsm_syncers (SwapdLaunched t) = opt_list (sl_arbitrating_syncer_up t) @ opt_list (sl_accordant_syncer_up t)"
| "tsm_syncers (SwapdRunning t) = [sr_arbitrating_syncer t, sr_accordant_syncer t]"
| "tsm_syncers _ = []"

fun get_connection :: "trade_state_machine \<Rightarrow> service_id option" where
  "get_connection (TradeTakeDeal t) = Some (td_peerd t)"
| "get_connection (TradeTakerCommit t) = Some (tc_peerd t)"
| "get_connection (SwapdLaunched t) = Some (sl_peerd t)"
| "get_connection (SwapdRunning t) = sr_peerd t"
| "get_connection _ = None"

definition get_swap_id_with_matching_connection ::
  "trade_state_machine \<Rightarrow> service_id \<Rightarrow> swap_id option" where
  "get_swap_id_with_matching_connection tsm source = (case get_connection tsm of
       Some peer \<Rightarrow> if peer = source then tsm_swap_id tsm else None
     | None \<Rightarrow> None)"

definition node_addr_from_deal :: "deal \<Rightarrow> node_addr" where
  "node_addr_from_deal d = NodeAddr (deal_node_id d) (deal_peer_address d)"

fun awaiting_connect_from :: "trade_state_machine \<Rightarrow> node_addr option" where
  "awaiting_connect_from (TradeTakerConnect t) = Some (node_addr_from_deal (tco_deal t))"
| "awaiting_connect_from (RestoringSwapd t) =
     (if rs_trade_role t = Taker \<and> rs_expect_connection t then Some (node_addr_from_deal (rs_deal t)) else None)"
| "awaiting_connect_from (SwapdRunning t) =
     (if sr_trade_role t = Taker \<and> sr_peerd t = None then Some (node_addr_from_deal (sr_deal t)) else None)"
| "awaiting_connect_from _ = None"

fun needs_funding_monero :: "trade_state_machine \<Rightarrow> monero_funding_info option" where
  "needs_funding_monero (SwapdRunning t) = (case (sr_funding_info t, sr_auto_funded t) of
       (Some (MoneroFunding info), False) \<Rightarrow> Some info
     | _ \<Rightarrow> None)"
| "needs_funding_monero _ = None"

fun needs_funding_bitcoin :: "trade_state_machine \<Rightarrow> bitcoin_funding_info option" where
  "needs_funding_bitcoin (SwapdRunning t) = (case (sr_funding_info t, sr_auto_funded t) of
       (Some (BitcoinFunding info), False) \<Rightarrow> Some info
     | _ \<Rightarrow> None)"
| "needs_funding_bitcoin _ = None"

fun needs_funding :: "trade_state_machine \<Rightarrow> blockchain \<Rightarrow> funding_info option" where
  "needs_funding tsm Monero = map_option MoneroFunding (needs_funding_monero tsm)"
| "needs_funding tsm Bitcoin = map_option BitcoinFunding (needs_funding_bitcoin tsm)"

section \<open>The state\<close>

record farcasterd = daemon +
  wallet_token :: token
  fd_started :: int
  auto_restored :: bool
  node_secret_key :: "btc_privkey option"
  node_public_key :: "btc_pubkey option"
  listens :: "string hash_set"
  spawning_services :: "service_id hash_set"
  registered_services :: "service_id hash_set"
  deals :: "deal hash_set"
  progress_queues :: "(service_id, progress_stack list) hash_map"
  progress_subscriptions :: "(service_id, service_id hash_set) hash_map"
  fd_stats :: stats
  config :: config
  syncer_task_counter :: u32
  trade_state_machines :: "trade_state_machine list"
  syncer_state_machines :: "(task_id, syncer_state_machine) hash_map"
  shared_opts :: shared_options
  the_world :: world
  launched :: "(string \<times> string list) list"
  bitcoin_payments :: "(btc_address \<times> u64 \<times> (string + txid)) list"
  monero_payments :: "(xmr_address \<times> u64 \<times> (string + txid)) list"

type_synonym 'a fd_action = "(farcasterd, error, 'a) action"

definition on_stats :: "(stats \<Rightarrow> stats) \<Rightarrow> unit fd_action" where
  "on_stats f = modify (\<lambda>s. s\<lparr>fd_stats := f (fd_stats s)\<rparr>)"

section \<open>Processes\<close>

definition option_args :: "string \<Rightarrow> string option \<Rightarrow> string list" where
  "option_args flag x = (case x of Some v \<Rightarrow> [flag, v] | None \<Rightarrow> [])"

definition launch_args :: "shared_options \<Rightarrow> string list \<Rightarrow> string list" where
  "launch_args so args = option_args ''-d'' (so_data_dir so) @ option_args ''-m'' (so_msg_socket so)
     @ option_args ''-x'' (so_ctl_socket so) @ option_args ''-i'' (so_info_socket so)
     @ option_args ''-S'' (so_sync_socket so) @ option_args ''-T'' (so_tor_proxy so) @ args"

text \<open>\<open>launch\<close>, with what a \<open>try_wait\<close> on the child would return.\<close>

definition launch :: "string \<Rightarrow> string list \<Rightarrow> spawned fd_action" where
  "launch name args = (\<lambda>s.
     let full = launch_args (shared_opts s) args;
         child = spawn (the_world s) (length (launched s)) name full;
         s' = s\<lparr>launched := launched s @ [(name, full)]\<rparr>
     in (if child = NotSpawned then Err (IoErr ''spawn'') else Ok child, s'))"

text \<open>\<open>child.and_then(|c| c.try_wait()..)?\<close> and the check that the process is still up.\<close>

definition check_up :: "spawned \<Rightarrow> unit fd_action" where
  "check_up child = (case child of
       NoStatus \<Rightarrow> throw (IoErr ''try_wait'')
     | EndedAlready \<Rightarrow> throw (PeerErr ''InvalidEndpoint'')
     | _ \<Rightarrow> skip)"

text \<open>\<open>opt.ok_or(Error::Farcaster(..))\<close>.\<close>

definition some_or_fail :: "string \<Rightarrow> 'a option \<Rightarrow> (error, 'a) result" where
  "some_or_fail msg x = (case x of Some v \<Rightarrow> Ok v | None \<Rightarrow> Err (FarcasterErr (Fmt msg [])))"

text \<open>\<open>iter().filter(..)\<close> with a closure that sends: what is kept.\<close>

fun retain :: "('x \<Rightarrow> ('s, 'e, bool) action) \<Rightarrow> 'x list \<Rightarrow> ('s, 'e, 'x list) action" where
  "retain p [] = ret []"
| "retain p (x # xs) = bind (p x) (\<lambda>b. bind (retain p xs) (\<lambda>ys. ret (if b then x # ys else ys)))"

section \<open>Services\<close>

definition services_ready :: "farcasterd \<Rightarrow> (error, unit) result" where
  "services_ready s =
     (if Walletd \<notin> set (registered_services s)
      then Err (FarcasterErr (Fmt ''Farcaster not ready yet, walletd still starting'' []))
      else if Database \<notin> set (registered_services s)
      then Err (FarcasterErr (Fmt ''Farcaster not ready yet, databased still starting'' []))
      else Ok ())"

definition peer_keys_ready :: "farcasterd \<Rightarrow> (error, btc_privkey \<times> btc_pubkey) result" where
  "peer_keys_ready s = (case (node_secret_key s, node_public_key s) of
       (Some sk, Some pk) \<Rightarrow> Ok (sk, pk)
     | _ \<Rightarrow> Err (FarcasterErr (Fmt ''Peer keys not ready yet'' [])))"

definition forget_spawning_peer :: "service_id \<Rightarrow> farcasterd \<Rightarrow> farcasterd" where
  "forget_spawning_peer connection s = (case service_node_addr connection of
       Some addr \<Rightarrow> s\<lparr>spawning_services := hs_remove (dummy_peer_service_id addr) (spawning_services s)\<rparr>
     | None \<Rightarrow> s)"

definition handle_new_connection :: "service_id \<Rightarrow> unit fd_action" where
  "handle_new_connection connection = modify (\<lambda>s.
     let t = forget_spawning_peer connection s
     in t\<lparr>registered_services := hs_insert connection (registered_services t)\<rparr>)"

definition handle_failed_connection :: "service_id \<Rightarrow> unit fd_action" where
  "handle_failed_connection connection = steps [
     modify (forget_spawning_peer connection),
     modify (\<lambda>s. s\<lparr>registered_services := hs_remove connection (registered_services s)\<rparr>),
     send_from_self CtlBus connection (Ctl TerminateCtl)] skip"

definition consumed_deals_contains :: "node_functions \<Rightarrow> farcasterd \<Rightarrow> deal \<Rightarrow> bool" where
  "consumed_deals_contains n s d =
     list_ex (\<lambda>d'. deal_id n d' = deal_id n d) (List.map_filter consumed_deal (trade_state_machines s))"

definition running_swaps_contain :: "farcasterd \<Rightarrow> swap_id \<Rightarrow> bool" where
  "running_swaps_contain s i = list_ex (\<lambda>i'. i' = i) (List.map_filter tsm_swap_id (trade_state_machines s))"

definition syncer_has_client :: "farcasterd \<Rightarrow> service_id \<Rightarrow> bool" where
  "syncer_has_client s syncerd =
     (list_ex (\<lambda>tsm. list_ex (\<lambda>x. x = syncerd) (tsm_syncers tsm)) (trade_state_machines s)
      \<or> list_ex (\<lambda>x. x = syncerd) (List.map_filter (\<lambda>e. ssm_syncer (snd e)) (syncer_state_machines s)))"

definition connection_has_swap_client :: "farcasterd \<Rightarrow> service_id \<Rightarrow> bool" where
  "connection_has_swap_client s peerd =
     list_ex (\<lambda>x. x = peerd) (List.map_filter get_connection (trade_state_machines s))"

definition get_open_connections :: "farcasterd \<Rightarrow> node_addr list" where
  "get_open_connections s = List.map_filter service_node_addr (registered_services s)"

fun is_syncer :: "service_id \<Rightarrow> bool" where
  "is_syncer (Syncer _ _) = True"
| "is_syncer _ = False"

text \<open>Terminate a service: it stays registered when it cannot be told.\<close>

definition terminate_service :: "service_id \<Rightarrow> bool fd_action" where
  "terminate_service service = bind (attempt (send_from_self CtlBus service (Ctl TerminateCtl)))
     (\<lambda>r. ret (isl r))"

definition clean_up_after_swap :: "swap_id \<Rightarrow> unit fd_action" where
  "clean_up_after_swap i = steps [
     send_from_self CtlBus (Swap i) (Ctl TerminateCtl),
     send_from_self CtlBus Database (Ctl (RemoveCheckpoint i))]
     (reads id (\<lambda>s. bind (retain (\<lambda>service.
         if is_peer service
         then if \<not> connection_has_swap_client s service then terminate_service service else ret True
         else if is_syncer service
         then if \<not> syncer_has_client s service then terminate_service service else ret True
         else ret True) (registered_services s))
       (\<lambda>kept. modify (\<lambda>t. t\<lparr>registered_services := kept\<rparr>))))"

definition clean_up_after_syncer_usage :: "unit fd_action" where
  "clean_up_after_syncer_usage = reads id (\<lambda>s. bind (retain (\<lambda>service.
       if is_syncer service
       then if \<not> syncer_has_client s service then terminate_service service else ret True
       else ret True) (registered_services s))
     (\<lambda>kept. modify (\<lambda>t. t\<lparr>registered_services := kept\<rparr>)))"

section \<open>Connections\<close>

definition listen :: "node_functions \<Rightarrow> string \<Rightarrow> node_id fd_action" where
  "listen n bind_addr = reads id (\<lambda>s.
     bind (lift_res (services_ready s)) (\<lambda>_.
     bind (lift_res (peer_keys_ready s)) (\<lambda>(sk, pk).
     if list_ex (\<lambda>a. a = bind_addr) (listens s) then ret (node_id_from n pk)
     else bind (lift_res (some_or_fail ''listen requires the port to listen on'' (inet_port n bind_addr))) (\<lambda>port.
       bind (launch ''peerd'' [''--listen'', inet_address n bind_addr, ''--port'', decimal (unat port),
           ''--peer-secret-key'', to_hex n sk, ''--token'', wallet_token s]) (\<lambda>child.
       steps [check_up child, modify (\<lambda>t. t\<lparr>listens := hs_insert bind_addr (listens t)\<rparr>)]
         (ret (node_id_from n pk)))))))"

definition has_node_id :: "node_id \<Rightarrow> service_id \<Rightarrow> bool" where
  "has_node_id i service = (case service_node_addr service of
       Some addr \<Rightarrow> na_id addr = i
     | None \<Rightarrow> False)"

definition connect_peer :: "node_functions \<Rightarrow> node_addr \<Rightarrow> (bool \<times> service_id) fd_action" where
  "connect_peer n addr = reads id (\<lambda>s.
     bind (lift_res (services_ready s)) (\<lambda>_.
     bind (lift_res (peer_keys_ready s)) (\<lambda>(sk, pk).
     case List.find (has_node_id (na_id addr)) (spawning_services s) of
       Some spawning_peer \<Rightarrow> ret (False, spawning_peer)
     | None \<Rightarrow> (case List.find (has_node_id (na_id addr)) (registered_services s) of
         Some existing_peer \<Rightarrow> ret (True, existing_peer)
       | None \<Rightarrow> bind (launch ''peerd'' [''--connect'', node_addr_text n addr,
             ''--peer-secret-key'', to_hex n sk, ''--token'', wallet_token s]) (\<lambda>child.
           steps [check_up child,
               modify (\<lambda>t. t\<lparr>spawning_services := hs_insert (dummy_peer_service_id addr) (spawning_services t)\<rparr>)]
             (ret (False, dummy_peer_service_id addr)))))))"

section \<open>Syncers\<close>

definition syncer_servers_args :: "config \<Rightarrow> blockchain \<Rightarrow> network \<Rightarrow> (error, string list) result" where
  "syncer_servers_args cfg b net = (case get_syncer_servers cfg net of
       Some servers \<Rightarrow> (case b of
           Bitcoin \<Rightarrow> Ok [''--electrum-server'', sys_electrum_server servers]
         | Monero \<Rightarrow> Ok ([''--monero-daemon'', sys_monero_daemon servers,
               ''--monero-rpc-wallet'', sys_monero_rpc_wallet servers]
             @ option_args ''--monero-lws'' (sys_monero_lws servers)
             @ option_args ''--monero-wallet-dir-path'' (sys_monero_wallet_dir servers)))
     | None \<Rightarrow> Err (SyncerErr InvalidConfig))"

definition syncer_up :: "node_functions \<Rightarrow> blockchain \<Rightarrow> network \<Rightarrow> service_id option fd_action" where
  "syncer_up n b net = reads id (\<lambda>s.
     let service = Syncer b net
     in bind (if service \<notin> set (registered_services s) \<and> service \<notin> set (spawning_services s)
          then bind (lift_res (syncer_servers_args (config s) b net)) (\<lambda>servers.
             bind (launch ''syncerd'' ([''--blockchain'', blockchain_text n b, ''--network'', network_text n net]
                 @ servers)) (\<lambda>_.
             modify (\<lambda>t. t\<lparr>spawning_services := hs_insert service (spawning_services t)\<rparr>)))
          else skip) (\<lambda>_.
        ret (if service \<in> set (registered_services s) then Some service else None)))"

section \<open>Swap daemons\<close>

definition swapd_args ::
  "node_functions \<Rightarrow> trade_role \<Rightarrow> deal \<Rightarrow> swap_id \<Rightarrow> parsed_swap_config \<Rightarrow> string list" where
  "swapd_args n role d i cfg = [
     ''--arb-finality'', decimal (unat (ac_finality (psc_arbitrating cfg))),
     ''--arb-safety'', decimal (unat (ac_safety (psc_arbitrating cfg))),
     ''--acc-finality'', decimal (unat (acc_finality (psc_accordant cfg))),
     ''--id'', uuid_text n i, ''--deal'', deal_text n d, ''--trade-role'', trade_role_text n role]"

definition launch_swapd ::
  "node_functions \<Rightarrow> trade_role \<Rightarrow> deal \<Rightarrow> swap_id \<Rightarrow> parsed_swap_config \<Rightarrow> unit fd_action" where
  "launch_swapd n role d i cfg = bind (launch ''swapd'' (swapd_args n role d i cfg)) (\<lambda>_. skip)"

end
