(* ===== verification/SyncerMachine.thy ===== *)
theory SyncerMachine
  imports Farcasterd
begin

text \<open>
  The state machine for one request of a client to a syncer
  (\<open>farcasterd/syncer_state_machine.rs\<close>): a sweep, a balance or a health check. It asks for the
  syncer, waits for it to come up if needed, gives it the task, and answers the client with the
  event of that task. Log lines are left out.
\<close>

type_synonym ssm_transition = "syncer_state_machine option fd_action"

text \<open>The chain and network a sweep runs on; a node without servers for mainnet sweeps Monero locally.\<close>

definition sweep_target :: "config \<Rightarrow> sweep_address_addendum \<Rightarrow> blockchain \<times> network" where
  "sweep_target cfg addendum = (case addendum of
       SweepMonero a \<Rightarrow>
         (let net = xmr_network (sma_destination a)
          in (Monero, if net = Mainnet \<and> get_syncer_servers cfg net = None \<and> get_syncer_servers cfg Local \<noteq> None
                      then Local else net))
     | SweepBitcoin a \<Rightarrow> (Bitcoin, btc_network (sba_source_address a)))"

fun secret_key_target :: "address_secret_key \<Rightarrow> blockchain \<times> network" where
  "secret_key_target (BitcoinAddressKey a _) = (Bitcoin, btc_network a)"
| "secret_key_target (MoneroAddressKey a _) = (Monero, xmr_network a)"

text \<open>The next task id, and the counter moved on.\<close>

definition next_task_id :: "task_id fd_action" where
  "next_task_id = stateful (\<lambda>s. (TaskId (syncer_task_counter s),
     s\<lparr>syncer_task_counter := syncer_task_counter s + 1\<rparr>))"

text \<open>Give the task to a syncer that is up, or wait for it.\<close>

definition give_or_await ::
  "esb_event \<Rightarrow> blockchain \<Rightarrow> network \<Rightarrow> task \<Rightarrow> task_id \<Rightarrow> service_id option \<Rightarrow> ssm_transition" where
  "give_or_await ev b net task i up = (case up of
       Some service \<Rightarrow> steps [complete_sync_service ev service (TaskMsg task)]
         (ret (Some (AwaitingSyncerRequest \<lparr>awr_source = ev_source ev, awr_syncer = Syncer b net,
            awr_syncer_task_id = i\<rparr>)))
     | None \<Rightarrow> ret (Some (AwaitingSyncer \<lparr>aws_source = ev_source ev, aws_syncer = Syncer b net,
            aws_syncer_task = task, aws_syncer_task_id = i\<rparr>)))"

definition attempt_transition_to_awaiting_syncer_or_awaiting_syncer_request ::
  "node_functions \<Rightarrow> esb_event \<Rightarrow> ssm_transition" where
  "attempt_transition_to_awaiting_syncer_or_awaiting_syncer_request n ev = (case ev_request ev of
       Ctl (SweepAddressCtl addendum) \<Rightarrow> reads config (\<lambda>cfg.
         let (b, net) = sweep_target cfg addendum
         in bind next_task_id (\<lambda>i.
            bind (syncer_up n b net) (\<lambda>up.
            give_or_await ev b net (SweepAddressTask (SweepAddress False i (- 1) addendum)) i up)))
     | Ctl (GetBalance key) \<Rightarrow>
         (let (b, net) = secret_key_target key
          in bind next_task_id (\<lambda>i.
             bind (syncer_up n b net) (\<lambda>up.
             give_or_await ev b net (GetAddressBalanceTask (GetAddressBalance i key)) i up)))
     | Ctl (HealthCheckCtl b net) \<Rightarrow>
         bind next_task_id (\<lambda>i.
         bind (attempt (syncer_up n b net)) (\<lambda>r. case r of
             Inr up \<Rightarrow> give_or_await ev b net (HealthCheckTask (HealthCheck i)) i up
           | Inl err \<Rightarrow> steps [complete_ctl ev (HealthResultCtl (ConfigUnavailable (error_text err)))] (ret None)))
     | _ \<Rightarrow> ret None)"

text \<open>
  The last arm of the code binds the source of the event over that of the request: the machine that
  waits on takes the sender of the event as the client to answer.
\<close>

definition attempt_transition_to_awaiting_syncer_request ::
  "esb_event \<Rightarrow> awaiting_syncer \<Rightarrow> ssm_transition" where
  "attempt_transition_to_awaiting_syncer_request ev a =
     (if ev_request ev = Ctl Hello \<and> aws_syncer a = ev_source ev
      then steps [complete_sync_service ev (aws_syncer a) (TaskMsg (aws_syncer_task a))]
        (ret (Some (AwaitingSyncerRequest \<lparr>awr_source = aws_source a, awr_syncer = aws_syncer a,
           awr_syncer_task_id = aws_syncer_task_id a\<rparr>)))
      else ret (Some (AwaitingSyncer (a\<lparr>aws_source := ev_source ev\<rparr>))))"

definition sweep_report :: "node_functions \<Rightarrow> bytes list \<Rightarrow> fmt" where
  "sweep_report n txids =
     (case (if txids = [] then None else txid_from_slice n (last txids)) of
        Some txid \<Rightarrow> Fmt ''Successfully sweeped address. Transaction Id: {}.'' [TOpaque (to_hex n txid)]
      | None \<Rightarrow> Fmt ''Nothing to sweep.'' [])"

text \<open>Answer the client and let go of the syncer.\<close>

definition answer_client :: "unit fd_action \<Rightarrow> ssm_transition" where
  "answer_client answer = steps [answer, clean_up_after_syncer_usage] (ret None)"

definition ssm_attempt_transition_to_end ::
  "node_functions \<Rightarrow> esb_event \<Rightarrow> awaiting_syncer_request \<Rightarrow> ssm_transition" where
  "ssm_attempt_transition_to_end n ev a =
     (let keep = ret (Some (AwaitingSyncerRequest (a\<lparr>awr_source := ev_source ev\<rparr>)));
          mine = (awr_syncer a = ev_source ev)
      in case ev_request ev of
        Sync (EventMsg (SweepSuccessEv (SweepSuccess i txids))) \<Rightarrow>
          if mine \<and> i = awr_syncer_task_id a
          then answer_client (event_send_client_info ev (awr_source a) (StringInfo (sweep_report n txids)))
          else keep
      | Sync (EventMsg (AddressBalanceEv res)) \<Rightarrow>
          if mine \<and> abal_id res = awr_syncer_task_id a
          then answer_client (case abal_err res of
              Some err \<Rightarrow> event_send_client_ctl ev (awr_source a) (FailureCtl (Failure UnknownFailure
                (Fmt ''Failed to get adddress balance {}'' [TOpaque err])))
            | None \<Rightarrow> event_send_client_info ev (awr_source a)
                (AddressBalanceInfo (abal_address res) (abal_balance res)))
          else keep
      | Sync (EventMsg (TaskAbortedEv (TaskAborted ids err))) \<Rightarrow>
          if mine \<and> ids = [awr_syncer_task_id a]
          then answer_client (event_send_client_ctl ev (awr_source a) (FailureCtl (Failure UnknownFailure
            (Fmt ''Failure in chain query{}'' [case err of Some e \<Rightarrow> Fmt '': {}'' [e] | None \<Rightarrow> TOpaque ''''])))) 
          else keep
      | Sync (EventMsg (HealthResultEv (HealthResult i health))) \<Rightarrow>
          if mine \<and> i = awr_syncer_task_id a
          then answer_client (event_send_client_ctl ev (awr_source a) (HealthResultCtl health))
          else keep
      | _ \<Rightarrow> keep)"

definition ssm_next :: "node_functions \<Rightarrow> syncer_state_machine \<Rightarrow> esb_event \<Rightarrow> ssm_transition" where
  "ssm_next n ssm ev = (case ssm of
       SyncerStart \<Rightarrow> attempt_transition_to_awaiting_syncer_or_awaiting_syncer_request n ev
     | AwaitingSyncer a \<Rightarrow> attempt_transition_to_awaiting_syncer_request ev a
     | AwaitingSyncerRequest a \<Rightarrow> ssm_attempt_transition_to_end n ev a)"

text \<open>\<open>StateMachineExecutor::execute\<close> of \<open>event.rs\<close>, without its log lines.\<close>

definition ssm_execute ::
  "node_functions \<Rightarrow> service_id \<Rightarrow> bus_msg \<Rightarrow> syncer_state_machine \<Rightarrow> ssm_transition" where
  "ssm_execute n source request ssm = reads identity (\<lambda>me. ssm_next n ssm (EsbEvent me source request))"

end
