(* ===== verification/TradeMachine.thy ===== *)
theory TradeMachine
  imports Farcasterd
begin

text \<open>
  The state machine of a trade (\<open>farcasterd/trade_state_machine.rs\<close>): from an offered or taken deal,
  or a checkpoint, over the keys and the daemons of the swap, to its outcome. One definition per
  \<open>attempt_transition_..\<close> function; log lines are left out.
\<close>

type_synonym tsm_transition = "trade_state_machine option fd_action"

definition plain_failure :: "fmt \<Rightarrow> ctl_msg" where
  "plain_failure info = FailureCtl (Failure UnknownFailure info)"

section \<open>Making and taking deals\<close>

definition attempt_transition_to_make_deal :: "node_functions \<Rightarrow> esb_event \<Rightarrow> tsm_transition" where
  "attempt_transition_to_make_deal n ev = (case ev_request ev of
       Ctl (MakeDeal p) \<Rightarrow> reads config (\<lambda>cfg.
         bind (attempt (lift_res (get_bind_addr (inet_from_str n) cfg))) (\<lambda>addr. case addr of
           Inl err \<Rightarrow> steps [complete_ctl ev (plain_failure (error_text err))] (ret None)
         | Inr bind_addr \<Rightarrow> bind (attempt (listen n bind_addr)) (\<lambda>r. case r of
             Inl err \<Rightarrow> steps [complete_client_ctl ev (plain_failure (error_text err))] (ret None)
           | Inr i \<Rightarrow>
             (let d = to_v1 n (pd_deal_parameters p) (node_public_key_of n i) (pd_public_addr p)
              in steps [
                send_ctl_service ev Database (SetDealStatus (DealStatusPair d Open)),
                complete_client_info ev (MadeDeal (Fmt ''Deal registered, please share with taker.'' [])
                  (DealInfo (deal_text n d) d)),
                modify (\<lambda>s. s\<lparr>deals := hs_insert d (deals s)\<rparr>)]
                (ret (Some (TradeMakeDeal \<lparr>md_deal = d, md_arb_addr = pd_arbitrating_addr p,
                   md_acc_addr = pd_accordant_addr p\<rparr>)))))))
     | _ \<Rightarrow> ret None)"

definition deal_registered :: fmt where
  "deal_registered = Fmt ''Deal registered'' []"

definition attempt_transition_to_taker_connect_or_take_deal ::
  "node_functions \<Rightarrow> esb_event \<Rightarrow> tsm_transition" where
  "attempt_transition_to_taker_connect_or_take_deal n ev = (case ev_request ev of
       Ctl (TakeDeal (PubDeal d arb acc)) \<Rightarrow> reads id (\<lambda>s.
         if consumed_deals_contains n s d \<or> d \<in> set (deals s)
         then steps [complete_client_ctl ev (plain_failure
             (Fmt ''{} already exists or was already taken, ignoring request'' [TOpaque (deal_text n d)]))]
           (ret None)
         else bind (attempt (connect_peer n (node_addr_from_deal d))) (\<lambda>r. case r of
             Inl err \<Rightarrow> steps [complete_client_ctl ev (plain_failure (error_text err))] (ret None)
           | Inr (connected, peer) \<Rightarrow>
               if connected
               then steps [
                   send_ctl_service ev Walletd (CreateSwapKeys d (wallet_token s)),
                   complete_client_info ev (TookDeal (deal_id n d) deal_registered),
                   modify (\<lambda>t. t\<lparr>deals := hs_insert d (deals t)\<rparr>)]
                 (ret (Some (TradeTakeDeal \<lparr>td_deal = d, td_arb_addr = arb, td_acc_addr = acc,
                    td_peerd = peer\<rparr>)))
               else ret (Some (TradeTakerConnect \<lparr>tco_deal = d, tco_arb_addr = arb, tco_acc_addr = acc,
                    tco_source = ev_source ev\<rparr>))))
     | _ \<Rightarrow> ret None)"

definition attempt_transition_to_taker_committed :: "node_functions \<Rightarrow> esb_event \<Rightarrow> make_deal \<Rightarrow> tsm_transition" where
  "attempt_transition_to_taker_committed n ev m = (case ev_request ev of
       P2p (TakerCommitMsg tc) \<Rightarrow>
         if is_peer (ev_source ev) \<and> md_deal m = tkc_deal tc
         then reads wallet_token (\<lambda>token. steps [
             send_ctl_service ev Walletd (CreateSwapKeys (md_deal m) token),
             complete_ctl_service ev Database (SetDealStatus (DealStatusPair (md_deal m) InProgress))]
           (ret (Some (TradeTakerCommit \<lparr>tc_peerd = ev_source ev, tc_deal = md_deal m, tc_commit = tkc_commit tc,
              tc_target_bitcoin_address = md_arb_addr m, tc_target_monero_address = md_acc_addr m\<rparr>))))
         else ret (Some (TradeMakeDeal m))
     | Ctl (RevokeDeal d) \<Rightarrow>
         if d = md_deal m
         then steps [complete_client_info ev (StringInfo (Fmt ''Successfully revoked deal.'' []))] (ret None)
         else steps [complete_client_info ev (StringInfo (Fmt ''Cannot revoke deal, it does not exist'' []))]
           (ret (Some (TradeMakeDeal m)))
     | _ \<Rightarrow> ret (Some (TradeMakeDeal m)))"

definition attempt_transition_to_take_deal :: "node_functions \<Rightarrow> esb_event \<Rightarrow> taker_connect \<Rightarrow> tsm_transition" where
  "attempt_transition_to_take_deal n ev t =
     (let d = tco_deal t;
          from_maker = (Some (node_addr_from_deal d) = service_node_addr (ev_source ev))
      in if ev_request ev = Ctl ConnectSuccess \<and> from_maker
         then reads wallet_token (\<lambda>token. steps [
             handle_new_connection (ev_source ev),
             send_ctl_service ev Walletd (CreateSwapKeys d token),
             event_send_client_info ev (tco_source t) (TookDeal (deal_id n d) deal_registered),
             modify (\<lambda>s. s\<lparr>deals := hs_insert d (deals s)\<rparr>)]
           (ret (Some (TradeTakeDeal \<lparr>td_deal = d, td_arb_addr = tco_arb_addr t, td_acc_addr = tco_acc_addr t,
              td_peerd = ev_source ev\<rparr>))))
         else if ev_request ev = Ctl ConnectFailed \<and> from_maker
         then steps [
             handle_failed_connection (ev_source ev),
             event_send_client_ctl ev (tco_source t) (plain_failure
               (Fmt ''Could not connect to remote peer {}.'' [TService (ev_source ev)]))]
           (ret None)
         else ret (Some (TradeTakerConnect t)))"

section \<open>Launching the swap\<close>

definition chain_error :: "(consensus_error, 'a) result \<Rightarrow> (error, 'a) result" where
  "chain_error r = (case r of
       Ok x \<Rightarrow> Ok x
     | Err e \<Rightarrow> Err (from_core_error ''consensus'')
     | Panic p \<Rightarrow> Panic p
     | Hang \<Rightarrow> Hang)"

definition swap_config_of :: "config \<Rightarrow> deal \<Rightarrow> (error, parsed_swap_config) result" where
  "swap_config_of cfg d =
     rbind (chain_error (arbitrating_try_from (dp_arbitrating_blockchain (deal_params d)))) (\<lambda>arb.
     rbind (chain_error (accordant_try_from (dp_accordant_blockchain (deal_params d)))) (\<lambda>acc.
     get_swap_config cfg arb acc (dp_network (deal_params d))))"

definition syncers_up :: "node_functions \<Rightarrow> deal \<Rightarrow> (service_id option \<times> service_id option) fd_action" where
  "syncers_up n d =
     bind (syncer_up n (dp_arbitrating_blockchain (deal_params d)) (dp_network (deal_params d))) (\<lambda>arb.
     bind (syncer_up n (dp_accordant_blockchain (deal_params d)) (dp_network (deal_params d))) (\<lambda>acc.
     ret (arb, acc)))"

definition transition_to_swapd_launched_tsm ::
  "node_functions \<Rightarrow> consumed_deal_role \<Rightarrow> swap_keys \<Rightarrow> service_id \<Rightarrow> deal \<Rightarrow> btc_address \<Rightarrow> xmr_address
     \<Rightarrow> swap_id \<Rightarrow> trade_state_machine fd_action" where
  "transition_to_swapd_launched_tsm n role keys peerd d arb_addr acc_addr i = reads config (\<lambda>cfg.
     bind (lift_res (swap_config_of cfg d)) (\<lambda>swap_cfg.
     bind (syncers_up n d) (\<lambda>(arb_up, acc_up).
     steps [on_stats incr_initiated, launch_swapd n (trade_role_from role) d i swap_cfg]
       (ret (SwapdLaunched \<lparr>sl_peerd = peerd, sl_deal = d, sl_swap_id = i, sl_arbitrating_syncer_up = arb_up,
          sl_accordant_syncer_up = acc_up, sl_swapd_up = False, sl_consumed_deal_role = role,
          sl_peerd_reconnected = False, sl_key_manager = sk_key_manager keys,
          sl_target_bitcoin_address = arb_addr, sl_target_monero_address = acc_addr\<rparr>)))))"

definition attempt_transition_from_taker_commit_to_swapd_launched ::
  "node_functions \<Rightarrow> esb_event \<Rightarrow> tsm_taker_commit \<Rightarrow> tsm_transition" where
  "attempt_transition_from_taker_commit_to_swapd_launched n ev t = (case ev_request ev of
       Ctl (SwapKeysCtl keys) \<Rightarrow>
         bind (transition_to_swapd_launched_tsm n (ConsumedMaker (tc_commit t)) keys (tc_peerd t) (tc_deal t)
           (tc_target_bitcoin_address t) (tc_target_monero_address t) (commit_swap_id (tc_commit t)))
           (\<lambda>tsm. ret (Some tsm))
     | _ \<Rightarrow> ret (Some (TradeTakerCommit t)))"

definition attempt_transition_from_take_deal_to_swapd_launched ::
  "node_functions \<Rightarrow> esb_event \<Rightarrow> take_deal \<Rightarrow> tsm_transition" where
  "attempt_transition_from_take_deal_to_swapd_launched n ev t = (case ev_request ev of
       Ctl (SwapKeysCtl keys) \<Rightarrow>
         bind (transition_to_swapd_launched_tsm n ConsumedTaker keys (td_peerd t) (td_deal t)
           (td_arb_addr t) (td_acc_addr t) (deal_id n (td_deal t)))
           (\<lambda>tsm. ret (Some tsm))
     | _ \<Rightarrow> ret (Some (TradeTakeDeal t)))"

text \<open>
  Whether the daemon of the connection is registered: itself, or the first registered service with
  the same address, which then takes its place.
\<close>

fun find_peerd :: "service_id list \<Rightarrow> service_id \<Rightarrow> bool \<Rightarrow> bool \<times> service_id \<times> bool" where
  "find_peerd [] peerd reconnected = (False, peerd, reconnected)"
| "find_peerd (service # services) peerd reconnected =
     (if service = peerd then (True, peerd, reconnected)
      else if service_node_addr service = service_node_addr peerd then (True, service, True)
      else find_peerd services peerd reconnected)"

text \<open>The services of a launched swap that the event says are up.\<close>

definition launched_hello :: "esb_event \<Rightarrow> swapd_launched \<Rightarrow> swapd_launched" where
  "launched_hello ev t =
     (let net = dp_network (deal_params (sl_deal t)); source = ev_source ev
      in if ev_request ev \<noteq> Ctl Hello then t
         else if source = Syncer Monero net then t\<lparr>sl_accordant_syncer_up := Some source\<rparr>
         else if source = Swap (sl_swap_id t) then t\<lparr>sl_swapd_up := True\<rparr>
         else if source = Syncer Bitcoin net then t\<lparr>sl_arbitrating_syncer_up := Some source\<rparr>
         else t)"

definition init_swap_request :: "service_id \<Rightarrow> swapd_launched \<Rightarrow> ctl_msg" where
  "init_swap_request me t = (case sl_consumed_deal_role t of
       ConsumedMaker commit \<Rightarrow> MakeSwap (InitMakerSwap (sl_peerd t) me (sl_swap_id t) (sl_key_manager t)
         (sl_target_bitcoin_address t) (sl_target_monero_address t) commit)
     | ConsumedTaker \<Rightarrow> TakeSwap (InitTakerSwap (sl_peerd t) me (sl_swap_id t) (sl_key_manager t)
         (sl_target_bitcoin_address t) (sl_target_monero_address t)))"

definition attempt_transition_from_swapd_launched_to_swapd_running ::
  "esb_event \<Rightarrow> swapd_launched \<Rightarrow> tsm_transition" where
  "attempt_transition_from_swapd_launched_to_swapd_running ev waiting = reads id (\<lambda>s.
     let heard = launched_hello ev waiting;
         (peerd_up, peerd, reconnected) =
           find_peerd (registered_services s) (sl_peerd heard) (sl_peerd_reconnected heard);
         t = heard\<lparr>sl_peerd := peerd, sl_peerd_reconnected := reconnected\<rparr>
     in case (sl_accordant_syncer_up t, sl_arbitrating_syncer_up t, sl_swapd_up t, peerd_up) of
          (Some acc, Some arb, True, True) \<Rightarrow> steps [
              on (sl_peerd_reconnected t)
                (event_send_client_ctl ev (Swap (sl_swap_id t)) (PeerdReconnected (sl_peerd t))),
              complete_ctl_service ev (Swap (sl_swap_id t)) (init_swap_request (identity s) t)]
            (ret (Some (SwapdRunning \<lparr>sr_peerd = Some (sl_peerd t), sr_deal = sl_deal t,
               sr_arbitrating_syncer = arb, sr_accordant_syncer = acc, sr_swap_id = sl_swap_id t,
               sr_funding_info = None, sr_auto_funded = False, sr_clients_awaiting_connect_result = [],
               sr_trade_role = trade_role_from (sl_consumed_deal_role t),
               sr_expected_counterparty_node_id = None\<rparr>)))
        | _ \<Rightarrow> ret (Some (SwapdLaunched t)))"

section \<open>Restoring a swap\<close>

text \<open>Failures to connect or to listen are logged and the restore goes on.\<close>

definition attempt_transition_to_restoring_swapd :: "node_functions \<Rightarrow> esb_event \<Rightarrow> tsm_transition" where
  "attempt_transition_to_restoring_swapd n ev = (case ev_request ev of
       Ctl (RestoreCheckpoint entry) \<Rightarrow> reads id (\<lambda>s.
         let i = ce_swap_id entry; d = ce_deal entry; role = ce_trade_role entry
         in bind (attempt (lift_res (services_ready s))) (\<lambda>ready. case ready of
           Inl err \<Rightarrow> steps [complete_client_ctl ev (plain_failure (error_text err))] (ret None)
         | Inr _ \<Rightarrow> bind (attempt (send_ctl_service ev (Swap i) Hello)) (\<lambda>running.
             if \<not> isl running
             then steps [complete_client_ctl ev (plain_failure
                 (Fmt ''Cannot restore a checkpoint into a running swap.'' []))] (ret None)
             else
               bind (if role = Taker
                  then bind (attempt (connect_peer n (node_addr_from_deal d))) (\<lambda>r. ret (\<not> isl r))
                  else ret False) (\<lambda>expect_connection.
               bind (lift_res (swap_config_of (config s) d)) (\<lambda>swap_cfg.
               bind (if role = Maker
                  then bind (attempt (lift_res (get_bind_addr (inet_from_str n) (config s)))) (\<lambda>addr. case addr of
                      Inr bind_addr \<Rightarrow> bind (attempt (listen n bind_addr)) (\<lambda>r. ret (\<not> isl r))
                    | Inl _ \<Rightarrow> ret False)
                  else ret False) (\<lambda>listening.
               bind (syncers_up n d) (\<lambda>(arb_up, acc_up).
               steps [launch_swapd n role d i swap_cfg,
                   complete_client_info ev (StringInfo (Fmt ''Restoring checkpoint.'' []))]
                 (ret (Some (RestoringSwapd \<lparr>rs_swap_id = i, rs_deal = d, rs_trade_role = role,
                    rs_expected_counterparty_node_id = ce_expected_counterparty_node_id entry,
                    rs_arbitrating_syncer_up = arb_up, rs_accordant_syncer_up = acc_up, rs_swapd_up = False,
                    rs_expect_connection = expect_connection, rs_peerd = None, rs_listening = listening\<rparr>))))))))))
     | _ \<Rightarrow> ret None)"

definition restoring_hello ::
  "node_functions \<Rightarrow> esb_event \<Rightarrow> restoring_swapd \<Rightarrow> restoring_swapd fd_action" where
  "restoring_hello n ev t =
     (let net = dp_network (deal_params (rs_deal t)); source = ev_source ev;
          from_maker = (Some (node_addr_from_deal (rs_deal t)) = service_node_addr source \<and> rs_trade_role t = Taker)
      in if ev_request ev = Ctl Hello \<and> source = Syncer Monero net
         then ret (t\<lparr>rs_accordant_syncer_up := Some source\<rparr>)
         else if ev_request ev = Ctl Hello \<and> source = Swap (rs_swap_id t)
         then ret (t\<lparr>rs_swapd_up := True\<rparr>)
         else if ev_request ev = Ctl Hello \<and> source = Syncer Bitcoin net
         then ret (t\<lparr>rs_arbitrating_syncer_up := Some source\<rparr>)
         else if ev_request ev = Ctl ConnectSuccess \<and> from_maker
         then steps [handle_new_connection source] (ret (t\<lparr>rs_peerd := Some source\<rparr>))
         else if ev_request ev = Ctl ConnectFailed \<and> from_maker
         then steps [handle_failed_connection source] (ret (t\<lparr>rs_expect_connection := False\<rparr>))
         else if ev_request ev = Ctl Hello \<and> rs_trade_role t = Maker
         then reads config (\<lambda>cfg.
           bind (attempt (lift_res (get_bind_addr (inet_from_str n) cfg))) (\<lambda>addr.
           ret (case (addr, rs_expected_counterparty_node_id t) of
               (Inr bind_addr, Some i) \<Rightarrow>
                 if service_node_addr source = Some (NodeAddr i bind_addr) then t\<lparr>rs_peerd := Some source\<rparr> else t
             | _ \<Rightarrow> t)))
         else ret t)"

definition attempt_transition_from_restoring_swapd_to_swapd_running ::
  "node_functions \<Rightarrow> esb_event \<Rightarrow> restoring_swapd \<Rightarrow> tsm_transition" where
  "attempt_transition_from_restoring_swapd_to_swapd_running n ev restoring =
     bind (restoring_hello n ev restoring) (\<lambda>t.
     case (rs_accordant_syncer_up t, rs_arbitrating_syncer_up t, rs_swapd_up t,
           \<not> rs_expect_connection t \<or> rs_expect_connection t \<and> rs_peerd t \<noteq> None) of
       (Some acc, Some arb, True, True) \<Rightarrow> steps [
           on_stats incr_initiated,
           (case rs_peerd t of
              Some peerd \<Rightarrow> send_ctl_service ev (Swap (rs_swap_id t)) (PeerdReconnected peerd)
            | None \<Rightarrow> skip),
           complete_ctl_service ev Database (RestoreCheckpoint (CheckpointEntry (rs_swap_id t) (rs_deal t)
             (rs_trade_role t) (rs_expected_counterparty_node_id t)))]
         (ret (Some (SwapdRunning \<lparr>sr_peerd = rs_peerd t, sr_deal = rs_deal t,
            sr_arbitrating_syncer = arb, sr_accordant_syncer = acc, sr_swap_id = rs_swap_id t,
            sr_funding_info = None, sr_auto_funded = False, sr_clients_awaiting_connect_result = [],
            sr_trade_role = rs_trade_role t,
            sr_expected_counterparty_node_id = rs_expected_counterparty_node_id t\<rparr>)))
     | _ \<Rightarrow> ret (Some (RestoringSwapd t)))"

section \<open>Automatic funding\<close>

fun is_prefix_of :: "string \<Rightarrow> string \<Rightarrow> bool" where
  "is_prefix_of [] t = True"
| "is_prefix_of (x # s) [] = False"
| "is_prefix_of (x # s) (y # t) = (x = y \<and> is_prefix_of s t)"

fun contains_text :: "string \<Rightarrow> string \<Rightarrow> bool" where
  "contains_text s [] = (s = [])"
| "contains_text s (y # t) = (is_prefix_of s (y # t) \<or> contains_text s t)"

definition bitcoin_auth :: "node_functions \<Rightarrow> auto_funding_servers \<Rightarrow> rpc_auth option" where
  "bitcoin_auth n servers = (case afs_bitcoin_cookie_path servers of
       Some cookie \<Rightarrow> Some (CookieFile (expand_tilde n cookie))
     | None \<Rightarrow> (case (afs_bitcoin_rpc_user servers, afs_bitcoin_rpc_pass servers) of
         (Some rpc_user, Some rpc_pass) \<Rightarrow> Some (UserPass rpc_user rpc_pass)
       | _ \<Rightarrow> None))"

definition pay_bitcoin :: "btc_address \<Rightarrow> u64 \<Rightarrow> (string + txid) fd_action" where
  "pay_bitcoin a amount = stateful (\<lambda>s.
     let answer = send_to_address (the_world s) (length (bitcoin_payments s)) a amount
     in (answer, s\<lparr>bitcoin_payments := bitcoin_payments s @ [(a, amount, answer)]\<rparr>))"

definition pay_monero :: "xmr_address \<Rightarrow> u64 \<Rightarrow> (string + txid) fd_action" where
  "pay_monero a amount = stateful (\<lambda>s.
     let answer = wallet_transfer (the_world s) (length (monero_payments s)) a amount
     in (answer, s\<lparr>monero_payments := monero_payments s @ [(a, amount, answer)]\<rparr>))"

text \<open>\<open>unwrap\<close> of the client, then the payment: whether it was accepted.\<close>

definition auto_fund_bitcoin ::
  "node_functions \<Rightarrow> auto_funding_servers \<Rightarrow> btc_address \<Rightarrow> u64 \<Rightarrow> bool fd_action" where
  "auto_fund_bitcoin n servers a amount = reads the_world (\<lambda>w.
     bind (lift_res (case bitcoin_auth n servers of
         Some auth \<Rightarrow> if bitcoin_client w (afs_bitcoin_rpc servers) auth then Ok () else Panic ''Client::new''
       | None \<Rightarrow> Panic ''InvalidCookieFile'')) (\<lambda>_.
     bind (pay_bitcoin a amount) (\<lambda>r. ret (\<not> isl r))))"

text \<open>The loop over \<open>(0..10).rev()\<close>: \<open>Suc retries\<close> attempts are left.\<close>

fun transfer_retries :: "nat \<Rightarrow> xmr_address \<Rightarrow> u64 \<Rightarrow> bool fd_action" where
  "transfer_retries 0 a amount = ret False"
| "transfer_retries (Suc retries) a amount = bind (pay_monero a amount) (\<lambda>r. case r of
     Inr tx \<Rightarrow> ret True
   | Inl err \<Rightarrow>
       if contains_text ''not enough'' err \<and> contains_text ''money'' err \<or> retries = 0 then ret False
       else transfer_retries retries a amount)"

definition auto_fund_monero :: "auto_funding_servers \<Rightarrow> xmr_address \<Rightarrow> u64 \<Rightarrow> bool fd_action" where
  "auto_fund_monero servers a amount = reads the_world (\<lambda>w.
     bind (lift_res (if monero_client w (afs_monero_rpc_wallet servers) then Ok ()
       else Panic ''client builder failed, cannot recover from bad configuration'')) (\<lambda>_.
     transfer_retries 10 a amount))"

text \<open>The funding that a swap asks for; the code takes the id of the swap from the message.\<close>

definition handle_funding_info :: "node_functions \<Rightarrow> funding_info \<Rightarrow> swapd_running \<Rightarrow> tsm_transition" where
  "handle_funding_info n info t = (case info of
       BitcoinFunding (BitcoinFundingInfo i a amount) \<Rightarrow>
         steps [on_stats (incr_awaiting_funding Bitcoin i)] (reads config (\<lambda>cfg.
         bind (case get_auto_funding_config cfg (btc_network a) of
             Some servers \<Rightarrow> auto_fund_bitcoin n servers a amount
           | None \<Rightarrow> ret False) (\<lambda>paid.
         ret (Some (SwapdRunning (t\<lparr>sr_swap_id := i, sr_funding_info := Some info, sr_auto_funded := paid\<rparr>))))))
     | MoneroFunding (MoneroFundingInfo i amount a) \<Rightarrow>
         steps [on_stats (incr_awaiting_funding Monero i)] (reads config (\<lambda>cfg.
         bind (case get_auto_funding_config cfg (xmr_network a) of
             Some servers \<Rightarrow> auto_fund_monero servers a amount
           | None \<Rightarrow> ret False) (\<lambda>paid.
         ret (Some (SwapdRunning (t\<lparr>sr_swap_id := i, sr_funding_info := Some info, sr_auto_funded := paid\<rparr>)))))))"

section \<open>A running swap\<close>

definition handle_connect :: "node_functions \<Rightarrow> esb_event \<Rightarrow> swapd_running \<Rightarrow> tsm_transition" where
  "handle_connect n ev t = (case sr_peerd t of
       Some peerd \<Rightarrow> steps [complete_client_ctl ev (plain_failure
           (Fmt ''The swap already has a dedicated connection daemon {}'' [TService peerd]))]
         (ret (Some (SwapdRunning t)))
     | None \<Rightarrow> bind (attempt (connect_peer n (node_addr_from_deal (sr_deal t)))) (\<lambda>r. case r of
         Inl err \<Rightarrow> steps [complete_client_ctl ev (plain_failure (error_text err))]
           (ret (Some (SwapdRunning t)))
       | Inr (connected, peerd) \<Rightarrow> steps [on connected (complete_client_ctl ev ConnectSuccess)]
           (ret (Some (SwapdRunning (t\<lparr>sr_peerd := Some peerd\<rparr>))))))"

definition handle_swap_outcome :: "esb_event \<Rightarrow> outcome \<Rightarrow> swapd_running \<Rightarrow> tsm_transition" where
  "handle_swap_outcome ev out t = steps [
     send_ctl_service ev Database (SetDealStatus (DealStatusPair (sr_deal t) (Ended out))),
     clean_up_after_swap (sr_swap_id t),
     on_stats (incr_outcome out)]
     (ret None)"

definition tsm_attempt_transition_to_end :: "node_functions \<Rightarrow> esb_event \<Rightarrow> swapd_running \<Rightarrow> tsm_transition" where
  "tsm_attempt_transition_to_end n ev t =
     (let source = ev_source ev;
          keep = ret (Some (SwapdRunning t));
          from_maker = (service_node_addr source = Some (node_addr_from_deal (sr_deal t)));
          answer_clients = (\<lambda>msg. for_each (sr_clients_awaiting_connect_result t)
            (\<lambda>client. event_send_client_ctl ev client msg));
          connected = SwapdRunning (t\<lparr>sr_peerd := Some source, sr_clients_awaiting_connect_result := []\<rparr>)
      in case ev_request ev of
        Ctl Hello \<Rightarrow>
          if is_peer source \<and> service_node_addr source = Option.bind (sr_peerd t) service_node_addr
             \<or> sr_peerd t = None \<and> sr_expected_counterparty_node_id t = map_option na_id (service_node_addr source)
          then steps [complete_ctl_service ev (Swap (sr_swap_id t)) (PeerdReconnected source)] keep
          else keep
      | Ctl (FundingInfoCtl info) \<Rightarrow> handle_funding_info n info t
      | Ctl (FundingCompleted b) \<Rightarrow> steps [on_stats (incr_funded b (sr_swap_id t))]
          (ret (Some (SwapdRunning (t\<lparr>sr_funding_info := None\<rparr>))))
      | Ctl (FundingCanceled b) \<Rightarrow> steps [on_stats (incr_funding_canceled b (sr_swap_id t))]
          (ret (Some (SwapdRunning (t\<lparr>sr_funding_info := None\<rparr>))))
      | Ctl (Connect i) \<Rightarrow> if i = sr_swap_id t then handle_connect n ev t else keep
      | Ctl ConnectSuccess \<Rightarrow>
          if from_maker
          then steps [answer_clients ConnectSuccess, handle_new_connection source] (ret (Some connected))
          else keep
      | Ctl ConnectFailed \<Rightarrow>
          if from_maker
          then steps [answer_clients (plain_failure (Fmt ''Failed to connect to remote peer: {}'' [TService source])),
              handle_failed_connection source]
            (ret (Some connected))
          else keep
      | Ctl (PeerdUnreachable peerd) \<Rightarrow>
          if source = Swap (sr_swap_id t)
          then reads registered_services (\<lambda>known.
            if peerd \<in> set known
            then steps [handle_failed_connection peerd, complete_ctl_service ev peerd TerminateCtl] keep
            else keep)
          else keep
      | Ctl (SwapOutcome out) \<Rightarrow> if source = Swap (sr_swap_id t) then handle_swap_outcome ev out t else keep
      | _ \<Rightarrow> keep)"

section \<open>The machine\<close>

definition tsm_next :: "node_functions \<Rightarrow> trade_state_machine \<Rightarrow> esb_event \<Rightarrow> tsm_transition" where
  "tsm_next n tsm ev = (case tsm of
       TradeStartTaker \<Rightarrow> attempt_transition_to_taker_connect_or_take_deal n ev
     | TradeStartMaker \<Rightarrow> attempt_transition_to_make_deal n ev
     | TradeStartRestore \<Rightarrow> attempt_transition_to_restoring_swapd n ev
     | TradeTakerConnect t \<Rightarrow> attempt_transition_to_take_deal n ev t
     | TradeMakeDeal t \<Rightarrow> attempt_transition_to_taker_committed n ev t
     | TradeTakerCommit t \<Rightarrow> attempt_transition_from_taker_commit_to_swapd_launched n ev t
     | TradeTakeDeal t \<Rightarrow> attempt_transition_from_take_deal_to_swapd_launched n ev t
     | SwapdLaunched t \<Rightarrow> attempt_transition_from_swapd_launched_to_swapd_running ev t
     | RestoringSwapd t \<Rightarrow> attempt_transition_from_restoring_swapd_to_swapd_running n ev t
     | SwapdRunning t \<Rightarrow> tsm_attempt_transition_to_end n ev t)"

text \<open>\<open>StateMachineExecutor::execute\<close> of \<open>event.rs\<close>, without its log lines.\<close>

definition tsm_execute ::
  "node_functions \<Rightarrow> service_id \<Rightarrow> bus_msg \<Rightarrow> trade_state_machine \<Rightarrow> tsm_transition" where
  "tsm_execute n source request tsm = reads identity (\<lambda>me. tsm_next n tsm (EsbEvent me source request))"

end
