(* ===== verification/FarcasterdRuntime.thy ===== *)
theory FarcasterdRuntime
  imports SyncerMachine TradeMachine
begin

text \<open>
  The service farcasterd (\<open>farcasterd/runtime.rs\<close>): its start, the handlers of its four buses, the
  dispatch of messages to the state machines, the progress it keeps for clients, the restoration of
  checkpoints at start-up. Log lines are left out.
\<close>

section \<open>Start: run\<close>

definition fd_initial_runtime ::
  "config \<Rightarrow> token \<Rightarrow> shared_options \<Rightarrow> world \<Rightarrow> int \<Rightarrow> (nat \<Rightarrow> envelope \<Rightarrow> bool) \<Rightarrow> farcasterd" where
  "fd_initial_runtime cfg token so w now outcomes = \<lparr>
     identity = Farcasterd, outbox = [], attempts = 0, link = outcomes,
     wallet_token = token, fd_started = now, auto_restored = False,
     node_secret_key = None, node_public_key = None, listens = [],
     spawning_services = [], registered_services = [], deals = [],
     progress_queues = [], progress_subscriptions = [], fd_stats = no_stats, config = cfg,
     syncer_task_counter = 0, trade_state_machines = [], syncer_state_machines = [],
     shared_opts = so, the_world = w, launched = [], bitcoin_payments = [], monero_payments = []\<rparr>"

text \<open>The daemons launched before the service runs.\<close>

definition launch_daemons :: "unit fd_action" where
  "launch_daemons = reads id (\<lambda>s.
     bind (launch ''walletd'' [''--token'', wallet_token s]) (\<lambda>_.
     bind (if is_grpc_enable (config s)
       then bind (lift_res (expect ''unwrap'' (cfg_grpc (config s)))) (\<lambda>grpc.
         bind (launch ''grpcd'' [''--grpc-port'', decimal (unat (gc_bind_port grpc)),
           ''--grpc-ip'', grpc_bind_ip (config s)]) (\<lambda>_. skip))
       else skip) (\<lambda>_.
     bind (launch ''databased'' []) (\<lambda>_. skip))))"

section \<open>Choice of a state machine\<close>

text \<open>\<open>position(p)\<close> and \<open>remove(pos)\<close>.\<close>

fun take_first :: "('a \<Rightarrow> bool) \<Rightarrow> 'a list \<Rightarrow> ('a \<times> 'a list) option" where
  "take_first p [] = None"
| "take_first p (x # xs) = (if p x then Some (x, xs)
     else case take_first p xs of Some (y, ys) \<Rightarrow> Some (y, x # ys) | None \<Rightarrow> None)"

definition take_trade :: "(trade_state_machine \<Rightarrow> bool) \<Rightarrow> trade_state_machine option fd_action" where
  "take_trade p = stateful (\<lambda>s. case take_first p (trade_state_machines s) of
       Some (tsm, rest) \<Rightarrow> (Some tsm, s\<lparr>trade_state_machines := rest\<rparr>)
     | None \<Rightarrow> (None, s))"

definition match_request_to_trade_state_machine ::
  "bus_msg \<Rightarrow> service_id \<Rightarrow> trade_state_machine option fd_action" where
  "match_request_to_trade_state_machine request source =
     (let of_swap = (\<lambda>i. take_trade (\<lambda>tsm. tsm_swap_id tsm = Some i));
          of_source = (case source of Swap i \<Rightarrow> of_swap i | _ \<Rightarrow> ret None);
          of_peer = (case source of
              Peer _ addr \<Rightarrow> take_trade (\<lambda>tsm. awaiting_connect_from tsm = Some addr)
            | _ \<Rightarrow> ret None)
      in case request of
        Ctl (RestoreCheckpoint _) \<Rightarrow> ret (Some TradeStartRestore)
      | Ctl (MakeDeal _) \<Rightarrow> ret (Some TradeStartMaker)
      | Ctl (TakeDeal _) \<Rightarrow> ret (Some TradeStartTaker)
      | P2p (TakerCommitMsg tc) \<Rightarrow> take_trade (\<lambda>tsm. open_deal tsm = Some (tkc_deal tc))
      | Ctl (RevokeDeal d) \<Rightarrow> take_trade (\<lambda>tsm. open_deal tsm = Some d)
      | Ctl (SwapKeysCtl keys) \<Rightarrow> take_trade (\<lambda>tsm. consumed_deal tsm = Some (sk_deal keys))
      | Ctl ConnectSuccess \<Rightarrow> of_peer
      | Ctl ConnectFailed \<Rightarrow> of_peer
      | Ctl (PeerdUnreachable _) \<Rightarrow> of_source
      | Ctl (FundingInfoCtl _) \<Rightarrow> of_source
      | Ctl (FundingCanceled _) \<Rightarrow> of_source
      | Ctl (FundingCompleted _) \<Rightarrow> of_source
      | Ctl (Connect i) \<Rightarrow> of_swap i
      | Ctl (SwapOutcome _) \<Rightarrow> of_source
      | _ \<Rightarrow> ret None)"

definition take_syncer_machine :: "task_id \<Rightarrow> syncer_state_machine option fd_action" where
  "take_syncer_machine i = stateful (\<lambda>s. (hm_get (syncer_state_machines s) i,
     s\<lparr>syncer_state_machines := hm_remove i (syncer_state_machines s)\<rparr>))"

definition match_request_to_syncer_state_machine :: "bus_msg \<Rightarrow> syncer_state_machine option fd_action" where
  "match_request_to_syncer_state_machine request = (case request of
       Ctl (SweepAddressCtl _) \<Rightarrow> ret (Some SyncerStart)
     | Ctl (HealthCheckCtl _ _) \<Rightarrow> ret (Some SyncerStart)
     | Ctl (GetBalance _) \<Rightarrow> ret (Some SyncerStart)
     | Sync (EventMsg (SweepSuccessEv (SweepSuccess i _))) \<Rightarrow> take_syncer_machine i
     | Sync (EventMsg (AddressBalanceEv res)) \<Rightarrow> take_syncer_machine (abal_id res)
     | Sync (EventMsg (HealthResultEv (HealthResult i _))) \<Rightarrow> take_syncer_machine i
     | Sync (EventMsg (TaskAbortedEv (TaskAborted ids _))) \<Rightarrow>
         if ids = [] then ret None else take_syncer_machine (last ids)
     | _ \<Rightarrow> ret None)"

definition push_trade :: "trade_state_machine option \<Rightarrow> unit fd_action" where
  "push_trade r = (case r of
       Some tsm \<Rightarrow> modify (\<lambda>s. s\<lparr>trade_state_machines := trade_state_machines s @ [tsm]\<rparr>)
     | None \<Rightarrow> skip)"

definition put_syncer_machine :: "task_id \<Rightarrow> syncer_state_machine \<Rightarrow> unit fd_action" where
  "put_syncer_machine i ssm =
     modify (\<lambda>s. s\<lparr>syncer_state_machines := hm_insert i ssm (syncer_state_machines s)\<rparr>)"

text \<open>A machine without a task id is dropped with an error in the log.\<close>

definition put_new_syncer_machine :: "syncer_state_machine option \<Rightarrow> unit fd_action" where
  "put_new_syncer_machine r = (case r of
       Some ssm \<Rightarrow> (case ssm_task_id ssm of Some i \<Rightarrow> put_syncer_machine i ssm | None \<Rightarrow> skip)
     | None \<Rightarrow> skip)"

text \<open>The answers to requests no machine takes.\<close>

definition unprocessed :: "service_id \<Rightarrow> bus_msg \<Rightarrow> unit fd_action" where
  "unprocessed source request = (case request of
       Ctl (RevokeDeal _) \<Rightarrow> send_from_self CtlBus source (Ctl (plain_failure (Fmt ''Deal to revoke not found.'' [])))
     | Ctl (Connect _) \<Rightarrow> send_from_self CtlBus source (Ctl (plain_failure (Fmt ''Swap to connect not found.'' [])))
     | P2p (TakerCommitMsg tc) \<Rightarrow> send_from_self MsgBus source (P2p (DealNotFound (commit_swap_id (tkc_commit tc))))
     | _ \<Rightarrow> skip)"

definition process_request_with_state_machines ::
  "node_functions \<Rightarrow> bus_msg \<Rightarrow> service_id \<Rightarrow> unit fd_action" where
  "process_request_with_state_machines n request source =
     bind (match_request_to_trade_state_machine request source) (\<lambda>trade. case trade of
       Some tsm \<Rightarrow> bind (tsm_execute n source request tsm) push_trade
     | None \<Rightarrow> bind (match_request_to_syncer_state_machine request) (\<lambda>syncer. case syncer of
         Some ssm \<Rightarrow> bind (ssm_execute n source request ssm) put_new_syncer_machine
       | None \<Rightarrow> unprocessed source request))"

section \<open>Hello\<close>

definition handle_auto_restore :: "unit fd_action" where
  "handle_auto_restore = reads id (\<lambda>s.
     on (auto_restore_enable (config s) \<and> is_ok (services_ready s) \<and> is_ok (peer_keys_ready s)
         \<and> \<not> auto_restored s)
       (steps [send_from_self InfoBus Database (Info RetrieveAllCheckpointInfo)]
         (modify (\<lambda>t. t\<lparr>auto_restored := True\<rparr>))))"

definition register :: "service_id \<Rightarrow> unit fd_action" where
  "register source = modify (\<lambda>s. s\<lparr>registered_services := hs_insert source (registered_services s)\<rparr>)"

definition handle_hello :: "service_id \<Rightarrow> unit fd_action" where
  "handle_hello source = (case source of
       Database \<Rightarrow> steps [register source, send_from_self CtlBus Database (Ctl CleanDanglingDeals)] handle_auto_restore
     | Walletd \<Rightarrow> steps [register source] (reads wallet_token (\<lambda>token.
         send_from_self CtlBus source (Ctl (GetKeys token))))
     | Peer _ addr \<Rightarrow> reads trade_state_machines (\<lambda>tsms.
         on (\<not> list_ex (\<lambda>tsm. awaiting_connect_from tsm = Some addr) tsms) (handle_new_connection source))
     | Syncer _ _ \<Rightarrow> modify (\<lambda>s.
         if source \<in> set (spawning_services s)
         then s\<lparr>spawning_services := hs_remove source (spawning_services s),
                registered_services := hs_insert source (registered_services s)\<rparr>
         else s)
     | _ \<Rightarrow> skip)"

text \<open>
  Every machine sees a Hello. The machines are moved out of the state first; those that follow one
  that fails are dropped with the loop.
\<close>

definition hello_trades :: "node_functions \<Rightarrow> service_id \<Rightarrow> unit fd_action" where
  "hello_trades n source = reads trade_state_machines (\<lambda>tsms. steps [
     modify (\<lambda>s. s\<lparr>trade_state_machines := []\<rparr>)]
     (for_each tsms (\<lambda>tsm. bind (tsm_execute n source (Ctl Hello) tsm) push_trade)))"

definition hello_syncers :: "node_functions \<Rightarrow> service_id \<Rightarrow> unit fd_action" where
  "hello_syncers n source = reads syncer_state_machines (\<lambda>ssms. steps [
     modify (\<lambda>s. s\<lparr>syncer_state_machines := []\<rparr>)]
     (for_each ssms (\<lambda>(i, ssm). bind (ssm_execute n source (Ctl Hello) ssm) (\<lambda>r. case r of
         Some new_ssm \<Rightarrow> put_syncer_machine i new_ssm
       | None \<Rightarrow> skip))))"

section \<open>Progress\<close>

definition notify_subscribed_clients :: "service_id \<Rightarrow> info_msg \<Rightarrow> unit fd_action" where
  "notify_subscribed_clients source request = reads progress_subscriptions (\<lambda>subscriptions.
     case hm_get subscriptions source of
       Some subs \<Rightarrow> bind (retain (\<lambda>sub. bind (attempt (send_to InfoBus Farcasterd sub (Info request)))
             (\<lambda>r. ret (\<not> isl r))) subs)
           (\<lambda>kept. modify (\<lambda>s. s\<lparr>progress_subscriptions := hm_insert source kept (progress_subscriptions s)\<rparr>))
     | None \<Rightarrow> skip)"

fun is_state_update :: "progress_stack \<Rightarrow> bool" where
  "is_state_update (StackedProgress (StateUpdate _)) = True"
| "is_state_update _ = False"

text \<open>The latest state update replaces one at the end of the queue.\<close>

definition push_progress :: "progress_stack \<Rightarrow> progress_stack list \<Rightarrow> progress_stack list" where
  "push_progress p queue =
     (if is_state_update p \<and> queue \<noteq> [] \<and> is_state_update (last queue) then butlast queue else queue) @ [p]"

definition queue_progress :: "service_id \<Rightarrow> progress_stack \<Rightarrow> unit fd_action" where
  "queue_progress source p = modify (\<lambda>s. s\<lparr>progress_queues := hm_insert source
     (push_progress p (case hm_get (progress_queues s) source of Some queue \<Rightarrow> queue | None \<Rightarrow> []))
     (progress_queues s)\<rparr>)"

fun stacked_info :: "progress_stack \<Rightarrow> info_msg" where
  "stacked_info (StackedProgress p) = ProgressInfo p"
| "stacked_info (StackedSuccess s) = SuccessInfo s"
| "stacked_info (StackedFailure f) = FailureInfo f"

fun stacked_event :: "progress_stack \<Rightarrow> progress_event" where
  "stacked_event (StackedProgress (ProgressMessage m)) = MessageEvent m"
| "stacked_event (StackedProgress (StateUpdate s)) = StateUpdateEvent s"
| "stacked_event (StackedProgress (StateTransitionProgress t)) = StateTransitionEvent t"
| "stacked_event (StackedSuccess s) = SuccessEvent s"
| "stacked_event (StackedFailure f) = FailureEvent f"

definition record_progress :: "service_id \<Rightarrow> progress_stack \<Rightarrow> unit fd_action" where
  "record_progress source p =
     steps [queue_progress source p, notify_subscribed_clients source (stacked_info p)] skip"

section \<open>Control messages\<close>

definition notify_swaps :: "service_id \<Rightarrow> ctl_msg \<Rightarrow> unit fd_action" where
  "notify_swaps source request = reads trade_state_machines (\<lambda>tsms.
     for_each (List.map_filter (\<lambda>tsm. get_swap_id_with_matching_connection tsm source) tsms)
       (\<lambda>i. send_from_self CtlBus (Swap i) (Ctl request)))"

definition fd_handle_ctl :: "node_functions \<Rightarrow> service_id \<Rightarrow> ctl_msg \<Rightarrow> unit fd_action" where
  "fd_handle_ctl n source request =
     (let process = process_request_with_state_machines n (Ctl request) source
      in case request of
        Hello \<Rightarrow> steps [handle_hello source, hello_trades n source, hello_syncers n source] skip
      | Keys sk pk \<Rightarrow> steps [modify (\<lambda>s. s\<lparr>node_secret_key := Some sk, node_public_key := Some pk\<rparr>)]
          handle_auto_restore
      | PeerdTerminated \<Rightarrow> if is_peer source then handle_failed_connection source else process
      | Disconnected \<Rightarrow> notify_swaps source request
      | Reconnected \<Rightarrow> notify_swaps source request
      | ProgressCtl p \<Rightarrow> record_progress source (StackedProgress p)
      | SuccessCtl s \<Rightarrow> record_progress source (StackedSuccess s)
      | FailureCtl f \<Rightarrow> record_progress source (StackedFailure f)
      | _ \<Rightarrow> process)"

section \<open>Information messages\<close>

definition node_info_of :: "int \<Rightarrow> farcasterd \<Rightarrow> node_info" where
  "node_info_of now s = NodeInfo (listens s) (nat (now - fd_started s)) (of_nat (nat (fd_started s) div 10 ^ 9))
     (get_open_connections s) (List.map_filter tsm_swap_id (trade_state_machines s))
     (List.map_filter open_deal (trade_state_machines s)) (fd_stats s)"

definition list_deals :: "node_functions \<Rightarrow> service_id \<Rightarrow> deal_status_selector \<Rightarrow> unit fd_action" where
  "list_deals n source selector = reads id (\<lambda>s.
     let info = (\<lambda>d. DealInfo (deal_text n d) d)
     in case selector of
       SelectOpen \<Rightarrow> send_client_info source
         (DealList (map info (List.map_filter open_deal (trade_state_machines s))))
     | SelectInProgress \<Rightarrow> send_client_info source
         (DealList (map info (filter (consumed_deals_contains n s) (deals s))))
     | _ \<Rightarrow> send_to InfoBus source Database (Info (ListDeals selector)))"

fun is_client :: "service_id \<Rightarrow> bool" where
  "is_client (Client _) = True"
| "is_client (GrpcdClient _) = True"
| "is_client _ = False"

definition checkpoint_list :: "node_functions \<Rightarrow> service_id \<Rightarrow> checkpoint_entry list \<Rightarrow> unit fd_action" where
  "checkpoint_list n source entries = reads id (\<lambda>s.
     if is_client source
     then send_client_info source (CheckpointList (filter (\<lambda>c. \<not> running_swaps_contain s (ce_swap_id c)) entries))
     else for_each entries (\<lambda>c. fd_handle_ctl n source (RestoreCheckpoint c)))"

definition unknown_swapd :: "farcasterd \<Rightarrow> swap_id \<Rightarrow> fmt" where
  "unknown_swapd s i = (if running_swaps_contain s i then Fmt ''No progress made yet on this swap'' []
     else Fmt ''Unknown swapd'' [])"

text \<open>The answers of \<open>ReadProgress\<close> and \<open>SubscribeProgress\<close>.\<close>

definition read_progress :: "swap_id \<Rightarrow> farcasterd \<Rightarrow> info_msg list" where
  "read_progress i s = (case hm_get (progress_queues s) (Swap i) of
       Some queue \<Rightarrow> [SwapProgress (map stacked_event queue)]
     | None \<Rightarrow> [FailureInfo (Failure UnknownFailure (unknown_swapd s i))])"

definition knows_swap :: "farcasterd \<Rightarrow> swap_id \<Rightarrow> bool" where
  "knows_swap s i \<longleftrightarrow> running_swaps_contain s i \<or> hm_contains (progress_queues s) (Swap i)"

definition subscribe_progress :: "service_id \<Rightarrow> swap_id \<Rightarrow> farcasterd \<Rightarrow> info_msg list \<times> farcasterd" where
  "subscribe_progress source i s =
     (if knows_swap s i
      then (map stacked_info (case hm_get (progress_queues s) (Swap i) of Some queue \<Rightarrow> queue | None \<Rightarrow> []),
            s\<lparr>progress_subscriptions := hm_insert (Swap i)
              (hs_insert source (case hm_get (progress_subscriptions s) (Swap i) of Some subs \<Rightarrow> subs | None \<Rightarrow> []))
              (progress_subscriptions s)\<rparr>)
      else ([FailureInfo (Failure UnknownFailure (Fmt ''Unknown swapd'' []))], s))"

definition unsubscribe_progress :: "service_id \<Rightarrow> swap_id \<Rightarrow> farcasterd \<Rightarrow> farcasterd" where
  "unsubscribe_progress source i s = (case hm_get (progress_subscriptions s) (Swap i) of
       Some subs \<Rightarrow>
         (let rest = hs_remove source subs
          in s\<lparr>progress_subscriptions := (if rest = [] then hm_remove (Swap i) (progress_subscriptions s)
             else hm_insert (Swap i) rest (progress_subscriptions s))\<rparr>)
     | None \<Rightarrow> s)"

text \<open>The responses collected in \<open>report_to\<close>, none of them to farcasterd itself.\<close>

definition respond_all :: "service_id \<Rightarrow> info_msg list \<Rightarrow> unit fd_action" where
  "respond_all source responses = reads identity (\<lambda>me.
     on (source \<noteq> me) (for_each responses (send_client_info source)))"

definition fd_handle_info :: "node_functions \<Rightarrow> int \<Rightarrow> service_id \<Rightarrow> info_msg \<Rightarrow> unit fd_action" where
  "fd_handle_info n now source request = (case request of
       GetInfo \<Rightarrow> reads id (\<lambda>s. send_client_info source (NodeInfoMsg (node_info_of now s)))
     | ListPeers \<Rightarrow> reads id (\<lambda>s. send_client_info source (PeerList (get_open_connections s)))
     | ListSwaps \<Rightarrow> reads trade_state_machines (\<lambda>tsms.
         send_client_info source (SwapList (List.map_filter tsm_swap_id tsms)))
     | ListDeals selector \<Rightarrow> list_deals n source selector
     | ListListens \<Rightarrow> reads listens (\<lambda>ls. send_client_info source (ListenList ls))
     | ReadProgress i \<Rightarrow> reads id (\<lambda>s. respond_all source (read_progress i s))
     | CheckpointList entries \<Rightarrow> checkpoint_list n source entries
     | SubscribeProgress i \<Rightarrow> bind (stateful (subscribe_progress source i)) (respond_all source)
     | UnsubscribeProgress i \<Rightarrow> modify (unsubscribe_progress source i)
     | NeedsFunding b \<Rightarrow> reads trade_state_machines (\<lambda>tsms.
         send_client_info source (FundingInfos (List.map_filter (\<lambda>tsm. needs_funding tsm b) tsms)))
     | _ \<Rightarrow> skip)"

section \<open>The handler of the service\<close>

definition fd_handle_msg :: "node_functions \<Rightarrow> service_id \<Rightarrow> peer_msg \<Rightarrow> unit fd_action" where
  "fd_handle_msg n source request = process_request_with_state_machines n (P2p request) source"

definition fd_handle_sync :: "node_functions \<Rightarrow> service_id \<Rightarrow> sync_msg \<Rightarrow> unit fd_action" where
  "fd_handle_sync n source request = process_request_with_state_machines n (Sync request) source"

definition fd_handle :: "node_functions \<Rightarrow> int \<Rightarrow> service_bus \<Rightarrow> service_id \<Rightarrow> bus_msg \<Rightarrow> unit fd_action" where
  "fd_handle n now bus source request = (case (bus, request) of
       (MsgBus, P2p req) \<Rightarrow> fd_handle_msg n source req
     | (CtlBus, Ctl req) \<Rightarrow> fd_handle_ctl n source req
     | (InfoBus, Info req) \<Rightarrow> fd_handle_info n now source req
     | (SyncBus, Sync req) \<Rightarrow> fd_handle_sync n source req
     | _ \<Rightarrow> throw (NotSupported bus (TOpaque ''request'')))"

text \<open>\<open>handle_err\<close>: a message that could not be routed, by its source and its target.\<close>

definition fd_handle_err :: "(service_id \<times> service_id) option \<Rightarrow> unit fd_action" where
  "fd_handle_err unrouted = (case unrouted of
       Some (source, target) \<Rightarrow> on (is_client source) (send_client_ctl source (FailureCtl (Failure TargetServiceNotFound
         (Fmt ''The target service {} does not exist'' [TService target]))))
     | None \<Rightarrow> skip)"

end
