(* ===== verification/FarcasterdFrames.thy ===== *)
theory FarcasterdFrames
  imports FarcasterdRuntime Frames
begin

text \<open>
  What the state machines of farcasterd leave alone: its identity, token, keys and configuration,
  the lists of machines themselves, the progress kept for clients, and the requests to restore. And
  that they return a value or an error: no call of theirs panics, but for automatic funding.
\<close>

section \<open>Values and errors\<close>

definition decent :: "('e, 'a) result \<Rightarrow> bool" where
  "decent r \<longleftrightarrow> (\<forall>p. r \<noteq> Panic p) \<and> r \<noteq> Hang"

lemma decent_simps [simp]: "decent (Ok x)" "decent (Err e)" "\<not> decent (Panic p)" "\<not> decent Hang"
  by (simp_all add: decent_def)

lemma decent_rbind: "decent r \<Longrightarrow> (\<And>x. decent (f x)) \<Longrightarrow> decent (rbind r f)"
  by (cases r) auto

definition sound :: "('s, 'e, 'a) action \<Rightarrow> bool" where
  "sound m \<longleftrightarrow> (\<forall>s. decent (fst (m s)))"

named_theorems sound_intros "actions that return a value or an error"

lemma soundD: "sound m \<Longrightarrow> m s = (r, t) \<Longrightarrow> decent r"
  by (metis sound_def fst_conv)

lemma sound_ret [sound_intros]: "sound (ret x)" by (simp add: sound_def ret_def)
lemma sound_throw [sound_intros]: "sound (throw e)" by (simp add: sound_def throw_def)
lemma sound_skip [sound_intros]: "sound skip" by (simp add: sound_def skip_def ret_def)
lemma sound_modify [sound_intros]: "sound (modify f)" by (simp add: sound_def modify_def)
lemma sound_stateful [sound_intros]: "sound (stateful f)"
  by (simp add: sound_def stateful_def split: prod.splits)
lemma sound_lift_res [sound_intros]: "decent r \<Longrightarrow> sound (lift_res r)"
  by (simp add: sound_def lift_res_def)

lemma sound_bind [sound_intros]:
  assumes "sound m" and "\<And>x. sound (f x)"
  shows "sound (bind m f)"
proof (unfold sound_def, rule allI)
  fix s
  obtain r t where m: "m s = (r, t)" by (cases "m s")
  then have "decent r" using assms(1) soundD by metis
  then show "decent (fst (bind m f s))"
    using m assms(2) by (cases r) (auto simp: bind_def sound_def)
qed

lemma sound_reads [sound_intros]: "(\<And>x. sound (f x)) \<Longrightarrow> sound (reads g f)"
  by (simp add: sound_def reads_def)

lemma sound_on [sound_intros]: "(b \<Longrightarrow> sound m) \<Longrightarrow> sound (on b m)"
  by (simp add: on_def sound_skip)

lemma sound_attempt [sound_intros]: "sound m \<Longrightarrow> sound (attempt m)"
  by (auto simp: sound_def attempt_def decent_def split: result.splits prod.splits) (metis fst_conv)+

lemma sound_steps [sound_intros]: "(\<And>m. m \<in> set ms \<Longrightarrow> sound m) \<Longrightarrow> sound k \<Longrightarrow> sound (steps ms k)"
  by (induction ms) (auto intro: sound_intros)

lemma sound_for_each [sound_intros]: "(\<And>x. x \<in> set xs \<Longrightarrow> sound (f x)) \<Longrightarrow> sound (for_each xs f)"
  by (induction xs) (auto intro: sound_intros)

lemma sound_if [sound_intros]: "(b \<Longrightarrow> sound m) \<Longrightarrow> (\<not> b \<Longrightarrow> sound n) \<Longrightarrow> sound (if b then m else n)"
  by simp

lemma sound_option [sound_intros]:
  "sound m \<Longrightarrow> (\<And>y. sound (f y)) \<Longrightarrow> sound (case x of None \<Rightarrow> m | Some y \<Rightarrow> f y)"
  by (cases x) simp_all

lemma sound_sum [sound_intros]:
  "(\<And>y. sound (f y)) \<Longrightarrow> (\<And>y. sound (g y)) \<Longrightarrow> sound (case x of Inl y \<Rightarrow> f y | Inr y \<Rightarrow> g y)"
  by (cases x) simp_all

lemma sound_prod [sound_intros]: "(\<And>a b. sound (f a b)) \<Longrightarrow> sound (case x of (a, b) \<Rightarrow> f a b)"
  by (cases x) simp

lemma sound_let [sound_intros]: "sound (f x) \<Longrightarrow> sound (let y = x in f y)"
  by simp

lemma sound_retain [sound_intros]: "(\<And>x. sound (p x)) \<Longrightarrow> sound (retain p xs)"
  by (induction xs) (auto intro!: sound_intros)

section \<open>The part the machines leave alone\<close>

fun asks_for_checkpoints :: "envelope \<Rightarrow> bool" where
  "asks_for_checkpoints (Envelope _ _ _ (Info RetrieveAllCheckpointInfo)) = True"
| "asks_for_checkpoints _ = False"

definition fd_fixed_part ::
  "farcasterd \<Rightarrow> (service_id \<times> token \<times> int \<times> config \<times> world \<times> (nat \<Rightarrow> envelope \<Rightarrow> bool))
     \<times> (bool \<times> btc_privkey option \<times> btc_pubkey option \<times> envelope list)
     \<times> ((service_id, progress_stack list) hash_map \<times> (service_id, service_id hash_set) hash_map)
     \<times> (trade_state_machine list \<times> (task_id, syncer_state_machine) hash_map)" where
  "fd_fixed_part s = ((identity s, wallet_token s, fd_started s, config s, the_world s, link s),
     (auto_restored s, node_secret_key s, node_public_key s, filter asks_for_checkpoints (outbox s)),
     (progress_queues s, progress_subscriptions s),
     (trade_state_machines s, syncer_state_machines s))"

abbreviation fd_fixed :: "farcasterd \<Rightarrow> farcasterd \<Rightarrow> bool" where
  "fd_fixed \<equiv> same fd_fixed_part"

definition harmless :: "'a fd_action \<Rightarrow> bool" where
  "harmless m \<longleftrightarrow> keeps fd_fixed m \<and> sound m"

named_theorems harmless_rules "actions of farcasterd that keep its fixed part and do not panic"

lemma harmless_keeps: "harmless m \<Longrightarrow> keeps fd_fixed m" and harmless_sound: "harmless m \<Longrightarrow> sound m"
  by (simp_all add: harmless_def)

lemma keeps_sum: "(\<And>y. keeps R (f y)) \<Longrightarrow> (\<And>y. keeps R (g y)) \<Longrightarrow> keeps R (case x of Inl y \<Rightarrow> f y | Inr y \<Rightarrow> g y)"
  by (cases x) simp_all

lemma harmless_ret: "harmless (ret x)" by (simp add: harmless_def same.keeps_ret sound_ret)
lemma harmless_skip: "harmless skip" by (simp add: harmless_def same.keeps_skip sound_skip)
lemma harmless_throw: "harmless (throw e)" by (simp add: harmless_def same.keeps_throw sound_throw)
lemma harmless_lift: "decent r \<Longrightarrow> harmless (lift_res r)"
  by (simp add: harmless_def same.keeps_lift_res sound_lift_res)
lemma harmless_bind: "harmless m \<Longrightarrow> (\<And>x. harmless (f x)) \<Longrightarrow> harmless (bind m f)"
  by (simp add: harmless_def same.keeps_bind sound_bind)
lemma harmless_reads: "(\<And>x. harmless (f x)) \<Longrightarrow> harmless (reads g f)"
  by (simp add: harmless_def keeps_reads sound_reads)
lemma harmless_on: "(b \<Longrightarrow> harmless m) \<Longrightarrow> harmless (on b m)"
  by (simp add: harmless_def same.keeps_on sound_on)
lemma harmless_attempt: "harmless m \<Longrightarrow> harmless (attempt m)"
  by (simp add: harmless_def keeps_attempt sound_attempt)
lemma harmless_steps: "(\<And>m. m \<in> set ms \<Longrightarrow> harmless m) \<Longrightarrow> harmless k \<Longrightarrow> harmless (steps ms k)"
  by (simp add: harmless_def same.keeps_steps sound_steps)
lemma harmless_for_each: "(\<And>x. x \<in> set xs \<Longrightarrow> harmless (f x)) \<Longrightarrow> harmless (for_each xs f)"
  by (simp add: harmless_def same.keeps_for_each sound_for_each)
lemma harmless_if: "(b \<Longrightarrow> harmless m) \<Longrightarrow> (\<not> b \<Longrightarrow> harmless n) \<Longrightarrow> harmless (if b then m else n)"
  by simp
lemma harmless_option: "harmless m \<Longrightarrow> (\<And>y. harmless (f y)) \<Longrightarrow> harmless (case x of None \<Rightarrow> m | Some y \<Rightarrow> f y)"
  by (cases x) simp_all
lemma harmless_sum: "(\<And>y. harmless (f y)) \<Longrightarrow> (\<And>y. harmless (g y)) \<Longrightarrow> harmless (case x of Inl y \<Rightarrow> f y | Inr y \<Rightarrow> g y)"
  by (cases x) simp_all
lemma harmless_prod: "(\<And>a b. harmless (f a b)) \<Longrightarrow> harmless (case x of (a, b) \<Rightarrow> f a b)"
  by (cases x) simp
lemma harmless_bool: "harmless m \<Longrightarrow> harmless n \<Longrightarrow> harmless (case b of True \<Rightarrow> m | False \<Rightarrow> n)"
  by (cases b) simp_all
lemma harmless_let: "harmless (f x) \<Longrightarrow> harmless (let y = x in f y)"
  by simp
lemma harmless_retain: "(\<And>x. harmless (p x)) \<Longrightarrow> harmless (retain p xs)"
  by (induction xs) (auto intro!: harmless_bind harmless_ret)

lemma harmless_modify: "(\<And>s. fd_fixed_part (f s) = fd_fixed_part s) \<Longrightarrow> harmless (modify f)"
  by (simp add: harmless_def keeps_modify sound_modify same_def)

lemma harmless_stateful: "(\<And>s. fd_fixed_part (snd (f s)) = fd_fixed_part s) \<Longrightarrow> harmless (stateful f)"
  by (simp add: harmless_def keeps_stateful sound_stateful same_def)

lemmas harmless_intros = harmless_ret harmless_skip harmless_throw harmless_bind harmless_reads harmless_on
  harmless_attempt harmless_steps harmless_for_each harmless_if harmless_option harmless_sum harmless_prod
  harmless_bool harmless_let harmless_retain

section \<open>Primitive actions\<close>

lemma harmless_send_to [harmless_rules]:
  assumes "\<And>a b c. \<not> asks_for_checkpoints (Envelope a b c m)"
  shows "harmless (send_to bus src dest m)"
  using assms by (auto simp: harmless_def sound_def keeps_def same_def fd_fixed_part_def send_to_def Let_def)

lemma harmless_send_from_self [harmless_rules]:
  assumes "\<And>a b c. \<not> asks_for_checkpoints (Envelope a b c m)"
  shows "harmless (send_from_self bus dest m)"
  unfolding send_from_self_def using assms by (intro harmless_reads harmless_rules)

lemma asks_only [simp]:
  "\<not> asks_for_checkpoints (Envelope a b c (Ctl x))" "\<not> asks_for_checkpoints (Envelope a b c (Sync y))"
  "\<not> asks_for_checkpoints (Envelope a b c (P2p z))"
  "asks_for_checkpoints (Envelope a b c (Info i)) \<longleftrightarrow> i = RetrieveAllCheckpointInfo"
  by (simp_all, cases i) simp_all

lemma harmless_events [harmless_rules]:
  "harmless (complete_ctl ev t)" "harmless (complete_client_ctl ev t)"
  "harmless (complete_ctl_service ev d t)" "harmless (complete_sync_service ev d y)"
  "harmless (send_ctl_service ev d t)" "harmless (event_send_client_ctl ev d t)"
  "i \<noteq> RetrieveAllCheckpointInfo \<Longrightarrow> harmless (complete_client_info ev i)"
  "i \<noteq> RetrieveAllCheckpointInfo \<Longrightarrow> harmless (event_send_client_info ev d i)"
  unfolding event_defs by (intro harmless_if harmless_rules; simp)+

lemma fd_fixed_frame [simp]:
  "fd_fixed_part (s\<lparr>spawning_services := a\<rparr>) = fd_fixed_part s"
  "fd_fixed_part (s\<lparr>registered_services := a\<rparr>) = fd_fixed_part s"
  "fd_fixed_part (s\<lparr>listens := l\<rparr>) = fd_fixed_part s"
  "fd_fixed_part (s\<lparr>deals := d\<rparr>) = fd_fixed_part s"
  "fd_fixed_part (s\<lparr>fd_stats := st\<rparr>) = fd_fixed_part s"
  "fd_fixed_part (s\<lparr>syncer_task_counter := k\<rparr>) = fd_fixed_part s"
  "fd_fixed_part (s\<lparr>launched := ls\<rparr>) = fd_fixed_part s"
  "fd_fixed_part (s\<lparr>bitcoin_payments := bp\<rparr>) = fd_fixed_part s"
  "fd_fixed_part (s\<lparr>monero_payments := mp\<rparr>) = fd_fixed_part s"
  by (simp_all add: fd_fixed_part_def)

section \<open>Services\<close>

lemma decent_ready [simp]: "decent (services_ready s)" "decent (peer_keys_ready s)" "decent (some_or_fail msg x)"
  by (auto simp: services_ready_def peer_keys_ready_def some_or_fail_def split: option.split)

lemma decent_config [simp]:
  "decent (get_bind_addr f cfg)" "decent (ok_or_config msg x)" "decent (syncer_servers_args cfg b net)"
  by (auto simp: get_bind_addr_def ok_or_config_def syncer_servers_args_def Let_def
      split: option.split sum.split blockchain.split)

lemma decent_swap_config [simp]: "decent (get_swap_config cfg arb acc net)"
  unfolding get_swap_config_def by (auto intro!: decent_rbind split: option.split)

lemma decent_chain_error [simp]: "decent (chain_error (arbitrating_try_from b))" "decent (chain_error (accordant_try_from b))"
  by (cases b; simp add: chain_error_def)+

lemma decent_swap_config_of [simp]: "decent (swap_config_of cfg d)"
  unfolding swap_config_of_def by (intro decent_rbind) simp_all

lemma harmless_launch [harmless_rules]: "harmless (launch name args)"
  by (auto simp: harmless_def sound_def keeps_def same_def launch_def Let_def)

lemma harmless_check_up [harmless_rules]: "harmless (check_up child)"
  unfolding check_up_def by (cases child) (simp_all add: harmless_throw harmless_skip)

lemma harmless_on_stats [harmless_rules]: "harmless (on_stats f)"
  unfolding on_stats_def by (rule harmless_modify) simp

lemma fd_fixed_forget [simp]: "fd_fixed_part (forget_spawning_peer p s) = fd_fixed_part s"
  by (simp add: forget_spawning_peer_def split: option.split)

lemma harmless_connection [harmless_rules]:
  "harmless (handle_new_connection p)" "harmless (handle_failed_connection p)"
  unfolding handle_new_connection_def handle_failed_connection_def
  by (auto simp: Let_def intro!: harmless_intros harmless_modify harmless_rules)

lemma harmless_terminate [harmless_rules]: "harmless (terminate_service p)"
  unfolding terminate_service_def by (intro harmless_intros harmless_rules) simp

lemma harmless_clean_up [harmless_rules]:
  "harmless (clean_up_after_swap i)" "harmless clean_up_after_syncer_usage"
  unfolding clean_up_after_swap_def clean_up_after_syncer_usage_def
  by (auto intro!: harmless_intros harmless_modify harmless_rules)

lemma harmless_listen [harmless_rules]: "harmless (listen n a)"
  unfolding listen_def by (auto intro!: harmless_intros harmless_lift harmless_modify harmless_rules)

lemma harmless_connect_peer [harmless_rules]: "harmless (connect_peer n a)"
  unfolding connect_peer_def by (auto intro!: harmless_intros harmless_lift harmless_modify harmless_rules)

lemma harmless_syncer_up [harmless_rules]: "harmless (syncer_up n b net)"
  unfolding syncer_up_def Let_def by (auto intro!: harmless_intros harmless_lift harmless_modify harmless_rules)

lemma harmless_launch_swapd [harmless_rules]: "harmless (launch_swapd n role d i cfg)"
  unfolding launch_swapd_def by (intro harmless_intros harmless_rules)

section \<open>The machine of a request to a syncer\<close>

lemma harmless_next_task_id [harmless_rules]: "harmless next_task_id"
  unfolding next_task_id_def by (rule harmless_stateful) simp

lemma harmless_give_or_await [harmless_rules]: "harmless (give_or_await ev b net task i up)"
  unfolding give_or_await_def by (auto intro!: harmless_intros harmless_rules)

lemma harmless_answer_client [harmless_rules]: "harmless m \<Longrightarrow> harmless (answer_client m)"
  unfolding answer_client_def by (auto intro!: harmless_intros harmless_rules)

lemma harmless_ssm_start [harmless_rules]:
  "harmless (attempt_transition_to_awaiting_syncer_or_awaiting_syncer_request n ev)"
  unfolding attempt_transition_to_awaiting_syncer_or_awaiting_syncer_request_def
  by (cases "ev_request ev"; simp; (rename_tac m, case_tac m)?;
      auto simp: Let_def intro!: harmless_intros harmless_rules)

lemma harmless_ssm_await [harmless_rules]: "harmless (attempt_transition_to_awaiting_syncer_request ev a)"
  unfolding attempt_transition_to_awaiting_syncer_request_def
  by (auto intro!: harmless_intros harmless_rules)

lemma harmless_ssm_end [harmless_rules]: "harmless (ssm_attempt_transition_to_end n ev a)"
  unfolding ssm_attempt_transition_to_end_def Let_def
  by (auto split: bus_msg.split sync_msg.split event.split sweep_success.split task_aborted.split health_result.split
      intro!: harmless_intros harmless_rules)

lemma harmless_ssm_execute [harmless_rules]: "harmless (ssm_execute n source request ssm)"
  unfolding ssm_execute_def ssm_next_def
  by (cases ssm) (auto intro!: harmless_intros harmless_rules)

section \<open>The machine of a trade\<close>

lemma harmless_make_deal [harmless_rules]: "harmless (attempt_transition_to_make_deal n ev)"
  unfolding attempt_transition_to_make_deal_def
  by (cases "ev_request ev"; simp; (rename_tac m, case_tac m)?;
      auto simp: Let_def intro!: harmless_intros harmless_lift harmless_modify harmless_rules)

lemma harmless_take [harmless_rules]: "harmless (attempt_transition_to_taker_connect_or_take_deal n ev)"
  unfolding attempt_transition_to_taker_connect_or_take_deal_def
  by (cases "ev_request ev"; simp; (rename_tac m, case_tac m)?;
      auto split: pub_deal.split intro!: harmless_intros harmless_modify harmless_rules)

lemma harmless_taker_committed [harmless_rules]: "harmless (attempt_transition_to_taker_committed n ev t)"
  unfolding attempt_transition_to_taker_committed_def
  by (auto split: bus_msg.split ctl_msg.split peer_msg.split intro!: harmless_intros harmless_rules)

lemma harmless_take_deal [harmless_rules]: "harmless (attempt_transition_to_take_deal n ev t)"
  unfolding attempt_transition_to_take_deal_def Let_def
  by (auto intro!: harmless_intros harmless_modify harmless_rules)

lemma harmless_syncers_up [harmless_rules]: "harmless (syncers_up n d)"
  unfolding syncers_up_def by (intro harmless_intros harmless_rules)

lemma harmless_launching [harmless_rules]:
  "harmless (transition_to_swapd_launched_tsm n role keys peerd d arb acc i)"
  unfolding transition_to_swapd_launched_tsm_def
  by (auto intro!: harmless_intros harmless_lift harmless_rules)

lemma harmless_launches [harmless_rules]:
  "harmless (attempt_transition_from_taker_commit_to_swapd_launched n ev t)"
  "harmless (attempt_transition_from_take_deal_to_swapd_launched n ev u)"
  unfolding attempt_transition_from_taker_commit_to_swapd_launched_def
    attempt_transition_from_take_deal_to_swapd_launched_def
  by (auto split: bus_msg.split ctl_msg.split intro!: harmless_intros harmless_rules)

lemma harmless_launched [harmless_rules]:
  "harmless (attempt_transition_from_swapd_launched_to_swapd_running ev t)"
  unfolding attempt_transition_from_swapd_launched_to_swapd_running_def Let_def
  by (auto intro!: harmless_intros harmless_rules)

lemma harmless_restore [harmless_rules]: "harmless (attempt_transition_to_restoring_swapd n ev)"
  unfolding attempt_transition_to_restoring_swapd_def
  by (cases "ev_request ev"; simp; (rename_tac m, case_tac m)?;
      auto simp: Let_def intro!: harmless_intros harmless_lift harmless_rules)

lemma harmless_restoring_hello [harmless_rules]: "harmless (restoring_hello n ev t)"
  unfolding restoring_hello_def Let_def
  by (auto intro!: harmless_intros harmless_lift harmless_rules)

lemma harmless_restoring [harmless_rules]:
  "harmless (attempt_transition_from_restoring_swapd_to_swapd_running n ev t)"
  unfolding attempt_transition_from_restoring_swapd_to_swapd_running_def
  by (auto intro!: harmless_intros harmless_rules)

text \<open>Automatic funding keeps the fixed part; it can panic.\<close>

lemma harmless_payments [harmless_rules]: "harmless (pay_bitcoin a amount)" "harmless (pay_monero b amount)"
  unfolding pay_bitcoin_def pay_monero_def by (auto simp: Let_def intro!: harmless_stateful)

lemma harmless_transfer [harmless_rules]: "harmless (transfer_retries k a amount)"
  by (induction k) (auto intro!: harmless_intros harmless_rules)

lemma keeps_auto_fund:
  "keeps fd_fixed (auto_fund_bitcoin n servers a amount)" "keeps fd_fixed (auto_fund_monero servers b amount)"
  unfolding auto_fund_bitcoin_def auto_fund_monero_def
  by (intro same.keeps_intros harmless_keeps [OF harmless_transfer] harmless_keeps [OF harmless_payments(1)])+

lemma keeps_handle_funding_info: "keeps fd_fixed (handle_funding_info n info t)"
  unfolding handle_funding_info_def
  by (auto split: funding_info.split bitcoin_funding_info.split monero_funding_info.split
      intro!: same.keeps_intros keeps_auto_fund harmless_keeps [OF harmless_on_stats])

lemma harmless_connect [harmless_rules]: "harmless (handle_connect n ev t)"
  unfolding handle_connect_def by (auto intro!: harmless_intros harmless_rules)

lemma harmless_outcome [harmless_rules]: "harmless (handle_swap_outcome ev out t)"
  unfolding handle_swap_outcome_def by (auto intro!: harmless_intros harmless_rules)

lemma harmless_running:
  assumes "\<And>info. ev_request ev \<noteq> Ctl (FundingInfoCtl info)"
  shows "harmless (tsm_attempt_transition_to_end n ev t)"
  using assms unfolding tsm_attempt_transition_to_end_def Let_def
  by (auto split: bus_msg.split ctl_msg.split intro!: harmless_intros harmless_rules)

lemma keeps_running: "keeps fd_fixed (tsm_attempt_transition_to_end n ev t)"
proof (cases "\<exists>info. ev_request ev = Ctl (FundingInfoCtl info)")
  case True
  then show ?thesis by (auto simp: tsm_attempt_transition_to_end_def Let_def keeps_handle_funding_info)
next
  case False
  then show ?thesis by (auto intro: harmless_keeps [OF harmless_running])
qed

lemma keeps_tsm_execute: "keeps fd_fixed (tsm_execute n source request tsm)"
  unfolding tsm_execute_def tsm_next_def
  by (rule keeps_reads) (cases tsm; simp; intro keeps_running harmless_keeps harmless_rules)

lemma harmless_tsm_execute:
  assumes "\<And>info. request \<noteq> Ctl (FundingInfoCtl info)"
  shows "harmless (tsm_execute n source request tsm)"
  unfolding tsm_execute_def tsm_next_def
  by (cases tsm) (auto intro!: harmless_reads harmless_rules harmless_running simp: assms)

end
