(* ===== verification/TradeDiagram.thy ===== *)
theory TradeDiagram
  imports FarcasterdFrames
begin

text \<open>
  The diagram of a trade, as the comment at the head of \<open>farcasterd/trade_state_machine.rs\<close> draws it,
  and that the code follows it: which phase comes after which, that a trade keeps its deal and its
  swap, when it ends, and that no handler loses one.
\<close>

section \<open>The diagram\<close>

datatype trade_phase =
    MakerStart | TakerStart | RestoreStart | Connecting | Offered | Committing | Taken
  | Restoring | Launched | Running

fun trade_phase_of :: "trade_state_machine \<Rightarrow> trade_phase" where
  "trade_phase_of TradeStartMaker = MakerStart"
| "trade_phase_of TradeStartTaker = TakerStart"
| "trade_phase_of TradeStartRestore = RestoreStart"
| "trade_phase_of (TradeTakerConnect _) = Connecting"
| "trade_phase_of (TradeMakeDeal _) = Offered"
| "trade_phase_of (TradeTakerCommit _) = Committing"
| "trade_phase_of (TradeTakeDeal _) = Taken"
| "trade_phase_of (RestoringSwapd _) = Restoring"
| "trade_phase_of (SwapdLaunched _) = Launched"
| "trade_phase_of (SwapdRunning _) = Running"

fun trade_successors :: "trade_phase \<Rightarrow> trade_phase list" where
  "trade_successors MakerStart = [Offered]"
| "trade_successors TakerStart = [Connecting, Taken]"
| "trade_successors RestoreStart = [Restoring]"
| "trade_successors Connecting = [Taken]"
| "trade_successors Offered = [Committing]"
| "trade_successors Committing = [Launched]"
| "trade_successors Taken = [Launched]"
| "trade_successors Restoring = [Running]"
| "trade_successors Launched = [Running]"
| "trade_successors Running = []"

text \<open>A phase whose machine can wait.\<close>

fun waiting :: "trade_phase \<Rightarrow> bool" where
  "waiting MakerStart = False"
| "waiting TakerStart = False"
| "waiting RestoreStart = False"
| "waiting _ = True"

fun trade_deal :: "trade_state_machine \<Rightarrow> deal option" where
  "trade_deal (TradeMakeDeal m) = Some (md_deal m)"
| "trade_deal tsm = consumed_deal tsm"

text \<open>The id the swap of a trade has or will have.\<close>

fun planned_swap_id :: "node_functions \<Rightarrow> trade_state_machine \<Rightarrow> swap_id option" where
  "planned_swap_id n (TradeTakerCommit t) = Some (commit_swap_id (tc_commit t))"
| "planned_swap_id n (TradeTakeDeal t) = Some (deal_id n (td_deal t))"
| "planned_swap_id n tsm = tsm_swap_id tsm"

fun funding_swap_id :: "funding_info \<Rightarrow> swap_id" where
  "funding_swap_id (BitcoinFunding info) = bfi_swap_id info"
| "funding_swap_id (MoneroFunding info) = mfi_swap_id info"

definition trade_moves ::
  "node_functions \<Rightarrow> trade_state_machine \<Rightarrow> esb_event \<Rightarrow> trade_state_machine \<Rightarrow> bool" where
  "trade_moves n tsm ev tsm' \<longleftrightarrow>
     (trade_phase_of tsm' \<in> set (trade_successors (trade_phase_of tsm))
      \<or> waiting (trade_phase_of tsm) \<and> trade_phase_of tsm' = trade_phase_of tsm)
     \<and> (trade_deal tsm = None \<or> trade_deal tsm' = trade_deal tsm)
     \<and> (planned_swap_id n tsm = None \<or> planned_swap_id n tsm' = planned_swap_id n tsm
        \<or> (\<exists>info. ev_request ev = Ctl (FundingInfoCtl info) \<and> tsm_swap_id tsm' = Some (funding_swap_id info)))"

text \<open>When a machine ends: an offer that is revoked, a connection that fails, the outcome of the swap,
  or a request that cannot be started.\<close>

fun trade_ends :: "trade_state_machine \<Rightarrow> esb_event \<Rightarrow> bool" where
  "trade_ends (TradeMakeDeal m) ev = (ev_request ev = Ctl (RevokeDeal (md_deal m)))"
| "trade_ends (TradeTakerConnect t) ev =
     (ev_request ev = Ctl ConnectFailed \<and> service_node_addr (ev_source ev) = Some (node_addr_from_deal (tco_deal t)))"
| "trade_ends (SwapdRunning t) ev =
     (ev_source ev = Swap (sr_swap_id t) \<and> (\<exists>out. ev_request ev = Ctl (SwapOutcome out)))"
| "trade_ends tsm ev = (\<not> waiting (trade_phase_of tsm))"

definition trade_result ::
  "node_functions \<Rightarrow> trade_state_machine \<Rightarrow> esb_event \<Rightarrow> trade_state_machine option \<Rightarrow> bool" where
  "trade_result n tsm ev r = (case r of
       None \<Rightarrow> trade_ends tsm ev
     | Some tsm' \<Rightarrow> trade_moves n tsm ev tsm')"

lemma trade_result_simps [simp]:
  "trade_result n tsm ev None = trade_ends tsm ev"
  "trade_result n tsm ev (Some tsm') = trade_moves n tsm ev tsm'"
  by (simp_all add: trade_result_def)

lemma trade_moves_self [simp]: "waiting (trade_phase_of tsm) \<Longrightarrow> trade_moves n tsm ev tsm"
  by (simp add: trade_moves_def)

section \<open>Every transition is in the diagram\<close>

lemma results_sum [results_intros]:
  "(\<And>y. results (f y) P) \<Longrightarrow> (\<And>y. results (g y) P) \<Longrightarrow> results (case x of Inl y \<Rightarrow> f y | Inr y \<Rightarrow> g y) P"
  by (cases x) simp_all

lemma results_bool [results_intros]:
  "results m P \<Longrightarrow> results n P \<Longrightarrow> results (case b of True \<Rightarrow> m | False \<Rightarrow> n) P"
  by (cases b) simp_all

lemma results_after:
  assumes "results m P" and "\<And>x. P x \<Longrightarrow> results (f x) Q"
  shows "results (bind m f) Q"
proof (unfold results_def, intro allI impI)
  fix s x s'
  assume "bind m f s = (Ok x, s')"
  then obtain y t where "m s = (Ok y, t)" "f y t = (Ok x, s')"
    by (auto simp: bind_def split: result.splits prod.splits)
  then show "Q x" using assms resultsD by metis
qed

lemma result_make_deal: "results (attempt_transition_to_make_deal n ev) (trade_result n TradeStartMaker ev)"
  unfolding attempt_transition_to_make_deal_def
  by (cases "ev_request ev"; simp; (rename_tac m, case_tac m)?;
      auto simp: Let_def trade_moves_def intro!: results_intros)

lemma result_take:
  "results (attempt_transition_to_taker_connect_or_take_deal n ev) (trade_result n TradeStartTaker ev)"
  unfolding attempt_transition_to_taker_connect_or_take_deal_def
  by (cases "ev_request ev"; simp; (rename_tac m, case_tac m)?;
      auto split: pub_deal.split simp: trade_moves_def intro!: results_intros)

lemma result_taker_committed:
  "results (attempt_transition_to_taker_committed n ev m) (trade_result n (TradeMakeDeal m) ev)"
  unfolding attempt_transition_to_taker_committed_def
  by (auto split: bus_msg.split ctl_msg.split peer_msg.split simp: trade_moves_def intro!: results_intros)

lemma result_take_deal:
  "results (attempt_transition_to_take_deal n ev t) (trade_result n (TradeTakerConnect t) ev)"
  unfolding attempt_transition_to_take_deal_def Let_def
  by (auto simp: trade_moves_def intro!: results_intros)

lemma result_launching:
  "results (transition_to_swapd_launched_tsm n role keys peerd d arb acc i)
     (\<lambda>tsm. \<exists>t. tsm = SwapdLaunched t \<and> sl_deal t = d \<and> sl_swap_id t = i)"
  unfolding transition_to_swapd_launched_tsm_def by (auto intro!: results_intros)

lemma result_launches:
  "results (attempt_transition_from_taker_commit_to_swapd_launched n ev t) (trade_result n (TradeTakerCommit t) ev)"
  "results (attempt_transition_from_take_deal_to_swapd_launched n ev u) (trade_result n (TradeTakeDeal u) ev)"
  unfolding attempt_transition_from_taker_commit_to_swapd_launched_def
    attempt_transition_from_take_deal_to_swapd_launched_def
  by (auto split: bus_msg.split ctl_msg.split simp: trade_moves_def
      intro!: results_after [OF result_launching] results_ret)

lemma launched_hello_same [simp]:
  "sl_deal (launched_hello ev t) = sl_deal t" "sl_swap_id (launched_hello ev t) = sl_swap_id t"
  "sl_consumed_deal_role (launched_hello ev t) = sl_consumed_deal_role t"
  by (simp_all add: launched_hello_def Let_def)

lemma result_launched:
  "results (attempt_transition_from_swapd_launched_to_swapd_running ev t) (trade_result n (SwapdLaunched t) ev)"
  unfolding attempt_transition_from_swapd_launched_to_swapd_running_def Let_def
  by (auto simp: trade_moves_def intro!: results_intros)

lemma result_restore: "results (attempt_transition_to_restoring_swapd n ev) (trade_result n TradeStartRestore ev)"
  unfolding attempt_transition_to_restoring_swapd_def
  by (cases "ev_request ev"; simp; (rename_tac m, case_tac m)?;
      auto simp: Let_def trade_moves_def intro!: results_intros)

lemma result_restoring_hello:
  "results (restoring_hello n ev t) (\<lambda>u. rs_deal u = rs_deal t \<and> rs_swap_id u = rs_swap_id t
     \<and> rs_trade_role u = rs_trade_role t)"
  unfolding restoring_hello_def Let_def
  by (auto split: sum.split option.split intro!: results_intros)

lemma result_restoring:
  "results (attempt_transition_from_restoring_swapd_to_swapd_running n ev t) (trade_result n (RestoringSwapd t) ev)"
  unfolding attempt_transition_from_restoring_swapd_to_swapd_running_def
  by (rule results_after [OF result_restoring_hello]) (auto simp: trade_moves_def intro!: results_intros)

lemma result_running: "results (tsm_attempt_transition_to_end n ev t) (trade_result n (SwapdRunning t) ev)"
  unfolding tsm_attempt_transition_to_end_def Let_def handle_funding_info_def handle_connect_def
    handle_swap_outcome_def
  by (auto split: bus_msg.split ctl_msg.split funding_info.split bitcoin_funding_info.split
      monero_funding_info.split simp: trade_moves_def intro!: results_intros)

lemma result_tsm_next: "results (tsm_next n tsm ev) (trade_result n tsm ev)"
  by (cases tsm) (simp_all add: tsm_next_def result_make_deal result_take result_taker_committed
      result_take_deal result_launches result_launched result_restore result_restoring result_running)

end
