(* ===== verification/FarcasterdExamples.thy ===== *)
theory FarcasterdExamples
  imports FarcasterdRuntime
begin

text \<open>
  A concrete instance of the crates and of the world of farcasterd, a state of it, and machines for
  it: the inputs of the witnesses.
\<close>

definition sample_deal :: deal where
  "sample_deal = Deal (DealParameters Bitcoin Monero Testnet 1000 2000 10 30 Alice []) [7] ''127.0.0.1:9735''"

definition sample_node :: node_functions where
  "sample_node = \<lparr>
     deal_id = (\<lambda>d. of_nat (length (deal_peer_address d))), deal_text = (\<lambda>d. deal_peer_address d),
     to_v1 = (\<lambda>p pk addr. Deal p pk addr), node_id_from = id, node_public_key_of = id,
     inet_from_str = Inr, inet_address = id, inet_port = (\<lambda>_. Some 9735), txid_from_slice = Some,
     to_hex = (\<lambda>_. ''hex''), uuid_text = (\<lambda>i. decimal (unat i)), node_addr_text = na_addr,
     blockchain_text = (\<lambda>b. case b of Bitcoin \<Rightarrow> ''Bitcoin'' | Monero \<Rightarrow> ''Monero''),
     network_text = (\<lambda>b. case b of Mainnet \<Rightarrow> ''Mainnet'' | Testnet \<Rightarrow> ''Testnet'' | Local \<Rightarrow> ''Local''),
     trade_role_text = (\<lambda>r. case r of Maker \<Rightarrow> ''Maker'' | Taker \<Rightarrow> ''Taker''), expand_tilde = id\<rparr>"

text \<open>Every process stays up; a Monero payment is accepted at the second attempt.\<close>

definition sample_world :: world where
  "sample_world = \<lparr>spawn = (\<lambda>_ _ _. StillRunning), bitcoin_client = (\<lambda>_ _. True),
     send_to_address = (\<lambda>_ _ _. Inr [1]), monero_client = (\<lambda>_. True),
     wallet_transfer = (\<lambda>k _ _. if k = 0 then Inl ''timeout'' else Inr [2])\<rparr>"

definition no_options :: shared_options where
  "no_options = \<lparr>so_data_dir = None, so_msg_socket = None, so_ctl_socket = None, so_info_socket = None,
     so_sync_socket = None, so_tor_proxy = None\<rparr>"

definition funding_servers :: auto_funding_servers where
  "funding_servers = AutoFundingServers ''http://btc'' None (Some ''user'') (Some ''pass'') ''http://xmr''"

definition sample_config :: config where
  "sample_config = default_config\<lparr>cfg_farcasterd :=
     Some (FarcasterdConfig (Some (AutoFundingConfig True None (Some funding_servers) None)) None None (Some True))\<rparr>"

definition sample_farcasterd ::
  "(nat \<Rightarrow> envelope \<Rightarrow> bool) \<Rightarrow> service_id list \<Rightarrow> trade_state_machine list \<Rightarrow> farcasterd" where
  "sample_farcasterd outcomes services trades =
     (fd_initial_runtime sample_config ''token'' no_options sample_world 0 outcomes)\<lparr>
        node_secret_key := Some [3], node_public_key := Some [4],
        registered_services := services, trade_state_machines := trades\<rparr>"

definition sample_peer :: service_id where
  "sample_peer = Peer 1 (NodeAddr [7] ''127.0.0.1:9735'')"

definition sample_launched :: "swap_id \<Rightarrow> swapd_launched" where
  "sample_launched i = \<lparr>sl_peerd = sample_peer, sl_deal = sample_deal, sl_swap_id = i,
     sl_arbitrating_syncer_up = Some (Syncer Bitcoin Testnet), sl_accordant_syncer_up = Some (Syncer Monero Testnet),
     sl_swapd_up = False, sl_consumed_deal_role = ConsumedTaker, sl_peerd_reconnected = False,
     sl_key_manager = [5], sl_target_bitcoin_address = BtcAddress Testnet [6],
     sl_target_monero_address = XmrAddress Testnet [8]\<rparr>"

definition sample_running :: "swap_id \<Rightarrow> swapd_running" where
  "sample_running i = \<lparr>sr_peerd = Some sample_peer, sr_deal = sample_deal,
     sr_arbitrating_syncer = Syncer Bitcoin Testnet, sr_accordant_syncer = Syncer Monero Testnet, sr_swap_id = i,
     sr_funding_info = None, sr_auto_funded = False, sr_clients_awaiting_connect_result = [],
     sr_trade_role = Taker, sr_expected_counterparty_node_id = None\<rparr>"

lemmas sample_defs = sample_deal_def sample_node_def sample_world_def no_options_def funding_servers_def
  sample_config_def sample_farcasterd_def sample_peer_def sample_launched_def sample_running_def
  fd_initial_runtime_def config_defs

text \<open>The actions unfolded, to run a handler on a concrete state.\<close>

lemmas fd_run = bind_def ret_def skip_def modify_def reads_def stateful_def lift_res_def throw_def
  on_def attempt_def send_to_def send_from_self_def event_defs Let_def on_stats_def

end
