(* ===== verification/TradeKeeping.thy ===== *)
theory TradeKeeping
  imports TradeDiagram FarcasterdExamples
begin

text \<open>
  What farcasterd does with its list of trades: a handler that returns has moved each of them along
  the diagram or kept it; the loop of a Hello that fails drops the rest. Which messages can make
  farcasterd panic, and what holds of it whatever messages it has received.
\<close>

section \<open>Runs of actions\<close>

lemma reads_eq [simp]: "reads g f s = f (g s) s"
  by (rule run_reads)

lemma fd_fixed_runD:
  assumes "keeps fd_fixed m" and "m s = (r, t)"
  shows "fd_fixed_part t = fd_fixed_part s"
  using keepsD [OF assms] by (simp add: same_def)

lemma fixed_machines:
  assumes "fd_fixed_part t = fd_fixed_part s"
  shows "trade_state_machines t = trade_state_machines s" "syncer_state_machines t = syncer_state_machines s"
    "identity t = identity s" "config t = config s" "wallet_token t = wallet_token s"
    "auto_restored t = auto_restored s" "progress_queues t = progress_queues s"
    "filter asks_for_checkpoints (outbox t) = filter asks_for_checkpoints (outbox s)"
  using assms by (simp_all add: fd_fixed_part_def)

section \<open>Trades are kept\<close>

definition keeps_trades :: "node_functions \<Rightarrow> esb_event \<Rightarrow> farcasterd \<Rightarrow> farcasterd \<Rightarrow> bool" where
  "keeps_trades n ev s t \<longleftrightarrow> (\<forall>tsm \<in> set (trade_state_machines s). trade_ends tsm ev
     \<or> (\<exists>tsm' \<in> set (trade_state_machines t). tsm' = tsm \<or> trade_moves n tsm ev tsm'))"

lemma keeps_trades_same: "trade_state_machines t = trade_state_machines s \<Longrightarrow> keeps_trades n ev s t"
  by (auto simp: keeps_trades_def)

lemma take_first_Some:
  "take_first p xs = Some (x, ys) \<Longrightarrow> p x \<and> set xs = insert x (set ys) \<and> length xs = Suc (length ys)"
  by (induction xs arbitrary: ys) (auto split: if_splits option.splits)

lemma take_trade_cases:
  "take_trade p s = (Ok None, s)
   \<or> (\<exists>tsm rest. take_trade p s = (Ok (Some tsm), s\<lparr>trade_state_machines := rest\<rparr>)
        \<and> set (trade_state_machines s) = insert tsm (set rest)
        \<and> length (trade_state_machines s) = Suc (length rest))"
proof (cases "take_first p (trade_state_machines s)")
  case None
  then show ?thesis by (simp add: take_trade_def run_stateful)
next
  case (Some e)
  then obtain tsm rest where "take_first p (trade_state_machines s) = Some (tsm, rest)" by (cases e) simp
  then show ?thesis using take_first_Some [of p "trade_state_machines s" tsm rest]
    by (intro disjI2 exI [of _ tsm] exI [of _ rest]) (simp add: take_trade_def run_stateful)
qed

lemma take_first_none: "take_first (\<lambda>_. False) xs = None"
  by (induction xs) simp_all

text \<open>The choice of a machine: none, a start, or the first of the list that satisfies a condition.\<close>

definition is_choice :: "trade_state_machine option fd_action \<Rightarrow> bool" where
  "is_choice m \<longleftrightarrow> (\<exists>p. m = take_trade p) \<or> (\<exists>tsm. m = ret (Some tsm) \<and> \<not> waiting (trade_phase_of tsm))"

lemma is_choice_simps:
  "is_choice (take_trade p)" "is_choice (ret None)"
  "\<not> waiting (trade_phase_of tsm) \<Longrightarrow> is_choice (ret (Some tsm))"
proof -
  have "ret None = take_trade (\<lambda>_. False)"
    by (rule ext) (simp add: take_trade_def run_stateful run_ret take_first_none)
  then show "is_choice (ret None)" unfolding is_choice_def by blast
qed (auto simp: is_choice_def)

lemma match_trade_choice: "is_choice (match_request_to_trade_state_machine request source)"
proof -
  have source: "is_choice (case source of Swap i \<Rightarrow> take_trade (f i) | _ \<Rightarrow> ret None)" for f
    by (cases source) (simp_all add: is_choice_simps)
  have peer: "is_choice (case source of Peer _ addr \<Rightarrow> take_trade (g addr) | _ \<Rightarrow> ret None)" for g
    by (cases source) (simp_all add: is_choice_simps)
  show ?thesis
    unfolding match_request_to_trade_state_machine_def Let_def
    by (simp add: source peer is_choice_simps split: bus_msg.split ctl_msg.split peer_msg.split)
qed

lemma match_trade_cases:
  "match_request_to_trade_state_machine request source s = (Ok None, s)
   \<or> (\<exists>tsm. match_request_to_trade_state_machine request source s = (Ok (Some tsm), s)
        \<and> \<not> waiting (trade_phase_of tsm))
   \<or> (\<exists>tsm rest. match_request_to_trade_state_machine request source s
          = (Ok (Some tsm), s\<lparr>trade_state_machines := rest\<rparr>)
        \<and> set (trade_state_machines s) = insert tsm (set rest))"
proof -
  consider p where "match_request_to_trade_state_machine request source = take_trade p"
    | tsm where "match_request_to_trade_state_machine request source = ret (Some tsm)" "\<not> waiting (trade_phase_of tsm)"
    using match_trade_choice [of request source] unfolding is_choice_def by blast
  then show ?thesis
  proof cases
    case (1 p)
    show ?thesis unfolding 1 using take_trade_cases [of p s] by blast
  next
    case (2 tsm)
    then show ?thesis by (simp add: run_ret)
  qed
qed

lemma match_syncer_trades:
  "\<exists>r u. match_request_to_syncer_state_machine request s = (Ok r, u)
     \<and> trade_state_machines u = trade_state_machines s"
  unfolding match_request_to_syncer_state_machine_def take_syncer_machine_def
  by (auto simp: run_ret run_stateful split: bus_msg.split ctl_msg.split sync_msg.split event.split
      sweep_success.split task_aborted.split health_result.split)

lemma put_new_trades [simp]:
  "trade_state_machines (snd (put_new_syncer_machine r s)) = trade_state_machines s"
  by (auto simp: put_new_syncer_machine_def put_syncer_machine_def run_modify run_skip split: option.split)

lemma unprocessed_harmless [harmless_rules]: "harmless (unprocessed source request)"
  unfolding unprocessed_def
  by (auto split: bus_msg.split ctl_msg.split peer_msg.split intro!: harmless_intros harmless_rules)

lemma trade_step:
  assumes run: "tsm_execute n source request tsm u = (Ok r, v)" and push: "push_trade r v = (Ok (), t)"
  shows "trade_state_machines t = trade_state_machines u @ opt_list r"
    and "trade_result n tsm (EsbEvent (identity u) source request) r"
    and "identity t = identity u"
proof -
  have same: "trade_state_machines v = trade_state_machines u" "identity v = identity u"
    by (rule fixed_machines [OF fd_fixed_runD [OF keeps_tsm_execute run]])+
  show "trade_state_machines t = trade_state_machines u @ opt_list r" "identity t = identity u"
    using push same by (cases r; auto simp: push_trade_def run_modify run_skip)+
  have "tsm_next n tsm (EsbEvent (identity u) source request) u = (Ok r, v)"
    using run by (simp add: tsm_execute_def)
  then show "trade_result n tsm (EsbEvent (identity u) source request) r"
    by (rule resultsD [OF result_tsm_next])
qed

lemma trade_run_keeps:
  assumes run: "tsm_execute n source request tsm u = (Ok r, v)" and push: "push_trade r v = (Ok (), t)"
    and before: "set (trade_state_machines s) \<subseteq> insert tsm (set (trade_state_machines u))"
    and me: "identity u = identity s"
  shows "keeps_trades n (EsbEvent (identity s) source request) s t"
  using trade_step [OF run push] before me by (cases r) (auto simp: keeps_trades_def)

lemma syncer_run_keeps:
  assumes "ssm_execute n source request ssm v = (Ok x, w)" and "put_new_syncer_machine x w = (Ok (), t)"
  shows "trade_state_machines t = trade_state_machines v"
  using fixed_machines(1) [OF fd_fixed_runD [OF harmless_keeps [OF harmless_ssm_execute] assms(1)]]
    put_new_trades [of x w] assms(2) by simp

lemma process_keeps_trades:
  assumes "process_request_with_state_machines n request source s = (Ok (), t)"
  shows "keeps_trades n (EsbEvent (identity s) source request) s t"
proof -
  define no_trade where "no_trade = bind (match_request_to_syncer_state_machine request) (\<lambda>syncer. case syncer of
         Some ssm \<Rightarrow> bind (ssm_execute n source request ssm) put_new_syncer_machine
       | None \<Rightarrow> unprocessed source request)"
  have run: "bind (match_request_to_trade_state_machine request source) (\<lambda>trade. case trade of
       Some tsm \<Rightarrow> bind (tsm_execute n source request tsm) push_trade
     | None \<Rightarrow> no_trade) s = (Ok (), t)"
    using assms unfolding process_request_with_state_machines_def no_trade_def .
  have moved: "keeps_trades n (EsbEvent (identity s) source request) s t"
    if "bind (tsm_execute n source request tsm) push_trade u = (Ok (), t)"
      "set (trade_state_machines s) \<subseteq> insert tsm (set (trade_state_machines u))" "identity u = identity s"
    for tsm u
    using that trade_run_keeps by (elim bind_OkE) blast
  from match_trade_cases [of request source s] show ?thesis
  proof (elim disjE exE conjE)
    assume "match_request_to_trade_state_machine request source s = (Ok None, s)"
    then have "no_trade s = (Ok (), t)" using run by (simp add: bind_def)
    then obtain r v where "match_request_to_syncer_state_machine request s = (Ok r, v)"
      and rest: "(case r of Some ssm \<Rightarrow> bind (ssm_execute n source request ssm) put_new_syncer_machine
         | None \<Rightarrow> unprocessed source request) v = (Ok (), t)"
      unfolding no_trade_def by (rule bind_OkE)
    then have v: "trade_state_machines v = trade_state_machines s"
      using match_syncer_trades [of request s] by auto
    have "trade_state_machines t = trade_state_machines v"
    proof (cases r)
      case None
      then have "unprocessed source request v = (Ok (), t)" using rest by simp
      then show ?thesis
        by (rule fixed_machines(1) [OF fd_fixed_runD [OF harmless_keeps [OF unprocessed_harmless]]])
    next
      case (Some ssm)
      then have "bind (ssm_execute n source request ssm) put_new_syncer_machine v = (Ok (), t)" using rest by simp
      then show ?thesis using syncer_run_keeps by (rule bind_OkE)
    qed
    then show ?thesis using v by (intro keeps_trades_same) simp
  next
    fix tsm
    assume "match_request_to_trade_state_machine request source s = (Ok (Some tsm), s)"
    then have "bind (tsm_execute n source request tsm) push_trade s = (Ok (), t)" using run by (simp add: bind_def)
    then show ?thesis by (rule moved) auto
  next
    fix tsm rest
    assume found: "match_request_to_trade_state_machine request source s
        = (Ok (Some tsm), s\<lparr>trade_state_machines := rest\<rparr>)"
      and all: "set (trade_state_machines s) = insert tsm (set rest)"
    from found have "bind (tsm_execute n source request tsm) push_trade (s\<lparr>trade_state_machines := rest\<rparr>) = (Ok (), t)"
      using run by (simp add: bind_def)
    then show ?thesis by (rule moved) (simp_all add: all)
  qed
qed

section \<open>Hello\<close>

text \<open>The loop over the machines: what it pushes, and where it fails.\<close>

lemma hello_loop:
  assumes "for_each tsms (\<lambda>tsm. bind (tsm_execute n source request tsm) push_trade) s = (Ok (), t)"
  shows "set (trade_state_machines s) \<subseteq> set (trade_state_machines t)
     \<and> (\<forall>tsm \<in> set tsms. trade_ends tsm (EsbEvent (identity s) source request)
        \<or> (\<exists>tsm' \<in> set (trade_state_machines t). trade_moves n tsm (EsbEvent (identity s) source request) tsm'))"
  using assms
proof (induction tsms arbitrary: s)
  case Nil
  then show ?case by (simp add: run_skip)
next
  case (Cons tsm tsms)
  from Cons.prems obtain u where first: "bind (tsm_execute n source request tsm) push_trade s = (Ok (), u)"
    and later: "for_each tsms (\<lambda>tsm. bind (tsm_execute n source request tsm) push_trade) u = (Ok (), t)"
    by (auto elim: bind_OkE)
  from first obtain r v where "tsm_execute n source request tsm s = (Ok r, v)" "push_trade r v = (Ok (), u)"
    by (rule bind_OkE)
  note step = trade_step [OF this]
  show ?case using Cons.IH [OF later] step by (cases r) auto
qed

lemma hello_loop_fails:
  assumes "for_each tsms (\<lambda>tsm. bind (tsm_execute n source request tsm) push_trade) s = (Err e, t)"
  shows "\<exists>before tsm after u v. tsms = before @ tsm # after
     \<and> tsm_execute n source request tsm u = (Err e, v)
     \<and> length (trade_state_machines t) \<le> length (trade_state_machines s) + length before"
  using assms
proof (induction tsms arbitrary: s)
  case Nil
  then show ?case by (simp add: run_skip)
next
  case (Cons tsm tsms)
  obtain r v where run: "tsm_execute n source request tsm s = (r, v)" by (cases "tsm_execute n source request tsm s")
  have same: "trade_state_machines v = trade_state_machines s"
    by (rule fixed_machines(1) [OF fd_fixed_runD [OF keeps_tsm_execute run]])
  show ?case
  proof (cases r)
    case (Ok x)
    obtain u where push: "push_trade x v = (Ok (), u)"
      by (cases x) (auto simp: push_trade_def run_modify run_skip)
    have step: "trade_state_machines u = trade_state_machines s @ opt_list x"
      using run Ok push by (auto dest: trade_step(1))
    have "for_each tsms (\<lambda>tsm. bind (tsm_execute n source request tsm) push_trade) u = (Err e, t)"
      using Cons.prems run Ok push by (simp add: bind_def)
    from Cons.IH [OF this] obtain before tsm' after u' v' where
      "tsms = before @ tsm' # after" "tsm_execute n source request tsm' u' = (Err e, v')"
      "length (trade_state_machines t) \<le> length (trade_state_machines u) + length before"
      by blast
    moreover have "length (trade_state_machines u) \<le> Suc (length (trade_state_machines s))"
      using step by (cases x) simp_all
    ultimately have "tsm # tsms = (tsm # before) @ tsm' # after \<and> tsm_execute n source request tsm' u' = (Err e, v')
       \<and> length (trade_state_machines t) \<le> length (trade_state_machines s) + length (tsm # before)"
      by simp
    then show ?thesis by blast
  next
    case (Err e')
    then have "e' = e" "v = t" using Cons.prems run by (simp_all add: bind_def)
    then have "tsm # tsms = [] @ tsm # tsms \<and> tsm_execute n source request tsm s = (Err e, v)
       \<and> length (trade_state_machines t) \<le> length (trade_state_machines s) + length ([] :: trade_state_machine list)"
      using run Err same by simp
    then show ?thesis by blast
  qed (use Cons.prems run in \<open>simp_all add: bind_def\<close>)
qed

definition machines_part ::
  "farcasterd \<Rightarrow> service_id \<times> config \<times> trade_state_machine list \<times> (task_id, syncer_state_machine) hash_map" where
  "machines_part s = (identity s, config s, trade_state_machines s, syncer_state_machines s)"

lemma machines_of_fixed:
  assumes "keeps fd_fixed m"
  shows "keeps (same machines_part) m" "keeps (same trade_state_machines) m"
proof -
  have "fd_fixed_part (snd (m s)) = fd_fixed_part s" for s
    using assms by (simp add: keeps_def same_def)
  note fixed_machines [OF this]
  then show "keeps (same machines_part) m" "keeps (same trade_state_machines) m"
    by (simp_all add: keeps_def same_def machines_part_def)
qed

lemma machines_send: "keeps (same machines_part) (send_from_self bus dest m)"
  by (simp add: keeps_def same_def machines_part_def send_from_self_def run_reads send_to_def Let_def)

lemma machines_modify:
  "(\<And>s. machines_part (f s) = machines_part s) \<Longrightarrow> keeps (same machines_part) (modify f)"
  by (rule keeps_modify) (simp add: same_def)

lemma machines_auto_restore: "keeps (same machines_part) handle_auto_restore"
  unfolding handle_auto_restore_def steps.simps
  by (intro keeps_reads same.keeps_on same.keeps_bind machines_send machines_modify) (simp add: machines_part_def)

lemma machines_register: "keeps (same machines_part) (register source)"
  unfolding register_def by (rule machines_modify) (simp add: machines_part_def)

lemma machines_syncer_hello:
  "keeps (same machines_part) (modify (\<lambda>s. if source \<in> set (spawning_services s)
     then s\<lparr>spawning_services := hs_remove source (spawning_services s),
            registered_services := hs_insert source (registered_services s)\<rparr> else s))"
  by (rule machines_modify) (simp add: machines_part_def)

lemma machines_hello: "keeps (same machines_part) (handle_hello source)"
  unfolding handle_hello_def
  by (cases source; simp only: service_id.case steps.simps)
    (intro same.keeps_bind keeps_reads same.keeps_on same.keeps_skip machines_auto_restore machines_register
        machines_send machines_of_fixed(1) harmless_keeps harmless_connection machines_syncer_hello)+

lemma handle_hello_same:
  assumes "handle_hello source s = (r, t)"
  shows "trade_state_machines t = trade_state_machines s" "identity t = identity s" "config t = config s"
  using keepsD [OF machines_hello assms] by (simp_all add: same_def machines_part_def)

lemma hello_syncers_same:
  assumes "hello_syncers n source s = (r, t)"
  shows "trade_state_machines t = trade_state_machines s"
proof -
  have step: "keeps (same trade_state_machines) (ssm_execute n source request ssm)" for request ssm
    by (intro machines_of_fixed(2) harmless_keeps harmless_ssm_execute)
  have put: "keeps (same trade_state_machines) (put_syncer_machine i ssm)" for i ssm
    by (simp add: put_syncer_machine_def keeps_modify same_def)
  have "keeps (same trade_state_machines) (hello_syncers n source)"
    unfolding hello_syncers_def steps.simps
    by (intro keeps_reads same.keeps_bind same.keeps_for_each keeps_prod keeps_option same.keeps_skip step put
        keeps_modify) (simp add: same_def)
  from keepsD [OF this assms] show ?thesis by (simp add: same_def)
qed

lemma hello_keeps_trades:
  assumes "fd_handle_ctl n source Hello s = (Ok (), t)"
  shows "keeps_trades n (EsbEvent (identity s) source (Ctl Hello)) s t"
proof -
  from assms obtain u v where first: "handle_hello source s = (Ok (), u)" and loop: "hello_trades n source u = (Ok (), v)"
    and last: "hello_syncers n source v = (Ok (), t)"
    by (auto simp: fd_handle_ctl_def run_skip elim!: bind_OkE)
  have "for_each (trade_state_machines u) (\<lambda>tsm. bind (tsm_execute n source (Ctl Hello) tsm) push_trade)
      (u\<lparr>trade_state_machines := []\<rparr>) = (Ok (), v)"
    using loop by (simp add: hello_trades_def bind_def run_modify)
  from hello_loop [OF this] show ?thesis
    using handle_hello_same [OF first] hello_syncers_same [OF last] by (auto simp: keeps_trades_def)
qed

section \<open>The handlers\<close>

lemma trades_send: "keeps (same trade_state_machines) (send_to bus src dest m)"
  by (simp add: keeps_def same_def send_to_def Let_def)

lemma trades_retain:
  "(\<And>x. keeps (same trade_state_machines) (p x)) \<Longrightarrow> keeps (same trade_state_machines) (retain p xs)"
  by (induction xs) (auto intro!: same.keeps_bind same.keeps_ret)

lemma trades_modify:
  "(\<And>s. trade_state_machines (f s) = trade_state_machines s) \<Longrightarrow> keeps (same trade_state_machines) (modify f)"
  by (rule keeps_modify) (simp add: same_def)

lemma trades_record_progress: "keeps (same trade_state_machines) (record_progress source p)"
  unfolding record_progress_def queue_progress_def notify_subscribed_clients_def steps.simps
  by (intro same.keeps_bind keeps_reads keeps_option same.keeps_skip same.keeps_ret trades_retain keeps_attempt
      trades_send trades_modify) simp_all

lemma trades_auto_restore: "keeps (same trade_state_machines) handle_auto_restore"
  using machines_auto_restore by (simp add: keeps_def same_def machines_part_def)

lemma harmless_notify_swaps [harmless_rules]: "harmless (notify_swaps source request)"
  unfolding notify_swaps_def by (auto intro!: harmless_intros harmless_rules)

lemma keeps_trades_frame:
  assumes "keeps (same trade_state_machines) m" and "m s = (r, t)"
  shows "keeps_trades n ev s t"
  using keepsD [OF assms] by (intro keeps_trades_same) (simp add: same_def)

text \<open>The control messages that no machine sees.\<close>

fun for_machines :: "service_id \<Rightarrow> ctl_msg \<Rightarrow> bool" where
  "for_machines source (Keys _ _) = False"
| "for_machines source PeerdTerminated = (\<not> is_peer source)"
| "for_machines source Disconnected = False"
| "for_machines source Reconnected = False"
| "for_machines source (ProgressCtl _) = False"
| "for_machines source (SuccessCtl _) = False"
| "for_machines source (FailureCtl _) = False"
| "for_machines source Hello = False"
| "for_machines source _ = True"

lemma handle_ctl_process:
  "for_machines source req \<Longrightarrow> fd_handle_ctl n source req = process_request_with_state_machines n (Ctl req) source"
  by (cases req) (simp_all add: fd_handle_ctl_def)

lemma handle_ctl_frame:
  assumes "\<not> for_machines source req" and "req \<noteq> Hello"
  shows "keeps (same trade_state_machines) (fd_handle_ctl n source req)"
proof -
  have keys: "keeps (same trade_state_machines)
      (modify (\<lambda>s. s\<lparr>node_secret_key := Some sk, node_public_key := Some pk\<rparr>))" for sk pk
    by (rule trades_modify) simp
  consider sk pk where "req = Keys sk pk" | "req = PeerdTerminated" "is_peer source"
    | "req = Disconnected \<or> req = Reconnected"
    | x where "fd_handle_ctl n source req = record_progress source x"
    using assms by (cases req) (auto simp: fd_handle_ctl_def)
  then show ?thesis
  proof cases
    case 1
    then show ?thesis
      by (simp only: fd_handle_ctl_def Let_def ctl_msg.case steps.simps)
        (intro same.keeps_bind keys trades_auto_restore)
  next
    case 2
    then show ?thesis
      by (simp only: fd_handle_ctl_def Let_def ctl_msg.case if_True)
        (intro machines_of_fixed(2) harmless_keeps harmless_connection)
  next
    case 3
    then have "fd_handle_ctl n source req = notify_swaps source req" by (auto simp: fd_handle_ctl_def)
    then show ?thesis by (simp add: machines_of_fixed(2) harmless_keeps harmless_notify_swaps)
  next
    case 4
    then show ?thesis by (simp add: trades_record_progress)
  qed
qed

lemma ctl_keeps_trades:
  assumes "fd_handle_ctl n source req s = (Ok (), t)"
  shows "keeps_trades n (EsbEvent (identity s) source (Ctl req)) s t"
proof (cases "req = Hello")
  case True
  then show ?thesis using assms hello_keeps_trades by simp
next
  case other: False
  show ?thesis
  proof (cases "for_machines source req")
    case True
    then show ?thesis using assms process_keeps_trades by (simp add: handle_ctl_process)
  next
    case False
    from keeps_trades_frame [OF handle_ctl_frame [OF this other] assms] show ?thesis .
  qed
qed

lemma keeps_trades_trans_added:
  assumes "set (trade_state_machines s) \<subseteq> set (trade_state_machines t)"
  shows "keeps_trades n ev s t"
  using assms by (auto simp: keeps_trades_def)

lemma restore_adds:
  assumes "fd_handle_ctl n source (RestoreCheckpoint c) s = (Ok (), t)"
  shows "set (trade_state_machines s) \<subseteq> set (trade_state_machines t)"
proof -
  from assms have "bind (tsm_execute n source (Ctl (RestoreCheckpoint c)) TradeStartRestore) push_trade s = (Ok (), t)"
    by (simp add: handle_ctl_process process_request_with_state_machines_def match_request_to_trade_state_machine_def
        bind_def ret_def)
  then obtain r v where "tsm_execute n source (Ctl (RestoreCheckpoint c)) TradeStartRestore s = (Ok r, v)"
      "push_trade r v = (Ok (), t)"
    by (rule bind_OkE)
  from trade_step(1) [OF this] show ?thesis by simp
qed

lemma restore_all_adds:
  "for_each cs (\<lambda>c. fd_handle_ctl n source (RestoreCheckpoint c)) s = (Ok (), t)
     \<Longrightarrow> set (trade_state_machines s) \<subseteq> set (trade_state_machines t)"
proof (induction cs arbitrary: s)
  case (Cons c cs)
  from Cons.prems obtain u where "fd_handle_ctl n source (RestoreCheckpoint c) s = (Ok (), u)"
      "for_each cs (\<lambda>c. fd_handle_ctl n source (RestoreCheckpoint c)) u = (Ok (), t)"
    by (auto elim: bind_OkE)
  then show ?case using restore_adds Cons.IH by blast
qed (simp add: run_skip)

lemma trades_send_client_info: "keeps (same trade_state_machines) (send_client_info dest m)"
  unfolding send_client_info_def send_from_self_def by (intro keeps_if keeps_reads trades_send)

lemma trades_respond: "keeps (same trade_state_machines) (respond_all source ms)"
  unfolding respond_all_def by (intro keeps_reads same.keeps_on same.keeps_for_each trades_send_client_info)

lemma trades_subscribe: "trade_state_machines (snd (subscribe_progress source i s)) = trade_state_machines s"
  by (simp add: subscribe_progress_def)

lemma trades_unsubscribe: "trade_state_machines (unsubscribe_progress source i s) = trade_state_machines s"
  by (simp add: unsubscribe_progress_def Let_def split: option.split)

lemma trades_list_deals: "keeps (same trade_state_machines) (list_deals n source sel)"
  unfolding list_deals_def Let_def
  by (intro keeps_reads) (cases sel; simp add: trades_send_client_info trades_send)

lemma handle_info_frame:
  assumes "\<And>cs. req \<noteq> CheckpointList cs"
  shows "keeps (same trade_state_machines) (fd_handle_info n now source req)"
proof -
  have sub: "keeps (same trade_state_machines) (stateful (subscribe_progress source i))" for i
    by (rule keeps_stateful) (simp add: same_def trades_subscribe)
  have unsub: "keeps (same trade_state_machines) (modify (unsubscribe_progress source i))" for i
    by (rule trades_modify) (rule trades_unsubscribe)
  show ?thesis
    using assms
    by (cases req; simp only: fd_handle_info_def info_msg.case;
        (intro same.keeps_bind keeps_reads same.keeps_skip sub unsub trades_respond trades_send_client_info
          trades_list_deals)?)
qed

lemma info_keeps_trades:
  assumes "fd_handle_info n now source req s = (Ok (), t)"
  shows "keeps_trades n ev s t"
proof (cases "\<exists>cs. req = CheckpointList cs")
  case True
  then obtain cs where req: "req = CheckpointList cs" by blast
  show ?thesis
  proof (cases "is_client source")
    case True
    then have "send_client_info source (CheckpointList
        (filter (\<lambda>c. \<not> running_swaps_contain s (ce_swap_id c)) cs)) s = (Ok (), t)"
      using assms req by (simp add: fd_handle_info_def checkpoint_list_def)
    from keeps_trades_frame [OF trades_send_client_info this] show ?thesis .
  next
    case False
    then have "for_each cs (\<lambda>c. fd_handle_ctl n source (RestoreCheckpoint c)) s = (Ok (), t)"
      using assms req by (simp add: fd_handle_info_def checkpoint_list_def)
    from keeps_trades_trans_added [OF restore_all_adds [OF this]] show ?thesis .
  qed
next
  case False
  then have "keeps (same trade_state_machines) (fd_handle_info n now source req)" by (intro handle_info_frame) blast
  from keeps_trades_frame [OF this assms] show ?thesis .
qed

lemma handle_keeps_trades:
  assumes "fd_handle n now bus source request s = (Ok (), t)"
  shows "keeps_trades n (EsbEvent (identity s) source request) s t"
proof -
  have "(\<exists>req. request = P2p req \<and> fd_handle n now bus source request = process_request_with_state_machines n request source)
      \<or> (\<exists>req. request = Ctl req \<and> fd_handle n now bus source request = fd_handle_ctl n source req)
      \<or> (\<exists>req. request = Info req \<and> fd_handle n now bus source request = fd_handle_info n now source req)
      \<or> (\<exists>req. request = Sync req \<and> fd_handle n now bus source request = process_request_with_state_machines n request source)"
    using assms by (cases bus; cases request) (auto simp: fd_handle_def fd_handle_msg_def fd_handle_sync_def run_throw)
  then show ?thesis
    using assms process_keeps_trades ctl_keeps_trades info_keeps_trades by auto
qed

end
