(* ===== verification/FarcasterdInvariant.thy ===== *)
theory FarcasterdInvariant
  imports TradeKeeping
begin

text \<open>
  The properties of farcasterd's handling of messages: trades follow their diagram and none is lost,
  what a failing Hello costs, which message can make it panic, and what holds of it in every state
  it reaches.
\<close>

section \<open>Trades\<close>

text \<open>
  Property C16 (refinement): every transition of a trade is one of the diagram at the head of
  \<open>trade_state_machine.rs\<close>. The trade keeps its deal and the swap it was planned for (but for a
  funding request, whose swap id the code takes over), and it ends only when its offer is revoked,
  its connection fails, its swap reports its outcome, or it cannot be started.
\<close>

theorem trades_follow_diagram:
  assumes "tsm_next n tsm ev s = (Ok r, s')"
  shows "(case r of None \<Rightarrow> trade_ends tsm ev | Some tsm' \<Rightarrow> trade_moves n tsm ev tsm')"
  using resultsD [OF result_tsm_next assms] by (simp add: trade_result_def)

theorem trades_follow_diagram_witness:
  "\<exists>s'. tsm_next sample_node (SwapdRunning (sample_running 5))
       (EsbEvent Farcasterd (Swap 5) (Ctl (FundingCompleted Bitcoin)))
       (sample_farcasterd (\<lambda>_ _. True) [] []) = (Ok (Some (SwapdRunning (sample_running 5))), s')
     \<and> trade_moves sample_node (SwapdRunning (sample_running 5))
       (EsbEvent Farcasterd (Swap 5) (Ctl (FundingCompleted Bitcoin))) (SwapdRunning (sample_running 5))"
proof -
  obtain s' where run: "tsm_next sample_node (SwapdRunning (sample_running 5))
       (EsbEvent Farcasterd (Swap 5) (Ctl (FundingCompleted Bitcoin)))
       (sample_farcasterd (\<lambda>_ _. True) [] []) = (Ok (Some (SwapdRunning (sample_running 5))), s')"
    by (simp add: tsm_next_def tsm_attempt_transition_to_end_def on_stats_def run_simps sample_running_def)
  then show ?thesis using trades_follow_diagram [OF run] by auto
qed

text \<open>
  Property C17 (safety): no message loses a trade. After a message that is handled, every trade
  farcasterd had has ended, or is still there, unchanged or one step further in the diagram.
\<close>

theorem no_trade_is_lost:
  assumes "fd_handle n now bus source request s = (Ok (), t)"
    and "tsm \<in> set (trade_state_machines s)"
  shows "trade_ends tsm (EsbEvent (identity s) source request)
     \<or> (\<exists>tsm' \<in> set (trade_state_machines t). tsm' = tsm
          \<or> trade_moves n tsm (EsbEvent (identity s) source request) tsm')"
  using handle_keeps_trades [OF assms(1)] assms(2) by (auto simp: keeps_trades_def)

theorem no_trade_is_lost_witness:
  "\<exists>t. fd_handle sample_node 0 CtlBus (Swap 5) (Ctl (FundingCompleted Bitcoin))
       (sample_farcasterd (\<lambda>_ _. True) [] [SwapdRunning (sample_running 5)]) = (Ok (), t)
     \<and> (\<exists>tsm' \<in> set (trade_state_machines t). trade_phase_of tsm' = Running)"
proof -
  obtain t where run: "fd_handle sample_node 0 CtlBus (Swap 5) (Ctl (FundingCompleted Bitcoin))
       (sample_farcasterd (\<lambda>_ _. True) [] [SwapdRunning (sample_running 5)]) = (Ok (), t)"
    by (simp add: fd_handle_def handle_ctl_process process_request_with_state_machines_def
        match_request_to_trade_state_machine_def take_trade_def tsm_execute_def tsm_next_def
        tsm_attempt_transition_to_end_def push_trade_def fd_run sample_running_def sample_farcasterd_def)
  have "SwapdRunning (sample_running 5)
      \<in> set (trade_state_machines (sample_farcasterd (\<lambda>_ _. True) [] [SwapdRunning (sample_running 5)]))"
    by (simp add: sample_farcasterd_def)
  from no_trade_is_lost [OF run this] obtain tsm' where "tsm' \<in> set (trade_state_machines t)"
      "trade_phase_of tsm' = Running"
    by (auto simp: trade_moves_def)
  then show ?thesis using run by blast
qed

text \<open>
  When a machine fails on a Hello, farcasterd drops it and every machine after
  it: the loop has moved them out of the state and leaves with the error.
\<close>

theorem failing_hello_drops_trades:
  assumes "hello_trades n source s = (Err e, t)"
  shows "\<exists>before tsm after u v. trade_state_machines s = before @ tsm # after
     \<and> tsm_execute n source (Ctl Hello) tsm u = (Err e, v)
     \<and> length (trade_state_machines t) \<le> length before"
proof -
  have "for_each (trade_state_machines s) (\<lambda>tsm. bind (tsm_execute n source (Ctl Hello) tsm) push_trade)
      (s\<lparr>trade_state_machines := []\<rparr>) = (Err e, t)"
    using assms by (simp add: hello_trades_def bind_def run_modify)
  from hello_loop_fails [OF this] show ?thesis by simp
qed

text \<open>A swap that has just said Hello cannot be reached; the swap after it is dropped with it.\<close>

definition unreachable_swap :: farcasterd where
  "unreachable_swap = sample_farcasterd (\<lambda>_ e. env_to e \<noteq> Swap 5) [sample_peer]
     [SwapdLaunched (sample_launched 5), SwapdLaunched (sample_launched 6)]"

theorem failing_hello_drops_trades_witness:
  "\<exists>e t. hello_trades sample_node (Swap 5) unreachable_swap = (Err e, t)
     \<and> length (trade_state_machines t) < length (trade_state_machines unreachable_swap)"
proof -
  obtain e t where run: "hello_trades sample_node (Swap 5) unreachable_swap = (Err e, t)"
    by (simp add: hello_trades_def unreachable_swap_def sample_farcasterd_def tsm_execute_def tsm_next_def
        attempt_transition_from_swapd_launched_to_swapd_running_def launched_hello_def sample_launched_def
        sample_deal_def fd_run fd_initial_runtime_def)
  from failing_hello_drops_trades [OF run] have "length (trade_state_machines t) < length (trade_state_machines unreachable_swap)"
    by auto
  then show ?thesis using run by blast
qed

section \<open>Panics\<close>

lemma sound_take_trade: "sound (take_trade p)"
  unfolding take_trade_def by (rule sound_stateful)

lemma sound_match: "sound (match_request_to_trade_state_machine request source)"
  using match_trade_choice [of request source] by (auto simp: is_choice_def sound_take_trade sound_ret)

lemma sound_match_syncer: "sound (match_request_to_syncer_state_machine request)"
  using match_syncer_trades [of request] unfolding sound_def by (metis decent_simps(1) fst_conv)

lemma sound_push: "sound (push_trade r)" "sound (put_new_syncer_machine q)" "sound (put_syncer_machine i ssm)"
  unfolding push_trade_def put_new_syncer_machine_def put_syncer_machine_def
  by (intro sound_option sound_modify sound_skip)+

lemma sound_process:
  assumes "\<And>info. request \<noteq> Ctl (FundingInfoCtl info)"
  shows "sound (process_request_with_state_machines n request source)"
  unfolding process_request_with_state_machines_def
  by (intro sound_bind sound_option sound_match sound_match_syncer sound_push
      harmless_sound [OF harmless_tsm_execute] harmless_sound [OF harmless_ssm_execute]
      harmless_sound [OF unprocessed_harmless]) (rule assms)

lemma sound_send: "sound (send_to bus src dest m)" "sound (send_from_self bus dest m)"
  by (auto simp: sound_def send_to_def send_from_self_def reads_def Let_def)

lemma sound_auto_restore: "sound handle_auto_restore"
  unfolding handle_auto_restore_def steps.simps by (intro sound_reads sound_on sound_bind sound_send sound_modify)

lemma sound_hello: "sound (handle_hello source)"
  unfolding handle_hello_def register_def
  by (cases source; simp only: service_id.case steps.simps)
    (intro sound_bind sound_reads sound_on sound_skip sound_auto_restore sound_modify sound_send
      harmless_sound harmless_connection)+

lemma sound_hello_machines: "sound (hello_trades n source)" "sound (hello_syncers n source)"
  unfolding hello_trades_def hello_syncers_def steps.simps
  by (intro sound_reads sound_bind sound_for_each sound_modify sound_push sound_prod sound_option sound_skip
      harmless_sound [OF harmless_tsm_execute] harmless_sound [OF harmless_ssm_execute]; simp)+

lemma sound_progress: "sound (record_progress source p)"
  unfolding record_progress_def queue_progress_def notify_subscribed_clients_def steps.simps
  by (intro sound_bind sound_reads sound_option sound_skip sound_ret sound_retain sound_attempt sound_send sound_modify)

lemma sound_ctl:
  assumes "\<And>info. req \<noteq> FundingInfoCtl info"
  shows "sound (fd_handle_ctl n source req)"
proof (cases "for_machines source req")
  case True
  then show ?thesis using sound_process [of "Ctl req"] assms by (simp add: handle_ctl_process)
next
  case False
  consider sk pk where "req = Keys sk pk" | "req = PeerdTerminated" "is_peer source" | "req = Hello"
    | "fd_handle_ctl n source req = notify_swaps source req"
    | x where "fd_handle_ctl n source req = record_progress source x"
    using False by (cases req) (auto simp: fd_handle_ctl_def)
  then show ?thesis
  proof cases
    case 1
    then show ?thesis
      by (simp only: fd_handle_ctl_def Let_def ctl_msg.case steps.simps) (intro sound_bind sound_modify sound_auto_restore)
  next
    case 2
    then show ?thesis
      by (simp only: fd_handle_ctl_def Let_def ctl_msg.case if_True) (intro harmless_sound harmless_connection)
  next
    case 3
    then show ?thesis
      by (simp only: fd_handle_ctl_def Let_def ctl_msg.case steps.simps)
        (intro sound_bind sound_hello sound_hello_machines sound_skip)
  qed (simp_all add: harmless_sound harmless_notify_swaps sound_progress)
qed

lemma sound_client_info: "sound (send_client_info dest m)" "sound (send_client_ctl dest c)"
  unfolding send_client_info_def send_client_ctl_def by (intro sound_if sound_send)+

lemma sound_respond: "sound (respond_all source ms)"
  unfolding respond_all_def by (intro sound_reads sound_on sound_for_each sound_client_info)

lemma sound_info: "sound (fd_handle_info n now source req)"
proof -
  have list: "sound (list_deals n source sel)" for sel
    unfolding list_deals_def Let_def
    by (intro sound_reads) (cases sel; simp add: sound_client_info sound_send)
  have "sound (checkpoint_list n source cs)" for cs
    unfolding checkpoint_list_def by (intro sound_reads sound_if sound_client_info sound_for_each sound_ctl) simp
  then show ?thesis
    by (cases req; simp only: fd_handle_info_def info_msg.case;
        (intro sound_bind sound_reads sound_skip sound_stateful sound_modify sound_respond sound_client_info list)?)
qed

lemma no_auto_funding: "\<not> is_auto_funding_enable cfg \<Longrightarrow> get_auto_funding_config cfg net = None"
  by (auto simp: is_auto_funding_enable_def get_auto_funding_config_def split: option.splits)

lemma decent_funding:
  assumes "\<not> is_auto_funding_enable (config s)"
  shows "decent (fst (handle_funding_info n info t s))"
  using assms by (auto simp: handle_funding_info_def run_simps on_stats_def no_auto_funding bind_def ret_def modify_def
      split: funding_info.split bitcoin_funding_info.split monero_funding_info.split)

lemma decent_tsm_funding:
  assumes "\<not> is_auto_funding_enable (config s)"
  shows "decent (fst (tsm_execute n source request tsm s))"
proof (cases "\<exists>info t. request = Ctl (FundingInfoCtl info) \<and> tsm = SwapdRunning t")
  case True
  then show ?thesis
    using decent_funding [OF assms]
    by (auto simp: tsm_execute_def tsm_next_def tsm_attempt_transition_to_end_def)
next
  case False
  have "sound (tsm_next n tsm (EsbEvent me source request))" for me
  proof (cases tsm)
    case (SwapdRunning t)
    then show ?thesis using False by (simp add: tsm_next_def harmless_sound harmless_running)
  qed (simp_all add: tsm_next_def harmless_sound harmless_rules)
  then show ?thesis by (simp add: tsm_execute_def sound_def)
qed

lemma decent_process_funding:
  assumes "\<not> is_auto_funding_enable (config s)"
  shows "decent (fst (process_request_with_state_machines n (Ctl (FundingInfoCtl info)) source s))"
proof -
  obtain trade u where found: "match_request_to_trade_state_machine (Ctl (FundingInfoCtl info)) source s = (Ok trade, u)"
    and "config u = config s"
    using match_trade_cases [of "Ctl (FundingInfoCtl info)" source s] by fastforce
  then have disabled: "\<not> is_auto_funding_enable (config u)" using assms by simp
  show ?thesis
  proof (cases trade)
    case None
    then show ?thesis
      using found by (simp add: process_request_with_state_machines_def bind_def ret_def
          match_request_to_syncer_state_machine_def unprocessed_def skip_def)
  next
    case (Some tsm)
    obtain r v where run: "tsm_execute n source (Ctl (FundingInfoCtl info)) tsm u = (r, v)"
      by (cases "tsm_execute n source (Ctl (FundingInfoCtl info)) tsm u")
    then have "decent r" using decent_tsm_funding [OF disabled] by (metis fst_conv)
    then show ?thesis
      using found Some run sound_push(1) by (cases r) (simp_all add: process_request_with_state_machines_def bind_def sound_def)
  qed
qed

text \<open>
  Property C18 (safety): the only message that can make farcasterd panic is a request for funding
  while automatic funding is enabled; every other message is handled or refused with an error.
\<close>

theorem only_auto_funding_panics:
  assumes "fd_handle n now bus source request s = (r, t)" and "r \<noteq> Ok ()" and "\<And>e. r \<noteq> Err e"
  shows "\<exists>info. request = Ctl (FundingInfoCtl info) \<and> is_auto_funding_enable (config s)"
proof (rule ccontr)
  assume other: "\<not> ?thesis"
  have "decent (fst (fd_handle n now bus source request s))"
  proof (cases "\<exists>info. request = Ctl (FundingInfoCtl info) \<and> bus = CtlBus")
    case True
    then show ?thesis
      using other by (auto simp: fd_handle_def handle_ctl_process intro: decent_process_funding)
  next
    case False
    have "sound (fd_handle n now bus source request)"
      using False
      by (cases bus; cases request; simp add: fd_handle_def fd_handle_msg_def fd_handle_sync_def sound_throw
          sound_info; intro sound_process sound_ctl; simp)
    then show ?thesis by (simp add: sound_def)
  qed
  then show False using assms by (cases r) auto
qed

text \<open>A Bitcoin server that refuses the client: automatic funding unwraps the error.\<close>

definition refusing_farcasterd :: farcasterd where
  "refusing_farcasterd = (sample_farcasterd (\<lambda>_ _. True) [] [SwapdRunning (sample_running 5)])
     \<lparr>the_world := sample_world\<lparr>bitcoin_client := \<lambda>_ _. False\<rparr>\<rparr>"

theorem only_auto_funding_panics_witness:
  "\<exists>msg t info. fd_handle sample_node 0 CtlBus (Swap 5)
        (Ctl (FundingInfoCtl (BitcoinFunding (BitcoinFundingInfo 5 (BtcAddress Testnet [6]) 1000))))
        refusing_farcasterd = (Panic msg, t)
     \<and> Ctl (FundingInfoCtl (BitcoinFunding (BitcoinFundingInfo 5 (BtcAddress Testnet [6]) 1000))) = Ctl (FundingInfoCtl info)
     \<and> is_auto_funding_enable (config refusing_farcasterd)"
proof -
  obtain msg t where run: "fd_handle sample_node 0 CtlBus (Swap 5)
        (Ctl (FundingInfoCtl (BitcoinFunding (BitcoinFundingInfo 5 (BtcAddress Testnet [6]) 1000))))
        refusing_farcasterd = (Panic msg, t)"
    by (simp add: fd_handle_def fd_handle_ctl_def process_request_with_state_machines_def
        match_request_to_trade_state_machine_def take_trade_def tsm_execute_def tsm_next_def
        tsm_attempt_transition_to_end_def handle_funding_info_def auto_fund_bitcoin_def bitcoin_auth_def
        get_auto_funding_config_def refusing_farcasterd_def sample_defs fd_run)
  from only_auto_funding_panics [OF run] show ?thesis using run by blast
qed

end
