(* ===== verification/FarcasterdReach.thy ===== *)
theory FarcasterdReach
  imports FarcasterdInvariant
begin

text \<open>
  What holds of farcasterd in every state it reaches, whatever messages it has received and whatever
  became of the messages it sent.
\<close>

section \<open>Frames\<close>

context frame begin

lemma keeps_after:
  assumes "keeps R m" and "results m P" and "\<And>x. P x \<Longrightarrow> keeps R (f x)"
  shows "keeps R (bind m f)"
proof (unfold keeps_def, rule allI)
  fix s
  obtain r t where m: "m s = (r, t)" by (cases "m s")
  have st: "R s t" using keepsD [OF assms(1) m] .
  show "R s (snd (bind m f s))"
  proof (cases r)
    case (Ok x)
    then have "P x" using m resultsD [OF assms(2)] by blast
    then have "R t (snd (f x t))" using assms(3) by (simp add: keeps_def)
    then show ?thesis using m Ok st by (auto simp: bind_def intro: frame_trans)
  qed (use m st in \<open>simp_all add: bind_def\<close>)
qed

end

section \<open>The invariant\<close>

definition updates_apart :: "progress_stack list \<Rightarrow> bool" where
  "updates_apart queue \<longleftrightarrow> successively (\<lambda>a b. \<not> (is_state_update a \<and> is_state_update b)) queue"

definition fd_inv :: "config \<Rightarrow> token \<Rightarrow> farcasterd \<Rightarrow> bool" where
  "fd_inv cfg token s \<longleftrightarrow> identity s = Farcasterd \<and> config s = cfg \<and> wallet_token s = token
     \<and> length (filter asks_for_checkpoints (outbox s)) = (if auto_restored s then 1 else 0)
     \<and> distinct (map fst (syncer_state_machines s))
     \<and> (\<forall>(i, ssm) \<in> set (syncer_state_machines s). ssm_task_id ssm = Some i)
     \<and> (\<forall>(who, queue) \<in> set (progress_queues s). updates_apart queue)"

definition inv_kept :: "config \<Rightarrow> token \<Rightarrow> farcasterd \<Rightarrow> farcasterd \<Rightarrow> bool" where
  "inv_kept cfg token s t \<longleftrightarrow> (fd_inv cfg token s \<longrightarrow> fd_inv cfg token t)"

interpretation inv: frame "inv_kept cfg token" for cfg token
  by unfold_locales (simp_all add: inv_kept_def)

lemma inv_fixed: "fd_fixed_part t = fd_fixed_part s \<Longrightarrow> fd_inv cfg token t = fd_inv cfg token s"
  by (simp add: fd_inv_def fd_fixed_part_def)

lemma inv_of_fixed:
  assumes "keeps fd_fixed m"
  shows "keeps (inv_kept cfg token) m"
proof (unfold keeps_def inv_kept_def, intro allI impI)
  fix s
  have "fd_fixed_part (snd (m s)) = fd_fixed_part s" using assms by (simp add: keeps_def same_def)
  from inv_fixed [OF this] show "fd_inv cfg token s \<Longrightarrow> fd_inv cfg token (snd (m s))" by simp
qed

lemma inv_harmless: "harmless m \<Longrightarrow> keeps (inv_kept cfg token) m"
  by (rule inv_of_fixed) (rule harmless_keeps)

lemma inv_modify:
  "(\<And>s. fd_inv cfg token s \<Longrightarrow> fd_inv cfg token (f s)) \<Longrightarrow> keeps (inv_kept cfg token) (modify f)"
  by (rule keeps_modify) (simp add: inv_kept_def)

lemma inv_stateful:
  "(\<And>s. fd_inv cfg token s \<Longrightarrow> fd_inv cfg token (snd (f s))) \<Longrightarrow> keeps (inv_kept cfg token) (stateful f)"
  by (rule keeps_stateful) (simp add: inv_kept_def)

section \<open>Every handler keeps it\<close>

lemma inv_auto_restore: "keeps (inv_kept cfg token) handle_auto_restore"
proof (unfold keeps_def inv_kept_def, intro allI impI)
  fix s assume "fd_inv cfg token s"
  then show "fd_inv cfg token (snd (handle_auto_restore s))"
    by (auto simp: handle_auto_restore_def run_reads on_def skip_def ret_def bind_def modify_def send_from_self_def
        send_to_def Let_def fd_inv_def)
qed

lemma inv_register: "keeps (inv_kept cfg token) (register source)"
  unfolding register_def by (rule inv_modify) (simp add: fd_inv_def)

lemma inv_hello: "keeps (inv_kept cfg token) (handle_hello source)"
proof -
  have syncer: "keeps (inv_kept cfg token) (modify (\<lambda>s. if source \<in> set (spawning_services s)
     then s\<lparr>spawning_services := hs_remove source (spawning_services s),
            registered_services := hs_insert source (registered_services s)\<rparr> else s))"
    by (rule inv_modify) (simp add: fd_inv_def)
  note sends = inv_harmless [OF harmless_send_from_self [OF asks_only(1)]] inv_harmless [OF harmless_connection(1)]
  show ?thesis
    using syncer unfolding handle_hello_def
    by (cases source; simp only: service_id.case steps.simps)
      (intro inv.keeps_bind keeps_reads inv.keeps_on inv.keeps_skip inv_auto_restore inv_register sends)+
qed

lemma inv_push_trade: "keeps (inv_kept cfg token) (push_trade r)"
  unfolding push_trade_def by (intro keeps_option inv_modify inv.keeps_skip) (simp add: fd_inv_def)

lemma inv_take_trade: "keeps (inv_kept cfg token) (take_trade p)"
  unfolding take_trade_def by (rule inv_stateful) (auto simp: fd_inv_def split: option.split)

lemma inv_match: "keeps (inv_kept cfg token) (match_request_to_trade_state_machine request source)"
  using match_trade_choice [of request source] by (auto simp: is_choice_def inv_take_trade inv.keeps_ret)

lemma hm_remove_members: "(k, v) \<in> set (hm_remove i m) \<Longrightarrow> (k, v) \<in> set m"
  by (auto simp: AList.delete_eq)

lemma hm_insert_members: "(k, v) \<in> set (hm_insert i x m) \<Longrightarrow> (k, v) \<in> set m \<or> k = i \<and> v = x"
  by (induction m) (auto split: if_splits)

lemma inv_take_syncer: "keeps (inv_kept cfg token) (take_syncer_machine i)"
  unfolding take_syncer_machine_def
  by (rule inv_stateful) (auto simp: fd_inv_def dest!: hm_remove_members)

lemma inv_match_syncer: "keeps (inv_kept cfg token) (match_request_to_syncer_state_machine request)"
  unfolding match_request_to_syncer_state_machine_def
  by (auto simp: inv_take_syncer inv.keeps_ret split: bus_msg.split ctl_msg.split sync_msg.split event.split
      sweep_success.split task_aborted.split health_result.split)

lemma inv_put_syncer:
  assumes "ssm_task_id ssm = Some i"
  shows "keeps (inv_kept cfg token) (put_syncer_machine i ssm)"
  unfolding put_syncer_machine_def
  by (rule inv_modify) (use assms in \<open>auto simp: fd_inv_def dest!: hm_insert_members\<close>)

lemma inv_put_new: "keeps (inv_kept cfg token) (put_new_syncer_machine r)"
  unfolding put_new_syncer_machine_def by (intro keeps_option inv.keeps_skip inv_put_syncer)

text \<open>A request keeps its task id.\<close>

definition same_task :: "syncer_state_machine \<Rightarrow> syncer_state_machine option \<Rightarrow> bool" where
  "same_task ssm r \<longleftrightarrow> (\<forall>ssm' \<in> set_option r. ssm_task_id ssm = None \<or> ssm_task_id ssm' = ssm_task_id ssm)"

lemma result_ssm: "results (ssm_execute n source request ssm) (same_task ssm)"
proof -
  have "results (ssm_next n ssm ev) (same_task ssm)" for ev
  proof (cases ssm)
    case SyncerStart
    have "results (ssm_next n ssm ev) (\<lambda>_. True)" by (simp add: results_def)
    then show ?thesis by (rule results_mono) (simp add: same_task_def SyncerStart)
  next
    case (AwaitingSyncer a)
    then show ?thesis
      by (auto simp: ssm_next_def attempt_transition_to_awaiting_syncer_request_def same_task_def intro!: results_intros)
  next
    case (AwaitingSyncerRequest a)
    then show ?thesis
      by (auto simp: ssm_next_def ssm_attempt_transition_to_end_def Let_def answer_client_def same_task_def
          split: bus_msg.split sync_msg.split event.split sweep_success.split task_aborted.split health_result.split
          intro!: results_intros)
  qed
  then show ?thesis unfolding ssm_execute_def by (rule results_reads)
qed

lemma inv_hello_trades: "keeps (inv_kept cfg token) (hello_trades n source)"
proof -
  have "keeps (inv_kept cfg token) (modify (\<lambda>s. s\<lparr>trade_state_machines := []\<rparr>))"
    by (rule inv_modify) (simp add: fd_inv_def)
  then show ?thesis
    unfolding hello_trades_def steps.simps
    by (intro keeps_reads inv.keeps_bind inv.keeps_for_each inv_of_fixed [OF keeps_tsm_execute] inv_push_trade)
qed

lemma inv_hello_syncers: "keeps (inv_kept cfg token) (hello_syncers n source)"
proof (unfold keeps_def, rule allI)
  fix s
  let ?each = "\<lambda>(i, ssm). bind (ssm_execute n source (Ctl Hello) ssm) (\<lambda>r. case r of
         Some new_ssm \<Rightarrow> put_syncer_machine i new_ssm
       | None \<Rightarrow> skip)"
  show "inv_kept cfg token s (snd (hello_syncers n source s))"
  proof (cases "fd_inv cfg token s")
    case True
    have each: "keeps (inv_kept cfg token) (?each e)" if "e \<in> set (syncer_state_machines s)" for e
    proof -
      obtain i ssm where e: "e = (i, ssm)" by (cases e)
      then have "ssm_task_id ssm = Some i" using True that by (auto simp: fd_inv_def)
      then show ?thesis
        unfolding e prod.case
        by (intro inv.keeps_after [OF inv_harmless [OF harmless_ssm_execute] result_ssm])
          (auto simp: same_task_def intro!: inv.keeps_skip inv_put_syncer split: option.split)
    qed
    have clear: "keeps (inv_kept cfg token) (modify (\<lambda>s. s\<lparr>syncer_state_machines := []\<rparr>))"
      by (rule inv_modify) (simp add: fd_inv_def)
    have "keeps (inv_kept cfg token) (steps [modify (\<lambda>s. s\<lparr>syncer_state_machines := []\<rparr>)]
        (for_each (syncer_state_machines s) ?each))"
      unfolding steps.simps by (intro inv.keeps_bind inv.keeps_for_each clear each)
    then show ?thesis by (simp add: hello_syncers_def keeps_def)
  qed (simp add: inv_kept_def)
qed

lemma updates_apart_push: "updates_apart queue \<Longrightarrow> updates_apart (push_progress p queue)"
  by (cases queue rule: rev_cases) (auto simp: updates_apart_def push_progress_def successively_append_iff)

lemma inv_record_progress: "keeps (inv_kept cfg token) (record_progress source p)"
proof -
  have queue: "keeps (inv_kept cfg token) (queue_progress source p)"
    unfolding queue_progress_def
  proof (rule inv_modify)
    fix s assume "fd_inv cfg token s"
    moreover from this have "updates_apart (case hm_get (progress_queues s) source of Some queue \<Rightarrow> queue | None \<Rightarrow> [])"
      by (auto simp: fd_inv_def updates_apart_def split: option.split dest: map_of_SomeD)
    ultimately show "fd_inv cfg token (s\<lparr>progress_queues := hm_insert source
        (push_progress p (case hm_get (progress_queues s) source of Some queue \<Rightarrow> queue | None \<Rightarrow> []))
        (progress_queues s)\<rparr>)"
      by (auto simp: fd_inv_def updates_apart_push dest!: hm_insert_members)
  qed
  have subs: "keeps (inv_kept cfg token) (modify (\<lambda>s. s\<lparr>progress_subscriptions := hm_insert source kept (progress_subscriptions s)\<rparr>))"
    for kept by (rule inv_modify) (simp add: fd_inv_def)
  have retain: "keeps (inv_kept cfg token) (retain (\<lambda>sub. bind (attempt (send_to InfoBus Farcasterd sub (Info (stacked_info p))))
             (\<lambda>r. ret (\<not> isl r))) subs)" for subs
    by (intro inv_harmless harmless_retain harmless_bind harmless_attempt harmless_ret harmless_send_to)
      (cases p; simp)
  show ?thesis
    unfolding record_progress_def notify_subscribed_clients_def steps.simps
    by (intro inv.keeps_bind keeps_reads keeps_option inv.keeps_skip queue subs retain)
qed

lemma inv_process: "keeps (inv_kept cfg token) (process_request_with_state_machines n request source)"
  unfolding process_request_with_state_machines_def
  by (intro inv.keeps_bind keeps_option inv_match inv_match_syncer inv_push_trade inv_put_new
      inv_of_fixed [OF keeps_tsm_execute] inv_harmless [OF harmless_ssm_execute] inv_harmless [OF unprocessed_harmless])

lemma inv_ctl: "keeps (inv_kept cfg token) (fd_handle_ctl n source req)"
proof (cases "for_machines source req")
  case True
  then show ?thesis by (simp add: handle_ctl_process inv_process)
next
  case False
  have keys: "keeps (inv_kept cfg token) (modify (\<lambda>s. s\<lparr>node_secret_key := Some sk, node_public_key := Some pk\<rparr>))" for sk pk
    by (rule inv_modify) (simp add: fd_inv_def)
  consider sk pk where "req = Keys sk pk" | "req = PeerdTerminated" "is_peer source" | "req = Hello"
    | "fd_handle_ctl n source req = notify_swaps source req"
    | x where "fd_handle_ctl n source req = record_progress source x"
    using False by (cases req) (auto simp: fd_handle_ctl_def)
  then show ?thesis
  proof cases
    case 1
    then show ?thesis
      by (simp only: fd_handle_ctl_def Let_def ctl_msg.case steps.simps) (intro inv.keeps_bind keys inv_auto_restore)
  next
    case 2
    then show ?thesis
      by (simp only: fd_handle_ctl_def Let_def ctl_msg.case if_True) (intro inv_harmless harmless_connection)
  next
    case 3
    then show ?thesis
      by (simp only: fd_handle_ctl_def Let_def ctl_msg.case steps.simps)
        (intro inv.keeps_bind inv_hello inv_hello_trades inv_hello_syncers inv.keeps_skip)
  qed (simp_all add: inv_harmless harmless_notify_swaps inv_record_progress)
qed

lemma harmless_client_info:
  "m \<noteq> RetrieveAllCheckpointInfo \<Longrightarrow> harmless (send_client_info dest m)" "harmless (send_client_ctl dest c)"
  unfolding send_client_info_def send_client_ctl_def by (intro harmless_if harmless_rules; simp)+

lemma inv_respond:
  "(\<And>m. m \<in> set ms \<Longrightarrow> m \<noteq> RetrieveAllCheckpointInfo) \<Longrightarrow> keeps (inv_kept cfg token) (respond_all source ms)"
  unfolding respond_all_def
  by (intro inv_harmless harmless_reads harmless_on harmless_for_each harmless_client_info) simp

lemma stacked_no_retrieval: "stacked_info p \<noteq> RetrieveAllCheckpointInfo"
  by (cases p) simp_all

lemma inv_info: "keeps (inv_kept cfg token) (fd_handle_info n now source req)"
proof -
  have list: "keeps (inv_kept cfg token) (list_deals n source sel)" for sel
    unfolding list_deals_def Let_def
    by (intro inv_harmless harmless_reads) (cases sel; simp add: harmless_client_info harmless_send_to)
  have checkpoints: "keeps (inv_kept cfg token) (checkpoint_list n source cs)" for cs
    unfolding checkpoint_list_def
    by (intro keeps_reads keeps_if inv_harmless [OF harmless_client_info(1)] inv.keeps_for_each inv_ctl) simp
  have subscribe: "keeps (inv_kept cfg token) (stateful (subscribe_progress source i))" for i
    by (rule inv_stateful) (auto simp: subscribe_progress_def fd_inv_def)
  have replies: "results (stateful (subscribe_progress source i)) (\<lambda>ms. RetrieveAllCheckpointInfo \<notin> set ms)" for i
    using stacked_no_retrieval by (auto simp: results_def run_stateful subscribe_progress_def image_iff) metis
  have unsubscribe: "keeps (inv_kept cfg token) (modify (unsubscribe_progress source i))" for i
    by (rule inv_modify) (auto simp: unsubscribe_progress_def fd_inv_def Let_def split: option.split)
  show ?thesis
    by (cases req; simp only: fd_handle_info_def info_msg.case;
        (intro inv.keeps_after [OF subscribe replies] keeps_reads inv.keeps_skip unsubscribe list checkpoints
          inv_respond inv_harmless harmless_client_info)?; auto simp: read_progress_def split: option.splits)
qed

lemma inv_handle: "keeps (inv_kept cfg token) (fd_handle n now bus source request)"
  by (cases bus; cases request; simp add: fd_handle_def fd_handle_msg_def fd_handle_sync_def inv.keeps_throw
      inv_process inv_ctl inv_info)

lemma inv_handle_err: "keeps (inv_kept cfg token) (fd_handle_err unrouted)"
  unfolding fd_handle_err_def
  by (intro keeps_option keeps_prod inv.keeps_on inv.keeps_skip inv_harmless harmless_client_info)

section \<open>Reachable states\<close>

text \<open>A started farcasterd, and what handling a message without a panic makes of it.\<close>

inductive fd_reach :: "node_functions \<Rightarrow> farcasterd \<Rightarrow> farcasterd \<Rightarrow> bool" for n s0 where
  start: "fd_reach n s0 s0"
| message: "fd_reach n s0 s \<Longrightarrow> fd_handle n now bus source request s = (r, t) \<Longrightarrow> decent r \<Longrightarrow> fd_reach n s0 t"
| unrouted: "fd_reach n s0 s \<Longrightarrow> fd_handle_err e s = (r, t) \<Longrightarrow> decent r \<Longrightarrow> fd_reach n s0 t"

lemma launch_daemons_inv: "keeps (inv_kept cfg token) launch_daemons"
  unfolding launch_daemons_def
  by (intro keeps_reads inv.keeps_bind keeps_if inv.keeps_skip inv.keeps_lift_res inv_harmless harmless_launch)

text \<open>
  Property C19 (invariant): in every state farcasterd reaches it is the one that was configured, it
  has asked for the checkpoints to restore at most once, the request of a client to a syncer is
  stored under its own task id and no id twice, and no two neighbours in a queue of progress are
  both updates of the state.
\<close>

theorem reachable_farcasterd_invariant:
  assumes "launch_daemons (fd_initial_runtime cfg token so w began outcomes) = (Ok (), s0)"
    and "fd_reach n s0 s"
  shows "fd_inv cfg token s"
proof -
  have "fd_inv cfg token (fd_initial_runtime cfg token so w began outcomes)"
    by (simp add: fd_inv_def fd_initial_runtime_def)
  then have start: "fd_inv cfg token s0"
    using keepsD [OF launch_daemons_inv assms(1)] by (simp add: inv_kept_def)
  from assms(2) show ?thesis
  proof induction
    case start
    show ?case by (rule \<open>fd_inv cfg token s0\<close>)
  next
    case (message s now bus source request r t)
    show ?case using keepsD [OF inv_handle message.hyps(2)] message.IH by (simp add: inv_kept_def)
  next
    case (unrouted s e r t)
    show ?case using keepsD [OF inv_handle_err unrouted.hyps(2)] unrouted.IH by (simp add: inv_kept_def)
  qed
qed

theorem reachable_farcasterd_invariant_witness:
  "\<exists>s0. launch_daemons (fd_initial_runtime sample_config ''token'' no_options sample_world 0 (\<lambda>_ _. True)) = (Ok (), s0)
     \<and> fd_inv sample_config ''token'' s0"
proof -
  obtain s0 where run: "launch_daemons (fd_initial_runtime sample_config ''token'' no_options sample_world 0 (\<lambda>_ _. True))
      = (Ok (), s0)"
    by (simp add: launch_daemons_def launch_def sample_defs is_grpc_enable_def fd_run)
  then show ?thesis using reachable_farcasterd_invariant [OF run fd_reach.start] by blast
qed

end
