(* ===== verification/FarcasterdServices.thy ===== *)
theory FarcasterdServices
  imports FarcasterdReach
begin

text \<open>
  What farcasterd does for its swaps and clients: which services the end of a swap terminates, when a
  swap is started, and what automatic funding pays.
\<close>

section \<open>The end of a swap\<close>

definition idle :: "farcasterd \<Rightarrow> service_id \<Rightarrow> bool" where
  "idle s x \<longleftrightarrow> is_peer x \<and> \<not> connection_has_swap_client s x \<or> is_syncer x \<and> \<not> syncer_has_client s x"

abbreviation told_to_end :: "service_id \<Rightarrow> service_id \<Rightarrow> envelope" where
  "told_to_end me x \<equiv> Envelope CtlBus me x (Ctl TerminateCtl)"

lemma retain_terminates:
  assumes "distinct xs"
  shows "\<exists>gone k. set gone \<subseteq> {x \<in> set xs. p x}
     \<and> retain (\<lambda>x. if p x then terminate_service x else ret True) xs s
       = (Ok (filter (\<lambda>x. x \<notin> set gone) xs),
          s\<lparr>outbox := outbox s @ map (told_to_end (identity s)) gone, attempts := k\<rparr>)"
  using assms
proof (induction xs arbitrary: s)
  case Nil
  have "s = s\<lparr>outbox := outbox s, attempts := attempts s\<rparr>" by simp
  then show ?case by (intro exI [of _ "[]"] exI [of _ "attempts s"]) (simp add: run_ret)
next
  case (Cons x xs)
  have x: "x \<notin> set xs" and d: "distinct xs" using Cons.prems by auto
  have none: "filter (\<lambda>y. y \<notin> set (x # gone)) xs = filter (\<lambda>y. y \<notin> set gone) xs" for gone
    using x by (intro filter_cong) auto
  show ?case
  proof (cases "p x \<and> link s (attempts s) (told_to_end (identity s) x)")
    case True
    let ?s = "s\<lparr>outbox := outbox s @ [told_to_end (identity s) x], attempts := Suc (attempts s)\<rparr>"
    obtain gone k where gone: "set gone \<subseteq> {x \<in> set xs. p x}"
      and run: "retain (\<lambda>x. if p x then terminate_service x else ret True) xs ?s
       = (Ok (filter (\<lambda>x. x \<notin> set gone) xs),
          ?s\<lparr>outbox := outbox ?s @ map (told_to_end (identity ?s)) gone, attempts := k\<rparr>)"
      using Cons.IH [OF d, of ?s] by blast
    have "retain (\<lambda>x. if p x then terminate_service x else ret True) (x # xs) s
       = (Ok (filter (\<lambda>y. y \<notin> set (x # gone)) (x # xs)),
          s\<lparr>outbox := outbox s @ map (told_to_end (identity s)) (x # gone), attempts := k\<rparr>)"
      using True run none [of gone] by (simp add: bind_def terminate_service_def attempt_def send_from_self_def
          reads_def send_to_def Let_def ret_def)
    then show ?thesis using gone True by (intro exI [of _ "x # gone"] exI [of _ k]) auto
  next
    case False
    let ?s = "if p x then s\<lparr>attempts := Suc (attempts s)\<rparr> else s"
    obtain gone k where gone: "set gone \<subseteq> {x \<in> set xs. p x}"
      and run: "retain (\<lambda>x. if p x then terminate_service x else ret True) xs ?s
       = (Ok (filter (\<lambda>x. x \<notin> set gone) xs),
          ?s\<lparr>outbox := outbox ?s @ map (told_to_end (identity ?s)) gone, attempts := k\<rparr>)"
      using Cons.IH [OF d, of ?s] by blast
    have "x \<notin> set gone" using gone x by auto
    then have "retain (\<lambda>x. if p x then terminate_service x else ret True) (x # xs) s
       = (Ok (filter (\<lambda>y. y \<notin> set gone) (x # xs)),
          s\<lparr>outbox := outbox s @ map (told_to_end (identity s)) gone, attempts := k\<rparr>)"
      using False run by (auto simp: bind_def terminate_service_def attempt_def send_from_self_def
          reads_def send_to_def Let_def ret_def split: if_splits)
    then show ?thesis using gone by (intro exI [of _ gone] exI [of _ k]) auto
  qed
qed

lemma clean_up_predicate:
  "(\<lambda>service. if is_peer service
         then if \<not> connection_has_swap_client s service then terminate_service service else ret True
         else if is_syncer service
         then if \<not> syncer_has_client s service then terminate_service service else ret True
         else ret True) = (\<lambda>x. if idle s x then terminate_service x else ret True)"
  by (rule ext, rename_tac x, case_tac x) (auto simp: idle_def)

lemma clean_up_run:
  assumes "distinct (registered_services s)" and "clean_up_after_swap i s = (Ok (), t)"
  shows "\<exists>gone k. set gone \<subseteq> {x \<in> set (registered_services s). idle s x}
     \<and> t = s\<lparr>outbox := outbox s @ [told_to_end (identity s) (Swap i),
            Envelope CtlBus (identity s) Database (Ctl (RemoveCheckpoint i))] @ map (told_to_end (identity s)) gone,
          attempts := k, registered_services := filter (\<lambda>x. x \<notin> set gone) (registered_services s)\<rparr>"
proof -
  let ?u = "s\<lparr>outbox := outbox s @ [told_to_end (identity s) (Swap i),
      Envelope CtlBus (identity s) Database (Ctl (RemoveCheckpoint i))], attempts := Suc (Suc (attempts s))\<rparr>"
  have same: "idle ?u = idle s"
    by (simp add: fun_eq_iff idle_def connection_has_swap_client_def syncer_has_client_def)
  obtain gone k where gone: "set gone \<subseteq> {x \<in> set (registered_services s). idle s x}"
    and run: "retain (\<lambda>x. if idle s x then terminate_service x else ret True) (registered_services s) ?u
       = (Ok (filter (\<lambda>x. x \<notin> set gone) (registered_services s)),
          ?u\<lparr>outbox := outbox ?u @ map (told_to_end (identity ?u)) gone, attempts := k\<rparr>)"
    using retain_terminates [OF assms(1)] by blast
  have "bind (retain (\<lambda>x. if idle ?u x then terminate_service x else ret True) (registered_services ?u))
      (\<lambda>kept. modify (\<lambda>t. t\<lparr>registered_services := kept\<rparr>)) ?u = (Ok (), t)"
    using assms(2) unfolding clean_up_after_swap_def clean_up_predicate
    by (simp add: bind_def send_from_self_def reads_def send_to_def Let_def split: if_splits)
  then show ?thesis using run same gone
    by (intro exI [of _ gone] exI [of _ k]) (auto simp: bind_def modify_def)
qed

text \<open>
  Property C20 (functional): when a running swap reports its outcome, its trade is gone and the
  outcome counted; the status of the deal is stored, the swap daemon terminated, and its checkpoint
  removed; and the only services terminated are connections and syncers that no other trade and no
  request of a client uses.
\<close>

theorem outcome_ends_trade:
  assumes "fd_handle n now CtlBus (Swap i) (Ctl (SwapOutcome out)) s = (Ok (), t)"
    and "take_first (\<lambda>tsm. tsm_swap_id tsm = Some i) (trade_state_machines s) = Some (SwapdRunning r, rest)"
    and "distinct (registered_services s)"
  shows "trade_state_machines t = rest \<and> fd_stats t = incr_outcome out (fd_stats s)
     \<and> (\<exists>gone. set gone \<subseteq> {x \<in> set (registered_services s). idle (s\<lparr>trade_state_machines := rest\<rparr>) x}
          \<and> registered_services t = filter (\<lambda>x. x \<notin> set gone) (registered_services s)
          \<and> outbox t = outbox s
            @ [Envelope CtlBus (identity s) Database (Ctl (SetDealStatus (DealStatusPair (sr_deal r) (Ended out)))),
               told_to_end (identity s) (Swap i),
               Envelope CtlBus (identity s) Database (Ctl (RemoveCheckpoint i))]
            @ map (told_to_end (identity s)) gone)"
proof -
  let ?s = "s\<lparr>trade_state_machines := rest\<rparr>"
  let ?ev = "EsbEvent (identity s) (Swap i) (Ctl (SwapOutcome out))"
  have i: "sr_swap_id r = i" using assms(2) take_first_Some by fastforce
  have "bind (handle_swap_outcome ?ev out r) push_trade ?s = (Ok (), t)"
    using assms(1,2) i
    by (simp add: fd_handle_def handle_ctl_process process_request_with_state_machines_def bind_def
        match_request_to_trade_state_machine_def take_trade_def run_stateful tsm_execute_def tsm_next_def
        tsm_attempt_transition_to_end_def)
  then obtain x w where "handle_swap_outcome ?ev out r ?s = (Ok x, w)" and push: "push_trade x w = (Ok (), t)"
    by (rule bind_OkE)
  then obtain u v where sent: "send_ctl_service ?ev Database (SetDealStatus (DealStatusPair (sr_deal r) (Ended out))) ?s = (Ok (), u)"
    and clean: "clean_up_after_swap i u = (Ok (), v)" and w: "w = v\<lparr>fd_stats := incr_outcome out (fd_stats v)\<rparr>" "x = None"
    unfolding handle_swap_outcome_def i
    by (auto simp: on_stats_def run_modify run_ret elim!: bind_OkE)
  have u: "\<exists>k. u = ?s\<lparr>outbox := outbox s @ [Envelope CtlBus (identity s) Database
      (Ctl (SetDealStatus (DealStatusPair (sr_deal r) (Ended out))))], attempts := k\<rparr>"
    using sent by (auto simp: send_ctl_service_def send_to_def Let_def split: if_splits)
  then have same: "idle u = idle ?s"
    by (auto simp: fun_eq_iff idle_def connection_has_swap_client_def syncer_has_client_def)
  have "distinct (registered_services u)" using u assms(3) by auto
  from clean_up_run [OF this clean] obtain gone k where
    "set gone \<subseteq> {x \<in> set (registered_services u). idle u x}"
    "v = u\<lparr>outbox := outbox u @ [told_to_end (identity u) (Swap i),
            Envelope CtlBus (identity u) Database (Ctl (RemoveCheckpoint i))] @ map (told_to_end (identity u)) gone,
          attempts := k, registered_services := filter (\<lambda>x. x \<notin> set gone) (registered_services u)\<rparr>"
    by blast
  then show ?thesis
    using u same w push by (intro conjI exI [of _ gone]) (auto simp: push_trade_def run_skip)
qed

text \<open>Two swaps share their connection and syncers: the end of one of them terminates nothing.\<close>

definition two_swaps :: farcasterd where
  "two_swaps = sample_farcasterd (\<lambda>_ _. True) [Walletd, sample_peer, Syncer Bitcoin Testnet, Syncer Monero Local]
     [SwapdRunning (sample_running 5), SwapdRunning (sample_running 6)]"

theorem outcome_ends_trade_witness:
  "\<exists>t. fd_handle sample_node 0 CtlBus (Swap 5) (Ctl (SwapOutcome SuccessSwap)) two_swaps = (Ok (), t)
     \<and> trade_state_machines t = [SwapdRunning (sample_running 6)]
     \<and> outcome_count SuccessSwap (fd_stats t) = 1 \<and> sample_peer \<in> set (registered_services t)"
proof -
  have found: "take_first (\<lambda>tsm. tsm_swap_id tsm = Some 5) (trade_state_machines two_swaps)
      = Some (SwapdRunning (sample_running 5), [SwapdRunning (sample_running 6)])"
    by (simp add: two_swaps_def sample_farcasterd_def sample_running_def)
  have d: "distinct (registered_services two_swaps)"
    by (simp add: two_swaps_def sample_farcasterd_def sample_peer_def)
  obtain t where run: "fd_handle sample_node 0 CtlBus (Swap 5) (Ctl (SwapOutcome SuccessSwap)) two_swaps = (Ok (), t)"
    by (simp add: fd_handle_def handle_ctl_process process_request_with_state_machines_def
        match_request_to_trade_state_machine_def take_trade_def found tsm_execute_def tsm_next_def
        tsm_attempt_transition_to_end_def handle_swap_outcome_def clean_up_after_swap_def terminate_service_def
        push_trade_def fd_run sample_running_def two_swaps_def sample_farcasterd_def fd_initial_runtime_def
        sample_peer_def connection_has_swap_client_def syncer_has_client_def map_filter_def)
  from outcome_ends_trade [OF run found d] obtain gone where
    "set gone \<subseteq> {x \<in> set (registered_services two_swaps).
        idle (two_swaps\<lparr>trade_state_machines := [SwapdRunning (sample_running 6)]\<rparr>) x}"
    "registered_services t = filter (\<lambda>x. x \<notin> set gone) (registered_services two_swaps)"
    "trade_state_machines t = [SwapdRunning (sample_running 6)]"
    "fd_stats t = incr_outcome SuccessSwap (fd_stats two_swaps)"
    by blast
  moreover have "sample_peer \<in> set (registered_services two_swaps)"
      "\<not> idle (two_swaps\<lparr>trade_state_machines := [SwapdRunning (sample_running 6)]\<rparr>) sample_peer"
    by (simp_all add: two_swaps_def sample_farcasterd_def idle_def connection_has_swap_client_def map_filter_def
        sample_running_def sample_peer_def)
  moreover have "outcome_count SuccessSwap (incr_outcome SuccessSwap (fd_stats two_swaps)) = 1"
    unfolding outcome_count_incr by (simp add: two_swaps_def sample_farcasterd_def fd_initial_runtime_def no_stats_def)
  ultimately show ?thesis using run by (auto simp: incr_outcome_def)
qed

section \<open>The start of a swap\<close>

lemma find_peerd_registered:
  "find_peerd services p flag = (True, q, flag') \<Longrightarrow> q \<in> set services \<and> service_node_addr q = service_node_addr p"
  by (induction services p flag rule: find_peerd.induct) (auto split: if_splits)

lemma launched_hello_peerd [simp]:
  "sl_peerd (launched_hello ev l) = sl_peerd l" "sl_key_manager (launched_hello ev l) = sl_key_manager l"
  "sl_target_bitcoin_address (launched_hello ev l) = sl_target_bitcoin_address l"
  "sl_target_monero_address (launched_hello ev l) = sl_target_monero_address l"
  by (simp_all add: launched_hello_def Let_def)

text \<open>
  Property C21 (safety): a launched swap is started only once the daemon of exactly this swap and the
  syncers of exactly its two chains, on the network of its deal, have said Hello (now or before, as the
  trade has recorded) and a daemon connected to its peer is registered. It is started with the keys,
  addresses and commitment of the trade, by one message, the last that is sent. Until then nothing is
  sent, and a Hello is recorded for the service that said it and for no other.
\<close>

theorem swap_starts_when_all_are_up:
  fixes ev :: esb_event and l :: swapd_launched
  assumes "tsm_next n (SwapdLaunched l) ev s = (Ok (Some tsm), t)"
  defines "hello \<equiv> \<lambda>service. ev_request ev = Ctl Hello \<and> ev_source ev = service"
  defines "net \<equiv> dp_network (deal_params (sl_deal l))"
  defines "daemon_up \<equiv> sl_swapd_up l \<or> hello (Swap (sl_swap_id l))"
  defines "monero_up \<equiv> if hello (Syncer Monero net) then Some (Syncer Monero net) else sl_accordant_syncer_up l"
  defines "bitcoin_up \<equiv> if hello (Syncer Bitcoin net) then Some (Syncer Bitcoin net) else sl_arbitrating_syncer_up l"
  shows "(\<exists>l'. tsm = SwapdLaunched l' \<and> t = s \<and> sl_swapd_up l' = daemon_up
          \<and> sl_accordant_syncer_up l' = monero_up \<and> sl_arbitrating_syncer_up l' = bitcoin_up)
     \<or> (\<exists>r p notice. tsm = SwapdRunning r \<and> sr_peerd r = Some p
          \<and> p \<in> set (registered_services s) \<and> service_node_addr p = service_node_addr (sl_peerd l)
          \<and> daemon_up \<and> monero_up = Some (sr_accordant_syncer r) \<and> bitcoin_up = Some (sr_arbitrating_syncer r)
          \<and> set notice \<subseteq> {PeerdReconnected p}
          \<and> outbox t = outbox s @ map (\<lambda>m. Envelope CtlBus (ev_service ev) (Swap (sl_swap_id l)) (Ctl m))
              (notice @ [init_swap_request (identity s) (l\<lparr>sl_peerd := p\<rparr>)]))"
proof -
  let ?l = "launched_hello ev l"
  have heard: "sl_swapd_up ?l = daemon_up" "sl_accordant_syncer_up ?l = monero_up" "sl_arbitrating_syncer_up ?l = bitcoin_up"
    by (auto simp: launched_hello_def Let_def daemon_up_def monero_up_def bitcoin_up_def hello_def net_def)
  obtain up p re where found: "find_peerd (registered_services s) (sl_peerd l) (sl_peerd_reconnected ?l) = (up, p, re)"
    by (cases "find_peerd (registered_services s) (sl_peerd l) (sl_peerd_reconnected ?l)")
  have request: "init_swap_request me (?l\<lparr>sl_peerd := p, sl_peerd_reconnected := re\<rparr>)
      = init_swap_request me (l\<lparr>sl_peerd := p\<rparr>)" for me
    by (simp add: init_swap_request_def split: consumed_deal_role.split)
  show ?thesis
  proof (cases "up \<and> sl_swapd_up ?l \<and> sl_accordant_syncer_up ?l \<noteq> None \<and> sl_arbitrating_syncer_up ?l \<noteq> None")
    case True
    then obtain acc arb where ups: "up" "sl_swapd_up ?l" "sl_accordant_syncer_up ?l = Some acc"
        "sl_arbitrating_syncer_up ?l = Some arb"
      by auto
    have p: "p \<in> set (registered_services s) \<and> service_node_addr p = service_node_addr (sl_peerd l)"
      using found ups(1) by (auto dest: find_peerd_registered)
    have run: "steps [on re (event_send_client_ctl ev (Swap (sl_swap_id l)) (PeerdReconnected p)),
        complete_ctl_service ev (Swap (sl_swap_id l)) (init_swap_request (identity s) (l\<lparr>sl_peerd := p\<rparr>))]
        (ret (Some (SwapdRunning \<lparr>sr_peerd = Some p, sr_deal = sl_deal l,
               sr_arbitrating_syncer = arb, sr_accordant_syncer = acc, sr_swap_id = sl_swap_id l,
               sr_funding_info = None, sr_auto_funded = False, sr_clients_awaiting_connect_result = [],
               sr_trade_role = trade_role_from (sl_consumed_deal_role l),
               sr_expected_counterparty_node_id = None\<rparr>))) s = (Ok (Some tsm), t)"
      using assms(1) found ups request
      by (simp add: tsm_next_def attempt_transition_from_swapd_launched_to_swapd_running_def Let_def)
    then have "outbox t = outbox s @ map (\<lambda>m. Envelope CtlBus (ev_service ev) (Swap (sl_swap_id l)) (Ctl m))
        ((if re then [PeerdReconnected p] else []) @ [init_swap_request (identity s) (l\<lparr>sl_peerd := p\<rparr>)])"
      by (auto simp: event_defs on_def skip_def ret_def bind_def send_to_def Let_def split: if_splits)
    moreover have "tsm = SwapdRunning \<lparr>sr_peerd = Some p, sr_deal = sl_deal l,
               sr_arbitrating_syncer = arb, sr_accordant_syncer = acc, sr_swap_id = sl_swap_id l,
               sr_funding_info = None, sr_auto_funded = False, sr_clients_awaiting_connect_result = [],
               sr_trade_role = trade_role_from (sl_consumed_deal_role l),
               sr_expected_counterparty_node_id = None\<rparr>"
      using run by (auto simp: run_ret elim!: bind_OkE)
    ultimately show ?thesis using p ups unfolding heard
      by (intro disjI2 exI conjI; (assumption | simp)?; auto)
  next
    case False
    then have "tsm_next n (SwapdLaunched l) ev s
        = (Ok (Some (SwapdLaunched (?l\<lparr>sl_peerd := p, sl_peerd_reconnected := re\<rparr>))), s)"
      using found
      by (auto simp: tsm_next_def attempt_transition_from_swapd_launched_to_swapd_running_def Let_def run_ret
          split: option.split bool.split)
    then show ?thesis using assms(1) heard by (intro disjI1) auto
  qed
qed

theorem swap_starts_when_all_are_up_witness:
  "\<exists>r t. tsm_next sample_node (SwapdLaunched (sample_launched 5)) (EsbEvent Farcasterd (Swap 5) (Ctl Hello))
       (sample_farcasterd (\<lambda>_ _. True) [sample_peer] []) = (Ok (Some (SwapdRunning r)), t)
     \<and> sr_peerd r = Some sample_peer \<and> outbox t \<noteq> []"
proof -
  obtain r t where run: "tsm_next sample_node (SwapdLaunched (sample_launched 5)) (EsbEvent Farcasterd (Swap 5) (Ctl Hello))
       (sample_farcasterd (\<lambda>_ _. True) [sample_peer] []) = (Ok (Some (SwapdRunning r)), t)"
    by (simp add: tsm_next_def attempt_transition_from_swapd_launched_to_swapd_running_def launched_hello_def
        sample_launched_def sample_deal_def sample_farcasterd_def fd_initial_runtime_def fd_run)
  from swap_starts_when_all_are_up [OF run] show ?thesis
    using run by (auto simp: sample_farcasterd_def)
qed

section \<open>Automatic funding\<close>

definition accepted :: "('a \<times> 'b \<times> (string + txid)) list \<Rightarrow> nat" where
  "accepted payments = length (filter (\<lambda>(_, _, answer). \<not> isl answer) payments)"

definition out_of_money :: "string + txid \<Rightarrow> bool" where
  "out_of_money answer = (case answer of
     Inl err \<Rightarrow> contains_text ''not enough'' err \<and> contains_text ''money'' err | Inr _ \<Rightarrow> False)"

lemma transfer_retries_run:
  "\<exists>new paid. transfer_retries k a amount s = (Ok paid, s\<lparr>monero_payments := monero_payments s @ new\<rparr>)
     \<and> length new \<le> k \<and> accepted new = (if paid then 1 else 0)
     \<and> (\<forall>(a', amount', _) \<in> set new. a' = a \<and> amount' = amount)
     \<and> (\<forall>(_, _, answer) \<in> set (butlast new). \<exists>err. answer = Inl err \<and> \<not> out_of_money answer)
     \<and> (paid \<or> length new = k \<or> new \<noteq> [] \<and> out_of_money (snd (snd (last new))))"
proof (induction k arbitrary: s)
  case 0
  show ?case by (intro exI [of _ "[]"] exI [of _ False]) (simp add: run_ret accepted_def)
next
  case (Suc k)
  define answer where "answer = wallet_transfer (the_world s) (length (monero_payments s)) a amount"
  let ?s = "s\<lparr>monero_payments := monero_payments s @ [(a, amount, answer)]\<rparr>"
  have pay: "pay_monero a amount s = (Ok answer, ?s)"
    by (simp add: pay_monero_def run_stateful Let_def answer_def)
  show ?case
  proof (cases answer)
    case (Inr tx)
    then show ?thesis using pay
      by (intro exI [of _ "[(a, amount, answer)]"] exI [of _ True]) (simp add: bind_def ret_def accepted_def)
  next
    case (Inl err)
    show ?thesis
    proof (cases "contains_text ''not enough'' err \<and> contains_text ''money'' err \<or> k = 0")
      case True
      then show ?thesis using pay Inl
        by (intro exI [of _ "[(a, amount, answer)]"] exI [of _ False])
          (auto simp: bind_def ret_def accepted_def out_of_money_def)
    next
      case False
      obtain new paid where new: "transfer_retries k a amount ?s = (Ok paid, ?s\<lparr>monero_payments := monero_payments ?s @ new\<rparr>)"
          "length new \<le> k" "accepted new = (if paid then 1 else 0)"
          "\<forall>(a', amount', _) \<in> set new. a' = a \<and> amount' = amount"
          "\<forall>(_, _, answer) \<in> set (butlast new). \<exists>err. answer = Inl err \<and> \<not> out_of_money answer"
          "paid \<or> length new = k \<or> new \<noteq> [] \<and> out_of_money (snd (snd (last new)))"
        using Suc.IH [of ?s] by blast
      moreover have "\<not> out_of_money answer" using False Inl by (simp add: out_of_money_def)
      moreover have "new \<noteq> []" using new(3,6) False by (auto simp: accepted_def)
      ultimately show ?thesis using pay Inl False
        by (intro exI [of _ "(a, amount, answer) # new"] exI [of _ paid])
          (auto simp: bind_def accepted_def split: if_splits)
    qed
  qed
qed

fun funding_target :: "funding_info \<Rightarrow> address \<times> u64" where
  "funding_target (BitcoinFunding info) = (BitcoinAddr (bfi_address info), bfi_amount info)"
| "funding_target (MoneroFunding info) = (MoneroAddr (mfi_address info), mfi_amount info)"

text \<open>
  Property C22 (bounds): a request for funding has at most one payment accepted. Bitcoin is tried once and
  Monero at most ten times, always for the address and amount requested; nothing is tried after a
  payment that was accepted or after an answer that the money is not enough, and short of those all
  ten attempts are made; the trade is marked as funded automatically exactly when a payment was
  accepted. An attempt that was answered with any other error is repeated, whether the wallet made the
  transfer or not: only what the wallet acknowledges is known to be paid once.
\<close>

theorem funding_stops_when_accepted:
  assumes "ev_request ev = Ctl (FundingInfoCtl info)" and "tsm_next n (SwapdRunning r) ev s = (Ok (Some tsm), t)"
  shows "\<exists>r' btc xmr. tsm = SwapdRunning r' \<and> sr_funding_info r' = Some info
     \<and> bitcoin_payments t = bitcoin_payments s @ btc \<and> monero_payments t = monero_payments s @ xmr
     \<and> length btc \<le> 1 \<and> length xmr \<le> 10
     \<and> (\<forall>(_, _, answer) \<in> set (butlast xmr). \<exists>err. answer = Inl err \<and> \<not> out_of_money answer)
     \<and> (xmr \<noteq> [] \<and> accepted xmr = 0 \<longrightarrow> length xmr = 10 \<or> out_of_money (snd (snd (last xmr))))
     \<and> accepted btc + accepted xmr = (if sr_auto_funded r' then 1 else 0)
     \<and> (\<forall>(a, amount, _) \<in> set btc. funding_target info = (BitcoinAddr a, amount))
     \<and> (\<forall>(a, amount, _) \<in> set xmr. funding_target info = (MoneroAddr a, amount))"
proof -
  have run: "handle_funding_info n info r s = (Ok (Some tsm), t)"
    using assms by (simp add: tsm_next_def tsm_attempt_transition_to_end_def)
  show ?thesis
  proof (cases info)
    case (BitcoinFunding b)
    obtain i a amount where b: "b = BitcoinFundingInfo i a amount" by (cases b)
    show ?thesis
    proof (cases "get_auto_funding_config (config s) (btc_network a)")
      case None
      then show ?thesis using run BitcoinFunding b
        by (auto simp: handle_funding_info_def bind_def ret_def on_stats_def modify_def accepted_def
            intro!: exI [of _ "[]"])
    next
      case (Some servers)
      then obtain answer where "tsm = SwapdRunning (r\<lparr>sr_swap_id := i, sr_funding_info := Some info,
            sr_auto_funded := \<not> isl answer\<rparr>)"
          "bitcoin_payments t = bitcoin_payments s @ [(a, amount, answer)]" "monero_payments t = monero_payments s"
        using run BitcoinFunding b
        by (auto simp: handle_funding_info_def auto_fund_bitcoin_def pay_bitcoin_def bind_def ret_def on_stats_def
            modify_def lift_res_def stateful_def Let_def split: option.splits if_splits)
      then show ?thesis using BitcoinFunding b
        by (intro exI [of _ "r\<lparr>sr_swap_id := i, sr_funding_info := Some info, sr_auto_funded := \<not> isl answer\<rparr>"]
            exI [of _ "[(a, amount, answer)]"] exI [of _ "[]"]) (simp add: accepted_def)
    qed
  next
    case (MoneroFunding m)
    obtain i a amount where m: "m = MoneroFundingInfo i amount a" by (cases m)
    show ?thesis
    proof (cases "get_auto_funding_config (config s) (xmr_network a)")
      case None
      then show ?thesis using run MoneroFunding m
        by (auto simp: handle_funding_info_def bind_def ret_def on_stats_def modify_def accepted_def
            intro!: exI [of _ "[]"])
    next
      case (Some servers)
      let ?s = "s\<lparr>fd_stats := incr_awaiting_funding Monero i (fd_stats s)\<rparr>"
      obtain new paid where new: "transfer_retries 10 a amount ?s = (Ok paid, ?s\<lparr>monero_payments := monero_payments ?s @ new\<rparr>)"
          "length new \<le> 10" "accepted new = (if paid then 1 else 0)"
          "\<forall>(a', amount', _) \<in> set new. a' = a \<and> amount' = amount"
          "\<forall>(_, _, answer) \<in> set (butlast new). \<exists>err. answer = Inl err \<and> \<not> out_of_money answer"
          "paid \<or> length new = 10 \<or> new \<noteq> [] \<and> out_of_money (snd (snd (last new)))"
        using transfer_retries_run [of 10 a amount ?s] by blast
      then have "tsm = SwapdRunning (r\<lparr>sr_swap_id := i, sr_funding_info := Some info, sr_auto_funded := paid\<rparr>)"
          "bitcoin_payments t = bitcoin_payments s" "monero_payments t = monero_payments s @ new"
        using run MoneroFunding m Some
        by (auto simp: handle_funding_info_def auto_fund_monero_def bind_def ret_def on_stats_def
            modify_def lift_res_def simp del: transfer_retries.simps split: if_splits)
      then show ?thesis using MoneroFunding m new
        by (intro exI [of _ "r\<lparr>sr_swap_id := i, sr_funding_info := Some info, sr_auto_funded := paid\<rparr>"]
            exI [of _ "[]"] exI [of _ new]) (auto simp: accepted_def)
    qed
  qed
qed

text \<open>The second attempt to pay the Monero is accepted.\<close>

theorem funding_stops_when_accepted_witness:
  "\<exists>r' t. tsm_next sample_node (SwapdRunning (sample_running 5))
       (EsbEvent Farcasterd (Swap 5) (Ctl (FundingInfoCtl (MoneroFunding (MoneroFundingInfo 5 2000 (XmrAddress Testnet [9]))))))
       (sample_farcasterd (\<lambda>_ _. True) [] []) = (Ok (Some (SwapdRunning r')), t)
     \<and> length (monero_payments t) = 2 \<and> accepted (monero_payments t) = 1"
proof -
  obtain r' t where run: "tsm_next sample_node (SwapdRunning (sample_running 5))
       (EsbEvent Farcasterd (Swap 5) (Ctl (FundingInfoCtl (MoneroFunding (MoneroFundingInfo 5 2000 (XmrAddress Testnet [9]))))))
       (sample_farcasterd (\<lambda>_ _. True) [] []) = (Ok (Some (SwapdRunning r')), t)"
      and two: "length (monero_payments t) = 2" "sr_auto_funded r'" "bitcoin_payments t = []"
    by (simp add: tsm_next_def tsm_attempt_transition_to_end_def handle_funding_info_def auto_fund_monero_def
        pay_monero_def numeral_eq_Suc get_auto_funding_config_def sample_defs fd_run)
  have none: "monero_payments (sample_farcasterd (\<lambda>_ _. True) [] []) = []"
      "bitcoin_payments (sample_farcasterd (\<lambda>_ _. True) [] []) = []"
    by (simp_all add: sample_farcasterd_def fd_initial_runtime_def)
  from funding_stops_when_accepted [OF _ run] two none have "accepted (monero_payments t) = 1"
    by (auto simp: accepted_def)
  then show ?thesis using run two by blast
qed

end
