(* ===== verification/SyncerAnswers.thy ===== *)
theory SyncerAnswers
  imports FarcasterdServices
begin

text \<open>
  Who is answered when a client asks farcasterd for a sweep, a balance or a health check: the answer
  a finished task has, whom it goes to, and which syncers are let go.
\<close>

section \<open>The answer of a finished task\<close>

text \<open>The answer an event holds for the request of a task, when it is the event of that task.\<close>

definition task_answer :: "node_functions \<Rightarrow> task_id \<Rightarrow> bus_msg \<Rightarrow> bus_msg option" where
  "task_answer n i request = (case request of
       Sync (EventMsg (SweepSuccessEv (SweepSuccess j txids))) \<Rightarrow>
         if j = i then Some (Info (StringInfo (sweep_report n txids))) else None
     | Sync (EventMsg (AddressBalanceEv res)) \<Rightarrow>
         if abal_id res = i
         then Some (case abal_err res of
             Some err \<Rightarrow> Ctl (FailureCtl (Failure UnknownFailure
               (Fmt ''Failed to get adddress balance {}'' [TOpaque err])))
           | None \<Rightarrow> Info (AddressBalanceInfo (abal_address res) (abal_balance res)))
         else None
     | Sync (EventMsg (TaskAbortedEv (TaskAborted ids err))) \<Rightarrow>
         if ids = [i]
         then Some (Ctl (FailureCtl (Failure UnknownFailure
           (Fmt ''Failure in chain query{}'' [case err of Some e \<Rightarrow> Fmt '': {}'' [e] | None \<Rightarrow> TOpaque '''']))))
         else None
     | Sync (EventMsg (HealthResultEv (HealthResult j health))) \<Rightarrow>
         if j = i then Some (Ctl (HealthResultCtl health)) else None
     | _ \<Rightarrow> None)"

fun bus_of :: "bus_msg \<Rightarrow> service_bus" where
  "bus_of (P2p _) = MsgBus"
| "bus_of (Ctl _) = CtlBus"
| "bus_of (Info _) = InfoBus"
| "bus_of (Sync _) = SyncBus"
| "bus_of _ = BridgeBus"

text \<open>A message for a client behind grpcd goes to grpcd in the name of the client.\<close>

definition to_client :: "service_id \<Rightarrow> service_id \<Rightarrow> bus_msg \<Rightarrow> envelope" where
  "to_client me client m =
     (if is_grpcd_client client then Envelope (bus_of m) client Grpcd m else Envelope (bus_of m) me client m)"

lemma cleaned_after_usage:
  assumes "distinct (registered_services s)"
  shows "\<exists>gone k. set gone \<subseteq> {x \<in> set (registered_services s). is_syncer x \<and> \<not> syncer_has_client s x}
     \<and> clean_up_after_syncer_usage s = (Ok (), s\<lparr>outbox := outbox s @ map (told_to_end (identity s)) gone,
          attempts := k, registered_services := filter (\<lambda>x. x \<notin> set gone) (registered_services s)\<rparr>)"
proof -
  let ?p = "\<lambda>x. is_syncer x \<and> \<not> syncer_has_client s x"
  have same: "(\<lambda>service. if is_syncer service
       then if \<not> syncer_has_client s service then terminate_service service else ret True
       else ret True) = (\<lambda>x. if ?p x then terminate_service x else ret True)"
    by auto
  obtain gone k where gone: "set gone \<subseteq> {x \<in> set (registered_services s). ?p x}"
    and run: "retain (\<lambda>x. if ?p x then terminate_service x else ret True) (registered_services s) s
       = (Ok (filter (\<lambda>x. x \<notin> set gone) (registered_services s)),
          s\<lparr>outbox := outbox s @ map (told_to_end (identity s)) gone, attempts := k\<rparr>)"
    using retain_terminates [OF assms, of ?p s] by blast
  have "clean_up_after_syncer_usage s = (Ok (), s\<lparr>outbox := outbox s @ map (told_to_end (identity s)) gone,
          attempts := k, registered_services := filter (\<lambda>x. x \<notin> set gone) (registered_services s)\<rparr>)"
    unfolding clean_up_after_syncer_usage_def run_reads id_apply same using run by (simp add: bind_def modify_def)
  then show ?thesis using gone by blast
qed

lemma finished_task:
  assumes "ev_source ev = awr_syncer a" and "task_answer n (awr_syncer_task_id a) (ev_request ev) = Some m"
  shows "\<exists>answer. ssm_next n (AwaitingSyncerRequest a) ev = answer_client answer
     \<and> (\<forall>s. answer s = (if is_grpcd_client (awr_source a) then send_to (bus_of m) (awr_source a) Grpcd m s
          else send_to (bus_of m) (ev_service ev) (awr_source a) m s))"
  using assms
  by (simp add: task_answer_def ssm_next_def ssm_attempt_transition_to_end_def
      split: bus_msg.splits sync_msg.splits event.splits sweep_success.splits task_aborted.splits
        health_result.splits if_splits option.splits;
      (rule exI, rule conjI, rule refl)?; auto simp: event_defs)

lemma unfinished_task:
  assumes "\<not> (ev_source ev = awr_syncer a \<and> task_answer n (awr_syncer_task_id a) (ev_request ev) \<noteq> None)"
  shows "ssm_next n (AwaitingSyncerRequest a) ev s = (Ok (Some (AwaitingSyncerRequest (a\<lparr>awr_source := ev_source ev\<rparr>))), s)"
  using assms
  by (auto simp: task_answer_def ssm_next_def ssm_attempt_transition_to_end_def Let_def run_ret
      split: bus_msg.splits sync_msg.splits event.splits sweep_success.splits task_aborted.splits
        health_result.splits if_splits option.splits)

text \<open>
  Property C23 (functional): a client's request is answered exactly by the event of its task from
  its syncer. The answer goes first, to the client the machine holds; then only syncers that no
  trade and no other request uses are terminated. Any other event sends nothing and keeps the
  machine, with its sender as the client to answer.
\<close>

theorem finished_task_is_answered:
  assumes "ssm_next n (AwaitingSyncerRequest a) ev s = (Ok next_ssm, t)" and "distinct (registered_services s)"
  shows "case (if ev_source ev = awr_syncer a then task_answer n (awr_syncer_task_id a) (ev_request ev) else None) of
       Some m \<Rightarrow> next_ssm = None \<and>
         (\<exists>gone. set gone \<subseteq> {x \<in> set (registered_services s). is_syncer x \<and> \<not> syncer_has_client s x}
            \<and> registered_services t = filter (\<lambda>x. x \<notin> set gone) (registered_services s)
            \<and> outbox t = outbox s @ to_client (ev_service ev) (awr_source a) m # map (told_to_end (identity s)) gone)
     | None \<Rightarrow> next_ssm = Some (AwaitingSyncerRequest (a\<lparr>awr_source := ev_source ev\<rparr>)) \<and> t = s"
proof (cases "if ev_source ev = awr_syncer a then task_answer n (awr_syncer_task_id a) (ev_request ev) else None")
  case None
  then have "\<not> (ev_source ev = awr_syncer a \<and> task_answer n (awr_syncer_task_id a) (ev_request ev) \<noteq> None)"
    by (auto split: if_splits)
  from unfinished_task [OF this, of s] show ?thesis using assms None by simp
next
  case (Some m)
  then have "ev_source ev = awr_syncer a" "task_answer n (awr_syncer_task_id a) (ev_request ev) = Some m"
    by (auto split: if_splits)
  from finished_task [OF this] obtain answer where "ssm_next n (AwaitingSyncerRequest a) ev = answer_client answer"
    and answer: "answer s = (if is_grpcd_client (awr_source a) then send_to (bus_of m) (awr_source a) Grpcd m s
          else send_to (bus_of m) (ev_service ev) (awr_source a) m s)"
    by blast
  then have "answer_client answer s = (Ok next_ssm, t)" using assms by simp
  then obtain u where sent: "answer s = (Ok (), u)" and clean: "clean_up_after_syncer_usage u = (Ok (), t)"
    and none: "next_ssm = None"
    unfolding answer_client_def by (auto simp: run_ret elim!: bind_OkE)
  obtain k where u: "u = s\<lparr>outbox := outbox s @ [to_client (ev_service ev) (awr_source a) m], attempts := k\<rparr>"
    using sent unfolding answer by (auto simp: send_to_def to_client_def Let_def split: if_splits)
  have "distinct (registered_services u)" using u assms(2) by simp
  from cleaned_after_usage [OF this] obtain gone k' where
      gone: "set gone \<subseteq> {x \<in> set (registered_services u). is_syncer x \<and> \<not> syncer_has_client u x}"
    and run: "clean_up_after_syncer_usage u = (Ok (), u\<lparr>outbox := outbox u @ map (told_to_end (identity u)) gone,
          attempts := k', registered_services := filter (\<lambda>x. x \<notin> set gone) (registered_services u)\<rparr>)"
    by blast
  have "set gone \<subseteq> {x \<in> set (registered_services s). is_syncer x \<and> \<not> syncer_has_client s x}"
    using gone u by (auto simp: syncer_has_client_def)
  then show ?thesis
    using Some none run clean u by (auto intro!: exI [of _ gone])
qed

text \<open>The syncer of a balance request, used by nothing else, is let go with the answer.\<close>

definition balance_request :: awaiting_syncer_request where
  "balance_request = \<lparr>awr_source = GrpcdClient 3, awr_syncer = Syncer Bitcoin Testnet, awr_syncer_task_id = TaskId 0\<rparr>"

theorem finished_task_is_answered_witness:
  "\<exists>t. ssm_next sample_node (AwaitingSyncerRequest balance_request)
        (EsbEvent Farcasterd (Syncer Bitcoin Testnet) (Sync (EventMsg (SweepSuccessEv (SweepSuccess (TaskId 0) [])))))
        (sample_farcasterd (\<lambda>_ _. True) [Syncer Bitcoin Testnet] []) = (Ok None, t)
     \<and> hd (outbox t) = Envelope InfoBus (GrpcdClient 3) Grpcd (Info (StringInfo (Fmt ''Nothing to sweep.'' [])))"
proof -
  obtain t where run: "ssm_next sample_node (AwaitingSyncerRequest balance_request)
        (EsbEvent Farcasterd (Syncer Bitcoin Testnet) (Sync (EventMsg (SweepSuccessEv (SweepSuccess (TaskId 0) [])))))
        (sample_farcasterd (\<lambda>_ _. True) [Syncer Bitcoin Testnet] []) = (Ok None, t)"
    by (simp add: ssm_next_def ssm_attempt_transition_to_end_def answer_client_def clean_up_after_syncer_usage_def
        terminate_service_def balance_request_def syncer_has_client_def sample_farcasterd_def
        fd_initial_runtime_def map_filter_def fd_run)
  have "distinct (registered_services (sample_farcasterd (\<lambda>_ _. True) [Syncer Bitcoin Testnet] []))"
    by (simp add: sample_farcasterd_def)
  from finished_task_is_answered [OF run this] have "hd (outbox t)
      = Envelope InfoBus (GrpcdClient 3) Grpcd (Info (StringInfo (Fmt ''Nothing to sweep.'' [])))"
    by (auto simp: balance_request_def task_answer_def to_client_def sweep_report_def sample_farcasterd_def
        fd_initial_runtime_def)
  then show ?thesis using run by blast
qed

section \<open>Answers that go astray\<close>

text \<open>
  A Hello of any other service, while a request waits for its syncer, makes
  that service the client to answer: the answer of the task goes to it, the client gets none.
\<close>

theorem hello_redirects_answer:
  assumes "other \<noteq> aws_syncer a" and "reliable s"
    and "task_answer n (aws_syncer_task_id a) (Sync answer) = Some m"
    and "distinct (registered_services s)"
  shows "\<exists>waiting asked t u. ssm_execute n other (Ctl Hello) (AwaitingSyncer a) s = (Ok (Some waiting), s)
     \<and> ssm_execute n (aws_syncer a) (Ctl Hello) waiting s = (Ok (Some asked), t)
     \<and> outbox t = outbox s @ [Envelope SyncBus (identity s) (aws_syncer a) (Sync (TaskMsg (aws_syncer_task a)))]
     \<and> ssm_execute n (aws_syncer a) (Sync answer) asked t = (Ok None, u)
     \<and> (\<exists>gone. outbox u = outbox t @ to_client (identity s) other m # map (told_to_end (identity s)) gone)"
proof -
  let ?waiting = "AwaitingSyncer (a\<lparr>aws_source := other\<rparr>)"
  let ?asked = "\<lparr>awr_source = other, awr_syncer = aws_syncer a, awr_syncer_task_id = aws_syncer_task_id a\<rparr>"
  let ?t = "s\<lparr>outbox := outbox s @ [Envelope SyncBus (identity s) (aws_syncer a) (Sync (TaskMsg (aws_syncer_task a)))],
      attempts := Suc (attempts s)\<rparr>"
  have first: "ssm_execute n other (Ctl Hello) (AwaitingSyncer a) s = (Ok (Some ?waiting), s)"
    using assms(1) by (simp add: ssm_execute_def ssm_next_def attempt_transition_to_awaiting_syncer_request_def run_reads run_ret)
  have second: "ssm_execute n (aws_syncer a) (Ctl Hello) ?waiting s = (Ok (Some (AwaitingSyncerRequest ?asked)), ?t)"
    using assms(2) by (simp add: ssm_execute_def ssm_next_def attempt_transition_to_awaiting_syncer_request_def
        run_reads run_ret complete_sync_service_def send_to_reliable bind_def)
  let ?ev = "EsbEvent (identity s) (aws_syncer a) (Sync answer)"
  have "ev_source ?ev = awr_syncer ?asked" "task_answer n (awr_syncer_task_id ?asked) (ev_request ?ev) = Some m"
    using assms(3) by simp_all
  note finished = finished_task [OF this, unfolded awaiting_syncer_request.select_convs esb_event.sel]
  obtain act where act: "ssm_next n (AwaitingSyncerRequest ?asked) ?ev = answer_client act
     \<and> (\<forall>r. act r = (if is_grpcd_client other then send_to (bus_of m) other Grpcd m r
          else send_to (bus_of m) (identity s) other m r))"
    using finished ..
  have fit: "reliable ?t" "distinct (registered_services ?t)" using assms(2,4) by (simp_all add: reliable_def)
  let ?u = "?t\<lparr>outbox := outbox ?t @ [to_client (identity s) other m], attempts := Suc (attempts ?t)\<rparr>"
  have sent: "act ?t = (Ok (), ?u)"
    using act by (simp add: send_to_reliable [OF fit(1)] to_client_def)
  have "distinct (registered_services ?u)" using fit(2) by simp
  from cleaned_after_usage [OF this] obtain gone k where "clean_up_after_syncer_usage ?u = (Ok (), ?u\<lparr>outbox :=
      outbox ?u @ map (told_to_end (identity ?u)) gone,
      attempts := k, registered_services := filter (\<lambda>x. x \<notin> set gone) (registered_services ?u)\<rparr>)"
    by blast
  then obtain u where "answer_client act ?t = (Ok None, u)"
      "outbox u = outbox ?t @ to_client (identity s) other m # map (told_to_end (identity s)) gone"
    using sent by (simp add: answer_client_def bind_def ret_def)
  then have "ssm_execute n (aws_syncer a) (Sync answer) (AwaitingSyncerRequest ?asked) ?t = (Ok None, u)
     \<and> outbox u = outbox ?t @ to_client (identity s) other m # map (told_to_end (identity s)) gone"
    using act by (simp add: ssm_execute_def run_reads)
  then show ?thesis using first second by (intro exI conjI) (assumption | simp)+
qed

text \<open>A balance asked for by a client behind grpcd is told to walletd, which only said Hello.\<close>

definition waiting_balance :: awaiting_syncer where
  "waiting_balance = \<lparr>aws_source = GrpcdClient 3, aws_syncer = Syncer Bitcoin Testnet,
     aws_syncer_task = HealthCheckTask (HealthCheck (TaskId 0)), aws_syncer_task_id = TaskId 0\<rparr>"

theorem hello_redirects_answer_witness:
  "\<exists>waiting asked t u. ssm_execute sample_node Walletd (Ctl Hello) (AwaitingSyncer waiting_balance)
        (sample_farcasterd (\<lambda>_ _. True) [Syncer Bitcoin Testnet] []) = (Ok (Some waiting),
          sample_farcasterd (\<lambda>_ _. True) [Syncer Bitcoin Testnet] [])
     \<and> ssm_execute sample_node (Syncer Bitcoin Testnet) (Sync (EventMsg (HealthResultEv (HealthResult (TaskId 0) Healthy))))
        asked t = (Ok None, u)
     \<and> Envelope CtlBus Farcasterd Walletd (Ctl (HealthResultCtl Healthy)) \<in> set (outbox u)"
proof -
  let ?s = "sample_farcasterd (\<lambda>_ _. True) [Syncer Bitcoin Testnet] []"
  have a: "Walletd \<noteq> aws_syncer waiting_balance" and b: "reliable ?s"
    and c: "task_answer sample_node (aws_syncer_task_id waiting_balance)
        (Sync (EventMsg (HealthResultEv (HealthResult (TaskId 0) Healthy)))) = Some (Ctl (HealthResultCtl Healthy))"
    and d: "distinct (registered_services ?s)"
    by (simp_all add: waiting_balance_def reliable_def task_answer_def sample_farcasterd_def fd_initial_runtime_def)
  have me: "identity ?s = Farcasterd" by (simp add: sample_farcasterd_def fd_initial_runtime_def)
  have redirected: "to_client Farcasterd Walletd (Ctl (HealthResultCtl Healthy))
      = Envelope CtlBus Farcasterd Walletd (Ctl (HealthResultCtl Healthy))"
    by (simp add: to_client_def)
  have syncer: "aws_syncer waiting_balance = Syncer Bitcoin Testnet" by (simp add: waiting_balance_def)
  from hello_redirects_answer [OF a b c d, unfolded me redirected syncer] obtain waiting asked t u gone where
      "ssm_execute sample_node Walletd (Ctl Hello) (AwaitingSyncer waiting_balance) ?s = (Ok (Some waiting), ?s)"
      "ssm_execute sample_node (Syncer Bitcoin Testnet) (Sync (EventMsg (HealthResultEv (HealthResult (TaskId 0) Healthy))))
        asked t = (Ok None, u)"
      "outbox u = outbox t @ Envelope CtlBus Farcasterd Walletd (Ctl (HealthResultCtl Healthy)) # map (told_to_end Farcasterd) gone"
    by blast
  then show ?thesis by (intro exI conjI) auto
qed

end
