(* ===== verification/Databased.thy ===== *)
theory Databased
  imports Esb
begin

text \<open>
  The database daemon (\<open>databased/runtime.rs\<close>): the checkpoints of swaps, the keys of addresses and
  the status of deals, each a table of an LMDB environment whose keys and values are encodings. LMDB
  and the generated encodings are arguments of the definitions; \<open>lmdb_ok\<close> and \<open>codecs_ok\<close> state what
  their documentation promises. Log lines are left out.
\<close>

section \<open>LMDB and the encodings\<close>

text \<open>
  A transaction for writing works on a copy of the environment, which a commit makes the
  environment; without a commit it is dropped.
\<close>

record 'env lmdb =
  lmdb_open_db :: "'env \<Rightarrow> string \<Rightarrow> (string, unit) result"
  lmdb_begin :: "'env \<Rightarrow> (string, unit) result"
  lmdb_get :: "'env \<Rightarrow> string \<Rightarrow> bytes \<Rightarrow> (string, bytes) result"
  lmdb_put :: "'env \<Rightarrow> string \<Rightarrow> bytes \<Rightarrow> bytes \<Rightarrow> (string, 'env) result"
  lmdb_del :: "'env \<Rightarrow> string \<Rightarrow> bytes \<Rightarrow> (string, 'env) result"
  lmdb_iter :: "'env \<Rightarrow> string \<Rightarrow> (string, (bytes \<times> bytes) list) result"
  lmdb_commit :: "'env \<Rightarrow> 'env \<Rightarrow> (string, 'env) result"

datatype ('a, 'e) codec = Codec (encode: "'a \<Rightarrow> ('e, bytes) result") (decode: "bytes \<Rightarrow> ('e, 'a) result")

datatype checkpoint_key = CheckpointKey (ckk_swap_id: swap_id) (ckk_service_id: service_id)

record codecs =
  of_swap_id :: "(swap_id, string) codec"
  of_checkpoint_key :: "(checkpoint_key, string) codec"
  of_checkpoint :: "(checkpoint_swapd, string) codec"
  of_checkpoint_entry :: "(checkpoint_entry, string) codec"
  of_deal :: "(deal, string) codec"
  of_deal_status :: "(deal_status, string) codec"
  of_btc_address :: "(btc_address, string) codec"
  of_btc_key :: "(bitcoin_secret_key_info, string) codec"
  xmr_as_bytes :: "xmr_address \<Rightarrow> bytes"
  xmr_from_bytes :: "bytes \<Rightarrow> (string, xmr_address) result"
  of_xmr_key :: "(monero_secret_key_info, string) codec"
  btc_address_text :: "btc_address \<Rightarrow> string"
  xmr_address_text :: "xmr_address \<Rightarrow> string"

text \<open>The conversions \<open>?\<close> applies to the errors of LMDB, of the encodings and of Monero addresses.\<close>

abbreviation lmdb_try :: "(string, 'a) result \<Rightarrow> (error, 'a) result" where
  "lmdb_try \<equiv> err_into CheckpointErr"

abbreviation strict_try :: "(string, 'a) result \<Rightarrow> (error, 'a) result" where
  "strict_try \<equiv> err_into StrictEncodingErr"

abbreviation address_try :: "(string, 'a) result \<Rightarrow> (error, 'a) result" where
  "address_try \<equiv> err_into (\<lambda>e. FarcasterErr (TOpaque e))"

section \<open>The database\<close>

definition LMDB_CHECKPOINTS :: string where "LMDB_CHECKPOINTS = ''checkpoints''"
definition LMDB_CHECKPOINT_INFOS :: string where "LMDB_CHECKPOINT_INFOS = ''checkpoint_infos''"
definition LMDB_BITCOIN_ADDRESSES :: string where "LMDB_BITCOIN_ADDRESSES = ''bitcoin_addresses''"
definition LMDB_MONERO_ADDRESSES :: string where "LMDB_MONERO_ADDRESSES = ''monero_addresses''"
definition LMDB_DEAL_HISTORY :: string where "LMDB_DEAL_HISTORY = ''deal_history''"

lemmas table_names = LMDB_CHECKPOINTS_def LMDB_CHECKPOINT_INFOS_def LMDB_BITCOIN_ADDRESSES_def
  LMDB_MONERO_ADDRESSES_def LMDB_DEAL_HISTORY_def

text \<open>\<open>Database::new\<close>, after the environment has been opened.\<close>

definition database_new ::
  "(string \<Rightarrow> 'env \<Rightarrow> (string, 'env) result) \<Rightarrow> (string, 'env) result \<Rightarrow> (string, 'env) result" where
  "database_new create_db opened = rbind opened (\<lambda>e0.
     rbind (create_db LMDB_CHECKPOINTS e0) (\<lambda>e1.
     rbind (create_db LMDB_CHECKPOINT_INFOS e1) (\<lambda>e2.
     rbind (create_db LMDB_BITCOIN_ADDRESSES e2) (\<lambda>e3.
     rbind (create_db LMDB_DEAL_HISTORY e3) (\<lambda>e4.
     create_db LMDB_MONERO_ADDRESSES e4)))))"

text \<open>A writing transaction on a table, and a reading one.\<close>

definition write_txn ::
  "'env lmdb \<Rightarrow> string \<Rightarrow> ('env \<Rightarrow> (error, 'env) result) \<Rightarrow> ('env, error, unit) action" where
  "write_txn L db body = reads id (\<lambda>env.
     bind (lift_res (rbind (lmdb_try (lmdb_open_db L env db)) (\<lambda>_.
        rbind (lmdb_try (lmdb_begin L env)) (\<lambda>_.
        rbind (body env) (\<lambda>tx. lmdb_try (lmdb_commit L env tx))))))
       (\<lambda>env'. modify (\<lambda>_. env')))"

definition read_txn ::
  "'env lmdb \<Rightarrow> string \<Rightarrow> ('env \<Rightarrow> (error, 'a) result) \<Rightarrow> 'env \<Rightarrow> (error, 'a) result" where
  "read_txn L db body env = rbind (lmdb_try (lmdb_open_db L env db)) (\<lambda>_.
     rbind (lmdb_try (lmdb_begin L env)) (\<lambda>_. body env))"

text \<open>A value that replaces the one stored under its key, and one that does not.\<close>

definition put_over :: "'env lmdb \<Rightarrow> string \<Rightarrow> bytes \<Rightarrow> (error, bytes) result \<Rightarrow> 'env \<Rightarrow> (error, 'env) result" where
  "put_over L db key val tx =
     rbind (if is_ok (lmdb_get L tx db key) then lmdb_try (lmdb_del L tx db key) else Ok tx) (\<lambda>tx'.
     rbind val (\<lambda>v. lmdb_try (lmdb_put L tx' db key v)))"

definition put_once :: "'env lmdb \<Rightarrow> string \<Rightarrow> bytes \<Rightarrow> (error, bytes) result \<Rightarrow> 'env \<Rightarrow> (error, 'env) result" where
  "put_once L db key val tx = rbind val (\<lambda>v.
     if is_ok (lmdb_get L tx db key) then Ok tx else lmdb_try (lmdb_put L tx db key v))"

definition set_deal_status ::
  "'env lmdb \<Rightarrow> codecs \<Rightarrow> deal \<Rightarrow> deal_status \<Rightarrow> ('env, error, unit) action" where
  "set_deal_status L c d status = write_txn L LMDB_DEAL_HISTORY (\<lambda>tx.
     rbind (strict_try (encode (of_deal c) d)) (\<lambda>key.
     put_over L LMDB_DEAL_HISTORY key (strict_try (encode (of_deal_status c) status)) tx))"

fun collect_results :: "('e, 'a) result list \<Rightarrow> ('e, 'a list) result" where
  "collect_results [] = Ok []"
| "collect_results (r # rs) = rbind r (\<lambda>x. rbind (collect_results rs) (\<lambda>xs. Ok (x # xs)))"

fun status_selected :: "deal_status_selector \<Rightarrow> deal_status \<Rightarrow> bool" where
  "status_selected SelectAll _ = True"
| "status_selected SelectOpen status = (status = Open)"
| "status_selected SelectInProgress status = (status = InProgress)"
| "status_selected SelectEnded status = (status \<noteq> Open \<and> status \<noteq> InProgress)"

definition selected_deal ::
  "codecs \<Rightarrow> deal_status_selector \<Rightarrow> bytes \<times> bytes \<Rightarrow> (error, deal_status_pair) result option" where
  "selected_deal c selector = (\<lambda>(key, val). case strict_try (decode (of_deal_status c) val) of
       Ok status \<Rightarrow>
         if status_selected selector status
         then Some (rbind (strict_try (decode (of_deal c) key)) (\<lambda>d. Ok (DealStatusPair d status)))
         else None
     | Err e \<Rightarrow> Some (Err e)
     | Panic p \<Rightarrow> Some (Panic p)
     | Hang \<Rightarrow> Some Hang)"

definition get_deals ::
  "'env lmdb \<Rightarrow> codecs \<Rightarrow> deal_status_selector \<Rightarrow> 'env \<Rightarrow> (error, deal_status_pair list) result" where
  "get_deals L c selector = read_txn L LMDB_DEAL_HISTORY (\<lambda>tx.
     rbind (lmdb_try (lmdb_iter L tx LMDB_DEAL_HISTORY)) (\<lambda>entries.
     collect_results (List.map_filter (selected_deal c selector) entries)))"

definition set_bitcoin_address ::
  "'env lmdb \<Rightarrow> codecs \<Rightarrow> btc_address \<Rightarrow> bitcoin_secret_key_info \<Rightarrow> ('env, error, unit) action" where
  "set_bitcoin_address L c a info = write_txn L LMDB_BITCOIN_ADDRESSES (\<lambda>tx.
     rbind (strict_try (encode (of_btc_address c) a)) (\<lambda>key.
     put_once L LMDB_BITCOIN_ADDRESSES key (strict_try (encode (of_btc_key c) info)) tx))"

definition get_bitcoin_address_secret_key ::
  "'env lmdb \<Rightarrow> codecs \<Rightarrow> btc_address \<Rightarrow> 'env \<Rightarrow> (error, bitcoin_secret_key_info) result" where
  "get_bitcoin_address_secret_key L c a = read_txn L LMDB_BITCOIN_ADDRESSES (\<lambda>tx.
     rbind (strict_try (encode (of_btc_address c) a)) (\<lambda>key.
     rbind (lmdb_try (lmdb_get L tx LMDB_BITCOIN_ADDRESSES key)) (\<lambda>val.
     strict_try (decode (of_btc_key c) val))))"

definition get_all_bitcoin_addresses ::
  "'env lmdb \<Rightarrow> codecs \<Rightarrow> 'env \<Rightarrow> (error, (btc_address \<times> swap_id option) list) result" where
  "get_all_bitcoin_addresses L c = read_txn L LMDB_BITCOIN_ADDRESSES (\<lambda>tx.
     rbind (lmdb_try (lmdb_iter L tx LMDB_BITCOIN_ADDRESSES)) (\<lambda>entries.
     collect_results (map (\<lambda>(key, val).
       rbind (strict_try (decode (of_btc_address c) key)) (\<lambda>a.
       rbind (strict_try (decode (of_btc_key c) val)) (\<lambda>info. Ok (a, bsk_swap_id info)))) entries)))"

definition set_monero_address ::
  "'env lmdb \<Rightarrow> codecs \<Rightarrow> xmr_address \<Rightarrow> monero_secret_key_info \<Rightarrow> ('env, error, unit) action" where
  "set_monero_address L c a info = write_txn L LMDB_MONERO_ADDRESSES
     (put_once L LMDB_MONERO_ADDRESSES (xmr_as_bytes c a) (strict_try (encode (of_xmr_key c) info)))"

definition get_monero_address_secret_key ::
  "'env lmdb \<Rightarrow> codecs \<Rightarrow> xmr_address \<Rightarrow> 'env \<Rightarrow> (error, monero_secret_key_info) result" where
  "get_monero_address_secret_key L c a = read_txn L LMDB_MONERO_ADDRESSES (\<lambda>tx.
     rbind (lmdb_try (lmdb_get L tx LMDB_MONERO_ADDRESSES (xmr_as_bytes c a))) (\<lambda>val.
     strict_try (decode (of_xmr_key c) val)))"

definition get_all_monero_addresses ::
  "'env lmdb \<Rightarrow> codecs \<Rightarrow> 'env \<Rightarrow> (error, (xmr_address \<times> swap_id option) list) result" where
  "get_all_monero_addresses L c = read_txn L LMDB_MONERO_ADDRESSES (\<lambda>tx.
     rbind (lmdb_try (lmdb_iter L tx LMDB_MONERO_ADDRESSES)) (\<lambda>entries.
     collect_results (map (\<lambda>(key, val).
       rbind (address_try (xmr_from_bytes c key)) (\<lambda>a.
       rbind (strict_try (decode (of_xmr_key c) val)) (\<lambda>info. Ok (a, msk_swap_id info)))) entries)))"

definition set_checkpoint_state ::
  "'env lmdb \<Rightarrow> codecs \<Rightarrow> checkpoint_key \<Rightarrow> bytes \<Rightarrow> ('env, error, unit) action" where
  "set_checkpoint_state L c k val = write_txn L LMDB_CHECKPOINTS (\<lambda>tx.
     rbind (strict_try (encode (of_checkpoint_key c) k)) (\<lambda>key.
     put_over L LMDB_CHECKPOINTS key (Ok val) tx))"

definition set_checkpoint_info ::
  "'env lmdb \<Rightarrow> codecs \<Rightarrow> swap_id \<Rightarrow> checkpoint_entry \<Rightarrow> ('env, error, unit) action" where
  "set_checkpoint_info L c i entry = write_txn L LMDB_CHECKPOINT_INFOS (\<lambda>tx.
     rbind (strict_try (encode (of_swap_id c) i)) (\<lambda>key.
     put_over L LMDB_CHECKPOINT_INFOS key (strict_try (encode (of_checkpoint_entry c) entry)) tx))"

definition get_checkpoint_info ::
  "'env lmdb \<Rightarrow> codecs \<Rightarrow> swap_id \<Rightarrow> 'env \<Rightarrow> (error, checkpoint_entry) result" where
  "get_checkpoint_info L c i = read_txn L LMDB_CHECKPOINT_INFOS (\<lambda>tx.
     rbind (strict_try (encode (of_swap_id c) i)) (\<lambda>key.
     rbind (lmdb_try (lmdb_get L tx LMDB_CHECKPOINT_INFOS key)) (\<lambda>val.
     strict_try (decode (of_checkpoint_entry c) val))))"

definition get_all_checkpoint_info ::
  "'env lmdb \<Rightarrow> codecs \<Rightarrow> 'env \<Rightarrow> (error, checkpoint_entry list) result" where
  "get_all_checkpoint_info L c = read_txn L LMDB_CHECKPOINT_INFOS (\<lambda>tx.
     rbind (lmdb_try (lmdb_iter L tx LMDB_CHECKPOINT_INFOS)) (\<lambda>entries.
     collect_results (map (\<lambda>(_, val). strict_try (decode (of_checkpoint_entry c) val)) entries)))"

definition get_checkpoint_state ::
  "'env lmdb \<Rightarrow> codecs \<Rightarrow> checkpoint_key \<Rightarrow> 'env \<Rightarrow> (error, bytes) result" where
  "get_checkpoint_state L c k = read_txn L LMDB_CHECKPOINTS (\<lambda>tx.
     rbind (strict_try (encode (of_checkpoint_key c) k)) (\<lambda>key.
     lmdb_try (lmdb_get L tx LMDB_CHECKPOINTS key)))"

definition delete_checkpoint_state ::
  "'env lmdb \<Rightarrow> codecs \<Rightarrow> checkpoint_key \<Rightarrow> ('env, error, unit) action" where
  "delete_checkpoint_state L c k = write_txn L LMDB_CHECKPOINTS (\<lambda>tx.
     rbind (strict_try (encode (of_checkpoint_key c) k)) (\<lambda>key.
     lmdb_try (lmdb_del L tx LMDB_CHECKPOINTS key)))"

definition delete_checkpoint_info :: "'env lmdb \<Rightarrow> codecs \<Rightarrow> swap_id \<Rightarrow> ('env, error, unit) action" where
  "delete_checkpoint_info L c i = write_txn L LMDB_CHECKPOINT_INFOS (\<lambda>tx.
     rbind (strict_try (encode (of_swap_id c) i)) (\<lambda>key.
     lmdb_try (lmdb_del L tx LMDB_CHECKPOINT_INFOS key)))"

section \<open>The service\<close>

record 'env databased = daemon +
  database :: 'env

type_synonym 'env dbd_action = "('env databased, error, unit) action"

definition dbd_initial_runtime :: "'env \<Rightarrow> (nat \<Rightarrow> envelope \<Rightarrow> bool) \<Rightarrow> 'env databased" where
  "dbd_initial_runtime env outcomes =
     \<lparr>identity = Database, outbox = [], attempts = 0, link = outcomes, database = env\<rparr>"

text \<open>A call of a method of the database.\<close>

definition on_database :: "('env, error, 'a) action \<Rightarrow> ('env databased, error, 'a) action" where
  "on_database m = (\<lambda>s. case m (database s) of (r, env) \<Rightarrow> (r, s\<lparr>database := env\<rparr>))"

definition ask_database :: "('env \<Rightarrow> (error, 'a) result) \<Rightarrow> ('a \<Rightarrow> 'env dbd_action) \<Rightarrow> 'env dbd_action" where
  "ask_database f k = reads (\<lambda>s. f (database s)) (\<lambda>r. bind (lift_res r) k)"

text \<open>The same where the code matches on the result.\<close>

definition match_database ::
  "('env \<Rightarrow> (error, 'a) result) \<Rightarrow> ('a \<Rightarrow> 'env dbd_action) \<Rightarrow> 'env dbd_action \<Rightarrow> 'env dbd_action" where
  "match_database f k failed = reads (\<lambda>s. f (database s)) (\<lambda>r.
     bind (attempt (lift_res r)) (\<lambda>x. case x of Inr y \<Rightarrow> k y | Inl _ \<Rightarrow> failed))"

definition dangling_deals :: "checkpoint_entry list \<Rightarrow> deal_status_pair list \<Rightarrow> deal list" where
  "dangling_deals infos pairs =
     filter (\<lambda>d. d \<notin> set (map ce_deal infos)) (map dsp_deal pairs)"

definition dbd_handle_ctl :: "'env lmdb \<Rightarrow> codecs \<Rightarrow> service_id \<Rightarrow> ctl_msg \<Rightarrow> 'env dbd_action" where
  "dbd_handle_ctl L c source request = (case request of
       CheckpointCtl (Checkpoint i state) \<Rightarrow> steps [
         on_database (set_checkpoint_info L c i (CheckpointEntry i (ck_deal state) (ck_local_trade_role state)
           (ck_connected_counterparty_node_id state)))]
         (bind (lift_res (strict_try (encode (of_checkpoint c) state))) (\<lambda>state_encoded.
          on_database (set_checkpoint_state L c (CheckpointKey i source) state_encoded)))
     | RestoreCheckpoint entry \<Rightarrow>
         (let i = ce_swap_id entry
          in match_database (get_checkpoint_state L c (CheckpointKey i (Swap i)))
            (\<lambda>raw_state. bind (attempt (lift_res (strict_try (decode (of_checkpoint c) raw_state)))) (\<lambda>r. case r of
                Inr state \<Rightarrow> send_from_self CtlBus (Swap i) (Ctl (CheckpointCtl (Checkpoint i state)))
              | Inl _ \<Rightarrow> skip))
            skip)
     | RemoveCheckpoint i \<Rightarrow>
         bind (attempt (on_database (delete_checkpoint_state L c (CheckpointKey i (Swap i))))) (\<lambda>_.
         bind (attempt (on_database (delete_checkpoint_info L c i))) (\<lambda>_. skip))
     | SetAddressSecretKey (BitcoinAddressKey a info) \<Rightarrow> on_database (set_bitcoin_address L c a info)
     | SetAddressSecretKey (MoneroAddressKey a info) \<Rightarrow> on_database (set_monero_address L c a info)
     | SetDealStatus pair \<Rightarrow> on_database (set_deal_status L c (dsp_deal pair) (dsp_status pair))
     | CleanDanglingDeals \<Rightarrow>
         ask_database (get_all_checkpoint_info L c) (\<lambda>infos.
         ask_database (get_deals L c SelectInProgress) (\<lambda>pairs.
         for_each (dangling_deals infos pairs)
           (\<lambda>d. on_database (set_deal_status L c d (Ended FailureAbort)))))
     | _ \<Rightarrow> skip)"

definition no_secret_key :: "string \<Rightarrow> ctl_msg" where
  "no_secret_key a = FailureCtl (Failure UnknownFailure
     (Fmt ''Could not retrieve secret key for address {}'' [TOpaque a]))"

definition dbd_handle_info :: "'env lmdb \<Rightarrow> codecs \<Rightarrow> service_id \<Rightarrow> info_msg \<Rightarrow> 'env dbd_action" where
  "dbd_handle_info L c source request = (case request of
       ListDeals selector \<Rightarrow> ask_database (get_deals L c selector) (\<lambda>pairs.
         send_client_info source (DealStatusList pairs))
     | RetrieveAllCheckpointInfo \<Rightarrow> match_database (get_all_checkpoint_info L c)
         (\<lambda>entries. send_client_info source (CheckpointList entries))
         (send_client_ctl source (FailureCtl (Failure UnknownFailure
            (Fmt ''Failed to retrieve checkpoint list'' []))))
     | GetCheckpointEntry i \<Rightarrow> match_database (get_checkpoint_info L c i)
         (\<lambda>entry. send_client_info source (CheckpointEntryInfo entry))
         (send_client_ctl source (FailureCtl (Failure UnknownFailure
            (Fmt ''Could not retrieve checkpoint entry for {}'' [TSwap i]))))
     | GetAddressSecretKey (MoneroAddr a) \<Rightarrow> match_database (get_monero_address_secret_key L c a)
         (\<lambda>info. send_client_info source (AddressSecretKeyInfo (MoneroAddressKey a info)))
         (send_client_ctl source (no_secret_key (xmr_address_text c a)))
     | GetAddressSecretKey (BitcoinAddr a) \<Rightarrow> match_database (get_bitcoin_address_secret_key L c a)
         (\<lambda>info. send_client_info source (AddressSecretKeyInfo (BitcoinAddressKey a info)))
         (send_client_ctl source (no_secret_key (btc_address_text c a)))
     | GetAddresses Bitcoin \<Rightarrow> ask_database (get_all_bitcoin_addresses L c) (\<lambda>addresses.
         send_client_info source (BitcoinAddressList addresses))
     | GetAddresses Monero \<Rightarrow> ask_database (get_all_monero_addresses L c) (\<lambda>addresses.
         send_client_info source (MoneroAddressList addresses))
     | _ \<Rightarrow> skip)"

definition dbd_handle :: "'env lmdb \<Rightarrow> codecs \<Rightarrow> service_bus \<Rightarrow> service_id \<Rightarrow> bus_msg \<Rightarrow> 'env dbd_action" where
  "dbd_handle L c bus source request = (case (bus, request) of
       (CtlBus, Ctl req) \<Rightarrow> dbd_handle_ctl L c source req
     | (InfoBus, Info req) \<Rightarrow> dbd_handle_info L c source req
     | _ \<Rightarrow> throw (NotSupported bus (TOpaque ''request'')))"

definition checkpoint_send ::
  "swap_id \<Rightarrow> service_id \<Rightarrow> service_id \<Rightarrow> checkpoint_swapd \<Rightarrow> ('x daemon_scheme, error, unit) action" where
  "checkpoint_send i source destination state =
     send_to CtlBus source destination (Ctl (CheckpointCtl (Checkpoint i state)))"

end
