(* ===== verification/DatabasedStore.thy ===== *)
theory DatabasedStore
  imports Databased SwapFrames "HOL-Library.Sublist"
begin

text \<open>
  The database daemon implements a store of five maps: each message changes the maps by the
  operations it asks for, whatever fails on the way, and what was stored is what is read.
\<close>

section \<open>What LMDB and the encodings promise\<close>

definition stored :: "'env lmdb \<Rightarrow> 'env \<Rightarrow> string \<Rightarrow> bytes \<Rightarrow> bytes option" where
  "stored L env db key = (case lmdb_get L env db key of Ok v \<Rightarrow> Some v | _ \<Rightarrow> None)"

text \<open>
  A put and a delete that succeed change the entry of the key and nothing else, a commit that
  succeeds gives the environment of the transaction, and a cursor visits every entry once.
\<close>

definition lmdb_ok :: "'env lmdb \<Rightarrow> bool" where
  "lmdb_ok L \<longleftrightarrow>
     (\<forall>env db key v env'. lmdb_put L env db key v = Ok env'
        \<longrightarrow> stored L env' = (stored L env)(db := (stored L env db)(key \<mapsto> v)))
     \<and> (\<forall>env db key env'. lmdb_del L env db key = Ok env'
        \<longrightarrow> stored L env' = (stored L env)(db := (stored L env db)(key := None)))
     \<and> (\<forall>env tx env'. lmdb_commit L env tx = Ok env' \<longrightarrow> stored L env' = stored L tx)
     \<and> (\<forall>env db entries. lmdb_iter L env db = Ok entries
        \<longrightarrow> distinct (map fst entries) \<and> map_of entries = stored L env db)"

text \<open>What was encoded can be decoded.\<close>

definition codec_ok :: "('a, 'e) codec \<Rightarrow> bool" where
  "codec_ok c \<longleftrightarrow> (\<forall>x b. encode c x = Ok b \<longrightarrow> decode c b = Ok x)"

definition of_xmr_address :: "codecs \<Rightarrow> (xmr_address, string) codec" where
  "of_xmr_address c = Codec (\<lambda>a. Ok (xmr_as_bytes c a)) (xmr_from_bytes c)"

definition codecs_ok :: "codecs \<Rightarrow> bool" where
  "codecs_ok c \<longleftrightarrow> codec_ok (of_swap_id c) \<and> codec_ok (of_checkpoint_key c) \<and> codec_ok (of_checkpoint c)
     \<and> codec_ok (of_checkpoint_entry c) \<and> codec_ok (of_deal c) \<and> codec_ok (of_deal_status c)
     \<and> codec_ok (of_btc_address c) \<and> codec_ok (of_btc_key c) \<and> codec_ok (of_xmr_address c)
     \<and> codec_ok (of_xmr_key c)"

section \<open>The tables as maps\<close>

definition look :: "('k, 'e) codec \<Rightarrow> ('v, 'e) codec \<Rightarrow> (bytes \<Rightarrow> bytes option) \<Rightarrow> 'k \<Rightarrow> 'v option" where
  "look kc vc tbl k = (case encode kc k of
       Ok b \<Rightarrow> (case tbl b of
           Some v \<Rightarrow> (case decode vc v of Ok x \<Rightarrow> Some x | _ \<Rightarrow> None)
         | None \<Rightarrow> None)
     | _ \<Rightarrow> None)"

text \<open>Every entry is an encoding of a key and a value.\<close>

definition table_ok :: "('k, 'e) codec \<Rightarrow> ('v, 'e) codec \<Rightarrow> (bytes \<Rightarrow> bytes option) \<Rightarrow> bool" where
  "table_ok kc vc tbl \<longleftrightarrow> (\<forall>b v. tbl b = Some v \<longrightarrow> (\<exists>k x. encode kc k = Ok b \<and> encode vc x = Ok v))"

lemma codec_inj: "codec_ok c \<Longrightarrow> encode c x = Ok b \<Longrightarrow> encode c y = Ok b \<Longrightarrow> x = y"
  unfolding codec_ok_def by (metis result.inject(1))

lemma look_put:
  assumes "codec_ok kc" and "codec_ok vc" and "encode kc k = Ok b" and "encode vc x = Ok v"
  shows "look kc vc (tbl(b \<mapsto> v)) = (look kc vc tbl)(k \<mapsto> x)"
proof
  fix k'
  have "decode vc v = Ok x" using assms by (simp add: codec_ok_def)
  then show "look kc vc (tbl(b \<mapsto> v)) k' = ((look kc vc tbl)(k \<mapsto> x)) k'"
    using assms codec_inj [OF assms(1) assms(3), of k'] by (cases "encode kc k'") (auto simp: look_def)
qed

lemma look_drop:
  assumes "codec_ok kc" and "encode kc k = Ok b"
  shows "look kc vc (tbl(b := None)) = (look kc vc tbl)(k := None)"
proof
  fix k'
  show "look kc vc (tbl(b := None)) k' = ((look kc vc tbl)(k := None)) k'"
    using assms codec_inj [OF assms(1) assms(2), of k'] by (cases "encode kc k'") (auto simp: look_def)
qed

lemma table_put: "table_ok kc vc tbl \<Longrightarrow> encode kc k = Ok b \<Longrightarrow> encode vc x = Ok v \<Longrightarrow> table_ok kc vc (tbl(b \<mapsto> v))"
  by (auto simp: table_ok_def)

lemma table_drop: "table_ok kc vc tbl \<Longrightarrow> table_ok kc vc (tbl(b := None))"
  by (auto simp: table_ok_def)

lemma look_entry:
  assumes "table_ok kc vc tbl" and "codec_ok vc" and "encode kc k = Ok b"
  shows "look kc vc tbl k = None \<longleftrightarrow> tbl b = None"
  using assms by (fastforce simp: look_def table_ok_def codec_ok_def split: option.splits)

text \<open>The entries a cursor visits, decoded.\<close>

lemma decoded_entries:
  assumes "table_ok kc vc tbl" and "codec_ok kc" and "codec_ok vc" and "map_of entries = tbl"
    and "distinct (map fst entries)"
  shows "\<exists>pairs. map (\<lambda>(b, v). (decode kc b, decode vc v)) entries = map (\<lambda>(k, x). (Ok k, Ok x)) pairs
     \<and> distinct (map fst pairs) \<and> map_of pairs = look kc vc tbl"
  using assms
proof (induction entries arbitrary: tbl)
  case Nil
  then show ?case by (intro exI [of _ "[]"]) (auto simp: look_def fun_eq_iff split: result.splits)
next
  case (Cons e entries)
  obtain b v where e: "e = (b, v)" by (cases e)
  have tbl: "tbl = (map_of entries)(b \<mapsto> v)" and new: "b \<notin> fst ` set entries" and d: "distinct (map fst entries)"
    using Cons.prems e by auto
  have absent: "map_of entries b = None" using new by (simp add: map_of_eq_None_iff)
  obtain k x where enc: "encode kc k = Ok b" "encode vc x = Ok v"
    using Cons.prems(1) unfolding tbl table_ok_def by (metis fun_upd_same)
  have rest: "table_ok kc vc (map_of entries)"
    using Cons.prems(1) absent unfolding tbl table_ok_def by (metis fun_upd_other option.distinct(1))
  obtain pairs where pairs: "map (\<lambda>(b, v). (decode kc b, decode vc v)) entries = map (\<lambda>(k, x). (Ok k, Ok x)) pairs"
      "distinct (map fst pairs)" "map_of pairs = look kc vc (map_of entries)"
    using Cons.IH [OF rest Cons.prems(2,3) refl d] by blast
  have "look kc vc (map_of entries) k = None" using absent enc by (simp add: look_def)
  then have "k \<notin> fst ` set pairs" using pairs(3) by (metis map_of_eq_None_iff)
  moreover have "decode kc b = Ok k" "decode vc v = Ok x" using enc Cons.prems by (simp_all add: codec_ok_def)
  ultimately show ?case
    using pairs look_put [OF Cons.prems(2,3) enc, of "map_of entries"] unfolding tbl e
    by (intro exI [of _ "(k, x) # pairs"]) (simp add: fun_upd_def)
qed

section \<open>The store\<close>

record store =
  st_states :: "checkpoint_key \<Rightarrow> checkpoint_swapd option"
  st_infos :: "swap_id \<Rightarrow> checkpoint_entry option"
  st_btc_keys :: "btc_address \<Rightarrow> bitcoin_secret_key_info option"
  st_xmr_keys :: "xmr_address \<Rightarrow> monero_secret_key_info option"
  st_deals :: "deal \<Rightarrow> deal_status option"

definition store_of :: "'env lmdb \<Rightarrow> codecs \<Rightarrow> 'env \<Rightarrow> store" where
  "store_of L c env = \<lparr>
     st_states = look (of_checkpoint_key c) (of_checkpoint c) (stored L env LMDB_CHECKPOINTS),
     st_infos = look (of_swap_id c) (of_checkpoint_entry c) (stored L env LMDB_CHECKPOINT_INFOS),
     st_btc_keys = look (of_btc_address c) (of_btc_key c) (stored L env LMDB_BITCOIN_ADDRESSES),
     st_xmr_keys = look (of_xmr_address c) (of_xmr_key c) (stored L env LMDB_MONERO_ADDRESSES),
     st_deals = look (of_deal c) (of_deal_status c) (stored L env LMDB_DEAL_HISTORY)\<rparr>"

definition well_stored :: "'env lmdb \<Rightarrow> codecs \<Rightarrow> 'env \<Rightarrow> bool" where
  "well_stored L c env \<longleftrightarrow>
     table_ok (of_checkpoint_key c) (of_checkpoint c) (stored L env LMDB_CHECKPOINTS)
     \<and> table_ok (of_swap_id c) (of_checkpoint_entry c) (stored L env LMDB_CHECKPOINT_INFOS)
     \<and> table_ok (of_btc_address c) (of_btc_key c) (stored L env LMDB_BITCOIN_ADDRESSES)
     \<and> table_ok (of_xmr_address c) (of_xmr_key c) (stored L env LMDB_MONERO_ADDRESSES)
     \<and> table_ok (of_deal c) (of_deal_status c) (stored L env LMDB_DEAL_HISTORY)"

datatype store_op =
    PutState checkpoint_key checkpoint_swapd
  | PutInfo swap_id checkpoint_entry
  | DropState checkpoint_key
  | DropInfo swap_id
  | KeepBtcKey btc_address bitcoin_secret_key_info
  | KeepXmrKey xmr_address monero_secret_key_info
  | PutStatus deal deal_status

text \<open>The keys of an address are stored once; a later attempt to store other keys changes nothing.\<close>

fun apply_op :: "store_op \<Rightarrow> store \<Rightarrow> store" where
  "apply_op (PutState k state) st = st\<lparr>st_states := (st_states st)(k \<mapsto> state)\<rparr>"
| "apply_op (PutInfo i entry) st = st\<lparr>st_infos := (st_infos st)(i \<mapsto> entry)\<rparr>"
| "apply_op (DropState k) st = st\<lparr>st_states := (st_states st)(k := None)\<rparr>"
| "apply_op (DropInfo i) st = st\<lparr>st_infos := (st_infos st)(i := None)\<rparr>"
| "apply_op (KeepBtcKey a info) st =
     (if st_btc_keys st a = None then st\<lparr>st_btc_keys := (st_btc_keys st)(a \<mapsto> info)\<rparr> else st)"
| "apply_op (KeepXmrKey a info) st =
     (if st_xmr_keys st a = None then st\<lparr>st_xmr_keys := (st_xmr_keys st)(a \<mapsto> info)\<rparr> else st)"
| "apply_op (PutStatus d status) st = st\<lparr>st_deals := (st_deals st)(d \<mapsto> status)\<rparr>"

text \<open>A call of the database that does the operation, or fails and changes nothing.\<close>

definition does :: "'env lmdb \<Rightarrow> codecs \<Rightarrow> ('env, error, unit) action \<Rightarrow> store_op \<Rightarrow> bool" where
  "does L c m x \<longleftrightarrow> (\<forall>env r env'. m env = (r, env') \<longrightarrow> well_stored L c env \<longrightarrow>
     (if r = Ok () then well_stored L c env' \<and> store_of L c env' = apply_op x (store_of L c env) else env' = env))"

lemma write_txn_cases:
  assumes "write_txn L db body env = (r, env')"
  shows "(r = Ok () \<and> (\<exists>tx. body env = Ok tx \<and> lmdb_commit L env tx = Ok env')) \<or> (r \<noteq> Ok () \<and> env' = env)"
proof (cases "rbind (lmdb_try (lmdb_open_db L env db)) (\<lambda>_. rbind (lmdb_try (lmdb_begin L env)) (\<lambda>_.
        rbind (body env) (\<lambda>tx. lmdb_try (lmdb_commit L env tx))))")
  case (Ok x)
  then show ?thesis using assms
    by (auto simp: write_txn_def run_reads bind_def lift_res_def modify_def rbind_Ok_conv)
qed (use assms in \<open>auto simp: write_txn_def run_reads bind_def lift_res_def\<close>)

lemma put_over_stored:
  assumes "lmdb_ok L" and "put_over L db key val env = Ok tx"
  shows "\<exists>v. val = Ok v \<and> stored L tx = (stored L env)(db := (stored L env db)(key \<mapsto> v))"
proof -
  obtain tx' v where 1: "(if is_ok (lmdb_get L env db key) then lmdb_try (lmdb_del L env db key) else Ok env) = Ok tx'"
    and v: "val = Ok v" and 2: "lmdb_put L tx' db key v = Ok tx"
    using assms(2) by (auto simp: put_over_def rbind_Ok_conv)
  have "stored L tx' = stored L env \<or> stored L tx' = (stored L env)(db := (stored L env db)(key := None))"
    using 1 assms(1) by (auto simp: lmdb_ok_def split: if_splits)
  moreover have "stored L tx = (stored L tx')(db := (stored L tx' db)(key \<mapsto> v))"
    using 2 assms(1) by (simp add: lmdb_ok_def)
  ultimately show ?thesis using v by auto
qed

lemma put_once_stored:
  assumes "lmdb_ok L" and "put_once L db key val env = Ok tx"
  shows "\<exists>v. val = Ok v \<and> stored L tx = (if stored L env db key = None
     then (stored L env)(db := (stored L env db)(key \<mapsto> v)) else stored L env)"
proof -
  obtain v where v: "val = Ok v" and body: "(if is_ok (lmdb_get L env db key) then Ok env
      else lmdb_try (lmdb_put L env db key v)) = Ok tx"
    using assms(2) by (auto simp: put_once_def rbind_Ok_conv)
  have here: "is_ok (lmdb_get L env db key) \<longleftrightarrow> stored L env db key \<noteq> None"
    by (cases "lmdb_get L env db key") (simp_all add: stored_def)
  have "lmdb_put L env db key v = Ok tx \<Longrightarrow> stored L tx = (stored L env)(db := (stored L env db)(key \<mapsto> v))"
    using assms(1) by (simp add: lmdb_ok_def)
  then show ?thesis using v body unfolding here by (auto split: if_splits)
qed

section \<open>Every operation of the database\<close>

lemma does_write:
  assumes "lmdb_ok L"
    and "\<And>env tx. well_stored L c env \<Longrightarrow> body env = Ok tx
      \<Longrightarrow> well_stored L c tx \<and> store_of L c tx = apply_op x (store_of L c env)"
  shows "does L c (write_txn L db body) x"
proof (unfold does_def, intro allI impI)
  fix env r env'
  assume run: "write_txn L db body env = (r, env')" and ok: "well_stored L c env"
  have commit: "lmdb_commit L env tx = Ok env' \<Longrightarrow> stored L env' = stored L tx" for tx
    using assms(1) by (simp add: lmdb_ok_def)
  then have "lmdb_commit L env tx = Ok env' \<Longrightarrow> store_of L c env' = store_of L c tx \<and> well_stored L c env' = well_stored L c tx" for tx
    by (simp add: store_of_def well_stored_def)
  then show "if r = Ok () then well_stored L c env' \<and> store_of L c env' = apply_op x (store_of L c env) else env' = env"
    using write_txn_cases [OF run] assms(2) [OF ok] by fastforce
qed

lemma does_put_state:
  assumes "lmdb_ok L" and "codecs_ok c" and "encode (of_checkpoint c) state = Ok val"
  shows "does L c (set_checkpoint_state L c k val) (PutState k state)"
  unfolding set_checkpoint_state_def
proof (rule does_write [OF assms(1)])
  fix env tx
  assume ok: "well_stored L c env" and body: "rbind (strict_try (encode (of_checkpoint_key c) k)) (\<lambda>key.
     put_over L LMDB_CHECKPOINTS key (Ok val) env) = Ok tx"
  obtain key where key: "encode (of_checkpoint_key c) k = Ok key" and put: "put_over L LMDB_CHECKPOINTS key (Ok val) env = Ok tx"
    using body by (auto simp: rbind_Ok_conv)
  from put_over_stored [OF assms(1) put]
  have tx: "stored L tx = (stored L env)(LMDB_CHECKPOINTS := (stored L env LMDB_CHECKPOINTS)(key \<mapsto> val))" by simp
  show "well_stored L c tx \<and> store_of L c tx = apply_op (PutState k state) (store_of L c env)"
    using ok assms key unfolding well_stored_def store_of_def codecs_ok_def tx
    by (simp add: table_names look_put table_put)
qed

lemma does_put_info:
  assumes "lmdb_ok L" and "codecs_ok c"
  shows "does L c (set_checkpoint_info L c i entry) (PutInfo i entry)"
  unfolding set_checkpoint_info_def
proof (rule does_write [OF assms(1)])
  fix env tx
  assume ok: "well_stored L c env" and body: "rbind (strict_try (encode (of_swap_id c) i)) (\<lambda>key.
     put_over L LMDB_CHECKPOINT_INFOS key (strict_try (encode (of_checkpoint_entry c) entry)) env) = Ok tx"
  obtain key where key: "encode (of_swap_id c) i = Ok key"
    and put: "put_over L LMDB_CHECKPOINT_INFOS key (strict_try (encode (of_checkpoint_entry c) entry)) env = Ok tx"
    using body by (auto simp: rbind_Ok_conv)
  from put_over_stored [OF assms(1) put] obtain v where v: "encode (of_checkpoint_entry c) entry = Ok v"
    and tx: "stored L tx = (stored L env)(LMDB_CHECKPOINT_INFOS := (stored L env LMDB_CHECKPOINT_INFOS)(key \<mapsto> v))"
    by auto
  show "well_stored L c tx \<and> store_of L c tx = apply_op (PutInfo i entry) (store_of L c env)"
    using ok assms(2) key v unfolding well_stored_def store_of_def codecs_ok_def tx
    by (simp add: table_names look_put table_put)
qed

lemma does_put_status:
  assumes "lmdb_ok L" and "codecs_ok c"
  shows "does L c (set_deal_status L c d status) (PutStatus d status)"
  unfolding set_deal_status_def
proof (rule does_write [OF assms(1)])
  fix env tx
  assume ok: "well_stored L c env" and body: "rbind (strict_try (encode (of_deal c) d)) (\<lambda>key.
     put_over L LMDB_DEAL_HISTORY key (strict_try (encode (of_deal_status c) status)) env) = Ok tx"
  obtain key where key: "encode (of_deal c) d = Ok key"
    and put: "put_over L LMDB_DEAL_HISTORY key (strict_try (encode (of_deal_status c) status)) env = Ok tx"
    using body by (auto simp: rbind_Ok_conv)
  from put_over_stored [OF assms(1) put] obtain v where v: "encode (of_deal_status c) status = Ok v"
    and tx: "stored L tx = (stored L env)(LMDB_DEAL_HISTORY := (stored L env LMDB_DEAL_HISTORY)(key \<mapsto> v))"
    by auto
  show "well_stored L c tx \<and> store_of L c tx = apply_op (PutStatus d status) (store_of L c env)"
    using ok assms(2) key v unfolding well_stored_def store_of_def codecs_ok_def tx
    by (simp add: table_names look_put table_put)
qed

lemma does_keep_btc:
  assumes "lmdb_ok L" and "codecs_ok c"
  shows "does L c (set_bitcoin_address L c a info) (KeepBtcKey a info)"
  unfolding set_bitcoin_address_def
proof (rule does_write [OF assms(1)])
  fix env tx
  assume ok: "well_stored L c env" and body: "rbind (strict_try (encode (of_btc_address c) a)) (\<lambda>key.
     put_once L LMDB_BITCOIN_ADDRESSES key (strict_try (encode (of_btc_key c) info)) env) = Ok tx"
  obtain key where key: "encode (of_btc_address c) a = Ok key"
    and put: "put_once L LMDB_BITCOIN_ADDRESSES key (strict_try (encode (of_btc_key c) info)) env = Ok tx"
    using body by (auto simp: rbind_Ok_conv)
  have new: "st_btc_keys (store_of L c env) a = None \<longleftrightarrow> stored L env LMDB_BITCOIN_ADDRESSES key = None"
    using ok assms(2) by (simp add: store_of_def well_stored_def codecs_ok_def look_entry [OF _ _ key])
  from put_once_stored [OF assms(1) put] obtain v where v: "encode (of_btc_key c) info = Ok v"
    and tx: "stored L tx = (if stored L env LMDB_BITCOIN_ADDRESSES key = None
      then (stored L env)(LMDB_BITCOIN_ADDRESSES := (stored L env LMDB_BITCOIN_ADDRESSES)(key \<mapsto> v)) else stored L env)"
    by auto
  show "well_stored L c tx \<and> store_of L c tx = apply_op (KeepBtcKey a info) (store_of L c env)"
    using ok assms(2) key v new unfolding well_stored_def store_of_def codecs_ok_def tx
    by (simp add: table_names look_put table_put)
qed

lemma does_keep_xmr:
  assumes "lmdb_ok L" and "codecs_ok c"
  shows "does L c (set_monero_address L c a info) (KeepXmrKey a info)"
  unfolding set_monero_address_def
proof (rule does_write [OF assms(1)])
  fix env tx
  assume ok: "well_stored L c env" and put: "put_once L LMDB_MONERO_ADDRESSES (xmr_as_bytes c a)
     (strict_try (encode (of_xmr_key c) info)) env = Ok tx"
  have key: "encode (of_xmr_address c) a = Ok (xmr_as_bytes c a)" by (simp add: of_xmr_address_def)
  have new: "st_xmr_keys (store_of L c env) a = None \<longleftrightarrow> stored L env LMDB_MONERO_ADDRESSES (xmr_as_bytes c a) = None"
    using ok assms(2) by (simp add: store_of_def well_stored_def codecs_ok_def look_entry [OF _ _ key])
  from put_once_stored [OF assms(1) put] obtain v where v: "encode (of_xmr_key c) info = Ok v"
    and tx: "stored L tx = (if stored L env LMDB_MONERO_ADDRESSES (xmr_as_bytes c a) = None
      then (stored L env)(LMDB_MONERO_ADDRESSES := (stored L env LMDB_MONERO_ADDRESSES)(xmr_as_bytes c a \<mapsto> v)) else stored L env)"
    by auto
  show "well_stored L c tx \<and> store_of L c tx = apply_op (KeepXmrKey a info) (store_of L c env)"
    using ok assms(2) key v new unfolding well_stored_def store_of_def codecs_ok_def tx
    by (simp add: table_names look_put table_put)
qed

lemma does_drops:
  assumes "lmdb_ok L" and "codecs_ok c"
  shows "does L c (delete_checkpoint_state L c k) (DropState k)"
    and "does L c (delete_checkpoint_info L c i) (DropInfo i)"
proof -
  have gone: "lmdb_del L env db key = Ok tx \<Longrightarrow> stored L tx = (stored L env)(db := (stored L env db)(key := None))"
    for env db key tx using assms(1) by (simp add: lmdb_ok_def)
  show "does L c (delete_checkpoint_state L c k) (DropState k)"
    unfolding delete_checkpoint_state_def
    by (rule does_write [OF assms(1)]) (use assms(2) in \<open>auto simp: rbind_Ok_conv well_stored_def store_of_def
        codecs_ok_def table_names look_drop table_drop dest!: gone\<close>)
  show "does L c (delete_checkpoint_info L c i) (DropInfo i)"
    unfolding delete_checkpoint_info_def
    by (rule does_write [OF assms(1)]) (use assms(2) in \<open>auto simp: rbind_Ok_conv well_stored_def store_of_def
        codecs_ok_def table_names look_drop table_drop dest!: gone\<close>)
qed

section \<open>The service\<close>

text \<open>The operations a message asks for, when all of them are done, in terms of the store it finds.\<close>

definition dangling :: "store \<Rightarrow> deal set" where
  "dangling st = {d. st_deals st d = Some InProgress \<and> (\<forall>i entry. st_infos st i = Some entry \<longrightarrow> ce_deal entry \<noteq> d)}"

definition asked_ops :: "service_bus \<Rightarrow> service_id \<Rightarrow> bus_msg \<Rightarrow> store \<Rightarrow> store_op list \<Rightarrow> bool" where
  "asked_ops bus source request st ops = (case request of
       Ctl (CheckpointCtl (Checkpoint i state)) \<Rightarrow> bus = CtlBus \<and> ops = [
         PutInfo i (CheckpointEntry i (ck_deal state) (ck_local_trade_role state) (ck_connected_counterparty_node_id state)),
         PutState (CheckpointKey i source) state]
     | Ctl (RemoveCheckpoint i) \<Rightarrow> bus = CtlBus \<and> subseq ops [DropState (CheckpointKey i (Swap i)), DropInfo i]
     | Ctl (SetAddressSecretKey (BitcoinAddressKey a info)) \<Rightarrow> bus = CtlBus \<and> ops = [KeepBtcKey a info]
     | Ctl (SetAddressSecretKey (MoneroAddressKey a info)) \<Rightarrow> bus = CtlBus \<and> ops = [KeepXmrKey a info]
     | Ctl (SetDealStatus pair) \<Rightarrow> bus = CtlBus \<and> ops = [PutStatus (dsp_deal pair) (dsp_status pair)]
     | Ctl CleanDanglingDeals \<Rightarrow> bus = CtlBus \<and>
         (\<exists>ds. ops = map (\<lambda>d. PutStatus d (Ended FailureAbort)) ds \<and> distinct ds \<and> set ds = dangling st)
     | _ \<Rightarrow> ops = [])"

text \<open>What a message did, when it failed on the way.\<close>

definition begun_ops :: "service_bus \<Rightarrow> bus_msg \<Rightarrow> service_id \<Rightarrow> store \<Rightarrow> store_op list \<Rightarrow> bool" where
  "begun_ops bus request source st ops = (ops = [] \<or> bus = CtlBus \<and> (case request of
       Ctl (CheckpointCtl (Checkpoint i state)) \<Rightarrow> ops = [PutInfo i (CheckpointEntry i (ck_deal state)
         (ck_local_trade_role state) (ck_connected_counterparty_node_id state))]
     | Ctl (RemoveCheckpoint i) \<Rightarrow> subseq ops [DropState (CheckpointKey i (Swap i)), DropInfo i]
     | Ctl CleanDanglingDeals \<Rightarrow> (\<exists>ds. ops = map (\<lambda>d. PutStatus d (Ended FailureAbort)) ds
         \<and> distinct ds \<and> set ds \<subseteq> dangling st)
     | _ \<Rightarrow> False))"

definition implements ::
  "'env lmdb \<Rightarrow> codecs \<Rightarrow> (store_op list \<Rightarrow> bool) \<Rightarrow> (store_op list \<Rightarrow> bool) \<Rightarrow> 'env databased
     \<Rightarrow> (error, unit) result \<times> 'env databased \<Rightarrow> bool" where
  "implements L c all begun s = (\<lambda>(r, t). well_stored L c (database t)
     \<and> (\<exists>ops. (if r = Ok () then all ops else begun ops)
          \<and> store_of L c (database t) = fold apply_op ops (store_of L c (database s))))"

lemma implementsI:
  "well_stored L c (database t) \<Longrightarrow> (if r = Ok () then all ops else begun ops)
     \<Longrightarrow> store_of L c (database t) = fold apply_op ops (store_of L c (database s)) \<Longrightarrow> implements L c all begun s (r, t)"
  unfolding implements_def by blast

text \<open>An action that only sends and reads implements no operation.\<close>

definition reads_only :: "('env databased, error, 'a) action \<Rightarrow> bool" where
  "reads_only m \<longleftrightarrow> (\<forall>s. database (snd (m s)) = database s)"

named_theorems reads_only_rules "actions that do not change the database"

lemma reads_only_send [reads_only_rules]: "reads_only (send_to bus src dest m)"
  by (simp add: reads_only_def send_to_def Let_def)

lemma reads_only_self [reads_only_rules]: "reads_only (send_from_self bus dest m)"
  by (simp add: reads_only_def send_from_self_def run_reads send_to_def Let_def)

lemma reads_only_client [reads_only_rules]: "reads_only (send_client_info src i)" "reads_only (send_client_ctl src m)"
  by (simp_all add: send_client_info_def send_client_ctl_def reads_only_rules)

lemma reads_only_skip [reads_only_rules]: "reads_only skip" "reads_only (throw e)"
  by (simp_all add: reads_only_def run_simps)

lemma reads_only_attempt: "reads_only (attempt (lift_res r) :: ('env databased, error, error + 'a) action)"
  by (cases r) (simp_all add: reads_only_def attempt_def lift_res_def)

lemma reads_only_bind:
  assumes "reads_only m" and "\<And>x. reads_only (f x)"
  shows "reads_only (bind m f)"
proof (unfold reads_only_def, rule allI)
  fix s
  have "database (snd (m s)) = database s" using assms(1) by (simp add: reads_only_def)
  moreover have "database (snd (f x t)) = database t" for x t using assms(2) by (simp add: reads_only_def)
  ultimately show "database (snd (bind m f s)) = database s"
    by (cases "m s"; cases "fst (m s)") (simp_all add: bind_def)
qed

lemma reads_only_reads: "(\<And>x. reads_only (f x)) \<Longrightarrow> reads_only (reads g f)"
  by (simp add: reads_only_def run_reads)

lemma reads_only_sum: "(\<And>e. reads_only (f e)) \<Longrightarrow> (\<And>x. reads_only (g x)) \<Longrightarrow> reads_only (case z of Inl e \<Rightarrow> f e | Inr x \<Rightarrow> g x)"
  by (cases z) simp_all

lemma reads_only_ask [reads_only_rules]: "(\<And>x. reads_only (k x)) \<Longrightarrow> reads_only (ask_database f k)"
  by (auto simp: ask_database_def reads_only_def run_reads bind_def lift_res_def split: result.split)

lemma reads_only_match [reads_only_rules]:
  "(\<And>x. reads_only (k x)) \<Longrightarrow> reads_only failed \<Longrightarrow> reads_only (match_database f k failed)"
  unfolding match_database_def
  by (intro reads_only_reads reads_only_bind reads_only_attempt reads_only_sum)

lemma implements_reads:
  assumes "reads_only m" and "well_stored L c (database s)" and "all []" and "begun []"
  shows "implements L c all begun s (m s)"
proof -
  have "database (snd (m s)) = database s" using assms(1) by (simp add: reads_only_def)
  then show ?thesis using assms(2-4)
    by (auto simp: implements_def split: prod.split intro!: exI [of _ "[]"])
qed

text \<open>One operation.\<close>

lemma on_database_does:
  assumes "does L c m x" and "well_stored L c (database s)" and "on_database m s = (r, t)"
  shows "if r = Ok () then well_stored L c (database t) \<and> store_of L c (database t) = apply_op x (store_of L c (database s))
     else t = s"
proof -
  obtain env' where m: "m (database s) = (r, env')" and t: "t = s\<lparr>database := env'\<rparr>"
    using assms(3) by (auto simp: on_database_def split: prod.splits)
  have "s\<lparr>database := database s\<rparr> = s" by simp
  then show ?thesis using assms(1,2) m t unfolding does_def by auto
qed

lemma implements_one:
  assumes "does L c m x" and "well_stored L c (database s)" and "all [x]" and "begun []"
  shows "implements L c all begun s (on_database m s)"
proof (cases "on_database m s")
  case (Pair r t)
  from on_database_does [OF assms(1,2) this] show ?thesis
    unfolding Pair implements_def using assms(2-4)
    by (cases "r = Ok ()") (auto intro: exI [of _ "[x]"] exI [of _ "[]"])
qed

section \<open>What is read\<close>

lemma collect_Ok: "collect_results (map (\<lambda>x. Ok (f x)) xs) = Ok (map f xs)"
  by (induction xs) simp_all

lemma iterated:
  assumes "lmdb_ok L" and "read_txn L db (\<lambda>tx. rbind (lmdb_try (lmdb_iter L tx db)) k) env = Ok y"
  shows "\<exists>entries. map_of entries = stored L env db \<and> distinct (map fst entries) \<and> k entries = Ok y"
proof -
  obtain entries where "lmdb_iter L env db = Ok entries" "k entries = Ok y"
    using assms(2) by (auto simp: read_txn_def rbind_Ok_conv)
  moreover from this(1) have "distinct (map fst entries) \<and> map_of entries = stored L env db"
    using assms(1) by (simp add: lmdb_ok_def)
  ultimately show ?thesis by blast
qed

lemma all_checkpoint_infos:
  assumes "lmdb_ok L" and "codecs_ok c" and "well_stored L c env" and "get_all_checkpoint_info L c env = Ok infos"
  shows "set infos = ran (st_infos (store_of L c env))"
proof -
  obtain entries where entries: "map_of entries = stored L env LMDB_CHECKPOINT_INFOS" "distinct (map fst entries)"
    and infos: "collect_results (map (\<lambda>(_, val). strict_try (decode (of_checkpoint_entry c) val)) entries) = Ok infos"
    using iterated [OF assms(1) assms(4) [unfolded get_all_checkpoint_info_def]] by blast
  obtain pairs where pairs: "map (\<lambda>(b, v). (decode (of_swap_id c) b, decode (of_checkpoint_entry c) v)) entries
      = map (\<lambda>(k, x). (Ok k, Ok x)) pairs"
      "distinct (map fst pairs)" "map_of pairs = st_infos (store_of L c env)"
    using decoded_entries [OF _ _ _ entries(1) entries(2), of "of_swap_id c" "of_checkpoint_entry c"] assms(2,3)
    by (auto simp: store_of_def well_stored_def codecs_ok_def)
  have "map (\<lambda>(_, val). strict_try (decode (of_checkpoint_entry c) val)) entries
      = map (strict_try \<circ> snd) (map (\<lambda>(b, v). (decode (of_swap_id c) b, decode (of_checkpoint_entry c) v)) entries)"
    by auto
  then have "infos = map snd pairs"
    using infos unfolding pairs(1) by (simp add: comp_def case_prod_beta collect_Ok)
  then show ?thesis using pairs(2) unfolding pairs(3) [symmetric] by (simp add: ran_distinct)
qed

lemma selected_deals:
  assumes "lmdb_ok L" and "codecs_ok c" and "well_stored L c env" and "get_deals L c selector env = Ok listed"
  shows "distinct (map dsp_deal listed)
     \<and> set listed = {DealStatusPair d status | d status. st_deals (store_of L c env) d = Some status \<and> status_selected selector status}"
proof -
  obtain entries where entries: "map_of entries = stored L env LMDB_DEAL_HISTORY" "distinct (map fst entries)"
    and listed: "collect_results (List.map_filter (selected_deal c selector) entries) = Ok listed"
    using iterated [OF assms(1) assms(4) [unfolded get_deals_def]] by blast
  obtain pairs where pairs: "map (\<lambda>(b, v). (decode (of_deal c) b, decode (of_deal_status c) v)) entries
      = map (\<lambda>(k, x). (Ok k, Ok x)) pairs"
      "distinct (map fst pairs)" "map_of pairs = st_deals (store_of L c env)"
    using decoded_entries [OF _ _ _ entries(1) entries(2), of "of_deal c" "of_deal_status c"] assms(2,3)
    by (auto simp: store_of_def well_stored_def codecs_ok_def)
  have same: "List.map_filter (selected_deal c selector) entries
      = map (\<lambda>(d, status). Ok (DealStatusPair d status)) (filter (\<lambda>(d, status). status_selected selector status) pairs)"
    if "map (\<lambda>(b, v). (decode (of_deal c) b, decode (of_deal_status c) v)) entries = map (\<lambda>(k, x). (Ok k, Ok x)) pairs"
    for entries :: "(bytes \<times> bytes) list" and pairs
    using that
  proof (induction entries arbitrary: pairs)
    case Nil
    then show ?case by simp
  next
    case (Cons e entries)
    obtain b v where e: "e = (b, v)" by (cases e)
    obtain d status ps where ps: "pairs = (d, status) # ps" "decode (of_deal c) b = Ok d" "decode (of_deal_status c) v = Ok status"
        "map (\<lambda>(b, v). (decode (of_deal c) b, decode (of_deal_status c) v)) entries = map (\<lambda>(k, x). (Ok k, Ok x)) ps"
      using Cons.prems e by (cases pairs) auto
    have "selected_deal c selector (b, v) = (if status_selected selector status then Some (Ok (DealStatusPair d status)) else None)"
      using ps by (simp add: selected_deal_def)
    then show ?case using Cons.IH [OF ps(4)] ps(1) e by (simp add: map_filter_simps)
  qed
  have listed: "listed = map (\<lambda>(d, status). DealStatusPair d status) (filter (\<lambda>(d, status). status_selected selector status) pairs)"
    using listed unfolding same [OF pairs(1)] by (simp add: split_def collect_Ok)
  have "map dsp_deal listed = map fst (filter (\<lambda>(d, status). status_selected selector status) pairs)"
    unfolding listed by (simp add: comp_def case_prod_beta)
  then have "distinct (map dsp_deal listed)" using pairs(2) by (simp add: distinct_map_filter)
  moreover have "\<And>d status. st_deals (store_of L c env) d = Some status \<longleftrightarrow> (d, status) \<in> set pairs"
    using pairs(2) unfolding pairs(3) [symmetric] by simp
  ultimately show ?thesis
    by (auto simp: listed image_iff)
qed

section \<open>The service implements the store\<close>

lemma for_each_does:
  assumes "\<And>d. does L c (m d) (op d)" and "well_stored L c (database s)" and "for_each ds (\<lambda>d. on_database (m d)) s = (r, t)"
  shows "\<exists>did rest. ds = did @ rest \<and> (r = Ok () \<longrightarrow> rest = []) \<and> well_stored L c (database t)
     \<and> store_of L c (database t) = fold apply_op (map op did) (store_of L c (database s))"
  using assms(2,3)
proof (induction ds arbitrary: s)
  case Nil
  then show ?case by (auto simp: run_skip)
next
  case (Cons d ds)
  obtain r' u where first: "on_database (m d) s = (r', u)" by (cases "on_database (m d) s")
  note did = on_database_does [OF assms(1) Cons.prems(1) first]
  show ?case
  proof (cases "r' = Ok ()")
    case True
    then have "for_each ds (\<lambda>d. on_database (m d)) u = (r, t)" "well_stored L c (database u)"
        "store_of L c (database u) = apply_op (op d) (store_of L c (database s))"
      using Cons.prems(2) first did by (simp_all add: bind_def)
    note step = this
    obtain did rest where "ds = did @ rest" "r = Ok () \<longrightarrow> rest = []" "well_stored L c (database t)"
        "store_of L c (database t) = fold apply_op (map op did) (store_of L c (database u))"
      using Cons.IH [OF step(2,1)] by blast
    then show ?thesis using step(3) by (intro exI [of _ "d # did"] exI [of _ rest]) simp
  next
    case False
    then have "r = r' \<and> t = u" using Cons.prems(2) first by (cases r') (auto simp: bind_def)
    then show ?thesis using False did Cons.prems(1) by (intro exI [of _ "[]"] exI [of _ "d # ds"]) auto
  qed
qed

lemma set_eq_dangling:
  assumes "set infos = ran (st_infos st)"
    and "set pairs = {DealStatusPair d status | d status. st_deals st d = Some status \<and> status_selected SelectInProgress status}"
  shows "set (dangling_deals infos pairs) = dangling st"
proof
  show "set (dangling_deals infos pairs) \<subseteq> dangling st"
    using assms by (auto simp: dangling_deals_def dangling_def ran_def)
  show "dangling st \<subseteq> set (dangling_deals infos pairs)"
  proof
    fix d assume d: "d \<in> dangling st"
    then have "DealStatusPair d InProgress \<in> set pairs" using assms(2) by (simp add: dangling_def)
    then have "d \<in> set (map dsp_deal pairs)" by force
    then show "d \<in> set (dangling_deals infos pairs)"
      using d assms(1) by (auto simp: dangling_deals_def dangling_def ran_def) blast
  qed
qed

lemma clean_implements:
  assumes "lmdb_ok L" and "codecs_ok c" and "well_stored L c (database s)"
  shows "implements L c (asked_ops CtlBus source (Ctl CleanDanglingDeals) (store_of L c (database s)))
     (begun_ops CtlBus (Ctl CleanDanglingDeals) source (store_of L c (database s))) s
     (dbd_handle_ctl L c source CleanDanglingDeals s)"
proof -
  let ?st = "store_of L c (database s)"
  let ?loop = "\<lambda>ds. for_each ds (\<lambda>d. on_database (set_deal_status L c d (Ended FailureAbort)))"
  let ?op = "\<lambda>d. PutStatus d (Ended FailureAbort)"
  have run: "dbd_handle_ctl L c source CleanDanglingDeals s
      = (case get_all_checkpoint_info L c (database s) of
           Ok infos \<Rightarrow> (case get_deals L c SelectInProgress (database s) of
               Ok pairs \<Rightarrow> ?loop (dangling_deals infos pairs) s
             | Err e \<Rightarrow> (Err e, s) | Panic p \<Rightarrow> (Panic p, s) | Hang \<Rightarrow> (Hang, s))
         | Err e \<Rightarrow> (Err e, s) | Panic p \<Rightarrow> (Panic p, s) | Hang \<Rightarrow> (Hang, s))"
    by (simp add: dbd_handle_ctl_def ask_database_def run_reads bind_def lift_res_def split: result.split)
  show ?thesis
  proof (cases "\<exists>infos pairs. get_all_checkpoint_info L c (database s) = Ok infos
      \<and> get_deals L c SelectInProgress (database s) = Ok pairs")
    case True
    then obtain infos pairs where infos: "get_all_checkpoint_info L c (database s) = Ok infos"
      and pairs: "get_deals L c SelectInProgress (database s) = Ok pairs" by blast
    let ?ds = "dangling_deals infos pairs"
    note listed = selected_deals [OF assms pairs]
    have ds: "set ?ds = dangling ?st"
      using set_eq_dangling [OF all_checkpoint_infos [OF assms infos]] listed by blast
    have distinct: "distinct ?ds" using listed by (simp add: dangling_deals_def)
    obtain r t where loop: "?loop ?ds s = (r, t)" by (cases "?loop ?ds s")
    from for_each_does [OF does_put_status [OF assms(1,2)] assms(3) loop] obtain did rest where
      did: "?ds = did @ rest" "r = Ok () \<longrightarrow> rest = []" "well_stored L c (database t)"
        "store_of L c (database t) = fold apply_op (map ?op did) ?st"
      by blast
    have "set did \<subseteq> dangling ?st" "distinct did" using ds distinct did(1) by auto
    moreover have "r = Ok () \<Longrightarrow> set did = dangling ?st" using ds did(1,2) by auto
    ultimately show ?thesis
      using did(3,4) unfolding run infos pairs result.simps loop
      by (auto simp: implements_def asked_ops_def begun_ops_def intro!: exI [of _ "map ?op did"] exI [of _ did])
  next
    case False
    then have "\<exists>r. r \<noteq> Ok () \<and> dbd_handle_ctl L c source CleanDanglingDeals s = (r, s)"
      unfolding run by (auto split: result.splits)
    then show ?thesis using assms(3) by (auto simp: implements_def begun_ops_def intro!: exI [of _ "[]"])
  qed
qed

lemma checkpoint_implements:
  assumes "lmdb_ok L" and "codecs_ok c" and "well_stored L c (database s)"
  shows "implements L c (asked_ops CtlBus source (Ctl (CheckpointCtl (Checkpoint i state))) (store_of L c (database s)))
     (begun_ops CtlBus (Ctl (CheckpointCtl (Checkpoint i state))) source (store_of L c (database s))) s
     (dbd_handle_ctl L c source (CheckpointCtl (Checkpoint i state)) s)"
proof -
  let ?entry = "CheckpointEntry i (ck_deal state) (ck_local_trade_role state) (ck_connected_counterparty_node_id state)"
  let ?second = "bind (lift_res (strict_try (encode (of_checkpoint c) state))) (\<lambda>state_encoded.
      on_database (set_checkpoint_state L c (CheckpointKey i source) state_encoded))"
  obtain r u where first: "on_database (set_checkpoint_info L c i ?entry) s = (r, u)"
    by (cases "on_database (set_checkpoint_info L c i ?entry) s")
  note did = on_database_does [OF does_put_info [OF assms(1,2)] assms(3) first]
  have run: "dbd_handle_ctl L c source (CheckpointCtl (Checkpoint i state)) s
      = bind (on_database (set_checkpoint_info L c i ?entry)) (\<lambda>_. ?second) s"
    by (simp add: dbd_handle_ctl_def)
  show ?thesis
  proof (cases "r = Ok ()")
    case True
    then have u: "well_stored L c (database u)" "store_of L c (database u) = apply_op (PutInfo i ?entry) (store_of L c (database s))"
      using did by simp_all
    obtain r' t where second: "?second u = (r', t)" by (cases "?second u")
    have "(r' = Ok () \<and> well_stored L c (database t)
        \<and> store_of L c (database t) = apply_op (PutState (CheckpointKey i source) state) (store_of L c (database u)))
      \<or> (r' \<noteq> Ok () \<and> t = u)"
    proof (cases "encode (of_checkpoint c) state")
      case (Ok val)
      then have "on_database (set_checkpoint_state L c (CheckpointKey i source) val) u = (r', t)"
        using second by (simp add: bind_def lift_res_def)
      from on_database_does [OF does_put_state [OF assms(1,2) Ok] u(1) this] show ?thesis by (auto split: if_splits)
    qed (use second in \<open>auto simp: bind_def lift_res_def\<close>)
    then have "\<exists>ops. well_stored L c (database t) \<and> store_of L c (database t) = fold apply_op ops (store_of L c (database s))
        \<and> (if r' = Ok () then ops = [PutInfo i ?entry, PutState (CheckpointKey i source) state] else ops = [PutInfo i ?entry])"
      using u by (auto simp del: apply_op.simps)
    then obtain ops where "well_stored L c (database t)" "store_of L c (database t) = fold apply_op ops (store_of L c (database s))"
        "if r' = Ok () then ops = [PutInfo i ?entry, PutState (CheckpointKey i source) state] else ops = [PutInfo i ?entry]"
      by blast
    moreover have "bind (on_database (set_checkpoint_info L c i ?entry)) (\<lambda>_. ?second) s = (r', t)"
      using first True second by (simp add: bind_def)
    ultimately show ?thesis
      unfolding run by (simp only:) (rule implementsI, auto simp: asked_ops_def begun_ops_def simp del: apply_op.simps)
  next
    case False
    then have "bind (on_database (set_checkpoint_info L c i ?entry)) (\<lambda>_. ?second) s = (r, s)"
      using first did by (cases r) (auto simp: bind_def)
    moreover have "begun_ops bus request source st []" for bus request st by (simp add: begun_ops_def)
    ultimately show ?thesis using False assms(3) unfolding run
      by (simp only:) (rule implementsI [where ops = "[]"], simp_all)
  qed
qed

lemma attempted_drop:
  assumes "does L c m x" and "well_stored L c (database s)" and "attempt (on_database m) s = (r, t)"
  shows "\<exists>ops. subseq ops [x] \<and> well_stored L c (database t)
     \<and> store_of L c (database t) = fold apply_op ops (store_of L c (database s))"
proof -
  obtain r' t' where run: "on_database m s = (r', t')" by (cases "on_database m s")
  then have "t = t'" using assms(3) by (cases r') (auto simp: attempt_def)
  then show ?thesis
    using on_database_does [OF assms(1,2) run] assms(2)
    by (cases "r' = Ok ()") (auto intro: exI [of _ "[x]"] exI [of _ "[]"])
qed

lemma remove_implements:
  assumes "lmdb_ok L" and "codecs_ok c" and "well_stored L c (database s)"
  shows "implements L c (asked_ops CtlBus source (Ctl (RemoveCheckpoint i)) (store_of L c (database s)))
     (begun_ops CtlBus (Ctl (RemoveCheckpoint i)) source (store_of L c (database s))) s
     (dbd_handle_ctl L c source (RemoveCheckpoint i) s)"
proof -
  let ?k = "CheckpointKey i (Swap i)"
  let ?state = "attempt (on_database (delete_checkpoint_state L c ?k))"
  let ?info = "attempt (on_database (delete_checkpoint_info L c i))"
  obtain r t where whole: "dbd_handle_ctl L c source (RemoveCheckpoint i) s = (r, t)"
    by (cases "dbd_handle_ctl L c source (RemoveCheckpoint i) s")
  obtain r1 u where one: "?state s = (r1, u)" by (cases "?state s")
  obtain r2 v where two: "?info u = (r2, v)" by (cases "?info u")
  obtain ops1 where ops1: "subseq ops1 [DropState ?k]" "well_stored L c (database u)"
      "store_of L c (database u) = fold apply_op ops1 (store_of L c (database s))"
    using attempted_drop [OF does_drops(1) [OF assms(1,2)] assms(3) one] by blast
  obtain ops2 where ops2: "subseq ops2 [DropInfo i]" "well_stored L c (database v)"
      "store_of L c (database v) = fold apply_op ops2 (store_of L c (database u))"
    using attempted_drop [OF does_drops(2) [OF assms(1,2)] ops1(2) two] by blast
  have "t = u \<or> t = v"
    using whole one two by (cases r1; cases r2) (auto simp: dbd_handle_ctl_def bind_def run_skip)
  moreover have "subseq (ops1 @ ops2) ([DropState ?k] @ [DropInfo i])"
    using ops1(1) ops2(1) by (rule list_emb_append_mono)
  moreover have "subseq ops1 ([DropState ?k] @ [DropInfo i])"
    using list_emb_append_mono [OF ops1(1), of "[]" "[DropInfo i]"] by simp
  ultimately have "\<exists>ops. subseq ops [DropState ?k, DropInfo i] \<and> well_stored L c (database t)
     \<and> store_of L c (database t) = fold apply_op ops (store_of L c (database s))"
    using ops1 ops2 by (metis append_Cons append_Nil fold_append comp_apply)
  then obtain ops where "subseq ops [DropState ?k, DropInfo i]" "well_stored L c (database t)"
      "store_of L c (database t) = fold apply_op ops (store_of L c (database s))"
    by blast
  then show ?thesis unfolding whole
    by (intro implementsI [where ops = ops]) (simp_all add: asked_ops_def begun_ops_def)
qed

lemma restore_reads: "reads_only (dbd_handle_ctl L c source (RestoreCheckpoint entry))"
  unfolding dbd_handle_ctl_def ctl_msg.case Let_def
  by (intro reads_only_rules reads_only_bind reads_only_attempt reads_only_sum)

lemma info_reads: "reads_only (dbd_handle_info L c source request)"
  unfolding dbd_handle_info_def
  by (cases request) (simp_all add: reads_only_rules split: address.split blockchain.split)

lemma ctl_implements:
  assumes "lmdb_ok L" and "codecs_ok c" and "well_stored L c (database s)"
  shows "implements L c (asked_ops CtlBus source (Ctl request) (store_of L c (database s)))
     (begun_ops CtlBus (Ctl request) source (store_of L c (database s))) s (dbd_handle_ctl L c source request s)"
proof -
  have none: "begun_ops bus m source st []" for bus m st by (simp add: begun_ops_def)
  show ?thesis
  proof (cases request)
    case (RestoreCheckpoint entry)
    then show ?thesis by (intro implements_reads) (simp_all add: restore_reads assms(3) none asked_ops_def)
  next
    case (SetAddressSecretKey keys)
    show ?thesis
    proof (cases keys)
      case (BitcoinAddressKey a info)
      show ?thesis unfolding BitcoinAddressKey SetAddressSecretKey dbd_handle_ctl_def ctl_msg.case address_secret_key.case
        by (rule implements_one [OF does_keep_btc [OF assms(1,2)] assms(3)]) (simp_all add: asked_ops_def none)
    next
      case (MoneroAddressKey a info)
      show ?thesis unfolding MoneroAddressKey SetAddressSecretKey dbd_handle_ctl_def ctl_msg.case address_secret_key.case
        by (rule implements_one [OF does_keep_xmr [OF assms(1,2)] assms(3)]) (simp_all add: asked_ops_def none)
    qed
  next
    case (CheckpointCtl ck)
    then show ?thesis using checkpoint_implements [OF assms] by (cases ck) simp
  next
    case (RemoveCheckpoint i)
    then show ?thesis using remove_implements [OF assms] by simp
  next
    case (SetDealStatus pair)
    show ?thesis unfolding SetDealStatus dbd_handle_ctl_def ctl_msg.case address_secret_key.case
        by (rule implements_one [OF does_put_status [OF assms(1,2)] assms(3)]) (simp_all add: asked_ops_def none)
  next
    case CleanDanglingDeals
    then show ?thesis using clean_implements [OF assms] by simp
  qed (simp_all add: dbd_handle_ctl_def asked_ops_def implements_reads reads_only_skip(1) assms(3) none)
qed

lemma handle_implements:
  assumes "lmdb_ok L" and "codecs_ok c" and "well_stored L c (database s)"
  shows "implements L c (asked_ops bus source request (store_of L c (database s)))
     (begun_ops bus request source (store_of L c (database s))) s (dbd_handle L c bus source request s)"
proof (cases "(\<exists>m. bus = CtlBus \<and> request = Ctl m) \<or> (\<exists>m. bus = InfoBus \<and> request = Info m)")
  case True
  then show ?thesis
  proof
    assume "\<exists>m. bus = CtlBus \<and> request = Ctl m"
    then show ?thesis using ctl_implements [OF assms(1-3)] by (auto simp: dbd_handle_def)
  next
    assume "\<exists>m. bus = InfoBus \<and> request = Info m"
    then show ?thesis
      by (auto simp: dbd_handle_def asked_ops_def begun_ops_def intro!: implements_reads info_reads assms(3))
  qed
next
  case False
  then have "\<exists>e. dbd_handle L c bus source request s = (Err e, s)"
    by (cases bus; cases request) (auto simp: dbd_handle_def run_throw)
  then obtain e where "dbd_handle L c bus source request s = (Err e, s)" by blast
  then show ?thesis using assms(3) by (simp only:) (rule implementsI [where ops = "[]"], simp_all add: begun_ops_def)
qed

end
