(* ===== verification/DatabasedAnswers.thy ===== *)
theory DatabasedAnswers
  imports DatabasedStore
begin

text \<open>
  The answers of the database daemon in terms of its abstract store: what each request for information
  is answered, and that a removed checkpoint is gone, where LMDB is at work.
\<close>

section \<open>LMDB at work\<close>

text \<open>
  Tables open, transactions begin and commit, cursors run, and an entry that is there can be deleted.
\<close>

definition lmdb_works :: "'env lmdb \<Rightarrow> bool" where
  "lmdb_works L \<longleftrightarrow>
     (\<forall>env db. lmdb_open_db L env db = Ok () \<and> lmdb_begin L env = Ok ())
     \<and> (\<forall>env tx. \<exists>env'. lmdb_commit L env tx = Ok env')
     \<and> (\<forall>env db. \<exists>entries. lmdb_iter L env db = Ok entries)
     \<and> (\<forall>env db key. stored L env db key \<noteq> None \<longrightarrow> (\<exists>env'. lmdb_del L env db key = Ok env'))"

lemma lmdb_worksD:
  assumes "lmdb_works L"
  shows "lmdb_open_db L env db = Ok ()" and "lmdb_begin L env = Ok ()" and "\<exists>env'. lmdb_commit L env tx = Ok env'"
    and "\<exists>entries. lmdb_iter L env db = Ok entries"
    and "stored L env db key \<noteq> None \<Longrightarrow> \<exists>env'. lmdb_del L env db key = Ok env'"
  using assms by (simp_all add: lmdb_works_def)

section \<open>What a request is answered\<close>

text \<open>The requests that ask the store, the answers it allows, and whether what is asked for is there.\<close>

fun asks :: "info_msg \<Rightarrow> bool" where
  "asks (ListDeals _) = True"
| "asks RetrieveAllCheckpointInfo = True"
| "asks (GetCheckpointEntry _) = True"
| "asks (GetAddressSecretKey _) = True"
| "asks (GetAddresses _) = True"
| "asks _ = False"

text \<open>The entries of a map, each once, in some order.\<close>

definition listing :: "('k \<Rightarrow> 'v option) \<Rightarrow> ('k \<times> 'v) list \<Rightarrow> bool" where
  "listing m pairs \<longleftrightarrow> distinct (map fst pairs) \<and> map_of pairs = m"

fun answers :: "store \<Rightarrow> info_msg \<Rightarrow> info_msg \<Rightarrow> bool" where
  "answers st (ListDeals selector) a = (\<exists>listed. a = DealStatusList listed \<and> distinct (map dsp_deal listed)
     \<and> set listed = {DealStatusPair d status | d status. st_deals st d = Some status \<and> status_selected selector status})"
| "answers st RetrieveAllCheckpointInfo a =
     (\<exists>pairs. listing (st_infos st) pairs \<and> a = CheckpointList (map snd pairs))"
| "answers st (GetCheckpointEntry i) a = (\<exists>entry. st_infos st i = Some entry \<and> a = CheckpointEntryInfo entry)"
| "answers st (GetAddressSecretKey (BitcoinAddr addr)) a =
     (\<exists>info. st_btc_keys st addr = Some info \<and> a = AddressSecretKeyInfo (BitcoinAddressKey addr info))"
| "answers st (GetAddressSecretKey (MoneroAddr addr)) a =
     (\<exists>info. st_xmr_keys st addr = Some info \<and> a = AddressSecretKeyInfo (MoneroAddressKey addr info))"
| "answers st (GetAddresses Bitcoin) a =
     (\<exists>pairs. listing (st_btc_keys st) pairs \<and> a = BitcoinAddressList (map (\<lambda>(addr, info). (addr, bsk_swap_id info)) pairs))"
| "answers st (GetAddresses Monero) a =
     (\<exists>pairs. listing (st_xmr_keys st) pairs \<and> a = MoneroAddressList (map (\<lambda>(addr, info). (addr, msk_swap_id info)) pairs))"
| "answers st _ a = False"

fun present :: "store \<Rightarrow> info_msg \<Rightarrow> bool" where
  "present st (GetCheckpointEntry i) = (st_infos st i \<noteq> None)"
| "present st (GetAddressSecretKey (BitcoinAddr addr)) = (st_btc_keys st addr \<noteq> None)"
| "present st (GetAddressSecretKey (MoneroAddr addr)) = (st_xmr_keys st addr \<noteq> None)"
| "present st _ = True"

text \<open>An answer goes to the client, by way of \<open>grpcd\<close> where the client is one of its calls.\<close>

definition reply_to :: "service_bus \<Rightarrow> service_id \<Rightarrow> service_id \<Rightarrow> bus_msg \<Rightarrow> envelope" where
  "reply_to bus me client m = (if is_grpcd_client client then Envelope bus client Grpcd m else Envelope bus me client m)"

section \<open>What is read is what is stored\<close>

lemma read_entry:
  assumes "read_txn L db (\<lambda>tx. rbind (strict_try (encode kc k)) (\<lambda>key.
     rbind (lmdb_try (lmdb_get L tx db key)) (\<lambda>val. strict_try (decode vc val)))) env = Ok x"
  shows "look kc vc (stored L env db) k = Some x"
  using assms by (auto simp: read_txn_def look_def stored_def rbind_Ok_conv)

lemma read_present:
  assumes "lmdb_works L" and "look kc vc (stored L env db) k = Some x"
  shows "read_txn L db (\<lambda>tx. rbind (strict_try (encode kc k)) (\<lambda>key.
     rbind (lmdb_try (lmdb_get L tx db key)) (\<lambda>val. strict_try (decode vc val)))) env = Ok x"
  using assms(2) by (auto simp: read_txn_def look_def stored_def lmdb_worksD [OF assms(1)] split: result.splits option.splits)

lemma read_all:
  assumes "lmdb_ok L" and "table_ok kc vc (stored L env db)" and "codec_ok kc" and "codec_ok vc"
    and "\<And>b v k x. decode kc b = Ok k \<Longrightarrow> decode vc v = Ok x \<Longrightarrow> g (b, v) = Ok (h (k, x))"
    and "read_txn L db (\<lambda>tx. rbind (lmdb_try (lmdb_iter L tx db)) (\<lambda>entries. collect_results (map g entries))) env = Ok ys"
  shows "\<exists>pairs. listing (look kc vc (stored L env db)) pairs \<and> ys = map h pairs"
proof -
  obtain entries where entries: "map_of entries = stored L env db" "distinct (map fst entries)"
      "collect_results (map g entries) = Ok ys"
    using iterated [OF assms(1,6)] by blast
  obtain pairs where pairs: "map (\<lambda>(b, v). (decode kc b, decode vc v)) entries = map (\<lambda>(k, x). (Ok k, Ok x)) pairs"
      "distinct (map fst pairs)" "map_of pairs = look kc vc (stored L env db)"
    using decoded_entries [OF assms(2-4) entries(1,2)] by blast
  have "map g entries = map (\<lambda>p. Ok (h p)) pairs"
    using pairs(1) assms(5) by (induction entries arbitrary: pairs) (auto simp: map_eq_Cons_conv)
  then have "ys = map h pairs" using entries(3) by (simp add: collect_Ok)
  then show ?thesis using pairs(2,3) by (auto simp: listing_def)
qed

lemma reads_all:
  assumes "lmdb_ok L" and "lmdb_works L" and "table_ok kc vc (stored L env db)" and "codec_ok kc" and "codec_ok vc"
    and "\<And>b v k x. decode kc b = Ok k \<Longrightarrow> decode vc v = Ok x \<Longrightarrow> g (b, v) = Ok (h (k, x))"
  shows "\<exists>ys. read_txn L db (\<lambda>tx. rbind (lmdb_try (lmdb_iter L tx db)) (\<lambda>entries. collect_results (map g entries))) env = Ok ys"
proof -
  obtain entries where iter: "lmdb_iter L env db = Ok entries" using lmdb_worksD(4) [OF assms(2)] by blast
  then have entries: "map_of entries = stored L env db" "distinct (map fst entries)"
    using assms(1) by (simp_all add: lmdb_ok_def)
  obtain pairs where pairs: "map (\<lambda>(b, v). (decode kc b, decode vc v)) entries = map (\<lambda>(k, x). (Ok k, Ok x)) pairs"
    using decoded_entries [OF assms(3-5) entries] by blast
  have "map g entries = map (\<lambda>p. Ok (h p)) pairs"
    using pairs(1) assms(6) by (induction entries arbitrary: pairs) (auto simp: map_eq_Cons_conv)
  then show ?thesis using iter by (simp add: read_txn_def lmdb_worksD [OF assms(2)] collect_Ok)
qed

lemmas table_parts = store_of_def well_stored_def codecs_ok_def

lemma listed_checkpoints:
  assumes "lmdb_ok L" and "codecs_ok c" and "well_stored L c env"
  shows "get_all_checkpoint_info L c env = Ok ys
     \<Longrightarrow> \<exists>pairs. listing (st_infos (store_of L c env)) pairs \<and> ys = map snd pairs"
    and "lmdb_works L \<Longrightarrow> \<exists>ys. get_all_checkpoint_info L c env = Ok ys"
proof -
  have parts: "table_ok (of_swap_id c) (of_checkpoint_entry c) (stored L env LMDB_CHECKPOINT_INFOS)"
      "codec_ok (of_swap_id c)" "codec_ok (of_checkpoint_entry c)"
    using assms(2,3) by (simp_all add: table_parts)
  show "\<exists>pairs. listing (st_infos (store_of L c env)) pairs \<and> ys = map snd pairs"
    if "get_all_checkpoint_info L c env = Ok ys"
    using read_all [OF assms(1) parts _ that [unfolded get_all_checkpoint_info_def], of snd] by (simp add: store_of_def)
  show "\<exists>ys. get_all_checkpoint_info L c env = Ok ys" if "lmdb_works L"
    unfolding get_all_checkpoint_info_def by (rule reads_all [OF assms(1) that parts, of _ snd]) simp
qed

lemma listed_addresses:
  assumes "lmdb_ok L" and "codecs_ok c" and "well_stored L c env"
  shows "get_all_bitcoin_addresses L c env = Ok btc \<Longrightarrow> \<exists>pairs. listing (st_btc_keys (store_of L c env)) pairs
       \<and> btc = map (\<lambda>(addr, info). (addr, bsk_swap_id info)) pairs"
    and "get_all_monero_addresses L c env = Ok xmr \<Longrightarrow> \<exists>pairs. listing (st_xmr_keys (store_of L c env)) pairs
       \<and> xmr = map (\<lambda>(addr, info). (addr, msk_swap_id info)) pairs"
proof -
  have btc: "table_ok (of_btc_address c) (of_btc_key c) (stored L env LMDB_BITCOIN_ADDRESSES)"
      "codec_ok (of_btc_address c)" "codec_ok (of_btc_key c)"
    and xmr: "table_ok (of_xmr_address c) (of_xmr_key c) (stored L env LMDB_MONERO_ADDRESSES)"
      "codec_ok (of_xmr_address c)" "codec_ok (of_xmr_key c)"
    using assms(2,3) by (simp_all add: table_parts)
  show "\<exists>pairs. listing (st_btc_keys (store_of L c env)) pairs \<and> btc = map (\<lambda>(addr, info). (addr, bsk_swap_id info)) pairs"
    if "get_all_bitcoin_addresses L c env = Ok btc"
    using read_all [OF assms(1) btc _ that [unfolded get_all_bitcoin_addresses_def], of "\<lambda>(addr, info). (addr, bsk_swap_id info)"]
    by (simp add: store_of_def)
  show "\<exists>pairs. listing (st_xmr_keys (store_of L c env)) pairs \<and> xmr = map (\<lambda>(addr, info). (addr, msk_swap_id info)) pairs"
    if "get_all_monero_addresses L c env = Ok xmr"
    using read_all [OF assms(1) xmr _ that [unfolded get_all_monero_addresses_def], of "\<lambda>(addr, info). (addr, msk_swap_id info)"]
    by (simp add: store_of_def of_xmr_address_def)
qed

lemma got_checkpoint:
  "get_checkpoint_info L c i env = Ok entry \<Longrightarrow> st_infos (store_of L c env) i = Some entry"
  "lmdb_works L \<Longrightarrow> st_infos (store_of L c env) i = Some entry \<Longrightarrow> get_checkpoint_info L c i env = Ok entry"
  unfolding get_checkpoint_info_def store_of_def store.simps by (fact read_entry, fact read_present)

lemma got_btc_key:
  "get_bitcoin_address_secret_key L c a env = Ok info \<Longrightarrow> st_btc_keys (store_of L c env) a = Some info"
  "lmdb_works L \<Longrightarrow> st_btc_keys (store_of L c env) a = Some info \<Longrightarrow> get_bitcoin_address_secret_key L c a env = Ok info"
  unfolding get_bitcoin_address_secret_key_def store_of_def store.simps by (fact read_entry, fact read_present)

lemma got_xmr_key:
  "get_monero_address_secret_key L c a env = Ok info \<Longrightarrow> st_xmr_keys (store_of L c env) a = Some info"
  "lmdb_works L \<Longrightarrow> st_xmr_keys (store_of L c env) a = Some info \<Longrightarrow> get_monero_address_secret_key L c a env = Ok info"
proof -
  have eq: "get_monero_address_secret_key L c a env = read_txn L LMDB_MONERO_ADDRESSES (\<lambda>tx.
      rbind (strict_try (encode (of_xmr_address c) a)) (\<lambda>key.
      rbind (lmdb_try (lmdb_get L tx LMDB_MONERO_ADDRESSES key)) (\<lambda>val. strict_try (decode (of_xmr_key c) val)))) env"
    by (simp add: get_monero_address_secret_key_def of_xmr_address_def)
  show "get_monero_address_secret_key L c a env = Ok info \<Longrightarrow> st_xmr_keys (store_of L c env) a = Some info"
    unfolding eq store_of_def store.simps by (fact read_entry)
  show "lmdb_works L \<Longrightarrow> st_xmr_keys (store_of L c env) a = Some info \<Longrightarrow> get_monero_address_secret_key L c a env = Ok info"
    unfolding eq store_of_def store.simps by (fact read_present)
qed

section \<open>What is sent\<close>

lemma sent_reply:
  "send_client_info client m s = (Ok (), t) \<Longrightarrow> outbox t = outbox s @ [reply_to InfoBus (identity s) client (Info m)]"
  "send_client_ctl client m' s = (Ok (), t) \<Longrightarrow> outbox t = outbox s @ [reply_to CtlBus (identity s) client (Ctl m')]"
  by (auto simp: send_client_info_def send_client_ctl_def send_from_self_def run_reads send_to_def reply_to_def Let_def
      split: if_splits)

text \<open>The reply is the one the store gives, or a failure that has a reason.\<close>

definition replied :: "store \<Rightarrow> bool \<Rightarrow> info_msg \<Rightarrow> service_id \<Rightarrow> 'env databased \<Rightarrow> 'env databased \<Rightarrow> bool" where
  "replied st works m client s t \<longleftrightarrow>
     (\<exists>a. answers st m a \<and> outbox t = outbox s @ [reply_to InfoBus (identity s) client (Info a)])
   \<or> (\<exists>f. outbox t = outbox s @ [reply_to CtlBus (identity s) client (Ctl (FailureCtl f))] \<and> \<not> (works \<and> present st m))"

lemma asked_replies:
  assumes "ask_database f (\<lambda>x. send_client_info client (g x)) s = (Ok (), t)"
    and "\<And>x. f (database s) = Ok x \<Longrightarrow> answers st m (g x)"
  shows "replied st works m client s t"
proof -
  obtain x where x: "f (database s) = Ok x" and sent: "send_client_info client (g x) s = (Ok (), t)"
    using assms(1) by (auto simp: ask_database_def run_reads run_lift_res elim!: bind_OkE)
  then show ?thesis using assms(2) [OF x] sent_reply(1) [OF sent] unfolding replied_def by blast
qed

lemma matched_replies:
  assumes "match_database f (\<lambda>x. send_client_info client (g x)) (send_client_ctl client (FailureCtl e)) s = (Ok (), t)"
    and "\<And>x. f (database s) = Ok x \<Longrightarrow> answers st m (g x)"
    and "works \<Longrightarrow> present st m \<Longrightarrow> \<exists>x. f (database s) = Ok x"
  shows "replied st works m client s t"
proof (cases "f (database s)")
  case (Ok x)
  then have "send_client_info client (g x) s = (Ok (), t)"
    using assms(1) by (simp add: match_database_def run_reads attempt_def lift_res_def bind_def)
  then show ?thesis using sent_reply(1) assms(2) [OF Ok] unfolding replied_def by blast
next
  case (Err err)
  then have "send_client_ctl client (FailureCtl e) s = (Ok (), t)"
    using assms(1) by (simp add: match_database_def run_reads attempt_def lift_res_def bind_def)
  then show ?thesis using sent_reply(2) assms(3) Err unfolding replied_def by fastforce
qed (use assms(1) in \<open>simp_all add: match_database_def run_reads attempt_def lift_res_def bind_def\<close>)

lemma info_replies:
  assumes "lmdb_ok L" and "codecs_ok c" and "well_stored L c (database s)" and "asks m"
    and "dbd_handle_info L c client m s = (Ok (), t)"
  shows "replied (store_of L c (database s)) (lmdb_works L) m client s t"
proof (cases m)
  case (ListDeals selector)
  have run: "ask_database (get_deals L c selector) (\<lambda>pairs. send_client_info client (DealStatusList pairs)) s = (Ok (), t)"
    using assms(5) by (simp add: ListDeals dbd_handle_info_def)
  show ?thesis
    unfolding ListDeals by (rule asked_replies [OF run]) (use selected_deals [OF assms(1-3)] in auto)
next
  case RetrieveAllCheckpointInfo
  note run = assms(5) [unfolded RetrieveAllCheckpointInfo dbd_handle_info_def info_msg.case]
  show ?thesis
    unfolding RetrieveAllCheckpointInfo
    by (rule matched_replies [OF run]) (use listed_checkpoints [OF assms(1-3)] in auto)
next
  case (GetCheckpointEntry i)
  note run = assms(5) [unfolded GetCheckpointEntry dbd_handle_info_def info_msg.case]
  show ?thesis
    unfolding GetCheckpointEntry
    by (rule matched_replies [OF run]) (auto dest: got_checkpoint)
next
  case (GetAddressSecretKey a)
  show ?thesis
  proof (cases a)
    case (BitcoinAddr b)
    note run = assms(5) [unfolded GetAddressSecretKey BitcoinAddr dbd_handle_info_def info_msg.case address.case no_secret_key_def]
    show ?thesis
      unfolding GetAddressSecretKey BitcoinAddr by (rule matched_replies [OF run]) (auto dest: got_btc_key)
  next
    case (MoneroAddr x)
    note run = assms(5) [unfolded GetAddressSecretKey MoneroAddr dbd_handle_info_def info_msg.case address.case no_secret_key_def]
    show ?thesis
      unfolding GetAddressSecretKey MoneroAddr by (rule matched_replies [OF run]) (auto dest: got_xmr_key)
  qed
next
  case (GetAddresses b)
  show ?thesis
  proof (cases b)
    case Bitcoin
    note run = assms(5) [unfolded GetAddresses Bitcoin dbd_handle_info_def info_msg.case blockchain.case]
    show ?thesis
      unfolding GetAddresses Bitcoin by (rule asked_replies [OF run]) (use listed_addresses(1) [OF assms(1-3)] in auto)
  next
    case Monero
    note run = assms(5) [unfolded GetAddresses Monero dbd_handle_info_def info_msg.case blockchain.case]
    show ?thesis
      unfolding GetAddresses Monero by (rule asked_replies [OF run]) (use listed_addresses(2) [OF assms(1-3)] in auto)
  qed
qed (use assms(4) in simp_all)

section \<open>A removed checkpoint is gone\<close>

lemma deletes:
  assumes "lmdb_works L" and "look kc vc (stored L env db) x \<noteq> None"
  shows "fst (write_txn L db (\<lambda>tx. rbind (strict_try (encode kc x)) (\<lambda>key. lmdb_try (lmdb_del L tx db key))) env) = Ok ()"
proof -
  obtain key where key: "encode kc x = Ok key" and entry: "stored L env db key \<noteq> None"
    using assms(2) by (auto simp: look_def split: result.splits option.splits)
  obtain tx where "lmdb_del L env db key = Ok tx" using lmdb_worksD(5) [OF assms(1) entry] by blast
  moreover obtain env' where "lmdb_commit L env tx = Ok env'" using lmdb_worksD(3) [OF assms(1)] by blast
  ultimately show ?thesis
    using key by (simp add: write_txn_def run_reads lmdb_worksD [OF assms(1)] bind_def lift_res_def modify_def)
qed

lemma deleted:
  assumes "lmdb_works L"
  shows "delete_checkpoint_state L c k env = (r, env') \<Longrightarrow> st_states (store_of L c env) k \<noteq> None \<Longrightarrow> r = Ok ()"
    and "delete_checkpoint_info L c i env = (r, env') \<Longrightarrow> st_infos (store_of L c env) i \<noteq> None \<Longrightarrow> r = Ok ()"
  using deletes [OF assms, of "of_checkpoint_key c" "of_checkpoint c" env LMDB_CHECKPOINTS k]
    deletes [OF assms, of "of_swap_id c" "of_checkpoint_entry c" env LMDB_CHECKPOINT_INFOS i]
  by (simp_all add: delete_checkpoint_state_def delete_checkpoint_info_def store_of_def)

lemma attempted_delete:
  assumes "does L c m x" and "well_stored L c (database s)" and "attempt (on_database m) s = (r, t)"
    and "\<And>r env'. m (database s) = (r, env') \<Longrightarrow> apply_op x (store_of L c (database s)) \<noteq> store_of L c (database s) \<Longrightarrow> r = Ok ()"
  shows "well_stored L c (database t) \<and> store_of L c (database t) = apply_op x (store_of L c (database s))"
proof -
  obtain r' t' where run: "on_database m s = (r', t')" by (cases "on_database m s")
  obtain env' where m: "m (database s) = (r', env')"
    using run by (auto simp: on_database_def split: prod.splits)
  have "t = t'" using assms(3) run by (cases r') (auto simp: attempt_def)
  then show ?thesis
    using on_database_does [OF assms(1,2) run] assms(2) assms(4) [OF m] by (cases "r' = Ok ()") (simp, metis)
qed

lemma drops_nothing:
  "st_states st k = None \<Longrightarrow> apply_op (DropState k) st = st" "st_infos st i = None \<Longrightarrow> apply_op (DropInfo i) st = st"
  by (simp_all add: fun_upd_idem)

lemma removed_is_gone:
  assumes "lmdb_ok L" and "lmdb_works L" and "codecs_ok c" and "well_stored L c (database s)"
    and "dbd_handle_ctl L c source (RemoveCheckpoint i) s = (Ok (), t)"
  shows "store_of L c (database t)
     = apply_op (DropInfo i) (apply_op (DropState (CheckpointKey i (Swap i))) (store_of L c (database s)))"
proof -
  let ?k = "CheckpointKey i (Swap i)"
  obtain r1 u where one: "attempt (on_database (delete_checkpoint_state L c ?k)) s = (r1, u)" by fastforce
  obtain r2 v where two: "attempt (on_database (delete_checkpoint_info L c i)) u = (r2, v)" by fastforce
  have t: "t = v"
    using assms(5) one two by (cases r1; cases r2) (auto simp: dbd_handle_ctl_def bind_def run_skip)
  have u: "well_stored L c (database u) \<and> store_of L c (database u) = apply_op (DropState ?k) (store_of L c (database s))"
  proof (rule attempted_delete [OF does_drops(1) [OF assms(1,3)] assms(4) one])
    show "r = Ok ()" if "delete_checkpoint_state L c ?k (database s) = (r, env')"
      "apply_op (DropState ?k) (store_of L c (database s)) \<noteq> store_of L c (database s)" for r env'
      using deleted(1) [OF assms(2) that(1)] that(2) drops_nothing(1) by blast
  qed
  have "well_stored L c (database v) \<and> store_of L c (database v) = apply_op (DropInfo i) (store_of L c (database u))"
  proof (rule attempted_delete [OF does_drops(2) [OF assms(1,3)] _ two])
    show "well_stored L c (database u)" using u by simp
    show "r = Ok ()" if "delete_checkpoint_info L c i (database u) = (r, env')"
      "apply_op (DropInfo i) (store_of L c (database u)) \<noteq> store_of L c (database u)" for r env'
      using deleted(2) [OF assms(2) that(1)] u that(2) drops_nothing(2) by blast
  qed
  then show ?thesis using t u by simp
qed

end
