(* ===== verification/DatabasedServes.thy ===== *)
theory DatabasedServes
  imports DatabasedAnswers FarcasterdExamples
begin

text \<open>
  What the node relies on its database for: the store each message leaves, the checkpoint a restored
  swap is given, the deals a client is shown. The witnesses run on a small instance of LMDB.
\<close>

section \<open>An instance of LMDB and of the encodings\<close>

type_synonym tables = "string \<Rightarrow> (bytes \<times> bytes) list"

definition small_lmdb :: "tables lmdb" where
  "small_lmdb = \<lparr>lmdb_open_db = (\<lambda>_ _. Ok ()), lmdb_begin = (\<lambda>_. Ok ()),
     lmdb_get = (\<lambda>env db k. case map_of (env db) k of Some v \<Rightarrow> Ok v | None \<Rightarrow> Err ''NotFound''),
     lmdb_put = (\<lambda>env db k v. Ok (env(db := AList.update k v (env db)))),
     lmdb_del = (\<lambda>env db k. if map_of (env db) k = None then Err ''NotFound'' else Ok (env(db := AList.delete k (env db)))),
     lmdb_iter = (\<lambda>env db. Ok (AList.clearjunk (env db))), lmdb_commit = (\<lambda>env tx. Ok tx)\<rparr>"

lemma small_stored: "stored small_lmdb env db k = map_of (env db) k"
  by (simp add: stored_def small_lmdb_def split: option.split)

lemma small_lmdb_ok: "lmdb_ok small_lmdb"
proof -
  have stored: "stored small_lmdb env = (\<lambda>db. map_of (env db))" for env by (simp add: fun_eq_iff small_stored)
  show ?thesis unfolding lmdb_ok_def stored
    by (intro conjI allI impI;
        clarsimp simp: small_lmdb_def distinct_clearjunk map_of_clearjunk split: if_splits;
        rule ext; simp add: update_conv' delete_conv')
qed

text \<open>An encoding of one value: any other is refused.\<close>

definition only :: "'a \<Rightarrow> ('a, string) codec" where
  "only x = Codec (\<lambda>y. if y = x then Ok [1] else Err ''encode'') (\<lambda>b. if b = [1] then Ok x else Err ''decode'')"

text \<open>An encoding of the statuses of a deal, of those of a swap that ended the one of an abort.\<close>

fun status_bytes :: "deal_status \<Rightarrow> (string, bytes) result" where
  "status_bytes Open = Ok [1]"
| "status_bytes InProgress = Ok [2]"
| "status_bytes (Ended FailureAbort) = Ok [3]"
| "status_bytes _ = Err ''encode''"

definition status_of_bytes :: "bytes \<Rightarrow> (string, deal_status) result" where
  "status_of_bytes b = (if b = [1] then Ok Open else if b = [2] then Ok InProgress
     else if b = [3] then Ok (Ended FailureAbort) else Err ''decode'')"

fun network_byte :: "network \<Rightarrow> u8" where
  "network_byte Mainnet = 0"
| "network_byte Testnet = 1"
| "network_byte Local = 2"

fun xmr_bytes :: "xmr_address \<Rightarrow> bytes" where
  "xmr_bytes (XmrAddress net keys) = network_byte net # keys"

fun xmr_of_bytes :: "bytes \<Rightarrow> (string, xmr_address) result" where
  "xmr_of_bytes (b # keys) = Ok (XmrAddress (if b = 0 then Mainnet else if b = 1 then Testnet else Local) keys)"
| "xmr_of_bytes [] = Err ''length''"

definition sample_checkpoint :: checkpoint_swapd where
  "sample_checkpoint = \<lparr>ck_state = SwapEnd SuccessSwap, ck_pending_msg = None, ck_enquirer = None,
     ck_xmr_addr_addendum = None, ck_temporal_safety = example_timelocks, ck_txs = [], ck_txids = [],
     ck_pending_broadcasts = [], ck_local_trade_role = Taker, ck_connected_counterparty_node_id = None,
     ck_deal = sample_deal, ck_monero_address_creation_height = None\<rparr>"

definition sample_entry :: checkpoint_entry where
  "sample_entry = CheckpointEntry 5 sample_deal Taker None"

definition small_codecs :: codecs where
  "small_codecs = \<lparr>of_swap_id = only 5, of_checkpoint_key = only (CheckpointKey 5 (Swap 5)),
     of_checkpoint = only sample_checkpoint, of_checkpoint_entry = only sample_entry, of_deal = only sample_deal,
     of_deal_status = Codec status_bytes status_of_bytes, of_btc_address = only (BtcAddress Testnet [6]),
     of_btc_key = only (BitcoinSecretKeyInfo None [3]), xmr_as_bytes = xmr_bytes, xmr_from_bytes = xmr_of_bytes,
     of_xmr_key = only (MoneroSecretKeyInfo None [3] [4] None), btc_address_text = (\<lambda>_. ''btc''),
     xmr_address_text = (\<lambda>_. ''xmr'')\<rparr>"

lemma only_ok: "codec_ok (only x)"
  by (simp add: codec_ok_def only_def)

lemma status_codec_ok: "codec_ok (Codec status_bytes status_of_bytes)"
proof -
  have "status_of_bytes b = Ok x" if "status_bytes x = Ok b" for x b
    using that by (cases x rule: status_bytes.cases) (auto simp: status_of_bytes_def)
  then show ?thesis by (simp add: codec_ok_def)
qed

lemma small_codecs_ok: "codecs_ok small_codecs"
proof -
  have "xmr_of_bytes (xmr_bytes a) = Ok a" for a by (cases a; cases "xmr_network a") auto
  then show ?thesis by (simp add: codecs_ok_def small_codecs_def only_ok status_codec_ok)
      (simp add: of_xmr_address_def codec_ok_def)
qed

definition empty_database :: "tables databased" where
  "empty_database = dbd_initial_runtime (\<lambda>_. []) (\<lambda>_ _. True)"

lemma empty_well_stored: "well_stored small_lmdb small_codecs (database empty_database)"
  by (simp add: well_stored_def table_ok_def small_stored empty_database_def dbd_initial_runtime_def)

section \<open>The store\<close>

text \<open>
  Property C24 (refinement): the database daemon implements a store of five maps. Whatever message it
  handles, from entries that are all encodings: they stay so, and the store changes by the operations
  the message asks for, in order, all of them when the message is handled; when it fails, by those
  done before. An attempt to store other keys for an address changes nothing. A checkpoint that is
  removed may be kept by a failure of LMDB, which the code only logs; where LMDB works both its parts
  are gone. A handled request for information is answered, to the client that asked and with nothing
  else sent, exactly from the store: a list has the entries, each once, a single answer is the value
  stored; or the answer is a failure, which where LMDB works is sent only when nothing is stored.
\<close>

theorem database_implements_store:
  fixes c :: codecs
  assumes "lmdb_ok L" and "codecs_ok c" and "well_stored L c (database s)"
    and "dbd_handle L c bus source request s = (r, t)"
  shows "well_stored L c (database t)
     \<and> (\<exists>ops. (if r = Ok () then asked_ops bus source request (store_of L c (database s)) ops
          else begun_ops bus request source (store_of L c (database s)) ops)
        \<and> store_of L c (database t) = fold apply_op ops (store_of L c (database s)))
     \<and> (\<forall>i. bus = CtlBus \<and> request = Ctl (RemoveCheckpoint i) \<and> r = Ok () \<and> lmdb_works L
        \<longrightarrow> store_of L c (database t) = (store_of L c (database s))
              \<lparr>st_states := (st_states (store_of L c (database s)))(CheckpointKey i (Swap i) := None),
               st_infos := (st_infos (store_of L c (database s)))(i := None)\<rparr>)
     \<and> (\<forall>m. bus = InfoBus \<and> request = Info m \<and> asks m \<and> r = Ok ()
        \<longrightarrow> (\<exists>a. answers (store_of L c (database s)) m a
                \<and> outbox t = outbox s @ [reply_to InfoBus (identity s) source (Info a)])
          \<or> (\<exists>f. outbox t = outbox s @ [reply_to CtlBus (identity s) source (Ctl (FailureCtl f))]
                \<and> \<not> (lmdb_works L \<and> present (store_of L c (database s)) m)))"
proof (intro conjI allI impI)
  have "well_stored L c (database t)
     \<and> (\<exists>ops. (if r = Ok () then asked_ops bus source request (store_of L c (database s)) ops
          else begun_ops bus request source (store_of L c (database s)) ops)
        \<and> store_of L c (database t) = fold apply_op ops (store_of L c (database s)))"
    using handle_implements [OF assms(1-3), of bus source request] assms(4) by (simp add: implements_def)
  then show "well_stored L c (database t)"
    and "\<exists>ops. (if r = Ok () then asked_ops bus source request (store_of L c (database s)) ops
          else begun_ops bus request source (store_of L c (database s)) ops)
        \<and> store_of L c (database t) = fold apply_op ops (store_of L c (database s))"
    by blast+
next
  fix i
  assume "bus = CtlBus \<and> request = Ctl (RemoveCheckpoint i) \<and> r = Ok () \<and> lmdb_works L"
  then show "store_of L c (database t) = (store_of L c (database s))
      \<lparr>st_states := (st_states (store_of L c (database s)))(CheckpointKey i (Swap i) := None),
       st_infos := (st_infos (store_of L c (database s)))(i := None)\<rparr>"
    using removed_is_gone [OF assms(1) _ assms(2,3), of source i t] assms(4) by (simp add: dbd_handle_def)
next
  fix m
  assume "bus = InfoBus \<and> request = Info m \<and> asks m \<and> r = Ok ()"
  then show "(\<exists>a. answers (store_of L c (database s)) m a
        \<and> outbox t = outbox s @ [reply_to InfoBus (identity s) source (Info a)])
      \<or> (\<exists>f. outbox t = outbox s @ [reply_to CtlBus (identity s) source (Ctl (FailureCtl f))]
        \<and> \<not> (lmdb_works L \<and> present (store_of L c (database s)) m))"
    using info_replies [OF assms(1-3), of m source t] assms(4) by (simp add: dbd_handle_def replied_def)
qed

definition one_deal :: "tables databased" where
  "one_deal = empty_database\<lparr>database := (\<lambda>_. [])(LMDB_DEAL_HISTORY := [([1], [1])])\<rparr>"

lemma one_deal_well_stored: "well_stored small_lmdb small_codecs (database one_deal)"
  by (auto simp: well_stored_def table_ok_def small_stored one_deal_def table_names small_codecs_def only_def
      intro: exI [of _ Open])

lemma one_deal_open: "st_deals (store_of small_lmdb small_codecs (database one_deal)) sample_deal = Some Open"
  by (simp add: store_of_def look_def small_stored one_deal_def small_codecs_def only_def status_of_bytes_def)

lemmas small_read = dbd_handle_def ask_database_def get_deals_def read_txn_def selected_deal_def status_of_bytes_def
  one_deal_def empty_database_def dbd_initial_runtime_def small_lmdb_def small_codecs_def only_def table_names
  run_simps map_filter_simps

text \<open>A status is stored, and the deal that is stored is listed.\<close>

theorem database_implements_store_witness:
  "(\<exists>t. dbd_handle small_lmdb small_codecs CtlBus Farcasterd (Ctl (SetDealStatus (DealStatusPair sample_deal Open)))
        empty_database = (Ok (), t)
      \<and> st_deals (store_of small_lmdb small_codecs (database t)) sample_deal = Some Open)
   \<and> (\<exists>t listed. dbd_handle small_lmdb small_codecs InfoBus (Client 1) (Info (ListDeals SelectOpen)) one_deal = (Ok (), t)
      \<and> outbox t = outbox one_deal @ [Envelope InfoBus (identity one_deal) (Client 1) (Info (DealStatusList listed))]
      \<and> DealStatusPair sample_deal Open \<in> set listed)"
proof (intro conjI)
  obtain t where run: "dbd_handle small_lmdb small_codecs CtlBus Farcasterd
      (Ctl (SetDealStatus (DealStatusPair sample_deal Open))) empty_database = (Ok (), t)"
    by (simp add: dbd_handle_def dbd_handle_ctl_def set_deal_status_def write_txn_def put_over_def on_database_def
        small_lmdb_def small_codecs_def only_def run_simps bind_def empty_database_def dbd_initial_runtime_def)
  from database_implements_store [OF small_lmdb_ok small_codecs_ok empty_well_stored run]
  show "\<exists>t. dbd_handle small_lmdb small_codecs CtlBus Farcasterd (Ctl (SetDealStatus (DealStatusPair sample_deal Open)))
        empty_database = (Ok (), t)
      \<and> st_deals (store_of small_lmdb small_codecs (database t)) sample_deal = Some Open"
    using run by (auto simp: asked_ops_def)
  obtain u where list: "dbd_handle small_lmdb small_codecs InfoBus (Client 1) (Info (ListDeals SelectOpen)) one_deal = (Ok (), u)"
    by (simp add: small_read dbd_handle_info_def send_client_info_def send_from_self_def send_to_def)
  have works: "lmdb_works small_lmdb"
    by (auto simp: lmdb_works_def small_stored) (simp_all add: small_lmdb_def)
  from database_implements_store [OF small_lmdb_ok small_codecs_ok one_deal_well_stored list] works
  have "\<exists>a. answers (store_of small_lmdb small_codecs (database one_deal)) (ListDeals SelectOpen) a
      \<and> outbox u = outbox one_deal @ [reply_to InfoBus (identity one_deal) (Client 1) (Info a)]"
    by simp
  then show "\<exists>t listed. dbd_handle small_lmdb small_codecs InfoBus (Client 1) (Info (ListDeals SelectOpen)) one_deal = (Ok (), t)
      \<and> outbox t = outbox one_deal @ [Envelope InfoBus (identity one_deal) (Client 1) (Info (DealStatusList listed))]
      \<and> DealStatusPair sample_deal Open \<in> set listed"
    using list one_deal_open by (auto simp: reply_to_def)
qed

section \<open>Checkpoints\<close>

type_synonym received = "service_bus \<times> service_id \<times> bus_msg"

text \<open>The daemon handles messages one after the other, whatever becomes of each.\<close>

fun dbd_run :: "'env lmdb \<Rightarrow> codecs \<Rightarrow> received list \<Rightarrow> 'env databased \<Rightarrow> 'env databased" where
  "dbd_run L c [] s = s"
| "dbd_run L c ((bus, source, request) # ms) s = dbd_run L c ms (snd (dbd_handle L c bus source request s))"

text \<open>Messages that replace or remove the checkpoint a swap daemon stored.\<close>

fun touches :: "swap_id \<Rightarrow> received \<Rightarrow> bool" where
  "touches i (CtlBus, source, Ctl (CheckpointCtl (Checkpoint j state))) = (j = i \<and> source = Swap i)"
| "touches i (CtlBus, source, Ctl (RemoveCheckpoint j)) = (j = i)"
| "touches i _ = False"

lemma apply_ops_keep_state:
  "(\<And>x. x \<in> set ops \<Longrightarrow> x \<noteq> DropState k \<and> (\<forall>state. x \<noteq> PutState k state))
     \<Longrightarrow> st_states (fold apply_op ops st) k = st_states st k"
proof (induction ops arbitrary: st)
  case (Cons x ops)
  then have "st_states (apply_op x st) k = st_states st k" by (cases x) auto
  then show ?case using Cons by simp
qed simp

lemma subseq_mem: "subseq xs ys \<Longrightarrow> x \<in> set xs \<Longrightarrow> x \<in> set ys"
  by (auto dest: list_emb_set)

lemma asked_keep_state:
  assumes "asked_ops bus source request st ops \<or> begun_ops bus request source st ops" and "x \<in> set ops"
    and "\<not> touches i (bus, source, request)"
  shows "x \<noteq> DropState (CheckpointKey i (Swap i)) \<and> (\<forall>state. x \<noteq> PutState (CheckpointKey i (Swap i)) state)"
proof (cases "\<exists>m. bus = CtlBus \<and> request = Ctl m")
  case True
  then obtain m where "bus = CtlBus" "request = Ctl m" by blast
  then show ?thesis using assms
    by (cases m) (auto simp: asked_ops_def begun_ops_def split: checkpoint.splits address_secret_key.splits
        dest: subseq_mem)
next
  case False
  then have "ops = []"
    using assms(1) by (cases request)
      (auto simp: asked_ops_def begun_ops_def split: ctl_msg.splits checkpoint.splits address_secret_key.splits)
  then show ?thesis using assms(2) by simp
qed

lemma run_keeps_state:
  assumes "lmdb_ok L" and "codecs_ok c" and "well_stored L c (database s)"
    and "\<And>m. m \<in> set ms \<Longrightarrow> \<not> touches i m"
  shows "well_stored L c (database (dbd_run L c ms s))
     \<and> st_states (store_of L c (database (dbd_run L c ms s))) (CheckpointKey i (Swap i))
       = st_states (store_of L c (database s)) (CheckpointKey i (Swap i))"
  using assms(3,4)
proof (induction ms arbitrary: s)
  case Nil
  then show ?case by simp
next
  case (Cons m ms)
  obtain bus source request where m: "m = (bus, source, request)" by (cases m)
  obtain r t where run: "dbd_handle L c bus source request s = (r, t)" by (cases "dbd_handle L c bus source request s")
  have "implements L c (asked_ops bus source request (store_of L c (database s)))
     (begun_ops bus request source (store_of L c (database s))) s (r, t)"
    using handle_implements [OF assms(1,2) Cons.prems(1), of bus source request] run by simp
  then obtain ops where t: "well_stored L c (database t)"
    and ops: "asked_ops bus source request (store_of L c (database s)) ops
      \<or> begun_ops bus request source (store_of L c (database s)) ops"
    and st: "store_of L c (database t) = fold apply_op ops (store_of L c (database s))"
    unfolding implements_def by (auto split: if_splits)
  have untouched: "\<not> touches i (bus, source, request)" using Cons.prems(2) m by simp
  have "x \<noteq> DropState (CheckpointKey i (Swap i)) \<and> (\<forall>state. x \<noteq> PutState (CheckpointKey i (Swap i)) state)"
    if "x \<in> set ops" for x using asked_keep_state [OF ops that untouched] .
  then have "st_states (store_of L c (database t)) (CheckpointKey i (Swap i))
      = st_states (store_of L c (database s)) (CheckpointKey i (Swap i))"
    unfolding st by (intro apply_ops_keep_state) simp
  then show ?case using Cons.IH [OF t] Cons.prems(2) m run by simp
qed

text \<open>
  Property C25 (roundtrip): the checkpoint a swap daemon sent is the one it is given back. Whatever
  messages the database handled since, well or not, unless one replaced or removed that checkpoint: a
  request to restore the swap sends it, as it was, to the swap daemon.
\<close>

theorem stored_checkpoint_is_restored:
  assumes "lmdb_ok L" and "codecs_ok c" and "well_stored L c (database s)"
    and "dbd_handle L c CtlBus (Swap i) (Ctl (CheckpointCtl (Checkpoint i state))) s = (Ok (), t)"
    and "\<And>m. m \<in> set ms \<Longrightarrow> \<not> touches i m" and "u = dbd_run L c ms t"
    and "lmdb_open_db L (database u) LMDB_CHECKPOINTS = Ok ()" and "lmdb_begin L (database u) = Ok ()"
    and "reliable u" and "ce_swap_id entry = i"
  shows "\<exists>v. dbd_handle L c CtlBus source (Ctl (RestoreCheckpoint entry)) u = (Ok (), v) \<and> database v = database u
     \<and> outbox v = outbox u @ [Envelope CtlBus (identity u) (Swap i) (Ctl (CheckpointCtl (Checkpoint i state)))]"
proof -
  let ?k = "CheckpointKey i (Swap i)"
  have "implements L c (asked_ops CtlBus (Swap i) (Ctl (CheckpointCtl (Checkpoint i state))) (store_of L c (database s)))
     (begun_ops CtlBus (Ctl (CheckpointCtl (Checkpoint i state))) (Swap i) (store_of L c (database s))) s (Ok (), t)"
    using handle_implements [OF assms(1-3), of CtlBus "Swap i" "Ctl (CheckpointCtl (Checkpoint i state))"] assms(4) by simp
  then have t: "well_stored L c (database t)" "st_states (store_of L c (database t)) ?k = Some state"
    by (auto simp: implements_def asked_ops_def)
  have "st_states (store_of L c (database u)) ?k = Some state"
    using run_keeps_state [OF assms(1,2) t(1) assms(5)] t(2) assms(6) by simp
  then obtain key val where key: "encode (of_checkpoint_key c) ?k = Ok key"
    and val: "stored L (database u) LMDB_CHECKPOINTS key = Some val" "decode (of_checkpoint c) val = Ok state"
    by (auto simp: store_of_def look_def split: result.splits option.splits)
  have "lmdb_get L (database u) LMDB_CHECKPOINTS key = Ok val"
    using val(1) by (simp add: stored_def split: result.splits)
  then have "get_checkpoint_state L c ?k (database u) = Ok val"
    using key assms(7,8) by (simp add: get_checkpoint_state_def read_txn_def)
  then have "dbd_handle L c CtlBus source (Ctl (RestoreCheckpoint entry)) u
      = send_from_self CtlBus (Swap i) (Ctl (CheckpointCtl (Checkpoint i state))) u"
    using val(2) assms(10)
    by (simp add: dbd_handle_def dbd_handle_ctl_def match_database_def run_reads attempt_def lift_res_def bind_def)
  then show ?thesis using assms(9) by (simp add: send_from_self_def run_reads send_to_reliable)
qed

text \<open>The status of a deal comes in between.\<close>

theorem stored_checkpoint_is_restored_witness:
  "\<exists>t v. dbd_handle small_lmdb small_codecs CtlBus (Swap 5) (Ctl (CheckpointCtl (Checkpoint 5 sample_checkpoint)))
        empty_database = (Ok (), t)
     \<and> dbd_handle small_lmdb small_codecs CtlBus Farcasterd (Ctl (RestoreCheckpoint sample_entry))
        (dbd_run small_lmdb small_codecs
          [(CtlBus, Farcasterd, Ctl (SetDealStatus (DealStatusPair sample_deal Open)))] t)
        = (Ok (), v)
     \<and> last (outbox v) = Envelope CtlBus Database (Swap 5) (Ctl (CheckpointCtl (Checkpoint 5 sample_checkpoint)))"
proof -
  let ?ms = "[(CtlBus, Farcasterd, Ctl (SetDealStatus (DealStatusPair sample_deal Open)))]"
  note run_defs = dbd_handle_def dbd_handle_ctl_def set_checkpoint_info_def set_checkpoint_state_def write_txn_def
    put_over_def on_database_def small_lmdb_def small_codecs_def only_def run_simps bind_def table_names
  obtain t where run: "dbd_handle small_lmdb small_codecs CtlBus (Swap 5) (Ctl (CheckpointCtl (Checkpoint 5 sample_checkpoint)))
        empty_database = (Ok (), t)" and t: "reliable t" "identity t = Database"
    by (simp add: run_defs empty_database_def dbd_initial_runtime_def sample_checkpoint_def sample_entry_def reliable_def)
  have untouched: "m \<in> set ?ms \<Longrightarrow> \<not> touches 5 m" for m by auto
  have opens: "lmdb_open_db small_lmdb env db = Ok ()" "lmdb_begin small_lmdb env = Ok ()" for env db
    by (simp_all add: small_lmdb_def)
  have rest: "reliable (dbd_run small_lmdb small_codecs ?ms t)" "identity (dbd_run small_lmdb small_codecs ?ms t) = Database"
      "ce_swap_id sample_entry = 5"
    using t by (simp_all add: dbd_handle_def dbd_handle_ctl_def on_database_def reliable_def sample_entry_def
        split: prod.split)
  obtain v where "dbd_handle small_lmdb small_codecs CtlBus Farcasterd (Ctl (RestoreCheckpoint sample_entry))
      (dbd_run small_lmdb small_codecs ?ms t) = (Ok (), v)"
      "outbox v = outbox (dbd_run small_lmdb small_codecs ?ms t)
        @ [Envelope CtlBus Database (Swap 5) (Ctl (CheckpointCtl (Checkpoint 5 sample_checkpoint)))]"
    using stored_checkpoint_is_restored [where source = Farcasterd,
        OF small_lmdb_ok small_codecs_ok empty_well_stored run untouched refl opens rest(1,3)] rest(2)
    by auto
  then show ?thesis using run by (intro exI conjI) (assumption | simp)+
qed

section \<open>Deals\<close>

text \<open>
  Property C26 (safety): the clean-up farcasterd asks for when the database starts ends, as aborted,
  exactly the deals in progress that have no checkpoint. Every other deal keeps its status, and
  checkpoints, their entries and the keys of addresses stay as they were; nothing is sent.
\<close>

theorem clean_up_leaves_checkpointed_deals:
  fixes c :: codecs
  assumes "lmdb_ok L" and "codecs_ok c" and "well_stored L c (database s)"
    and "dbd_handle L c CtlBus source (Ctl CleanDanglingDeals) s = (Ok (), t)"
  shows "store_of L c (database t) = (store_of L c (database s))\<lparr>st_deals := (\<lambda>d.
       if st_deals (store_of L c (database s)) d = Some InProgress
          \<and> \<not> (\<exists>i entry. st_infos (store_of L c (database s)) i = Some entry \<and> ce_deal entry = d)
       then Some (Ended FailureAbort) else st_deals (store_of L c (database s)) d)\<rparr>
     \<and> outbox t = outbox s"
proof
  have "implements L c (asked_ops CtlBus source (Ctl CleanDanglingDeals) (store_of L c (database s)))
     (begun_ops CtlBus (Ctl CleanDanglingDeals) source (store_of L c (database s))) s (Ok (), t)"
    using handle_implements [OF assms(1-3), of CtlBus source "Ctl CleanDanglingDeals"] assms(4) by simp
  then obtain ds where ds: "set ds = dangling (store_of L c (database s))"
      "store_of L c (database t) = fold apply_op (map (\<lambda>d. PutStatus d (Ended FailureAbort)) ds) (store_of L c (database s))"
    by (auto simp: implements_def asked_ops_def)
  have "fold apply_op (map (\<lambda>d. PutStatus d (Ended FailureAbort)) ds) st
      = st\<lparr>st_deals := (\<lambda>d. if d \<in> set ds then Some (Ended FailureAbort) else st_deals st d)\<rparr>" for st
    by (induction ds arbitrary: st) (auto intro!: arg_cong [of _ _ "\<lambda>f. st_deals_update (\<lambda>_. f) _"])
  then show "store_of L c (database t) = (store_of L c (database s))\<lparr>st_deals := (\<lambda>d.
       if st_deals (store_of L c (database s)) d = Some InProgress
          \<and> \<not> (\<exists>i entry. st_infos (store_of L c (database s)) i = Some entry \<and> ce_deal entry = d)
       then Some (Ended FailureAbort) else st_deals (store_of L c (database s)) d)\<rparr>"
    using ds by (auto simp: dangling_def intro!: arg_cong [of _ _ "\<lambda>f. st_deals_update (\<lambda>_. f) _"])
  have quiet: "outbox (snd (on_database m u)) = outbox u" for m :: "('a, error, unit) action" and u
    by (simp add: on_database_def split: prod.split)
  have loop: "outbox (snd (for_each ds (\<lambda>d. on_database (m d)) u)) = outbox u"
    for ds :: "deal list" and m :: "deal \<Rightarrow> ('a, error, unit) action" and u
  proof (induction ds arbitrary: u)
    case (Cons d ds)
    show ?case using Cons quiet [of "m d" u]
      by (cases "on_database (m d) u"; cases "fst (on_database (m d) u)") (auto simp: bind_def)
  qed (simp add: run_skip)
  show "outbox t = outbox s"
    using assms(4) loop [of _ "\<lambda>d. set_deal_status L c d (Ended FailureAbort)" s]
    by (auto simp: dbd_handle_def dbd_handle_ctl_def ask_database_def run_reads run_lift_res elim!: bind_OkE) (metis snd_conv)
qed

text \<open>A deal in progress that no checkpoint was ever made for.\<close>

definition dangling_deal :: "tables databased" where
  "dangling_deal = empty_database\<lparr>database := (\<lambda>_. [])(LMDB_DEAL_HISTORY := [([1], [2])])\<rparr>"

theorem clean_up_leaves_checkpointed_deals_witness:
  "\<exists>t. dbd_handle small_lmdb small_codecs CtlBus Farcasterd (Ctl CleanDanglingDeals) dangling_deal = (Ok (), t)
     \<and> st_deals (store_of small_lmdb small_codecs (database dangling_deal)) sample_deal = Some InProgress
     \<and> st_deals (store_of small_lmdb small_codecs (database t)) sample_deal = Some (Ended FailureAbort)"
proof -
  have ok: "well_stored small_lmdb small_codecs (database dangling_deal)"
    by (auto simp: well_stored_def table_ok_def small_stored dangling_deal_def table_names small_codecs_def only_def
        intro: exI [of _ InProgress])
  obtain t where run: "dbd_handle small_lmdb small_codecs CtlBus Farcasterd (Ctl CleanDanglingDeals) dangling_deal = (Ok (), t)"
    by (simp add: small_read dbd_handle_ctl_def get_all_checkpoint_info_def dangling_deal_def dangling_deals_def
        set_deal_status_def write_txn_def put_over_def on_database_def bind_def)
  have "st_deals (store_of small_lmdb small_codecs (database dangling_deal)) sample_deal = Some InProgress"
      "\<And>i. st_infos (store_of small_lmdb small_codecs (database dangling_deal)) i = None"
    by (simp_all add: store_of_def look_def small_stored dangling_deal_def small_codecs_def only_def status_of_bytes_def table_names)
  then show ?thesis
    using clean_up_leaves_checkpointed_deals [OF small_lmdb_ok small_codecs_ok ok run] run by simp
qed

end
