(* ===== verification/Peerd.thy ===== *)
theory Peerd
  imports Esb
begin

text \<open>
  The connection daemon (\<open>peerd/runtime.rs\<close>): it carries the messages of swaps to the remote peer and
  back, keeps those the peer has not confirmed, and reconnects. The network, the other thread and the
  random numbers are the record \<open>peer_world\<close>; what is written on a connection is recorded with the
  number of the connection. Log lines and the pauses between attempts are left out.
\<close>

section \<open>The types of messages: bus/p2p.rs\<close>

text \<open>\<open>get_type\<close>: the number of the attribute \<open>api\<close> of the constructor.\<close>

fun peer_msg_type :: "peer_msg \<Rightarrow> u16" where
  "peer_msg_type (MakerCommitMsg _) = 33701"
| "peer_msg_type (TakerCommitMsg _) = 33702"
| "peer_msg_type (DealNotFound _) = 33703"
| "peer_msg_type (RevealMsg _) = 33704"
| "peer_msg_type (RefundProcedureSignaturesMsg _) = 33720"
| "peer_msg_type (CoreArbitratingSetupMsg _) = 33710"
| "peer_msg_type (BuyProcedureSignatureMsg _) = 33730"
| "peer_msg_type (Ping _) = 18"
| "peer_msg_type (Pong _) = 19"
| "peer_msg_type (Identity _) = 33798"
| "peer_msg_type (AbortPeer _) = 33799"
| "peer_msg_type PingPeer = 33800"
| "peer_msg_type PeerReceiverRuntimeShutdown = 33801"
| "peer_msg_type (MsgReceipt _) = 33802"

section \<open>The state\<close>

text \<open>
  What happens on the \<open>k\<close>-th attempt to connect, to read the first message of a connection and to
  open the bridge; on the \<open>k\<close>-th write; on the \<open>k\<close>-th probe for the receiver thread; the \<open>k\<close>-th
  random size and noise.
\<close>

record peer_world =
  connects :: "nat \<Rightarrow> (string, unit) result"
  first_message :: "nat \<Rightarrow> (string, peer_msg) result"
  opens_bridge :: "nat \<Rightarrow> (string, unit) result"
  writes :: "nat \<Rightarrow> peer_msg \<Rightarrow> bool"
  receiver_runs :: "nat \<Rightarrow> bool"
  random_size :: "nat \<Rightarrow> u16"
  random_noise :: "nat \<Rightarrow> nat \<Rightarrow> bytes"

type_synonym unchecked_cache = "((swap_id \<times> u16) \<times> peer_msg) list"

record peerd = daemon +
  remote_node_addr :: "node_addr option"
  local_socket :: "string option"
  local_node_id :: node_id
  peer_sender :: "nat option"
  forked_from_listener :: bool
  pd_started :: int
  messages_sent :: u64
  messages_received :: u64
  awaited_pong :: "u16 option"
  unchecked_msg_cache :: unchecked_cache
  wire :: "(nat \<times> peer_msg) list"
  connections :: nat
  write_attempts :: nat
  probes :: nat
  randoms :: nat
  exited :: bool
  pd_world :: peer_world

type_synonym 'a pd_action = "(peerd, error, 'a) action"

definition connecting_runtime ::
  "u128 \<Rightarrow> node_addr \<Rightarrow> string option \<Rightarrow> node_id \<Rightarrow> int \<Rightarrow> peer_world \<Rightarrow> (nat \<Rightarrow> envelope \<Rightarrow> bool) \<Rightarrow> peerd" where
  "connecting_runtime i addr socket me now w outcomes = \<lparr>
     identity = Peer i addr, outbox = [], attempts = 0, link = outcomes,
     remote_node_addr = Some addr, local_socket = socket, local_node_id = me, peer_sender = None,
     forked_from_listener = False, pd_started = now, messages_sent = 0, messages_received = 0,
     awaited_pong = None, unchecked_msg_cache = [], wire = [], connections = 0, write_attempts = 0,
     probes = 0, randoms = 0, exited = False, pd_world = w\<rparr>"

text \<open>
  The daemon a listener forks: the connection is there, the taker's first message tells its identity
  and is answered with a pong.
\<close>

definition listening_runtime ::
  "u128 \<Rightarrow> (string, peer_msg) result \<Rightarrow> (string, unit) result \<Rightarrow> node_addr option \<Rightarrow> string option \<Rightarrow> node_id \<Rightarrow> int
     \<Rightarrow> peer_world \<Rightarrow> (nat \<Rightarrow> envelope \<Rightarrow> bool) \<Rightarrow> (error, peerd) result" where
  "listening_runtime i received answered remote socket me now w outcomes =
     rbind (case received of Ok m \<Rightarrow> Ok m | _ \<Rightarrow> Panic ''failed to receive identity message from taker'') (\<lambda>msg.
     rbind (if is_ok answered then Ok () else Panic ''Failed to send handshake pong'') (\<lambda>_.
     rbind (case msg of Identity peer \<Rightarrow> Ok peer | _ \<Rightarrow> Panic ''remote id should always be some'') (\<lambda>peer.
     rbind (expect ''Checked for listener'' socket) (\<lambda>addr.
     rbind (err_into BridgeErr (opens_bridge w 0)) (\<lambda>_.
     Ok \<lparr>identity = Peer i (NodeAddr peer addr), outbox = [], attempts = 0, link = outcomes,
       remote_node_addr = remote, local_socket = socket, local_node_id = me, peer_sender = Some 0,
       forked_from_listener = True, pd_started = now, messages_sent = 0, messages_received = 0,
       awaited_pong = None, unchecked_msg_cache = [], wire = [(0, Pong [0])], connections = 1, write_attempts = 0,
       probes = 0, randoms = 0, exited = False, pd_world = w\<rparr>)))))"

section \<open>The wire\<close>

definition write_on :: "nat \<Rightarrow> peer_msg \<Rightarrow> unit pd_action" where
  "write_on k m = reads id (\<lambda>s. steps [modify (\<lambda>t. t\<lparr>write_attempts := Suc (write_attempts t)\<rparr>)]
     (if writes (pd_world s) (write_attempts s) m then modify (\<lambda>t. t\<lparr>wire := wire t @ [(k, m)]\<rparr>)
      else throw (PeerErr ''send_message'')))"

text \<open>\<open>self.peer_sender.as_mut().expect(..).send_message(m)\<close>.\<close>

definition send_message :: "peer_msg \<Rightarrow> unit pd_action" where
  "send_message m = reads peer_sender (\<lambda>sender.
     bind (lift_res (expect ''should be connected'' sender)) (\<lambda>k. write_on k m))"

definition start_connect_peer_listener_runtime :: "nat pd_action" where
  "start_connect_peer_listener_runtime =
     bind (stateful (\<lambda>s. (connections s, s\<lparr>connections := Suc (connections s)\<rparr>))) (\<lambda>k. reads id (\<lambda>s.
     bind (lift_res (err_into PeerErr (connects (pd_world s) k))) (\<lambda>_.
     bind (write_on k (Identity (local_node_id s))) (\<lambda>_.
     bind (lift_res (err_into PeerErr (first_message (pd_world s) k))) (\<lambda>msg. case msg of
         Pong _ \<Rightarrow> bind (lift_res (err_into BridgeErr (opens_bridge (pd_world s) k))) (\<lambda>_. ret k)
       | _ \<Rightarrow> throw (PeerErr ''UnknownDataType''))))))"

section \<open>Start\<close>

definition on_ready :: "unit pd_action" where
  "on_ready = reads id (\<lambda>s.
     if forked_from_listener s then skip
     else bind (lift_res (expect ''Checked for connecter'' (remote_node_addr s))) (\<lambda>_.
       bind (attempt start_connect_peer_listener_runtime) (\<lambda>r. case r of
         Inr k \<Rightarrow> steps [send_from_self CtlBus Farcasterd (Ctl ConnectSuccess)]
           (modify (\<lambda>t. t\<lparr>peer_sender := Some k\<rparr>))
       | Inl _ \<Rightarrow> send_from_self CtlBus Farcasterd (Ctl ConnectFailed))))"

section \<open>The cache of unconfirmed messages\<close>

text \<open>\<open>position(..).map(|pos| remove(pos))\<close>: the first entry under the key.\<close>

fun remove_unchecked :: "swap_id \<times> u16 \<Rightarrow> unchecked_cache \<Rightarrow> unchecked_cache" where
  "remove_unchecked key [] = []"
| "remove_unchecked key (e # cache) = (if fst e = key then cache else e # remove_unchecked key cache)"

definition forget_unchecked :: "swap_id \<times> u16 \<Rightarrow> unit pd_action" where
  "forget_unchecked key = modify (\<lambda>s. s\<lparr>unchecked_msg_cache := remove_unchecked key (unchecked_msg_cache s)\<rparr>)"

definition cache_message :: "peer_msg \<Rightarrow> unit pd_action" where
  "cache_message m = on (is_protocol m) (bind (lift_res (peer_msg_swap_id m)) (\<lambda>i. steps [
     forget_unchecked (i, peer_msg_type m)]
     (modify (\<lambda>s. s\<lparr>unchecked_msg_cache := unchecked_msg_cache s @ [((i, peer_msg_type m), m)]\<rparr>))))"

text \<open>
  The drained cache goes back to its swaps. \<open>drain\<close> empties the vector also when the loop leaves
  with an error.
\<close>

definition return_unchecked :: "unit pd_action" where
  "return_unchecked = bind (stateful (\<lambda>s. (unchecked_msg_cache s, s\<lparr>unchecked_msg_cache := []\<rparr>))) (\<lambda>cache.
     for_each cache (\<lambda>(_, m). bind (lift_res (peer_msg_swap_id m)) (\<lambda>i.
       send_from_self CtlBus (Swap i) (Ctl (FailedPeerMessage m)))))"

definition return_unchecked_by_key :: "unit pd_action" where
  "return_unchecked_by_key = bind (stateful (\<lambda>s. (unchecked_msg_cache s, s\<lparr>unchecked_msg_cache := []\<rparr>))) (\<lambda>cache.
     for_each cache (\<lambda>((i, _), m). send_from_self CtlBus (Swap i) (Ctl (FailedPeerMessage m))))"

section \<open>Reconnecting\<close>

text \<open>The loops of the code have no bound; they run here with a fuel, whose end is \<open>Hang\<close>.\<close>

fun await_receiver :: "nat \<Rightarrow> unit pd_action" where
  "await_receiver 0 = lift_res Hang"
| "await_receiver (Suc fuel) = bind (stateful (\<lambda>s. (receiver_runs (pd_world s) (probes s), s\<lparr>probes := Suc (probes s)\<rparr>)))
     (\<lambda>runs. if runs then await_receiver fuel else skip)"

fun connect_again :: "nat \<Rightarrow> unit pd_action" where
  "connect_again 0 = lift_res Hang"
| "connect_again (Suc fuel) = reads remote_node_addr (\<lambda>remote.
     bind (lift_res (expect ''Checked for connnecter'' remote)) (\<lambda>_.
     bind (attempt start_connect_peer_listener_runtime) (\<lambda>r. case r of
       Inl _ \<Rightarrow> connect_again fuel
     | Inr k \<Rightarrow> modify (\<lambda>s. s\<lparr>peer_sender := Some k\<rparr>))))"

definition reconnect_peer :: "nat \<Rightarrow> unit pd_action" where
  "reconnect_peer fuel = steps [await_receiver fuel, connect_again fuel]
     (reads unchecked_msg_cache (\<lambda>cache. steps [
        for_each cache (\<lambda>(_, m). send_message m)]
        (send_from_self CtlBus Farcasterd (Ctl Reconnected))))"

fun reconnect_until_done :: "nat \<Rightarrow> nat \<Rightarrow> unit pd_action" where
  "reconnect_until_done fuel 0 = lift_res Hang"
| "reconnect_until_done fuel (Suc n) = bind (attempt (reconnect_peer fuel)) (\<lambda>r. case r of
       Inl _ \<Rightarrow> reconnect_until_done fuel n
     | Inr _ \<Rightarrow> skip)"

section \<open>Messages to the peer\<close>

text \<open>The loop that sends: whether the message went out, or the daemon waits for its end.\<close>

fun send_until_done :: "nat \<Rightarrow> nat \<Rightarrow> peer_msg \<Rightarrow> bool pd_action" where
  "send_until_done fuel 0 m = lift_res Hang"
| "send_until_done fuel (Suc n) m = bind (attempt (send_message m)) (\<lambda>r. case r of
       Inr _ \<Rightarrow> ret True
     | Inl _ \<Rightarrow> steps [send_from_self CtlBus Farcasterd (Ctl Disconnected)]
         (reads forked_from_listener (\<lambda>forked.
           if forked
           then steps [return_unchecked, send_from_self CtlBus Farcasterd (Ctl PeerdTerminated)] (ret False)
           else steps [reconnect_until_done fuel fuel] (send_until_done fuel n m))))"

definition pd_handle_msg :: "nat \<Rightarrow> peer_msg \<Rightarrow> unit pd_action" where
  "pd_handle_msg fuel m = steps [modify (\<lambda>s. s\<lparr>messages_sent := messages_sent s + 1\<rparr>)]
     (bind (send_until_done fuel fuel m) (\<lambda>sent. on sent (cache_message m)))"

section \<open>Control and information messages\<close>

definition pd_handle_ctl :: "service_id \<Rightarrow> ctl_msg \<Rightarrow> unit pd_action" where
  "pd_handle_ctl source request =
     (if request = TerminateCtl \<and> source = Farcasterd
      then steps [return_unchecked] (modify (\<lambda>s. s\<lparr>exited := True\<rparr>))
      else throw (NotSupported CtlBus (TOpaque ''request'')))"

definition peer_info_of :: "int \<Rightarrow> peerd \<Rightarrow> peer_info" where
  "peer_info_of now s = PeerInfo (local_node_id s)
     (case remote_node_addr s of Some addr \<Rightarrow> [na_id addr] | None \<Rightarrow> []) (local_socket s)
     (case remote_node_addr s of Some addr \<Rightarrow> [na_addr addr] | None \<Rightarrow> [])
     (nat (now - pd_started s)) (of_nat (nat (pd_started s) div 10 ^ 9))
     (messages_sent s) (messages_received s) (forked_from_listener s) (awaited_pong s \<noteq> None)"

definition pd_handle_info :: "int \<Rightarrow> service_id \<Rightarrow> info_msg \<Rightarrow> unit pd_action" where
  "pd_handle_info now source request = (case request of
       GetInfo \<Rightarrow> reads (peer_info_of now) (\<lambda>info. send_client_info source (PeerInfoMsg info))
     | _ \<Rightarrow> skip)"

section \<open>Messages from the peer\<close>

text \<open>Each random number is drawn from the next position of the generator.\<close>

definition next_random :: "nat pd_action" where
  "next_random = stateful (\<lambda>s. (randoms s, s\<lparr>randoms := Suc (randoms s)\<rparr>))"

definition ping :: "unit pd_action" where
  "ping = bind next_random (\<lambda>k. reads pd_world (\<lambda>w. steps [
     modify (\<lambda>s. s\<lparr>messages_sent := messages_sent s + 1\<rparr>),
     send_message (Ping (random_size w k))]
     (modify (\<lambda>s. s\<lparr>awaited_pong := Some (random_size w k)\<rparr>))))"

definition pong :: "u16 \<Rightarrow> unit pd_action" where
  "pong pong_size = bind next_random (\<lambda>k. reads pd_world (\<lambda>w. steps [
     modify (\<lambda>s. s\<lparr>messages_sent := messages_sent s + 1\<rparr>)]
     (send_message (Pong (random_noise w k (unat pong_size))))))"

definition receiver_shutdown :: "nat \<Rightarrow> unit pd_action" where
  "receiver_shutdown fuel = steps [send_from_self CtlBus Farcasterd (Ctl Disconnected)]
     (reads forked_from_listener (\<lambda>forked.
       if forked then steps [send_from_self CtlBus Farcasterd (Ctl PeerdTerminated)] return_unchecked_by_key
       else reconnect_until_done fuel fuel))"

definition handle_bridge :: "nat \<Rightarrow> peer_msg \<Rightarrow> unit pd_action" where
  "handle_bridge fuel request = steps [modify (\<lambda>s. s\<lparr>messages_received := messages_received s + 1\<rparr>)]
     (case request of
        PingPeer \<Rightarrow> ping
      | Ping pong_size \<Rightarrow> pong pong_size
      | Pong _ \<Rightarrow> modify (\<lambda>s. s\<lparr>awaited_pong := None\<rparr>)
      | PeerReceiverRuntimeShutdown \<Rightarrow> receiver_shutdown fuel
      | MsgReceipt receipt \<Rightarrow> forget_unchecked (rc_swap_id receipt, rc_msg_type receipt)
      | TakerCommitMsg c \<Rightarrow> bind (lift_res (peer_msg_swap_id request)) (\<lambda>i. steps [
          send_from_self MsgBus Farcasterd (P2p request)]
          (pd_handle_msg fuel (MsgReceipt (Receipt i (peer_msg_type request)))))
      | _ \<Rightarrow> bind (lift_res (peer_msg_swap_id request)) (\<lambda>i. steps [
          send_from_self MsgBus (Swap i) (P2p request)]
          (send_message (MsgReceipt (Receipt i (peer_msg_type request))))))"

definition pd_handle :: "nat \<Rightarrow> int \<Rightarrow> service_bus \<Rightarrow> service_id \<Rightarrow> bus_msg \<Rightarrow> unit pd_action" where
  "pd_handle fuel now bus source request = (case (bus, request) of
       (MsgBus, P2p req) \<Rightarrow> pd_handle_msg fuel req
     | (CtlBus, Ctl req) \<Rightarrow> pd_handle_ctl source req
     | (InfoBus, Info req) \<Rightarrow> pd_handle_info now source req
     | (BridgeBus, P2p req) \<Rightarrow> handle_bridge fuel req
     | _ \<Rightarrow> throw (NotSupported bus (TOpaque ''request'')))"

section \<open>The receiver thread\<close>

text \<open>
  The other thread reads the socket and forwards over the bridge: the messages of its whitelist, a
  request to ping when the socket has been silent, and a shutdown when the connection broke.
\<close>

record receiver =
  awaiting_pong :: bool
  bridged :: "peer_msg list"
  bridge_up :: "nat \<Rightarrow> peer_msg \<Rightarrow> bool"
  bridge_attempts :: nat

definition send_over_bridge :: "peer_msg \<Rightarrow> (receiver, error, unit) action" where
  "send_over_bridge m = reads id (\<lambda>s. steps [modify (\<lambda>t. t\<lparr>bridge_attempts := Suc (bridge_attempts t)\<rparr>)]
     (if bridge_up s (bridge_attempts s) m then modify (\<lambda>t. t\<lparr>bridged := bridged t @ [m]\<rparr>)
      else throw (EsbErr ''send_to'')))"

fun is_pong :: "peer_msg \<Rightarrow> bool" where
  "is_pong (Pong _) = True"
| "is_pong _ = False"

definition receiver_handle :: "peer_msg \<Rightarrow> (receiver, error, unit) action" where
  "receiver_handle m = steps [modify (\<lambda>s. if is_pong m then s\<lparr>awaiting_pong := False\<rparr> else s)]
     (on (on_receiver_whitelist m) (send_over_bridge m))"

text \<open>\<open>handle_err\<close>: \<open>timed_out\<close> says whether the error is a timeout of the socket.\<close>

definition receiver_handle_err :: "bool \<Rightarrow> error \<Rightarrow> (receiver, error, unit) action" where
  "receiver_handle_err timed_out err =
     (if timed_out
      then reads awaiting_pong (\<lambda>awaiting.
        if awaiting then steps [send_over_bridge PeerReceiverRuntimeShutdown] (throw NotResponding)
        else steps [send_over_bridge PingPeer] (modify (\<lambda>s. s\<lparr>awaiting_pong := True\<rparr>)))
      else steps [send_over_bridge PeerReceiverRuntimeShutdown] (throw err))"

end
