(* ===== verification/PeerdDelivery.thy ===== *)
theory PeerdDelivery
  imports Peerd Frames
begin

text \<open>
  What the connection daemon does for the messages of swaps: which it keeps until they are confirmed,
  what it writes again after a reconnection, which it gives back to their swaps, and that it delivers
  once the network lets it.
\<close>

section \<open>What the operations keep\<close>

definition pd_fixed where
  "pd_fixed s = (identity s, link s, remote_node_addr s, local_node_id s, forked_from_listener s, pd_world s)"

text \<open>Nothing written is taken back, and the cache stays.\<close>

definition steady :: "peerd \<Rightarrow> peerd \<Rightarrow> bool" where
  "steady s t \<longleftrightarrow> pd_fixed t = pd_fixed s \<and> unchecked_msg_cache t = unchecked_msg_cache s
     \<and> (\<exists>w. wire t = wire s @ w)"

interpretation steady: frame steady
  by unfold_locales (auto simp: steady_def)

named_theorems steady_rules "actions that leave the cache alone"

lemma write_on_run:
  "write_on k m s = (if writes (pd_world s) (write_attempts s) m
     then (Ok (), s\<lparr>write_attempts := Suc (write_attempts s), wire := wire s @ [(k, m)]\<rparr>)
     else (Err (PeerErr ''send_message''), s\<lparr>write_attempts := Suc (write_attempts s)\<rparr>))"
  by (simp add: write_on_def run_simps bind_def)

lemma send_message_run:
  "send_message m s = (case peer_sender s of Some k \<Rightarrow> write_on k m s | None \<Rightarrow> (Panic ''should be connected'', s))"
  by (simp add: send_message_def run_simps bind_def split: option.split)

lemma steady_write [steady_rules]: "keeps steady (write_on k m)"
  by (simp add: keeps_def write_on_run steady_def pd_fixed_def)

lemma steady_send_message [steady_rules]: "keeps steady (send_message m)"
  unfolding send_message_def by (intro steady.keeps_intros steady_rules)

lemma steady_send [steady_rules]: "keeps steady (send_to bus src dest m)" "keeps steady (send_from_self bus dest m)"
  by (simp_all add: keeps_def send_from_self_def send_to_def run_reads Let_def steady_def pd_fixed_def)

lemma steady_connect [steady_rules]: "keeps steady start_connect_peer_listener_runtime"
proof -
  have "keeps steady ((case msg of
         Pong _ \<Rightarrow> bind (lift_res (err_into BridgeErr r)) (\<lambda>_. ret k)
       | _ \<Rightarrow> throw (PeerErr ''UnknownDataType'')) :: nat pd_action)" for msg r k
    by (cases msg) (auto intro: steady.keeps_intros)
  then show ?thesis
    unfolding start_connect_peer_listener_runtime_def
    by (intro steady.keeps_intros steady_rules) (simp_all add: steady_def pd_fixed_def)
qed

lemma steady_sum: "(\<And>e. keeps steady (f e)) \<Longrightarrow> (\<And>x. keeps steady (g x)) \<Longrightarrow> keeps steady (case z of Inl e \<Rightarrow> f e | Inr x \<Rightarrow> g x)"
  by (cases z) simp_all

lemma steady_field: "(\<And>s. pd_fixed (f s) = pd_fixed s \<and> unchecked_msg_cache (f s) = unchecked_msg_cache s \<and> wire (f s) = wire s)
    \<Longrightarrow> keeps steady (modify f)"
  by (rule keeps_modify) (simp add: steady_def)

lemma steady_await [steady_rules]: "keeps steady (await_receiver fuel)"
proof (induction fuel)
  case 0
  show ?case by (simp add: steady.keeps_lift_res)
next
  case (Suc fuel)
  show ?case unfolding await_receiver.simps
    by (intro steady.keeps_intros Suc.IH) (simp_all add: steady_def pd_fixed_def)
qed

lemma steady_connect_again [steady_rules]: "keeps steady (connect_again fuel)"
proof (induction fuel)
  case 0
  show ?case by (simp add: steady.keeps_lift_res)
next
  case (Suc fuel)
  show ?case unfolding connect_again.simps
    by (intro steady.keeps_bind keeps_reads keeps_attempt steady.keeps_lift_res steady_rules steady_sum Suc.IH steady_field)
      (simp_all add: pd_fixed_def)
qed

lemma steady_reconnect [steady_rules]: "keeps steady (reconnect_peer fuel)"
  unfolding reconnect_peer_def steps.simps
  by (intro steady.keeps_bind keeps_reads steady.keeps_for_each keeps_prod steady_rules)

lemma steady_reconnects [steady_rules]: "keeps steady (reconnect_until_done fuel n)"
proof (induction n)
  case 0
  show ?case by (simp add: steady.keeps_lift_res)
next
  case (Suc n)
  show ?case unfolding reconnect_until_done.simps
    by (intro steady.keeps_bind keeps_attempt steady_rules steady_sum Suc.IH steady.keeps_skip)
qed

section \<open>What a reconnection writes\<close>

text \<open>The two ways on from an attempt.\<close>

lemma attempt_OkE:
  assumes "bind (attempt m) f s = (Ok y, t)"
  obtains (returned) x u where "m s = (Ok x, u)" "f (Inr x) u = (Ok y, t)"
    | (failed) e u where "m s = (Err e, u)" "f (Inl e) u = (Ok y, t)"
  using assms by (auto simp: bind_def attempt_def split: result.splits prod.splits)

lemma bind_unitE:
  assumes "bind m f s = (Ok y, t)"
  obtains u where "m s = (Ok (), u)" and "f () u = (Ok y, t)"
  using assms by (cases rule: bind_OkE) simp

lemma steadyD:
  "keeps steady a \<Longrightarrow> a s = (r, t) \<Longrightarrow> pd_fixed t = pd_fixed s \<and> unchecked_msg_cache t = unchecked_msg_cache s"
  by (drule (1) keepsD) (simp add: steady_def)

lemma write_on_Ok:
  "write_on k m s = (Ok (), t) \<longleftrightarrow> writes (pd_world s) (write_attempts s) m
     \<and> t = s\<lparr>write_attempts := Suc (write_attempts s), wire := wire s @ [(k, m)]\<rparr>"
  by (auto simp: write_on_run)

lemma send_message_Ok:
  assumes "send_message m s = (Ok (), t)"
  obtains k where "peer_sender s = Some k" "t = s\<lparr>write_attempts := Suc (write_attempts s), wire := wire s @ [(k, m)]\<rparr>"
  using assms by (cases "peer_sender s") (auto simp: send_message_run write_on_Ok)

lemma send_all_Ok:
  assumes "for_each cache (\<lambda>(_, m). send_message m) s = (Ok (), t)" and "peer_sender s = Some k"
  shows "peer_sender t = Some k \<and> (\<forall>e \<in> set cache. (k, snd e) \<in> set (wire t)) \<and> steady s t"
  using assms
proof (induction cache arbitrary: s)
  case Nil
  then show ?case by (simp add: run_skip steady.frame_refl)
next
  case (Cons e cache)
  obtain u where u: "send_message (snd e) s = (Ok (), u)" and rest: "for_each cache (\<lambda>(_, m). send_message m) u = (Ok (), t)"
    using Cons.prems(1) by (cases e) (auto simp only: for_each.simps prod.case snd_conv elim!: bind_unitE)
  have sent: "u = s\<lparr>write_attempts := Suc (write_attempts s), wire := wire s @ [(k, snd e)]\<rparr>"
    using u Cons.prems(2) by (auto elim: send_message_Ok)
  have "peer_sender u = Some k" using sent Cons.prems(2) by simp
  from Cons.IH [OF rest this]
  have t: "peer_sender t = Some k" "\<forall>e \<in> set cache. (k, snd e) \<in> set (wire t)" "steady u t" by simp_all
  have "(k, snd e) \<in> set (wire t)" using t(3) sent by (auto simp: steady_def)
  moreover have "steady s t" using keepsD [OF steady_send_message u] t(3) by (rule steady.frame_trans)
  ultimately show ?case using t by simp
qed

lemma connect_again_Ok:
  "connect_again fuel s = (Ok (), t) \<Longrightarrow> \<exists>k. peer_sender t = Some k"
proof (induction fuel arbitrary: s)
  case 0
  then show ?case by (simp add: run_lift_res)
next
  case (Suc fuel)
  from Suc.prems obtain u where "bind (attempt start_connect_peer_listener_runtime) (\<lambda>r. case r of
       Inl _ \<Rightarrow> connect_again fuel | Inr k \<Rightarrow> modify (\<lambda>s. s\<lparr>peer_sender := Some k\<rparr>)) u = (Ok (), t)"
    by (simp only: connect_again.simps run_reads) (erule bind_OkE, blast)
  then show ?case by (cases rule: attempt_OkE) (auto simp: run_modify intro: Suc.IH)
qed

lemma send_from_self_wire: "send_from_self bus dest m s = (r, t) \<Longrightarrow> wire t = wire s \<and> peer_sender t = peer_sender s"
  by (auto simp: send_from_self_def run_reads send_to_def Let_def split: if_splits)

lemma reconnect_peer_Ok:
  assumes "reconnect_peer fuel s = (Ok (), t)"
  shows "\<exists>k. peer_sender t = Some k \<and> (\<forall>e \<in> set (unchecked_msg_cache s). (k, snd e) \<in> set (wire t))"
proof -
  obtain u v w where u: "await_receiver fuel s = (Ok (), u)" and v: "connect_again fuel u = (Ok (), v)"
    and w: "for_each (unchecked_msg_cache v) (\<lambda>(_, m). send_message m) v = (Ok (), w)"
    and t: "send_from_self CtlBus Farcasterd (Ctl Reconnected) w = (Ok (), t)"
    using assms by (auto simp only: reconnect_peer_def steps.simps run_reads elim!: bind_unitE)
  have "unchecked_msg_cache v = unchecked_msg_cache s"
    using steadyD [OF steady_await u] steadyD [OF steady_connect_again v] by simp
  moreover obtain k where k: "peer_sender v = Some k" using connect_again_Ok [OF v] by blast
  ultimately show ?thesis using send_all_Ok [OF w k] send_from_self_wire [OF t] by auto
qed

lemma reconnects_Ok:
  "reconnect_until_done fuel n s = (Ok (), t) \<Longrightarrow>
     \<exists>k. peer_sender t = Some k \<and> (\<forall>e \<in> set (unchecked_msg_cache s). (k, snd e) \<in> set (wire t))"
proof (induction n arbitrary: s)
  case 0
  then show ?case by (simp add: run_lift_res)
next
  case (Suc n)
  from Suc.prems [unfolded reconnect_until_done.simps] show ?case
  proof (cases rule: attempt_OkE)
    case (returned x u)
    then show ?thesis using reconnect_peer_Ok by (simp add: run_skip)
  next
    case (failed e u)
    then show ?thesis using Suc.IH [of u] steadyD [OF steady_reconnect failed(1)] by simp
  qed
qed

text \<open>A message that went out is on the current connection, with everything unconfirmed if it is new.\<close>

lemma send_until_done_Ok:
  "send_until_done fuel n m s = (Ok True, t) \<Longrightarrow> steady s t
     \<and> (\<exists>k. peer_sender t = Some k \<and> (k, m) \<in> set (wire t)
        \<and> (peer_sender t = peer_sender s \<or> (\<forall>e \<in> set (unchecked_msg_cache s). (k, snd e) \<in> set (wire t))))"
proof (induction n arbitrary: s)
  case 0
  then show ?case by (simp add: run_lift_res)
next
  case (Suc n)
  from Suc.prems [unfolded send_until_done.simps] show ?case
  proof (cases rule: attempt_OkE)
    case (returned x u)
    then have "t = u" by (simp add: run_ret)
    then show ?thesis
      using returned(1) keepsD [OF steady_send_message returned(1)] by (auto elim!: send_message_Ok)
  next
    case (failed e u)
    obtain v where v: "send_from_self CtlBus Farcasterd (Ctl Disconnected) u = (Ok (), v)"
      and rest: "(if forked_from_listener v
        then steps [return_unchecked, send_from_self CtlBus Farcasterd (Ctl PeerdTerminated)] (ret False)
        else steps [reconnect_until_done fuel fuel] (send_until_done fuel n m)) v = (Ok True, t)"
      using failed(2) by (auto simp only: steps.simps sum.case run_reads elim!: bind_unitE)
    have "\<not> forked_from_listener v"
      using rest by (auto simp: run_ret elim!: bind_OkE)
    with rest obtain w where w: "reconnect_until_done fuel fuel v = (Ok (), w)" and t: "send_until_done fuel n m w = (Ok True, t)"
      by (auto elim!: bind_OkE)
    have steady: "steady s w"
      using keepsD [OF steady_send_message failed(1)] keepsD [OF steady_send(2) v] keepsD [OF steady_reconnects w]
      by (blast intro: steady.frame_trans)
    have "unchecked_msg_cache w = unchecked_msg_cache v" and c: "unchecked_msg_cache v = unchecked_msg_cache s"
      using steadyD [OF steady_reconnects w] steadyD [OF steady_send_message failed(1)] steadyD [OF steady_send(2) v] by simp_all
    from reconnects_Ok [OF w] obtain k where k: "peer_sender w = Some k" "\<forall>e \<in> set (unchecked_msg_cache s). (k, snd e) \<in> set (wire w)"
      using c by auto
    from Suc.IH [OF t] have "steady w t" by simp
    then have grows: "set (wire w) \<subseteq> set (wire t)" and "steady s t"
      using steady by (auto simp: steady_def)
    moreover have "\<forall>e \<in> set (unchecked_msg_cache s). (k, snd e) \<in> set (wire t)" using k(2) grows by blast
    ultimately show ?thesis using Suc.IH [OF t] k(1) c \<open>unchecked_msg_cache w = unchecked_msg_cache v\<close> by auto
  qed
qed

end
