(* ===== verification/PeerdExamples.thy ===== *)
theory PeerdExamples
  imports Peerd
begin

text \<open>
  A taker's connection daemon whose third write fails, so that it reconnects, and a maker's: the
  inputs of the witnesses.
\<close>

definition sample_peer_world :: peer_world where
  "sample_peer_world = \<lparr>connects = (\<lambda>_. Ok ()), first_message = (\<lambda>_. Ok (Pong [])), opens_bridge = (\<lambda>_. Ok ()),
     writes = (\<lambda>n m. n \<noteq> 2), receiver_runs = (\<lambda>n. n = 0), random_size = (\<lambda>_. 4), random_noise = (\<lambda>_ n. replicate n 0)\<rparr>"

definition sample_taker :: peerd where
  "sample_taker = snd (on_ready (connecting_runtime 1 (NodeAddr [7] ''127.0.0.1:9735'') None [4] 0
     sample_peer_world (\<lambda>_ _. True)))"

definition sample_taker_1 :: peerd where
  "sample_taker_1 = snd (pd_handle 9 0 MsgBus (Swap 5) (P2p (DealNotFound 5)) sample_taker)"

definition sample_taker_2 :: peerd where
  "sample_taker_2 = snd (pd_handle 9 0 MsgBus (Swap 6) (P2p (DealNotFound 6)) sample_taker_1)"

definition sample_maker :: peerd where
  "sample_maker = \<lparr>identity = Peer 2 (NodeAddr [4] ''127.0.0.1:9735''), outbox = [], attempts = 0, link = (\<lambda>_ _. True),
     remote_node_addr = None, local_socket = Some ''127.0.0.1:9735'', local_node_id = [7], peer_sender = Some 0,
     forked_from_listener = True, pd_started = 0, messages_sent = 0, messages_received = 0, awaited_pong = None,
     unchecked_msg_cache = [], wire = [(0, Pong [0])], connections = 1, write_attempts = 0, probes = 0, randoms = 0,
     exited = False, pd_world = sample_peer_world\<rparr>"

definition sample_maker_1 :: peerd where
  "sample_maker_1 = snd (pd_handle 9 0 MsgBus (Swap 5) (P2p (DealNotFound 5)) sample_maker)"

definition sample_maker_2 :: peerd where
  "sample_maker_2 = snd (pd_handle 9 0 MsgBus (Swap 6) (P2p (DealNotFound 6)) sample_maker_1)"

lemma sample_taker_eq:
  "sample_taker = (connecting_runtime 1 (NodeAddr [7] ''127.0.0.1:9735'') None [4] 0 sample_peer_world (\<lambda>_ _. True))
     \<lparr>peer_sender := Some 0, wire := [(0, Identity [4])], connections := 1, write_attempts := 1,
      outbox := [Envelope CtlBus (Peer 1 (NodeAddr [7] ''127.0.0.1:9735'')) Farcasterd (Ctl ConnectSuccess)],
      attempts := 1\<rparr>"
  by (simp add: sample_taker_def on_ready_def connecting_runtime_def run_simps bind_def attempt_def write_on_def
      start_connect_peer_listener_runtime_def sample_peer_world_def send_from_self_def send_to_def)

lemma sample_taker_run: "on_ready (connecting_runtime 1 (NodeAddr [7] ''127.0.0.1:9735'') None [4] 0
     sample_peer_world (\<lambda>_ _. True)) = (Ok (), sample_taker)"
  by (simp add: sample_taker_def on_ready_def connecting_runtime_def run_simps bind_def attempt_def write_on_def
      start_connect_peer_listener_runtime_def sample_peer_world_def send_from_self_def send_to_def)

lemmas peerd_eval = pd_handle_def pd_handle_msg_def send_message_def cache_message_def forget_unchecked_def write_on_def
  run_simps bind_def attempt_def connecting_runtime_def sample_peer_world_def send_from_self_def send_to_def Let_def
  start_connect_peer_listener_runtime_def reconnect_peer_def eval_nat_numeral

lemma sample_taker_1_run:
  "pd_handle 9 0 MsgBus (Swap 5) (P2p (DealNotFound 5)) sample_taker = (Ok (), sample_taker_1)"
  "sample_taker_1 = sample_taker\<lparr>messages_sent := 1, write_attempts := 2, 
     wire := [(0, Identity [4]), (0, DealNotFound 5)],
     unchecked_msg_cache := [((5, 33703), DealNotFound 5)]\<rparr>"
  by (simp_all add: sample_taker_1_def sample_taker_eq peerd_eval)

lemma sample_taker_2_run:
  "pd_handle 9 0 MsgBus (Swap 6) (P2p (DealNotFound 6)) sample_taker_1 = (Ok (), sample_taker_2)"
  "unchecked_msg_cache sample_taker_2 = [((5, 33703), DealNotFound 5), ((6, 33703), DealNotFound 6)]"
  "peer_sender sample_taker_2 = Some 1"
  "wire sample_taker_2 = [(0, Identity [4]), (0, DealNotFound 5), (1, Identity [4]), (1, DealNotFound 5), (1, DealNotFound 6)]"
  by (simp_all add: sample_taker_2_def sample_taker_1_run(2) sample_taker_eq peerd_eval)

lemma sample_maker_run:
  "listening_runtime 2 (Ok (Identity [4])) (Ok ()) None (Some ''127.0.0.1:9735'') [7] 0 sample_peer_world (\<lambda>_ _. True) = Ok sample_maker"
  "on_ready sample_maker = (Ok (), sample_maker)"
  by (simp_all add: listening_runtime_def sample_maker_def sample_peer_world_def on_ready_def run_simps)

lemma sample_maker_1_run:
  "pd_handle 9 0 MsgBus (Swap 5) (P2p (DealNotFound 5)) sample_maker = (Ok (), sample_maker_1)"
  "sample_maker_1 = sample_maker\<lparr>messages_sent := 1, write_attempts := 1, wire := [(0, Pong [0]), (0, DealNotFound 5)],
     unchecked_msg_cache := [((5, 33703), DealNotFound 5)]\<rparr>"
  by (simp_all add: sample_maker_1_def sample_maker_def peerd_eval)

lemma sample_maker_2_run:
  "pd_handle 9 0 MsgBus (Swap 6) (P2p (DealNotFound 6)) sample_maker_1 = (Ok (), sample_maker_2)"
  "sample_maker_2 = sample_maker_1\<lparr>messages_sent := 2, write_attempts := 2,
     wire := [(0, Pong [0]), (0, DealNotFound 5), (0, DealNotFound 6)],
     unchecked_msg_cache := [((5, 33703), DealNotFound 5), ((6, 33703), DealNotFound 6)]\<rparr>"
  by (simp_all add: sample_maker_2_def sample_maker_1_run(2) sample_maker_def peerd_eval)

end
