(* ===== verification/PeerdCache.thy ===== *)
theory PeerdCache
  imports PeerdDelivery PeerdExamples
begin

text \<open>
  The cache of unconfirmed messages over the life of the connection daemon: whatever arrives, every
  entry is a message of its own swap that was written on the connection in use.
\<close>

section \<open>The invariant\<close>

fun entry_ok :: "(swap_id \<times> u16) \<times> peer_msg \<Rightarrow> bool" where
  "entry_ok ((i, ty), m) \<longleftrightarrow> is_protocol m \<and> peer_msg_swap_id m = (Ok i :: (error, swap_id) result) \<and> peer_msg_type m = ty"

definition cache_ok :: "unchecked_cache \<Rightarrow> bool" where
  "cache_ok cache \<longleftrightarrow> distinct (map fst cache) \<and> (\<forall>e \<in> set cache. entry_ok e)"

definition on_current_wire :: "peerd \<Rightarrow> bool" where
  "on_current_wire s \<longleftrightarrow> (\<forall>e \<in> set (unchecked_msg_cache s). \<exists>k. peer_sender s = Some k \<and> (k, snd e) \<in> set (wire s))"

definition unconfirmed_ok :: "peerd \<Rightarrow> bool" where
  "unconfirmed_ok s \<longleftrightarrow> cache_ok (unchecked_msg_cache s) \<and> on_current_wire s"

text \<open>What a handler that comes back does to it; a panic ends the process.\<close>

fun comes_back :: "('e, 'a) result \<Rightarrow> bool" where
  "comes_back (Ok _) = True"
| "comes_back (Err _) = True"
| "comes_back _ = False"

definition maintains :: "('s \<Rightarrow> bool) \<Rightarrow> ('s, 'e, 'a) action \<Rightarrow> bool" where
  "maintains P a \<longleftrightarrow> (\<forall>s r t. P s \<longrightarrow> a s = (r, t) \<longrightarrow> comes_back r \<longrightarrow> P t)"

named_theorems maintains_intros "introduction rules for what an action maintains"

lemma maintainsD: "maintains P a \<Longrightarrow> a s = (r, t) \<Longrightarrow> P s \<Longrightarrow> comes_back r \<Longrightarrow> P t"
  by (auto simp: maintains_def)

lemma maintains_ret [maintains_intros]: "maintains P (ret x)"
  by (simp add: maintains_def ret_def)

lemma maintains_skip [maintains_intros]: "maintains P skip"
  by (simp add: maintains_def run_skip)

lemma maintains_throw [maintains_intros]: "maintains P (throw e)"
  by (simp add: maintains_def run_throw)

lemma maintains_lift_res [maintains_intros]: "maintains P (lift_res r)"
  by (simp add: maintains_def run_lift_res)

lemma maintains_bind [maintains_intros]:
  assumes "maintains P m" and "\<And>x. maintains P (f x)"
  shows "maintains P (bind m f)"
  unfolding maintains_def
proof (intro allI impI)
  fix s r t
  assume s: "P s" and run: "bind m f s = (r, t)" and r: "comes_back r"
  obtain r' u where u: "m s = (r', u)" by (cases "m s")
  show "P t"
  proof (cases r')
    case (Ok x)
    then have "P u" using maintainsD [OF assms(1) u s] by simp
    moreover have "f x u = (r, t)" using run u Ok by (simp add: bind_def)
    ultimately show ?thesis using maintainsD [OF assms(2)] r by blast
  next
    case (Err e)
    then show ?thesis using maintainsD [OF assms(1) u s] u run by (simp add: bind_def)
  qed (use run r u in \<open>auto simp: bind_def\<close>)
qed

lemma maintains_reads [maintains_intros]: "(\<And>x. maintains P (f x)) \<Longrightarrow> maintains P (reads g f)"
  by (simp add: maintains_def run_reads)

lemma maintains_on [maintains_intros]: "(b \<Longrightarrow> maintains P m) \<Longrightarrow> maintains P (on b m)"
  by (simp add: on_def maintains_skip)

lemma maintains_if [maintains_intros]: "(b \<Longrightarrow> maintains P m) \<Longrightarrow> (\<not> b \<Longrightarrow> maintains P n) \<Longrightarrow> maintains P (if b then m else n)"
  by simp

lemma maintains_attempt [maintains_intros]: "maintains P m \<Longrightarrow> maintains P (attempt m)"
  by (fastforce simp: maintains_def attempt_def split: prod.splits result.splits)

lemma maintains_for_each [maintains_intros]: "(\<And>x. x \<in> set xs \<Longrightarrow> maintains P (f x)) \<Longrightarrow> maintains P (for_each xs f)"
  by (induction xs) (auto intro: maintains_intros)

lemma maintains_prod [maintains_intros]: "(\<And>a b. x = (a, b) \<Longrightarrow> maintains P (f a b)) \<Longrightarrow> maintains P (case x of (a, b) \<Rightarrow> f a b)"
  by (cases x) simp

section \<open>The operations\<close>

lemma unconfirmed_frame:
  assumes "unchecked_msg_cache t = unchecked_msg_cache s" and "peer_sender t = peer_sender s" and "\<exists>w. wire t = wire s @ w"
  shows "unconfirmed_ok s \<Longrightarrow> unconfirmed_ok t"
  using assms unfolding unconfirmed_ok_def on_current_wire_def by auto

lemma unconfirmed_none: "unchecked_msg_cache s = [] \<Longrightarrow> unconfirmed_ok s"
  by (simp add: unconfirmed_ok_def cache_ok_def on_current_wire_def)

lemma maintains_sends [maintains_intros]:
  "maintains unconfirmed_ok (send_to bus src dest m)" "maintains unconfirmed_ok (send_from_self bus dest m)"
  by (auto simp: maintains_def send_from_self_def run_reads send_to_def Let_def split: if_splits
      elim!: unconfirmed_frame [rotated -1])

lemma maintains_send_message [maintains_intros]: "maintains unconfirmed_ok (send_message m)"
  by (auto simp: maintains_def send_message_run write_on_run split: option.splits if_splits
      elim!: unconfirmed_frame [rotated -1])

lemma maintains_field:
  assumes "\<And>s. unchecked_msg_cache (f s) = unchecked_msg_cache s \<and> peer_sender (f s) = peer_sender s \<and> wire (f s) = wire s"
  shows "maintains unconfirmed_ok (modify f)"
  using assms by (auto simp: maintains_def run_modify elim!: unconfirmed_frame [rotated -1])

lemma maintains_next_random [maintains_intros]: "maintains unconfirmed_ok next_random"
  by (auto simp: maintains_def next_random_def run_stateful elim!: unconfirmed_frame [rotated -1])

lemma remove_unchecked_filter:
  "distinct (map fst cache) \<Longrightarrow> remove_unchecked key cache = filter (\<lambda>e. fst e \<noteq> key) cache"
proof (induction cache)
  case (Cons e cache)
  have "filter (\<lambda>x. fst x \<noteq> fst e) cache = cache"
    using Cons.prems by (intro filter_True ballI) (auto simp: rev_image_eqI)
  then show ?case using Cons by auto
qed simp

lemma cache_ok_remove: "cache_ok cache \<Longrightarrow> cache_ok (remove_unchecked key cache)"
  by (auto simp: cache_ok_def remove_unchecked_filter distinct_map_filter)

lemma set_remove_unchecked: "set (remove_unchecked key cache) \<subseteq> set cache"
  by (induction cache) auto

lemma maintains_forget [maintains_intros]: "maintains unconfirmed_ok (forget_unchecked key)"
  using set_remove_unchecked [of key]
  by (fastforce simp: maintains_def forget_unchecked_def run_modify unconfirmed_ok_def on_current_wire_def cache_ok_remove)

lemma drained_then:
  assumes "\<And>cache. maintains unconfirmed_ok (f cache)"
  shows "maintains unconfirmed_ok (bind (stateful (\<lambda>s. (unchecked_msg_cache s, s\<lparr>unchecked_msg_cache := []\<rparr>))) f)"
proof (unfold maintains_def, intro allI impI)
  fix s r t
  assume "bind (stateful (\<lambda>s. (unchecked_msg_cache s, s\<lparr>unchecked_msg_cache := []\<rparr>))) f s = (r, t)" and "comes_back r"
  then show "unconfirmed_ok t"
    using maintainsD [OF assms, of _ "s\<lparr>unchecked_msg_cache := []\<rparr>" r t]
    by (simp add: bind_def run_stateful unconfirmed_none)
qed

lemma maintains_returns [maintains_intros]:
  "maintains unconfirmed_ok return_unchecked" "maintains unconfirmed_ok return_unchecked_by_key"
  unfolding return_unchecked_def return_unchecked_by_key_def
  by (intro drained_then maintains_for_each maintains_prod maintains_bind maintains_lift_res maintains_sends;
      simp add: split_def maintains_sends)+

text \<open>A reconnection comes back only when everything unconfirmed is on the new connection.\<close>

lemma reconnects_never_fail: "reconnect_until_done fuel n s \<noteq> (Err e, t)"
proof (induction n arbitrary: s)
  case 0
  then show ?case by (simp add: run_lift_res)
next
  case (Suc n)
  then show ?case
    by (auto simp: bind_def attempt_def run_skip split: prod.splits result.splits sum.splits)
qed

lemma maintains_reconnects [maintains_intros]: "maintains unconfirmed_ok (reconnect_until_done fuel n)"
  unfolding maintains_def
proof (intro allI impI)
  fix s r t
  assume ok: "unconfirmed_ok s" and run: "reconnect_until_done fuel n s = (r, t)" and "comes_back r"
  then have "r = Ok ()" using reconnects_never_fail [of fuel n s] by (cases r) auto
  with run have "reconnect_until_done fuel n s = (Ok (), t)" by simp
  from reconnects_Ok [OF this] steadyD [OF steady_reconnects this] ok
  show "unconfirmed_ok t" by (auto simp: unconfirmed_ok_def on_current_wire_def)
qed

lemma maintains_until_sent [maintains_intros]: "maintains unconfirmed_ok (send_until_done fuel n m)"
proof (induction n)
  case 0
  show ?case by (simp add: maintains_lift_res)
next
  case (Suc n)
  have "maintains unconfirmed_ok (case r of Inr _ \<Rightarrow> ret True
     | Inl _ \<Rightarrow> steps [send_from_self CtlBus Farcasterd (Ctl Disconnected)]
         (reads forked_from_listener (\<lambda>forked.
           if forked
           then steps [return_unchecked, send_from_self CtlBus Farcasterd (Ctl PeerdTerminated)] (ret False)
           else steps [reconnect_until_done fuel fuel] (send_until_done fuel n m))))" for r :: "error + unit"
  proof (cases r)
    case (Inl e)
    then show ?thesis by (simp only: sum.case steps.simps) (intro maintains_intros Suc.IH)
  qed (simp add: maintains_ret)
  then show ?case unfolding send_until_done.simps by (intro maintains_bind maintains_attempt maintains_send_message)
qed

text \<open>Only a message that went out is cached.\<close>

lemma cache_message_run:
  assumes "is_protocol m"
  obtains i where "peer_msg_swap_id m = (Ok i :: (error, swap_id) result)"
    and "\<And>s. cache_message m s = (Ok (), s\<lparr>unchecked_msg_cache :=
      remove_unchecked (i, peer_msg_type m) (unchecked_msg_cache s) @ [((i, peer_msg_type m), m)]\<rparr>)"
proof -
  obtain i where i: "peer_msg_swap_id m = (Ok i :: (error, swap_id) result)"
    using is_protocol_swap_id [OF assms, where 'a = error] by (cases "peer_msg_swap_id m :: (error, swap_id) result") auto
  have "cache_message m s = (Ok (), s\<lparr>unchecked_msg_cache :=
      remove_unchecked (i, peer_msg_type m) (unchecked_msg_cache s) @ [((i, peer_msg_type m), m)]\<rparr>)" for s
    using assms i by (simp add: cache_message_def run_simps forget_unchecked_def bind_def)
  then show ?thesis using that i by blast
qed

lemma cached_ok:
  assumes "unconfirmed_ok s" and "peer_sender s = Some k" and "(k, m) \<in> set (wire s)"
    and "is_protocol m" and "peer_msg_swap_id m = (Ok i :: (error, swap_id) result)"
  shows "unconfirmed_ok (s\<lparr>unchecked_msg_cache :=
      remove_unchecked (i, peer_msg_type m) (unchecked_msg_cache s) @ [((i, peer_msg_type m), m)]\<rparr>)"
  using assms by (auto simp: unconfirmed_ok_def cache_ok_def on_current_wire_def remove_unchecked_filter distinct_map_filter)

lemma maintains_handle_msg [maintains_intros]: "maintains unconfirmed_ok (pd_handle_msg fuel m)"
  unfolding maintains_def
proof (intro allI impI)
  fix s r t
  assume ok: "unconfirmed_ok s" and run: "pd_handle_msg fuel m s = (r, t)" and r: "comes_back r"
  let ?s = "s\<lparr>messages_sent := messages_sent s + 1\<rparr>"
  have ok': "unconfirmed_ok ?s" using ok by (rule unconfirmed_frame [rotated -1]) simp_all
  obtain r' u where sent: "send_until_done fuel fuel m ?s = (r', u)" by (cases "send_until_done fuel fuel m ?s")
  have rest: "(case r' of Ok sent \<Rightarrow> on sent (cache_message m) u
      | Err e \<Rightarrow> (Err e, u) | Panic p \<Rightarrow> (Panic p, u) | Hang \<Rightarrow> (Hang, u)) = (r, t)"
    using run sent by (simp add: pd_handle_msg_def run_modify bind_def split: result.splits)
  have u: "unconfirmed_ok u" if "comes_back r'"
    using maintainsD [OF maintains_until_sent sent ok' that] .
  show "unconfirmed_ok t"
  proof (cases "r' = Ok True \<and> is_protocol m")
    case True
    obtain i where i: "peer_msg_swap_id m = (Ok i :: (error, swap_id) result)"
      and c: "\<And>s. cache_message m s = (Ok (), s\<lparr>unchecked_msg_cache :=
        remove_unchecked (i, peer_msg_type m) (unchecked_msg_cache s) @ [((i, peer_msg_type m), m)]\<rparr>)"
      using cache_message_run True by blast
    obtain k where "peer_sender u = Some k" "(k, m) \<in> set (wire u)"
      using send_until_done_Ok [of fuel fuel m ?s u] sent True by auto
    then show ?thesis using cached_ok [OF u, of k m i] rest True c i by (auto simp: run_on)
  next
    case False
    then have "t = u \<and> comes_back r'"
      using rest r by (cases r') (auto simp: run_on run_skip cache_message_def split: if_splits)
    then show ?thesis using u by simp
  qed
qed

lemma maintains_ctl: "maintains unconfirmed_ok (pd_handle_ctl source request)"
  unfolding pd_handle_ctl_def steps.simps by (intro maintains_intros maintains_field) simp

lemma maintains_info: "maintains unconfirmed_ok (pd_handle_info now source request)"
proof (cases "request = GetInfo")
  case True
  then show ?thesis by (simp add: pd_handle_info_def send_client_info_def) (intro maintains_intros)
next
  case False
  then show ?thesis by (cases request) (simp_all add: pd_handle_info_def maintains_skip)
qed

lemma maintains_bridge: "maintains unconfirmed_ok (handle_bridge fuel request)"
proof -
  have receipted: "maintains unconfirmed_ok (bind (lift_res (peer_msg_swap_id request)) (\<lambda>i. steps [
          send_from_self MsgBus (Swap i) (P2p request)]
          (send_message (MsgReceipt (Receipt i (peer_msg_type request))))))"
    "maintains unconfirmed_ok (bind (lift_res (peer_msg_swap_id request)) (\<lambda>i. steps [
          send_from_self MsgBus Farcasterd (P2p request)]
          (pd_handle_msg fuel (MsgReceipt (Receipt i (peer_msg_type request))))))"
    unfolding steps.simps by (intro maintains_intros)+
  have others: "maintains unconfirmed_ok ping" "\<And>n. maintains unconfirmed_ok (pong n)"
      "maintains unconfirmed_ok (receiver_shutdown fuel)"
    unfolding ping_def pong_def receiver_shutdown_def steps.simps
    by (intro maintains_intros maintains_field; simp)+
  show ?thesis
    unfolding handle_bridge_def steps.simps
    by (intro maintains_bind maintains_field)
      (use receipted others in \<open>cases request; simp add: maintains_forget maintains_field\<close>)+
qed

lemma maintains_pd_handle: "maintains unconfirmed_ok (pd_handle fuel now bus source request)"
  unfolding pd_handle_def
  by (cases bus; cases request)
    (simp_all add: maintains_throw maintains_handle_msg maintains_ctl maintains_info maintains_bridge)

section \<open>The life of the daemon\<close>

inductive pd_reachable :: "peerd \<Rightarrow> bool" where
  connected: "on_ready (connecting_runtime i addr socket me now w outcomes) = (Ok (), s) \<Longrightarrow> pd_reachable s"
| forked: "listening_runtime i received answered remote socket me now w outcomes = Ok s0 \<Longrightarrow>
     on_ready s0 = (Ok (), s) \<Longrightarrow> pd_reachable s"
| handled: "pd_reachable s \<Longrightarrow> \<not> exited s \<Longrightarrow> pd_handle fuel now bus source request s = (r, t) \<Longrightarrow> comes_back r
     \<Longrightarrow> pd_reachable t"

lemma on_ready_cache: "on_ready s = (r, t) \<Longrightarrow> unchecked_msg_cache t = unchecked_msg_cache s"
proof -
  have inner: "keeps (same unchecked_msg_cache) (case r of
         Inr k \<Rightarrow> steps [send_from_self CtlBus Farcasterd (Ctl ConnectSuccess)]
           (modify (\<lambda>t. t\<lparr>peer_sender := Some k\<rparr>))
       | Inl _ \<Rightarrow> send_from_self CtlBus Farcasterd (Ctl ConnectFailed))" for r :: "error + nat"
  proof -
    have sends: "keeps (same unchecked_msg_cache) (send_from_self bus dest m)" for bus dest m
      by (simp add: keeps_def send_from_self_def send_to_def run_reads Let_def same_def)
    show ?thesis
      by (cases r) (simp_all add: sends, intro same.keeps_bind sends keeps_modify, simp add: same_def)
  qed
  have start: "keeps (same unchecked_msg_cache) start_connect_peer_listener_runtime"
    unfolding keeps_def using steadyD [OF steady_connect] by (simp add: same_def prod_eq_iff)
  have "keeps (same unchecked_msg_cache) on_ready"
    unfolding on_ready_def
    by (intro keeps_reads keeps_if same.keeps_skip same.keeps_bind same.keeps_lift_res keeps_attempt start inner)
  then show "on_ready s = (r, t) \<Longrightarrow> unchecked_msg_cache t = unchecked_msg_cache s"
    by (drule_tac keepsD) (assumption, simp add: same_def)
qed

lemma reachable_unconfirmed_ok: "pd_reachable s \<Longrightarrow> unconfirmed_ok s"
proof (induction rule: pd_reachable.induct)
  case (connected i addr socket me now w outcomes s)
  then show ?case by (intro unconfirmed_none) (auto dest!: on_ready_cache simp: connecting_runtime_def)
next
  case (forked i received answered remote socket me now w outcomes s0 s)
  then have "unchecked_msg_cache s0 = []"
    by (auto simp: listening_runtime_def rbind_Ok_conv)
  then show ?case using on_ready_cache [OF forked(2)] by (intro unconfirmed_none) simp
next
  case (handled s fuel now bus source request r t)
  then show ?case using maintainsD [OF maintains_pd_handle] by blast
qed

text \<open>
  Property C27 (invariant): in every state the connection daemon can be in between two messages, each entry of its cache
  of unconfirmed messages is a protocol message of the swap and type it is filed under, no two entries
  share both, and every one of them has been written on the connection in use: none waits for a
  connection that is gone.
\<close>

theorem unconfirmed_are_on_the_current_connection:
  assumes "pd_reachable s"
  shows "distinct (map fst (unchecked_msg_cache s)) \<and>
    list_all (\<lambda>((i, ty), m). is_protocol m \<and> peer_msg_swap_id m = (Ok i :: (error, swap_id) result) \<and> peer_msg_type m = ty
      \<and> (\<exists>k. peer_sender s = Some k \<and> (k, m) \<in> set (wire s))) (unchecked_msg_cache s)"
  using reachable_unconfirmed_ok [OF assms]
  by (force simp: unconfirmed_ok_def cache_ok_def on_current_wire_def list_all_iff)

lemma sample_taker_2_reachable: "pd_reachable sample_taker_2"
proof -
  have 1: "pd_reachable sample_taker" using sample_taker_run by (rule pd_reachable.connected)
  have "\<not> exited sample_taker" by (simp add: sample_taker_eq connecting_runtime_def)
  then have 2: "pd_reachable sample_taker_1" using 1 sample_taker_1_run(1) by (rule_tac pd_reachable.handled) auto
  have "\<not> exited sample_taker_1" by (simp add: sample_taker_1_run(2) sample_taker_eq connecting_runtime_def)
  then show ?thesis using 2 sample_taker_2_run(1) by (rule_tac pd_reachable.handled) auto
qed

theorem unconfirmed_are_on_the_current_connection_witness:
  "pd_reachable sample_taker_2 \<and> length (unchecked_msg_cache sample_taker_2) = 2
   \<and> distinct (map fst (unchecked_msg_cache sample_taker_2))
   \<and> list_all (\<lambda>((i, ty), m). is_protocol m \<and> peer_msg_swap_id m = (Ok i :: (error, swap_id) result) \<and> peer_msg_type m = ty
      \<and> (\<exists>k. peer_sender sample_taker_2 = Some k \<and> (k, m) \<in> set (wire sample_taker_2))) (unchecked_msg_cache sample_taker_2)"
  using unconfirmed_are_on_the_current_connection [OF sample_taker_2_reachable] sample_taker_2_reachable
  by (simp only: sample_taker_2_run(2)) simp

section \<open>One message of a swap\<close>

lemma send_until_done_False: "send_until_done fuel n m s = (Ok False, t) \<Longrightarrow> forked_from_listener s"
proof (induction n arbitrary: s)
  case 0
  then show ?case by (simp add: run_lift_res)
next
  case (Suc n)
  from Suc.prems [unfolded send_until_done.simps] show ?case
  proof (cases rule: attempt_OkE)
    case (returned x u)
    then show ?thesis by (simp add: run_ret)
  next
    case (failed e u)
    obtain v where v: "send_from_self CtlBus Farcasterd (Ctl Disconnected) u = (Ok (), v)"
      and rest: "(if forked_from_listener v
        then steps [return_unchecked, send_from_self CtlBus Farcasterd (Ctl PeerdTerminated)] (ret False)
        else steps [reconnect_until_done fuel fuel] (send_until_done fuel n m)) v = (Ok False, t)"
      using failed(2) by (auto simp only: steps.simps sum.case run_reads elim!: bind_unitE)
    have same: "forked_from_listener v = forked_from_listener s"
      using steadyD [OF steady_send_message failed(1)] steadyD [OF steady_send(2) v] by (simp add: pd_fixed_def)
    show ?thesis
    proof (cases "forked_from_listener v")
      case False
      with rest obtain w where w: "reconnect_until_done fuel fuel v = (Ok (), w)" and t: "send_until_done fuel n m w = (Ok False, t)"
        by (auto simp only: steps.simps if_False elim!: bind_unitE)
      show ?thesis using Suc.IH [OF t] steadyD [OF steady_reconnects w] same by (simp add: pd_fixed_def)
    qed (use same in simp)
  qed
qed

text \<open>
  Property C28 (safety): when the taker's daemon has handled a message of the protocol, the message is on the connection
  in use and is kept until it is confirmed; it replaces only an unconfirmed message of the same swap
  and type, and if the connection had to be renewed, whatever was unconfirmed was written on it again.
\<close>

theorem handled_message_is_delivered_or_kept:
  assumes "pd_handle_msg fuel m s = (Ok (), t)" and "\<not> forked_from_listener s" and "is_protocol m"
    and "peer_msg_swap_id m = (Ok i :: (error, swap_id) result)" and "distinct (map fst (unchecked_msg_cache s))"
  shows "unchecked_msg_cache t
      = filter (\<lambda>e. fst e \<noteq> (i, peer_msg_type m)) (unchecked_msg_cache s) @ [((i, peer_msg_type m), m)]
    \<and> (\<exists>k. peer_sender t = Some k \<and> (k, m) \<in> set (wire t)
        \<and> (peer_sender s = Some k \<or> list_all (\<lambda>e. (k, snd e) \<in> set (wire t)) (unchecked_msg_cache s)))"
proof -
  let ?s = "s\<lparr>messages_sent := messages_sent s + 1\<rparr>"
  obtain sent u where u: "send_until_done fuel fuel m ?s = (Ok sent, u)" and t: "on sent (cache_message m) u = (Ok (), t)"
    using assms(1) by (auto simp: pd_handle_msg_def run_simps elim!: bind_OkE)
  have sent: "sent" using send_until_done_False [of fuel fuel m ?s u] u assms(2) by (cases sent) auto
  obtain j where j: "peer_msg_swap_id m = (Ok j :: (error, swap_id) result)"
    and c: "\<And>s. cache_message m s = (Ok (), s\<lparr>unchecked_msg_cache :=
      remove_unchecked (j, peer_msg_type m) (unchecked_msg_cache s) @ [((j, peer_msg_type m), m)]\<rparr>)"
    using cache_message_run [OF assms(3)] by blast
  have t': "t = u\<lparr>unchecked_msg_cache :=
      remove_unchecked (i, peer_msg_type m) (unchecked_msg_cache u) @ [((i, peer_msg_type m), m)]\<rparr>"
    using t sent c j assms(4) by (simp add: run_on)
  obtain k where "unchecked_msg_cache u = unchecked_msg_cache s" "peer_sender u = Some k" "(k, m) \<in> set (wire u)"
    "peer_sender s = Some k \<or> (\<forall>e \<in> set (unchecked_msg_cache s). (k, snd e) \<in> set (wire u))"
    using send_until_done_Ok [of fuel fuel m ?s u] u sent by (auto simp: steady_def)
  then show ?thesis using t' assms(5) by (simp add: remove_unchecked_filter list_all_iff)
qed

theorem handled_message_is_delivered_or_kept_witness:
  "pd_handle_msg 9 (DealNotFound 6) sample_taker_1 = (Ok (), sample_taker_2)
   \<and> unchecked_msg_cache sample_taker_2
      = filter (\<lambda>e. fst e \<noteq> (6, 33703)) (unchecked_msg_cache sample_taker_1) @ [((6, 33703), DealNotFound 6)]
   \<and> (\<exists>k. peer_sender sample_taker_2 = Some k \<and> (k, DealNotFound 6) \<in> set (wire sample_taker_2)
        \<and> (peer_sender sample_taker_1 = Some k
           \<or> list_all (\<lambda>e. (k, snd e) \<in> set (wire sample_taker_2)) (unchecked_msg_cache sample_taker_1)))"
proof -
  have run: "pd_handle_msg 9 (DealNotFound 6) sample_taker_1 = (Ok (), sample_taker_2)"
    using sample_taker_2_run(1) by (simp add: pd_handle_def)
  moreover have "\<not> forked_from_listener sample_taker_1 \<and> distinct (map fst (unchecked_msg_cache sample_taker_1))"
    by (simp add: sample_taker_1_run(2) sample_taker_eq connecting_runtime_def)
  ultimately show ?thesis
    using handled_message_is_delivered_or_kept [OF run, of 6] by simp
qed

end
