(* ===== verification/PeerdReturns.thy ===== *)
theory PeerdReturns
  imports PeerdCache
begin

text \<open>
  What the connection daemon gives back: the maker's when its connection breaks, the receipts that
  confirm a message, and the taker's loops, which end once the network is back.
\<close>

section \<open>A broken connection of the maker\<close>

abbreviation failed_message :: "service_id \<Rightarrow> (swap_id \<times> u16) \<times> peer_msg \<Rightarrow> envelope" where
  "failed_message me e \<equiv> Envelope CtlBus me (Swap (fst (fst e))) (Ctl (FailedPeerMessage (snd e)))"

lemma send_from_self_reliable:
  "reliable s \<Longrightarrow> send_from_self bus dest m s
     = (Ok (), s\<lparr>outbox := outbox s @ [Envelope bus (identity s) dest m], attempts := Suc (attempts s)\<rparr>)"
  by (simp add: send_from_self_def run_reads send_to_reliable)

lemma return_all_run:
  assumes "reliable s" and "\<forall>e \<in> set cache. entry_ok e"
  shows "for_each cache (\<lambda>(_, m). bind (lift_res (peer_msg_swap_id m)) (\<lambda>i.
       send_from_self CtlBus (Swap i) (Ctl (FailedPeerMessage m)))) s
     = (Ok (), s\<lparr>outbox := outbox s @ map (failed_message (identity s)) cache, attempts := attempts s + length cache\<rparr>)"
  using assms
proof (induction cache arbitrary: s)
  case Nil
  then show ?case by (simp add: run_skip)
next
  case (Cons e cache)
  obtain i ty m where e: "e = ((i, ty), m)" by (metis surj_pair)
  show ?case
    using Cons e by (simp add: bind_def run_lift_res send_from_self_reliable)
qed

text \<open>
  Property C29 (error): when a write of the maker's daemon fails, it reports the loss of the connection, gives every
  unconfirmed message back to its swap and ends: nothing stays cached and nothing more is written. The
  message whose write failed is not among those given back: it was not in the cache yet.
\<close>

theorem maker_gives_back_the_unconfirmed:
  assumes "pd_reachable s" and "reliable s" and "forked_from_listener s" and "peer_sender s = Some k"
    and "\<not> writes (pd_world s) (write_attempts s) m"
  shows "\<exists>t. pd_handle_msg (Suc fuel) m s = (Ok (), t) \<and> unchecked_msg_cache t = [] \<and> wire t = wire s
    \<and> outbox t = outbox s @ [Envelope CtlBus (identity s) Farcasterd (Ctl Disconnected)]
        @ map (\<lambda>((i, _), c). Envelope CtlBus (identity s) (Swap i) (Ctl (FailedPeerMessage c))) (unchecked_msg_cache s)
        @ [Envelope CtlBus (identity s) Farcasterd (Ctl PeerdTerminated)]"
proof -
  have ok: "\<forall>e \<in> set (unchecked_msg_cache s). entry_ok e"
    using reachable_unconfirmed_ok [OF assms(1)] by (simp add: unconfirmed_ok_def cache_ok_def)
  let ?u = "s\<lparr>messages_sent := messages_sent s + 1, write_attempts := Suc (write_attempts s),
    outbox := outbox s @ [Envelope CtlBus (identity s) Farcasterd (Ctl Disconnected)], attempts := Suc (attempts s)\<rparr>"
  have "reliable (?u\<lparr>unchecked_msg_cache := []\<rparr>)" using assms(2) by (simp add: reliable_def)
  from return_all_run [OF this ok]
  have drained: "return_unchecked ?u = (Ok (), ?u\<lparr>unchecked_msg_cache := [],
      outbox := outbox ?u @ map (failed_message (identity s)) (unchecked_msg_cache s),
      attempts := attempts ?u + length (unchecked_msg_cache s)\<rparr>)"
    by (simp add: return_unchecked_def run_simps bind_def)
  have f: "(\<lambda>((i, _), c). Envelope CtlBus (identity s) (Swap i) (Ctl (FailedPeerMessage c))) = failed_message (identity s)"
    by (auto simp: fun_eq_iff)
  have "reliable s'" if "link s' = link s" for s' :: peerd using that assms(2) by (simp add: reliable_def)
  then show ?thesis
    using assms(3-5) drained unfolding f
    by (simp add: pd_handle_msg_def run_simps bind_def attempt_def send_message_run write_on_run send_from_self_reliable)
qed

theorem maker_gives_back_the_unconfirmed_witness:
  "let s = sample_maker_2 in pd_reachable s \<and> \<not> writes (pd_world s) (write_attempts s) (DealNotFound 7)
   \<and> (\<exists>t. pd_handle_msg (Suc 8) (DealNotFound 7) s = (Ok (), t) \<and> unchecked_msg_cache t = [] \<and> wire t = wire s
    \<and> outbox t = outbox s @ [Envelope CtlBus (identity s) Farcasterd (Ctl Disconnected)]
        @ [Envelope CtlBus (identity s) (Swap 5) (Ctl (FailedPeerMessage (DealNotFound 5))),
           Envelope CtlBus (identity s) (Swap 6) (Ctl (FailedPeerMessage (DealNotFound 6)))]
        @ [Envelope CtlBus (identity s) Farcasterd (Ctl PeerdTerminated)])"
proof -
  have 1: "pd_reachable sample_maker" using sample_maker_run by (rule pd_reachable.forked)
  have 2: "pd_reachable sample_maker_1"
    using 1 _ sample_maker_1_run(1) by (rule pd_reachable.handled) (simp_all add: sample_maker_def)
  have 3: "pd_reachable sample_maker_2"
    using 2 _ sample_maker_2_run(1) by (rule pd_reachable.handled) (simp_all add: sample_maker_1_run sample_maker_def)
  have "reliable sample_maker_2" "forked_from_listener sample_maker_2" "peer_sender sample_maker_2 = Some 0"
      "\<not> writes (pd_world sample_maker_2) (write_attempts sample_maker_2) (DealNotFound 7)"
    by (simp_all add: sample_maker_2_run sample_maker_1_run sample_maker_def reliable_def sample_peer_world_def)
  then show ?thesis
    using maker_gives_back_the_unconfirmed [OF 3, of 0 "DealNotFound 7" 8] 3
    by (simp add: Let_def sample_maker_2_run(2))
qed

section \<open>Receipts\<close>

text \<open>
  Property C30 (roundtrip): a message of the protocol and its receipt make a round trip. What the
  sender's daemon writes last is the message; read by the receiver thread of the other side it is the
  last on the bridge; handled there it goes to its swap, or to farcasterd when it is a taker's
  commitment, and what is written last then is its receipt; read by the sender's receiver thread the
  receipt is the last on the bridge; and handled by the sender's daemon, in whatever state that is by
  then, it takes exactly the messages of that swap and kind out of the cache and does nothing else.
  The two writes and the two bridges are taken to work; where they do not, nothing is confirmed.
\<close>

theorem receipt_confirms_the_message:
  assumes "is_protocol m" and "peer_msg_swap_id m = (Ok i :: (error, swap_id) result)"
    and "peer_sender a = Some k" and "writes (pd_world a) (write_attempts a) m"
    and "bridge_up there (bridge_attempts there) m"
    and "reliable b" and "peer_sender b = Some l"
    and "writes (pd_world b) (write_attempts b) (MsgReceipt (Receipt i (peer_msg_type m)))"
    and "bridge_up here (bridge_attempts here) (MsgReceipt (Receipt i (peer_msg_type m)))"
    and "pd_reachable a2"
  shows "\<exists>a1 there1 b1 here1 a3.
      pd_handle (Suc fuel) now MsgBus source (P2p m) a = (Ok (), a1)
    \<and> last (unchecked_msg_cache a1) = ((i, peer_msg_type m), m)
    \<and> receiver_handle (snd (last (wire a1))) there = (Ok (), there1)
    \<and> pd_handle (Suc fuel) now BridgeBus bridge (P2p (last (bridged there1))) b = (Ok (), b1)
    \<and> outbox b1 = outbox b @ [Envelope MsgBus (identity b)
         (case m of TakerCommitMsg _ \<Rightarrow> Farcasterd | _ \<Rightarrow> Swap i) (P2p m)]
    \<and> receiver_handle (snd (last (wire b1))) here = (Ok (), here1)
    \<and> pd_handle (Suc fuel) now BridgeBus bridge (P2p (last (bridged here1))) a2 = (Ok (), a3)
    \<and> unchecked_msg_cache a3 = filter (\<lambda>e. fst e \<noteq> (i, peer_msg_type m)) (unchecked_msg_cache a2)
    \<and> outbox a3 = outbox a2 \<and> wire a3 = wire a2"
proof -
  let ?receipt = "MsgReceipt (Receipt i (peer_msg_type m))"
  obtain a1 where a1: "pd_handle (Suc fuel) now MsgBus source (P2p m) a = (Ok (), a1)" "last (wire a1) = (k, m)"
      "last (unchecked_msg_cache a1) = ((i, peer_msg_type m), m)"
    using assms(1-4)
    by (simp add: pd_handle_def pd_handle_msg_def cache_message_def forget_unchecked_def send_message_run write_on_run
        attempt_def run_simps bind_def)
  obtain there1 where there1: "receiver_handle m there = (Ok (), there1)" "last (bridged there1) = m"
    using assms(1,5) is_protocol_swap_id [OF assms(1)]
    by (cases "is_pong m") (auto simp: receiver_handle_def send_over_bridge_def run_simps bind_def)
  have "reliable s'" if "link s' = link b" for s' :: peerd using that assms(6) by (simp add: reliable_def)
  note reliable = this
  have "\<exists>b1. handle_bridge (Suc fuel) m b = (Ok (), b1) \<and> last (wire b1) = (l, ?receipt)
      \<and> outbox b1 = outbox b @ [Envelope MsgBus (identity b) (case m of TakerCommitMsg _ \<Rightarrow> Farcasterd | _ \<Rightarrow> Swap i) (P2p m)]"
  proof (cases "\<exists>c. m = TakerCommitMsg c")
    case True
    then obtain c where c: "m = TakerCommitMsg c" by blast
    have "handle_bridge (Suc fuel) m = steps [modify (\<lambda>s. s\<lparr>messages_received := messages_received s + 1\<rparr>)]
      (bind (lift_res (peer_msg_swap_id m)) (\<lambda>i. steps [send_from_self MsgBus Farcasterd (P2p m)]
          (pd_handle_msg (Suc fuel) (MsgReceipt (Receipt i (peer_msg_type m))))))"
      by (simp add: handle_bridge_def c)
    moreover have "pd_handle_msg (Suc fuel) ?receipt s = (Ok (), s\<lparr>messages_sent := messages_sent s + 1,
        write_attempts := Suc (write_attempts s), wire := wire s @ [(l, ?receipt)]\<rparr>)"
      if "peer_sender s = Some l" "writes (pd_world s) (write_attempts s) ?receipt" for s
      using that by (simp add: pd_handle_msg_def cache_message_def run_simps bind_def attempt_def send_message_run write_on_run)
    ultimately show ?thesis
      using assms(2,7,8) reliable c by (simp add: run_simps bind_def send_from_self_reliable)
  next
    case False
    then have "handle_bridge (Suc fuel) m = steps [modify (\<lambda>s. s\<lparr>messages_received := messages_received s + 1\<rparr>)]
      (bind (lift_res (peer_msg_swap_id m)) (\<lambda>i. steps [send_from_self MsgBus (Swap i) (P2p m)]
          (send_message (MsgReceipt (Receipt i (peer_msg_type m))))))"
      using assms(1) by (cases m) (simp_all add: handle_bridge_def)
    moreover have "(case m of TakerCommitMsg _ \<Rightarrow> Farcasterd | _ \<Rightarrow> Swap i) = Swap i"
      using False by (auto split: peer_msg.split)
    ultimately show ?thesis
      using assms(2,7,8) reliable by (simp add: run_simps bind_def send_from_self_reliable send_message_run write_on_run)
  qed
  then obtain b1 where b1: "handle_bridge (Suc fuel) m b = (Ok (), b1)" "last (wire b1) = (l, ?receipt)"
      "outbox b1 = outbox b @ [Envelope MsgBus (identity b) (case m of TakerCommitMsg _ \<Rightarrow> Farcasterd | _ \<Rightarrow> Swap i) (P2p m)]"
    by blast
  obtain here1 where here1: "receiver_handle ?receipt here = (Ok (), here1)" "last (bridged here1) = ?receipt"
    using assms(9) by (auto simp: receiver_handle_def send_over_bridge_def run_simps bind_def)
  have "distinct (map fst (unchecked_msg_cache a2))"
    using reachable_unconfirmed_ok [OF assms(10)] by (simp add: unconfirmed_ok_def cache_ok_def)
  then have "\<exists>a3. handle_bridge (Suc fuel) ?receipt a2 = (Ok (), a3)
      \<and> unchecked_msg_cache a3 = filter (\<lambda>e. fst e \<noteq> (i, peer_msg_type m)) (unchecked_msg_cache a2)
      \<and> outbox a3 = outbox a2 \<and> wire a3 = wire a2"
    by (simp add: handle_bridge_def run_simps bind_def forget_unchecked_def remove_unchecked_filter)
  then obtain a3 where "handle_bridge (Suc fuel) ?receipt a2 = (Ok (), a3)"
      "unchecked_msg_cache a3 = filter (\<lambda>e. fst e \<noteq> (i, peer_msg_type m)) (unchecked_msg_cache a2)"
      "outbox a3 = outbox a2" "wire a3 = wire a2"
    by blast
  then show ?thesis
    using a1 there1 b1 here1
    by (intro exI [of _ a1] exI [of _ there1] exI [of _ b1] exI [of _ here1] exI [of _ a3]) (simp add: pd_handle_def)
qed

text \<open>A taker's daemon sends to a maker's; the receipt comes back at once.\<close>

theorem receipt_confirms_the_message_witness:
  "let q = \<lparr>awaiting_pong = False, bridged = [], bridge_up = (\<lambda>_ _. True), bridge_attempts = 0\<rparr>; m = DealNotFound 5
   in \<exists>there b here a3. receiver_handle (snd (last (wire sample_taker_1))) q = (Ok (), there)
    \<and> pd_handle 9 0 BridgeBus Loopback (P2p (last (bridged there))) sample_maker = (Ok (), b)
    \<and> outbox b = [Envelope MsgBus (Peer 2 (NodeAddr [4] ''127.0.0.1:9735'')) (Swap 5) (P2p m)]
    \<and> receiver_handle (snd (last (wire b))) q = (Ok (), here)
    \<and> pd_handle 9 0 BridgeBus Loopback (P2p (last (bridged here))) sample_taker_1 = (Ok (), a3)
    \<and> unchecked_msg_cache sample_taker_1 = [((5, 33703), m)] \<and> unchecked_msg_cache a3 = []"
proof -
  let ?q = "\<lparr>awaiting_pong = False, bridged = [], bridge_up = (\<lambda>_ _. True), bridge_attempts = 0\<rparr>"
  have 1: "pd_reachable sample_taker" using sample_taker_run by (rule pd_reachable.connected)
  have "\<not> exited sample_taker" by (simp add: sample_taker_eq connecting_runtime_def)
  then have 2: "pd_reachable sample_taker_1" using 1 sample_taker_1_run(1) by (rule_tac pd_reachable.handled) auto
  have world: "writes (pd_world sample_taker) (write_attempts sample_taker) (DealNotFound 5)" "peer_sender sample_taker = Some 0"
      "reliable sample_maker" "peer_sender sample_maker = Some 0" "outbox sample_maker = []"
      "writes (pd_world sample_maker) (write_attempts sample_maker) (MsgReceipt (Receipt 5 (peer_msg_type (DealNotFound 5))))"
      "identity sample_maker = Peer 2 (NodeAddr [4] ''127.0.0.1:9735'')"
    by (simp_all add: sample_taker_eq connecting_runtime_def sample_maker_def reliable_def sample_peer_world_def)
  have protocol: "is_protocol (DealNotFound 5)" "peer_msg_swap_id (DealNotFound 5) = (Ok 5 :: (error, swap_id) result)"
      "bridge_up ?q (bridge_attempts ?q) m" "Suc 8 = 9" "peer_msg_type (DealNotFound 5) = 33703" for m
    by simp_all
  from receipt_confirms_the_message [where there = ?q and here = ?q and fuel = 8 and now = 0 and source = "Swap 5"
      and bridge = Loopback, OF protocol(1,2) world(2,1) protocol(3) world(3,4,6) protocol(3) 2, unfolded protocol(4,5)]
  obtain a1 there1 b1 here1 a3 where "pd_handle 9 0 MsgBus (Swap 5) (P2p (DealNotFound 5)) sample_taker = (Ok (), a1)"
    and there: "receiver_handle (snd (last (wire a1))) ?q = (Ok (), there1)"
    and b: "pd_handle 9 0 BridgeBus Loopback (P2p (last (bridged there1))) sample_maker = (Ok (), b1)"
    and sent: "outbox b1 = outbox sample_maker @ [Envelope MsgBus (identity sample_maker)
         (case DealNotFound 5 of TakerCommitMsg _ \<Rightarrow> Farcasterd | _ \<Rightarrow> Swap 5) (P2p (DealNotFound 5))]"
    and here: "receiver_handle (snd (last (wire b1))) ?q = (Ok (), here1)"
    and a3: "pd_handle 9 0 BridgeBus Loopback (P2p (last (bridged here1))) sample_taker_1 = (Ok (), a3)"
    and cache: "unchecked_msg_cache a3 = filter (\<lambda>e. fst e \<noteq> (5, 33703)) (unchecked_msg_cache sample_taker_1)"
    by blast
  then have a1: "a1 = sample_taker_1" using sample_taker_1_run(1) by simp
  have before: "unchecked_msg_cache sample_taker_1 = [((5, 33703), DealNotFound 5)]"
    by (simp add: sample_taker_1_run(2))
  have sent: "outbox b1 = [Envelope MsgBus (Peer 2 (NodeAddr [4] ''127.0.0.1:9735'')) (Swap 5) (P2p (DealNotFound 5))]"
    using sent world(5,7) by simp
  have after: "unchecked_msg_cache a3 = []" using cache before by simp
  show ?thesis
    unfolding Let_def using there [unfolded a1] b sent here a3 before after by blast
qed

end
