(* ===== verification/PeerdLiveness.thy ===== *)
theory PeerdLiveness
  imports PeerdReturns
begin

text \<open>
  The loops of the taker's connection daemon have no bound in the code. They end: every round that
  fails uses up one of the attempts at which the network is still down.
\<close>

section \<open>A network that comes back\<close>

text \<open>
  From the \<open>N\<close>-th attempt on, connections and writes succeed and the peer answers with a pong; before
  that they may fail, but the calls return; and the receiver thread of a broken connection is gone
  within \<open>B\<close> probes.
\<close>

definition network_returns :: "nat \<Rightarrow> nat \<Rightarrow> peer_world \<Rightarrow> bool" where
  "network_returns N B w \<longleftrightarrow>
     (\<forall>k. comes_back (connects w k) \<and> comes_back (first_message w k) \<and> comes_back (opens_bridge w k))
     \<and> (\<forall>k \<ge> N. connects w k = Ok () \<and> (\<exists>noise. first_message w k = Ok (Pong noise)) \<and> opens_bridge w k = Ok ()
          \<and> (\<forall>m. writes w k m))
     \<and> (\<forall>p. \<exists>q < B. \<not> receiver_runs w (p + q))"

definition can_recover :: "nat \<Rightarrow> nat \<Rightarrow> peerd \<Rightarrow> bool" where
  "can_recover N B s \<longleftrightarrow> network_returns N B (pd_world s) \<and> reliable s \<and> \<not> forked_from_listener s
     \<and> remote_node_addr s \<noteq> None"

lemma can_recover_steady: "steady s t \<Longrightarrow> can_recover N B s \<Longrightarrow> can_recover N B t"
  by (simp add: steady_def pd_fixed_def can_recover_def reliable_def)

text \<open>The attempts that can still fail.\<close>

definition bad_luck :: "nat \<Rightarrow> peerd \<Rightarrow> nat" where
  "bad_luck N s = (N - connections s) + (N - write_attempts s)"

text \<open>An action that returns, and fails only at the expense of such an attempt.\<close>

definition spends :: "nat \<Rightarrow> ('a \<Rightarrow> peerd \<Rightarrow> bool) \<Rightarrow> 'a pd_action \<Rightarrow> peerd \<Rightarrow> bool" where
  "spends N Q a s \<longleftrightarrow> (case a s of
       (Ok x, t) \<Rightarrow> bad_luck N t \<le> bad_luck N s \<and> Q x t
     | (Err e, t) \<Rightarrow> bad_luck N t < bad_luck N s
     | _ \<Rightarrow> False)"

lemma spendsE:
  assumes "spends N Q a s"
  obtains (returns) x t where "a s = (Ok x, t)" "bad_luck N t \<le> bad_luck N s" "Q x t"
    | (fails) e t where "a s = (Err e, t)" "bad_luck N t < bad_luck N s"
  using assms by (auto simp: spends_def split: prod.splits result.splits)

section \<open>The operations\<close>

lemma bad_luck_simps [simp]:
  "bad_luck N (s\<lparr>wire := ws\<rparr>) = bad_luck N s" "bad_luck N (s\<lparr>peer_sender := p\<rparr>) = bad_luck N s"
  "bad_luck N (s\<lparr>probes := n\<rparr>) = bad_luck N s" "bad_luck N (s\<lparr>outbox := out, attempts := n\<rparr>) = bad_luck N s"
  "bad_luck N (s\<lparr>messages_sent := c\<rparr>) = bad_luck N s"
  by (simp_all add: bad_luck_def)

lemma write_spends:
  assumes "can_recover N B s"
  shows "spends N (\<lambda>_ t. peer_sender t = peer_sender s) (write_on k m) s"
proof (cases "writes (pd_world s) (write_attempts s) m")
  case True
  then show ?thesis by (simp add: spends_def write_on_run bad_luck_def)
next
  case False
  then have "write_attempts s < N"
    using assms by (auto simp: can_recover_def network_returns_def) (meson not_le)
  then show ?thesis using False by (simp add: spends_def write_on_run bad_luck_def)
qed

lemma send_spends:
  assumes "can_recover N B s" and "peer_sender s = Some k"
  shows "spends N (\<lambda>_ t. peer_sender t = Some k) (send_message m) s"
  using write_spends [OF assms(1), of k m] assms(2) by (simp add: spends_def send_message_run)

lemma resend_spends:
  assumes "can_recover N B s" and "peer_sender s = Some k"
  shows "spends N (\<lambda>_ t. peer_sender t = Some k) (for_each cache (\<lambda>(_, m). send_message m)) s"
  using assms
proof (induction cache arbitrary: s)
  case Nil
  then show ?case by (simp add: spends_def run_skip)
next
  case (Cons e cache)
  from send_spends [OF Cons.prems, of "snd e"] show ?case
  proof (cases rule: spendsE)
    case (returns x t)
    have "can_recover N B t" using can_recover_steady keepsD [OF steady_send_message returns(1)] Cons.prems(1) by blast
    from Cons.IH [OF this returns(3)] returns(1,2) show ?thesis
      by (cases e) (auto simp: spends_def bind_def split: prod.splits result.splits)
  next
    case (fails x t)
    then show ?thesis by (cases e) (simp add: spends_def bind_def)
  qed
qed

lemma run_bind_Hang: "m s = (Hang, t) \<Longrightarrow> bind m f s = (Hang, t)"
  by (simp add: bind_def)

lemma connect_spends:
  assumes "can_recover N B s"
  shows "spends N (\<lambda>_ _. True) start_connect_peer_listener_runtime s"
proof -
  let ?c = "connections s" and ?s = "s\<lparr>connections := Suc (connections s)\<rparr>"
  have w: "comes_back (connects (pd_world s) ?c)" "comes_back (first_message (pd_world s) ?c)"
      "comes_back (opens_bridge (pd_world s) ?c)"
    using assms by (simp_all add: can_recover_def network_returns_def)
  have less: "bad_luck N ?s \<le> bad_luck N s" "?c < N \<Longrightarrow> bad_luck N ?s < bad_luck N s"
    by (simp_all add: bad_luck_def)
  have down: "?c < N" if "\<not> (connects (pd_world s) ?c = Ok () \<and> (\<exists>noise. first_message (pd_world s) ?c = Ok (Pong noise))
      \<and> opens_bridge (pd_world s) ?c = Ok ())"
    using assms that by (auto simp: can_recover_def network_returns_def) (meson not_le)+
  have "can_recover N B ?s" using assms by (simp add: can_recover_def reliable_def)
  from write_spends [OF this, of ?c "Identity (local_node_id s)"]
  consider (sent) t where "write_on ?c (Identity (local_node_id s)) ?s = (Ok (), t)" "bad_luck N t \<le> bad_luck N s"
      "?c < N \<longrightarrow> bad_luck N t < bad_luck N s"
    | (unsent) e t where "write_on ?c (Identity (local_node_id s)) ?s = (Err e, t)" "bad_luck N t < bad_luck N s"
    using less by (cases rule: spendsE) (auto simp: old.unit.exhaust, force+)
  note written = this
  let ?run = "start_connect_peer_listener_runtime s"
  have run: "?run = (case connects (pd_world s) ?c of
      Ok _ \<Rightarrow> bind (write_on ?c (Identity (local_node_id s))) (\<lambda>_.
         bind (lift_res (err_into PeerErr (first_message (pd_world s) ?c))) (\<lambda>msg. case msg of
           Pong _ \<Rightarrow> bind (lift_res (err_into BridgeErr (opens_bridge (pd_world s) ?c))) (\<lambda>_. ret ?c)
         | _ \<Rightarrow> throw (PeerErr ''UnknownDataType''))) ?s
    | Err e \<Rightarrow> (Err (PeerErr e), ?s) | Panic p \<Rightarrow> (Panic p, ?s) | Hang \<Rightarrow> (Hang, ?s))"
    by (cases "connects (pd_world s) ?c")
      (simp_all add: start_connect_peer_listener_runtime_def run_simps run_bind_Hang)
  show ?thesis
  proof (cases "connects (pd_world s) ?c")
    case (Ok u)
    from written show ?thesis
    proof cases
      case (sent t)
      show ?thesis
      proof (cases "first_message (pd_world s) ?c")
        case first: (Ok msg)
        show ?thesis
        proof (cases "\<exists>noise. msg = Pong noise")
          case True
          then show ?thesis using run Ok sent first down w(3)
            by (cases "opens_bridge (pd_world s) ?c") (auto simp: spends_def bind_def run_simps)
        next
          case False
          then have "?c < N" using down first by simp
          then show ?thesis using run Ok sent first False
            by (cases msg) (simp_all add: spends_def bind_def run_simps)
        qed
      qed (use run Ok sent w(2) down in \<open>auto simp: spends_def bind_def run_simps\<close>)
    next
      case (unsent e t)
      then show ?thesis using run Ok by (simp add: spends_def bind_def)
    qed
  qed (use run less w(1) down in \<open>auto simp: spends_def\<close>)
qed

lemma await_ends:
  "\<not> receiver_runs (pd_world s) (probes s + q) \<Longrightarrow> q < fuel \<Longrightarrow>
     \<exists>t. await_receiver fuel s = (Ok (), t) \<and> bad_luck N t = bad_luck N s"
proof (induction fuel arbitrary: s q)
  case 0
  then show ?case by simp
next
  case (Suc fuel)
  let ?s = "s\<lparr>probes := Suc (probes s)\<rparr>"
  show ?case
  proof (cases "receiver_runs (pd_world s) (probes s)")
    case True
    then obtain p where q: "q = Suc p" using Suc.prems(1) by (cases q) simp_all
    from Suc.IH [of ?s p] show ?thesis using True Suc.prems q by (simp add: run_simps bind_def)
  qed (simp add: run_simps bind_def)
qed

lemma connect_again_ends:
  "can_recover N B s \<Longrightarrow> bad_luck N s < fuel \<Longrightarrow> \<exists>t. connect_again fuel s = (Ok (), t) \<and> bad_luck N t \<le> bad_luck N s"
proof (induction fuel arbitrary: s)
  case 0
  then show ?case by simp
next
  case (Suc fuel)
  obtain addr where addr: "remote_node_addr s = Some addr" using Suc.prems(1) by (auto simp: can_recover_def)
  from connect_spends [OF Suc.prems(1)] show ?case
  proof (cases rule: spendsE)
    case (returns k t)
    then show ?thesis using addr by (simp add: run_simps bind_def attempt_def)
  next
    case (fails e t)
    have "can_recover N B t" using can_recover_steady keepsD [OF steady_connect fails(1)] Suc.prems(1) by blast
    from Suc.IH [OF this] show ?thesis using addr fails Suc.prems(2) by (auto simp: run_simps bind_def attempt_def)
  qed
qed

lemma reconnect_spends:
  assumes "can_recover N B s" and "bad_luck N s < fuel" and "B \<le> fuel"
  shows "spends N (\<lambda>_ _. True) (reconnect_peer fuel) s"
proof -
  obtain q where q: "q < B" "\<not> receiver_runs (pd_world s) (probes s + q)"
    using assms(1) unfolding can_recover_def network_returns_def by blast
  obtain u where u: "await_receiver fuel s = (Ok (), u)" "bad_luck N u = bad_luck N s"
    using await_ends [OF q(2), of fuel N] q(1) assms(3) by auto
  have ru: "can_recover N B u" using can_recover_steady keepsD [OF steady_await u(1)] assms(1) by blast
  obtain v where v: "connect_again fuel u = (Ok (), v)" "bad_luck N v \<le> bad_luck N s"
    using connect_again_ends [OF ru, of fuel] u(2) assms(2) by auto
  have rv: "can_recover N B v" using can_recover_steady keepsD [OF steady_connect_again v(1)] ru by blast
  obtain k where k: "peer_sender v = Some k" using connect_again_Ok [OF v(1)] by blast
  have start: "reconnect_peer fuel s = bind (for_each (unchecked_msg_cache v) (\<lambda>(_, m). send_message m))
      (\<lambda>_. send_from_self CtlBus Farcasterd (Ctl Reconnected)) v"
    using u(1) v(1) by (simp add: reconnect_peer_def run_simps run_bind_Ok)
  from resend_spends [OF rv k, of "unchecked_msg_cache v"] show ?thesis
  proof (cases rule: spendsE)
    case (returns x w)
    have "keeps steady (for_each (unchecked_msg_cache v) (\<lambda>(_, m). send_message m))"
      by (intro steady.keeps_for_each keeps_prod steady_rules)
    from can_recover_steady [OF keepsD [OF this returns(1)] rv] have "reliable w" by (simp add: can_recover_def)
    then show ?thesis using start returns v(2) by (simp add: spends_def bind_def send_from_self_reliable)
  next
    case (fails e w)
    then show ?thesis using start v(2) by (simp add: spends_def bind_def)
  qed
qed

lemma reconnects_end:
  "can_recover N B s \<Longrightarrow> bad_luck N s < n \<Longrightarrow> bad_luck N s < fuel \<Longrightarrow> B \<le> fuel \<Longrightarrow>
     \<exists>t. reconnect_until_done fuel n s = (Ok (), t) \<and> bad_luck N t \<le> bad_luck N s"
proof (induction n arbitrary: s)
  case 0
  then show ?case by simp
next
  case (Suc n)
  from reconnect_spends [OF Suc.prems(1,3,4)] show ?case
  proof (cases rule: spendsE)
    case (returns x t)
    then show ?thesis by (simp add: bind_def attempt_def run_skip)
  next
    case (fails e t)
    have "can_recover N B t" using can_recover_steady keepsD [OF steady_reconnect fails(1)] Suc.prems(1) by blast
    from Suc.IH [OF this] fails Suc.prems show ?thesis by (fastforce simp: bind_def attempt_def)
  qed
qed

lemma sends_end:
  "can_recover N B s \<Longrightarrow> peer_sender s \<noteq> None \<Longrightarrow> bad_luck N s < n \<Longrightarrow> bad_luck N s < fuel \<Longrightarrow> B \<le> fuel \<Longrightarrow>
     \<exists>t. send_until_done fuel n m s = (Ok True, t)"
proof (induction n arbitrary: s)
  case 0
  then show ?case by simp
next
  case (Suc n)
  obtain k where k: "peer_sender s = Some k" using Suc.prems(2) by blast
  from send_spends [OF Suc.prems(1) k, of m] show ?case
  proof (cases rule: spendsE)
    case (returns x t)
    then show ?thesis by (simp add: bind_def attempt_def run_ret)
  next
    case (fails e t)
    let ?u = "t\<lparr>outbox := outbox t @ [Envelope CtlBus (identity t) Farcasterd (Ctl Disconnected)], attempts := Suc (attempts t)\<rparr>"
    have rt: "can_recover N B t" using can_recover_steady keepsD [OF steady_send_message fails(1)] Suc.prems(1) by blast
    then have ru: "can_recover N B ?u" and rel: "reliable t" and frk: "\<not> forked_from_listener t"
      by (simp_all add: can_recover_def)
    obtain v where v: "reconnect_until_done fuel fuel ?u = (Ok (), v)" "bad_luck N v \<le> bad_luck N ?u"
      using reconnects_end [OF ru, of fuel fuel] fails(2) Suc.prems(4,5) by auto
    have rv: "can_recover N B v" using can_recover_steady keepsD [OF steady_reconnects v(1)] ru by blast
    have "peer_sender v \<noteq> None" using reconnects_Ok [OF v(1)] by auto
    from Suc.IH [OF rv this] v(2) fails(2) Suc.prems(3-5)
    have "\<exists>t. send_until_done fuel n m v = (Ok True, t)" by simp
    then show ?thesis using fails(1) v(1) rel frk
      by (simp add: bind_def attempt_def run_simps send_from_self_reliable)
  qed
qed

text \<open>
  Property C31 (liveness): if from some attempt on the network works and the peer answers, and the thread of a broken
  connection ends, then the taker's daemon handles every message: its loops come to an end, and the
  message is on the connection then in use. As many rounds as attempts can fail are enough.
\<close>

theorem message_is_delivered_once_the_network_returns:
  assumes "network_returns N B (pd_world s)" and "reliable s" and "\<not> forked_from_listener s"
    and "remote_node_addr s \<noteq> None" and "peer_sender s \<noteq> None" and "2 * N < fuel" and "B \<le> fuel"
  shows "\<exists>t k. pd_handle_msg fuel m s = (Ok (), t) \<and> peer_sender t = Some k \<and> (k, m) \<in> set (wire t)"
proof -
  let ?s = "s\<lparr>messages_sent := messages_sent s + 1\<rparr>"
  have "can_recover N B ?s" using assms(1-4) by (simp add: can_recover_def reliable_def)
  moreover have "bad_luck N ?s < fuel" using assms(6) by (simp add: bad_luck_def)
  ultimately obtain u where u: "send_until_done fuel fuel m ?s = (Ok True, u)"
    using sends_end [of N B ?s fuel fuel m] assms(5,7) by auto
  then obtain k where k: "peer_sender u = Some k" "(k, m) \<in> set (wire u)" using send_until_done_Ok by blast
  obtain t where t: "cache_message m u = (Ok (), t)" "peer_sender t = peer_sender u" "wire t = wire u"
  proof (cases "is_protocol m")
    case True
    then obtain i where "cache_message m u = (Ok (), u\<lparr>unchecked_msg_cache :=
        remove_unchecked (i, peer_msg_type m) (unchecked_msg_cache u) @ [((i, peer_msg_type m), m)]\<rparr>)"
      using cache_message_run by blast
    then show ?thesis using that by simp
  next
    case False
    then show ?thesis using that by (simp add: cache_message_def run_on)
  qed
  show ?thesis using u t k by (simp add: pd_handle_msg_def run_simps bind_def)
qed

theorem message_is_delivered_once_the_network_returns_witness:
  "\<exists>t k. pd_handle_msg 7 (DealNotFound 6) sample_taker_1 = (Ok (), t) \<and> peer_sender t = Some k
     \<and> (k, DealNotFound 6) \<in> set (wire t)"
proof -
  have w: "pd_world sample_taker_1 = sample_peer_world" "reliable sample_taker_1" "\<not> forked_from_listener sample_taker_1"
      "remote_node_addr sample_taker_1 \<noteq> None" "peer_sender sample_taker_1 \<noteq> None"
    by (simp_all add: sample_taker_1_run(2) sample_taker_eq connecting_runtime_def reliable_def)
  have "\<exists>q < 2. \<not> receiver_runs sample_peer_world (p + q)" for p
    by (rule exI [of _ 1]) (simp add: sample_peer_world_def)
  then have "network_returns 3 2 (pd_world sample_taker_1)"
    by (simp add: w network_returns_def) (simp add: sample_peer_world_def)
  then show ?thesis
    using message_is_delivered_once_the_network_returns [of 3 2 sample_taker_1 7 "DealNotFound 6"] w by simp
qed

end
