(* ===== verification/Synclet.thy ===== *)
theory Synclet
  imports SyncerState Messages
begin

text \<open>
  What the two chain syncers share (\<open>syncerd/bitcoin_syncer.rs\<close>, \<open>syncerd/monero_syncer.rs\<close>): each is a
  set of tasks that run at the same time and share one \<open>SyncerState\<close> behind a mutex. A task is an
  action over its own record \<open>synclet\<close>; whenever it takes the lock, what the other tasks did in the
  meantime happens first, as the function \<open>interference\<close> says. The channels between the tasks record
  what the task puts into them.
\<close>

section \<open>State\<close>

datatype (plugins only: code size) channel_item =
    ToBroadcast broadcast_transaction service_id
  | ToGet get_tx service_id
  | ToBalance get_address_balance service_id
  | ToTerminate
  | ToBridge bridge_event

record synclet =
  shared :: syncer_state
  lock_count :: nat
  interference :: "nat \<Rightarrow> syncer_state \<Rightarrow> syncer_state"
  sent :: "channel_item list"
  closed :: "channel_item \<Rightarrow> bool"
  calls :: nat

type_synonym ('x, 'a) synclet_action = "('x synclet_scheme, error, 'a) action"

text \<open>A critical section, from \<open>lock()\<close> to the end of the guard.\<close>

definition locked :: "(syncer_state, error, 'a) action \<Rightarrow> ('x, 'a) synclet_action" where
  "locked m = (\<lambda>s. case m (interference s (lock_count s) (shared s)) of
     (r, t) \<Rightarrow> (r, s\<lparr>shared := t, lock_count := Suc (lock_count s)\<rparr>))"

text \<open>A send that must succeed, and one whose error is only logged.\<close>

definition channel_send :: "channel_item \<Rightarrow> string \<Rightarrow> ('x, unit) synclet_action" where
  "channel_send item msg = reads closed (\<lambda>c.
     if c item then lift_res (Panic msg) else modify (\<lambda>s. s\<lparr>sent := sent s @ [item]\<rparr>))"

definition channel_try_send :: "channel_item \<Rightarrow> ('x, unit) synclet_action" where
  "channel_try_send item = reads closed (\<lambda>c. on (\<not> c item) (modify (\<lambda>s. s\<lparr>sent := sent s @ [item]\<rparr>)))"

text \<open>Calls of the remote server are numbered.\<close>

definition next_call :: "('x, nat) synclet_action" where
  "next_call = stateful (\<lambda>s. (calls s, s\<lparr>calls := Suc (calls s)\<rparr>))"

text \<open>What the syncers do with a task that is not for the other chain.\<close>

definition abort_wrong_chain :: "task_id \<Rightarrow> service_id \<Rightarrow> ('x, unit) synclet_action" where
  "abort_wrong_chain i source = locked (abort (TargetTask i) source True)"

text \<open>
  The hashes of the watched transactions that are unseen; a task that is not in the map panics: the
  Bitcoin syncer indexes the map, the one of Monero expects an entry.
\<close>

fun hashes_of :: "string \<Rightarrow> internal_id list \<Rightarrow> (internal_id, watched_transaction) hash_map \<Rightarrow> (error, bytes list) result" where
  "hashes_of msg [] txs = Ok []"
| "hashes_of msg (i # ids) txs = rbind (expect msg (hm_get txs i)) (\<lambda>w.
     rbind (hashes_of msg ids txs) (\<lambda>hs. Ok (wt_hash (wtx_task w) # hs)))"

section \<open>The two ends\<close>

text \<open>
  The task that hands the events of the others to the bridge, one after the other and routed to the
  syncer itself (\<open>run_syncerd_bridge_event_sender\<close>). What the socket answers depends on the number of the
  send; a send that fails panics.
\<close>

type_synonym bridge_socket = "nat \<Rightarrow> bytes \<Rightarrow> bytes \<Rightarrow> bytes \<Rightarrow> bus_msg \<Rightarrow> (string, unit) result"

definition bridge_event_sender :: "bridge_socket \<Rightarrow> bytes \<Rightarrow> string \<Rightarrow> bridge_event list \<Rightarrow> ('x, unit) synclet_action" where
  "bridge_event_sender push syncer_address msg events = for_each events (\<lambda>event. bind next_call (\<lambda>n.
     case push n syncer_address syncer_address syncer_address (Sync (BridgeEventMsg event)) of
       Ok _ \<Rightarrow> skip
     | _ \<Rightarrow> lift_res (Panic msg)))"

text \<open>
  The task that takes the tasks of the syncer looks for one, and panics when nobody can send it any more.
\<close>

datatype polled_task = PolledTask syncerd_task | NoTask | TasksDisconnected

fun receive_task :: "(syncerd_task \<Rightarrow> ('x, unit) synclet_action) \<Rightarrow> polled_task \<Rightarrow> ('x, unit) synclet_action" where
  "receive_task take_it (PolledTask t) = take_it t"
| "receive_task take_it NoTask = skip"
| "receive_task take_it TasksDisconnected = lift_res (Panic ''Task receiver is disconnected, will exit synclet runtime'')"

end
