(* ===== verification/BitcoinSyncer.thy ===== *)
theory BitcoinSyncer
  imports Synclet SwapRuntime
begin

text \<open>
  The syncer of Bitcoin (\<open>syncerd/bitcoin_syncer.rs\<close>): the tasks that ask an Electrum server and put
  what it answers into the shared state. The server is the record \<open>electrum\<close> of answers by the number
  of the call, the parts of the crate \<open>bitcoin\<close> that are used are the record \<open>bitcoin_lib\<close>. The loops of
  the tasks never end; they are run here for a number of rounds. Log lines and pauses are left out.
\<close>

section \<open>Transactions of the crate bitcoin\<close>

datatype (plugins only: code size) tx_out = TxOut (to_value: u64) (to_script: bytes)

datatype (plugins only: code size) tx_in =
  TxIn (ti_txid: txid) (ti_vout: u32) (ti_script_sig: bytes) (ti_sequence: u32) (ti_witness: "bytes list")

datatype (plugins only: code size) bitcoin_tx =
  Transaction (bx_version: int) (bx_lock_time: u32) (bx_inputs: "tx_in list") (bx_outputs: "tx_out list")

record psbt_input =
  witness_utxo :: "tx_out option"
  witness_script :: "bytes option"
  partial_sigs :: "(btc_pubkey, bytes) hash_map"
  final_script_witness :: "bytes list option"

record segwit_psbt =
  unsigned_tx :: bitcoin_tx
  psbt_inputs :: "psbt_input list"
  output_scripts :: "bytes option list"

datatype address_type = P2wpkh | OtherAddressType string

record bitcoin_lib =
  serialize :: "bitcoin_tx \<Rightarrow> bytes"
  bitcoin_txid :: "bitcoin_tx \<Rightarrow> txid"
  vsize :: "bitcoin_tx \<Rightarrow> nat"
  tx_of_bitcoin :: "bitcoin_tx \<Rightarrow> btc_tx"
  address_type_of :: "btc_address \<Rightarrow> address_type option"
  public_key_of :: "btc_privkey \<Rightarrow> btc_pubkey"
  from_unsigned_tx :: "bitcoin_tx \<Rightarrow> (string, segwit_psbt) result"
  signature_hash :: "bitcoin_tx \<Rightarrow> nat \<Rightarrow> bytes \<Rightarrow> u64 \<Rightarrow> bytes"
  message_from_slice :: "bytes \<Rightarrow> (error, bytes) result"
  sign_ecdsa_all :: "bytes \<Rightarrow> btc_privkey \<Rightarrow> bytes"
  psbt_extract_tx :: "segwit_psbt \<Rightarrow> bitcoin_tx"
  txid_of_slice :: "bytes \<Rightarrow> txid option"

section \<open>Doubles\<close>

text \<open>
  The fee rates of the server are doubles: a mantissa and an exponent. The product with \<open>1.0e8\<close>, which
  is exact, is rounded to 53 bits; \<open>ceil\<close> and the saturating cast follow.
\<close>

datatype f64 = F64 (mantissa: int) (exponent: int)

fun is_minus_one :: "f64 \<Rightarrow> bool" where
  "is_minus_one (F64 m e) = (if 0 \<le> e then m * 2 ^ nat e = - 1 else m = - (2 ^ nat (- e)))"

fun sats_per_kvb :: "f64 \<Rightarrow> u64" where
  "sats_per_kvb (F64 m e) =
     (if m \<le> 0 then 0
      else let n = f64_round (nat m * 10 ^ 8);
               c = (if 0 \<le> e then n * 2 ^ nat e else (n + (2 ^ nat (- e) - 1)) div 2 ^ nat (- e))
           in of_nat (min c (2 ^ 64 - 1)))"

section \<open>The server\<close>

text \<open>
  What the server answers to the call of a number. The text of the error that says that a script is
  already subscribed is recognised by \<open>already_subscribed\<close>.
\<close>

record electrum =
  el_client :: "nat \<Rightarrow> string \<Rightarrow> string option \<Rightarrow> (string, unit) result"
  el_headers_subscribe :: "nat \<Rightarrow> (string, nat \<times> bytes) result"
  el_ping :: "nat \<Rightarrow> (string, unit) result"
  el_script_subscribe :: "nat \<Rightarrow> bytes \<Rightarrow> (string, bytes option) result"
  el_headers_pop :: "nat \<Rightarrow> (string, (nat \<times> bytes) option) result"
  el_script_pop :: "nat \<Rightarrow> bytes \<Rightarrow> (string, bytes option) result"
  el_transaction_get :: "nat \<Rightarrow> txid \<Rightarrow> (string, bitcoin_tx) result"
  el_script_get_history :: "nat \<Rightarrow> bytes \<Rightarrow> (string, (int \<times> txid) list) result"
  el_block_header :: "nat \<Rightarrow> nat \<Rightarrow> (string, bytes) result"
  el_script_list_unspent :: "nat \<Rightarrow> bytes \<Rightarrow> (string, (txid \<times> nat \<times> u64) list) result"
  el_script_get_balance :: "nat \<Rightarrow> bytes \<Rightarrow> (string, u64 \<times> int) result"
  el_estimate_fee :: "nat \<Rightarrow> nat \<Rightarrow> (string, f64) result"
  el_relay_fee :: "nat \<Rightarrow> (string, f64) result"
  el_broadcast_raw :: "nat \<Rightarrow> bytes \<Rightarrow> (string, bytes) result"
  already_subscribed :: "string \<Rightarrow> bool"

record electrum_rpc = synclet +
  server :: electrum
  lib :: bitcoin_lib
  electrum_server :: string
  proxy_address :: "string option"
  rpc_height :: u64
  rpc_block_hash :: bytes
  rpc_addresses :: "(btc_address_addendum, bytes option \<times> tx_filter) hash_map"
  ping_count :: u8

type_synonym 'a btc_action = "(electrum_rpc, error, 'a) action"

definition call_server :: "(electrum \<Rightarrow> nat \<Rightarrow> (string, 'a) result) \<Rightarrow> 'a btc_action" where
  "call_server f = bind next_call (\<lambda>n. reads server (\<lambda>w.
     lift_res (err_into (\<lambda>e. SyncerErr (Electrum e)) (f w n))))"

definition RETRY_TIMEOUT :: u64 where "RETRY_TIMEOUT = 5"
definition PING_WAIT :: u8 where "PING_WAIT = 2"

definition create_electrum_client :: "unit btc_action" where
  "create_electrum_client = reads id (\<lambda>s.
     call_server (\<lambda>w n. el_client w n (electrum_server s) (proxy_address s)))"

definition electrum_rpc_new :: "unit btc_action" where
  "electrum_rpc_new = steps [create_electrum_client]
     (bind (call_server el_headers_subscribe) (\<lambda>(h, hash).
      modify (\<lambda>s. s\<lparr>rpc_addresses := [], rpc_height := of_nat h, rpc_block_hash := hash, ping_count := 0\<rparr>)))"

definition rpc_ping :: "unit btc_action" where
  "rpc_ping = reads ping_count (\<lambda>k. steps [
     on (k mod PING_WAIT = 0) (steps [call_server el_ping] (modify (\<lambda>s. s\<lparr>ping_count := 0\<rparr>)))]
     (modify (\<lambda>s. s\<lparr>ping_count := ping_count s + 1\<rparr>)))"

section \<open>The history of an address\<close>

text \<open>The outputs that pay to the script, and the others.\<close>

fun scan_outputs :: "bytes \<Rightarrow> tx_out list \<Rightarrow> bool \<times> u64 \<times> u64 \<Rightarrow> bool \<times> u64 \<times> u64" where
  "scan_outputs script [] acc = acc"
| "scan_outputs script (o' # outs) (found, inc, out) =
     (if to_script o' = script then scan_outputs script outs (True, inc + to_value o', out)
      else scan_outputs script outs (found, inc, out + to_value o'))"

text \<open>The loop over the inputs stops at the first whose transaction the server does not have.\<close>

fun scan_inputs :: "bytes \<Rightarrow> tx_in list \<Rightarrow> bool \<Rightarrow> bool btc_action" where
  "scan_inputs script [] found = ret found"
| "scan_inputs script (i # ins) found =
     bind (attempt (call_server (\<lambda>w n. el_transaction_get w n (ti_txid i)))) (\<lambda>r. case r of
       Inl _ \<Rightarrow> ret found
     | Inr prev_tx \<Rightarrow> scan_inputs script ins (list_ex (\<lambda>o'. to_script o' = script) (bx_outputs prev_tx) \<or> found))"

fun selected_amount :: "tx_filter \<Rightarrow> bool \<Rightarrow> bool \<Rightarrow> u64 \<Rightarrow> u64 \<Rightarrow> u64 option" where
  "selected_amount Incoming output_found input_found inc out = (if output_found then Some inc else None)"
| "selected_amount Outgoing output_found input_found inc out = (if input_found then Some out else None)"
| "selected_amount AllTxs output_found input_found inc out =
     (if output_found then Some inc else if input_found then Some out else None)"

definition too_old :: "u64 \<Rightarrow> int \<Rightarrow> bool" where
  "too_old from h \<longleftrightarrow> 0 < h \<and> from \<ge> of_int h"

fun walk_history :: "u64 \<Rightarrow> bytes \<Rightarrow> tx_filter \<Rightarrow> (int \<times> txid) list \<Rightarrow> address_tx list \<Rightarrow> address_tx list btc_action" where
  "walk_history from script flt [] addr_txs = ret addr_txs"
| "walk_history from script flt ((h, txid) # hist) addr_txs =
     (if too_old from h then walk_history from script flt hist addr_txs
      else bind (call_server (\<lambda>w n. el_transaction_get w n txid)) (\<lambda>tx.
        let (output_found, in_amount, out_amount) = scan_outputs script (bx_outputs tx) (False, 0, 0)
        in bind (scan_inputs script (bx_inputs tx) False) (\<lambda>input_found. reads lib (\<lambda>L.
          case selected_amount flt output_found input_found in_amount out_amount of
            None \<Rightarrow> walk_history from script flt hist addr_txs
          | Some amount \<Rightarrow> walk_history from script flt hist
              (addr_txs @ [AddressTx amount txid (serialize L tx) (output_found \<and> \<not> input_found)])))))"

definition query_addr_history :: "btc_address_addendum \<Rightarrow> tx_filter \<Rightarrow> address_tx list btc_action" where
  "query_addr_history address flt =
     (let script = btc_script (baa_address address)
      in bind (call_server (\<lambda>w n. el_script_get_history w n script)) (\<lambda>tx_hist.
        walk_history (baa_from_height address) script flt tx_hist []))"

definition script_subscribe :: "btc_address_addendum \<Rightarrow> tx_filter \<Rightarrow> (btc_address_addendum \<times> address_tx list) btc_action" where
  "script_subscribe address flt = reads rpc_addresses (\<lambda>known. steps [
     on (\<not> hm_contains known address)
       (bind (call_server (\<lambda>w n. el_script_subscribe w n (btc_script (baa_address address)))) (\<lambda>script_status.
         modify (\<lambda>s. s\<lparr>rpc_addresses := hm_insert address (script_status, flt) (rpc_addresses s)\<rparr>)))]
     (bind (query_addr_history address flt) (\<lambda>txs. ret (address, txs))))"

section \<open>Blocks and changes\<close>

text \<open>The loops \<open>while let Ok(Some(..))\<close> end with the first answer that holds nothing; fuel bounds them.\<close>

fun pop_blocks :: "nat \<Rightarrow> (u64 \<times> bytes) list \<Rightarrow> (u64 \<times> bytes) list btc_action" where
  "pop_blocks 0 blocks = lift_res Hang"
| "pop_blocks (Suc fuel) blocks = bind (attempt (call_server el_headers_pop)) (\<lambda>r. case r of
       Inr (Some (h, hash)) \<Rightarrow> steps [modify (\<lambda>s. s\<lparr>rpc_height := of_nat h, rpc_block_hash := hash\<rparr>)]
         (pop_blocks fuel (blocks @ [(of_nat h, hash)]))
     | _ \<Rightarrow> ret blocks)"

definition new_block_check :: "nat \<Rightarrow> (u64 \<times> bytes) list btc_action" where
  "new_block_check fuel = pop_blocks fuel []"

fun pop_changes ::
  "nat \<Rightarrow> btc_address_addendum \<Rightarrow> bytes option \<Rightarrow> tx_filter \<Rightarrow> (btc_address_addendum \<times> address_tx list) list
     \<Rightarrow> (btc_address_addendum \<times> address_tx list) list btc_action" where
  "pop_changes 0 address previous_status flt notifs = lift_res Hang"
| "pop_changes (Suc fuel) address previous_status flt notifs =
     bind (attempt (call_server (\<lambda>w n. el_script_pop w n (btc_script (baa_address address))))) (\<lambda>r. case r of
       Inr (Some script_status) \<Rightarrow>
         if Some script_status \<noteq> previous_status
         then steps [modify (\<lambda>s. s\<lparr>rpc_addresses := hm_insert address (Some script_status, flt) (rpc_addresses s)\<rparr>)]
           (bind (attempt (query_addr_history address flt)) (\<lambda>q. case q of
              Inr txs \<Rightarrow> pop_changes fuel address previous_status flt (notifs @ [(address, txs)])
            | Inl _ \<Rightarrow> pop_changes fuel address previous_status flt notifs))
         else pop_changes fuel address previous_status flt notifs
     | _ \<Rightarrow> ret notifs)"

fun check_addresses ::
  "nat \<Rightarrow> (btc_address_addendum \<times> bytes option \<times> tx_filter) list \<Rightarrow> (btc_address_addendum \<times> address_tx list) list
     \<Rightarrow> (btc_address_addendum \<times> address_tx list) list btc_action" where
  "check_addresses fuel [] notifs = ret notifs"
| "check_addresses fuel ((address, previous_status, flt) # known) notifs =
     bind (pop_changes fuel address previous_status flt notifs) (check_addresses fuel known)"

definition address_change_check :: "nat \<Rightarrow> (btc_address_addendum \<times> address_tx list) list btc_action" where
  "address_change_check fuel = reads rpc_addresses (\<lambda>known. check_addresses fuel known [])"

section \<open>The watched transactions\<close>

definition watched_hashes :: "bool \<Rightarrow> (syncer_state, error, bytes list) action" where
  "watched_hashes unseen = reads id (\<lambda>s.
     if unseen then lift_res (hashes_of ''index of a missing key'' (unseen_transactions s) (transactions s))
     else ret (map (\<lambda>(_, w). wt_hash (wtx_task w)) (transactions s)))"

definition confirmations_at :: "u64 \<Rightarrow> u64 option \<Rightarrow> u32" where
  "confirmations_at current conf_in_block = (case conf_in_block of
       Some c \<Rightarrow> if current < c then 0 else ucast (current - c) + 1
     | None \<Rightarrow> 0)"

definition height_in_history :: "bitcoin_tx \<Rightarrow> txid \<Rightarrow> int btc_action" where
  "height_in_history tx txid =
     bind (lift_res (expect ''index out of bounds'' (if bx_outputs tx = [] then None else Some (hd (bx_outputs tx))))) (\<lambda>o'.
     bind (call_server (\<lambda>w n. el_script_get_history w n (to_script o'))) (\<lambda>history.
       case List.find (\<lambda>(_, t). t = txid) history of
         Some (h, _) \<Rightarrow> ret h
       | None \<Rightarrow> throw (SyncerErr TxNotInHistory)))"

definition block_at :: "int \<Rightarrow> (u64 option \<times> bytes option) btc_action" where
  "block_at h =
     (if h \<le> 0 then ret (None, None)
      else bind (call_server (\<lambda>w n. el_block_header w n (nat h))) (\<lambda>hash. ret (Some (of_int h), Some hash)))"

definition query_transaction :: "bytes \<Rightarrow> unit btc_action" where
  "query_transaction hash = reads lib (\<lambda>L.
     bind (lift_res (expect ''invalid txid'' (txid_of_slice L hash))) (\<lambda>txid.
     bind (attempt (call_server (\<lambda>w n. el_transaction_get w n txid))) (\<lambda>r. case r of
       Inl _ \<Rightarrow> locked (change_transaction txid None None [])
     | Inr tx \<Rightarrow>
         let unconfirmed = locked (change_transaction txid None (Some 0) (serialize L tx))
         in bind (attempt (height_in_history tx txid)) (\<lambda>r. case r of Inl _ \<Rightarrow> unconfirmed | Inr h \<Rightarrow>
            bind (attempt (block_at h)) (\<lambda>r. case r of Inl _ \<Rightarrow> unconfirmed | Inr (conf_in_block, blockhash) \<Rightarrow>
            bind (attempt (call_server el_headers_subscribe)) (\<lambda>r. case r of Inl _ \<Rightarrow> unconfirmed | Inr (tip, _) \<Rightarrow>
            locked (change_transaction (bitcoin_txid L tx) blockhash
              (Some (confirmations_at (of_nat tip) conf_in_block)) (serialize L tx))))))))"

definition query_transactions :: "bool \<Rightarrow> unit btc_action" where
  "query_transactions unseen = bind (locked (watched_hashes unseen)) (\<lambda>hashes. for_each hashes query_transaction)"

section \<open>Sweeping an address\<close>

definition push_slice :: "bytes \<Rightarrow> bytes" where
  "push_slice data =
     (if length data < 76 then [of_nat (length data)] @ data
      else if length data < 256 then [76, of_nat (length data)] @ data
      else [77, of_nat (length data mod 256), of_nat (length data div 256)] @ data)"

text \<open>OP_DUP OP_HASH160 \<open>script[2..]\<close> OP_EQUALVERIFY OP_CHECKSIG.\<close>

definition p2wpkh_script_code :: "bytes \<Rightarrow> bytes" where
  "p2wpkh_script_code script = [0x76, 0xa9] @ push_slice (drop 2 script) @ [0x88, 0xac]"

definition estimate_priority_fee :: "nat \<Rightarrow> nat \<Rightarrow> (f64 \<times> f64) btc_action" where
  "estimate_priority_fee near_target far_target =
     bind (call_server (\<lambda>w n. el_estimate_fee w n near_target)) (\<lambda>high_fee.
       if is_minus_one high_fee then bind (call_server el_relay_fee) (\<lambda>relay_fee. ret (relay_fee, relay_fee))
       else if far_target \<noteq> near_target
       then bind (call_server (\<lambda>w n. el_estimate_fee w n far_target)) (\<lambda>low_fee. ret (low_fee, high_fee))
       else ret (high_fee, high_fee))"

text \<open>The transaction that spends what is unspent, before its fee is taken off.\<close>

definition sweep_inputs :: "(txid \<times> nat \<times> u64) list \<Rightarrow> tx_in list" where
  "sweep_inputs unspent_txs = map (\<lambda>(hash, pos, _). TxIn hash (of_nat pos) [] (2 ^ 31) []) unspent_txs"

definition sweep_total :: "(txid \<times> nat \<times> u64) list \<Rightarrow> u64" where
  "sweep_total unspent_txs = foldl (\<lambda>acc (_, _, v). acc + v) 0 unspent_txs"

definition sweep_tx :: "(txid \<times> nat \<times> u64) list \<Rightarrow> btc_address \<Rightarrow> u64 \<Rightarrow> bitcoin_tx" where
  "sweep_tx unspent_txs dest v = Transaction 2 0 (sweep_inputs unspent_txs) [TxOut v (btc_script dest)]"

text \<open>The body of the loop that signs the inputs of the PSBT.\<close>

definition sign_input ::
  "bitcoin_lib \<Rightarrow> bitcoin_tx \<Rightarrow> btc_privkey \<Rightarrow> btc_address \<Rightarrow> nat \<Rightarrow> u64 \<Rightarrow> psbt_input \<Rightarrow> (error, psbt_input) result" where
  "sign_input L tx sk source_address index v input =
     (let script = p2wpkh_script_code (btc_script source_address); pk = public_key_of L sk
      in rbind (message_from_slice L (signature_hash L tx index script v)) (\<lambda>message.
        let sig_all = sign_ecdsa_all L message sk
        in Ok (input\<lparr>witness_utxo := Some (TxOut v (btc_script source_address)), witness_script := Some script,
             partial_sigs := hm_insert pk sig_all (partial_sigs input),
             final_script_witness := Some [sig_all, pk]\<rparr>)))"

text \<open>\<open>unspent_txs[index]\<close> panics when there are more inputs than unspent outputs.\<close>

fun sign_inputs ::
  "bitcoin_lib \<Rightarrow> bitcoin_tx \<Rightarrow> btc_privkey \<Rightarrow> btc_address \<Rightarrow> (txid \<times> nat \<times> u64) list \<Rightarrow> nat \<Rightarrow> psbt_input list
     \<Rightarrow> (error, psbt_input list) result" where
  "sign_inputs L tx sk source_address unspent_txs index [] = Ok []"
| "sign_inputs L tx sk source_address unspent_txs index (input # inputs) =
     (if length unspent_txs \<le> index then Panic ''index out of bounds''
      else rbind (sign_input L tx sk source_address index (snd (snd (unspent_txs ! index))) input) (\<lambda>input'.
           rbind (sign_inputs L tx sk source_address unspent_txs (Suc index) inputs) (\<lambda>inputs'. Ok (input' # inputs'))))"

definition signed_sweep ::
  "bitcoin_lib \<Rightarrow> btc_privkey \<Rightarrow> btc_address \<Rightarrow> btc_address \<Rightarrow> (txid \<times> nat \<times> u64) list \<Rightarrow> u64 \<Rightarrow> (error, bitcoin_tx) result" where
  "signed_sweep L sk source_address dest unspent_txs v =
     (case from_unsigned_tx L (sweep_tx unspent_txs dest v) of
        Ok psbt \<Rightarrow>
          if output_scripts psbt = [] then Panic ''index out of bounds''
          else rbind (sign_inputs L (unsigned_tx psbt) sk source_address unspent_txs 0 (psbt_inputs psbt)) (\<lambda>inputs.
            Ok (psbt_extract_tx L (psbt\<lparr>psbt_inputs := inputs,
              output_scripts := (output_scripts psbt)[0 := Some (btc_script dest)]\<rparr>)))
      | Err e \<Rightarrow> Err (SyncerErr InvalidPsbt)
      | Panic p \<Rightarrow> Panic p
      | Hang \<Rightarrow> Hang)"

definition btc_sweep_address :: "btc_privkey \<Rightarrow> btc_address \<Rightarrow> btc_address \<Rightarrow> bytes list btc_action" where
  "btc_sweep_address sk source_address dest = reads lib (\<lambda>L. case address_type_of L source_address of
       Some P2wpkh \<Rightarrow>
         bind (call_server (\<lambda>w n. el_script_list_unspent w n (btc_script source_address))) (\<lambda>unspent_txs.
           if unspent_txs = [] then ret []
           else
             let in_amount = sweep_total unspent_txs
             in bind (estimate_priority_fee 2 2) (\<lambda>(_, high_fee).
               let fee = p2wpkh_signed_tx_fee (sats_per_kvb high_fee) (vsize L (sweep_tx unspent_txs dest in_amount))
                           (length unspent_txs)
               in if (if fee \<le> in_amount then in_amount - fee else 0) \<le> 546 then ret []
                  else bind (lift_res (signed_sweep L sk source_address dest unspent_txs (in_amount - fee))) (\<lambda>tx.
                    bind (call_server (\<lambda>w n. el_broadcast_raw w n (serialize L tx))) (\<lambda>tx_hash. ret [tx_hash]))))
     | Some (OtherAddressType t) \<Rightarrow> throw (FarcasterErr (Fmt
         ''Sweeping addresses only supports native segwit v0 addresses. Address has type: {}'' [TOpaque t]))
     | None \<Rightarrow> throw (FarcasterErr (Fmt ''Invalid to be swept address'' [])))"

section \<open>The tasks given to the syncer\<close>

definition queue_broadcast :: "broadcast_transaction \<Rightarrow> service_id \<Rightarrow> unit btc_action" where
  "queue_broadcast task source = channel_send (ToBroadcast task source) ''failed on transaction_broadcast_tx sender''"

definition hold_broadcast :: "broadcast_transaction \<Rightarrow> service_id \<Rightarrow> (syncer_state, error, unit) action" where
  "hold_broadcast task source = modify (\<lambda>s. s\<lparr>pending_broadcasts := hs_insert (task, source) (pending_broadcasts s)\<rparr>)"

text \<open>Whether the transaction is due is decided under the lock; the send follows without it.\<close>

definition take_broadcast :: "broadcast_transaction \<Rightarrow> service_id \<Rightarrow> unit btc_action" where
  "take_broadcast task source = (case bt_after_height task of
       Some h \<Rightarrow> bind (locked (reads block_height (\<lambda>current.
           if h \<le> current then ret True else steps [hold_broadcast task source] (ret False))))
         (\<lambda>due. on due (queue_broadcast task source))
     | None \<Rightarrow> queue_broadcast task source)"

definition electrum_health :: "health btc_action" where
  "electrum_health = bind (attempt (steps [electrum_rpc_new] (call_server el_ping))) (\<lambda>r. case r of
       Inl (SyncerErr (Electrum e)) \<Rightarrow> ret (FaultyElectrum e)
     | Inl _ \<Rightarrow> ret (FaultyElectrum ''error'')
     | Inr _ \<Rightarrow> ret Healthy)"

definition btc_take_task :: "syncerd_task \<Rightarrow> unit btc_action" where
  "btc_take_task t = (let source = sdt_source t in case sdt_task t of
       GetTxTask task \<Rightarrow> channel_send (ToGet task source) ''failed on transaction_get sender''
     | GetAddressBalanceTask task \<Rightarrow> channel_send (ToBalance task source) ''failed on balance_get sender''
     | WatchEstimateFeeTask task \<Rightarrow> locked (estimate_fee task source)
     | SweepAddressTask task \<Rightarrow> (case sa_addendum task of
           SweepBitcoin _ \<Rightarrow> locked (modify (SyncerState.sweep_address task source))
         | _ \<Rightarrow> abort_wrong_chain (sa_id task) source)
     | AbortTask task \<Rightarrow> locked (SyncerState.abort (ab_target task) source (bool_from (ab_respond task)))
     | BroadcastTransactionTask task \<Rightarrow> take_broadcast task source
     | WatchAddressTask task \<Rightarrow> (case wa_addendum task of
           BitcoinAddendum _ \<Rightarrow> locked (modify (SyncerState.watch_address task source))
         | _ \<Rightarrow> abort_wrong_chain (wa_id task) source)
     | WatchHeightTask task \<Rightarrow> locked (SyncerState.watch_height task source)
     | WatchTransactionTask task \<Rightarrow> locked (modify (SyncerState.watch_transaction task source))
     | TerminateTask \<Rightarrow> channel_send ToTerminate ''terminating, don't care if we panic''
     | HealthCheckTask task \<Rightarrow> bind electrum_health (\<lambda>health. locked (send_health_result (hc_id task) health source)))"

text \<open>The task that receives the tasks, and the one that gives the events to the bridge.\<close>

definition btc_task_receiver :: "polled_task \<Rightarrow> unit btc_action" where
  "btc_task_receiver = receive_task btc_take_task"

definition btc_event_sender :: "bridge_socket \<Rightarrow> bytes \<Rightarrow> bridge_event list \<Rightarrow> unit btc_action" where
  "btc_event_sender push syncer_address =
     bridge_event_sender push syncer_address ''failed to send from bitcoin syncer to syncerd bridge''"

text \<open>
  The task that ends the syncer: it waits until it is sent the word, or nobody can send it any more, and
  panics, which ends the join of all the tasks.
\<close>

definition terminate_polling :: "bool \<Rightarrow> unit btc_action" where
  "terminate_polling woken = lift_res (if woken then Panic ''terminate this thread'' else Hang)"

section \<open>The polling tasks\<close>

text \<open>A round over the addresses that are not subscribed yet; an error leaves the loop.\<close>

definition mark_subscribed :: "internal_id \<Rightarrow> syncer_state \<Rightarrow> syncer_state" where
  "mark_subscribed i s = (case hm_get (addresses s) i of
       Some a \<Rightarrow> s\<lparr>addresses := hm_insert i (a\<lparr>subscribed := True\<rparr>) (addresses s)\<rparr>
     | None \<Rightarrow> s)"

fun is_already_subscribed :: "electrum \<Rightarrow> error \<Rightarrow> bool" where
  "is_already_subscribed w (SyncerErr (Electrum e)) = already_subscribed w e"
| "is_already_subscribed w _ = False"

fun subscribe_addresses :: "(internal_id \<times> address_transactions) list \<Rightarrow> unit btc_action" where
  "subscribe_addresses [] = skip"
| "subscribe_addresses ((i, address) # rest) = (case wa_addendum (at_task address) of
       BitcoinAddendum addendum \<Rightarrow>
         if subscribed address then subscribe_addresses rest
         else bind (attempt (script_subscribe addendum (wa_filter (at_task address)))) (\<lambda>r. case r of
             Inr (_, txs) \<Rightarrow> steps [
               locked (steps [modify (mark_subscribed i)] (change_address (BitcoinAddendum addendum) (remdups txs)))]
               (subscribe_addresses rest)
           | Inl e \<Rightarrow> reads server (\<lambda>w. if is_already_subscribed w e then subscribe_addresses rest else skip))
     | MoneroAddendum _ \<Rightarrow> subscribe_addresses rest)"

definition btc_address_round :: "nat \<Rightarrow> unit btc_action" where
  "btc_address_round fuel = bind (locked (reads addresses ret)) (\<lambda>watched. steps [subscribe_addresses watched]
     (bind (address_change_check fuel) (\<lambda>notifs. on (notifs \<noteq> [])
       (locked (for_each (rev notifs) (\<lambda>(address, txs). change_address (BitcoinAddendum address) (remdups txs)))))))"

text \<open>The inner loop, until a ping fails or the rounds observed are over; then all is unsubscribed.\<close>

fun address_rounds :: "nat \<Rightarrow> nat \<Rightarrow> unit btc_action" where
  "address_rounds fuel 0 = skip"
| "address_rounds fuel (Suc n) = bind (attempt rpc_ping) (\<lambda>r. case r of
       Inl _ \<Rightarrow> locked (modify unsubscribe_addresses)
     | Inr _ \<Rightarrow> steps [btc_address_round fuel] (address_rounds fuel n))"

definition btc_address_polling :: "nat \<Rightarrow> nat \<Rightarrow> unit btc_action" where
  "btc_address_polling fuel n = bind (attempt electrum_rpc_new) (\<lambda>r. case r of
       Inl _ \<Rightarrow> skip
     | Inr _ \<Rightarrow> address_rounds fuel n)"

text \<open>The transactions held back until a height that is below the new one.\<close>

definition due_broadcasts_at :: "u64 \<Rightarrow> (broadcast_transaction \<times> service_id) hash_set \<Rightarrow> (broadcast_transaction \<times> service_id) list" where
  "due_broadcasts_at h pending = filter (\<lambda>(task, _). case bt_after_height task of
       Some after_height \<Rightarrow> after_height < h
     | None \<Rightarrow> False) pending"

fun change_heights :: "(u64 \<times> bytes) list \<Rightarrow> bool \<Rightarrow> (syncer_state, error, bool) action" where
  "change_heights [] block_change = ret block_change"
| "change_heights ((h, hash) # blocks) block_change = bind (change_height h hash) (change_heights blocks)"

definition release_broadcast :: "broadcast_transaction \<times> service_id \<Rightarrow> unit btc_action" where
  "release_broadcast p = steps [channel_try_send (ToBroadcast (fst p) (snd p))]
     (locked (modify (\<lambda>s. s\<lparr>pending_broadcasts := hs_remove p (pending_broadcasts s)\<rparr>)))"

definition height_round :: "(u64 \<times> bytes) list \<Rightarrow> unit btc_action" where
  "height_round blocks = bind (locked (change_heights blocks False)) (\<lambda>block_change. on block_change
     (bind (locked (reads id (\<lambda>s. ret (due_broadcasts_at (block_height s) (pending_broadcasts s))))) (\<lambda>due. steps [
        for_each due release_broadcast]
        (query_transactions False))))"

fun height_rounds :: "nat \<Rightarrow> nat \<Rightarrow> unit btc_action" where
  "height_rounds fuel 0 = skip"
| "height_rounds fuel (Suc n) = bind (attempt (steps [rpc_ping] (new_block_check fuel))) (\<lambda>r. case r of
       Inl _ \<Rightarrow> skip
     | Inr blocks \<Rightarrow> steps [height_round blocks] (height_rounds fuel n))"

definition btc_height_polling :: "nat \<Rightarrow> nat \<Rightarrow> unit btc_action" where
  "btc_height_polling fuel n = bind (attempt electrum_rpc_new) (\<lambda>r. case r of
       Inl _ \<Rightarrow> skip
     | Inr _ \<Rightarrow> reads id (\<lambda>s. steps [
         bind (locked (change_height (rpc_height s) (rpc_block_hash s))) (\<lambda>_. skip)]
         (height_rounds fuel n)))"

fun unseen_rounds :: "nat \<Rightarrow> unit btc_action" where
  "unseen_rounds 0 = skip"
| "unseen_rounds (Suc n) = steps [query_transactions True] (unseen_rounds n)"

definition btc_unseen_polling :: "nat \<Rightarrow> unit btc_action" where
  "btc_unseen_polling n = bind (attempt electrum_rpc_new) (\<lambda>r. case r of
       Inl _ \<Rightarrow> skip
     | Inr _ \<Rightarrow> unseen_rounds n)"

fun fee_rounds :: "nat \<Rightarrow> unit btc_action" where
  "fee_rounds 0 = skip"
| "fee_rounds (Suc n) = bind (attempt (estimate_priority_fee 2 6)) (\<lambda>r. case r of
       Inr (low_fee, high_fee) \<Rightarrow> steps [
         locked (fee_estimated (BitcoinFeeEstimation (sats_per_kvb high_fee) (sats_per_kvb low_fee)))] (fee_rounds n)
     | Inl _ \<Rightarrow> skip)"

definition estimate_fee_polling :: "nat \<Rightarrow> unit btc_action" where
  "estimate_fee_polling n = bind (attempt create_electrum_client) (\<lambda>r. case r of
       Inl _ \<Rightarrow> skip
     | Inr _ \<Rightarrow> fee_rounds n)"

text \<open>A sweep that broadcasts nothing ends the task only when the task does not ask for retries.\<close>

definition sweep_outcome :: "internal_id \<Rightarrow> SyncerTypes.sweep_address \<Rightarrow> bytes list \<Rightarrow> (syncer_state, error, unit) action" where
  "sweep_outcome i task hashes =
     (if hashes \<noteq> [] then success_sweep i hashes else if \<not> sa_retry task then fail_sweep i else skip)"

definition btc_sweep_task :: "internal_id \<times> SyncerTypes.sweep_address \<Rightarrow> unit btc_action" where
  "btc_sweep_task = (\<lambda>(i, task). case sa_addendum task of
       SweepBitcoin a \<Rightarrow>
         bind (attempt (btc_sweep_address (sba_source_secret_key a) (sba_source_address a) (sba_destination a))) (\<lambda>r.
           locked (sweep_outcome i task (case r of Inr hashes \<Rightarrow> hashes | Inl _ \<Rightarrow> [])))
     | SweepMonero _ \<Rightarrow> skip)"

definition btc_sweep_polling :: "unit btc_action" where
  "btc_sweep_polling = bind (locked (reads sweep_addresses ret)) (\<lambda>tasks. on (tasks \<noteq> [])
     (bind (attempt create_electrum_client) (\<lambda>r. case r of
        Inl _ \<Rightarrow> skip
      | Inr _ \<Rightarrow> for_each tasks btc_sweep_task)))"

section \<open>The tasks that answer one request at a time\<close>

definition bridge :: "event \<Rightarrow> service_id \<Rightarrow> string \<Rightarrow> unit btc_action" where
  "bridge e source msg = channel_send (ToBridge (BridgeEvent e source)) msg"

definition with_client :: "(electrum \<Rightarrow> nat \<Rightarrow> (string, 'a) result) \<Rightarrow> 'a btc_action" where
  "with_client f = steps [create_electrum_client] (call_server f)"

fun electrum_text :: "error \<Rightarrow> string" where
  "electrum_text (SyncerErr (Electrum e)) = e"
| "electrum_text _ = ''error''"

definition transaction_broadcasting :: "broadcast_transaction \<Rightarrow> service_id \<Rightarrow> unit btc_action" where
  "transaction_broadcasting b source =
     bind (attempt (with_client (\<lambda>w n. el_broadcast_raw w n (bt_tx b)))) (\<lambda>r.
       bridge (TransactionBroadcastedEv (TransactionBroadcasted (bt_id b) (bt_tx b)
          (case r of Inr _ \<Rightarrow> None | Inl e \<Rightarrow> Some (''failed to broadcast tx: '' @ electrum_text e)))) source
         ''error sending transaction broadcast event'')"

definition transaction_fetcher :: "get_tx \<Rightarrow> service_id \<Rightarrow> unit btc_action" where
  "transaction_fetcher g source = reads lib (\<lambda>L.
     bind (attempt (steps [create_electrum_client]
       (bind (lift_res (expect ''invalid txid in transaction_get'' (txid_of_slice L (gt_hash g)))) (\<lambda>txid.
         call_server (\<lambda>w n. el_transaction_get w n txid))))) (\<lambda>r.
       bridge (TransactionRetrievedEv (TransactionRetrieved (gt_id g)
          (case r of Inr tx \<Rightarrow> Some (tx_of_bitcoin L tx) | Inl _ \<Rightarrow> None))) source
         ''error sending transaction retrieved event''))"

text \<open>\<open>i64::unsigned_abs\<close>.\<close>

definition unsigned_abs :: "int \<Rightarrow> u64" where
  "unsigned_abs i = of_int \<bar>i\<bar>"

definition btc_balance_fetcher :: "get_address_balance \<Rightarrow> service_id \<Rightarrow> unit btc_action" where
  "btc_balance_fetcher g source = (case ga_address_secret_key g of
       MoneroAddressKey a _ \<Rightarrow> bridge (AddressBalanceEv (AddressBalance (ga_id g) (MoneroAddr a) 0
           (Some ''Sent monero address balance to bitcoin syncer''))) source ''error sending address balance event''
     | BitcoinAddressKey a _ \<Rightarrow>
         bind (attempt (with_client (\<lambda>w n. el_script_get_balance w n (btc_script a)))) (\<lambda>r.
           bridge (AddressBalanceEv (case r of
               Inr (confirmed, unconfirmed) \<Rightarrow> AddressBalance (ga_id g) (BitcoinAddr a) (unsigned_abs unconfirmed) None
             | Inl e \<Rightarrow> AddressBalance (ga_id g) (BitcoinAddr a) 0 (Some (electrum_text e)))) source
             ''error sending address balance event''))"

section \<open>Start\<close>

text \<open>\<open>Synclet::run\<close>: each task starts with the shared state of a new syncer.\<close>

definition btc_synclet_run ::
  "string option \<Rightarrow> string option \<Rightarrow> electrum \<Rightarrow> bitcoin_lib \<Rightarrow> (nat \<Rightarrow> syncer_state \<Rightarrow> syncer_state)
     \<Rightarrow> (channel_item \<Rightarrow> bool) \<Rightarrow> (error, electrum_rpc) result" where
  "btc_synclet_run server_url tor_proxy w L others shut = (case server_url of
       Some url \<Rightarrow> Ok \<lparr>shared = new_syncer_state Bitcoin, lock_count = 0, interference = others, sent = [], closed = shut,
         calls = 0, server = w, lib = L, electrum_server = url, proxy_address = tor_proxy, rpc_height = 0,
         rpc_block_hash = [], rpc_addresses = [], ping_count = 0\<rparr>
     | None \<Rightarrow> Err (SyncerErr InvalidConfig))"

end
