(* ===== verification/MoneroSyncer.thy ===== *)
theory MoneroSyncer
  imports Synclet Core
begin

text \<open>
  The syncer of Monero (\<open>syncerd/monero_syncer.rs\<close>): the tasks that ask a Monero daemon, a wallet RPC
  server or a light wallet server. What they answer is the record \<open>monerod\<close>, by the number of the call;
  the wallet behind its own mutex is only used through it. The loops of the tasks never end; they are
  run here for a number of rounds. Log lines and pauses are left out.
\<close>

section \<open>The servers\<close>

text \<open>\<open>MoneroSyncerServers\<close>.\<close>

record monero_syncer_servers =
  monero_daemon :: string
  monero_rpc_wallet :: string
  monero_lws :: "string option"

text \<open>
  The categories of transfers, and a wallet to be made when it cannot be opened: its name, address,
  restore height, and the spend and view keys it gets.
\<close>

datatype transfers_category = TransfersIn | TransfersOut | TransfersPending | TransfersPool | OtherTransfers string

datatype wallet_keys = WalletKeys (wk_filename: string) (wk_address: xmr_address) (wk_restore_height: "u64 option")
  (wk_spend: "xmr_privkey option") (wk_view: xmr_privkey)

record monerod =
  mo_client :: "string \<Rightarrow> string option \<Rightarrow> bool"
  mo_block_count :: "nat \<Rightarrow> string \<Rightarrow> (string, u64) result"
  mo_block_hash :: "nat \<Rightarrow> u64 \<Rightarrow> (string, bytes) result"
  mo_transactions :: "nat \<Rightarrow> bytes list \<Rightarrow> (string, (bytes \<times> u64 option) list option \<times> bytes list option) result"
  mo_wallet_version :: "nat \<Rightarrow> string \<Rightarrow> (string, unit) result"
  mo_open_wallet :: "nat \<Rightarrow> string \<Rightarrow> (string, unit) result"
  mo_generate :: "nat \<Rightarrow> wallet_keys \<Rightarrow> (string, unit) result"
  mo_query_spend_key :: "nat \<Rightarrow> (string, unit) result"
  mo_refresh :: "nat \<Rightarrow> u64 option \<Rightarrow> (string, unit) result"
  mo_balance :: "nat \<Rightarrow> (string, u64 \<times> u64) result"
  mo_sweep_all :: "nat \<Rightarrow> xmr_address \<Rightarrow> (string, bytes option list) result"
  mo_close_wallet :: "nat \<Rightarrow> (string, unit) result"
  mo_transfers :: "nat \<Rightarrow> transfers_category list \<Rightarrow> u64 \<Rightarrow> (string, (transfers_category \<times> (u64 \<times> bytes) list) list) result"
  mo_lws_login :: "nat \<Rightarrow> string \<Rightarrow> xmr_address \<Rightarrow> bool \<Rightarrow> (string, unit) result"
  mo_lws_import :: "nat \<Rightarrow> string \<Rightarrow> xmr_address \<Rightarrow> u64 \<Rightarrow> (string, unit) result"
  mo_lws_txs :: "nat \<Rightarrow> string \<Rightarrow> xmr_address \<Rightarrow> (string, (bool \<times> u64 option \<times> u64 option \<times> bytes) list) result"
  mo_address_text :: "xmr_address \<Rightarrow> string"

record monero_rpc = synclet +
  monerod :: monerod
  monero :: monero_functions
  servers :: monero_syncer_servers
  tor :: "string option"
  daemon_height :: u64
  daemon_block_hash :: bytes

type_synonym 'a xmr_action = "(monero_rpc, error, 'a) action"

definition call_monero :: "(monerod \<Rightarrow> nat \<Rightarrow> (string, 'a) result) \<Rightarrow> 'a xmr_action" where
  "call_monero f = bind next_call (\<lambda>n. reads monerod (\<lambda>w.
     lift_res (err_into (\<lambda>e. SyncerErr (MoneroRpc e)) (f w n))))"

text \<open>A client that cannot be built panics.\<close>

definition create_rpc_client :: "string \<Rightarrow> unit xmr_action" where
  "create_rpc_client url = reads id (\<lambda>s.
     if mo_client (monerod s) url (tor s) then skip
     else lift_res (Panic ''client builder failed, cannot recover from bad configuration''))"

text \<open>The client of the wallet server, which is built before the tasks start.\<close>

definition xmr_wallet_client :: "unit xmr_action" where
  "xmr_wallet_client = reads servers (\<lambda>v. create_rpc_client (monero_rpc_wallet v))"

definition monero_rpc_new :: "unit xmr_action" where
  "monero_rpc_new = reads servers (\<lambda>v. steps [create_rpc_client (monero_daemon v), create_rpc_client (monero_daemon v)]
     (modify (\<lambda>s. s\<lparr>daemon_height := 0, daemon_block_hash := [0]\<rparr>)))"

section \<open>Blocks and transactions\<close>

definition get_height :: "u64 xmr_action" where
  "get_height = reads servers (\<lambda>v. bind (call_monero (\<lambda>w n. mo_block_count w n (monero_daemon v))) (\<lambda>count. ret (count - 1)))"

definition get_block_hash :: "u64 \<Rightarrow> bytes xmr_action" where
  "get_block_hash h = call_monero (\<lambda>w n. mo_block_hash w n h)"

datatype polled_tx = PolledTx (pt_id: bytes) (pt_confirmations: "u32 option") (pt_block_hash: "bytes option")

text \<open>The subtraction of heights wraps.\<close>

definition monero_confirmations :: "u64 \<Rightarrow> u64 \<Rightarrow> u32" where
  "monero_confirmations h tx_height = ucast (h - tx_height + 1)"

fun found_transactions :: "u64 \<Rightarrow> (bytes \<times> u64 option) list \<Rightarrow> polled_tx list \<Rightarrow> polled_tx list xmr_action" where
  "found_transactions h [] txs = ret txs"
| "found_transactions h ((i, None) # found) txs = found_transactions h found (txs @ [PolledTx i (Some 0) None])"
| "found_transactions h ((i, Some tx_height) # found) txs =
     (if 0 < tx_height
      then bind (get_block_hash tx_height) (\<lambda>hash.
        found_transactions h found (txs @ [PolledTx i (Some (monero_confirmations h tx_height)) (Some hash)]))
      else found_transactions h found (txs @ [PolledTx i (Some (monero_confirmations h tx_height)) None]))"

text \<open>Ids that do not fill the buffer of 32 bytes are unwrapped.\<close>

definition get_transactions :: "bytes list \<Rightarrow> polled_tx list xmr_action" where
  "get_transactions tx_ids =
     (if list_all (\<lambda>i. length i = 32) tx_ids
      then bind (call_monero (\<lambda>w n. mo_transactions w n tx_ids)) (\<lambda>(found, missed).
        bind get_height (\<lambda>h.
        bind (found_transactions h (case found of Some l \<Rightarrow> l | None \<Rightarrow> []) []) (\<lambda>txs.
        ret (txs @ map (\<lambda>i. PolledTx i None None) (case missed of Some l \<Rightarrow> l | None \<Rightarrow> [])))))
      else lift_res (Panic ''unwrap on an invalid length''))"

definition check_block :: "(u64 \<times> bytes) xmr_action" where
  "check_block = bind get_height (\<lambda>h. reads daemon_height (\<lambda>known.
     if h \<noteq> known
     then bind (get_block_hash h) (\<lambda>hash. steps [
       modify (\<lambda>s. s\<lparr>daemon_height := h, daemon_block_hash := hash\<rparr>)] (ret (h, hash)))
     else throw (SyncerErr NoIncrementToHeight)))"

section \<open>Addresses\<close>

text \<open>
  A transaction of the light wallet: whether it has no spent outputs, the two amounts as parsed, and
  its hash; an amount that does not parse is unwrapped.
\<close>

fun lws_tx :: "bool \<times> u64 option \<times> u64 option \<times> bytes \<Rightarrow> (error, address_tx) result" where
  "lws_tx (incoming, received, spent, hash) =
     rbind (expect ''unwrap on an error'' (if incoming then received else spent)) (\<lambda>amount.
       Ok (AddressTx amount hash [] incoming))"

fun lws_txs :: "(bool \<times> u64 option \<times> u64 option \<times> bytes) list \<Rightarrow> (error, address_tx list) result" where
  "lws_txs [] = Ok []"
| "lws_txs (t # ts) = rbind (lws_tx t) (\<lambda>x. rbind (lws_txs ts) (\<lambda>xs. Ok (x # xs)))"

definition watched_address :: "network \<Rightarrow> xmr_address_addendum \<Rightarrow> (xmr_address \<Rightarrow> 'a xmr_action) \<Rightarrow> 'a xmr_action" where
  "watched_address net a k = reads monero (\<lambda>x. k (address_from_viewpair x net (xaa_spend_key a) (xaa_view_key a)))"

definition check_address_lws :: "network \<Rightarrow> xmr_address_addendum \<Rightarrow> string \<Rightarrow> address_tx list xmr_action" where
  "check_address_lws net a lws_url = watched_address net a (\<lambda>addr.
     bind (call_monero (\<lambda>w n. mo_lws_txs w n lws_url addr)) (\<lambda>txs. lift_res (lws_txs txs)))"

fun category_selector :: "tx_filter \<Rightarrow> transfers_category list" where
  "category_selector AllTxs = [TransfersIn, TransfersOut, TransfersPending, TransfersPool]"
| "category_selector Incoming = [TransfersIn, TransfersPool]"
| "category_selector Outgoing = [TransfersOut, TransfersPending]"

fun category_incoming :: "transfers_category \<Rightarrow> bool option" where
  "category_incoming TransfersIn = Some True"
| "category_incoming TransfersPool = Some True"
| "category_incoming TransfersOut = Some False"
| "category_incoming TransfersPending = Some False"
| "category_incoming (OtherTransfers _) = None"

definition transfer_txs :: "(transfers_category \<times> (u64 \<times> bytes) list) list \<Rightarrow> address_tx list" where
  "transfer_txs transfers = concat (map (\<lambda>(category, txs). case category_incoming category of
       Some incoming \<Rightarrow> map (\<lambda>(amount, i). AddressTx amount i [0] incoming) txs
     | None \<Rightarrow> []) transfers)"

definition check_address :: "network \<Rightarrow> xmr_address_addendum \<Rightarrow> bool \<Rightarrow> tx_filter \<Rightarrow> address_tx list xmr_action" where
  "check_address net a checked flt = watched_address net a (\<lambda>addr. reads monerod (\<lambda>w.
     let filename = ''watch:'' @ mo_address_text w addr
     in steps [
       bind (attempt (call_monero (\<lambda>w n. mo_open_wallet w n filename))) (\<lambda>r. case r of
           Inr _ \<Rightarrow> skip
         | Inl _ \<Rightarrow> steps [
             call_monero (\<lambda>w n. mo_generate w n
               (WalletKeys filename addr (Some (xaa_from_height a)) None (xaa_view_key a)))]
             (call_monero (\<lambda>w n. mo_open_wallet w n filename))),
       on (\<not> checked) (call_monero (\<lambda>w n. mo_refresh w n None))]
       (bind (call_monero (\<lambda>w n. mo_transfers w n (category_selector flt) (xaa_from_height a))) (\<lambda>transfers.
         ret (transfer_txs transfers)))))"

section \<open>Wallets that spend\<close>

text \<open>The loop that opens a wallet, making it as long as it cannot be opened, runs with a fuel.\<close>

fun open_or_generate :: "nat \<Rightarrow> wallet_keys \<Rightarrow> unit xmr_action" where
  "open_or_generate 0 keys = lift_res Hang"
| "open_or_generate (Suc fuel) keys =
     bind (attempt (call_monero (\<lambda>w n. mo_open_wallet w n (wk_filename keys)))) (\<lambda>r. case r of
       Inr _ \<Rightarrow> skip
     | Inl _ \<Rightarrow> steps [call_monero (\<lambda>w n. mo_generate w n keys)] (open_or_generate fuel keys))"

text \<open>The wallet's files are removed at the end; a failure to is only logged.\<close>

definition xmr_sweep_address :: "nat \<Rightarrow> network \<Rightarrow> sweep_monero_address \<Rightarrow> bytes list xmr_action" where
  "xmr_sweep_address fuel net a = reads monero (\<lambda>x. reads monerod (\<lambda>w.
     let source = address_from_keypair x net (sma_source_view_key a) (sma_source_spend_key a)
     in steps [
       open_or_generate fuel (WalletKeys (''sweep:'' @ mo_address_text w source) source (sma_from_height a)
         (Some (sma_source_spend_key a)) (sma_source_view_key a)),
       call_monero mo_query_spend_key,
       call_monero (\<lambda>w n. mo_refresh w n (sma_from_height a))]
       (bind (call_monero mo_balance) (\<lambda>(balance, unlocked).
          if sma_minimum_balance a \<le> unlocked
          then bind (call_monero (\<lambda>w n. mo_sweep_all w n (sma_destination a))) (\<lambda>hashes. steps [
            call_monero mo_close_wallet] (ret (List.map_filter id hashes)))
          else ret []))))"

definition fetch_balance :: "nat \<Rightarrow> xmr_address \<Rightarrow> xmr_privkey \<Rightarrow> u64 option \<Rightarrow> u64 xmr_action" where
  "fetch_balance fuel addr viewkey creation_height = reads monerod (\<lambda>w. steps [
     open_or_generate fuel (WalletKeys (''balance:'' @ mo_address_text w addr) addr creation_height None viewkey),
     call_monero (\<lambda>w n. mo_refresh w n creation_height)]
     (bind (call_monero mo_balance) (\<lambda>(balance, unlocked). ret balance)))"

section \<open>The tasks given to the syncer\<close>

fun monero_text :: "error \<Rightarrow> string" where
  "monero_text (SyncerErr (MoneroRpc e)) = e"
| "monero_text _ = ''error''"

text \<open>Both probes go to the URL of the daemon, also the one of the wallet.\<close>

definition monero_health :: "health xmr_action" where
  "monero_health = reads servers (\<lambda>v. steps [create_rpc_client (monero_daemon v)]
     (bind (attempt (call_monero (\<lambda>w n. mo_block_count w n (monero_daemon v)))) (\<lambda>r.
      steps [create_rpc_client (monero_daemon v)]
     (bind (attempt (call_monero (\<lambda>w n. mo_wallet_version w n (monero_daemon v)))) (\<lambda>q. ret (case q of
         Inr _ \<Rightarrow> (case r of Inr _ \<Rightarrow> Healthy | Inl e \<Rightarrow> FaultyMoneroDaemon (monero_text e))
       | Inl e \<Rightarrow> FaultyMoneroRpcWallet (monero_text e)))))))"

definition bridge_xmr :: "event \<Rightarrow> service_id \<Rightarrow> string \<Rightarrow> unit xmr_action" where
  "bridge_xmr e source msg = channel_send (ToBridge (BridgeEvent e source)) msg"

definition xmr_take_task :: "syncerd_task \<Rightarrow> unit xmr_action" where
  "xmr_take_task t = (let source = sdt_source t in case sdt_task t of
       GetTxTask _ \<Rightarrow> skip
     | GetAddressBalanceTask task \<Rightarrow> channel_send (ToBalance task source) ''failed on balance_get sender''
     | WatchEstimateFeeTask _ \<Rightarrow> skip
     | SweepAddressTask task \<Rightarrow> (case sa_addendum task of
           SweepMonero _ \<Rightarrow> locked (modify (SyncerState.sweep_address task source))
         | _ \<Rightarrow> abort_wrong_chain (sa_id task) source)
     | AbortTask task \<Rightarrow> locked (SyncerState.abort (ab_target task) source (bool_from (ab_respond task)))
     | BroadcastTransactionTask task \<Rightarrow> bridge_xmr (TransactionBroadcastedEv (TransactionBroadcasted (bt_id task)
           (bt_tx task) (Some ''broadcast transaction not available for Monero''))) source
           ''error sending the transaction broadcast event event from the syncer state''
     | WatchAddressTask task \<Rightarrow> (case wa_addendum task of
           MoneroAddendum _ \<Rightarrow> locked (modify (SyncerState.watch_address task source))
         | _ \<Rightarrow> abort_wrong_chain (wa_id task) source)
     | WatchHeightTask task \<Rightarrow> locked (SyncerState.watch_height task source)
     | WatchTransactionTask task \<Rightarrow> locked (modify (SyncerState.watch_transaction task source))
     | TerminateTask \<Rightarrow> skip
     | HealthCheckTask task \<Rightarrow> bind monero_health (\<lambda>health. locked (send_health_result (hc_id task) health source)))"

text \<open>The task that receives the tasks, and the one that gives the events to the bridge.\<close>

definition xmr_task_receiver :: "polled_task \<Rightarrow> unit xmr_action" where
  "xmr_task_receiver = receive_task xmr_take_task"

definition xmr_event_sender :: "bridge_socket \<Rightarrow> bytes \<Rightarrow> bridge_event list \<Rightarrow> unit xmr_action" where
  "xmr_event_sender push syncer_address =
     bridge_event_sender push syncer_address ''failed to send over zmq socket to the bridge''"

section \<open>The polling tasks\<close>

definition subscribe_address_lws :: "network \<Rightarrow> xmr_address_addendum \<Rightarrow> string \<Rightarrow> unit xmr_action" where
  "subscribe_address_lws net a lws_url = watched_address net a (\<lambda>addr. steps [
     call_monero (\<lambda>w n. mo_lws_login w n lws_url addr True),
     call_monero (\<lambda>w n. mo_lws_login w n lws_url addr False)]
     (call_monero (\<lambda>w n. mo_lws_import w n lws_url addr (xaa_from_height a))))"

definition change_xmr_address :: "xmr_address_addendum \<Rightarrow> address_tx list \<Rightarrow> unit xmr_action" where
  "change_xmr_address a txs = locked (change_address (MoneroAddendum a) (remdups txs))"

text \<open>
  A round over the watched addresses, given the addenda subscribed when it began; an error of the
  light wallet server makes the next address forget all subscriptions.
\<close>

definition lws_round_step ::
  "network \<Rightarrow> string \<Rightarrow> address_addendum list \<Rightarrow> internal_id \<Rightarrow> xmr_address_addendum \<Rightarrow> bool \<Rightarrow> bool xmr_action" where
  "lws_round_step net lws_url known i a needs_resubscribe = steps [
     on needs_resubscribe (locked (modify (\<lambda>s. s\<lparr>subscribed_addresses := []\<rparr>)))]
     (bind (if MoneroAddendum a \<in> set known then ret (Inr ())
            else bind (attempt (subscribe_address_lws net a lws_url)) (\<lambda>r. case r of
                Inr _ \<Rightarrow> steps [locked (modify (address_subscribed i))] (ret (Inr ()))
              | Inl e \<Rightarrow> ret (Inl e)))
      (\<lambda>r. case r of
          Inl _ \<Rightarrow> ret True
        | Inr _ \<Rightarrow> bind (attempt (check_address_lws net a lws_url)) (\<lambda>q. case q of
            Inl _ \<Rightarrow> ret True
          | Inr txs \<Rightarrow> steps [change_xmr_address a txs] (ret False))))"

definition wallet_round_step :: "network \<Rightarrow> address_transactions \<Rightarrow> xmr_address_addendum \<Rightarrow> unit xmr_action" where
  "wallet_round_step net watched a =
     bind (attempt (check_address net a (initial_check_done watched) (wa_filter (at_task watched)))) (\<lambda>q. case q of
       Inl _ \<Rightarrow> skip
     | Inr txs \<Rightarrow> change_xmr_address a txs)"

fun poll_addresses ::
  "network \<Rightarrow> address_addendum list \<Rightarrow> (internal_id \<times> address_transactions) list \<Rightarrow> bool \<Rightarrow> unit xmr_action" where
  "poll_addresses net known [] needs_resubscribe = skip"
| "poll_addresses net known ((i, watched) # rest) needs_resubscribe = (case wa_addendum (at_task watched) of
       MoneroAddendum a \<Rightarrow> reads servers (\<lambda>v. case monero_lws v of
           Some url \<Rightarrow> bind (lws_round_step net url known i a needs_resubscribe) (poll_addresses net known rest)
         | None \<Rightarrow> steps [wallet_round_step net watched a] (poll_addresses net known rest needs_resubscribe))
     | BitcoinAddendum _ \<Rightarrow> lift_res (Panic ''should never get an invalid address''))"

definition xmr_address_round :: "network \<Rightarrow> unit xmr_action" where
  "xmr_address_round net = bind (locked (reads id (\<lambda>s. ret (addresses s, subscribed_addresses s))))
     (\<lambda>(watched, known). poll_addresses net known watched False)"

definition change_polled :: "polled_tx list \<Rightarrow> (syncer_state, error, unit) action" where
  "change_polled txs = for_each txs (\<lambda>t. change_transaction (pt_id t) (pt_block_hash t) (pt_confirmations t) [])"

definition poll_transactions :: "bytes list \<Rightarrow> unit xmr_action" where
  "poll_transactions tx_ids = bind (attempt (get_transactions tx_ids)) (\<lambda>r.
     locked (change_polled (case r of Inr txs \<Rightarrow> txs | Inl _ \<Rightarrow> [])))"

definition xmr_height_round :: "unit xmr_action" where
  "xmr_height_round = bind (attempt check_block) (\<lambda>r. case r of
       Inl _ \<Rightarrow> skip
     | Inr (h, hash) \<Rightarrow> bind (locked (bind (change_height h hash) (\<lambda>_. reads transactions ret))) (\<lambda>txs.
         on (txs \<noteq> []) (poll_transactions (map (\<lambda>(_, w). wt_hash (wtx_task w)) txs))))"

definition xmr_sweep_task :: "nat \<Rightarrow> network \<Rightarrow> internal_id \<times> SyncerTypes.sweep_address \<Rightarrow> unit xmr_action" where
  "xmr_sweep_task fuel net = (\<lambda>(i, task). case sa_addendum task of
       SweepMonero a \<Rightarrow> bind (attempt (xmr_sweep_address fuel net a)) (\<lambda>r. locked
         (let hashes = (case r of Inr hs \<Rightarrow> hs | Inl _ \<Rightarrow> [])
          in if hashes \<noteq> [] then success_sweep i hashes else if \<not> sa_retry task then fail_sweep i else skip))
     | SweepBitcoin _ \<Rightarrow> skip)"

definition xmr_sweep_polling :: "nat \<Rightarrow> network \<Rightarrow> unit xmr_action" where
  "xmr_sweep_polling fuel net = bind (locked (reads sweep_addresses ret)) (\<lambda>tasks. for_each tasks (xmr_sweep_task fuel net))"

definition xmr_unseen_round :: "unit xmr_action" where
  "xmr_unseen_round = bind (locked (reads id (\<lambda>s. lift_res
       (hashes_of ''attempted fetching a monero syncer state transaction that does not exist'' (unseen_transactions s) (transactions s)))))
     (\<lambda>tx_ids. on (tx_ids \<noteq> []) (poll_transactions tx_ids))"

definition xmr_balance_fetcher :: "nat \<Rightarrow> get_address_balance \<Rightarrow> service_id \<Rightarrow> unit xmr_action" where
  "xmr_balance_fetcher fuel g source = (case ga_address_secret_key g of
       MoneroAddressKey a info \<Rightarrow> bind (attempt (fetch_balance fuel a (msk_view info) (msk_creation_height info))) (\<lambda>r.
         bridge_xmr (AddressBalanceEv (case r of
             Inr balance \<Rightarrow> AddressBalance (ga_id g) (MoneroAddr a) balance None
           | Inl e \<Rightarrow> AddressBalance (ga_id g) (MoneroAddr a) 0 (Some (monero_text e)))) source
           ''error sending address balance event'')
     | BitcoinAddressKey a _ \<Rightarrow> bridge_xmr (AddressBalanceEv (AddressBalance (ga_id g) (BitcoinAddr a) 0
           (Some ''Sent monero address balance to bitcoin syncer''))) source ''error sending address balance event'')"

section \<open>Start\<close>

definition xmr_synclet_run ::
  "string option \<Rightarrow> string option \<Rightarrow> string option \<Rightarrow> string option \<Rightarrow> monerod \<Rightarrow> monero_functions
     \<Rightarrow> (nat \<Rightarrow> syncer_state \<Rightarrow> syncer_state) \<Rightarrow> (channel_item \<Rightarrow> bool) \<Rightarrow> (error, monero_rpc) result" where
  "xmr_synclet_run daemon_url wallet_url lws tor_proxy w x others shut = (case daemon_url of
       Some d \<Rightarrow> (case wallet_url of
           Some rw \<Rightarrow> Ok \<lparr>shared = new_syncer_state Monero, lock_count = 0, interference = others, sent = [],
             closed = shut, calls = 0, monerod = w, monero = x,
             servers = \<lparr>monero_daemon = d, monero_rpc_wallet = rw, monero_lws = lws\<rparr>, tor = tor_proxy,
             daemon_height = 0, daemon_block_hash = [0]\<rparr>
         | None \<Rightarrow> Err (SyncerErr InvalidConfig))
     | None \<Rightarrow> Err (SyncerErr InvalidConfig))"

end
