(* ===== verification/SyncerdRuntime.thy ===== *)
theory SyncerdRuntime
  imports Esb BitcoinSyncer MoneroSyncer
begin

text \<open>
  The syncer daemon (\<open>syncerd/runtime.rs\<close>): it gives the tasks of the bus to its syncer, keeps them for
  reports, and sends each event of the syncer to the service that asked for it.
\<close>

record syncerd = daemon +
  syd_started :: u64
  tasks :: "syncerd_task hash_set"
  handed_over :: "syncerd_task list"
  task_channel_open :: bool
  syd_exited :: bool

type_synonym 'a syd_action = "(syncerd, error, 'a) action"

text \<open>The start of the synclet of the chain, and the runtime around it; the channel is then open.\<close>

definition syd_initial_runtime :: "blockchain \<Rightarrow> network \<Rightarrow> u64 \<Rightarrow> (nat \<Rightarrow> envelope \<Rightarrow> bool) \<Rightarrow> (error, unit) result
    \<Rightarrow> (error, syncerd) result" where
  "syd_initial_runtime b net now l synclet_run = rbind synclet_run (\<lambda>_.
     Ok \<lparr>identity = Syncer b net, outbox = [], attempts = 0, link = l, syd_started = now, tasks = [], handed_over = [],
       task_channel_open = True, syd_exited = False\<rparr>)"

definition syd_handle_ctl :: "service_id \<Rightarrow> ctl_msg \<Rightarrow> unit syd_action" where
  "syd_handle_ctl source request = (case (request, source) of
       (Hello, _) \<Rightarrow> skip
     | (TerminateCtl, Farcasterd) \<Rightarrow> modify (\<lambda>s. s\<lparr>syd_exited := True\<rparr>)
     | _ \<Rightarrow> throw (NotSupported CtlBus (TOpaque ''request'')))"

text \<open>The clock of the call is an argument; times before the start count as nothing.\<close>

definition syncer_info_of :: "(service_id \<Rightarrow> string) \<Rightarrow> u64 \<Rightarrow> syncerd \<Rightarrow> syncer_info" where
  "syncer_info_of id_text now s =
     SyncerInfo (id_text (identity s)) (if syd_started s \<le> now then unat (now - syd_started s) else 0) (syd_started s) (tasks s)"

definition syd_handle_info :: "(service_id \<Rightarrow> string) \<Rightarrow> u64 \<Rightarrow> service_id \<Rightarrow> info_msg \<Rightarrow> unit syd_action" where
  "syd_handle_info id_text now source request = (case request of
       GetInfo \<Rightarrow> reads id (\<lambda>s. send_client_info source (SyncerInfoMsg (syncer_info_of id_text now s)))
     | ListTasks \<Rightarrow> reads tasks (\<lambda>ts. send_client_info source (TaskList ts))
     | _ \<Rightarrow> skip)"

text \<open>A task that cannot be given to the syncer is kept; the error is only logged.\<close>

definition syd_handle_sync :: "service_id \<Rightarrow> sync_msg \<Rightarrow> unit syd_action" where
  "syd_handle_sync source request = (case request of
       TaskMsg task \<Rightarrow> modify (\<lambda>s. let t = SyncerdTask task source in s\<lparr>tasks := hs_insert t (tasks s),
         handed_over := (if task_channel_open s then handed_over s @ [t] else handed_over s)\<rparr>)
     | _ \<Rightarrow> skip)"

definition syd_handle_bridge :: "sync_msg \<Rightarrow> unit syd_action" where
  "syd_handle_bridge request = (case request of
       BridgeEventMsg (BridgeEvent e dest) \<Rightarrow> send_from_self SyncBus dest (Sync (EventMsg e))
     | _ \<Rightarrow> skip)"

definition syd_handle :: "(service_id \<Rightarrow> string) \<Rightarrow> u64 \<Rightarrow> service_bus \<Rightarrow> service_id \<Rightarrow> bus_msg \<Rightarrow> unit syd_action" where
  "syd_handle id_text now bus source request = (case (bus, request) of
       (CtlBus, Ctl req) \<Rightarrow> syd_handle_ctl source req
     | (InfoBus, Info req) \<Rightarrow> syd_handle_info id_text now source req
     | (SyncBus, Sync req) \<Rightarrow> syd_handle_sync source req
     | (BridgeBus, Sync req) \<Rightarrow> syd_handle_bridge req
     | _ \<Rightarrow> throw (NotSupported bus (TOpaque ''request'')))"

end
