(* ===== verification/SyncletSafety.thy ===== *)
theory SyncletSafety
  imports SyncerInvariants BitcoinSyncer MoneroSyncer
begin

text \<open>
  The tasks of a chain syncer share its state and run in any order. Each of their critical sections
  keeps the state consistent, so whatever the others do while one of them waits for the lock, none of
  them panics on what it finds in the state.
\<close>

section \<open>The watched transactions and addresses\<close>

definition watched_ok :: "(bytes \<Rightarrow> bool) \<Rightarrow> (address_addendum \<Rightarrow> bool) \<Rightarrow> syncer_state \<Rightarrow> bool" where
  "watched_ok V P s \<longleftrightarrow> set (unseen_transactions s) \<subseteq> hm_keys (transactions s)
     \<and> (\<forall>(i, w) \<in> set (transactions s). V (wt_hash (wtx_task w)))
     \<and> (\<forall>(i, a) \<in> set (addresses s). P (wa_addendum (at_task a)))"

definition good :: "(bytes \<Rightarrow> bool) \<Rightarrow> (address_addendum \<Rightarrow> bool) \<Rightarrow> syncer_state \<Rightarrow> bool" where
  "good V P s \<longleftrightarrow> served s \<and> watched_ok V P s"

lemma watched_ok_same:
  assumes "watched_ok V P s" and "unseen_transactions t = unseen_transactions s" and "transactions t = transactions s"
    and "addresses t = addresses s"
  shows "watched_ok V P t"
  using assms by (simp add: watched_ok_def)

lemma watched_ok_new: "watched_ok V P (new_syncer_state b)"
  by (simp add: watched_ok_def new_syncer_state_def)

lemma watched_ok_events [simp]:
  "watched_ok V P (s\<lparr>tx_event := e\<rparr>) = watched_ok V P s" "watched_ok V P (s\<lparr>lifetimes := l\<rparr>) = watched_ok V P s"
  "watched_ok V P (s\<lparr>fee_estimate := f\<rparr>) = watched_ok V P s" "watched_ok V P (s\<lparr>task_count := n\<rparr>) = watched_ok V P s"
  "watched_ok V P (s\<lparr>tasks_sources := ts\<rparr>) = watched_ok V P s" "watched_ok V P (s\<lparr>height_tasks := hs\<rparr>) = watched_ok V P s"
  "watched_ok V P (s\<lparr>fee_tasks := fs\<rparr>) = watched_ok V P s" "watched_ok V P (s\<lparr>sweep_addresses := sw\<rparr>) = watched_ok V P s"
  "watched_ok V P (s\<lparr>pending_broadcasts := pb\<rparr>) = watched_ok V P s"
  "watched_ok V P (s\<lparr>subscribed_addresses := sa\<rparr>) = watched_ok V P s"
  "watched_ok V P (s\<lparr>block_height := bh, block_hash := bk\<rparr>) = watched_ok V P s"
  "watched_ok V P (s\<lparr>block_hash := bk\<rparr>) = watched_ok V P s" "watched_ok V P (s\<lparr>block_height := bh\<rparr>) = watched_ok V P s"
  by (simp_all add: watched_ok_def)

lemma set_hm_remove: "set (hm_remove i m) \<subseteq> set m"
  by (auto simp: AList.delete_eq)

lemma set_hm_insert: "set (hm_insert k v m) \<subseteq> insert (k, v) (set m)"
  by (induction m) auto

lemma ball_hm_insert: "Q (k, v) \<Longrightarrow> \<forall>e \<in> set m. Q e \<Longrightarrow> \<forall>e \<in> set (hm_insert k v m). Q e"
  using set_hm_insert [of k v m] by blast

lemma watched_ok_insert:
  assumes "watched_ok V P s"
  shows "V (wt_hash (wtx_task w)) \<Longrightarrow> watched_ok V P (s\<lparr>transactions := hm_insert i w (transactions s), unseen_transactions := u\<rparr>)
      \<longleftrightarrow> set u \<subseteq> insert i (hm_keys (transactions s))"
    and "P (wa_addendum (at_task a)) \<Longrightarrow> watched_ok V P (s\<lparr>addresses := hm_insert i a (addresses s)\<rparr>)"
  using assms ball_hm_insert [of "\<lambda>(i, w). V (wt_hash (wtx_task w))" i w "transactions s"]
    ball_hm_insert [of "\<lambda>(i, a). P (wa_addendum (at_task a))" i a "addresses s"]
  by (auto simp: watched_ok_def)

lemma watched_ok_less:
  assumes "watched_ok V P s" and "set (unseen_transactions t) \<subseteq> hm_keys (transactions t)"
    and "set (transactions t) \<subseteq> set (transactions s)" and "set (addresses t) \<subseteq> set (addresses s)"
  shows "watched_ok V P t"
  using assms unfolding watched_ok_def by blast

lemma watched_ok_forget_lifetime: "watched_ok V P (forget_lifetime l i s) = watched_ok V P s"
  by (auto simp: forget_lifetime_def Let_def split: option.splits)

lemma watched_ok_drop:
  assumes "watched_ok V P s"
  shows "watched_ok V P (drop_task i s)"
  using assms set_hm_remove [of i "transactions s"] set_hm_remove [of i "addresses s"]
  by (intro watched_ok_less [OF assms]) (auto simp: drop_task_def watched_ok_def)

lemma watched_ok_removals:
  assumes ok: "watched_ok V P s"
  shows "watched_ok V P (remove_transaction i s)" and "watched_ok V P (remove_address i s)"
    and "watched_ok V P (remove_height i s)" and "watched_ok V P (remove_sweep_address i s)"
proof -
  have forgotten: "watched_ok V P (case x of Some w \<Rightarrow> forget_lifetime (l w) i s | None \<Rightarrow> s)" for x :: "'w option" and l
    using ok by (simp add: watched_ok_forget_lifetime split: option.split)
  have smaller: "watched_ok V P (t\<lparr>transactions := hm_remove i (transactions t),
      unseen_transactions := hs_remove i (unseen_transactions t)\<rparr>)" if "watched_ok V P t" for t
    using that set_hm_remove [of i "transactions t"] by (auto simp: watched_ok_def)
  have fewer: "watched_ok V P (t\<lparr>addresses := hm_remove i (addresses t)\<rparr>)" if "watched_ok V P t" for t
    using that set_hm_remove [of i "addresses t"] by (auto simp: watched_ok_def)
  show "watched_ok V P (remove_transaction i s)"
    using smaller [OF forgotten] by (simp add: remove_transaction_def Let_def)
  show "watched_ok V P (remove_address i s)"
    using fewer [OF forgotten] by (simp add: remove_address_def Let_def)
  show "watched_ok V P (remove_height i s)" "watched_ok V P (remove_sweep_address i s)"
    using forgotten by (simp_all add: remove_height_def remove_sweep_address_def Let_def)
qed

lemma watched_ok_drop_lifetime: "watched_ok V P s \<Longrightarrow> watched_ok V P (drop_lifetime l s)"
proof -
  assume ok: "watched_ok V P s"
  have "watched_ok V P (fold drop_task ids t)" if "watched_ok V P t" for ids t
    using that by (induction ids arbitrary: t) (auto intro: watched_ok_drop)
  then show ?thesis using ok by (simp add: drop_lifetime_def split: option.split)
qed

lemma watched_ok_drop_lifetimes: "watched_ok V P s \<Longrightarrow> watched_ok V P (drop_lifetimes s)"
proof -
  assume ok: "watched_ok V P s"
  have "watched_ok V P (fold (\<lambda>l s. if l < block_height s then drop_lifetime l s else s) ls t)" if "watched_ok V P t" for ls t
    using that by (induction ls arbitrary: t) (auto intro: watched_ok_drop_lifetime)
  then show ?thesis using ok by (simp add: drop_lifetimes_def)
qed

lemma watched_ok_abort_ids:
  assumes "\<And>i s. watched_ok V P s \<Longrightarrow> watched_ok V P (remove i s)"
  shows "watched_ok V P s \<Longrightarrow> watched_ok V P (snd (abort_ids remove source ids s))"
  by (induction ids arbitrary: s) (auto simp: assms split_def Let_def)

lemma watched_ok_abort_tasks: "watched_ok V P s \<Longrightarrow> watched_ok V P (snd (abort_tasks t source s))"
  by (simp add: abort_tasks_def Let_def split_def watched_ok_abort_ids watched_ok_removals)

section \<open>Each operation of the state\<close>

lemma good_both:
  assumes "wp m (\<lambda>_. served) no_failure s" and "\<And>x t. m s = (Ok x, t) \<Longrightarrow> watched_ok V P t"
  shows "wp m (\<lambda>_. good V P) no_failure s"
  using assms by (auto simp: wp_def good_def split: prod.splits result.splits)

lemma good_served: "good V P s \<Longrightarrow> served s" and good_watched: "good V P s \<Longrightarrow> watched_ok V P s"
  by (simp_all add: good_def)

lemma send_event_watched: "send_event es s = (r, t) \<Longrightarrow> watched_ok V P t = watched_ok V P s"
  by (auto simp: send_event_def split: if_splits)

lemma good_abort: "good V P s \<Longrightarrow> wp (SyncerState.abort target source respond) (\<lambda>_. good V P) no_failure s"
proof (rule good_both)
  assume ok: "good V P s"
  show "wp (SyncerState.abort target source respond) (\<lambda>_. served) no_failure s"
    using ok by (intro served_abort) (rule good_served)
  show "watched_ok V P t" if "SyncerState.abort target source respond s = (Ok x, t)" for x t
    using that watched_ok_abort_tasks [OF good_watched [OF ok], of "abort_target target" source]
    by (auto simp: abort_def bind_def run_simps send_event_watched split: if_splits dest!: send_event_watched [where V = V and P = P])
qed

lemma good_watch_height:
  assumes "good V P s" and "has_next_id s"
  shows "wp (SyncerState.watch_height task source) (\<lambda>_. good V P) no_failure s"
proof (rule good_both)
  show "wp (SyncerState.watch_height task source) (\<lambda>_. served) no_failure s"
    using assms by (intro served_watch_height) (auto simp: good_def)
  show "watched_ok V P t" if "SyncerState.watch_height task source s = (Ok x, t)" for x t
    using that good_watched [OF assms(1)]
    by (auto simp: SyncerState.watch_height_def bind_def run_simps add_lifetime_def insert_lifetime_def increment_def
        split: if_splits option.splits dest!: send_event_watched [where V = V and P = P])
qed

lemma good_estimate_fee:
  assumes "good V P s" and "has_next_id s"
  shows "wp (estimate_fee task source) (\<lambda>_. good V P) no_failure s"
proof (rule good_both)
  show "wp (estimate_fee task source) (\<lambda>_. served) no_failure s"
    using assms by (intro served_estimate_fee) (auto simp: good_def)
  show "watched_ok V P t" if "estimate_fee task source s = (Ok x, t)" for x t
    using that good_watched [OF assms(1)]
    by (auto simp: estimate_fee_def bind_def run_simps increment_def
        split: option.splits dest!: send_event_watched [where V = V and P = P])
qed

lemma watched_ok_add_lifetime: "watched_ok V P (snd (add_lifetime l i s)) = watched_ok V P s"
  by (auto simp: add_lifetime_def insert_lifetime_def split: option.split)

lemma good_watch_address:
  assumes "good V P s" and "has_next_id s" and "P (wa_addendum task)"
  shows "good V P (SyncerState.watch_address task source s)"
proof -
  let ?s = "snd (add_lifetime (wa_lifetime task) (task_count (increment s)) (increment s))"
  have "watched_ok V P ?s" using good_watched [OF assms(1)] by (simp add: watched_ok_add_lifetime increment_def)
  then have "watched_ok V P (SyncerState.watch_address task source s)"
    using watched_ok_insert(2) [of V P "?s\<lparr>tasks_sources := t\<rparr>" for t] assms(3)
    by (simp add: SyncerState.watch_address_def Let_def split_def)
  then show ?thesis using served_watch_address [of s] assms by (simp add: good_def)
qed

lemma good_watch_transaction:
  assumes "good V P s" and "has_next_id s" and "V (wt_hash task)"
  shows "good V P (SyncerState.watch_transaction task source s)"
proof -
  let ?s = "snd (add_lifetime (wt_lifetime task) (task_count (increment s)) (increment s))"
  have ok: "watched_ok V P ?s" using good_watched [OF assms(1)] by (simp add: watched_ok_add_lifetime increment_def)
  then have "set (unseen_transactions ?s) \<subseteq> hm_keys (transactions ?s)" by (simp add: watched_ok_def)
  then have "watched_ok V P (SyncerState.watch_transaction task source s)"
    using ok watched_ok_insert(1) [of V P "?s\<lparr>tasks_sources := t\<rparr>" for t] assms(3)
    by (auto simp: SyncerState.watch_transaction_def Let_def split_def)
  then show ?thesis using served_watch_transaction [of s] assms by (simp add: good_def)
qed

lemma good_sweep_address:
  assumes "good V P s" and "has_next_id s"
  shows "good V P (SyncerState.sweep_address task source s)"
proof -
  have "watched_ok V P (SyncerState.sweep_address task source s)"
    using good_watched [OF assms(1)]
    by (auto simp: SyncerState.sweep_address_def Let_def insert_lifetime_def increment_def split: option.splits)
  then show ?thesis using served_sweep_address [of s] assms by (simp add: good_def)
qed

lemma good_change_height: "good V P s \<Longrightarrow> wp (change_height h b) (\<lambda>_. good V P) no_failure s"
proof (rule good_both)
  assume ok: "good V P s"
  show "wp (change_height h b) (\<lambda>_. served) no_failure s" using ok by (intro served_change_height) (rule good_served)
  have "watched_ok V P (handle_change_height h b s)"
    using good_watched [OF ok] by (simp add: handle_change_height_def)
  from watched_ok_drop_lifetimes [OF this]
  show "watched_ok V P t" if "change_height h b s = (Ok x, t)" for x t
  proof (cases "block_height s \<noteq> h \<or> block_hash s \<noteq> b")
    case True
    then show ?thesis
      using that change_height_run [OF good_served [OF ok] True] \<open>watched_ok V P (drop_lifetimes _)\<close> by auto
  next
    case False
    then show ?thesis using that good_watched [OF ok] by (simp add: change_height_def run_simps)
  qed
qed

lemma good_change_address: "good V P s \<Longrightarrow> wp (change_address addendum txs) (\<lambda>_. good V P) no_failure s"
proof (rule good_both)
  assume ok: "good V P s"
  show "wp (change_address addendum txs) (\<lambda>_. served) no_failure s" using ok by (intro served_change_address) (rule good_served)
  have "at_task (address_next addendum txs a) = at_task a" for a
    by (simp add: address_next_def)
  then show "watched_ok V P t" if "change_address addendum txs s = (Ok x, t)" for x t
    using that change_address_run [OF good_served [OF ok], of addendum txs] watched_ok_drop_lifetimes [OF good_watched [OF ok]]
    by (fastforce simp: watched_ok_def)
qed

lemma mark_unseen_fold:
  "set (fold (mark_unseen tx_id confs) m u) \<subseteq> set u \<union> hm_keys m"
  by (induction m arbitrary: u) (fastforce simp: mark_unseen_def split: if_splits)+

lemma mark_unseen_fold_seen:
  "confs \<noteq> None \<Longrightarrow> set (fold (mark_unseen tx_id confs) m u) = set u - {i. \<exists>w. (i, w) \<in> set m \<and> wt_hash (wtx_task w) = tx_id}"
  by (induction m arbitrary: u) (auto simp: mark_unseen_def)

lemma watched_ok_change_transaction:
  assumes "watched_ok V P s"
  shows "watched_ok V P (s\<lparr>unseen_transactions := fold (mark_unseen tx_id confs) (transactions s) (unseen_transactions s),
    transactions := concat (map (transaction_next tx_id b confs tx) (transactions s))\<rparr>)"
proof -
  let ?t = "concat (map (transaction_next tx_id b confs tx) (transactions s))"
  let ?u = "fold (mark_unseen tx_id confs) (transactions s) (unseen_transactions s)"
  have tasks: "V (wt_hash (wtx_task w))" if "(i, w) \<in> set ?t" for i w
  proof -
    from that obtain j w' where w': "(j, w') \<in> set (transactions s)" "(i, w) \<in> set (transaction_next tx_id b confs tx (j, w'))"
      by auto
    then have "wtx_task w = wtx_task w'" by (auto simp: transaction_next_def split: if_splits)
    then show ?thesis using w'(1) assms by (auto simp: watched_ok_def)
  qed
  have "i \<in> hm_keys ?t" if "i \<in> set ?u" for i
  proof -
    have "i \<in> hm_keys (transactions s)"
      using that mark_unseen_fold [of tx_id confs "transactions s" "unseen_transactions s"] assms by (auto simp: watched_ok_def)
    then obtain w where w: "(i, w) \<in> set (transactions s)" by (auto simp: hm_keys_def)
    have "transaction_next tx_id b confs tx (i, w) \<noteq> []"
    proof (cases confs)
      case None
      then show ?thesis by (simp add: transaction_next_def)
    next
      case (Some n)
      then have "wt_hash (wtx_task w) \<noteq> tx_id"
        using that mark_unseen_fold_seen [of confs tx_id "transactions s" "unseen_transactions s"] w by auto
      then show ?thesis by (simp add: transaction_next_def)
    qed
    then obtain w' where "(i, w') \<in> set (transaction_next tx_id b confs tx (i, w))"
      by (auto simp: transaction_next_def split: if_splits)
    then show ?thesis using w by (intro hm_keys_memI [of i w']) auto
  qed
  then show ?thesis using assms tasks unfolding watched_ok_def by (simp del: set_concat set_map) blast
qed

lemma good_change_transaction: "good V P s \<Longrightarrow> wp (change_transaction tx_id bhash confs tx) (\<lambda>_. good V P) no_failure s"
proof (rule good_both)
  assume ok: "good V P s"
  show "wp (change_transaction tx_id bhash confs tx) (\<lambda>_. served) no_failure s"
    using ok by (intro served_change_transaction) (rule good_served)
  show "watched_ok V P t" if "change_transaction tx_id bhash confs tx s = (Ok x, t)" for x t
    using that change_transaction_run [OF good_served [OF ok], of tx_id bhash confs tx]
      watched_ok_change_transaction [OF watched_ok_drop_lifetimes [OF good_watched [OF ok]], where tx_id = tx_id and confs = confs and b = "block_of bhash" and tx = tx]
    by (auto simp del: set_concat)
qed

lemma watched_ok_finish_sweep: "watched_ok V P s \<Longrightarrow> watched_ok V P (finish_sweep i w s)"
  by (simp add: finish_sweep_def Let_def watched_ok_forget_lifetime)

lemma good_sweeps:
  assumes "good V P s"
  shows "wp (success_sweep i hashes) (\<lambda>_. good V P) no_failure s" and "wp (fail_sweep i) (\<lambda>_. good V P) no_failure s"
    and "wp (fee_estimated est) (\<lambda>_. good V P) no_failure s"
  using served_sweeps [OF good_served [OF assms]] good_watched [OF assms]
  by (auto intro!: good_both watched_ok_drop_lifetimes watched_ok_finish_sweep
      simp: success_sweep_run [OF good_served [OF assms]] fail_sweep_run [OF good_served [OF assms]]
        fee_estimated_run [OF good_served [OF assms]] split: option.splits)

lemma good_health: "good V P s \<Longrightarrow> wp (send_health_result i h source) (\<lambda>_. good V P) no_failure s"
  by (auto simp: wp_def send_health_result_def send_event_def good_def served_def)

text \<open>The updates the tasks make without a method of the state.\<close>

lemma syncer_inv_pending [simp]: "syncer_inv (s\<lparr>pending_broadcasts := p\<rparr>) = syncer_inv s"
  by (simp add: syncer_inv_def syncer_unfold)

lemma good_updates:
  "good V P s \<Longrightarrow> good V P (s\<lparr>pending_broadcasts := p\<rparr>)" "good V P s \<Longrightarrow> good V P (s\<lparr>subscribed_addresses := q\<rparr>)"
  "good V P s \<Longrightarrow> good V P (address_subscribed i s)"
  by (auto simp: good_def served_def address_subscribed_def split: option.splits)

lemma good_unsubscribe: "good V P s \<Longrightarrow> good V P (unsubscribe_addresses s)"
  using served_unsubscribe_addresses [of s] by (force simp: good_def watched_ok_def unsubscribe_addresses_def)

lemma good_mark_subscribed:
  assumes "good V P s"
  shows "good V P (mark_subscribed i s)"
proof (cases "hm_get (addresses s) i")
  case (Some a)
  let ?s = "s\<lparr>addresses := hm_insert i (a\<lparr>subscribed := True\<rparr>) (addresses s)\<rparr>"
  have key: "i \<in> hm_keys (addresses s)" using Some by (rule hm_get_SomeD)
  have expires: "expires ?s j l = expires s j l" for j l using Some by (auto simp: expires_def)
  have keys: "hm_keys (addresses ?s) = hm_keys (addresses s)" using key by auto
  then have "table_ids ?s = table_ids s" by (simp add: table_ids_def)
  moreover have "in_bucket ?s l j = in_bucket s l j" for l j by (simp add: in_bucket_def)
  moreover have "disjoint_tables ?s = disjoint_tables s" using keys by (simp add: disjoint_tables_def)
  ultimately have "syncer_inv ?s"
    using good_served [OF assms] expires
    by (auto simp: syncer_inv_def served_def sources_cover_def ids_bounded_def buckets_exact_def keys_distinct_def)
  moreover have "watched_ok V P ?s"
    using good_watched [OF assms] map_of_SomeD [OF Some] by (intro watched_ok_insert(2)) (auto simp: watched_ok_def)
  ultimately show ?thesis using assms Some by (simp add: mark_subscribed_def good_def served_def)
qed (use assms in \<open>simp add: mark_subscribed_def\<close>)

end
