(* ===== verification/SyncletTasks.thy ===== *)
theory SyncletTasks
  imports SyncletSafety
begin

text \<open>
  A calculus for the tasks of a chain syncer: an action is safe when it keeps an invariant of its own
  record and never panics, and each critical section of a task meets the shared state as the other
  tasks leave it. The locale \<open>chain_syncer\<close> holds what both syncers share; its first interpretation, for
  Bitcoin, is at the end.
\<close>

section \<open>Safe actions\<close>

definition no_panic :: "('e, 'a) result \<Rightarrow> bool" where
  "no_panic r \<longleftrightarrow> (\<forall>p. r \<noteq> Panic p)"

lemma no_panic_simps [simp]: "no_panic (Ok x)" "no_panic (Err e)" "no_panic Hang" "\<not> no_panic (Panic p)"
  by (simp_all add: no_panic_def)

lemma no_panic_err_into [simp]: "no_panic (err_into f r) = no_panic r"
  by (cases r) (simp_all add: no_panic_def)

lemma no_panic_rbind: "no_panic r \<Longrightarrow> (\<And>x. r = Ok x \<Longrightarrow> no_panic (f x)) \<Longrightarrow> no_panic (rbind r f)"
  by (cases r) auto

definition safe :: "('s \<Rightarrow> bool) \<Rightarrow> ('a \<Rightarrow> bool) \<Rightarrow> ('s, 'e, 'a) action \<Rightarrow> bool" where
  "safe I Q m \<longleftrightarrow> (\<forall>s. I s \<longrightarrow> wp m (\<lambda>x t. I t \<and> Q x) (\<lambda>r t. I t \<and> no_panic r) s)"

abbreviation any :: "'a \<Rightarrow> bool" where
  "any \<equiv> \<lambda>_. True"

named_theorems safe_intros "rules for safe actions"

lemma safe_weaken: "safe I Q m \<Longrightarrow> (\<And>x. Q x \<Longrightarrow> R x) \<Longrightarrow> safe I R m"
  by (auto simp: safe_def intro: wp_conseq)

lemma safe_ret: "Q x \<Longrightarrow> safe I Q (ret x)"
  by (simp add: safe_def wp_simps)

lemma safe_ret_any [safe_intros]: "safe I any (ret x)"
  by (simp add: safe_ret)

lemma safe_throw [safe_intros]: "safe I Q (throw e)"
  by (simp add: safe_def wp_simps)

lemma safe_skip [safe_intros]: "safe I any skip"
  by (simp add: safe_def wp_simps)

lemma safe_lift_res: "no_panic r \<Longrightarrow> (\<And>x. r = Ok x \<Longrightarrow> Q x) \<Longrightarrow> safe I Q (lift_res r)"
  by (cases r) (auto simp: safe_def wp_simps)

lemma safe_lift_res_any [safe_intros]: "no_panic r \<Longrightarrow> safe I any (lift_res r)"
  by (simp add: safe_lift_res)

lemma safe_modify [safe_intros]: "(\<And>s. I s \<Longrightarrow> I (f s)) \<Longrightarrow> safe I any (modify f)"
  by (simp add: safe_def wp_simps)

lemma safe_stateful: "(\<And>s. I s \<Longrightarrow> I (snd (f s)) \<and> Q (fst (f s))) \<Longrightarrow> safe I Q (stateful f)"
  by (simp add: safe_def wp_simps)

lemma safe_reads: "(\<And>s. I s \<Longrightarrow> safe I Q (f (g s))) \<Longrightarrow> safe I Q (reads g f)"
  by (simp add: safe_def wp_simps)

lemma safe_bind:
  assumes "safe I Q m" and "\<And>x. Q x \<Longrightarrow> safe I R (f x)"
  shows "safe I R (bind m f)"
  unfolding safe_def wp_bind
proof (intro allI impI)
  fix s
  assume "I s"
  with assms(1) have "wp m (\<lambda>x t. I t \<and> Q x) (\<lambda>r t. I t \<and> no_panic r) s" by (simp add: safe_def)
  then show "wp m (\<lambda>x. wp (f x) (\<lambda>x t. I t \<and> R x) (\<lambda>r t. I t \<and> no_panic r)) (\<lambda>r t. I t \<and> no_panic r) s"
    by (rule wp_conseq) (use assms(2) in \<open>auto simp: safe_def\<close>)
qed

lemma safe_reads_id [safe_intros]: "(\<And>s. I s \<Longrightarrow> safe I Q (f s)) \<Longrightarrow> safe I Q (reads id f)"
  by (rule safe_reads) simp

lemma safe_bind_any [safe_intros]: "safe I any m \<Longrightarrow> (\<And>x. safe I R (f x)) \<Longrightarrow> safe I R (bind m f)"
  by (rule safe_bind)

lemma safe_on [safe_intros]: "(b \<Longrightarrow> safe I any m) \<Longrightarrow> safe I any (on b m)"
  by (simp add: on_def safe_skip)

lemma safe_if [safe_intros]: "(b \<Longrightarrow> safe I Q m) \<Longrightarrow> (\<not> b \<Longrightarrow> safe I Q n) \<Longrightarrow> safe I Q (if b then m else n)"
  by simp

lemma safe_prod [safe_intros]: "(\<And>a b. x = (a, b) \<Longrightarrow> safe I Q (f a b)) \<Longrightarrow> safe I Q (case x of (a, b) \<Rightarrow> f a b)"
  by (cases x) simp

lemma safe_sum [safe_intros]: "(\<And>e. safe I Q (f e)) \<Longrightarrow> (\<And>x. safe I Q (g x)) \<Longrightarrow> safe I Q (case z of Inl e \<Rightarrow> f e | Inr x \<Rightarrow> g x)"
  by (cases z) simp_all

lemma safe_option [safe_intros]:
  "(x = None \<Longrightarrow> safe I Q m) \<Longrightarrow> (\<And>y. x = Some y \<Longrightarrow> safe I Q (f y)) \<Longrightarrow> safe I Q (case x of None \<Rightarrow> m | Some y \<Rightarrow> f y)"
  by (cases x) simp_all

lemma safe_let [safe_intros]: "safe I Q (f x) \<Longrightarrow> safe I Q (let y = x in f y)"
  by simp

lemma safe_for_each [safe_intros]: "(\<And>x. x \<in> set xs \<Longrightarrow> safe I any (f x)) \<Longrightarrow> safe I any (for_each xs f)"
  by (induction xs) (auto intro: safe_skip safe_bind_any)

text \<open>What an attempt returns: a value the action can return, or its error.\<close>

fun right_ok :: "('a \<Rightarrow> bool) \<Rightarrow> 'e + 'a \<Rightarrow> bool" where
  "right_ok Q (Inl e) = True"
| "right_ok Q (Inr x) = Q x"

lemma safe_attempt: "safe I Q m \<Longrightarrow> safe I (right_ok Q) (attempt m)"
  unfolding safe_def wp_attempt
  by (auto elim!: wp_conseq split: result.splits)

lemma safe_attempt_any [safe_intros]: "safe I any m \<Longrightarrow> safe I any (attempt m)"
  by (rule safe_weaken [OF safe_attempt]) simp_all

section \<open>Sections under the lock\<close>

text \<open>What the other tasks do keeps the state good.\<close>

definition rely :: "(bytes \<Rightarrow> bool) \<Rightarrow> (address_addendum \<Rightarrow> bool) \<Rightarrow> (nat \<Rightarrow> syncer_state \<Rightarrow> syncer_state) \<Rightarrow> bool" where
  "rely V P others \<longleftrightarrow> (\<forall>n u. good V P u \<longrightarrow> good V P (others n u))"

definition task_ok ::
  "(bytes \<Rightarrow> bool) \<Rightarrow> (address_addendum \<Rightarrow> bool) \<Rightarrow> ('x synclet_scheme \<Rightarrow> bool) \<Rightarrow> 'x synclet_scheme \<Rightarrow> bool" where
  "task_ok V P fixed s \<longleftrightarrow> good V P (shared s) \<and> rely V P (interference s) \<and> (\<forall>i. \<not> closed s i) \<and> fixed s"

lemma section_total:
  assumes "\<And>s. good V P s \<Longrightarrow> wp m (\<lambda>_. good V P) no_failure s"
  shows "safe (good V P) any m"
  unfolding safe_def
proof (intro allI impI)
  fix s
  assume "good V P s"
  from assms [OF this] show "wp m (\<lambda>x t. good V P t \<and> True) (\<lambda>r t. good V P t \<and> no_panic r) s"
    by (rule wp_conseq) simp_all
qed

lemma sections [safe_intros]:
  "safe (good V P) any (SyncerState.abort target source respond)" "safe (good V P) any (change_height h b)"
  "safe (good V P) any (change_address addendum txs)" "safe (good V P) any (change_transaction tx_id bhash confs tx)"
  "safe (good V P) any (success_sweep i hashes)" "safe (good V P) any (fail_sweep i)"
  "safe (good V P) any (fee_estimated est)" "safe (good V P) any (send_health_result t hr source)"
  "safe (good V P) any (modify unsubscribe_addresses)" "safe (good V P) any (modify (mark_subscribed i))"
  "safe (good V P) any (modify (address_subscribed i))"
  by (auto intro!: section_total good_abort good_change_height good_change_address good_change_transaction good_sweeps
      good_health simp: wp_simps good_unsubscribe good_mark_subscribed good_updates)

lemma reads_ret [safe_intros]: "safe I any (reads f ret)"
  by (simp add: safe_reads safe_ret_any)

lemma locked_safe:
  assumes "safe (good V P) Q m" and "\<And>s u n. fixed (s\<lparr>shared := u, lock_count := n\<rparr>) = fixed s"
  shows "safe (task_ok V P fixed) Q (locked m)"
  unfolding safe_def
proof (intro allI impI)
  fix s
  assume s: "task_ok V P fixed s"
  let ?u = "interference s (lock_count s) (shared s)"
  have "good V P ?u" using s by (simp add: task_ok_def rely_def)
  with assms(1) have run: "wp m (\<lambda>x t. good V P t \<and> Q x) (\<lambda>r t. good V P t \<and> no_panic r) ?u"
    by (simp add: safe_def)
  have ok: "good V P t \<Longrightarrow> task_ok V P fixed (s\<lparr>shared := t, lock_count := Suc (lock_count s)\<rparr>)" for t
    using s assms(2) by (simp add: task_ok_def)
  obtain r t where m: "m ?u = (r, t)" by (cases "m ?u")
  show "wp (locked m) (\<lambda>x t. task_ok V P fixed t \<and> Q x) (\<lambda>r t. task_ok V P fixed t \<and> no_panic r) s"
    using run ok [of t] m by (cases r) (simp_all add: wp_def locked_def)
qed

lemma hashes_of_ok:
  assumes "set ids \<subseteq> hm_keys txs"
  shows "\<exists>hs. hashes_of msg ids txs = Ok hs \<and> set hs \<subseteq> {wt_hash (wtx_task w) |i w. (i, w) \<in> set txs}"
  using assms
proof (induction ids)
  case (Cons i ids)
  then obtain hs where hs: "hashes_of msg ids txs = Ok hs" "set hs \<subseteq> {wt_hash (wtx_task w) |i w. (i, w) \<in> set txs}" by auto
  from Cons.prems have "hm_get txs i \<noteq> None" by (simp add: hm_get_keys)
  then obtain w where w: "hm_get txs i = Some w" by auto
  then show ?case using hs map_of_SomeD [OF w] by auto
qed simp

lemma unseen_hashes_ok:
  "safe (good V P) (list_all V) (reads id (\<lambda>s. lift_res (hashes_of msg (unseen_transactions s) (transactions s))))"
proof (intro safe_reads)
  fix s
  assume "good V P s"
  then have s: "set (unseen_transactions s) \<subseteq> hm_keys (transactions s)"
    "\<forall>(i, w) \<in> set (transactions s). V (wt_hash (wtx_task w))" by (auto simp: good_def watched_ok_def)
  from hashes_of_ok [OF s(1), of msg] obtain hs where hs: "hashes_of msg (unseen_transactions s) (transactions s) = Ok hs"
    "set hs \<subseteq> {wt_hash (wtx_task w) |i w. (i, w) \<in> set (transactions s)}" by auto
  then show "safe (good V P) (list_all V) (lift_res (hashes_of msg (unseen_transactions (id s)) (transactions (id s))))"
    using s(2) by (fastforce intro!: safe_lift_res simp: list_all_iff)
qed

text \<open>A section that adds a task meets a state with a task id left, when the others add none.\<close>

definition room :: "('x synclet_scheme) \<Rightarrow> bool" where
  "room s \<longleftrightarrow> has_next_id (interference s (lock_count s) (shared s))"

definition adds :: "(bytes \<Rightarrow> bool) \<Rightarrow> (address_addendum \<Rightarrow> bool) \<Rightarrow> (syncer_state, error, unit) action \<Rightarrow> bool" where
  "adds V P m \<longleftrightarrow> (\<forall>u. good V P u \<longrightarrow> has_next_id u \<longrightarrow> wp m (\<lambda>_. good V P) no_failure u)"

lemma locked_adds:
  assumes "adds V P m" and "room s" and "task_ok V P fixed s"
    and "\<And>u n. fixed (s\<lparr>shared := u, lock_count := n\<rparr>) = fixed s"
  shows "wp (locked m) (\<lambda>_. task_ok V P fixed) no_failure s"
proof -
  let ?u = "interference s (lock_count s) (shared s)"
  have "good V P ?u" "has_next_id ?u" using assms(2,3) by (simp_all add: task_ok_def rely_def room_def)
  with assms(1) have run: "wp m (\<lambda>_. good V P) no_failure ?u" by (simp add: adds_def)
  have ok: "good V P t \<Longrightarrow> task_ok V P fixed (s\<lparr>shared := t, lock_count := Suc (lock_count s)\<rparr>)" for t
    using assms(3,4) by (simp add: task_ok_def)
  obtain r t where m: "m ?u = (r, t)" by (cases "m ?u")
  show ?thesis
    using run ok [of t] m by (cases r) (simp_all add: wp_def locked_def)
qed

lemma adders:
  "adds V P (SyncerState.watch_height task source)" "adds V P (estimate_fee task' source)"
  "adds V P (modify (SyncerState.sweep_address task'' source))" "adds V P (SyncerState.abort target source respond)"
  "P (wa_addendum a) \<Longrightarrow> adds V P (modify (SyncerState.watch_address a source))"
  "V (wt_hash t) \<Longrightarrow> adds V P (modify (SyncerState.watch_transaction t source))"
  by (simp_all add: adds_def wp_simps good_watch_height good_estimate_fee good_sweep_address good_watch_address
      good_watch_transaction good_abort)

definition keeps :: "('s \<Rightarrow> bool) \<Rightarrow> ('s, 'e, 'a) action \<Rightarrow> 's \<Rightarrow> bool" where
  "keeps I m s \<longleftrightarrow> wp m (\<lambda>_. I) (\<lambda>r t. I t \<and> no_panic r) s"

lemma keeps_safe: "safe I any m \<Longrightarrow> I s \<Longrightarrow> keeps I m s"
  unfolding keeps_def safe_def by (auto elim!: wp_conseq)

lemma keeps_total: "wp m (\<lambda>_. I) no_failure s \<Longrightarrow> keeps I m s"
  unfolding keeps_def by (erule wp_conseq) simp_all

text \<open>
  What a chain syncer promises of the part of its record that stays fixed: sections, sends and the
  numbering of calls leave it alone. Then all of them are safe.
\<close>

locale chain_syncer =
  fixes V :: "bytes \<Rightarrow> bool" and P :: "address_addendum \<Rightarrow> bool" and fixed :: "'x synclet_scheme \<Rightarrow> bool"
  assumes fixed_shared: "fixed (s\<lparr>shared := u, lock_count := n\<rparr>) = fixed s"
    and fixed_sent: "fixed (s\<lparr>sent := items\<rparr>) = fixed s"
    and fixed_calls: "fixed (s\<lparr>calls := n\<rparr>) = fixed s"
begin

lemma section_safe: "safe (good V P) Q m \<Longrightarrow> safe (task_ok V P fixed) Q (locked m)"
  by (rule locked_safe) (simp_all add: fixed_shared)

lemma section_adds: "adds V P m \<Longrightarrow> room s \<Longrightarrow> task_ok V P fixed s \<Longrightarrow> keeps (task_ok V P fixed) (locked m) s"
  by (intro keeps_total locked_adds) (simp_all add: fixed_shared)

lemma send_safe:
  "safe (task_ok V P fixed) any (channel_send item msg)" "safe (task_ok V P fixed) any (channel_try_send item)"
  unfolding channel_send_def channel_try_send_def
  by (auto intro!: safe_reads safe_modify safe_on simp: task_ok_def fixed_sent)

lemma number_safe: "safe (task_ok V P fixed) any next_call"
  unfolding next_call_def by (rule safe_stateful) (simp add: task_ok_def fixed_calls)

end

text \<open>The sends that the socket of the bridge is asked for all succeed.\<close>

fun pushes :: "bridge_socket \<Rightarrow> bytes \<Rightarrow> nat \<Rightarrow> bridge_event list \<Rightarrow> bool" where
  "pushes push a n [] = True"
| "pushes push a n (e # es) = (push n a a a (Sync (BridgeEventMsg e)) = Ok () \<and> pushes push a (Suc n) es)"

lemma bridge_event_sender_outcome:
  "bridge_event_sender push a msg events s = (r, t)
     \<Longrightarrow> r = (if pushes push a (calls s) events then Ok () else Panic msg) \<and> (\<exists>n. t = s\<lparr>calls := n\<rparr>)"
proof (induction events arbitrary: s)
  case Nil
  then have "r = Ok ()" and "t = s\<lparr>calls := calls s\<rparr>" by (auto simp: bridge_event_sender_def skip_def ret_def)
  then show ?case by (intro conjI exI [of _ "calls s"]) simp_all
next
  case (Cons e events)
  let ?s = "s\<lparr>calls := Suc (calls s)\<rparr>"
  have step: "bridge_event_sender push a msg (e # events) s =
      (case push (calls s) a a a (Sync (BridgeEventMsg e)) of
         Ok _ \<Rightarrow> bridge_event_sender push a msg events ?s
       | _ \<Rightarrow> (Panic msg, ?s))"
    by (simp add: bridge_event_sender_def run_simps bind_def skip_def ret_def lift_res_def next_call_def stateful_def
        split: result.split)
  show ?case
    using Cons.prems Cons.IH [of ?s] unfolding step by (auto split: result.splits)
qed

lemma bridge_event_sender_fst:
  "fst (bridge_event_sender push a msg events s) = (if pushes push a (calls s) events then Ok () else Panic msg)"
  using bridge_event_sender_outcome [of push a msg events s] by (cases "bridge_event_sender push a msg events s") simp

lemma bridge_event_sender_keeps:
  assumes "\<And>n. I (s\<lparr>calls := n\<rparr>)" and "pushes push a (calls s) events"
  shows "keeps I (bridge_event_sender push a msg events) s"
  using bridge_event_sender_outcome [of push a msg events s] assms
  by (cases "bridge_event_sender push a msg events s") (auto simp: keeps_def wp_def)

text \<open>The ids that a client gives are transaction ids.\<close>

fun task_fits :: "(bytes \<Rightarrow> bool) \<Rightarrow> task \<Rightarrow> bool" where
  "task_fits V (WatchTransactionTask t) = V (wt_hash t)"
| "task_fits V (GetTxTask t) = V (gt_hash t)"
| "task_fits V _ = True"

text \<open>A task can be taken while task ids are left and its id is one; somebody must be there to give it.\<close>

fun takes_well :: "(bytes \<Rightarrow> bool) \<Rightarrow> 'x synclet_scheme \<Rightarrow> polled_task \<Rightarrow> bool" where
  "takes_well V s (PolledTask t) = (room s \<and> task_fits V (sdt_task t))"
| "takes_well V s NoTask = True"
| "takes_well V s TasksDisconnected = False"

section \<open>The server of Bitcoin\<close>

text \<open>
  The client library returns its errors, and a transaction has an output; a PSBT is made of the
  transaction it is given. (\<open>index out of bounds\<close> would be the panic otherwise.)
\<close>

definition electrum_returns :: "electrum \<Rightarrow> bool" where
  "electrum_returns w \<longleftrightarrow>
     (\<forall>n url proxy. no_panic (el_client w n url proxy)) \<and> (\<forall>n. no_panic (el_headers_subscribe w n))
     \<and> (\<forall>n. no_panic (el_ping w n)) \<and> (\<forall>n b. no_panic (el_script_subscribe w n b))
     \<and> (\<forall>n. no_panic (el_headers_pop w n)) \<and> (\<forall>n b. no_panic (el_script_pop w n b))
     \<and> (\<forall>n t. no_panic (el_transaction_get w n t)) \<and> (\<forall>n b. no_panic (el_script_get_history w n b))
     \<and> (\<forall>n k. no_panic (el_block_header w n k)) \<and> (\<forall>n b. no_panic (el_script_list_unspent w n b))
     \<and> (\<forall>n b. no_panic (el_script_get_balance w n b)) \<and> (\<forall>n k. no_panic (el_estimate_fee w n k))
     \<and> (\<forall>n. no_panic (el_relay_fee w n)) \<and> (\<forall>n b. no_panic (el_broadcast_raw w n b))
     \<and> (\<forall>n t tx. el_transaction_get w n t = Ok tx \<longrightarrow> bx_outputs tx \<noteq> [])"

definition psbts_follow :: "bitcoin_lib \<Rightarrow> bool" where
  "psbts_follow L \<longleftrightarrow> (\<forall>tx. no_panic (from_unsigned_tx L tx)) \<and> (\<forall>b. no_panic (message_from_slice L b))
     \<and> (\<forall>tx psbt. from_unsigned_tx L tx = Ok psbt \<longrightarrow> unsigned_tx psbt = tx
          \<and> length (psbt_inputs psbt) = length (bx_inputs tx) \<and> length (output_scripts psbt) = length (bx_outputs tx))"

definition valid_hash :: "bitcoin_lib \<Rightarrow> bytes \<Rightarrow> bool" where
  "valid_hash L h \<longleftrightarrow> txid_of_slice L h \<noteq> None"

definition btc_ok :: "electrum \<Rightarrow> bitcoin_lib \<Rightarrow> electrum_rpc \<Rightarrow> bool" where
  "btc_ok w L = task_ok (valid_hash L) any (\<lambda>s. server s = w \<and> lib s = L)"

lemma btc_ok_frame [simp]:
  "btc_ok w L (s\<lparr>calls := n\<rparr>) = btc_ok w L s" "btc_ok w L (s\<lparr>sent := items\<rparr>) = btc_ok w L s"
  "btc_ok w L (s\<lparr>rpc_height := h, rpc_block_hash := b\<rparr>) = btc_ok w L s"
  "btc_ok w L (s\<lparr>rpc_addresses := a\<rparr>) = btc_ok w L s" "btc_ok w L (s\<lparr>ping_count := k\<rparr>) = btc_ok w L s"
  "btc_ok w L (s\<lparr>rpc_addresses := a, rpc_height := h, rpc_block_hash := b, ping_count := k\<rparr>) = btc_ok w L s"
  by (simp_all add: btc_ok_def task_ok_def)

lemma btc_ok_server: "btc_ok w L s \<Longrightarrow> server s = w" "btc_ok w L s \<Longrightarrow> lib s = L" "btc_ok w L s \<Longrightarrow> \<not> closed s i"
  by (simp_all add: btc_ok_def task_ok_def)

interpretation btc: chain_syncer "valid_hash L" any "\<lambda>s :: electrum_rpc. server s = w \<and> lib s = L" for L w
  by unfold_locales simp_all

lemmas btc_locked [safe_intros] = btc.section_safe [folded btc_ok_def]
lemmas btc_adds = btc.section_adds [folded btc_ok_def]
lemmas channel_sends [safe_intros] = btc.send_safe [folded btc_ok_def]
lemmas btc_number [safe_intros] = btc.number_safe [folded btc_ok_def]

text \<open>The value of a call is an answer of the server.\<close>

lemma call_safe:
  assumes "\<And>n. no_panic (f w n)" and "\<And>n x. f w n = Ok x \<Longrightarrow> Q x"
  shows "safe (btc_ok w L) Q (call_server f)"
  unfolding call_server_def
  by (intro safe_bind_any btc_number safe_reads safe_lift_res) (auto simp: assms btc_ok_server)

lemma call_safe_any: "(\<And>n. no_panic (f w n)) \<Longrightarrow> safe (btc_ok w L) any (call_server f)"
  by (rule call_safe) simp_all

lemma server_calls [safe_intros]:
  assumes "electrum_returns w"
  shows "safe (btc_ok w L) any (call_server el_headers_subscribe)" "safe (btc_ok w L) any (call_server el_ping)"
    "safe (btc_ok w L) any (call_server el_headers_pop)" "safe (btc_ok w L) any (call_server el_relay_fee)"
    "safe (btc_ok w L) any (call_server (\<lambda>w n. el_client w n url proxy))"
    "safe (btc_ok w L) any (call_server (\<lambda>w n. el_script_subscribe w n b))"
    "safe (btc_ok w L) any (call_server (\<lambda>w n. el_script_pop w n b))"
    "safe (btc_ok w L) any (call_server (\<lambda>w n. el_script_get_history w n b))"
    "safe (btc_ok w L) any (call_server (\<lambda>w n. el_block_header w n k))"
    "safe (btc_ok w L) any (call_server (\<lambda>w n. el_script_list_unspent w n b))"
    "safe (btc_ok w L) any (call_server (\<lambda>w n. el_script_get_balance w n b))"
    "safe (btc_ok w L) any (call_server (\<lambda>w n. el_estimate_fee w n k))"
    "safe (btc_ok w L) any (call_server (\<lambda>w n. el_broadcast_raw w n b))"
    "safe (btc_ok w L) any (call_server (\<lambda>w n. el_transaction_get w n t))"
  using assms by (auto simp: electrum_returns_def intro!: call_safe_any)

lemma transaction_call [safe_intros]:
  "electrum_returns w \<Longrightarrow> safe (btc_ok w L) (\<lambda>tx. bx_outputs tx \<noteq> []) (call_server (\<lambda>w n. el_transaction_get w n t))"
  by (rule call_safe) (auto simp: electrum_returns_def)

end
