(* ===== verification/BitcoinTasks.thy ===== *)
theory BitcoinTasks
  imports SyncletTasks
begin

text \<open>The tasks of the Bitcoin syncer are safe: the calculus of \<open>SyncletTasks\<close> over each of them.\<close>

section \<open>What a task reads\<close>

lemma reads_server [safe_intros]: "safe (btc_ok w L) Q (f w) \<Longrightarrow> safe (btc_ok w L) Q (reads server f)"
  by (rule safe_reads) (simp add: btc_ok_server)

lemma reads_lib [safe_intros]: "safe (btc_ok w L) Q (f L) \<Longrightarrow> safe (btc_ok w L) Q (reads lib f)"
  by (rule safe_reads) (simp add: btc_ok_server)

lemma reads_rpc [safe_intros]:
  "(\<And>x. safe (btc_ok w L) Q (g x)) \<Longrightarrow> safe (btc_ok w L) Q (reads rpc_addresses g)"
  "(\<And>x. safe (btc_ok w L) Q (h x)) \<Longrightarrow> safe (btc_ok w L) Q (reads ping_count h)"
  by (auto intro: safe_reads)

section \<open>Asking the server\<close>

lemma clients_safe [safe_intros]:
  assumes "electrum_returns w"
  shows "safe (btc_ok w L) any create_electrum_client" "safe (btc_ok w L) any electrum_rpc_new" "safe (btc_ok w L) any rpc_ping"
proof -
  show client: "safe (btc_ok w L) any create_electrum_client"
    unfolding create_electrum_client_def by (intro safe_reads server_calls assms)
  show "safe (btc_ok w L) any electrum_rpc_new"
    unfolding electrum_rpc_new_def by (auto intro!: safe_intros client assms)
  show "safe (btc_ok w L) any rpc_ping"
    unfolding rpc_ping_def by (auto intro!: safe_intros assms)
qed

lemma scan_inputs_safe [safe_intros]: "electrum_returns w \<Longrightarrow> safe (btc_ok w L) any (scan_inputs script ins found)"
  by (induction ins arbitrary: found) (auto intro!: safe_intros)

lemma walk_history_safe [safe_intros]: "electrum_returns w \<Longrightarrow> safe (btc_ok w L) any (walk_history from script flt hist txs)"
  by (induction hist arbitrary: txs) (auto intro!: safe_intros)

lemma histories_safe [safe_intros]:
  assumes "electrum_returns w"
  shows "safe (btc_ok w L) any (query_addr_history a flt)" "safe (btc_ok w L) any (script_subscribe a flt)"
proof -
  show query: "safe (btc_ok w L) any (query_addr_history a flt)" for a flt
    unfolding query_addr_history_def by (auto intro!: safe_intros assms)
  show "safe (btc_ok w L) any (script_subscribe a flt)"
    unfolding script_subscribe_def by (auto intro!: safe_intros query assms)
qed

lemma pop_blocks_safe [safe_intros]: "electrum_returns w \<Longrightarrow> safe (btc_ok w L) any (pop_blocks fuel blocks)"
  by (induction fuel arbitrary: blocks) (auto intro!: safe_intros)

lemma pop_changes_safe [safe_intros]: "electrum_returns w \<Longrightarrow> safe (btc_ok w L) any (pop_changes fuel a status flt notifs)"
  by (induction fuel arbitrary: notifs) (auto intro!: safe_intros)

lemma check_addresses_safe [safe_intros]: "electrum_returns w \<Longrightarrow> safe (btc_ok w L) any (check_addresses fuel known notifs)"
  by (induction fuel known notifs rule: check_addresses.induct) (auto intro!: safe_intros)

lemma checks_safe [safe_intros]:
  assumes "electrum_returns w"
  shows "safe (btc_ok w L) any (new_block_check fuel)" "safe (btc_ok w L) any (address_change_check fuel)"
    "safe (btc_ok w L) any (estimate_priority_fee near far)" "safe (btc_ok w L) any electrum_health"
  unfolding new_block_check_def address_change_check_def estimate_priority_fee_def electrum_health_def
  by (auto intro!: safe_intros assms split: error.split syncer_error.split)

section \<open>The watched transactions\<close>

lemma watched_hashes_ok: "safe (good V P) (list_all V) (watched_hashes unseen)"
proof -
  have "safe (good V P) (list_all V) (reads id (\<lambda>s. ret (map (\<lambda>(_, w). wt_hash (wtx_task w)) (transactions s))))"
    by (intro safe_reads safe_ret) (auto simp: good_def watched_ok_def list_all_iff)
  then show ?thesis using unseen_hashes_ok by (cases unseen) (simp_all add: watched_hashes_def)
qed

lemma height_in_history_safe:
  "electrum_returns w \<Longrightarrow> bx_outputs tx \<noteq> [] \<Longrightarrow> safe (btc_ok w L) any (height_in_history tx i)"
  unfolding height_in_history_def by (auto intro!: safe_intros)

lemma block_at_safe [safe_intros]: "electrum_returns w \<Longrightarrow> safe (btc_ok w L) any (block_at h)"
  unfolding block_at_def by (auto intro!: safe_intros)

lemma query_transaction_safe:
  assumes w: "electrum_returns w" and hash: "valid_hash L hash"
  shows "safe (btc_ok w L) any (query_transaction hash)"
proof -
  obtain txid where txid: "txid_of_slice L hash = Some txid" using hash by (auto simp: valid_hash_def)
  have change: "safe (btc_ok w L) any (locked (change_transaction i b c tx))" for i b c tx
    by (intro btc_locked sections)
  show ?thesis
    unfolding query_transaction_def txid
    by (intro reads_lib safe_bind_any safe_bind [OF safe_attempt [OF transaction_call [OF w]]])
      (auto intro!: safe_intros w change height_in_history_safe txid simp: txid Let_def split: sum.split)
qed

lemma query_transactions_safe [safe_intros]: "electrum_returns w \<Longrightarrow> safe (btc_ok w L) any (query_transactions unseen)"
  unfolding query_transactions_def
  by (rule safe_bind [OF btc_locked [OF watched_hashes_ok]]) (auto intro!: safe_for_each query_transaction_safe simp: list_all_iff)

section \<open>The addresses\<close>

lemma subscribe_addresses_safe [safe_intros]: "electrum_returns w \<Longrightarrow> safe (btc_ok w L) any (subscribe_addresses watched)"
  by (induction watched rule: subscribe_addresses.induct) (auto intro!: safe_intros split: address_addendum.split)

lemma btc_address_polling_safe: "electrum_returns w \<Longrightarrow> safe (btc_ok w L) any (btc_address_polling fuel n)"
proof -
  assume w: "electrum_returns w"
  have round: "safe (btc_ok w L) any (btc_address_round fuel)"
    unfolding btc_address_round_def by (auto intro!: safe_intros w)
  have "safe (btc_ok w L) any (address_rounds fuel n)"
    by (induction n) (auto intro!: safe_intros w round)
  then show ?thesis
    unfolding btc_address_polling_def by (auto intro!: safe_intros w)
qed

section \<open>The height\<close>

lemma change_heights_safe [safe_intros]: "safe (good V P) any (change_heights blocks b)"
  by (induction blocks arbitrary: b) (auto intro!: safe_intros)

lemma good_modify [safe_intros]: "safe (good V P) any (modify (\<lambda>s. s\<lparr>pending_broadcasts := f s\<rparr>))"
  by (rule safe_modify) (rule good_updates)

lemma btc_height_polling_safe: "electrum_returns w \<Longrightarrow> safe (btc_ok w L) any (btc_height_polling fuel n)"
proof -
  assume w: "electrum_returns w"
  have round: "safe (btc_ok w L) any (height_round blocks)" for blocks
    unfolding height_round_def release_broadcast_def by (auto intro!: safe_intros w)
  have "safe (btc_ok w L) any (height_rounds fuel n)"
    by (induction n) (auto intro!: safe_intros w round)
  then show ?thesis
    unfolding btc_height_polling_def by (auto intro!: safe_intros w)
qed

section \<open>Unseen transactions, fees and sweeps\<close>

lemma btc_unseen_polling_safe: "electrum_returns w \<Longrightarrow> safe (btc_ok w L) any (btc_unseen_polling n)"
proof -
  assume w: "electrum_returns w"
  have "safe (btc_ok w L) any (unseen_rounds n)"
    by (induction n) (auto intro!: safe_intros w)
  then show ?thesis
    unfolding btc_unseen_polling_def by (auto intro!: safe_intros w)
qed

lemma estimate_fee_polling_safe: "electrum_returns w \<Longrightarrow> safe (btc_ok w L) any (estimate_fee_polling n)"
proof -
  assume w: "electrum_returns w"
  have "safe (btc_ok w L) any (fee_rounds n)"
    by (induction n) (auto intro!: safe_intros w)
  then show ?thesis
    unfolding estimate_fee_polling_def by (auto intro!: safe_intros w)
qed

lemma sign_inputs_returns:
  assumes "psbts_follow L" and "length inputs + i \<le> length unspent"
  shows "no_panic (sign_inputs L tx sk a unspent i inputs)"
  using assms(2)
proof (induction inputs arbitrary: i)
  case (Cons input inputs)
  have "no_panic (sign_input L tx sk a i v input)" for v
    using assms(1) by (auto simp: sign_input_def psbts_follow_def Let_def intro!: no_panic_rbind)
  then show ?case using Cons by (auto intro!: no_panic_rbind)
qed simp

lemma signed_sweep_returns:
  assumes "psbts_follow L"
  shows "no_panic (signed_sweep L sk a dest unspent v)"
proof (cases "from_unsigned_tx L (sweep_tx unspent dest v)")
  case (Ok psbt)
  with assms have sizes: "length (psbt_inputs psbt) = length (sweep_inputs unspent)" "length (output_scripts psbt) = 1"
    by (simp_all add: psbts_follow_def sweep_tx_def)
  then have "length (psbt_inputs psbt) = length unspent" "output_scripts psbt \<noteq> []"
    by (auto simp: sweep_inputs_def)
  then show ?thesis
    using Ok assms by (auto simp: signed_sweep_def intro!: no_panic_rbind sign_inputs_returns)
next
  case (Panic p)
  then show ?thesis using assms by (auto simp: psbts_follow_def no_panic_def)
qed (simp_all add: signed_sweep_def)

lemma btc_sweep_address_safe [safe_intros]:
  assumes "electrum_returns w" and "psbts_follow L"
  shows "safe (btc_ok w L) any (btc_sweep_address sk a dest)"
  unfolding btc_sweep_address_def
  by (auto intro!: safe_intros assms signed_sweep_returns simp: Let_def split: option.split address_type.split)

lemma sweep_outcome_safe [safe_intros]: "safe (good V P) any (sweep_outcome i task hashes)"
  unfolding sweep_outcome_def by (auto intro!: safe_intros)

lemma btc_sweep_polling_safe:
  assumes "electrum_returns w" and "psbts_follow L"
  shows "safe (btc_ok w L) any btc_sweep_polling"
  unfolding btc_sweep_polling_def btc_sweep_task_def
  by (auto intro!: safe_intros assms split: sweep_address_addendum.split)

section \<open>Requests\<close>

lemma requests_safe:
  assumes "electrum_returns w"
  shows "safe (btc_ok w L) any (transaction_broadcasting b source)" "safe (btc_ok w L) any (btc_balance_fetcher g source)"
    "valid_hash L (gt_hash t) \<Longrightarrow> safe (btc_ok w L) any (transaction_fetcher t source)"
  unfolding transaction_broadcasting_def btc_balance_fetcher_def transaction_fetcher_def with_client_def bridge_def
  by (auto intro!: safe_intros safe_attempt_any transaction_call [THEN safe_weaken] assms simp: valid_hash_def
      split: address_secret_key.split)

lemma btc_take_task_safe:
  assumes w: "electrum_returns w" and fits: "task_fits (valid_hash L) (sdt_task t)" and "room s" and s: "btc_ok w L s"
  shows "keeps (btc_ok w L) (btc_take_task t) s"
proof -
  have added: "adds (valid_hash L) any m \<Longrightarrow> keeps (btc_ok w L) (locked m) s" for m
    by (rule btc_adds [OF _ assms(3) s])
  have held: "safe (good V P) any (hold_broadcast task source)" for V P task source
    unfolding hold_broadcast_def by (rule safe_modify) (rule good_updates)
  have broadcast: "safe (btc_ok w L) any (take_broadcast task source)" for task source
    unfolding take_broadcast_def queue_broadcast_def
    by (auto intro!: safe_intros safe_reads held split: option.split)
  have health: "safe (btc_ok w L) any (bind electrum_health (\<lambda>h. locked (send_health_result i h source)))" for i source
    by (auto intro!: safe_intros w)
  note kept = added adders keeps_safe [OF channel_sends(1) s] keeps_safe [OF broadcast s] keeps_safe [OF health s]
  show ?thesis
    unfolding btc_take_task_def abort_wrong_chain_def
    using fits by (cases "sdt_task t")
      (auto intro!: kept simp: Let_def split: sweep_address_addendum.split address_addendum.split)
qed

text \<open>
  The tasks that the syncer spawns, one round or one request of each; the requests are those it is given,
  of which the id asked for is a transaction id. The task that ends the syncer is apart.
\<close>

definition btc_tasks ::
  "nat \<Rightarrow> nat \<Rightarrow> polled_task \<Rightarrow> bridge_socket \<Rightarrow> bytes \<Rightarrow> bridge_event list \<Rightarrow> broadcast_transaction \<Rightarrow> get_tx
     \<Rightarrow> get_address_balance \<Rightarrow> service_id \<Rightarrow> unit btc_action list" where
  "btc_tasks fuel n polled push syncer_address events b q g source = [btc_task_receiver polled,
     btc_event_sender push syncer_address events, btc_address_polling fuel n, btc_height_polling fuel n,
     btc_unseen_polling n, transaction_broadcasting b source, transaction_fetcher q source, btc_balance_fetcher g source,
     estimate_fee_polling n, btc_sweep_polling]"

lemma btc_task_receiver_keeps:
  assumes "electrum_returns w" and "takes_well (valid_hash L) s polled" and "btc_ok w L s"
  shows "keeps (btc_ok w L) (btc_task_receiver polled) s"
  using assms unfolding btc_task_receiver_def
  by (cases polled) (auto intro!: btc_take_task_safe keeps_safe [OF safe_skip])

lemma btc_tasks_keep:
  assumes "electrum_returns w" and "psbts_follow L" and "btc_ok w L s" and "takes_well (valid_hash L) s polled"
    and "pushes push a (calls s) events" and "valid_hash L (gt_hash q)"
    and "m \<in> set (btc_tasks fuel n polled push a events b q g source)"
  shows "keeps (btc_ok w L) m s"
proof -
  have "keeps (btc_ok w L) (btc_task_receiver polled) s" by (rule btc_task_receiver_keeps [OF assms(1,4,3)])
  moreover have "keeps (btc_ok w L) (btc_event_sender push a events) s"
    unfolding btc_event_sender_def by (rule bridge_event_sender_keeps) (simp_all add: assms(3,5))
  ultimately show ?thesis
    using assms(7) unfolding btc_tasks_def
    by (auto intro: keeps_safe intro!: assms(3) btc_address_polling_safe btc_height_polling_safe btc_unseen_polling_safe
        estimate_fee_polling_safe btc_sweep_polling_safe requests_safe assms(1,2,6))
qed

lemma btc_start_ok:
  assumes "rely (valid_hash L) any others" and "\<And>i. \<not> shut i"
    and "btc_synclet_run url proxy w L others shut = Ok s"
  shows "btc_ok w L s" and "has_next_id (shared s)"
proof -
  have "good V P (new_syncer_state Bitcoin)" for V P
    by (simp add: good_def watched_ok_new served_def syncer_inv_new) (simp add: new_syncer_state_def)
  then show "btc_ok w L s"
    using assms by (cases url) (auto simp: btc_synclet_run_def btc_ok_def task_ok_def)
  show "has_next_id (shared s)"
    using assms(3) by (cases url) (auto simp: btc_synclet_run_def has_next_id_def new_syncer_state_def)
qed

end
