(* ===== verification/BitcoinQueries.thy ===== *)
theory BitcoinQueries
  imports SyncletTasks
begin

text \<open>
  What the queries of the Bitcoin syncer compute. On a server that answers from one ledger, the walk
  over the history of an address is a filter of that history; a sweep broadcasts a signed transaction
  that spends everything unspent to the destination, or nothing.
\<close>

section \<open>Actions that only ask\<close>

definition answers :: "electrum \<Rightarrow> bitcoin_lib \<Rightarrow> 'a btc_action \<Rightarrow> 'a \<Rightarrow> bool" where
  "answers w L m x \<longleftrightarrow> (\<forall>s. server s = w \<longrightarrow> lib s = L \<longrightarrow> (\<exists>n. m s = (Ok x, s\<lparr>calls := n\<rparr>)))"

lemma answers_ret: "answers w L (ret x) x"
  unfolding answers_def
proof (intro allI impI exI)
  show "ret x s = (Ok x, s\<lparr>calls := calls s\<rparr>)" for s :: electrum_rpc by (simp add: ret_def)
qed

lemma answers_bind:
  assumes "answers w L m x" and "answers w L (f x) y"
  shows "answers w L (bind m f) y"
  unfolding answers_def
proof (intro allI impI)
  fix s :: electrum_rpc
  assume s: "server s = w" "lib s = L"
  then obtain n where n: "m s = (Ok x, s\<lparr>calls := n\<rparr>)" using assms(1) by (auto simp: answers_def)
  have "server (s\<lparr>calls := n\<rparr>) = w" "lib (s\<lparr>calls := n\<rparr>) = L" using s by simp_all
  with assms(2) obtain k where "f x (s\<lparr>calls := n\<rparr>) = (Ok y, s\<lparr>calls := n, calls := k\<rparr>)" unfolding answers_def by blast
  then show "\<exists>n. bind m f s = (Ok y, s\<lparr>calls := n\<rparr>)" using n by (auto simp: bind_def)
qed

lemma answers_lib: "answers w L (f L) x \<Longrightarrow> answers w L (reads lib f) x"
  by (simp add: answers_def reads_def)

lemma answers_call: "(\<And>n. f w n = Ok x) \<Longrightarrow> answers w L (call_server f) x"
  by (auto simp: answers_def call_server_def next_call_def bind_def stateful_def reads_def lift_res_def)

lemma answers_refused:
  assumes "\<And>n. \<exists>e. f w n = Err e" and "\<And>e. answers w L (g (Inl e)) x"
  shows "answers w L (bind (attempt (call_server f)) g) x"
  unfolding answers_def
proof (intro allI impI)
  fix s :: electrum_rpc
  assume s: "server s = w" "lib s = L"
  obtain e where "f w (calls s) = Err e" using assms(1) by blast
  then have run: "call_server f s = (Err (SyncerErr (Electrum e)), s\<lparr>calls := Suc (calls s)\<rparr>)"
    using s by (simp add: call_server_def next_call_def bind_def stateful_def reads_def lift_res_def)
  have "server (s\<lparr>calls := Suc (calls s)\<rparr>) = w" "lib (s\<lparr>calls := Suc (calls s)\<rparr>) = L" using s by simp_all
  with assms(2) [of "SyncerErr (Electrum e)"] obtain k where
    "g (Inl (SyncerErr (Electrum e))) (s\<lparr>calls := Suc (calls s)\<rparr>) = (Ok x, s\<lparr>calls := Suc (calls s), calls := k\<rparr>)"
    unfolding answers_def by blast
  then show "\<exists>n. bind (attempt (call_server f)) g s = (Ok x, s\<lparr>calls := n\<rparr>)"
    using run by (auto simp: bind_def attempt_def)
qed

lemma answers_attempt: "answers w L m x \<Longrightarrow> answers w L (attempt m) (Inr x)"
  unfolding answers_def attempt_def by fastforce

section \<open>The history of an address\<close>

text \<open>A server that answers from a ledger and the histories of its scripts.\<close>

definition serves_ledger :: "electrum \<Rightarrow> (txid \<Rightarrow> bitcoin_tx option) \<Rightarrow> (bytes \<Rightarrow> (int \<times> txid) list) \<Rightarrow> bool" where
  "serves_ledger w ledger hist \<longleftrightarrow>
     (\<forall>n t tx. ledger t = Some tx \<longrightarrow> el_transaction_get w n t = Ok tx)
     \<and> (\<forall>n t. ledger t = None \<longrightarrow> (\<exists>e. el_transaction_get w n t = Err e))
     \<and> (\<forall>n b. el_script_get_history w n b = Ok (hist b))"

definition received :: "bytes \<Rightarrow> bitcoin_tx \<Rightarrow> u64" where
  "received script tx = sum_list (map to_value (filter (\<lambda>o'. to_script o' = script) (bx_outputs tx)))"

definition paid_away :: "bytes \<Rightarrow> bitcoin_tx \<Rightarrow> u64" where
  "paid_away script tx = sum_list (map to_value (filter (\<lambda>o'. to_script o' \<noteq> script) (bx_outputs tx)))"

definition pays :: "bytes \<Rightarrow> bitcoin_tx \<Rightarrow> bool" where
  "pays script tx \<longleftrightarrow> (\<exists>o' \<in> set (bx_outputs tx). to_script o' = script)"

text \<open>
  Among the inputs up to the first that the ledger does not know, one comes from a transaction that
  pays to the script. (The output it spends is not looked at.)
\<close>

definition comes_from :: "(txid \<Rightarrow> bitcoin_tx option) \<Rightarrow> bytes \<Rightarrow> bitcoin_tx \<Rightarrow> bool" where
  "comes_from ledger script tx \<longleftrightarrow>
     (\<exists>i \<in> set (takeWhile (\<lambda>i. ledger (ti_txid i) \<noteq> None) (bx_inputs tx)). pays script (the (ledger (ti_txid i))))"

definition history_entry ::
  "bitcoin_lib \<Rightarrow> (txid \<Rightarrow> bitcoin_tx option) \<Rightarrow> bytes \<Rightarrow> tx_filter \<Rightarrow> txid \<Rightarrow> address_tx option" where
  "history_entry L ledger script flt t =
     (let tx = the (ledger t); inc = pays script tx; out = comes_from ledger script tx
      in if inc \<and> flt \<noteq> Outgoing then Some (AddressTx (received script tx) t (serialize L tx) (\<not> out))
         else if out \<and> flt \<noteq> Incoming then Some (AddressTx (paid_away script tx) t (serialize L tx) False)
         else None)"

text \<open>Unconfirmed, or confirmed above the height from which the address is watched.\<close>

definition later :: "u64 \<Rightarrow> int \<Rightarrow> bool" where
  "later from h \<longleftrightarrow> h \<le> 0 \<or> int (unat from) < h"

lemma too_old_later:
  assumes "h < 2 ^ 31"
  shows "too_old from h \<longleftrightarrow> \<not> later from h"
proof (cases "0 < h")
  case True
  then have "uint (word_of_int h :: u64) = h" using assms by (simp add: uint_word_of_int)
  then show ?thesis using True by (simp add: too_old_def later_def word_le_def not_less)
qed (simp add: too_old_def later_def)

definition address_history ::
  "bitcoin_lib \<Rightarrow> (txid \<Rightarrow> bitcoin_tx option) \<Rightarrow> (bytes \<Rightarrow> (int \<times> txid) list) \<Rightarrow> btc_address_addendum \<Rightarrow> tx_filter
     \<Rightarrow> address_tx list" where
  "address_history L ledger hist a flt = (let script = btc_script (baa_address a)
     in List.map_filter (history_entry L ledger script flt)
          (map snd (filter (\<lambda>(h, _). later (baa_from_height a) h) (hist script))))"

lemma scan_outputs_eq:
  "scan_outputs script outs (b, inc, out) =
     (b \<or> (\<exists>o' \<in> set outs. to_script o' = script),
      inc + sum_list (map to_value (filter (\<lambda>o'. to_script o' = script) outs)),
      out + sum_list (map to_value (filter (\<lambda>o'. to_script o' \<noteq> script) outs)))"
  by (induction outs arbitrary: b inc out) (auto simp: algebra_simps)

lemma scan_inputs_answers:
  assumes "serves_ledger w ledger hist"
  shows "answers w L (scan_inputs script ins b)
    (b \<or> (\<exists>i \<in> set (takeWhile (\<lambda>i. ledger (ti_txid i) \<noteq> None) ins). pays script (the (ledger (ti_txid i)))))"
proof (induction ins arbitrary: b)
  case Nil
  then show ?case by (simp add: answers_ret)
next
  case (Cons i ins)
  show ?case
  proof (cases "ledger (ti_txid i)")
    case None
    then have "\<exists>e. el_transaction_get w n (ti_txid i) = Err e" for n using assms by (simp add: serves_ledger_def)
    then show ?thesis using None by (auto intro!: answers_refused answers_ret)
  next
    case (Some tx)
    then have "el_transaction_get w n (ti_txid i) = Ok tx" for n using assms by (simp add: serves_ledger_def)
    then have "answers w L (attempt (call_server (\<lambda>w n. el_transaction_get w n (ti_txid i)))) (Inr tx)"
      by (intro answers_attempt answers_call)
    then have "answers w L (bind (attempt (call_server (\<lambda>w n. el_transaction_get w n (ti_txid i)))) (\<lambda>r. case r of
        Inl _ \<Rightarrow> ret b
      | Inr prev_tx \<Rightarrow> scan_inputs script ins (list_ex (\<lambda>o'. to_script o' = script) (bx_outputs prev_tx) \<or> b)))
      ((pays script tx \<or> b) \<or> (\<exists>i \<in> set (takeWhile (\<lambda>i. ledger (ti_txid i) \<noteq> None) ins). pays script (the (ledger (ti_txid i)))))"
      by (rule answers_bind) (use Cons.IH [of "pays script tx \<or> b"] in \<open>simp add: pays_def list_ex_iff\<close>)
    moreover have "((pays script tx \<or> b) \<or> (\<exists>i \<in> set (takeWhile (\<lambda>i. ledger (ti_txid i) \<noteq> None) ins). pays script (the (ledger (ti_txid i)))))
      = (b \<or> (\<exists>j \<in> set (takeWhile (\<lambda>i. ledger (ti_txid i) \<noteq> None) (i # ins)). pays script (the (ledger (ti_txid j)))))"
      using Some by auto
    ultimately show ?thesis by (simp only: scan_inputs.simps)
  qed
qed

lemma walk_history_answers:
  assumes "serves_ledger w ledger hs" and "\<forall>(h, t) \<in> set hist. \<not> too_old from h \<longrightarrow> ledger t \<noteq> None"
  shows "answers w L (walk_history from script flt hist txs)
    (txs @ List.map_filter (history_entry L ledger script flt) (map snd (filter (\<lambda>(h, _). \<not> too_old from h) hist)))"
  using assms(2)
proof (induction hist arbitrary: txs)
  case Nil
  then show ?case by (simp add: answers_ret map_filter_simps)
next
  case (Cons p hist)
  obtain h t where p: "p = (h, t)" by (cases p)
  show ?case
  proof (cases "too_old from h")
    case True
    then show ?thesis using Cons p by simp
  next
    case False
    then obtain tx where tx: "ledger t = Some tx" using Cons.prems p by auto
    then have get: "answers w L (call_server (\<lambda>w n. el_transaction_get w n t)) tx"
      using assms(1) by (intro answers_call) (simp add: serves_ledger_def)
    have "\<forall>(h, t) \<in> set hist. \<not> too_old from h \<longrightarrow> ledger t \<noteq> None" using Cons.prems by auto
    note rest = Cons.IH [OF this]
    have scanned: "answers w L (scan_inputs script (bx_inputs tx) False) (comes_from ledger script tx)"
      using scan_inputs_answers [OF assms(1), of L script "bx_inputs tx" False] by (simp add: comes_from_def)
    have entry: "history_entry L ledger script flt t = map_option
        (\<lambda>amount. AddressTx amount t (serialize L tx) (pays script tx \<and> \<not> comes_from ledger script tx))
        (selected_amount flt (pays script tx) (comes_from ledger script tx) (received script tx) (paid_away script tx))"
      by (cases flt) (auto simp: history_entry_def tx Let_def)
    have outputs: "scan_outputs script (bx_outputs tx) (False, 0, 0) = (pays script tx, received script tx, paid_away script tx)"
      by (simp add: scan_outputs_eq pays_def received_def paid_away_def)
    have shown: "answers w L (walk_history from script flt hist (txs @ AddressTx v t (serialize L tx) (pays script tx \<and> \<not> comes_from ledger script tx) # []))
        (txs @ List.map_filter (history_entry L ledger script flt) (map snd (filter (\<lambda>(h, _). \<not> too_old from h) (p # hist))))"
      if "selected_amount flt (pays script tx) (comes_from ledger script tx) (received script tx) (paid_away script tx) = Some v" for v
      using rest [of "txs @ [AddressTx v t (serialize L tx) (pays script tx \<and> \<not> comes_from ledger script tx)]"] False entry that
      by (simp add: p map_filter_simps)
    have passed: "answers w L (walk_history from script flt hist txs)
        (txs @ List.map_filter (history_entry L ledger script flt) (map snd (filter (\<lambda>(h, _). \<not> too_old from h) (p # hist))))"
      if "selected_amount flt (pays script tx) (comes_from ledger script tx) (received script tx) (paid_away script tx) = None"
      using rest [of txs] False entry that by (simp add: p map_filter_simps)
    show ?thesis
      unfolding p walk_history.simps if_not_P [OF False]
      by (rule answers_bind [OF get], simp only: outputs Let_def prod.case, rule answers_bind [OF scanned], rule answers_lib,
          cases "selected_amount flt (pays script tx) (comes_from ledger script tx) (received script tx) (paid_away script tx)")
        (simp_all only: option.case shown [unfolded p] passed [unfolded p])
  qed
qed

lemma query_addr_history_answers:
  assumes "serves_ledger w ledger hist"
    and "\<forall>(h, t) \<in> set (hist (btc_script (baa_address a))). h < 2 ^ 31 \<and> (later (baa_from_height a) h \<longrightarrow> ledger t \<noteq> None)"
  shows "answers w L (query_addr_history a flt) (address_history L ledger hist a flt)"
proof -
  let ?hist = "hist (btc_script (baa_address a))"
  have old: "too_old (baa_from_height a) h \<longleftrightarrow> \<not> later (baa_from_height a) h" if "(h, t) \<in> set ?hist" for h t
    using that assms(2) by (intro too_old_later) auto
  then have known: "\<forall>(h, t) \<in> set ?hist. \<not> too_old (baa_from_height a) h \<longrightarrow> ledger t \<noteq> None" using assms(2) by auto
  have same: "filter (\<lambda>(h, _). \<not> too_old (baa_from_height a) h) ?hist = filter (\<lambda>(h, _). later (baa_from_height a) h) ?hist"
    using old by (intro filter_cong) auto
  have "answers w L (call_server (\<lambda>w n. el_script_get_history w n (btc_script (baa_address a)))) ?hist"
    using assms(1) by (intro answers_call) (simp add: serves_ledger_def)
  then show ?thesis
    unfolding query_addr_history_def address_history_def Let_def same [symmetric]
    by (rule answers_bind) (use walk_history_answers [OF assms(1) known, where txs = "[]" and flt = flt] in simp)
qed

section \<open>The sweep\<close>

text \<open>A transaction made of the unsigned one, each input signed for the output it spends.\<close>

definition signed_input ::
  "bitcoin_lib \<Rightarrow> bitcoin_tx \<Rightarrow> btc_privkey \<Rightarrow> btc_address \<Rightarrow> nat \<Rightarrow> u64 \<Rightarrow> psbt_input \<Rightarrow> bool" where
  "signed_input L tx sk a i v input \<longleftrightarrow>
     (\<exists>msg. message_from_slice L (signature_hash L tx i (p2wpkh_script_code (btc_script a)) v) = Ok msg
        \<and> witness_utxo input = Some (TxOut v (btc_script a))
        \<and> final_script_witness input = Some [sign_ecdsa_all L msg sk, public_key_of L sk])"

definition sweeps_all ::
  "bitcoin_lib \<Rightarrow> btc_privkey \<Rightarrow> btc_address \<Rightarrow> btc_address \<Rightarrow> (txid \<times> nat \<times> u64) list \<Rightarrow> u64 \<Rightarrow> bitcoin_tx \<Rightarrow> bool" where
  "sweeps_all L sk a dest unspent v tx \<longleftrightarrow>
     (\<exists>psbt. tx = psbt_extract_tx L psbt \<and> unsigned_tx psbt = sweep_tx unspent dest v
        \<and> length (psbt_inputs psbt) = length unspent
        \<and> (\<forall>i < length unspent. signed_input L (unsigned_tx psbt) sk a i (snd (snd (unspent ! i))) (psbt_inputs psbt ! i)))"

lemma sign_inputs_signed:
  assumes "sign_inputs L tx sk a unspent k inputs = Ok inputs'"
  shows "length inputs' = length inputs
    \<and> (\<forall>i < length inputs'. signed_input L tx sk a (k + i) (snd (snd (unspent ! (k + i)))) (inputs' ! i))"
  using assms
proof (induction inputs arbitrary: k inputs')
  case (Cons input inputs)
  then obtain x xs where x: "sign_input L tx sk a k (snd (snd (unspent ! k))) input = Ok x"
    and xs: "sign_inputs L tx sk a unspent (Suc k) inputs = Ok xs" and eq: "inputs' = x # xs"
    by (auto split: if_splits elim!: rbind_OkE)
  have "signed_input L tx sk a k (snd (snd (unspent ! k))) x"
    using x by (auto simp: sign_input_def signed_input_def Let_def elim!: rbind_OkE)
  then show ?case using Cons.IH [OF xs] by (auto simp: eq nth_Cons split: nat.split)
qed simp

lemma signed_sweep_sweeps:
  assumes "psbts_follow L" and "signed_sweep L sk a dest unspent v = Ok tx"
  shows "sweeps_all L sk a dest unspent v tx"
proof -
  obtain psbt where psbt: "from_unsigned_tx L (sweep_tx unspent dest v) = Ok psbt"
    using assms(2) by (auto simp: signed_sweep_def split: result.splits)
  then have follows: "unsigned_tx psbt = sweep_tx unspent dest v" "length (psbt_inputs psbt) = length (sweep_inputs unspent)"
    using assms(1) by (simp_all add: psbts_follow_def sweep_tx_def)
  obtain inputs where inputs: "sign_inputs L (unsigned_tx psbt) sk a unspent 0 (psbt_inputs psbt) = Ok inputs"
    and tx: "tx = psbt_extract_tx L (psbt\<lparr>psbt_inputs := inputs, output_scripts := (output_scripts psbt)[0 := Some (btc_script dest)]\<rparr>)"
    using assms(2) psbt by (auto simp: signed_sweep_def split: if_splits elim!: rbind_OkE)
  show ?thesis
    unfolding sweeps_all_def tx
    by (rule exI [of _ "psbt\<lparr>psbt_inputs := inputs, output_scripts := (output_scripts psbt)[0 := Some (btc_script dest)]\<rparr>"])
      (use sign_inputs_signed [OF inputs] follows in \<open>auto simp: sweep_inputs_def\<close>)
qed

text \<open>What a sweep can have broadcast, on whatever the server answers.\<close>

definition sweep_broadcast ::
  "electrum \<Rightarrow> bitcoin_lib \<Rightarrow> btc_privkey \<Rightarrow> btc_address \<Rightarrow> btc_address \<Rightarrow> bytes list \<Rightarrow> bool" where
  "sweep_broadcast w L sk a dest hashes \<longleftrightarrow> (\<exists>unspent rate fee v tx k n h.
     hashes = [h] \<and> address_type_of L a = Some P2wpkh \<and> unspent \<noteq> []
     \<and> el_script_list_unspent w k (btc_script a) = Ok unspent
     \<and> fee = p2wpkh_signed_tx_fee (sats_per_kvb rate) (vsize L (sweep_tx unspent dest (sweep_total unspent))) (length unspent)
     \<and> unat v + unat fee = unat (sweep_total unspent) \<and> 546 < unat v
     \<and> sweeps_all L sk a dest unspent v tx \<and> el_broadcast_raw w n (serialize L tx) = Ok h)"

lemma wp_call_server:
  "server s = w \<Longrightarrow> (\<And>x. f w (calls s) = Ok x \<Longrightarrow> Q x (s\<lparr>calls := Suc (calls s)\<rparr>)) \<Longrightarrow> wp (call_server f) Q (\<lambda>_ _. True) s"
  by (cases "f w (calls s)")
    (auto simp: wp_def call_server_def next_call_def bind_def stateful_def reads_def lift_res_def)

lemma not_dust:
  fixes amt fee :: u64
  assumes "fee \<le> amt" and "\<not> amt - fee \<le> 546"
  shows "unat (amt - fee) + unat fee = unat amt" and "546 < unat (amt - fee)"
proof -
  have le: "fee \<le> amt" "546 < amt - fee" using assms by simp_all
  then show "unat (amt - fee) + unat fee = unat amt" by (simp add: unat_sub_if' word_le_nat_alt)
  show "546 < unat (amt - fee)" using le(2) by (simp add: word_less_nat_alt)
qed

lemma wp_estimate_priority_fee:
  assumes "server s = w" and "lib s = L" and "\<And>p t. server t = w \<Longrightarrow> lib t = L \<Longrightarrow> Q p t"
  shows "wp (estimate_priority_fee k k) Q (\<lambda>_ _. True) s"
  unfolding estimate_priority_fee_def wp_bind
  by (rule wp_call_server [OF assms(1)]) (auto simp: wp_simps assms intro!: wp_call_server)

text \<open>The part after the fee is known.\<close>

lemma sweep_finish:
  assumes "psbts_follow L" and "server t = w" and "el_script_list_unspent w k (btc_script a) = Ok unspent" and "unspent \<noteq> []"
    and "address_type_of L a = Some P2wpkh" and "amt = sweep_total unspent"
    and "fee = p2wpkh_signed_tx_fee (sats_per_kvb rate) (vsize L (sweep_tx unspent dest amt)) (length unspent)"
  shows "wp (if (if fee \<le> amt then amt - fee else 0) \<le> 546 then ret []
      else bind (lift_res (signed_sweep L sk a dest unspent (amt - fee))) (\<lambda>tx.
        bind (call_server (\<lambda>w n. el_broadcast_raw w n (serialize L tx))) (\<lambda>h. ret [h])))
      (\<lambda>hashes _. hashes = [] \<or> sweep_broadcast w L sk a dest hashes) (\<lambda>_ _. True) t"
proof (cases "(if fee \<le> amt then amt - fee else 0) \<le> 546")
  case True
  then show ?thesis by (simp add: wp_simps)
next
  case False
  then have dust: "fee \<le> amt" "\<not> amt - fee \<le> 546" by (auto split: if_splits)
  show ?thesis
  proof (cases "signed_sweep L sk a dest unspent (amt - fee)")
    case (Ok tx)
    note sweeps = signed_sweep_sweeps [OF assms(1) Ok]
    have "sweep_broadcast w L sk a dest [h]" if "el_broadcast_raw w n (serialize L tx) = Ok h" for h n
      unfolding sweep_broadcast_def using that assms(3-7) not_dust [OF dust] sweeps unfolding assms(6) by blast
    then show ?thesis
      using Ok False by (auto simp: wp_simps intro!: wp_call_server [OF assms(2)])
  qed (use False in \<open>simp_all add: wp_simps\<close>)
qed

lemma btc_sweep_address_outcome:
  assumes "psbts_follow L" and "server s = w" and "lib s = L"
  shows "wp (btc_sweep_address sk a dest) (\<lambda>hashes _. hashes = [] \<or> sweep_broadcast w L sk a dest hashes) (\<lambda>_ _. True) s"
proof (cases "address_type_of L a")
  case (Some type)
  show ?thesis
  proof (cases type)
    case P2wpkh
    have type: "address_type_of L a = Some P2wpkh" using Some P2wpkh by simp
    let ?Q = "\<lambda>hashes (_ :: electrum_rpc). hashes = [] \<or> sweep_broadcast w L sk a dest hashes"
    have swept: "wp (let amt = sweep_total unspent
           in bind (estimate_priority_fee 2 2) (\<lambda>(_, high_fee).
             let fee = p2wpkh_signed_tx_fee (sats_per_kvb high_fee) (vsize L (sweep_tx unspent dest amt)) (length unspent)
             in if (if fee \<le> amt then amt - fee else 0) \<le> 546 then ret []
                else bind (lift_res (signed_sweep L sk a dest unspent (amt - fee))) (\<lambda>tx.
                  bind (call_server (\<lambda>w n. el_broadcast_raw w n (serialize L tx))) (\<lambda>h. ret [h])))) ?Q (\<lambda>_ _. True) t"
      if "el_script_list_unspent w k (btc_script a) = Ok unspent" "unspent \<noteq> []" "server t = w" "lib t = L" for unspent k t
      unfolding Let_def
      by (rule wp_bind [THEN iffD2], rule wp_estimate_priority_fee [OF that(3,4)], simp only: split_def)
        (rule sweep_finish [OF assms(1) _ that(1,2) type refl refl])
    show ?thesis
      unfolding btc_sweep_address_def wp_reads assms(3) type option.case address_type.case
    proof (rule wp_bind [THEN iffD2], rule wp_call_server [OF assms(2)])
      fix unspent
      assume "el_script_list_unspent w (calls s) (btc_script a) = Ok unspent"
      note steps = swept [OF this]
      show "wp (if unspent = [] then ret []
           else let amt = sweep_total unspent
           in bind (estimate_priority_fee 2 2) (\<lambda>(_, high_fee).
             let fee = p2wpkh_signed_tx_fee (sats_per_kvb high_fee) (vsize L (sweep_tx unspent dest amt)) (length unspent)
             in if (if fee \<le> amt then amt - fee else 0) \<le> 546 then ret []
                else bind (lift_res (signed_sweep L sk a dest unspent (amt - fee))) (\<lambda>tx.
                  bind (call_server (\<lambda>w n. el_broadcast_raw w n (serialize L tx))) (\<lambda>h. ret [h]))))
          ?Q (\<lambda>_ _. True) (s\<lparr>calls := Suc (calls s)\<rparr>)"
      proof (cases "unspent = []")
        case False
        have "server (s\<lparr>calls := Suc (calls s)\<rparr>) = w" "lib (s\<lparr>calls := Suc (calls s)\<rparr>) = L" using assms by simp_all
        from steps [OF False this] show ?thesis using False by (simp only: if_False)
      qed (simp add: wp_simps)
    qed
  qed (simp add: btc_sweep_address_def assms Some wp_simps)
qed (simp add: btc_sweep_address_def assms wp_simps)

end
