(* ===== verification/BitcoinExamples.thy ===== *)
theory BitcoinExamples
  imports BitcoinTasks BitcoinQueries
begin

text \<open>
  A ledger of two transactions, an Electrum server that answers from it, and a Bitcoin library that
  makes PSBTs: the inputs of the witnesses.
\<close>

definition paying_tx :: bitcoin_tx where
  "paying_tx = Transaction 2 0 [] [TxOut 100000 [0, 20, 5], TxOut 7 [9]]"

definition spending_tx :: bitcoin_tx where
  "spending_tx = Transaction 2 0 [TxIn [1] 0 [] 0 []] [TxOut 90000 [8]]"

definition sample_ledger :: "txid \<Rightarrow> bitcoin_tx option" where
  "sample_ledger t = (if t = [1] then Some paying_tx else if t = [2] then Some spending_tx else None)"

definition sample_history :: "bytes \<Rightarrow> (int \<times> txid) list" where
  "sample_history script = (if script = [0, 20, 5] then [(10, [1]), (12, [2])] else [])"

definition sample_electrum :: electrum where
  "sample_electrum = \<lparr>
     el_client = (\<lambda>_ _ _. Ok ()), el_headers_subscribe = (\<lambda>_. Ok (12, [3])), el_ping = (\<lambda>_. Ok ()),
     el_script_subscribe = (\<lambda>_ _. Ok (Some [4])), el_headers_pop = (\<lambda>_. Ok None), el_script_pop = (\<lambda>_ _. Ok None),
     el_transaction_get = (\<lambda>_ t. case sample_ledger t of Some tx \<Rightarrow> Ok tx | None \<Rightarrow> Err ''unknown transaction''),
     el_script_get_history = (\<lambda>_ script. Ok (sample_history script)), el_block_header = (\<lambda>_ _. Ok [3]),
     el_script_list_unspent = (\<lambda>_ _. Ok [([1], 0, 100000)]), el_script_get_balance = (\<lambda>_ _. Ok (0, 0)),
     el_estimate_fee = (\<lambda>_ _. Ok (F64 1 (- 17))), el_relay_fee = (\<lambda>_. Ok (F64 1 (- 20))),
     el_broadcast_raw = (\<lambda>_ raw. Ok (6 # raw)), already_subscribed = (\<lambda>e. e = ''subscribed'')\<rparr>"

definition sample_psbt :: "bitcoin_tx \<Rightarrow> segwit_psbt" where
  "sample_psbt tx = \<lparr>unsigned_tx = tx,
     psbt_inputs = map (\<lambda>_. \<lparr>witness_utxo = None, witness_script = None, partial_sigs = [], final_script_witness = None\<rparr>)
       (bx_inputs tx),
     output_scripts = map (\<lambda>_. None) (bx_outputs tx)\<rparr>"

definition sample_lib :: bitcoin_lib where
  "sample_lib = \<lparr>serialize = (\<lambda>tx. [of_int (bx_version tx)]), bitcoin_txid = (\<lambda>_. [1]), vsize = (\<lambda>_. 82), tx_of_bitcoin = (\<lambda>_. BtcTx []),
     address_type_of = (\<lambda>_. Some P2wpkh), public_key_of = id, from_unsigned_tx = (\<lambda>tx. Ok (sample_psbt tx)),
     signature_hash = (\<lambda>_ _ _ _. [5]), message_from_slice = Ok, sign_ecdsa_all = (@), psbt_extract_tx = unsigned_tx,
     txid_of_slice = (\<lambda>b. if length b = 32 then Some b else None)\<rparr>"

text \<open>Nothing happens between the sections of a task, and every channel is open.\<close>

definition sample_synclet :: electrum_rpc where
  "sample_synclet = \<lparr>shared = new_syncer_state Bitcoin, lock_count = 0, interference = (\<lambda>_ u. u), sent = [], closed = (\<lambda>_. False),
     calls = 0, server = sample_electrum, lib = sample_lib, electrum_server = ''ssl://server'', proxy_address = None, rpc_height = 0,
     rpc_block_hash = [], rpc_addresses = [], ping_count = 0\<rparr>"

lemma sample_server: "server sample_synclet = sample_electrum" "lib sample_synclet = sample_lib"
  by (simp_all add: sample_synclet_def)

lemma sample_run: "btc_synclet_run (Some ''ssl://server'') None sample_electrum sample_lib (\<lambda>_ u. u) (\<lambda>_. False) = Ok sample_synclet"
  by (simp add: btc_synclet_run_def sample_synclet_def)

lemma sample_electrum_returns: "electrum_returns sample_electrum"
  by (auto simp: electrum_returns_def sample_electrum_def sample_ledger_def paying_tx_def spending_tx_def)

lemma sample_lib_follows: "psbts_follow sample_lib"
  by (auto simp: psbts_follow_def sample_lib_def sample_psbt_def)

lemma sample_serves: "serves_ledger sample_electrum sample_ledger sample_history"
  by (auto simp: serves_ledger_def sample_electrum_def)

lemma sample_ok: "btc_ok sample_electrum sample_lib sample_synclet" "room sample_synclet"
  using btc_start_ok [of sample_lib "\<lambda>_ u. u" "\<lambda>_. False", OF _ _ sample_run]
  by (simp_all add: rely_def room_def sample_synclet_def)

section \<open>The properties\<close>

text \<open>
  Property C32 (invariant): whatever the other tasks do to the shared state as long as they keep it consistent, none of the
  tasks of the Bitcoin syncer panics, for any number of rounds, and each leaves the state consistent:
  while the channels are open, the server returns its errors and transactions with outputs, the library
  makes PSBTs of what it is given, the ids asked for are transaction ids, task ids are left and the
  socket of the bridge takes the events. The rest are the panics meant as ends: the task that ends the
  syncer always panics once it is woken, the receiver when nobody can send it tasks, and the one that gives the
  events to the bridge when the socket refuses one.
\<close>

theorem btc_tasks_panic_only_as_ends:
  assumes "electrum_returns w" and "psbts_follow L" and "btc_ok w L s" and "takes_well (valid_hash L) s polled"
    and "pushes push a (calls s) events" and "valid_hash L (gt_hash q)"
  shows "(\<forall>m \<in> set (btc_tasks fuel n polled push a events b q g source). keeps (btc_ok w L) m s)
    \<and> fst (terminate_polling True s) = Panic ''terminate this thread''
    \<and> fst (btc_task_receiver TasksDisconnected s) = Panic ''Task receiver is disconnected, will exit synclet runtime''
    \<and> (\<forall>refusing. \<not> pushes refusing a (calls s) events
         \<longrightarrow> fst (btc_event_sender refusing a events s) = Panic ''failed to send from bitcoin syncer to syncerd bridge'')"
  using btc_tasks_keep [OF assms]
  by (simp add: terminate_polling_def btc_task_receiver_def btc_event_sender_def bridge_event_sender_fst lift_res_def)

theorem btc_tasks_panic_only_as_ends_witness:
  "keeps (btc_ok sample_electrum sample_lib) (btc_height_polling 3 2) sample_synclet
   \<and> keeps (btc_ok sample_electrum sample_lib)
       (btc_task_receiver (PolledTask (SyncerdTask (WatchHeightTask (WatchHeight (TaskId 1) 50)) Farcasterd))) sample_synclet
   \<and> keeps (btc_ok sample_electrum sample_lib)
       (btc_event_sender (\<lambda>_ _ _ _ _. Ok ()) [1] [BridgeEvent (EmptyEv (TaskId 1)) Farcasterd]) sample_synclet
   \<and> fst (btc_event_sender (\<lambda>_ _ _ _ _. Err ''closed'') [1] [BridgeEvent (EmptyEv (TaskId 1)) Farcasterd] sample_synclet)
       = Panic ''failed to send from bitcoin syncer to syncerd bridge''"
  using btc_tasks_panic_only_as_ends [OF sample_electrum_returns sample_lib_follows sample_ok(1), where fuel = 3 and n = 2
      and b = "BroadcastTransaction (TaskId 0) [] None" and g = "GetAddressBalance (TaskId 0) (BitcoinAddressKey (BtcAddress Testnet []) (BitcoinSecretKeyInfo None []))"
      and source = Farcasterd and polled = "PolledTask (SyncerdTask (WatchHeightTask (WatchHeight (TaskId 1) 50)) Farcasterd)"
      and q = "GetTx (TaskId 0) (replicate 32 1)" and push = "\<lambda>_ _ _ _ _. Ok ()" and a = "[1]"
      and events = "[BridgeEvent (EmptyEv (TaskId 1)) Farcasterd]"] sample_ok(2)
  by (simp add: btc_tasks_def sample_lib_def valid_hash_def)

text \<open>
  Property C34 (equivalence): on a server that answers from one ledger, the history of an address is the filter of the ledger's
  history that the reference definition gives, from the height above which the address is watched, with the
  same amounts and directions and in the same order.
\<close>

theorem address_history_matches_ledger:
  assumes "serves_ledger w ledger hist" and "server s = w" and "lib s = L"
    and "\<forall>(h, t) \<in> set (hist (btc_script (baa_address a))). h < 2 ^ 31 \<and> (later (baa_from_height a) h \<longrightarrow> ledger t \<noteq> None)"
  shows "fst (query_addr_history a flt s) = Ok (address_history L ledger hist a flt)"
proof -
  from query_addr_history_answers [OF assms(1,4), of L flt] assms(2,3) obtain n where
    "query_addr_history a flt s = (Ok (address_history L ledger hist a flt), s\<lparr>calls := n\<rparr>)"
    unfolding answers_def by blast
  then show ?thesis by simp
qed

theorem address_history_matches_ledger_witness:
  "fst (query_addr_history (BtcAddressAddendum 9 (BtcAddress Testnet [0, 20, 5])) AllTxs sample_synclet)
     = Ok [AddressTx 100000 [1] [2] True, AddressTx 90000 [2] [2] False]"
  using address_history_matches_ledger [OF sample_serves sample_server,
      of "BtcAddressAddendum 9 (BtcAddress Testnet [0, 20, 5])" AllTxs]
  by (simp add: address_history_def history_entry_def sample_history_def sample_ledger_def paying_tx_def spending_tx_def pays_def
      comes_from_def received_def paid_away_def later_def map_filter_simps sample_lib_def Let_def)

text \<open>
  Property C35 (bounds): a sweep of a Bitcoin address broadcasts one transaction or none; it is signed for every unspent
  output of the address, pays their sum less the fee of its size to the destination, and more than 546.
\<close>

theorem sweep_spends_everything:
  assumes "psbts_follow L" and "server s = w" and "lib s = L"
    and "btc_sweep_address sk a dest s = (Ok hashes, t)" and "hashes \<noteq> []"
  shows "sweep_broadcast w L sk a dest hashes"
  using wp_OkD [OF btc_sweep_address_outcome [OF assms(1-3)] assms(4)] assms(5) by simp

text \<open>A rate of 763 satoshi per 1000 virtual bytes, of which the signed sweep has 110: 84 satoshi.\<close>

lemma bit_len_numeral:
  "bit_len 0 = 0" "bit_len (Suc 0) = Suc 0" "bit_len 1 = 1" "bit_len (numeral Num.One) = 1"
  "bit_len (numeral (Num.Bit0 n)) = Suc (bit_len (numeral n))" "bit_len (numeral (Num.Bit1 n)) = Suc (bit_len (numeral n))"
  by (simp_all add: bit_len.simps [of 0] bit_len.simps [of "Suc 0"] bit_len.simps [of 1]) (subst bit_len.simps, simp)+

lemma sample_rounds:
  "f64_round 100000000 = 100000000" "f64_round 763 = 763" "f64_round 110 = 110" "f64_round 83930 = 83930"
  "f64_round 96764701881652668710 = 96764701881652674560"
  by (simp_all add: f64_round_def bit_len_numeral)

lemma sample_fee: "sats_per_kvb (F64 1 (- 17)) = 763" "p2wpkh_signed_tx_fee 763 82 (Suc 0) = 84"
  by (simp_all add: p2wpkh_signed_tx_fee_def sample_rounds)

lemma sample_sweep:
  "wp (btc_sweep_address [7] (BtcAddress Testnet [0, 20, 5]) (BtcAddress Testnet [8]))
     (\<lambda>hashes _. hashes = [[6, 2]]) (\<lambda>_ _. False) sample_synclet"
  by (simp add: btc_sweep_address_def wp_simps call_server_def next_call_def sample_synclet_def sample_electrum_def sample_lib_def
      sweep_total_def estimate_priority_fee_def Let_def signed_sweep_def sweep_tx_def sweep_inputs_def sample_psbt_def
      sign_input_def sample_fee del: sats_per_kvb.simps)

theorem sweep_spends_everything_witness:
  "sweep_broadcast sample_electrum sample_lib [7] (BtcAddress Testnet [0, 20, 5]) (BtcAddress Testnet [8]) [[6, 2]]"
proof -
  obtain t where "btc_sweep_address [7] (BtcAddress Testnet [0, 20, 5]) (BtcAddress Testnet [8]) sample_synclet = (Ok [[6, 2]], t)"
    using sample_sweep unfolding wp_def by (auto split: prod.splits result.splits)
  then show ?thesis
    using sweep_spends_everything [OF sample_lib_follows sample_server] by simp
qed

end
