(* ===== verification/MoneroTasks.thy ===== *)
theory MoneroTasks
  imports SyncletTasks
begin

text \<open>The tasks of the Monero syncer are safe: the calculus of \<open>SyncletTasks\<close> over each of them.\<close>

section \<open>The servers of Monero\<close>

text \<open>
  The client library builds a client for each of the two URLs of the configuration; the servers return
  their errors; the amounts of the light wallet server are numbers.
\<close>

definition amount_given :: "bool \<times> u64 option \<times> u64 option \<times> bytes \<Rightarrow> bool" where
  "amount_given = (\<lambda>(incoming, received, spent, _). (if incoming then received else spent) \<noteq> None)"

definition monerod_returns :: "monerod \<Rightarrow> monero_syncer_servers \<times> string option \<Rightarrow> bool" where
  "monerod_returns w c \<longleftrightarrow> mo_client w (monero_daemon (fst c)) (snd c) \<and> mo_client w (monero_rpc_wallet (fst c)) (snd c)
     \<and> (\<forall>n url. no_panic (mo_block_count w n url)) \<and> (\<forall>n h. no_panic (mo_block_hash w n h))
     \<and> (\<forall>n ids. no_panic (mo_transactions w n ids)) \<and> (\<forall>n url. no_panic (mo_wallet_version w n url))
     \<and> (\<forall>n f. no_panic (mo_open_wallet w n f)) \<and> (\<forall>n keys. no_panic (mo_generate w n keys))
     \<and> (\<forall>n. no_panic (mo_query_spend_key w n)) \<and> (\<forall>n h. no_panic (mo_refresh w n h)) \<and> (\<forall>n. no_panic (mo_balance w n))
     \<and> (\<forall>n a. no_panic (mo_sweep_all w n a)) \<and> (\<forall>n. no_panic (mo_close_wallet w n))
     \<and> (\<forall>n cats h. no_panic (mo_transfers w n cats h)) \<and> (\<forall>n url a b. no_panic (mo_lws_login w n url a b))
     \<and> (\<forall>n url a h. no_panic (mo_lws_import w n url a h)) \<and> (\<forall>n url a. no_panic (mo_lws_txs w n url a))
     \<and> (\<forall>n url a txs. mo_lws_txs w n url a = Ok txs \<longrightarrow> list_all amount_given txs)"

definition monero_hash :: "bytes \<Rightarrow> bool" where
  "monero_hash h \<longleftrightarrow> length h = 32"

fun is_monero :: "address_addendum \<Rightarrow> bool" where
  "is_monero (MoneroAddendum _) = True"
| "is_monero (BitcoinAddendum _) = False"

definition xmr_ok :: "monerod \<Rightarrow> monero_syncer_servers \<times> string option \<Rightarrow> monero_rpc \<Rightarrow> bool" where
  "xmr_ok w c = task_ok monero_hash is_monero (\<lambda>s. monerod s = w \<and> (servers s, tor s) = c)"

lemma xmr_ok_frame [simp]:
  "xmr_ok w c (s\<lparr>calls := n\<rparr>) = xmr_ok w c s" "xmr_ok w c (s\<lparr>sent := items\<rparr>) = xmr_ok w c s"
  "xmr_ok w c (s\<lparr>daemon_height := h, daemon_block_hash := b\<rparr>) = xmr_ok w c s"
  by (simp_all add: xmr_ok_def task_ok_def)

lemma xmr_ok_server:
  "xmr_ok w c s \<Longrightarrow> monerod s = w" "xmr_ok w c s \<Longrightarrow> servers s = fst c" "xmr_ok w c s \<Longrightarrow> tor s = snd c"
  "xmr_ok w c s \<Longrightarrow> \<not> closed s i"
  by (auto simp: xmr_ok_def task_ok_def)

interpretation xmr: chain_syncer monero_hash is_monero "\<lambda>s :: monero_rpc. monerod s = w \<and> (servers s, tor s) = c" for w c
  by unfold_locales simp_all

lemmas xmr_locked [safe_intros] = xmr.section_safe [folded xmr_ok_def]
lemmas xmr_adds = xmr.section_adds [folded xmr_ok_def]
lemmas xmr_send [safe_intros] = xmr.send_safe [folded xmr_ok_def]
lemmas xmr_number [safe_intros] = xmr.number_safe [folded xmr_ok_def]

lemma reads_monero [safe_intros]:
  "safe (xmr_ok w c) Q (f w) \<Longrightarrow> safe (xmr_ok w c) Q (reads monerod f)"
  "(\<And>x. safe (xmr_ok w c) Q (g x)) \<Longrightarrow> safe (xmr_ok w c) Q (reads monero g)"
  "safe (xmr_ok w c) Q (h (fst c)) \<Longrightarrow> safe (xmr_ok w c) Q (reads servers h)"
  "(\<And>x. safe (xmr_ok w c) Q (k x)) \<Longrightarrow> safe (xmr_ok w c) Q (reads daemon_height k)"
  by (auto intro: safe_reads simp: xmr_ok_server)

lemma monero_call:
  assumes "\<And>n. no_panic (f w n)" and "\<And>n x. f w n = Ok x \<Longrightarrow> Q x"
  shows "safe (xmr_ok w c) Q (call_monero f)"
  unfolding call_monero_def
  by (intro safe_bind_any xmr_number safe_reads safe_lift_res) (auto simp: assms xmr_ok_server)

lemma monero_calls [safe_intros]:
  assumes "monerod_returns w c"
  shows "safe (xmr_ok w c) any (call_monero (\<lambda>w n. mo_block_count w n url))"
    "safe (xmr_ok w c) any (call_monero (\<lambda>w n. mo_block_hash w n h))"
    "safe (xmr_ok w c) any (call_monero (\<lambda>w n. mo_transactions w n ids))"
    "safe (xmr_ok w c) any (call_monero (\<lambda>w n. mo_wallet_version w n url))"
    "safe (xmr_ok w c) any (call_monero (\<lambda>w n. mo_open_wallet w n f))"
    "safe (xmr_ok w c) any (call_monero (\<lambda>w n. mo_generate w n keys))"
    "safe (xmr_ok w c) any (call_monero mo_query_spend_key)"
    "safe (xmr_ok w c) any (call_monero (\<lambda>w n. mo_refresh w n r))"
    "safe (xmr_ok w c) any (call_monero mo_balance)"
    "safe (xmr_ok w c) any (call_monero (\<lambda>w n. mo_sweep_all w n a))"
    "safe (xmr_ok w c) any (call_monero mo_close_wallet)"
    "safe (xmr_ok w c) any (call_monero (\<lambda>w n. mo_transfers w n cats h))"
    "safe (xmr_ok w c) any (call_monero (\<lambda>w n. mo_lws_login w n url a b))"
    "safe (xmr_ok w c) any (call_monero (\<lambda>w n. mo_lws_import w n url a h))"
    "safe (xmr_ok w c) (list_all amount_given) (call_monero (\<lambda>w n. mo_lws_txs w n url a))"
  using assms by (auto simp: monerod_returns_def intro!: monero_call)

lemma create_rpc_client_safe [safe_intros]:
  assumes "monerod_returns w c"
  shows "safe (xmr_ok w c) any (create_rpc_client (monero_daemon (fst c)))"
    "safe (xmr_ok w c) any (create_rpc_client (monero_rpc_wallet (fst c)))"
  using assms unfolding create_rpc_client_def
  by (auto intro!: safe_reads safe_skip simp: xmr_ok_server monerod_returns_def)

lemma monero_rpc_new_safe [safe_intros]:
  "monerod_returns w c \<Longrightarrow> safe (xmr_ok w c) any monero_rpc_new" "monerod_returns w c \<Longrightarrow> safe (xmr_ok w c) any xmr_wallet_client"
  unfolding monero_rpc_new_def xmr_wallet_client_def by (auto intro!: safe_intros)

section \<open>Blocks and transactions\<close>

lemma blocks_safe [safe_intros]:
  assumes w: "monerod_returns w c"
  shows "safe (xmr_ok w c) any get_height" "safe (xmr_ok w c) any (get_block_hash h)" "safe (xmr_ok w c) any check_block"
proof -
  show gets: "safe (xmr_ok w c) any get_height" "safe (xmr_ok w c) any (get_block_hash h)" for h
    unfolding get_height_def get_block_hash_def by (auto intro!: safe_intros w)
  show "safe (xmr_ok w c) any check_block"
    unfolding check_block_def by (auto intro!: safe_intros gets w)
qed

lemma found_transactions_safe [safe_intros]: "monerod_returns w c \<Longrightarrow> safe (xmr_ok w c) any (found_transactions h found txs)"
  by (induction h found txs rule: found_transactions.induct) (auto intro!: safe_intros)

lemma get_transactions_safe [safe_intros]:
  "monerod_returns w c \<Longrightarrow> list_all monero_hash ids \<Longrightarrow> safe (xmr_ok w c) any (get_transactions ids)"
  unfolding get_transactions_def monero_hash_def [abs_def] by (auto intro!: safe_intros)

section \<open>Addresses\<close>

lemma lws_txs_returns: "list_all amount_given txs \<Longrightarrow> no_panic (lws_txs txs)"
  by (induction txs) (auto simp: amount_given_def intro!: no_panic_rbind split: if_splits)

lemma check_address_lws_safe [safe_intros]: "monerod_returns w c \<Longrightarrow> safe (xmr_ok w c) any (check_address_lws net a url)"
  unfolding check_address_lws_def watched_address_def
  by (intro reads_monero safe_bind [OF monero_calls(15)] safe_lift_res_any lws_txs_returns)

lemma addresses_safe [safe_intros]:
  assumes "monerod_returns w c"
  shows "safe (xmr_ok w c) any (check_address net a b flt)" "safe (xmr_ok w c) any (subscribe_address_lws net a url)"
    "safe (xmr_ok w c) any (change_xmr_address a txs)"
  unfolding check_address_def subscribe_address_lws_def watched_address_def change_xmr_address_def Let_def
  by (auto intro!: safe_intros assms)

lemma open_or_generate_safe [safe_intros]: "monerod_returns w c \<Longrightarrow> safe (xmr_ok w c) any (open_or_generate fuel keys)"
  by (induction fuel) (auto intro!: safe_intros)

lemma wallets_safe [safe_intros]:
  assumes "monerod_returns w c"
  shows "safe (xmr_ok w c) any (xmr_sweep_address fuel net a)" "safe (xmr_ok w c) any (fetch_balance fuel addr view born)"
    "safe (xmr_ok w c) any monero_health"
  unfolding xmr_sweep_address_def fetch_balance_def monero_health_def Let_def
  by (auto intro!: safe_intros assms)

section \<open>The tasks\<close>

definition monero_entries :: "(internal_id \<times> address_transactions) list \<Rightarrow> bool" where
  "monero_entries watched \<longleftrightarrow> (\<forall>(i, a) \<in> set watched. is_monero (wa_addendum (at_task a)))"

lemma good_reads:
  assumes "\<And>s. good V P s \<Longrightarrow> Q (f s)"
  shows "safe (good V P) Q (reads id (\<lambda>s. ret (f s)))"
  using assms by (intro safe_reads safe_ret) simp

lemma good_modifies [safe_intros]:
  "safe (good V P) any (modify (\<lambda>s. s\<lparr>subscribed_addresses := q\<rparr>))"
  by (rule safe_modify) (rule good_updates)

lemma lws_round_step_safe [safe_intros]: "monerod_returns w c \<Longrightarrow> safe (xmr_ok w c) any (lws_round_step net url known i a again)"
  unfolding lws_round_step_def by (auto intro!: safe_intros split: sum.split)

lemma wallet_round_step_safe [safe_intros]: "monerod_returns w c \<Longrightarrow> safe (xmr_ok w c) any (wallet_round_step net watched a)"
  unfolding wallet_round_step_def by (auto intro!: safe_intros)

lemma poll_addresses_safe:
  "monerod_returns w c \<Longrightarrow> monero_entries watched \<Longrightarrow> safe (xmr_ok w c) any (poll_addresses net known watched again)"
proof (induction net known watched again rule: poll_addresses.induct)
  case (2 net known i watched rest again)
  then obtain a where a: "wa_addendum (at_task watched) = MoneroAddendum a" and rest: "monero_entries rest"
    by (cases "wa_addendum (at_task watched)") (auto simp: monero_entries_def)
  show ?case
    using 2 a rest by (auto intro!: safe_intros split: option.split)
qed (auto intro!: safe_intros)

lemma xmr_address_round_safe: "monerod_returns w c \<Longrightarrow> safe (xmr_ok w c) any (xmr_address_round net)"
  unfolding xmr_address_round_def
  by (rule safe_bind [OF xmr_locked [OF good_reads [where Q = "\<lambda>(watched, known). monero_entries watched"]]])
    (auto intro!: poll_addresses_safe simp: good_def watched_ok_def monero_entries_def)

lemma change_polled_safe [safe_intros]: "safe (good V P) any (change_polled txs)"
  unfolding change_polled_def by (auto intro!: safe_intros)

lemma poll_transactions_safe [safe_intros]:
  "monerod_returns w c \<Longrightarrow> list_all monero_hash ids \<Longrightarrow> safe (xmr_ok w c) any (poll_transactions ids)"
  unfolding poll_transactions_def by (auto intro!: safe_intros)

lemma xmr_height_round_safe: "monerod_returns w c \<Longrightarrow> safe (xmr_ok w c) any xmr_height_round"
proof -
  assume w: "monerod_returns w c"
  let ?Q = "\<lambda>txs. \<forall>(i, t) \<in> set txs. monero_hash (wt_hash (wtx_task t))"
  have read: "safe (good monero_hash is_monero) ?Q (reads transactions ret)"
    by (intro safe_reads safe_ret) (auto simp: good_def watched_ok_def)
  have watched: "safe (xmr_ok w c) ?Q (locked (bind (change_height h hash) (\<lambda>_. reads transactions ret)))" for h hash
    by (intro xmr_locked safe_bind_any sections read)
  have step: "safe (xmr_ok w c) any (bind (locked (bind (change_height h hash) (\<lambda>_. reads transactions ret)))
      (\<lambda>txs. on (txs \<noteq> []) (poll_transactions (map (\<lambda>(_, w). wt_hash (wtx_task w)) txs))))" for h hash
    by (rule safe_bind [OF watched]) (auto intro!: safe_on poll_transactions_safe w simp: list.pred_set)
  show ?thesis
    unfolding xmr_height_round_def
    by (rule safe_bind_any) (auto intro!: blocks_safe safe_attempt_any safe_sum safe_prod safe_skip step w)
qed

lemma xmr_unseen_round_safe: "monerod_returns w c \<Longrightarrow> safe (xmr_ok w c) any xmr_unseen_round"
  unfolding xmr_unseen_round_def
  by (rule safe_bind [OF xmr_locked [OF unseen_hashes_ok]]) (auto intro!: safe_on poll_transactions_safe)

lemma xmr_sweep_polling_safe: "monerod_returns w c \<Longrightarrow> safe (xmr_ok w c) any (xmr_sweep_polling fuel net)"
  unfolding xmr_sweep_polling_def xmr_sweep_task_def Let_def
  by (auto intro!: safe_intros split: sweep_address_addendum.split)

lemma xmr_balance_fetcher_safe: "monerod_returns w c \<Longrightarrow> safe (xmr_ok w c) any (xmr_balance_fetcher fuel g source)"
  unfolding xmr_balance_fetcher_def bridge_xmr_def by (auto intro!: safe_intros split: address_secret_key.split)

lemma xmr_take_task_safe:
  assumes w: "monerod_returns w c" and fits: "task_fits monero_hash (sdt_task t)" and "room s" and s: "xmr_ok w c s"
  shows "keeps (xmr_ok w c) (xmr_take_task t) s"
proof -
  have added: "adds monero_hash is_monero m \<Longrightarrow> keeps (xmr_ok w c) (locked m) s" for m
    by (rule xmr_adds [OF _ assms(3) s])
  have health: "safe (xmr_ok w c) any (bind monero_health (\<lambda>h. locked (send_health_result i h source)))" for i source
    by (auto intro!: safe_intros w)
  note kept = added adders keeps_safe [OF xmr_send(1) s] keeps_safe [where I = "xmr_ok w c", OF safe_skip s] keeps_safe [OF health s]
  show ?thesis
    unfolding xmr_take_task_def abort_wrong_chain_def bridge_xmr_def
    using fits by (cases "sdt_task t")
      (auto intro!: kept simp: Let_def split: sweep_address_addendum.split address_addendum.split)
qed

text \<open>The tasks that the syncer spawns, after the client of the wallet server is built, one round or one request of each.\<close>

definition xmr_tasks ::
  "nat \<Rightarrow> network \<Rightarrow> polled_task \<Rightarrow> bridge_socket \<Rightarrow> bytes \<Rightarrow> bridge_event list \<Rightarrow> get_address_balance \<Rightarrow> service_id
     \<Rightarrow> unit xmr_action list" where
  "xmr_tasks fuel net polled push syncer_address events g source = [xmr_wallet_client, xmr_task_receiver polled,
     xmr_event_sender push syncer_address events, monero_rpc_new, xmr_address_round net, xmr_height_round, xmr_unseen_round,
     xmr_sweep_polling fuel net, xmr_balance_fetcher fuel g source]"

lemma xmr_task_receiver_keeps:
  assumes "monerod_returns w c" and "takes_well monero_hash s polled" and "xmr_ok w c s"
  shows "keeps (xmr_ok w c) (xmr_task_receiver polled) s"
  using assms unfolding xmr_task_receiver_def
  by (cases polled) (auto intro!: xmr_take_task_safe keeps_safe [OF safe_skip])

lemma xmr_tasks_keep:
  assumes "monerod_returns w c" and "xmr_ok w c s" and "takes_well monero_hash s polled" and "pushes push a (calls s) events"
    and "m \<in> set (xmr_tasks fuel net polled push a events g source)"
  shows "keeps (xmr_ok w c) m s"
proof -
  have "keeps (xmr_ok w c) (xmr_task_receiver polled) s" by (rule xmr_task_receiver_keeps [OF assms(1,3,2)])
  moreover have "keeps (xmr_ok w c) (xmr_event_sender push a events) s"
    unfolding xmr_event_sender_def by (rule bridge_event_sender_keeps) (simp_all add: assms(2,4))
  ultimately show ?thesis
    using assms(5) unfolding xmr_tasks_def
    by (auto intro: keeps_safe intro!: assms(1,2) monero_rpc_new_safe xmr_address_round_safe xmr_height_round_safe
        xmr_unseen_round_safe xmr_sweep_polling_safe xmr_balance_fetcher_safe)
qed

lemma xmr_start_ok:
  assumes "rely monero_hash is_monero others" and "\<And>i. \<not> shut i"
    and "xmr_synclet_run daemon wallet lws proxy w x others shut = Ok s"
  shows "xmr_ok w (servers s, tor s) s" and "has_next_id (shared s)"
proof -
  have "good V P (new_syncer_state Monero)" for V P
    by (simp add: good_def watched_ok_new served_def syncer_inv_new) (simp add: new_syncer_state_def)
  then show "xmr_ok w (servers s, tor s) s"
    using assms by (auto simp: xmr_synclet_run_def xmr_ok_def task_ok_def split: option.splits)
  show "has_next_id (shared s)"
    using assms(3) by (auto simp: xmr_synclet_run_def has_next_id_def new_syncer_state_def split: option.splits)
qed

end
