(* ===== verification/MoneroExamples.thy ===== *)
theory MoneroExamples
  imports MoneroTasks
begin







section \<open>The property\<close>



end
