(* ===== verification/Walletd.thy ===== *)
theory Walletd
  imports Esb
begin

text \<open>
  The wallet daemon (\<open>walletd/runtime.rs\<close>) and the file of its secrets (\<open>walletd/opts.rs\<close>): it hands
  out the key of the node and a key manager per swap, each from the seed and a counter kept on disk.
  The encoding of the file, the random numbers and the cryptography are the record \<open>wallet_crates\<close>;
  whether the file can be created is decided per attempt.
\<close>

section \<open>The secrets and their file\<close>

record node_secrets =
  key_file :: string
  peerd_secret_key :: btc_privkey
  wallet_seed :: bytes
  wallet_counter :: u32

record wallet_crates =
  key_manager_new :: "bytes \<Rightarrow> u32 \<Rightarrow> string + key_manager"
  public_of :: "btc_privkey \<Rightarrow> btc_pubkey"
  secrets_encode :: "node_secrets \<Rightarrow> (string, bytes) result"
  secrets_decode :: "bytes \<Rightarrow> (string, node_secrets) result"
  random_key :: "nat \<Rightarrow> btc_privkey"
  key_from_slice :: "bytes \<Rightarrow> btc_privkey option"

text \<open>The files, and which attempts to create one succeed.\<close>

record disk =
  files :: "string \<rightharpoonup> bytes"
  creations :: nat
  creatable :: "nat \<Rightarrow> bool"

record walletd = daemon +
  disk :: disk
  wallet_token :: token
  node_secrets :: node_secrets

text \<open>\<open>File::create\<close> empties the file; the encoding is written into it afterwards.\<close>

definition save_secrets :: "wallet_crates \<Rightarrow> string \<Rightarrow> string \<Rightarrow> node_secrets \<Rightarrow> (disk, error, unit) action" where
  "save_secrets C no_file no_save secrets = reads id (\<lambda>d.
     let create = (\<lambda>data. modify (\<lambda>d. d\<lparr>files := (files d)(key_file secrets \<mapsto> data), creations := Suc (creations d)\<rparr>))
     in if \<not> creatable d (creations d)
        then steps [modify (\<lambda>d. d\<lparr>creations := Suc (creations d)\<rparr>)] (lift_res (Panic no_file))
        else case secrets_encode C secrets of
            Ok data \<Rightarrow> create data
          | _ \<Rightarrow> steps [create []] (lift_res (Panic no_save)))"

text \<open>The seed is 32 bytes read from a random key, which they give back.\<close>

definition create_seed :: "wallet_crates \<Rightarrow> btc_privkey \<Rightarrow> (error, bytes) result" where
  "create_seed C key =
     (if length key < 32 then Panic ''wallet_key has 32 bytes''
      else rbind (expect ''wallet_seed has 32 bytes'' (key_from_slice C (take 32 key))) (\<lambda>expected_key.
        if expected_key \<noteq> key then Panic ''Cannot go back and forward from bytes to secret key''
        else Ok (take 32 key)))"

definition node_secrets_new :: "wallet_crates \<Rightarrow> string \<Rightarrow> (disk, error, node_secrets) action" where
  "node_secrets_new C file = reads id (\<lambda>d. case files d file of
       Some data \<Rightarrow> (case secrets_decode C data of
           Ok secrets \<Rightarrow> ret secrets
         | _ \<Rightarrow> lift_res (Panic ''Unable to read node code file format''))
     | None \<Rightarrow> bind (lift_res (create_seed C (random_key C 1))) (\<lambda>seed.
         let secrets = \<lparr>key_file = file, peerd_secret_key = random_key C 0, wallet_seed = seed, wallet_counter = 0\<rparr>
         in steps [save_secrets C ''Unable to create key file'' ''Unable to save generated node secrets'' secrets]
           (ret secrets)))"

definition secrets_node_id :: "wallet_crates \<Rightarrow> node_secrets \<Rightarrow> btc_pubkey" where
  "secrets_node_id C secrets = public_of C (peerd_secret_key secrets)"

definition on_disk :: "(disk, error, 'a) action \<Rightarrow> (walletd, error, 'a) action" where
  "on_disk m = (\<lambda>s. case m (disk s) of (r, d) \<Rightarrow> (r, s\<lparr>disk := d\<rparr>))"

definition counted :: "node_secrets \<Rightarrow> node_secrets" where
  "counted secrets = secrets\<lparr>wallet_counter := wallet_counter secrets + 1\<rparr>"

definition increment_wallet_counter :: "wallet_crates \<Rightarrow> (walletd, error, u32) action" where
  "increment_wallet_counter C = steps [modify (\<lambda>s. s\<lparr>node_secrets := counted (node_secrets s)\<rparr>)]
     (reads node_secrets (\<lambda>secrets.
       steps [on_disk (save_secrets C ''Unable to create key file'' ''Unable to save incremented wallet counter'' secrets)]
         (ret (wallet_counter secrets))))"

section \<open>The handlers\<close>

definition create_swap_keys :: "wallet_crates \<Rightarrow> deal \<Rightarrow> token \<Rightarrow> (walletd, error, unit) action" where
  "create_swap_keys C d given = reads wallet_token (\<lambda>known.
     if given \<noteq> known then throw InvalidToken
     else bind (increment_wallet_counter C) (\<lambda>wallet_index. reads node_secrets (\<lambda>secrets.
       bind (lift_res (err_into (\<lambda>e. from_core_error e) (case key_manager_new C (wallet_seed secrets) wallet_index of
               Inr km \<Rightarrow> Ok km | Inl e \<Rightarrow> Err e))) (\<lambda>km.
         send_from_self CtlBus Farcasterd (Ctl (SwapKeysCtl (SwapKeys km d)))))))"

definition get_keys :: "wallet_crates \<Rightarrow> token \<Rightarrow> (walletd, error, unit) action" where
  "get_keys C given = reads id (\<lambda>s.
     if given \<noteq> wallet_token s then throw InvalidToken
     else send_to CtlBus Walletd Farcasterd
       (Ctl (Keys (peerd_secret_key (node_secrets s)) (secrets_node_id C (node_secrets s)))))"

definition wd_handle_ctl :: "wallet_crates \<Rightarrow> ctl_msg \<Rightarrow> (walletd, error, unit) action" where
  "wd_handle_ctl C request = (case request of
       CreateSwapKeys d given \<Rightarrow> create_swap_keys C d given
     | GetKeys given \<Rightarrow> get_keys C given
     | _ \<Rightarrow> skip)"

definition wd_handle :: "wallet_crates \<Rightarrow> service_bus \<Rightarrow> service_id \<Rightarrow> bus_msg \<Rightarrow> (walletd, error, unit) action" where
  "wd_handle C bus source request = (case (bus, request) of
       (CtlBus, Ctl req) \<Rightarrow> wd_handle_ctl C req
     | _ \<Rightarrow> throw (NotSupported bus (TOpaque ''request'')))"

text \<open>The start, in \<open>walletd\<close>'s main and \<open>run\<close>: the secrets come from the file.\<close>

definition wd_initial_runtime :: "token \<Rightarrow> node_secrets \<Rightarrow> disk \<Rightarrow> (nat \<Rightarrow> envelope \<Rightarrow> bool) \<Rightarrow> walletd" where
  "wd_initial_runtime given secrets d l = \<lparr>identity = Walletd, outbox = [], attempts = 0, link = l, disk = d,
     wallet_token = given, node_secrets = secrets\<rparr>"

end
