(* ===== verification/WalletdKeys.thy ===== *)
theory WalletdKeys
  imports Walletd
begin

text \<open>
  No index of the seed is used twice, over any number of messages, crashes and restarts of the wallet
  daemon; keys are given out only for the token.
\<close>

section \<open>Runs with restarts\<close>

text \<open>The encoding gives back what it was given, and nothing is read from an empty file.\<close>

definition secrets_codec :: "wallet_crates \<Rightarrow> bool" where
  "secrets_codec C \<longleftrightarrow> (\<forall>x data. secrets_encode C x = Ok data \<longrightarrow> secrets_decode C data = Ok x)
     \<and> (\<forall>x. secrets_decode C [] \<noteq> Ok x)"

definition has_index :: "walletd \<Rightarrow> bool" where
  "has_index s \<longleftrightarrow> wallet_counter (node_secrets s) < wallet_counter (node_secrets s) + 1"

definition restarted :: "node_secrets \<Rightarrow> disk \<Rightarrow> walletd \<Rightarrow> walletd" where
  "restarted secrets d s = s\<lparr>disk := d, node_secrets := secrets\<rparr>"

text \<open>
  A node whose file did not exist; then messages while indices are left, each handled or refused, and
  restarts, also after a panic.
\<close>

inductive wallet_run :: "wallet_crates \<Rightarrow> string \<Rightarrow> walletd \<Rightarrow> bool" for C :: wallet_crates and path :: string where
  wallet_start: "files d path = None \<Longrightarrow> node_secrets_new C path d = (Ok secrets, d')
    \<Longrightarrow> wallet_run C path (wd_initial_runtime given secrets d' l)"
| wallet_handled: "wallet_run C path s \<Longrightarrow> has_index s \<Longrightarrow> wd_handle C bus source request s = (Ok (), t) \<Longrightarrow> wallet_run C path t"
| wallet_refused: "wallet_run C path s \<Longrightarrow> has_index s \<Longrightarrow> wd_handle C bus source request s = (Err e, t) \<Longrightarrow> wallet_run C path t"
| wallet_restarted: "wallet_run C path s \<Longrightarrow> node_secrets_new C path (disk s) = (Ok secrets, d')
    \<Longrightarrow> wallet_run C path (restarted secrets d' s)"
| wallet_crashed: "wallet_run C path s \<Longrightarrow> has_index s \<Longrightarrow> wd_handle C bus source request s = (Panic p, t)
    \<Longrightarrow> node_secrets_new C path (disk t) = (Ok secrets, d') \<Longrightarrow> wallet_run C path (restarted secrets d' t)"

fun swap_key :: "envelope \<Rightarrow> key_manager option" where
  "swap_key (Envelope bus source dest (Ctl (SwapKeysCtl keys))) = Some (sk_key_manager keys)"
| "swap_key _ = None"

definition keys_given :: "walletd \<Rightarrow> key_manager list" where
  "keys_given s = List.map_filter swap_key (outbox s)"

definition fresh_indices :: "wallet_crates \<Rightarrow> bytes \<Rightarrow> u32 \<Rightarrow> key_manager list \<Rightarrow> bool" where
  "fresh_indices C seed n keys \<longleftrightarrow>
     (\<exists>is. list_all2 (\<lambda>i km. key_manager_new C seed i = Inr km) is keys \<and> sorted_wrt (<) is \<and> (\<forall>i \<in> set is. 0 < i \<and> i \<le> n))"

definition saved :: "wallet_crates \<Rightarrow> string \<Rightarrow> node_secrets \<Rightarrow> disk \<Rightarrow> bool" where
  "saved C path x d \<longleftrightarrow> key_file x = path \<and> (\<exists>data. secrets_encode C x = Ok data \<and> files d path = Some data)"

definition wallet_inv :: "wallet_crates \<Rightarrow> string \<Rightarrow> walletd \<Rightarrow> bool" where
  "wallet_inv C path s \<longleftrightarrow> saved C path (node_secrets s) (disk s)
     \<and> fresh_indices C (wallet_seed (node_secrets s)) (wallet_counter (node_secrets s)) (keys_given s)"

section \<open>Each operation\<close>

lemma save_secrets_run:
  "save_secrets C a b x d = (r, d') \<Longrightarrow>
     (r = Ok () \<and> saved C (key_file x) x d') \<or>
     (\<exists>p. r = Panic p \<and> (files d' = files d \<or> files d' = (files d)(key_file x \<mapsto> [])))"
  by (auto simp: save_secrets_def saved_def run_simps bind_def Let_def split: if_splits result.splits)

lemma fresh_indices_mono: "fresh_indices C seed n keys \<Longrightarrow> n \<le> k \<Longrightarrow> fresh_indices C seed k keys"
  unfolding fresh_indices_def by (meson order_trans)

lemma fresh_indices_next:
  assumes "fresh_indices C seed n keys" and "n < n + 1" and "key_manager_new C seed (n + 1) = Inr km"
  shows "fresh_indices C seed (n + 1) (keys @ [km])"
proof -
  from assms(1) obtain "is" where *: "list_all2 (\<lambda>i km. key_manager_new C seed i = Inr km) is keys"
    "sorted_wrt (<) is" "\<forall>i \<in> set is. 0 < i \<and> i \<le> n"
    by (auto simp: fresh_indices_def)
  have "0 < n + 1" using assms(2) by (metis word_not_simps(1) word_gt_0)
  moreover have "sorted_wrt (<) (is @ [n + 1])" using *(2,3) assms(2) by (auto simp: sorted_wrt_append intro: le_less_trans)
  moreover have "i \<le> n + 1" if "i \<in> set is" for i using *(3) that assms(2) by (meson less_imp_le order_trans)
  ultimately show ?thesis
    unfolding fresh_indices_def using * assms(3) by (intro exI [of _ "is @ [n + 1]"]) (auto simp: list_all2_appendI)
qed

lemma node_secrets_new_saved:
  assumes "secrets_codec C" and "saved C path x d" and "node_secrets_new C path d = (Ok y, d')"
  shows "y = x \<and> d' = d"
  using assms by (auto simp: node_secrets_new_def saved_def secrets_codec_def run_simps split: result.splits)

text \<open>What handling a message does to the secrets, and after a panic to the file.\<close>

lemma create_swap_keys_run:
  assumes "create_swap_keys C d given s = (r, t)" and "saved C path (node_secrets s) (disk s)"
  shows "(node_secrets t = node_secrets s \<and> disk t = disk s \<and> outbox t = outbox s \<and> (\<forall>p. r \<noteq> Panic p))
    \<or> (node_secrets t = counted (node_secrets s) \<and> saved C path (node_secrets t) (disk t) \<and> (\<forall>p. r \<noteq> Panic p)
       \<and> (keys_given t = keys_given s \<or> (\<exists>km. key_manager_new C (wallet_seed (node_secrets s)) (wallet_counter (node_secrets s) + 1) = Inr km
             \<and> keys_given t = keys_given s @ [km])))
    \<or> (\<exists>p. r = Panic p \<and> outbox t = outbox s \<and> (files (disk t) path = files (disk s) path \<or> files (disk t) path = Some []))"
proof (cases "given = wallet_token s")
  case False
  then show ?thesis using assms by (auto simp: create_swap_keys_def run_simps)
next
  case True
  let ?x = "counted (node_secrets s)"
  have path: "key_file ?x = path" using assms(2) by (simp add: saved_def counted_def)
  obtain q d' where save: "save_secrets C ''Unable to create key file'' ''Unable to save incremented wallet counter'' ?x (disk s) = (q, d')"
    by (cases "save_secrets C ''Unable to create key file'' ''Unable to save incremented wallet counter'' ?x (disk s)")
  from save_secrets_run [OF save] consider
    "q = Ok ()" "saved C path ?x d'" | p where "q = Panic p" "files d' path = files (disk s) path \<or> files d' path = Some []"
    using path by auto
  then show ?thesis
  proof cases
    case 1
    then show ?thesis
      using assms(1) True save
      by (auto simp: create_swap_keys_def increment_wallet_counter_def on_disk_def run_simps bind_def send_from_self_def
          send_to_def Let_def keys_given_def counted_def map_filter_def split: if_splits sum.splits)
  next
    case 2
    then show ?thesis
      using assms(1) True save
      by (auto simp: create_swap_keys_def increment_wallet_counter_def on_disk_def run_simps bind_def)
  qed
qed

lemma wd_handle_run:
  assumes "wd_handle C bus source request s = (r, t)" and "saved C path (node_secrets s) (disk s)"
  shows "(node_secrets t = node_secrets s \<and> disk t = disk s \<and> keys_given t = keys_given s \<and> (\<forall>p. r \<noteq> Panic p))
    \<or> (node_secrets t = counted (node_secrets s) \<and> saved C path (node_secrets t) (disk t) \<and> (\<forall>p. r \<noteq> Panic p)
       \<and> (keys_given t = keys_given s \<or> (\<exists>km. key_manager_new C (wallet_seed (node_secrets s)) (wallet_counter (node_secrets s) + 1) = Inr km
             \<and> keys_given t = keys_given s @ [km])))
    \<or> (\<exists>p. r = Panic p \<and> keys_given t = keys_given s \<and> (files (disk t) path = files (disk s) path \<or> files (disk t) path = Some []))"
proof (cases "\<exists>d given. bus = CtlBus \<and> request = Ctl (CreateSwapKeys d given)")
  case True
  then obtain d given where "create_swap_keys C d given s = (r, t)"
    using assms(1) by (auto simp: wd_handle_def wd_handle_ctl_def)
  from create_swap_keys_run [OF this assms(2)] show ?thesis unfolding keys_given_def by auto
next
  case False
  then have "node_secrets t = node_secrets s \<and> disk t = disk s \<and> keys_given t = keys_given s \<and> (\<forall>p. r \<noteq> Panic p)"
    using assms(1)
    by (auto simp: wd_handle_def wd_handle_ctl_def get_keys_def run_simps send_to_def Let_def keys_given_def map_filter_def
        split: service_bus.splits bus_msg.splits ctl_msg.splits if_splits)
  then show ?thesis by blast
qed

lemma wallet_inv_kept:
  assumes "wallet_inv C path s" and "has_index s" and "wd_handle C bus source request s = (r, t)" and "\<forall>p. r \<noteq> Panic p"
  shows "wallet_inv C path t"
proof -
  have "saved C path (node_secrets s) (disk s)" using assms(1) by (simp add: wallet_inv_def)
  from wd_handle_run [OF assms(3) this] assms show ?thesis
    by (auto simp: wallet_inv_def has_index_def counted_def
        intro: fresh_indices_next elim: fresh_indices_mono [OF _ less_imp_le])
qed

lemma wallet_run_inv:
  assumes "secrets_codec C" and "wallet_run C path s"
  shows "wallet_inv C path s"
  using assms(2)
proof induction
  case (wallet_start d secrets d' given l)
  from wallet_start(1,2) have "saved C path secrets d'" and "wallet_counter secrets = 0"
    by (auto simp: node_secrets_new_def run_simps bind_def Let_def split: result.splits prod.splits
        dest!: save_secrets_run)
  then show ?case
    by (simp add: wallet_inv_def wd_initial_runtime_def keys_given_def map_filter_simps fresh_indices_def)
next
  case (wallet_handled s bus source request t)
  from wallet_inv_kept [OF wallet_handled(4,2,3)] show ?case by simp
next
  case (wallet_refused s bus source request e t)
  from wallet_inv_kept [OF wallet_refused(4,2,3)] show ?case by simp
next
  case (wallet_restarted s secrets d')
  then have "secrets = node_secrets s \<and> d' = disk s"
    using node_secrets_new_saved [OF assms(1)] by (auto simp: wallet_inv_def)
  then show ?case using wallet_restarted by (simp add: restarted_def)
next
  case (wallet_crashed s bus source request p t secrets d')
  have saved: "saved C path (node_secrets s) (disk s)" using wallet_crashed by (simp add: wallet_inv_def)
  from wd_handle_run [OF wallet_crashed(3) saved]
  have keys: "keys_given t = keys_given s" and disk: "files (disk t) path = files (disk s) path \<or> files (disk t) path = Some []"
    by auto
  have "files (disk t) path \<noteq> Some []"
    using wallet_crashed(4) assms(1) by (auto simp: node_secrets_new_def secrets_codec_def run_simps split: result.splits)
  then have "saved C path (node_secrets s) (disk t)" using disk saved by (simp add: saved_def)
  from node_secrets_new_saved [OF assms(1) this wallet_crashed(4)] this
  have "secrets = node_secrets s" "saved C path (node_secrets s) d'" by simp_all
  then show ?case using wallet_crashed keys by (simp add: wallet_inv_def restarted_def keys_given_def)
qed

section \<open>Who gets keys\<close>

lemma only_the_token_gets_keys:
  "outbox (snd (wd_handle C bus source request s)) = outbox s
   \<or> (bus = CtlBus \<and> (request = Ctl (GetKeys (wallet_token s)) \<or> (\<exists>d. request = Ctl (CreateSwapKeys d (wallet_token s))))
      \<and> (\<exists>msg. outbox (snd (wd_handle C bus source request s)) = outbox s @ [Envelope CtlBus (if \<exists>g. request = Ctl (GetKeys g) then Walletd else identity s) Farcasterd msg]))"
proof (cases "\<exists>d g. bus = CtlBus \<and> request = Ctl (CreateSwapKeys d g)")
  case True
  then obtain d g where eq: "bus = CtlBus" "request = Ctl (CreateSwapKeys d g)" by blast
  have save: "save_secrets C a b x dk = (q, dk') \<Longrightarrow> q = Ok () \<or> (\<exists>p. q = Panic p)" for a b x dk q dk'
    using save_secrets_run [of C a b x dk q dk'] by auto
  show ?thesis
    by (auto simp: eq wd_handle_def wd_handle_ctl_def create_swap_keys_def increment_wallet_counter_def on_disk_def run_simps
        bind_def send_from_self_def send_to_def Let_def split: if_splits sum.splits prod.splits result.splits dest!: save)
next
  case False
  then show ?thesis
    by (auto simp: wd_handle_def wd_handle_ctl_def get_keys_def run_simps send_to_def Let_def
        split: service_bus.splits bus_msg.splits ctl_msg.splits if_splits)
qed

section \<open>An example\<close>

text \<open>Managers are the seed with the index; the encoding is the counter in unary.\<close>

definition sample_secrets :: "u32 \<Rightarrow> node_secrets" where
  "sample_secrets n = \<lparr>key_file = ''key.dat'', peerd_secret_key = replicate 32 1, wallet_seed = replicate 32 7, wallet_counter = n\<rparr>"

definition sample_crates :: wallet_crates where
  "sample_crates = \<lparr>key_manager_new = (\<lambda>seed i. Inr (ucast i # seed)), public_of = id,
     secrets_encode = (\<lambda>x. if x = sample_secrets (wallet_counter x) then Ok (replicate (Suc (unat (wallet_counter x))) 0)
       else Err ''not a sample''),
     secrets_decode = (\<lambda>data. if data = [] then Err ''empty'' else Ok (sample_secrets (of_nat (length data - 1)))),
     random_key = (\<lambda>n. if n = 0 then replicate 32 1 else replicate 32 7), key_from_slice = Some\<rparr>"

lemma sample_codec: "secrets_codec sample_crates"
  by (auto simp: secrets_codec_def sample_crates_def split: if_splits)

definition sample_disk :: disk where
  "sample_disk = \<lparr>files = Map.empty, creations = 0, creatable = (\<lambda>_. True)\<rparr>"

definition disk_after :: "nat \<Rightarrow> disk" where
  "disk_after n = \<lparr>files = [''key.dat'' \<mapsto> replicate (Suc n) 0], creations = Suc n, creatable = (\<lambda>_. True)\<rparr>"

lemma sample_created: "node_secrets_new sample_crates ''key.dat'' sample_disk = (Ok (sample_secrets 0), disk_after 0)"
  by (simp add: node_secrets_new_def save_secrets_def create_seed_def sample_disk_def sample_crates_def sample_secrets_def
      run_simps bind_def disk_after_def Let_def)

definition sample_wallet :: "u32 \<Rightarrow> envelope list \<Rightarrow> walletd" where
  "sample_wallet n out = \<lparr>identity = Walletd, outbox = out, attempts = length out, link = (\<lambda>_ _. True), disk = disk_after (unat n),
     wallet_token = ''t'', node_secrets = sample_secrets n\<rparr>"

definition sample_keys :: "u32 \<Rightarrow> deal \<Rightarrow> envelope" where
  "sample_keys i d = Envelope CtlBus Walletd Farcasterd (Ctl (SwapKeysCtl (SwapKeys (ucast i # replicate 32 7) d)))"

lemma sample_counted:
  assumes "n = 0 \<or> n = 1"
  shows "wd_handle sample_crates CtlBus Farcasterd (Ctl (CreateSwapKeys d ''t'')) (sample_wallet n out)
     = (Ok (), sample_wallet (n + 1) (out @ [sample_keys (n + 1) d]))"
  using assms
  by (auto simp: wd_handle_def wd_handle_ctl_def create_swap_keys_def sample_wallet_def increment_wallet_counter_def on_disk_def
      save_secrets_def run_simps bind_def counted_def disk_after_def sample_crates_def sample_secrets_def send_from_self_def
      send_to_def sample_keys_def Let_def)

lemma sample_restarted:
  assumes "n = 0 \<or> n = 1 \<or> n = 2"
  shows "node_secrets_new sample_crates ''key.dat'' (disk_after (unat n)) = (Ok (sample_secrets n), disk_after (unat n))"
  using assms by (auto simp: node_secrets_new_def run_simps disk_after_def sample_crates_def)

text \<open>Keys for a deal, a restart, keys for another.\<close>

lemma sample_wallet_run: "wallet_run sample_crates ''key.dat'' (sample_wallet 2 [sample_keys 1 d, sample_keys 2 e])"
proof -
  have "wallet_run sample_crates ''key.dat'' (sample_wallet 0 [])"
    using wallet_start [OF _ sample_created, where given = "''t''" and l = "\<lambda>_ _. True"]
    by (simp add: sample_disk_def wd_initial_runtime_def sample_wallet_def)
  from wallet_handled [OF this _ sample_counted] have "wallet_run sample_crates ''key.dat'' (sample_wallet 1 [sample_keys 1 d])"
    by (simp add: has_index_def sample_wallet_def sample_secrets_def)
  from wallet_restarted [OF this, of "sample_secrets 1" "disk_after 1"] sample_restarted [of 1]
  have "wallet_run sample_crates ''key.dat'' (sample_wallet 1 [sample_keys 1 d])"
    by (simp add: sample_wallet_def restarted_def)
  from wallet_handled [OF this _ sample_counted] show ?thesis
    by (simp add: has_index_def sample_wallet_def sample_secrets_def)
qed

section \<open>The property\<close>

text \<open>
  Property C36 (safety): over any number of messages, crashes and restarts of the wallet daemon, the key managers given
  out come from the one seed and strictly increasing indices, so none is used twice; and a message makes
  it send something only when it carries the token.
\<close>

theorem swap_keys_are_fresh:
  assumes "secrets_codec C" and "wallet_run C path s"
  shows "(\<exists>is. list_all2 (\<lambda>i km. key_manager_new C (wallet_seed (node_secrets s)) i = Inr km) is (keys_given s)
      \<and> sorted_wrt (<) is \<and> (\<forall>i \<in> set is. 0 < i \<and> i \<le> wallet_counter (node_secrets s)))
    \<and> (outbox (snd (wd_handle C bus source request s)) \<noteq> outbox s
       \<longrightarrow> request = Ctl (GetKeys (wallet_token s)) \<or> (\<exists>d. request = Ctl (CreateSwapKeys d (wallet_token s))))"
  using wallet_run_inv [OF assms] only_the_token_gets_keys [of C bus source request s]
  unfolding wallet_inv_def fresh_indices_def by auto

theorem swap_keys_are_fresh_witness:
  "\<exists>is. list_all2 (\<lambda>i km. Inr (ucast i # replicate 32 7) = (Inr km :: string + key_manager)) is
       [1 # replicate 32 7, 2 # replicate 32 7] \<and> sorted_wrt (<) is \<and> (\<forall>i \<in> set is. 0 < i \<and> i \<le> (2 :: u32))"
  using swap_keys_are_fresh [OF sample_codec sample_wallet_run, THEN conjunct1]
  by (simp add: sample_crates_def sample_wallet_def sample_secrets_def keys_given_def sample_keys_def map_filter_simps)

end
