(* ===== verification/Cli.thy ===== *)
theory Cli
  imports Core Esb
begin

text \<open>
  The command line client (\<open>cli/command.rs\<close>, \<open>cli/opts.rs\<close>, \<open>client.rs\<close>): each command sends its
  requests to the daemons, waits for their responses in order and prints them. What arrives when the
  client polls its sockets and what the user types are functions in its record; what is printed is a
  list. Parsers and printers of the crates are the record \<open>cli_texts\<close>.
\<close>

section \<open>The client: client.rs\<close>

datatype (plugins only: code size) printed = PrintMsg bus_msg | PrintText fmt | PrintDeal deal | PrintHealth "health list"
  | PrintCompletion string

record client = daemon +
  response_queue :: "bus_msg list"
  polls :: "nat \<Rightarrow> (string, bus_msg list) result"
  polled :: nat
  screen :: "printed list"
  stdin :: "nat \<Rightarrow> u8"
  typed :: nat

type_synonym 'a cli_action = "(client, error, 'a) action"

definition client_with :: "service_id \<Rightarrow> (nat \<Rightarrow> envelope \<Rightarrow> bool) \<Rightarrow> (nat \<Rightarrow> (string, bus_msg list) result) \<Rightarrow> (nat \<Rightarrow> u8) \<Rightarrow> client" where
  "client_with me l incoming keyboard = \<lparr>identity = me, outbox = [], attempts = 0, link = l, response_queue = [],
     polls = incoming, polled = 0, screen = [], stdin = keyboard, typed = 0\<rparr>"

definition request_info :: "service_id \<Rightarrow> info_msg \<Rightarrow> unit cli_action" where
  "request_info daemon req = send_from_self InfoBus daemon (Info req)"

definition request_ctl :: "service_id \<Rightarrow> ctl_msg \<Rightarrow> unit cli_action" where
  "request_ctl daemon req = send_from_self CtlBus daemon (Ctl req)"

definition println :: "printed \<Rightarrow> unit cli_action" where
  "println p = modify (\<lambda>s. s\<lparr>screen := screen s @ [p]\<rparr>)"

definition recv_poll :: "bus_msg list cli_action" where
  "recv_poll = bind (stateful (\<lambda>s. (polls s (polled s), s\<lparr>polled := Suc (polled s)\<rparr>))) (\<lambda>r. lift_res (err_into EsbErr r))"

definition pop_response :: "bus_msg cli_action" where
  "pop_response = reads response_queue (\<lambda>q. case q of
       [] \<Rightarrow> lift_res (Panic ''We always have at least one element'')
     | m # rest \<Rightarrow> steps [modify (\<lambda>s. s\<lparr>response_queue := rest\<rparr>)] (ret m))"

definition response :: "bus_msg cli_action" where
  "response = reads response_queue (\<lambda>q. steps [
     on (q = []) (bind recv_poll (\<lambda>ms. modify (\<lambda>s. s\<lparr>response_queue := response_queue s @ ms\<rparr>)))]
     pop_response)"

definition report_failed :: "bus_msg cli_action" where
  "report_failed = bind response (\<lambda>m. case m of
       Ctl (FailureCtl fail) \<Rightarrow> throw (FarcasterErr (failure_text fail))
     | _ \<Rightarrow> ret m)"

definition report_response_or_fail :: "unit cli_action" where
  "report_response_or_fail = bind report_failed (\<lambda>m. println (PrintMsg m))"

text \<open>The loop ends with an error or a control message of success; a fuel bounds it.\<close>

fun report_progress_loop :: "nat \<Rightarrow> unit cli_action" where
  "report_progress_loop 0 = lift_res Hang"
| "report_progress_loop (Suc fuel) = bind report_failed (\<lambda>m. case m of
       Ctl (SuccessCtl s) \<Rightarrow> println (PrintText (case s of Some t \<Rightarrow> t | None \<Rightarrow> Fmt '''' []))
     | _ \<Rightarrow> steps [println (PrintMsg m)] (report_progress_loop fuel))"

section \<open>The commands: cli/opts.rs\<close>

datatype checkpoint_selector = AllCheckpoints | AvailableForRestore
datatype health_check_selector = HealthOfNetwork network | HealthOfAll
datatype shell = Bash | Elvish | Fish | PowerShell | Zsh | OtherShell

definition deal_selector_from_str :: "string \<Rightarrow> (unit, deal_selector) result" where
  "deal_selector_from_str input =
     (if input = ''open'' \<or> input = ''Open'' then Ok SelectorOpen
      else if input = ''in_progress'' \<or> input = ''inprogress'' then Ok SelectorInProgress
      else if input = ''ended'' \<or> input = ''Ended'' then Ok SelectorEnded
      else if input = ''all'' \<or> input = ''All'' then Ok SelectorAll
      else Err ())"

definition checkpoint_selector_from_str :: "string \<Rightarrow> (unit, checkpoint_selector) result" where
  "checkpoint_selector_from_str input =
     (if input = ''all'' \<or> input = ''All'' then Ok AllCheckpoints
      else if input = ''available'' \<or> input = ''Available'' \<or> input = ''available-for-restore'' then Ok AvailableForRestore
      else Err ())"

text \<open>A network, or all of them.\<close>

definition health_check_selector_from_str :: "(string \<Rightarrow> string + network) \<Rightarrow> string \<Rightarrow> string + health_check_selector" where
  "health_check_selector_from_str parse_network input = (case parse_network input of
       Inr n \<Rightarrow> Inr (HealthOfNetwork n)
     | Inl e \<Rightarrow> if input = ''all'' \<or> input = ''All'' then Inr HealthOfAll else Inl e)"

datatype (plugins only: code size) command =
    InfoCmd "string list"
  | PeersCmd
  | ListSwapsCmd
  | ListDealsCmd deal_selector
  | DealInfoCmd deal
  | ListListensCmd
  | ListTasksCmd blockchain network
  | ListCheckpointsCmd checkpoint_selector
  | HealthCheckCmd health_check_selector
  | RestoreCheckpointCmd swap_id
  | ConnectCmd swap_id
  | MakeCmd deal_parameters string btc_address xmr_address
  | TakeCmd btc_address xmr_address deal bool
  | RevokeDealCmd deal
  | AbortSwapCmd swap_id
  | ProgressCmd swap_id bool
  | NeedsFundingCmd blockchain
  | ListFundingAddressesCmd blockchain
  | SweepBitcoinAddressCmd btc_address btc_address
  | SweepMoneroAddressCmd xmr_address xmr_address
  | GetBalanceCmd address
  | CompletionCmd shell

record cli_texts =
  node_addr_from_str :: "string \<Rightarrow> node_addr option"
  uuid_from_str :: "string \<Rightarrow> swap_id option"
  blockchain_from_str :: "string \<Rightarrow> string + blockchain"
  network_from_str :: "string \<Rightarrow> string + network"
  completion_script :: "shell \<Rightarrow> string"

section \<open>The checks of deals that are made and taken\<close>

text \<open>0.01 BTC in satoshi, 2 XMR and 0.001 XMR in piconero.\<close>

definition btc_cap :: u64 where "btc_cap = 1000000"
definition xmr_cap :: u64 where "xmr_cap = 2000000000000"
definition xmr_least :: u64 where "xmr_least = 1000000000"

definition xmr_address_error :: "network \<Rightarrow> xmr_address \<Rightarrow> fmt option" where
  "xmr_address_error net a =
     (if net \<noteq> xmr_network a \<and> net \<noteq> Local
      then Some (Fmt ''Error: The address {} is not for {}'' [TOpaque ''address'', TOpaque ''network'']) else None)"

definition btc_address_error :: "network \<Rightarrow> btc_address \<Rightarrow> fmt option" where
  "btc_address_error net a =
     (if net \<noteq> btc_network a
      then Some (Fmt ''Error: The address {} is not for {}'' [TOpaque ''address'', TOpaque ''network'']) else None)"

definition amounts_error :: "network \<Rightarrow> u64 \<Rightarrow> u64 \<Rightarrow> fmt option" where
  "amounts_error net btc xmr =
     (if btc > btc_cap \<and> net = Mainnet
      then Some (Fmt ''Error: Bitcoin amount {} too high, mainnet amount capped at 0.01 BTC.'' [TNum (unat btc)])
      else if xmr > xmr_cap \<and> net = Mainnet
      then Some (Fmt ''Error: Monero amount {} too high, mainnet amount capped at 2 XMR.'' [TNum (unat xmr)])
      else if xmr < xmr_least
      then Some (Fmt ''Error: Monero amount {} too low, require at least 0.001 XMR'' [TNum (unat xmr)])
      else None)"

fun first_error :: "fmt option list \<Rightarrow> fmt option" where
  "first_error [] = None"
| "first_error (Some e # es) = Some e"
| "first_error (None # es) = first_error es"

definition make_error :: "deal_parameters \<Rightarrow> btc_address \<Rightarrow> xmr_address \<Rightarrow> fmt option" where
  "make_error p arb acc = first_error [xmr_address_error (dp_network p) acc, btc_address_error (dp_network p) arb,
     amounts_error (dp_network p) (dp_arbitrating_amount p) (dp_accordant_amount p)]"

definition take_error :: "deal \<Rightarrow> btc_address \<Rightarrow> xmr_address \<Rightarrow> fmt option" where
  "take_error d btc xmr = (let p = deal_params d in
     first_error [btc_address_error (dp_network p) btc, xmr_address_error (dp_network p) xmr,
       amounts_error (dp_network p) (dp_arbitrating_amount p) (dp_accordant_amount p)])"

section \<open>Execution: cli/command.rs\<close>

definition unexpected_response :: error where
  "unexpected_response = FarcasterErr (Fmt ''Received unexpected response'' [])"

text \<open>The service an \<open>info\<close> command asks.\<close>

definition info_target :: "cli_texts \<Rightarrow> string list \<Rightarrow> (error, service_id) result" where
  "info_target T subject = (let err = OtherErr (Fmt ''Subject parameter must be either remote node address, swap id, or syncer'' [])
     in case subject of
       [] \<Rightarrow> Ok Farcasterd
     | [subj] \<Rightarrow> (case node_addr_from_str T subj of
           Some a \<Rightarrow> Ok (Peer 0 a)
         | None \<Rightarrow> (case uuid_from_str T subj of Some i \<Rightarrow> Ok (Swap i) | None \<Rightarrow> Err err))
     | [b, net] \<Rightarrow> rbind (core_try (blockchain_from_str T b)) (\<lambda>b.
         rbind (core_try (network_from_str T net)) (\<lambda>n. Ok (Syncer b n)))
     | _ \<Rightarrow> Err err)"

fun no_service_error :: "string list \<Rightarrow> service_id \<Rightarrow> error" where
  "no_service_error subject (Peer i a) = FarcasterErr (Fmt ''No connected peerd with address {}'' [TOpaque (na_addr a)])"
| "no_service_error subject (Swap i) = FarcasterErr (Fmt ''No running swap with id {}'' [TSwap i])"
| "no_service_error subject (Syncer b n) = FarcasterErr (Fmt ''No running syncer for {} {}'' [TOpaque ''blockchain'', TOpaque ''network''])"
| "no_service_error subject _ = FarcasterErr (Fmt ''The service {:?} does not exist'' (map TOpaque subject))"

definition exec_info :: "cli_texts \<Rightarrow> string list \<Rightarrow> unit cli_action" where
  "exec_info T subject = bind (lift_res (info_target T subject)) (\<lambda>target. steps [
     request_info target GetInfo]
     (bind response (\<lambda>m. case m of
         Info (NodeInfoMsg _) \<Rightarrow> println (PrintMsg m)
       | Info (PeerInfoMsg _) \<Rightarrow> println (PrintMsg m)
       | Info (SwapInfoMsg _) \<Rightarrow> println (PrintMsg m)
       | Info (SyncerInfoMsg _) \<Rightarrow> println (PrintMsg m)
       | Ctl (FailureCtl (Failure code _)) \<Rightarrow>
           if code = TargetServiceNotFound then throw (no_service_error subject target)
           else throw (OtherErr (Fmt ''Server returned unrecognizable response'' []))
       | _ \<Rightarrow> throw (OtherErr (Fmt ''Server returned unrecognizable response'' [])))))"

definition ask_and_print :: "service_id \<Rightarrow> info_msg \<Rightarrow> unit cli_action" where
  "ask_and_print target req = steps [request_info target req] report_response_or_fail"

definition order_and_print :: "service_id \<Rightarrow> ctl_msg \<Rightarrow> unit cli_action" where
  "order_and_print target req = steps [request_ctl target req] report_response_or_fail"

definition exec_list_checkpoints :: "checkpoint_selector \<Rightarrow> unit cli_action" where
  "exec_list_checkpoints select = (case select of
       AllCheckpoints \<Rightarrow> ask_and_print Database RetrieveAllCheckpointInfo
     | AvailableForRestore \<Rightarrow> steps [request_info Database RetrieveAllCheckpointInfo]
         (bind report_failed (\<lambda>m. case m of
             Info (CheckpointList entries) \<Rightarrow> ask_and_print Farcasterd (CheckpointList entries)
           | _ \<Rightarrow> throw unexpected_response)))"

definition exec_restore_checkpoint :: "swap_id \<Rightarrow> unit cli_action" where
  "exec_restore_checkpoint i = steps [request_info Database (GetCheckpointEntry i)]
     (bind report_failed (\<lambda>m. case m of
         Info (CheckpointEntryInfo entry) \<Rightarrow> order_and_print Farcasterd (RestoreCheckpoint entry)
       | _ \<Rightarrow> throw unexpected_response))"

definition ask_health :: "blockchain \<Rightarrow> network \<Rightarrow> health cli_action" where
  "ask_health b n = steps [request_ctl Farcasterd (HealthCheckCtl b n)]
     (bind response (\<lambda>m. case m of
         Ctl (HealthResultCtl h) \<Rightarrow> ret h
       | _ \<Rightarrow> throw (OtherErr (Fmt ''Server returned unexpected response for call health check'' []))))"

fun collect_health :: "(blockchain \<times> network) list \<Rightarrow> health list cli_action" where
  "collect_health [] = ret []"
| "collect_health ((b, n) # rest) = bind (ask_health b n) (\<lambda>h. bind (collect_health rest) (\<lambda>hs. ret (h # hs)))"

definition health_targets :: "health_check_selector \<Rightarrow> (blockchain \<times> network) list" where
  "health_targets selector = (case selector of
       HealthOfNetwork n \<Rightarrow> [(Bitcoin, n), (Monero, n)]
     | HealthOfAll \<Rightarrow> [(Bitcoin, Testnet), (Bitcoin, Mainnet), (Bitcoin, Local),
         (Monero, Testnet), (Monero, Mainnet), (Monero, Local)])"

definition exec_health_check :: "health_check_selector \<Rightarrow> unit cli_action" where
  "exec_health_check selector = bind (collect_health (health_targets selector)) (\<lambda>hs. println (PrintHealth hs))"

definition exec_make :: "deal_parameters \<Rightarrow> string \<Rightarrow> btc_address \<Rightarrow> xmr_address \<Rightarrow> unit cli_action" where
  "exec_make p public_addr arb acc = (case make_error p arb acc of
       Some e \<Rightarrow> println (PrintText e)
     | None \<Rightarrow> order_and_print Farcasterd (MakeDeal (ProtoDeal p public_addr arb acc)))"

text \<open>
  The question is repeated until the answer is yes or no; a byte that cannot be read counts as none of
  them, so the end of the input repeats it for ever.
\<close>

fun take_deal_prompt :: "nat \<Rightarrow> bool cli_action" where
  "take_deal_prompt 0 = lift_res Hang"
| "take_deal_prompt (Suc fuel) = steps [println (PrintText (Fmt ''Deal or No Deal? [y/n]'' []))]
     (bind (stateful (\<lambda>s. (stdin s (typed s), s\<lparr>typed := Suc (typed s)\<rparr>))) (\<lambda>c.
       if c = 121 \<or> c = 89 then steps [println (PrintText (Fmt ''Deal!'' []))] (ret True)
       else if c = 110 \<or> c = 78 then steps [println (PrintText (Fmt ''No Deal!'' []))] (ret False)
       else take_deal_prompt fuel))"

definition exec_take :: "nat \<Rightarrow> btc_address \<Rightarrow> xmr_address \<Rightarrow> deal \<Rightarrow> bool \<Rightarrow> unit cli_action" where
  "exec_take fuel btc xmr d without_validation = (case take_error d btc xmr of
       Some e \<Rightarrow> println (PrintText e)
     | None \<Rightarrow> steps [on (\<not> without_validation) (println (PrintDeal d))]
         (bind (if without_validation then ret True else take_deal_prompt fuel) (\<lambda>yes.
           on yes (order_and_print Farcasterd (TakeDeal (PubDeal d btc xmr))))))"

text \<open>The swap's stream of reports ends the subscription, also when it ends with an error.\<close>

definition exec_progress :: "nat \<Rightarrow> swap_id \<Rightarrow> bool \<Rightarrow> unit cli_action" where
  "exec_progress fuel i follow =
     (if follow
      then steps [request_info Farcasterd (SubscribeProgress i)]
        (bind (attempt (report_progress_loop fuel)) (\<lambda>res. steps [
          request_info Farcasterd (UnsubscribeProgress i)]
          (case res of Inl e \<Rightarrow> throw e | Inr _ \<Rightarrow> skip)))
      else ask_and_print Farcasterd (ReadProgress i))"

definition exec_sweep_bitcoin :: "btc_address \<Rightarrow> btc_address \<Rightarrow> unit cli_action" where
  "exec_sweep_bitcoin source dest = steps [request_info Database (GetAddressSecretKey (BitcoinAddr source))]
     (bind report_failed (\<lambda>m. case m of
         Info (AddressSecretKeyInfo (BitcoinAddressKey _ info)) \<Rightarrow>
           order_and_print Farcasterd (SweepAddressCtl (SweepBitcoin (SweepBitcoinAddress (bsk_secret_key info) source dest)))
       | _ \<Rightarrow> throw unexpected_response))"

definition exec_get_balance :: "address \<Rightarrow> unit cli_action" where
  "exec_get_balance a = steps [request_info Database (GetAddressSecretKey a)]
     (bind report_failed (\<lambda>m. case m of
         Info (AddressSecretKeyInfo key) \<Rightarrow> order_and_print Farcasterd (GetBalance key)
       | _ \<Rightarrow> throw (FarcasterErr (Fmt ''Can only get balance for old funding addresses. Address not found'' []))))"

definition exec_sweep_monero :: "xmr_address \<Rightarrow> xmr_address \<Rightarrow> unit cli_action" where
  "exec_sweep_monero source dest = steps [request_info Database (GetAddressSecretKey (MoneroAddr source))]
     (bind report_failed (\<lambda>m. case m of
         Info (AddressSecretKeyInfo (MoneroAddressKey _ info)) \<Rightarrow>
           order_and_print Farcasterd (SweepAddressCtl (SweepMonero
             (SweepMoneroAddress (msk_spend info) (msk_view info) dest 0 (msk_creation_height info))))
       | _ \<Rightarrow> throw unexpected_response))"

definition exec :: "cli_texts \<Rightarrow> nat \<Rightarrow> command \<Rightarrow> unit cli_action" where
  "exec T fuel c = (case c of
       InfoCmd subject \<Rightarrow> exec_info T subject
     | PeersCmd \<Rightarrow> ask_and_print Farcasterd ListPeers
     | ListSwapsCmd \<Rightarrow> ask_and_print Farcasterd ListSwaps
     | ListDealsCmd select \<Rightarrow> ask_and_print Farcasterd (ListDeals (deal_status_selector_from select))
     | DealInfoCmd d \<Rightarrow> println (PrintDeal d)
     | ListListensCmd \<Rightarrow> ask_and_print Farcasterd ListListens
     | ListTasksCmd b n \<Rightarrow> ask_and_print (Syncer b n) ListTasks
     | ListCheckpointsCmd select \<Rightarrow> exec_list_checkpoints select
     | HealthCheckCmd selector \<Rightarrow> exec_health_check selector
     | RestoreCheckpointCmd i \<Rightarrow> exec_restore_checkpoint i
     | ConnectCmd i \<Rightarrow> order_and_print Farcasterd (Connect i)
     | MakeCmd p public_addr arb acc \<Rightarrow> exec_make p public_addr arb acc
     | TakeCmd btc xmr d without_validation \<Rightarrow> exec_take fuel btc xmr d without_validation
     | RevokeDealCmd d \<Rightarrow> order_and_print Farcasterd (RevokeDeal d)
     | AbortSwapCmd i \<Rightarrow> order_and_print (Swap i) AbortSwap
     | ProgressCmd i follow \<Rightarrow> exec_progress fuel i follow
     | NeedsFundingCmd b \<Rightarrow> ask_and_print Farcasterd (NeedsFunding b)
     | ListFundingAddressesCmd b \<Rightarrow> ask_and_print Database (GetAddresses b)
     | SweepBitcoinAddressCmd source dest \<Rightarrow> exec_sweep_bitcoin source dest
     | SweepMoneroAddressCmd source dest \<Rightarrow> exec_sweep_monero source dest
     | GetBalanceCmd a \<Rightarrow> exec_get_balance a
     | CompletionCmd sh \<Rightarrow>
         if sh = OtherShell then throw (OtherErr (Fmt ''Unsupported shell, cannot generate completion scripts!'' []))
         else println (PrintCompletion (completion_script T sh)))"

end
