(* ===== verification/Grpcd.thy ===== *)
theory Grpcd
  imports Cli
begin

text \<open>
  The gRPC server (\<open>grpcd/runtime.rs\<close>): each procedure checks its request, asks daemons through the bridge
  and turns what they respond into its reply. Requests and replies follow \<open>grpcd/proto/farcaster.proto\<close>.
  What comes back for a question is a function of its number; the parsers and printers of the crates
  are the record \<open>grpc_texts\<close>. The queues between the server and the daemon are in \<open>GrpcRouting\<close>.
\<close>

section \<open>Enumerations of the protocol\<close>

definition network_of_i32 :: "int \<Rightarrow> network option" where
  "network_of_i32 i = (if i = 0 then Some Mainnet else if i = 1 then Some Testnet else if i = 2 then Some Local else None)"

fun network_to_i32 :: "network \<Rightarrow> int" where
  "network_to_i32 Mainnet = 0"
| "network_to_i32 Testnet = 1"
| "network_to_i32 Local = 2"

definition blockchain_of_i32 :: "int \<Rightarrow> blockchain option" where
  "blockchain_of_i32 i = (if i = 0 then Some Bitcoin else if i = 1 then Some Monero else None)"

fun blockchain_to_i32 :: "blockchain \<Rightarrow> int" where
  "blockchain_to_i32 Bitcoin = 0"
| "blockchain_to_i32 Monero = 1"

definition swap_role_of_i32 :: "int \<Rightarrow> swap_role option" where
  "swap_role_of_i32 i = (if i = 0 then Some Alice else if i = 1 then Some Bob else None)"

fun swap_role_to_i32 :: "swap_role \<Rightarrow> int" where
  "swap_role_to_i32 Alice = 0"
| "swap_role_to_i32 Bob = 1"

fun trade_role_to_i32 :: "trade_role \<Rightarrow> int" where
  "trade_role_to_i32 Maker = 0"
| "trade_role_to_i32 Taker = 1"

definition deal_selector_of_i32 :: "int \<Rightarrow> deal_status_selector option" where
  "deal_selector_of_i32 i = (if i = 0 then Some SelectOpen else if i = 1 then Some SelectInProgress
     else if i = 2 then Some SelectEnded else if i = 3 then Some SelectAll else None)"

definition checkpoint_selector_of_i32 :: "int \<Rightarrow> checkpoint_selector option" where
  "checkpoint_selector_of_i32 i = (if i = 0 then Some AllCheckpoints else if i = 1 then Some AvailableForRestore else None)"

text \<open>The selected network: \<open>Some None\<close> selects all of them.\<close>

definition network_selector_of_i32 :: "int \<Rightarrow> network option option" where
  "network_selector_of_i32 i = (if i = 0 then Some None else if i = 1 then Some (Some Mainnet)
     else if i = 2 then Some (Some Testnet) else if i = 3 then Some (Some Local) else None)"

definition network_selected :: "network option \<Rightarrow> network \<Rightarrow> bool" where
  "network_selected selector n \<longleftrightarrow> selector = None \<or> selector = Some n"

fun health_selector_from :: "network option \<Rightarrow> health_check_selector" where
  "health_selector_from None = HealthOfAll"
| "health_selector_from (Some n) = HealthOfNetwork n"

section \<open>Parsers and printers\<close>

record grpc_texts =
  swap_id_text :: "swap_id \<Rightarrow> string"
  addr_text :: "node_addr \<Rightarrow> string"
  deal_str :: "deal \<Rightarrow> string"
  node_id_text :: "node_id \<Rightarrow> string"
  deal_uuid_text :: "bytes \<Rightarrow> string"
  fee_strategy_text :: "bytes \<Rightarrow> string"
  btc_text :: "btc_address \<Rightarrow> string"
  xmr_text :: "xmr_address \<Rightarrow> string"
  health_text :: "health \<Rightarrow> string"
  report_text :: "state_report \<Rightarrow> string"
  fmt_text :: "fmt \<Rightarrow> string"
  parse_swap_id :: "string \<Rightarrow> swap_id option"
  parse_deal :: "string \<Rightarrow> deal option"
  parse_btc :: "string \<Rightarrow> btc_address option"
  parse_xmr :: "string \<Rightarrow> xmr_address option"
  parse_ip :: "string \<Rightarrow> bytes option"
  parse_fee_strategy :: "string \<Rightarrow> bytes option"
  uuid_and_fee :: "bytes \<Rightarrow> bytes \<Rightarrow> bytes"
  socket_text :: "bytes \<Rightarrow> u16 \<Rightarrow> string"

section \<open>Replies\<close>

record grpc_deal =
  gd_arbitrating_amount :: u64
  gd_accordant_amount :: u64
  gd_cancel_timelock :: u32
  gd_punish_timelock :: u32
  gd_fee_strategy :: string
  gd_maker_role :: int
  gd_uuid :: string
  gd_network :: int
  gd_arbitrating_blockchain :: int
  gd_accordant_blockchain :: int
  gd_node_id :: string
  gd_peer_address :: string
  gd_encoded_deal :: string

definition grpc_deal_of :: "grpc_texts \<Rightarrow> deal \<Rightarrow> grpc_deal" where
  "grpc_deal_of T d = (let p = deal_params d in \<lparr>
     gd_arbitrating_amount = dp_arbitrating_amount p, gd_accordant_amount = dp_accordant_amount p,
     gd_cancel_timelock = dp_cancel_timelock p, gd_punish_timelock = dp_punish_timelock p,
     gd_fee_strategy = fee_strategy_text T (dp_rest p), gd_maker_role = swap_role_to_i32 (dp_maker_role p),
     gd_uuid = deal_uuid_text T (dp_rest p), gd_network = network_to_i32 (dp_network p),
     gd_arbitrating_blockchain = blockchain_to_i32 (dp_arbitrating_blockchain p),
     gd_accordant_blockchain = blockchain_to_i32 (dp_accordant_blockchain p),
     gd_node_id = node_id_text T (deal_node_id d), gd_peer_address = deal_peer_address d, gd_encoded_deal = deal_str T d\<rparr>)"

datatype (plugins only: code size) grpc_funding =
  GrpcFunding (gf_swap_id: string) (gf_address: string) (gf_amount: u64)

fun grpc_funding_of :: "grpc_texts \<Rightarrow> funding_info \<Rightarrow> grpc_funding" where
  "grpc_funding_of T (BitcoinFunding b) = GrpcFunding (swap_id_text T (bfi_swap_id b)) (btc_text T (bfi_address b)) (bfi_amount b)"
| "grpc_funding_of T (MoneroFunding m) = GrpcFunding (swap_id_text T (mfi_swap_id m)) (xmr_text T (mfi_address m)) (mfi_amount m)"

text \<open>The state of the protocol has the fields of a state report.\<close>

datatype (plugins only: code size) progress_reply =
    ProgressMessageOf string
  | ProgressStateOf state_report
  | ProgressTransitionOf state_report state_report
  | ProgressFailureOf string
  | ProgressSuccessOf string

fun grpc_progress_of :: "grpc_texts \<Rightarrow> progress_event \<Rightarrow> progress_reply" where
  "grpc_progress_of T (MessageEvent m) = ProgressMessageOf (fmt_text T m)"
| "grpc_progress_of T (StateUpdateEvent s) = ProgressStateOf s"
| "grpc_progress_of T (StateTransitionEvent t) = ProgressTransitionOf (old_state t) (new_state t)"
| "grpc_progress_of T (FailureEvent f) = ProgressFailureOf (fmt_text T (failure_text f))"
| "grpc_progress_of T (SuccessEvent s) = ProgressSuccessOf (case s of Some t \<Rightarrow> fmt_text T t | None \<Rightarrow> '''')"

text \<open>A health report lists what was asked in the order of asking.\<close>

datatype (plugins only: code size) grpc_reply =
    InfoReply "string list" nat u64 "string list" "string list" "string list"
  | PeersReply "string list"
  | SwapInfoReply string bool nat u64 grpc_deal int int string string
  | DealsReply "grpc_deal list"
  | DealInfoReply grpc_deal
  | CheckpointsReply "(string \<times> grpc_deal \<times> int) list"
  | RestoreReply string
  | FundingAddressesReply "(string \<times> string option) list"
  | MakeReply grpc_deal
  | RevokeReply
  | AbortReply
  | ProgressReply "progress_reply list"
  | ConnectReply
  | NeedsFundingReply "grpc_funding list"
  | ReducedHealthReply "string list"
  | CompleteHealthReply "string list"
  | SweepReply string
  | TakeReply

section \<open>Asking the daemons\<close>

datatype status = Internal fmt | InvalidArgument fmt

text \<open>
  A question is refused by the queue, its answer is dropped, it is answered, or it stays unanswered.
\<close>

datatype (plugins only: code size) bridge_answer = Refused string | Dropped string | Answer bus_msg | Unanswered

record grpc_service =
  asked :: "bridge_msg list"
  bridge_answers :: "nat \<Rightarrow> bridge_msg \<Rightarrow> bridge_answer"

type_synonym 'a grpc_action = "(grpc_service, status, 'a) action"

definition ask_bridge :: "bridge_msg \<Rightarrow> (string + bus_msg) grpc_action" where
  "ask_bridge m = bind (stateful (\<lambda>s. (bridge_answers s (length (asked s)) m, s\<lparr>asked := asked s @ [m]\<rparr>))) (\<lambda>a. case a of
       Refused e \<Rightarrow> throw (Internal (TOpaque e))
     | Dropped e \<Rightarrow> ret (Inl e)
     | Answer r \<Rightarrow> ret (Inr r)
     | Unanswered \<Rightarrow> lift_res Hang)"

definition process_error_response :: "string + bus_msg \<Rightarrow> 'a grpc_action" where
  "process_error_response r = (case r of
       Inl e \<Rightarrow> throw (Internal (TOpaque e))
     | Inr (Ctl (FailureCtl f)) \<Rightarrow> throw (Internal (failure_text f))
     | Inr (Info (FailureInfo f)) \<Rightarrow> throw (Internal (failure_text f))
     | Inr _ \<Rightarrow> throw (Internal (Fmt ''received unexpected internal response'' [])))"

text \<open>The shorter lists of errors that some procedures have.\<close>

definition error_or :: "status \<Rightarrow> string + bus_msg \<Rightarrow> 'a grpc_action" where
  "error_or st r = (case r of
       Inl e \<Rightarrow> throw (Internal (TOpaque e))
     | Inr (Ctl (FailureCtl f)) \<Rightarrow> throw (Internal (failure_text f))
     | Inr _ \<Rightarrow> throw st)"

definition failure_or :: "status \<Rightarrow> string + bus_msg \<Rightarrow> 'a grpc_action" where
  "failure_or st r = (case r of
       Inr (Ctl (FailureCtl f)) \<Rightarrow> throw (Internal (failure_text f))
     | _ \<Rightarrow> throw st)"

definition required :: "string \<Rightarrow> 'a option \<Rightarrow> 'a grpc_action" where
  "required msg x = (case x of Some y \<Rightarrow> ret y | None \<Rightarrow> throw (InvalidArgument (Fmt msg [])))"

section \<open>The procedures that only ask\<close>

definition grpc_info :: "grpc_texts \<Rightarrow> grpc_reply grpc_action" where
  "grpc_info T = bind (ask_bridge (BridgeInfo GetInfo Farcasterd)) (\<lambda>r. case r of
       Inr (Info (NodeInfoMsg (NodeInfo listens uptime since peers swaps deals st))) \<Rightarrow>
         ret (InfoReply listens uptime since (map (addr_text T) peers) (map (swap_id_text T) swaps) (map (deal_str T) deals))
     | _ \<Rightarrow> process_error_response r)"

definition grpc_peers :: "grpc_texts \<Rightarrow> grpc_reply grpc_action" where
  "grpc_peers T = bind (ask_bridge (BridgeInfo ListPeers Farcasterd)) (\<lambda>r. case r of
       Inr (Info (PeerList peers)) \<Rightarrow> ret (PeersReply (map (addr_text T) peers))
     | _ \<Rightarrow> process_error_response r)"

definition text_or_empty :: "('a \<Rightarrow> string) \<Rightarrow> 'a option \<Rightarrow> string" where
  "text_or_empty f x = (case x of Some y \<Rightarrow> f y | None \<Rightarrow> [])"

definition grpc_swap_info :: "grpc_texts \<Rightarrow> string \<Rightarrow> grpc_reply grpc_action" where
  "grpc_swap_info T i = bind (required ''Invalid or malformed swap id'' (parse_swap_id T i)) (\<lambda>i.
     bind (ask_bridge (BridgeInfo GetInfo (Swap i))) (\<lambda>r. case r of
       Inr (Info (SwapInfoMsg (SwapInfo _ connection connected uptime since d trade_role swap_role counterparty state))) \<Rightarrow>
         ret (SwapInfoReply (text_or_empty (addr_text T) connection) connected uptime since (grpc_deal_of T d)
           (trade_role_to_i32 trade_role) (swap_role_to_i32 swap_role)
           (text_or_empty (node_id_text T) counterparty) (report_text T state))
     | _ \<Rightarrow> process_error_response r))"

text \<open>The network is looked at only in one of the two lists of deals.\<close>

definition grpc_list_deals :: "grpc_texts \<Rightarrow> int \<Rightarrow> int \<Rightarrow> grpc_reply grpc_action" where
  "grpc_list_deals T deal_sel network_sel = bind (required ''offer_selector'' (deal_selector_of_i32 deal_sel)) (\<lambda>selector.
     bind (required ''network_selector'' (network_selector_of_i32 network_sel)) (\<lambda>net.
     bind (ask_bridge (BridgeInfo (ListDeals selector) Farcasterd)) (\<lambda>r. case r of
       Inr (Info (DealList deals)) \<Rightarrow> ret (DealsReply (map (\<lambda>d. grpc_deal_of T (di_details d))
         (filter (\<lambda>d. network_selected net (dp_network (deal_params (di_details d)))) deals)))
     | Inr (Info (DealStatusList deals)) \<Rightarrow> ret (DealsReply (map (\<lambda>d. grpc_deal_of T (dsp_deal d)) deals))
     | _ \<Rightarrow> error_or (InvalidArgument (Fmt ''received invalid response'' [])) r)))"

definition grpc_deal_info :: "grpc_texts \<Rightarrow> string \<Rightarrow> grpc_reply grpc_action" where
  "grpc_deal_info T d = bind (required ''deal malformed'' (parse_deal T d)) (\<lambda>d. ret (DealInfoReply (grpc_deal_of T d)))"

definition grpc_checkpoints :: "grpc_texts \<Rightarrow> int \<Rightarrow> int \<Rightarrow> grpc_reply grpc_action" where
  "grpc_checkpoints T checkpoint_sel network_sel =
     bind (required ''checkpoint_selector'' (checkpoint_selector_of_i32 checkpoint_sel)) (\<lambda>selector.
     bind (required ''network_selector'' (network_selector_of_i32 network_sel)) (\<lambda>net.
     bind (case selector of
         AllCheckpoints \<Rightarrow> ask_bridge (BridgeInfo RetrieveAllCheckpointInfo Database)
       | AvailableForRestore \<Rightarrow> bind (ask_bridge (BridgeInfo RetrieveAllCheckpointInfo Database)) (\<lambda>r. case r of
             Inr (Info (CheckpointList entries)) \<Rightarrow> ask_bridge (BridgeInfo (CheckpointList entries) Farcasterd)
           | _ \<Rightarrow> error_or (InvalidArgument (Fmt ''received invalid response'' [])) r))
     (\<lambda>r. case r of
       Inr (Info (CheckpointList entries)) \<Rightarrow> ret (CheckpointsReply (map
         (\<lambda>e. (swap_id_text T (ce_swap_id e), grpc_deal_of T (ce_deal e), trade_role_to_i32 (ce_trade_role e)))
         (filter (\<lambda>e. network_selected net (dp_network (deal_params (ce_deal e)))) entries)))
     | _ \<Rightarrow> process_error_response r)))"

text \<open>A list of Monero addresses is not a response it knows.\<close>

definition grpc_funding_addresses :: "grpc_texts \<Rightarrow> int \<Rightarrow> int \<Rightarrow> grpc_reply grpc_action" where
  "grpc_funding_addresses T b network_sel = bind (required ''arbitrating blockchain'' (blockchain_of_i32 b)) (\<lambda>b.
     bind (required ''network_selector'' (network_selector_of_i32 network_sel)) (\<lambda>net.
     bind (ask_bridge (BridgeInfo (GetAddresses b) Database)) (\<lambda>r. case r of
       Inr (Info (BitcoinAddressList addrs)) \<Rightarrow> ret (FundingAddressesReply (map
         (\<lambda>(a, i). (btc_text T a, map_option (swap_id_text T) i)) (filter (\<lambda>(a, i). network_selected net (btc_network a)) addrs)))
     | _ \<Rightarrow> failure_or (Internal (Fmt ''Received invalid response'' [])) r)))"

definition grpc_progress :: "grpc_texts \<Rightarrow> string \<Rightarrow> grpc_reply grpc_action" where
  "grpc_progress T i = bind (required ''swap id'' (parse_swap_id T i)) (\<lambda>i.
     bind (ask_bridge (BridgeInfo (ReadProgress i) Farcasterd)) (\<lambda>r. case r of
       Inr (Info (SwapProgress events)) \<Rightarrow> ret (ProgressReply (map (grpc_progress_of T) events))
     | _ \<Rightarrow> process_error_response r))"

fun funding_network :: "funding_info \<Rightarrow> network" where
  "funding_network (BitcoinFunding b) = btc_network (bfi_address b)"
| "funding_network (MoneroFunding m) = xmr_network (mfi_address m)"

definition grpc_needs_funding :: "grpc_texts \<Rightarrow> int \<Rightarrow> int \<Rightarrow> grpc_reply grpc_action" where
  "grpc_needs_funding T b network_sel = bind (required ''blockchain'' (blockchain_of_i32 b)) (\<lambda>b.
     bind (required ''network_selector'' (network_selector_of_i32 network_sel)) (\<lambda>net.
     bind (ask_bridge (BridgeInfo (NeedsFunding b) Farcasterd)) (\<lambda>r. case r of
       Inr (Info (FundingInfos infos)) \<Rightarrow>
         ret (NeedsFundingReply (map (grpc_funding_of T) (filter (\<lambda>f. network_selected net (funding_network f)) infos)))
     | _ \<Rightarrow> process_error_response r)))"

section \<open>The procedures that change something\<close>

definition grpc_restore_checkpoint :: "grpc_texts \<Rightarrow> string \<Rightarrow> grpc_reply grpc_action" where
  "grpc_restore_checkpoint T i = bind (required ''Invalid swap id'' (parse_swap_id T i)) (\<lambda>i.
     bind (ask_bridge (BridgeInfo (GetCheckpointEntry i) Database)) (\<lambda>r. case r of
       Inr (Info (CheckpointEntryInfo entry)) \<Rightarrow>
         bind (ask_bridge (BridgeCtl (RestoreCheckpoint entry) Farcasterd)) (\<lambda>q. case q of
           Inr (Info (StringInfo msg)) \<Rightarrow> ret (RestoreReply (fmt_text T msg))
         | _ \<Rightarrow> process_error_response q)
     | _ \<Rightarrow> process_error_response r))"

text \<open>A request for a new deal; the port is cut to 16 bits.\<close>

datatype (plugins only: code size) make_request =
  MakeRequest (mr_network: int) (mr_accordant_blockchain: int) (mr_arbitrating_blockchain: int) (mr_accordant_amount: u64)
    (mr_arbitrating_amount: u64) (mr_arbitrating_addr: string) (mr_accordant_addr: string) (mr_cancel_timelock: u32)
    (mr_punish_timelock: u32) (mr_fee_strategy: string) (mr_maker_role: int) (mr_public_ip_addr: string) (mr_public_port: u32)

definition grpc_make :: "grpc_texts \<Rightarrow> bytes \<Rightarrow> make_request \<Rightarrow> grpc_reply grpc_action" where
  "grpc_make T uuid q =
     bind (required ''network'' (network_of_i32 (mr_network q))) (\<lambda>network.
     bind (required ''arbitrating blockchain'' (blockchain_of_i32 (mr_arbitrating_blockchain q))) (\<lambda>arb.
     bind (required ''accordant blockchain'' (blockchain_of_i32 (mr_accordant_blockchain q))) (\<lambda>acc.
     bind (required ''arbitrating address'' (parse_btc T (mr_arbitrating_addr q))) (\<lambda>arb_addr.
     bind (required ''accordant_address'' (parse_xmr T (mr_accordant_addr q))) (\<lambda>acc_addr.
     bind (required ''maker role'' (swap_role_of_i32 (mr_maker_role q))) (\<lambda>maker_role.
     bind (required ''public ip address'' (parse_ip T (mr_public_ip_addr q))) (\<lambda>ip.
     bind (required ''fee strategy is required to be formated'' (parse_fee_strategy T (mr_fee_strategy q))) (\<lambda>fee.
     let p = DealParameters arb acc network (mr_arbitrating_amount q) (mr_accordant_amount q) (mr_cancel_timelock q)
           (mr_punish_timelock q) maker_role (uuid_and_fee T uuid fee)
     in case make_error p arb_addr acc_addr of
         Some e \<Rightarrow> throw (InvalidArgument e)
       | None \<Rightarrow> bind (ask_bridge (BridgeCtl (MakeDeal
             (ProtoDeal p (socket_text T ip (ucast (mr_public_port q))) arb_addr acc_addr)) Farcasterd)) (\<lambda>r. case r of
           Inr (Info (MadeDeal _ info)) \<Rightarrow> ret (MakeReply (grpc_deal_of T (di_details info)))
         | _ \<Rightarrow> process_error_response r)))))))))"

definition grpc_take :: "grpc_texts \<Rightarrow> string \<Rightarrow> string \<Rightarrow> string \<Rightarrow> grpc_reply grpc_action" where
  "grpc_take T d btc xmr =
     bind (required ''arbitrating address'' (parse_btc T btc)) (\<lambda>btc.
     bind (required ''accordant_address'' (parse_xmr T xmr)) (\<lambda>xmr.
     bind (required ''deal'' (parse_deal T d)) (\<lambda>d.
     case take_error d btc xmr of
       Some e \<Rightarrow> throw (InvalidArgument e)
     | None \<Rightarrow> bind (ask_bridge (BridgeCtl (TakeDeal (PubDeal d btc xmr)) Farcasterd)) (\<lambda>r. case r of
           Inr (Info (TookDeal _ _)) \<Rightarrow> ret TakeReply
         | _ \<Rightarrow> process_error_response r))))"

definition grpc_revoke_deal :: "grpc_texts \<Rightarrow> string \<Rightarrow> grpc_reply grpc_action" where
  "grpc_revoke_deal T d = bind (required ''deal'' (parse_deal T d)) (\<lambda>d.
     bind (ask_bridge (BridgeCtl (RevokeDeal d) Farcasterd)) (\<lambda>r. case r of
       Inr (Info (StringInfo _)) \<Rightarrow> ret RevokeReply
     | _ \<Rightarrow> process_error_response r))"

definition grpc_abort_swap :: "grpc_texts \<Rightarrow> string \<Rightarrow> grpc_reply grpc_action" where
  "grpc_abort_swap T i = bind (required ''swap id'' (parse_swap_id T i)) (\<lambda>i.
     bind (ask_bridge (BridgeCtl AbortSwap (Swap i))) (\<lambda>r. case r of
       Inr (Info (StringInfo _)) \<Rightarrow> ret AbortReply
     | _ \<Rightarrow> process_error_response r))"

definition grpc_connect_swap :: "grpc_texts \<Rightarrow> string \<Rightarrow> grpc_reply grpc_action" where
  "grpc_connect_swap T i = bind (required ''swap id'' (parse_swap_id T i)) (\<lambda>i.
     bind (ask_bridge (BridgeCtl (Connect i) Farcasterd)) (\<lambda>r. case r of
       Inr (Ctl ConnectSuccess) \<Rightarrow> ret ConnectReply
     | _ \<Rightarrow> failure_or (Internal (Fmt ''Received invalid response'' [])) r))"

definition grpc_ask_health :: "blockchain \<Rightarrow> network \<Rightarrow> health grpc_action" where
  "grpc_ask_health b n = bind (ask_bridge (BridgeCtl (HealthCheckCtl b n) Farcasterd)) (\<lambda>r. case r of
       Inr (Ctl (HealthResultCtl h)) \<Rightarrow> ret h
     | _ \<Rightarrow> throw (Internal (Fmt ''Error during health check'' [])))"

fun grpc_collect_health :: "(blockchain \<times> network) list \<Rightarrow> health list grpc_action" where
  "grpc_collect_health [] = ret []"
| "grpc_collect_health ((b, n) # rest) =
     bind (grpc_ask_health b n) (\<lambda>h. bind (grpc_collect_health rest) (\<lambda>hs. ret (h # hs)))"

definition grpc_health_check :: "grpc_texts \<Rightarrow> int \<Rightarrow> grpc_reply grpc_action" where
  "grpc_health_check T sel = bind (required ''selector'' (network_selector_of_i32 sel)) (\<lambda>net.
     let selector = health_selector_from net
     in bind (grpc_collect_health (health_targets selector)) (\<lambda>hs. ret
       (case selector of
          HealthOfNetwork _ \<Rightarrow> ReducedHealthReply (map (health_text T) hs)
        | HealthOfAll \<Rightarrow> CompleteHealthReply (map (health_text T) hs))))"

text \<open>The key is asked from the database, then the sweep is ordered.\<close>

definition order_sweep :: "grpc_texts \<Rightarrow> sweep_address_addendum \<Rightarrow> grpc_reply grpc_action" where
  "order_sweep T addendum = bind (ask_bridge (BridgeCtl (SweepAddressCtl addendum) Farcasterd)) (\<lambda>r. case r of
       Inr (Info (StringInfo msg)) \<Rightarrow> ret (SweepReply (fmt_text T msg))
     | _ \<Rightarrow> process_error_response r)"

definition grpc_sweep_bitcoin :: "grpc_texts \<Rightarrow> btc_address \<Rightarrow> btc_address \<Rightarrow> grpc_reply grpc_action" where
  "grpc_sweep_bitcoin T source dest = bind (ask_bridge (BridgeInfo (GetAddressSecretKey (BitcoinAddr source)) Database)) (\<lambda>r. case r of
       Inr (Info (AddressSecretKeyInfo (BitcoinAddressKey _ info))) \<Rightarrow>
         order_sweep T (SweepBitcoin (SweepBitcoinAddress (bsk_secret_key info) source dest))
     | _ \<Rightarrow> process_error_response r)"

definition grpc_sweep_monero :: "grpc_texts \<Rightarrow> xmr_address \<Rightarrow> xmr_address \<Rightarrow> grpc_reply grpc_action" where
  "grpc_sweep_monero T source dest = bind (ask_bridge (BridgeInfo (GetAddressSecretKey (MoneroAddr source)) Database)) (\<lambda>r. case r of
       Inr (Info (AddressSecretKeyInfo (MoneroAddressKey _ info))) \<Rightarrow> order_sweep T (SweepMonero
         (SweepMoneroAddress (msk_spend info) (msk_view info) dest 0 (msk_creation_height info)))
     | _ \<Rightarrow> process_error_response r)"

definition grpc_sweep_address :: "grpc_texts \<Rightarrow> string \<Rightarrow> string \<Rightarrow> grpc_reply grpc_action" where
  "grpc_sweep_address T source dest = (case (parse_btc T source, parse_btc T dest) of
       (Some a, Some b) \<Rightarrow> grpc_sweep_bitcoin T a b
     | _ \<Rightarrow> (case (parse_xmr T source, parse_xmr T dest) of
           (Some a, Some b) \<Rightarrow> grpc_sweep_monero T a b
         | _ \<Rightarrow> throw (InvalidArgument (Fmt ''address malformed'' []))))"

section \<open>The service\<close>

datatype (plugins only: code size) grpc_request =
    InfoRequest
  | PeersRequest
  | SwapInfoRequest string
  | ListDealsRequest int int
  | DealInfoRequest string
  | CheckpointsRequest int int
  | RestoreCheckpointRequest string
  | FundingAddressesRequest int int
  | MakeDealRequest make_request
  | TakeRequest string string string
  | RevokeDealRequest string
  | AbortSwapRequest string
  | ProgressRequest string
  | ConnectSwapRequest string
  | NeedsFundingRequest int int
  | HealthCheckRequest int
  | SweepAddressRequest string string

definition grpc_serve :: "grpc_texts \<Rightarrow> bytes \<Rightarrow> grpc_request \<Rightarrow> grpc_reply grpc_action" where
  "grpc_serve T uuid q = (case q of
       InfoRequest \<Rightarrow> grpc_info T
     | PeersRequest \<Rightarrow> grpc_peers T
     | SwapInfoRequest i \<Rightarrow> grpc_swap_info T i
     | ListDealsRequest a b \<Rightarrow> grpc_list_deals T a b
     | DealInfoRequest d \<Rightarrow> grpc_deal_info T d
     | CheckpointsRequest a b \<Rightarrow> grpc_checkpoints T a b
     | RestoreCheckpointRequest i \<Rightarrow> grpc_restore_checkpoint T i
     | FundingAddressesRequest a b \<Rightarrow> grpc_funding_addresses T a b
     | MakeDealRequest m \<Rightarrow> grpc_make T uuid m
     | TakeRequest d a b \<Rightarrow> grpc_take T d a b
     | RevokeDealRequest d \<Rightarrow> grpc_revoke_deal T d
     | AbortSwapRequest i \<Rightarrow> grpc_abort_swap T i
     | ProgressRequest i \<Rightarrow> grpc_progress T i
     | ConnectSwapRequest i \<Rightarrow> grpc_connect_swap T i
     | NeedsFundingRequest a b \<Rightarrow> grpc_needs_funding T a b
     | HealthCheckRequest sel \<Rightarrow> grpc_health_check T sel
     | SweepAddressRequest a b \<Rightarrow> grpc_sweep_address T a b)"

end
