(* ===== verification/GrpcRouting.thy ===== *)
theory GrpcRouting
  imports Grpcd
begin

text \<open>
  The daemon \<open>grpcd\<close> and the queues between it and the server of \<open>Grpcd\<close> (\<open>grpcd/runtime.rs\<close>): each
  procedure gets a number for its question, gives it to the request loop, and waits for the response
  loop to bring the answer of that number. The three run at the same time, in steps of a relation.
\<close>

section \<open>The daemon\<close>

record grpcd = daemon +
  to_server :: "(u64 \<times> bus_msg) list"
  server_open :: bool
  servers_started :: nat

type_synonym 'a grpcd_action = "(grpcd, error, 'a) action"

definition gd_initial_runtime :: "(nat \<Rightarrow> envelope \<Rightarrow> bool) \<Rightarrow> grpcd" where
  "gd_initial_runtime l = \<lparr>identity = Grpcd, outbox = [], attempts = 0, link = l, to_server = [], server_open = True,
     servers_started = 1\<rparr>"

text \<open>\<open>tx_response.send\<close>, for a message addressed to a client of the server; others are only logged.\<close>

definition tx_response :: "service_id \<Rightarrow> bus_msg \<Rightarrow> unit grpcd_action" where
  "tx_response source m = (case source of
       GrpcdClient i \<Rightarrow> reads server_open (\<lambda>up.
         if up then modify (\<lambda>s. s\<lparr>to_server := to_server s @ [(i, m)]\<rparr>)
         else throw (FarcasterErr (Fmt ''sending on a closed channel'' [])))
     | _ \<Rightarrow> skip)"

definition gd_handle_ctl :: "service_id \<Rightarrow> ctl_msg \<Rightarrow> unit grpcd_action" where
  "gd_handle_ctl source request = (case request of
       Hello \<Rightarrow> skip
     | _ \<Rightarrow> tx_response source (Ctl request))"

definition gd_handle_info :: "service_id \<Rightarrow> info_msg \<Rightarrow> unit grpcd_action" where
  "gd_handle_info source request = tx_response source (Info request)"

text \<open>A server that has ended is started again with new queues.\<close>

definition gd_handle_bridge :: "service_id \<Rightarrow> bus_msg \<Rightarrow> unit grpcd_action" where
  "gd_handle_bridge source request = (case request of
       Bridge (BridgeCtl req dest) \<Rightarrow> send_to CtlBus source dest (Ctl req)
     | Bridge (BridgeInfo req dest) \<Rightarrow> send_to InfoBus source dest (Info req)
     | Bridge GrpcServerTerminated \<Rightarrow>
         modify (\<lambda>s. s\<lparr>to_server := [], server_open := True, servers_started := Suc (servers_started s)\<rparr>)
     | _ \<Rightarrow> skip)"

definition gd_handle :: "service_bus \<Rightarrow> service_id \<Rightarrow> bus_msg \<Rightarrow> unit grpcd_action" where
  "gd_handle bus source request = (case (bus, request) of
       (CtlBus, Ctl req) \<Rightarrow> gd_handle_ctl source req
     | (InfoBus, Info req) \<Rightarrow> gd_handle_info source req
     | (BridgeBus, req) \<Rightarrow> gd_handle_bridge source req
     | _ \<Rightarrow> throw (NotSupported bus (TOpaque ''request'')))"

section \<open>The server's loops\<close>

text \<open>Where a question of a procedure is: \<open>process_request\<close> has three steps between its awaits.\<close>

datatype (plugins only: code size) question =
    Unasked
  | Numbered (q_id: u64) (q_msg: bridge_msg)
  | Queued (q_id: u64) (q_msg: bridge_msg)
  | Awaiting (q_id: u64) (q_msg: bridge_msg)
  | Cancelled (q_id: u64) (q_msg: bridge_msg)
  | Answered (q_id: u64) (q_msg: bridge_msg) (q_answer: bus_msg)

record grpc_server =
  id_counter :: u64
  questions :: "nat \<Rightarrow> question"
  request_queue :: "(u64 \<times> bridge_msg) list"
  pending_requests :: "(u64, nat) hash_map"
  response_loop_runs :: bool
  grpcd :: grpcd
  replied :: "(u64 \<times> bus_msg) list"

definition server_start :: "(nat \<Rightarrow> envelope \<Rightarrow> bool) \<Rightarrow> grpc_server" where
  "server_start l = \<lparr>id_counter = 0, questions = (\<lambda>_. Unasked), request_queue = [], pending_requests = [],
     response_loop_runs = True, grpcd = gd_initial_runtime l, replied = []\<rparr>"

definition increment_id :: "nat \<Rightarrow> bridge_msg \<Rightarrow> grpc_server \<Rightarrow> grpc_server" where
  "increment_id r m s = s\<lparr>id_counter := id_counter s + 1, questions := (questions s)(r := Numbered (id_counter s + 1) m)\<rparr>"

definition queue_question :: "nat \<Rightarrow> grpc_server \<Rightarrow> grpc_server" where
  "queue_question r s = (case questions s r of
       Numbered i m \<Rightarrow> s\<lparr>request_queue := request_queue s @ [(i, m)], questions := (questions s)(r := Queued i m)\<rparr>
     | _ \<Rightarrow> s)"

definition register_question :: "nat \<Rightarrow> grpc_server \<Rightarrow> grpc_server" where
  "register_question r s = (case questions s r of
       Queued i m \<Rightarrow> s\<lparr>pending_requests := hm_insert i r (pending_requests s), questions := (questions s)(r := Awaiting i m)\<rparr>
     | _ \<Rightarrow> s)"

text \<open>A caller that goes away drops its end of the channel.\<close>

definition cancel_question :: "nat \<Rightarrow> grpc_server \<Rightarrow> grpc_server" where
  "cancel_question r s = (case questions s r of
       Awaiting i m \<Rightarrow> s\<lparr>questions := (questions s)(r := Cancelled i m)\<rparr>
     | _ \<Rightarrow> s)"

text \<open>The request loop gives the first question to the daemon, which sends it on.\<close>

definition forward_question :: "grpc_server \<Rightarrow> grpc_server" where
  "forward_question s = (case request_queue s of
       (i, m) # rest \<Rightarrow> s\<lparr>request_queue := rest, grpcd := snd (gd_handle BridgeBus (GrpcdClient i) (Bridge m) (grpcd s))\<rparr>
     | [] \<Rightarrow> s)"

text \<open>A daemon answers a client on one of the buses.\<close>

definition receive_answer :: "service_bus \<Rightarrow> u64 \<Rightarrow> bus_msg \<Rightarrow> grpc_server \<Rightarrow> grpc_server" where
  "receive_answer bus i m s =
     s\<lparr>grpcd := snd (gd_handle bus (GrpcdClient i) m (grpcd s)), replied := replied s @ [(i, m)]\<rparr>"

text \<open>
  The body of the response loop: an answer nobody waits for is dropped; when the caller has gone, the
  send fails and the loop ends, and with it the receiving end of the channel.
\<close>

definition take_answer :: "grpc_server \<Rightarrow> grpc_server" where
  "take_answer s = (case to_server (grpcd s) of
       (i, m) # rest \<Rightarrow>
         (let s' = s\<lparr>grpcd := (grpcd s)\<lparr>to_server := rest\<rparr>, pending_requests := hm_remove i (pending_requests s)\<rparr>
          in case hm_get (pending_requests s) i of
            Some r \<Rightarrow> (case questions s r of
                Awaiting j q \<Rightarrow> s'\<lparr>questions := (questions s)(r := Answered j q m)\<rparr>
              | _ \<Rightarrow> s'\<lparr>response_loop_runs := False, grpcd := (grpcd s')\<lparr>server_open := False\<rparr>\<rparr>)
          | None \<Rightarrow> s')
     | [] \<Rightarrow> s)"

inductive grpc_step :: "grpc_server \<Rightarrow> grpc_server \<Rightarrow> bool" where
  step_number: "questions s r = Unasked \<Longrightarrow> id_counter s < id_counter s + 1 \<Longrightarrow> grpc_step s (increment_id r m s)"
| step_queue: "questions s r = Numbered i m \<Longrightarrow> grpc_step s (queue_question r s)"
| step_register: "questions s r = Queued i m \<Longrightarrow> grpc_step s (register_question r s)"
| step_cancel: "questions s r = Awaiting i m \<Longrightarrow> grpc_step s (cancel_question r s)"
| step_forward: "request_queue s \<noteq> [] \<Longrightarrow> grpc_step s (forward_question s)"
| step_receive: "bus \<noteq> BridgeBus \<Longrightarrow> grpc_step s (receive_answer bus i m s)"
| step_take: "response_loop_runs s \<Longrightarrow> to_server (grpcd s) \<noteq> [] \<Longrightarrow> grpc_step s (take_answer s)"

inductive_cases grpc_stepE: "grpc_step s t"

inductive grpc_reaches :: "grpc_server \<Rightarrow> grpc_server \<Rightarrow> bool" where
  reaches_here: "grpc_reaches s s"
| reaches_step: "grpc_reaches s t \<Longrightarrow> grpc_step t u \<Longrightarrow> grpc_reaches s u"

section \<open>The invariant\<close>

definition asks :: "grpc_server \<Rightarrow> nat \<Rightarrow> u64 \<Rightarrow> bridge_msg \<Rightarrow> bool" where
  "asks s r i m \<longleftrightarrow> questions s r \<noteq> Unasked \<and> q_id (questions s r) = i \<and> q_msg (questions s r) = m"

definition bridged :: "u64 \<Rightarrow> bridge_msg \<Rightarrow> envelope \<Rightarrow> bool" where
  "bridged i m e \<longleftrightarrow> env_from e = GrpcdClient i \<and> (case m of
       BridgeCtl req dest \<Rightarrow> env_bus e = CtlBus \<and> env_to e = dest \<and> env_msg e = Ctl req
     | BridgeInfo req dest \<Rightarrow> env_bus e = InfoBus \<and> env_to e = dest \<and> env_msg e = Info req
     | _ \<Rightarrow> False)"

definition routing_inv :: "grpc_server \<Rightarrow> bool" where
  "routing_inv s \<longleftrightarrow>
     (\<forall>r i m. asks s r i m \<longrightarrow> i \<le> id_counter s)
     \<and> (\<forall>r r' i m m'. asks s r i m \<longrightarrow> asks s r' i m' \<longrightarrow> r = r')
     \<and> (\<forall>i r. hm_get (pending_requests s) i = Some r \<longrightarrow> (\<exists>m. questions s r = Awaiting i m \<or> questions s r = Cancelled i m))
     \<and> (\<forall>(i, m) \<in> set (request_queue s). \<exists>r. asks s r i m)
     \<and> (\<forall>e \<in> set (outbox (grpcd s)). \<exists>r i m. asks s r i m \<and> bridged i m e)
     \<and> set (to_server (grpcd s)) \<subseteq> set (replied s)
     \<and> (\<forall>r i m a. questions s r = Answered i m a \<longrightarrow> (i, a) \<in> set (replied s))"

lemma bridge_effect:
  "(outbox (snd (gd_handle BridgeBus (GrpcdClient i) (Bridge m) g)) = outbox g
      \<or> (\<exists>e. outbox (snd (gd_handle BridgeBus (GrpcdClient i) (Bridge m) g)) = outbox g @ [e] \<and> bridged i m e))
   \<and> set (to_server (snd (gd_handle BridgeBus (GrpcdClient i) (Bridge m) g))) \<subseteq> set (to_server g)"
  by (cases m) (auto simp: gd_handle_def gd_handle_bridge_def send_to_def run_simps Let_def bridged_def)

lemma answer_effect:
  assumes "bus \<noteq> BridgeBus"
  shows "outbox (snd (gd_handle bus (GrpcdClient i) m g)) = outbox g
    \<and> (to_server (snd (gd_handle bus (GrpcdClient i) m g)) = to_server g
       \<or> to_server (snd (gd_handle bus (GrpcdClient i) m g)) = to_server g @ [(i, m)])"
  using assms
  by (auto simp: gd_handle_def gd_handle_ctl_def gd_handle_info_def tx_response_def run_simps
      split: service_bus.splits bus_msg.splits ctl_msg.splits)

lemma routing_inv_start: "routing_inv (server_start l)"
  by (simp add: routing_inv_def server_start_def asks_def gd_initial_runtime_def)

text \<open>Steps that leave every question its number keep the parts of the invariant that only read it.\<close>

lemma routing_inv_same:
  assumes "routing_inv s" and "\<And>r i m. asks t r i m = asks s r i m" and "id_counter t = id_counter s"
    and "\<And>i r. hm_get (pending_requests t) i = Some r \<Longrightarrow> \<exists>m. questions t r = Awaiting i m \<or> questions t r = Cancelled i m"
    and "\<And>i m. (i, m) \<in> set (request_queue t) \<Longrightarrow> \<exists>r. asks s r i m"
    and "\<And>e. e \<in> set (outbox (grpcd t)) \<Longrightarrow> \<exists>r i m. asks s r i m \<and> bridged i m e"
    and "set (to_server (grpcd t)) \<subseteq> set (replied t)"
    and "\<And>r i m a. questions t r = Answered i m a \<Longrightarrow> (i, a) \<in> set (replied t)"
  shows "routing_inv t"
  unfolding routing_inv_def assms(2,3)
proof (intro conjI)
  from assms(1) show "\<forall>r i m. asks s r i m \<longrightarrow> i \<le> id_counter s" "\<forall>r r' i m m'. asks s r i m \<longrightarrow> asks s r' i m' \<longrightarrow> r = r'"
    by (simp_all add: routing_inv_def)
qed (use assms(4-8) in \<open>auto simp: assms(7)\<close>)

lemma routing_invD:
  assumes "routing_inv s"
  shows "asks s r i m \<Longrightarrow> i \<le> id_counter s" and "asks s r i m \<Longrightarrow> asks s r' i m' \<Longrightarrow> r = r'"
    and "hm_get (pending_requests s) i = Some r \<Longrightarrow> \<exists>m. questions s r = Awaiting i m \<or> questions s r = Cancelled i m"
    and "(i, m) \<in> set (request_queue s) \<Longrightarrow> \<exists>r. asks s r i m"
    and "e \<in> set (outbox (grpcd s)) \<Longrightarrow> \<exists>r i m. asks s r i m \<and> bridged i m e"
    and "set (to_server (grpcd s)) \<subseteq> set (replied s)"
    and "questions s r = Answered i m a \<Longrightarrow> (i, a) \<in> set (replied s)"
  using assms unfolding routing_inv_def by blast+

lemma inv_increment:
  assumes "routing_inv s" and r: "questions s r = Unasked" and n: "id_counter s < id_counter s + 1"
  shows "routing_inv (increment_id r m s)"
proof -
  let ?t = "increment_id r m s"
  note inv = routing_invD [OF assms(1)]
  have asks: "asks ?t r' i m' \<longleftrightarrow> (if r' = r then i = id_counter s + 1 \<and> m' = m else asks s r' i m')" for r' i m'
    by (auto simp: asks_def increment_id_def)
  have mono: "asks s r' i m' \<Longrightarrow> asks ?t r' i m'" for r' i m' using r by (cases "r' = r") (simp add: asks_def, simp add: asks)
  have le: "asks s r' i m' \<Longrightarrow> i < id_counter s + 1" for r' i m' using inv(1) n by (metis le_less_trans)
  have "i \<le> id_counter ?t" if "asks ?t r' i m'" for r' i m'
  proof -
    have "i \<le> id_counter s + 1" using that le by (cases "r' = r") (auto simp: asks dest: less_imp_le)
    then show ?thesis by (simp add: increment_id_def)
  qed
  moreover have "r1 = r2" if "asks ?t r1 i m1" "asks ?t r2 i m2" for r1 r2 i m1 m2
    using that inv(2) by (auto simp: asks split: if_splits dest: le)
  moreover have "\<exists>m. questions ?t r' = Awaiting i m \<or> questions ?t r' = Cancelled i m"
    if "hm_get (pending_requests ?t) i = Some r'" for i r'
    using that inv(3) r by (fastforce simp: increment_id_def)
  moreover have "\<exists>r. asks ?t r i m'" if "(i, m') \<in> set (request_queue ?t)" for i m'
  proof -
    from that have "(i, m') \<in> set (request_queue s)" by (simp add: increment_id_def)
    from inv(4) [OF this] mono show ?thesis by blast
  qed
  moreover have "\<exists>r i m. asks ?t r i m \<and> bridged i m e" if "e \<in> set (outbox (grpcd ?t))" for e
    using that inv(5) mono by (fastforce simp: increment_id_def)
  moreover have "set (to_server (grpcd ?t)) \<subseteq> set (replied ?t)" using inv(6) by (simp add: increment_id_def)
  moreover have "(i, a) \<in> set (replied ?t)" if "questions ?t r' = Answered i q a" for r' i q a
    using that inv(7) by (auto simp: increment_id_def split: if_splits)
  ultimately show ?thesis unfolding routing_inv_def by blast
qed

text \<open>A question that moves on without its answer, and the map of those that wait.\<close>

lemma routing_inv_moved:
  assumes "routing_inv s" and old: "questions s r \<noteq> Unasked" "q_id (questions s r) = i" "q_msg (questions s r) = m"
    and new: "q \<noteq> Unasked" "q_id q = i" "q_msg q = m" "\<And>j n a. q \<noteq> Answered j n a"
    and pending: "pending = pending_requests s \<or> pending = hm_insert i r (pending_requests s)"
    and waits: "q = Awaiting i m \<or> q = Cancelled i m
      \<or> pending = pending_requests s \<and> (\<forall>j n. questions s r \<noteq> Awaiting j n \<and> questions s r \<noteq> Cancelled j n)"
    and queue: "set queue \<subseteq> insert (i, m) (set (request_queue s))"
  shows "routing_inv (s\<lparr>questions := (questions s)(r := q), pending_requests := pending, request_queue := queue\<rparr>)"
proof -
  note inv = routing_invD [OF assms(1)]
  have r: "asks s r i m" using old by (simp add: asks_def)
  show ?thesis
  proof (rule routing_inv_same [OF assms(1)])
    fix j r'
    assume "hm_get (pending_requests (s\<lparr>questions := (questions s)(r := q), pending_requests := pending, request_queue := queue\<rparr>)) j = Some r'"
    then have get: "hm_get pending j = Some r'" by simp
    have "\<exists>n. ((questions s)(r := q)) r' = Awaiting j n \<or> ((questions s)(r := q)) r' = Cancelled j n"
    proof (cases "hm_get (pending_requests s) j = Some r'")
      case True
      from inv(3) [OF this] obtain n where n: "questions s r' = Awaiting j n \<or> questions s r' = Cancelled j n" by blast
      show ?thesis
      proof (cases "r' = r")
        case True
        then have "j = i" using n old by auto
        then show ?thesis using n True waits by auto
      next
        case False
        then show ?thesis using n by auto
      qed
    next
      case False
      then have inserted: "pending = hm_insert i r (pending_requests s)" using get pending by auto
      then have new: "j = i" "r' = r" using get False by (auto simp: update_conv' split: if_splits)
      then have "pending \<noteq> pending_requests s" using False get by auto
      then show ?thesis using new waits by auto
    qed
    then show "\<exists>n. questions (s\<lparr>questions := (questions s)(r := q), pending_requests := pending, request_queue := queue\<rparr>) r' = Awaiting j n
        \<or> questions (s\<lparr>questions := (questions s)(r := q), pending_requests := pending, request_queue := queue\<rparr>) r' = Cancelled j n"
      by simp
  next
    show "\<exists>r. asks s r j n" if "(j, n) \<in> set (request_queue (s\<lparr>questions := (questions s)(r := q), pending_requests := pending, request_queue := queue\<rparr>))" for j n
      using that queue inv(4) [of j n] r by auto
  next
    show "(j, a) \<in> set (replied (s\<lparr>questions := (questions s)(r := q), pending_requests := pending, request_queue := queue\<rparr>))"
      if "questions (s\<lparr>questions := (questions s)(r := q), pending_requests := pending, request_queue := queue\<rparr>) r' = Answered j n a"
      for r' j n a
      using that new(4) [of j n a] inv(7) [of r' j n a] by (auto split: if_splits)
  qed (use inv(5,6) old new(1-3) in \<open>auto simp: asks_def split: if_splits\<close>)
qed

lemma inv_moves:
  assumes "routing_inv s"
  shows "routing_inv (queue_question r s)" and "routing_inv (register_question r s)" and "routing_inv (cancel_question r s)"
proof -
  note inv = routing_invD [OF assms]
  show "routing_inv (queue_question r s)"
  proof (cases "questions s r")
    case (Numbered i m)
    have "routing_inv (s\<lparr>questions := (questions s)(r := Queued i m), pending_requests := pending_requests s,
        request_queue := request_queue s @ [(i, m)]\<rparr>)"
      by (rule routing_inv_moved [OF assms]) (auto simp: Numbered)
    moreover have "queue_question r s = s\<lparr>questions := (questions s)(r := Queued i m), pending_requests := pending_requests s,
        request_queue := request_queue s @ [(i, m)]\<rparr>"
      using Numbered by (cases s) (simp add: queue_question_def)
    ultimately show ?thesis by simp
  qed (use assms in \<open>simp_all add: queue_question_def\<close>)
  show "routing_inv (register_question r s)"
  proof (cases "questions s r")
    case (Queued i m)
    have "routing_inv (s\<lparr>questions := (questions s)(r := Awaiting i m), pending_requests := hm_insert i r (pending_requests s),
        request_queue := request_queue s\<rparr>)"
      by (rule routing_inv_moved [OF assms]) (auto simp: Queued)
    moreover have "register_question r s = s\<lparr>questions := (questions s)(r := Awaiting i m),
        pending_requests := hm_insert i r (pending_requests s), request_queue := request_queue s\<rparr>"
      using Queued by (cases s) (simp add: register_question_def)
    ultimately show ?thesis by simp
  qed (use assms in \<open>simp_all add: register_question_def\<close>)
  show "routing_inv (cancel_question r s)"
  proof (cases "questions s r")
    case (Awaiting i m)
    have "routing_inv (s\<lparr>questions := (questions s)(r := Cancelled i m), pending_requests := pending_requests s,
        request_queue := request_queue s\<rparr>)"
      by (rule routing_inv_moved [OF assms]) (auto simp: Awaiting)
    moreover have "cancel_question r s = s\<lparr>questions := (questions s)(r := Cancelled i m), pending_requests := pending_requests s,
        request_queue := request_queue s\<rparr>"
      using Awaiting by (cases s) (simp add: cancel_question_def)
    ultimately show ?thesis by simp
  qed (use assms in \<open>simp_all add: cancel_question_def\<close>)
qed

lemma inv_forward:
  assumes "routing_inv s"
  shows "routing_inv (forward_question s)"
proof (cases "request_queue s")
  case Nil
  then show ?thesis using assms by (simp add: forward_question_def)
next
  case (Cons p rest)
  obtain i m where p: "p = (i, m)" by (cases p)
  note inv = routing_invD [OF assms]
  let ?g = "snd (gd_handle BridgeBus (GrpcdClient i) (Bridge m) (grpcd s))"
  have t: "forward_question s = s\<lparr>request_queue := rest, grpcd := ?g\<rparr>" by (simp add: forward_question_def Cons p)
  obtain r where r: "asks s r i m" using inv(4) [of i m] by (auto simp: Cons p)
  show ?thesis
    unfolding t
  proof (rule routing_inv_same [OF assms])
    show "\<exists>r i m. asks s r i m \<and> bridged i m e" if "e \<in> set (outbox (grpcd (s\<lparr>request_queue := rest, grpcd := ?g\<rparr>)))" for e
      using that bridge_effect [of i m "grpcd s"] inv(5) [of e] r by (auto simp del: ex_simps) blast+
    show "set (to_server (grpcd (s\<lparr>request_queue := rest, grpcd := ?g\<rparr>))) \<subseteq> set (replied (s\<lparr>request_queue := rest, grpcd := ?g\<rparr>))"
      using bridge_effect [of i m "grpcd s"] inv(6) by auto
  qed (use inv in \<open>auto simp: asks_def Cons p\<close>)
qed

lemma inv_receive:
  assumes "routing_inv s" and "bus \<noteq> BridgeBus"
  shows "routing_inv (receive_answer bus i m s)"
  unfolding receive_answer_def
  by (rule routing_inv_same [OF assms(1)])
    (use routing_invD [OF assms(1)] answer_effect [OF assms(2), of i m "grpcd s"] in \<open>auto simp: asks_def\<close>)

lemma inv_take:
  assumes "routing_inv s"
  shows "routing_inv (take_answer s)"
proof (cases "to_server (grpcd s)")
  case Nil
  then show ?thesis using assms by (simp add: take_answer_def)
next
  case (Cons p rest)
  obtain i m where p: "p = (i, m)" by (cases p)
  note inv = routing_invD [OF assms]
  have reply: "(i, m) \<in> set (replied s)" "set rest \<subseteq> set (replied s)" using inv(6) by (auto simp: Cons p)
  show ?thesis
  proof (cases "\<exists>r q. hm_get (pending_requests s) i = Some r \<and> questions s r = Awaiting i q")
    case True
    then obtain r q where r: "hm_get (pending_requests s) i = Some r" "questions s r = Awaiting i q" by blast
    have other: "r' \<noteq> r" if "hm_get (pending_requests s) j = Some r'" "j \<noteq> i" for r' j
      using inv(3) [OF that(1)] r(2) that(2) by auto
    show ?thesis
      by (rule routing_inv_same [OF assms])
        (use inv r reply other in \<open>auto simp: take_answer_def Cons p asks_def split: if_splits\<close>)
  next
    case False
    then have "take_answer s = s\<lparr>grpcd := (grpcd s)\<lparr>to_server := rest\<rparr>, pending_requests := hm_remove i (pending_requests s)\<rparr>
      \<or> take_answer s = s\<lparr>grpcd := (grpcd s)\<lparr>to_server := rest, server_open := False\<rparr>,
           pending_requests := hm_remove i (pending_requests s), response_loop_runs := False\<rparr>"
    proof (cases "hm_get (pending_requests s) i")
      case (Some r)
      from inv(3) [OF this] False Some obtain n where "questions s r = Cancelled i n" by auto
      then show ?thesis using Some by (simp add: take_answer_def Cons p)
    qed (simp add: take_answer_def Cons p)
    then show ?thesis
      by (elim disjE; simp only:; intro routing_inv_same [OF assms])
        (use inv reply in \<open>auto simp: asks_def split: if_splits\<close>)
  qed
qed

lemma routing_inv_step: "grpc_step s t \<Longrightarrow> routing_inv s \<Longrightarrow> routing_inv t"
  by (induction rule: grpc_step.induct) (auto intro: inv_increment inv_moves inv_forward inv_receive inv_take)

lemma routing_inv_reaches: "grpc_reaches s t \<Longrightarrow> routing_inv s \<Longrightarrow> routing_inv t"
  by (induction rule: grpc_reaches.induct) (auto intro: routing_inv_step)

end
