(* ===== verification/Frontends.thy ===== *)
theory Frontends
  imports GrpcRouting SyncletTasks FarcasterdRuntime
begin

text \<open>
  Both front ends of the node, the command line client and the gRPC server, order only deals whose
  addresses and amounts fit their network, and never panic; a client that follows the progress of a
  swap shows what it hears up to the news that ends it.
\<close>

section \<open>Deals that may be ordered\<close>

definition acceptable :: "deal_parameters \<Rightarrow> btc_address \<Rightarrow> xmr_address \<Rightarrow> bool" where
  "acceptable p btc xmr \<longleftrightarrow>
     btc_network btc = dp_network p \<and> (dp_network p = Local \<or> xmr_network xmr = dp_network p)
     \<and> (dp_network p = Mainnet \<longrightarrow> unat (dp_arbitrating_amount p) \<le> 10 ^ 6 \<and> unat (dp_accordant_amount p) \<le> 2 * 10 ^ 12)
     \<and> 10 ^ 9 \<le> unat (dp_accordant_amount p)"

definition order_ok :: "ctl_msg \<Rightarrow> bool" where
  "order_ok m \<longleftrightarrow> (case m of
       MakeDeal pd \<Rightarrow> acceptable (pd_deal_parameters pd) (pd_arbitrating_addr pd) (pd_accordant_addr pd)
     | TakeDeal pub \<Rightarrow> acceptable (deal_params (pub_deal pub)) (pub_bitcoin_address pub) (pub_monero_address pub)
     | _ \<Rightarrow> True)"

definition question_ok :: "bridge_msg \<Rightarrow> bool" where
  "question_ok m \<longleftrightarrow> (case m of BridgeCtl req dest \<Rightarrow> order_ok req | _ \<Rightarrow> True)"

definition envelope_ok :: "envelope \<Rightarrow> bool" where
  "envelope_ok e \<longleftrightarrow> (case env_msg e of Ctl req \<Rightarrow> order_ok req | _ \<Rightarrow> True)"

lemma caps:
  "\<not> btc_cap < v \<Longrightarrow> unat v \<le> 10 ^ 6" "\<not> xmr_cap < v \<Longrightarrow> unat v \<le> 2 * 10 ^ 12" "\<not> v < xmr_least \<Longrightarrow> 10 ^ 9 \<le> unat v"
  by (simp_all add: btc_cap_def xmr_cap_def xmr_least_def word_less_nat_alt)

lemma checked_deals:
  "make_error p btc xmr = None \<Longrightarrow> acceptable p btc xmr" "take_error d btc xmr = None \<Longrightarrow> acceptable (deal_params d) btc xmr"
  by (auto simp: make_error_def take_error_def btc_address_error_def xmr_address_error_def amounts_error_def Let_def
      acceptable_def split: if_splits dest: caps)

section \<open>The gRPC server\<close>

definition grpc_ok :: "grpc_service \<Rightarrow> bool" where
  "grpc_ok s \<longleftrightarrow> (\<forall>m \<in> set (asked s). question_ok m)"

lemma ask_safe [safe_intros]: "question_ok m \<Longrightarrow> safe grpc_ok any (ask_bridge m)"
  unfolding ask_bridge_def
  by (rule safe_bind_any [OF safe_stateful])
    (auto simp: grpc_ok_def intro!: safe_intros split: bridge_answer.split)

lemma question_oks [simp]:
  "question_ok (BridgeInfo req dest)" "question_ok (BridgeCtl (RevokeDeal d) dest)" "question_ok (BridgeCtl AbortSwap dest)"
  "question_ok (BridgeCtl (Connect i) dest)" "question_ok (BridgeCtl (HealthCheckCtl b n) dest)"
  "question_ok (BridgeCtl (RestoreCheckpoint e) dest)" "question_ok (BridgeCtl (SweepAddressCtl a) dest)"
  "question_ok (BridgeCtl (MakeDeal (ProtoDeal p addr btc xmr)) dest) = acceptable p btc xmr"
  "question_ok (BridgeCtl (TakeDeal (PubDeal d btc xmr)) dest) = acceptable (deal_params d) btc xmr"
  by (simp_all add: question_ok_def order_ok_def)

lemma errors_safe [safe_intros]:
  "safe grpc_ok any (process_error_response r)" "safe grpc_ok any (error_or st r)" "safe grpc_ok any (failure_or st r)"
  unfolding process_error_response_def error_or_def failure_or_def
  by (auto intro!: safe_intros split: sum.split bus_msg.split ctl_msg.split info_msg.split)

lemma required_safe [safe_intros]: "safe grpc_ok any (required msg x)"
  unfolding required_def by (auto intro!: safe_intros)

lemmas answer_splits = sum.split bus_msg.split ctl_msg.split info_msg.split

lemma grpc_asking_safe [safe_intros]:
  "safe grpc_ok any (grpc_info T)" "safe grpc_ok any (grpc_peers T)" "safe grpc_ok any (grpc_swap_info T i)"
  "safe grpc_ok any (grpc_list_deals T a b)" "safe grpc_ok any (grpc_deal_info T d)"
  unfolding grpc_info_def grpc_peers_def grpc_swap_info_def grpc_list_deals_def grpc_deal_info_def
  by (auto intro!: safe_intros split: answer_splits node_info.split swap_info.split)

lemma grpc_listing_safe [safe_intros]:
  "safe grpc_ok any (grpc_funding_addresses T a b)" "safe grpc_ok any (grpc_progress T i)" "safe grpc_ok any (grpc_needs_funding T a b)"
  unfolding grpc_funding_addresses_def grpc_progress_def grpc_needs_funding_def
  by (auto intro!: safe_intros split: answer_splits)

lemma grpc_checkpoints_safe [safe_intros]: "safe grpc_ok any (grpc_checkpoints T a b)"
  unfolding grpc_checkpoints_def
  by (auto intro!: safe_intros split: answer_splits checkpoint_selector.split)

lemma grpc_orders_safe [safe_intros]:
  "safe grpc_ok any (grpc_revoke_deal T d)" "safe grpc_ok any (grpc_abort_swap T i)" "safe grpc_ok any (grpc_connect_swap T i)"
  unfolding grpc_revoke_deal_def grpc_abort_swap_def grpc_connect_swap_def
  by (auto intro!: safe_intros split: answer_splits)

lemma grpc_restore_safe [safe_intros]: "safe grpc_ok any (grpc_restore_checkpoint T i)"
  unfolding grpc_restore_checkpoint_def by (auto intro!: safe_intros split: answer_splits)

lemma grpc_make_safe [safe_intros]: "safe grpc_ok any (grpc_make T uuid q)"
  unfolding grpc_make_def Let_def
  by (auto intro!: safe_intros checked_deals split: answer_splits)

lemma grpc_take_safe [safe_intros]: "safe grpc_ok any (grpc_take T d a b)"
  unfolding grpc_take_def Let_def
  by (auto intro!: safe_intros checked_deals split: answer_splits)

lemma grpc_collect_health_safe [safe_intros]: "safe grpc_ok any (grpc_collect_health targets)"
  by (induction targets rule: grpc_collect_health.induct)
    (auto intro!: safe_intros simp: grpc_ask_health_def split: answer_splits)

lemma grpc_health_check_safe [safe_intros]: "safe grpc_ok any (grpc_health_check T sel)"
  unfolding grpc_health_check_def Let_def by (auto intro!: safe_intros)

lemma grpc_sweep_safe [safe_intros]: "safe grpc_ok any (grpc_sweep_address T a b)"
  unfolding grpc_sweep_address_def grpc_sweep_bitcoin_def grpc_sweep_monero_def order_sweep_def
  by (auto intro!: safe_intros split: answer_splits address_secret_key.split option.split)

lemma grpc_serve_safe: "safe grpc_ok any (grpc_serve T uuid q)"
  unfolding grpc_serve_def by (cases q) (auto intro!: safe_intros)

section \<open>The command line client\<close>

text \<open>A poll returns when there is something.\<close>

definition cli_ok :: "client \<Rightarrow> bool" where
  "cli_ok s \<longleftrightarrow> (\<forall>e \<in> set (outbox s). envelope_ok e) \<and> (\<forall>n. no_panic (polls s n) \<and> polls s n \<noteq> Ok [])"

lemma cli_frame [simp]:
  "cli_ok (s\<lparr>screen := p\<rparr>) = cli_ok s" "cli_ok (s\<lparr>typed := n\<rparr>) = cli_ok s" "cli_ok (s\<lparr>polled := n\<rparr>) = cli_ok s"
  "cli_ok (s\<lparr>response_queue := q\<rparr>) = cli_ok s"
  by (simp_all add: cli_ok_def)

lemma request_safe [safe_intros]:
  "safe cli_ok any (request_info dest m)" "order_ok c \<Longrightarrow> safe cli_ok any (request_ctl dest c)"
  by (auto simp: safe_def request_info_def request_ctl_def wp_simps Let_def cli_ok_def envelope_ok_def)

lemma println_safe [safe_intros]: "safe cli_ok any (println p)"
  unfolding println_def by (rule safe_modify) simp

lemma response_safe [safe_intros]: "safe cli_ok any response"
  unfolding safe_def
proof (intro allI impI)
  fix s
  assume ok: "cli_ok s"
  show "wp response (\<lambda>x t. cli_ok t \<and> True) (\<lambda>r t. cli_ok t \<and> no_panic r) s"
  proof (cases "response_queue s")
    case Nil
    show ?thesis
    proof (cases "polls s (polled s)")
      case (Ok ms)
      then obtain m rest where "ms = m # rest" using ok by (cases ms) (auto simp: cli_ok_def)
      then show ?thesis using Nil Ok ok by (simp add: response_def recv_poll_def pop_response_def wp_simps on_def)
    next
      case (Panic p)
      then show ?thesis using ok by (auto simp: cli_ok_def dest: spec [where x = "polled s"])
    qed (use Nil ok in \<open>simp_all add: response_def recv_poll_def wp_simps on_def\<close>)
  next
    case (Cons m rest)
    then show ?thesis using ok by (simp add: response_def pop_response_def wp_simps on_def)
  qed
qed

lemma reports_safe [safe_intros]: "safe cli_ok any report_failed" "safe cli_ok any report_response_or_fail"
  unfolding report_response_or_fail_def report_failed_def
  by (auto intro!: safe_intros split: bus_msg.split ctl_msg.split)

lemma report_progress_loop_safe [safe_intros]: "safe cli_ok any (report_progress_loop fuel)"
  by (induction fuel) (auto intro!: safe_intros split: bus_msg.split ctl_msg.split)

lemma order_oks [simp]:
  "order_ok (RestoreCheckpoint e)" "order_ok (Connect i)" "order_ok (RevokeDeal d)" "order_ok AbortSwap" "order_ok (GetBalance k)"
  "order_ok (SweepAddressCtl a)" "order_ok (HealthCheckCtl b n)"
  "order_ok (MakeDeal (ProtoDeal p addr btc xmr)) = acceptable p btc xmr"
  "order_ok (TakeDeal (PubDeal d btc xmr)) = acceptable (deal_params d) btc xmr"
  by (simp_all add: order_ok_def)

lemma asking_safe [safe_intros]:
  "safe cli_ok any (ask_and_print dest m)" "order_ok c \<Longrightarrow> safe cli_ok any (order_and_print dest c)"
  unfolding ask_and_print_def order_and_print_def by (auto intro!: safe_intros)

lemma no_panic_core_try [simp]: "no_panic (core_try r)"
  by (cases r) simp_all

lemma info_target_returns: "no_panic (info_target T subject)"
  by (auto simp: info_target_def Let_def intro!: no_panic_rbind split: list.split option.split)

lemma exec_info_safe [safe_intros]: "safe cli_ok any (exec_info T subject)"
  unfolding exec_info_def
  by (auto intro!: safe_intros info_target_returns split: bus_msg.split ctl_msg.split info_msg.split failure.split)

lemma exec_two_steps_safe [safe_intros]:
  "safe cli_ok any (exec_list_checkpoints sel)" "safe cli_ok any (exec_restore_checkpoint i)" "safe cli_ok any (exec_get_balance a)"
  unfolding exec_list_checkpoints_def exec_restore_checkpoint_def exec_get_balance_def
  by (auto intro!: safe_intros split: bus_msg.split info_msg.split checkpoint_selector.split)

lemma exec_sweeps_safe [safe_intros]:
  "safe cli_ok any (exec_sweep_bitcoin b b')" "safe cli_ok any (exec_sweep_monero x x')"
  unfolding exec_sweep_bitcoin_def exec_sweep_monero_def
  by (auto intro!: safe_intros split: bus_msg.split info_msg.split address_secret_key.split)

lemma collect_health_safe [safe_intros]: "safe cli_ok any (collect_health targets)"
  by (induction targets rule: collect_health.induct)
    (auto intro!: safe_intros simp: ask_health_def split: bus_msg.split ctl_msg.split)

lemma take_deal_prompt_safe [safe_intros]: "safe cli_ok any (take_deal_prompt fuel)"
  by (induction fuel) (auto intro!: safe_intros safe_stateful)

lemma exec_deals_safe [safe_intros]:
  "safe cli_ok any (exec_make p addr btc xmr)" "safe cli_ok any (exec_take fuel btc xmr d skip_question)"
  "safe cli_ok any (exec_health_check sel)" "safe cli_ok any (exec_progress fuel i follow)"
  unfolding exec_make_def exec_take_def exec_health_check_def exec_progress_def
  by (auto intro!: safe_intros checked_deals split: option.split sum.split)

lemma exec_safe: "safe cli_ok any (exec T fuel c)"
  unfolding exec_def by (cases c) (auto intro!: safe_intros)

section \<open>Following the progress of a swap\<close>

text \<open>What farcasterd sends to those who follow a swap.\<close>

definition progress_report :: "bus_msg \<Rightarrow> bool" where
  "progress_report m \<longleftrightarrow> (\<exists>p. m = Info (ProgressInfo p)) \<or> (\<exists>t. m = Info (SuccessInfo t)) \<or> (\<exists>f. m = Info (FailureInfo f))"

lemma progress_reports [simp]:
  "progress_report (Info (stacked_info p))" "progress_report (Info (FailureInfo f))"
  by (cases p) (simp_all add: progress_report_def)

definition sends_reports :: "farcasterd \<Rightarrow> farcasterd \<Rightarrow> bool" where
  "sends_reports f g \<longleftrightarrow> (\<exists>es. outbox g = outbox f @ es \<and> (\<forall>e \<in> set es. progress_report (env_msg e)))"

lemma sends_reports_trans: "sends_reports f g \<Longrightarrow> sends_reports g h \<Longrightarrow> sends_reports f h"
  unfolding sends_reports_def by (metis Un_iff append.assoc set_append)

lemma sends_reports_same: "outbox g = outbox f \<Longrightarrow> sends_reports f g"
  by (simp add: sends_reports_def)

text \<open>Actions that send only reports, whatever becomes of them.\<close>

definition reporting :: "'a fd_action \<Rightarrow> bool" where
  "reporting m \<longleftrightarrow> (\<forall>f. sends_reports f (snd (m f)))"

named_theorems reporting_intros "rules for actions that send only reports"

lemma reporting_bind [reporting_intros]:
  assumes "reporting m" and "\<And>x. reporting (k x)"
  shows "reporting (bind m k)"
  unfolding reporting_def
proof
  fix f
  obtain r g where mf: "m f = (r, g)" by (cases "m f")
  have "sends_reports f g" using assms(1) mf by (metis reporting_def snd_conv)
  moreover have "sends_reports g (snd (k x g))" for x using assms(2) by (simp add: reporting_def)
  ultimately show "sends_reports f (snd (bind m k f))"
    using mf by (cases r) (auto simp: bind_def intro: sends_reports_trans)
qed

lemma reporting_basic [reporting_intros]:
  "reporting (ret x)" "reporting skip" "(\<And>f. outbox (h f) = outbox f) \<Longrightarrow> reporting (modify h)"
  "(\<And>x. reporting (k x)) \<Longrightarrow> reporting (reads g k)"
  by (auto simp: reporting_def run_simps intro: sends_reports_same)

lemma reporting_send [reporting_intros]: "progress_report m \<Longrightarrow> reporting (send_to bus source dest m)"
  by (auto simp: reporting_def send_to_def sends_reports_def Let_def)

lemma reporting_attempt [reporting_intros]:
  assumes "reporting m"
  shows "reporting (attempt m)"
  unfolding reporting_def
proof
  fix f
  obtain r g where mf: "m f = (r, g)" by (cases "m f")
  have "sends_reports f g" using assms mf by (metis reporting_def snd_conv)
  then show "sends_reports f (snd (attempt m f))" using mf by (cases r) (simp_all add: attempt_def)
qed

lemma reporting_for_each: "(\<And>x. x \<in> set xs \<Longrightarrow> reporting (k x)) \<Longrightarrow> reporting (for_each xs k)"
  by (induction xs) (auto intro!: reporting_intros)

lemma reporting_client [reporting_intros]: "progress_report (Info m) \<Longrightarrow> reporting (send_client_info dest m)"
  unfolding send_client_info_def send_from_self_def by (auto intro!: reporting_intros)

lemma reporting_retain [reporting_intros]: "(\<And>x. reporting (p x)) \<Longrightarrow> reporting (retain p xs)"
  by (induction xs) (auto intro!: reporting_intros)

lemma reporting_record_progress: "reporting (record_progress source p)"
  unfolding record_progress_def notify_subscribed_clients_def queue_progress_def
  by (auto intro!: reporting_intros split: option.split)

lemma reporting_subscribe: "reporting (bind (stateful (subscribe_progress source i)) (respond_all source))"
proof -
  have "outbox (snd (subscribe_progress source i f)) = outbox f
      \<and> (\<forall>m \<in> set (fst (subscribe_progress source i f)). progress_report (Info m))" for f
    by (auto simp: subscribe_progress_def)
  note subscribed = this
  have responds: "\<forall>m \<in> set ms. progress_report (Info m) \<Longrightarrow> reporting (respond_all source ms)" for ms
    unfolding respond_all_def on_def by (auto intro!: reporting_intros reporting_for_each)
  show ?thesis
    unfolding reporting_def
  proof
    fix f
    obtain ms g where sub: "subscribe_progress source i f = (ms, g)" by (cases "subscribe_progress source i f")
    then have "outbox g = outbox f" "\<forall>m \<in> set ms. progress_report (Info m)" using subscribed [of f] by simp_all
    then have "sends_reports g (snd (respond_all source ms g))" "sends_reports f g"
      using responds by (simp_all add: reporting_def sends_reports_same)
    then show "sends_reports f (snd (bind (stateful (subscribe_progress source i)) (respond_all source) f))"
      by (auto simp: bind_def stateful_def sub intro: sends_reports_trans)
  qed
qed

lemma farcasterd_sends_reports:
  "sends_reports f (snd (fd_handle n now InfoBus client (Info (SubscribeProgress i)) f))"
  "m = ProgressCtl p \<or> m = SuccessCtl t \<or> m = FailureCtl fl \<Longrightarrow> sends_reports f (snd (fd_handle n now CtlBus source (Ctl m) f))"
  using reporting_record_progress reporting_subscribe
  by (auto simp: fd_handle_def fd_handle_info_def fd_handle_ctl_def Let_def reporting_def)

section \<open>What the client hears\<close>

text \<open>
  The messages that wait in the client's queue and those of its next polls, up to the poll number \<open>n\<close>;
  a poll that returns has a message.
\<close>

definition batch :: "client \<Rightarrow> nat \<Rightarrow> bus_msg list" where
  "batch c k = (case polls c k of Ok ms \<Rightarrow> ms | _ \<Rightarrow> [])"

lemma batch_frame [simp]:
  "batch (c\<lparr>response_queue := q\<rparr>) = batch c" "batch (c\<lparr>polled := k\<rparr>) = batch c" "batch (c\<lparr>screen := p\<rparr>) = batch c"
  "batch (c\<lparr>outbox := es\<rparr>) = batch c" "batch (c\<lparr>attempts := a\<rparr>) = batch c"
  by (simp_all add: fun_eq_iff batch_def)

definition upcoming :: "client \<Rightarrow> nat \<Rightarrow> bus_msg list" where
  "upcoming c n = response_queue c @ concat (map (batch c) [polled c ..< n])"

definition polls_return :: "client \<Rightarrow> nat \<Rightarrow> bool" where
  "polls_return c n \<longleftrightarrow> list_all (\<lambda>k. batch c k \<noteq> []) [polled c ..< n]"

text \<open>The messages after which a client stops following a swap.\<close>

fun final_news :: "bus_msg \<Rightarrow> bool" where
  "final_news (Ctl (SuccessCtl _)) = True"
| "final_news (Ctl (FailureCtl _)) = True"
| "final_news _ = False"

text \<open>How a command that hears one of them ends, and what it shows.\<close>

fun ends_with :: "bus_msg \<Rightarrow> (error, unit) result \<times> printed list" where
  "ends_with (Ctl (SuccessCtl (Some t))) = (Ok (), [PrintText t])"
| "ends_with (Ctl (SuccessCtl None)) = (Ok (), [PrintText (Fmt '''' [])])"
| "ends_with (Ctl (FailureCtl fail)) = (Err (FarcasterErr (failure_text fail)), [])"
| "ends_with m = (Hang, [PrintMsg m])"

text \<open>A client that has only moved on in its queue and its polls.\<close>

definition heard_more :: "client \<Rightarrow> client \<Rightarrow> bool" where
  "heard_more c d \<longleftrightarrow> (\<exists>q k. d = c\<lparr>response_queue := q, polled := k\<rparr>)"

lemma response_next:
  assumes "polls_return c n" and "upcoming c n = m # rest"
  shows "\<exists>d. response c = (Ok m, d) \<and> upcoming d n = rest \<and> polls_return d n \<and> heard_more c d"
proof (cases "response_queue c")
  case Nil
  then have more: "polled c < n" using assms(2) by (cases "polled c < n") (auto simp: upcoming_def)
  then have range: "[polled c ..< n] = polled c # [Suc (polled c) ..< n]" by (rule upt_conv_Cons)
  then obtain m' ms where ms: "polls c (polled c) = Ok (m' # ms)"
    using assms(1) by (auto simp: polls_return_def batch_def neq_Nil_conv split: result.splits)
  then have "m' = m" and rest: "ms @ concat (map (batch c) [Suc (polled c) ..< n]) = rest"
    using assms(2) Nil range by (auto simp: upcoming_def batch_def)
  let ?d = "c\<lparr>response_queue := ms, polled := Suc (polled c)\<rparr>"
  have "response c = (Ok m, ?d)"
    using ms Nil \<open>m' = m\<close> by (simp add: response_def recv_poll_def pop_response_def run_simps bind_def on_def)
  moreover have "upcoming ?d n = rest" using rest by (simp add: upcoming_def)
  moreover have "polls_return ?d n" using assms(1) range by (simp add: polls_return_def)
  ultimately show ?thesis unfolding heard_more_def by blast
next
  case (Cons m' q)
  let ?d = "c\<lparr>response_queue := q, polled := polled c\<rparr>"
  have "m' = m" and rest: "q @ concat (map (batch c) [polled c ..< n]) = rest"
    using assms(2) Cons by (simp_all add: upcoming_def)
  have "response c = (Ok m, ?d)"
    using Cons \<open>m' = m\<close> by (simp add: response_def pop_response_def run_simps bind_def on_def)
  moreover have "upcoming ?d n = rest" using rest by (simp add: upcoming_def)
  moreover have "polls_return ?d n" using assms(1) by (simp add: polls_return_def)
  ultimately show ?thesis unfolding heard_more_def by blast
qed

text \<open>The loop shows what it hears until the first message that ends it.\<close>

lemma report_failed_next:
  assumes "response c = (Ok m, d)" and "\<not> final_news m"
  shows "report_failed c = (Ok m, d)"
  using assms by (cases m rule: final_news.cases) (simp_all add: report_failed_def bind_def run_simps)

lemma report_progress_loop_ends:
  assumes "polls_return c n" and "upcoming c n = ms @ m # rest" and "list_all (\<lambda>x. \<not> final_news x) ms"
    and "final_news m" and "length ms < fuel"
  shows "\<exists>q k. report_progress_loop fuel c =
    (fst (ends_with m), c\<lparr>response_queue := q, polled := k, screen := screen c @ map PrintMsg ms @ snd (ends_with m)\<rparr>)"
  using assms
proof (induction ms arbitrary: c fuel)
  case Nil
  then obtain k where fuel: "fuel = Suc k" by (cases fuel) auto
  obtain d where d: "response c = (Ok m, d)" "heard_more c d" using response_next [of c n m rest] Nil by auto
  show ?case
    using Nil(4) d unfolding fuel heard_more_def
    by (cases m rule: final_news.cases)
      (auto simp: report_failed_def bind_def run_simps println_def split: option.split intro!: exI)
next
  case (Cons x ms)
  then obtain k where fuel: "fuel = Suc k" "length ms < k" by (cases fuel) auto
  obtain d where d: "response c = (Ok x, d)" "upcoming d n = ms @ m # rest" "polls_return d n" "heard_more c d"
    using response_next [of c n x "ms @ m # rest"] Cons.prems by auto
  have x: "\<not> final_news x" using Cons.prems by simp
  let ?d = "d\<lparr>screen := screen d @ [PrintMsg x]\<rparr>"
  have shown: "report_progress_loop fuel c = report_progress_loop k ?d"
    using report_failed_next [OF d(1) x] x unfolding fuel
    by (cases x rule: final_news.cases) (simp_all add: bind_def println_def run_simps)
  have "polls_return ?d n" "upcoming ?d n = ms @ m # rest"
    using d by (simp_all add: polls_return_def upcoming_def)
  from Cons.IH [OF this _ Cons.prems(4) fuel(2)] Cons.prems(3) obtain q l where
    "report_progress_loop k ?d = (fst (ends_with m), ?d\<lparr>response_queue := q, polled := l,
       screen := screen ?d @ map PrintMsg ms @ snd (ends_with m)\<rparr>)" by auto
  with shown d(4) show ?case by (auto simp: heard_more_def intro!: exI)
qed

section \<open>The properties\<close>

definition sample_client :: "(nat \<Rightarrow> (string, bus_msg list) result) \<Rightarrow> client" where
  "sample_client incoming = client_with (Client 3) (\<lambda>_ _. True) incoming (\<lambda>_. 121)"

definition sample_service :: grpc_service where
  "sample_service = \<lparr>asked = [], bridge_answers = (\<lambda>_ _. Refused ''no answer'')\<rparr>"

text \<open>
  Property C37 (safety): whatever command the client is given and whatever request the gRPC server gets, every deal they
  order farcasterd to make or take has addresses of its network, and amounts above the least one and,
  on Mainnet, below the caps; neither panics.
\<close>

theorem front_ends_order_acceptable_deals:
  assumes "cli_ok c" and "grpc_ok g"
  shows "keeps cli_ok (exec T fuel cmd) c \<and> keeps grpc_ok (grpc_serve X uuid q) g"
  using keeps_safe [OF exec_safe assms(1)] keeps_safe [OF grpc_serve_safe assms(2)] by blast

theorem front_ends_order_acceptable_deals_witness:
  "\<forall>T X p btc xmr. keeps cli_ok (exec T 1 (MakeCmd p ''0.0.0.0'' btc xmr)) (sample_client (\<lambda>_. Ok [Ctl Hello]))
     \<and> keeps grpc_ok (grpc_serve X [1] (TakeRequest ''deal'' ''btc'' ''xmr'')) sample_service"
  using front_ends_order_acceptable_deals [of "sample_client (\<lambda>_. Ok [Ctl Hello])" sample_service]
  by (simp add: cli_ok_def grpc_ok_def sample_client_def client_with_def sample_service_def)

text \<open>
  Property C38 (functional): a client that follows a swap subscribes at farcasterd, shows every message it hears in the order
  of its queue and its polls, and ends at the first control message of success, which it shows, or of failure, which is its
  error; either way it unsubscribes, and it sends nothing else.
\<close>

theorem following_ends_with_the_news:
  assumes "reliable c" and "polls_return c n" and "upcoming c n = ms @ m # rest" and "list_all (\<lambda>x. \<not> final_news x) ms"
    and "final_news m" and "length ms < fuel"
  shows "\<exists>d. exec T fuel (ProgressCmd i True) c = (fst (ends_with m), d)
    \<and> screen d = screen c @ map PrintMsg ms @ snd (ends_with m)
    \<and> outbox d = outbox c @ [Envelope InfoBus (identity c) Farcasterd (Info (SubscribeProgress i)),
        Envelope InfoBus (identity c) Farcasterd (Info (UnsubscribeProgress i))]"
proof -
  let ?c = "c\<lparr>outbox := outbox c @ [Envelope InfoBus (identity c) Farcasterd (Info (SubscribeProgress i))], attempts := Suc (attempts c)\<rparr>"
  have "polls_return ?c n" "upcoming ?c n = ms @ m # rest"
    using assms by (simp_all add: polls_return_def upcoming_def)
  from report_progress_loop_ends [OF this assms(4-6)] obtain q k where loop: "report_progress_loop fuel ?c =
      (fst (ends_with m), ?c\<lparr>response_queue := q, polled := k, screen := screen ?c @ map PrintMsg ms @ snd (ends_with m)\<rparr>)"
    by blast
  show ?thesis
    using assms(1,5) loop
    by (cases m rule: ends_with.cases)
      (simp_all add: exec_def exec_progress_def request_info_def send_from_self_def run_simps run_reads send_to_reliable bind_def
        attempt_def reliable_def)
qed

theorem following_ends_with_the_news_witness:
  "\<forall>T i. fst (exec T 5 (ProgressCmd i True) (sample_client (\<lambda>k. if k = 0 then Ok [Info (SuccessInfo None)]
      else Ok [Ctl Hello, Ctl (SuccessCtl None)]))) = Ok ()"
proof (intro allI)
  fix T i
  let ?c = "sample_client (\<lambda>k. if k = 0 then Ok [Info (SuccessInfo None)] else Ok [Ctl Hello, Ctl (SuccessCtl None)])"
  have "upcoming ?c 2 = [Info (SuccessInfo None), Ctl Hello] @ Ctl (SuccessCtl None) # []"
    by (simp add: upcoming_def batch_def sample_client_def client_with_def upt_rec numeral_2_eq_2)
  from following_ends_with_the_news [of ?c 2, OF _ _ this, of 5 T i]
  show "fst (exec T 5 (ProgressCmd i True) ?c) = Ok ()"
    by (auto simp: polls_return_def batch_def reliable_def sample_client_def client_with_def upt_rec numeral_2_eq_2)
qed

end
