(* ===== verification/GrpcAnswers.thy ===== *)
theory GrpcAnswers
  imports GrpcRouting
begin

text \<open>
  Which answers the calls of the gRPC server get, in every run of its loops: their own, as long as no
  caller that waits goes away.
\<close>

section \<open>After a caller has gone\<close>

lemma gd_handle_loop: "response_loop_runs (forward_question s) = response_loop_runs s"
  by (simp add: forward_question_def split: list.split)

lemma loop_stays_ended: "grpc_step s t \<Longrightarrow> \<not> response_loop_runs s \<Longrightarrow> \<not> response_loop_runs t"
  by (induction rule: grpc_step.induct)
    (auto simp: increment_id_def queue_question_def register_question_def cancel_question_def receive_answer_def gd_handle_loop
      split: question.splits)

lemma no_answer_without_loop:
  "grpc_step s t \<Longrightarrow> \<not> response_loop_runs s \<Longrightarrow> questions t r = Answered i m a \<Longrightarrow> questions s r = Answered i m a"
  by (induction rule: grpc_step.induct)
    (auto simp: increment_id_def queue_question_def register_question_def cancel_question_def receive_answer_def
      forward_question_def split: question.splits list.splits if_splits)

lemma no_answers_without_loop:
  assumes "grpc_reaches s t" and "\<not> response_loop_runs s"
  shows "\<not> response_loop_runs t \<and> (questions t r = Answered i m a \<longrightarrow> questions s r = Answered i m a)"
  using assms by induction (auto dest: loop_stays_ended no_answer_without_loop)

section \<open>An example\<close>

text \<open>Two calls: the first asks for the peers, and goes away in one of the runs, the second asks for the swaps.\<close>

definition ask_both :: "grpc_server \<Rightarrow> grpc_server" where
  "ask_both = register_question 1 \<circ> queue_question 1 \<circ> increment_id 1 (BridgeInfo ListSwaps Farcasterd)
     \<circ> register_question 0 \<circ> queue_question 0 \<circ> increment_id 0 (BridgeInfo ListPeers Farcasterd)"

definition both_asked :: grpc_server where
  "both_asked = (forward_question \<circ> forward_question \<circ> ask_both) (server_start (\<lambda>_ _. True))"

definition first_gone :: grpc_server where
  "first_gone = (receive_answer InfoBus 2 (Info (SwapList [])) \<circ> receive_answer InfoBus 1 (Info (PeerList [])) \<circ> cancel_question 0)
     both_asked"

lemmas loop_defs = increment_id_def queue_question_def register_question_def cancel_question_def receive_answer_def
  forward_question_def server_start_def gd_initial_runtime_def gd_handle_def gd_handle_bridge_def gd_handle_info_def
  tx_response_def send_to_def run_simps

lemma both_asked_reached: "grpc_reaches (server_start (\<lambda>_ _. True)) both_asked"
  unfolding both_asked_def ask_both_def comp_def
  by (intro reaches_step [OF _ step_forward] reaches_step [OF _ step_register] reaches_step [OF _ step_queue]
      reaches_step [OF _ step_number] reaches_here) (simp_all add: loop_defs)

definition first_answered :: grpc_server where
  "first_answered = take_answer (receive_answer InfoBus 1 (Info (PeerList [])) both_asked)"

lemma first_answered_reached: "grpc_reaches (server_start (\<lambda>_ _. True)) first_answered"
  unfolding first_answered_def
  by (intro reaches_step [OF _ step_take] reaches_step [OF both_asked_reached step_receive])
    (simp_all add: both_asked_def ask_both_def loop_defs)

lemma first_answered_state:
  "questions first_answered 0 = Answered 1 (BridgeInfo ListPeers Farcasterd) (Info (PeerList []))" "outbox (grpcd first_answered) \<noteq> []"
  by (simp_all add: first_answered_def take_answer_def both_asked_def ask_both_def loop_defs)

section \<open>The properties\<close>

text \<open>
  Property C39 (safety): in every run of the loops of the gRPC server, the answer a call gets is one that a daemon gave to
  the number of that call, no two calls have the same number, and what the daemon \<open>grpcd\<close> sends on is the
  question of a call, on the bus and to the daemon it names, in the name of its number.
\<close>

theorem answers_reach_their_calls:
  assumes "grpc_reaches (server_start l) s"
  shows "(\<forall>r i q a. questions s r = Answered i q a \<longrightarrow> (i, a) \<in> set (replied s))
    \<and> (\<forall>r r' i m m'. asks s r i m \<longrightarrow> asks s r' i m' \<longrightarrow> r = r')
    \<and> (\<forall>e \<in> set (outbox (grpcd s)). \<exists>r i m. asks s r i m \<and> bridged i m e)"
  using routing_inv_reaches [OF assms routing_inv_start] unfolding routing_inv_def by blast

theorem answers_reach_their_calls_witness:
  "(1, Info (PeerList [])) \<in> set (replied first_answered)
   \<and> (\<exists>r i m. asks first_answered r i m \<and> bridged i m (hd (outbox (grpcd first_answered))))"
  using answers_reach_their_calls [OF first_answered_reached] first_answered_state by (meson hd_in_set)

text \<open>
  Property C40 (error): when the answer of a call arrives whose caller has gone away, the response loop ends, and from
  then on no call that waits is ever answered.
\<close>

theorem cancelled_call_stops_answers:
  assumes "to_server (grpcd s) = (i, m) # rest" and "hm_get (pending_requests s) i = Some r"
    and "questions s r = Cancelled j q" and "grpc_reaches (take_answer s) t"
  shows "\<not> response_loop_runs t \<and> (\<forall>r' k n a. questions t r' = Answered k n a \<longrightarrow> questions s r' = Answered k n a)"
proof -
  have "\<not> response_loop_runs (take_answer s)" "questions (take_answer s) = questions s"
    using assms(1-3) by (simp_all add: take_answer_def)
  with no_answers_without_loop [OF assms(4)] show ?thesis by simp
qed

theorem cancelled_call_stops_answers_witness:
  "\<forall>k n a. questions (receive_answer InfoBus 2 (Info (SwapList [])) (take_answer first_gone)) 1 \<noteq> Answered k n a"
proof -
  have step: "grpc_step (take_answer first_gone) (receive_answer InfoBus 2 (Info (SwapList [])) (take_answer first_gone))"
    by (rule step_receive) simp
  have "to_server (grpcd first_gone) = [(1, Info (PeerList [])), (2, Info (SwapList []))]"
    "hm_get (pending_requests first_gone) 1 = Some 0" "questions first_gone 0 = Cancelled 1 (BridgeInfo ListPeers Farcasterd)"
    "questions first_gone 1 = Awaiting 2 (BridgeInfo ListSwaps Farcasterd)"
    by (simp_all add: first_gone_def both_asked_def ask_both_def loop_defs)
  with cancelled_call_stops_answers [OF this(1-3) reaches_step [OF reaches_here step]] show ?thesis by force
qed

end
