(* ===== verification/Spec2Isabelle.thy ===== *)
theory Spec2Isabelle
  imports SwapReplay SyncerInvariants SwapCheckpoints SwapGuards SyncerAnswers
    DatabasedServes PeerdLiveness SyncerdRuntime BitcoinExamples MoneroExamples
    WalletdKeys Frontends GrpcAnswers
begin

text \<open>
  A model of the farcaster node and what makes it correct. The node is a set of daemons that send
  each other messages on four buses. \<open>farcasterd\<close> starts the others and runs a state machine per trade,
  from the offer of a deal to the outcome of its swap. A swap daemon (\<open>swapd\<close>) runs one atomic swap
  between Bitcoin and Monero: it runs a state machine on the messages, keeps the transactions and
  keys of the swap in a wallet, and gives tasks to a syncer per chain (\<open>syncerd\<close>), whose events come
  back as messages. \<open>peerd\<close> carries the messages of the swaps to the other side, \<open>databased\<close> keeps
  their checkpoints, the keys of addresses and the history of deals, and \<open>walletd\<close> gives out the keys of
  the node and of each swap. Users order deals and follow swaps with the command line client, or by
  gRPC through \<open>grpcd\<close>.

  \<^bold>\<open>The program and its theories\<close>

  \<^item> \<open>Prelude\<close>: machine words, results (a value, an error, a panic, or a loop out of fuel), actions
    that pass a state and may fail, hash maps as association lists, and the weakest-precondition
    rules of actions.
  \<^item> \<open>Basics\<close>: \<open>chains.rs\<close>, \<open>service.rs\<close>, \<open>error.rs\<close> and the shared types of \<open>bus/types.rs\<close>.
  \<^item> \<open>TemporalSafety\<close>: \<open>swapd/temporal_safety.rs\<close>, the thresholds and timelocks of a swap.
  \<^item> \<open>SyncerTypes\<close>, \<open>SyncerState\<close>, \<open>SyncerInvariants\<close>: \<open>syncerd/types.rs\<close> and
    \<open>syncerd/syncer_state.rs\<close>, the tables of tasks of a syncer, each operation of it, and the
    invariant of the tables.
  \<^item> \<open>SwapTypes\<close>, \<open>Messages\<close>: the messages of \<open>bus/\<close>, the state of the machine of
    \<open>swapd/swap_state.rs\<close> and of the wallet, reports.
  \<^item> \<open>Esb\<close>: \<open>event.rs\<close> and the sending traits of \<open>service.rs\<close>. A send is recorded in an outbox; whether
    it succeeds is decided by an arbitrary function of its number and of the message.
  \<^item> \<open>Core\<close>: what the program calls of the crates \<open>farcaster_core\<close>, \<open>bitcoin\<close> and \<open>monero\<close>, as the
    record \<open>core\<close> of functions that every definition using them takes as an argument.
  \<^item> \<open>SyncerClient\<close>: \<open>swapd/syncer_client.rs\<close> and \<open>swapd/state_report.rs\<close>.
  \<^item> \<open>Wallet\<close>: \<open>swapd/wallet.rs\<close>.
  \<^item> \<open>SwapRuntime\<close>, \<open>SwapState\<close>, \<open>SwapdRuntime\<close>: \<open>swapd/runtime.rs\<close> and \<open>swapd/swap_state.rs\<close>: the
    record \<open>runtime\<close> is the code's \<open>Runtime\<close> (over the record \<open>daemon\<close> of the bus), one definition per
    handler, \<open>next_state\<close> is \<open>SwapStateMachine::next\<close>, \<open>handle\<close> is the handler of the service.

  \<^item> \<open>Config\<close>: \<open>config.rs\<close>, the configuration, its defaults and look-ups.
  \<^item> \<open>Stats\<close>: \<open>farcasterd/stats.rs\<close>.
  \<^item> \<open>Farcasterd\<close>, \<open>SyncerMachine\<close>, \<open>TradeMachine\<close>, \<open>FarcasterdRuntime\<close>: \<open>farcasterd/runtime.rs\<close> and its two
    state machines. The record \<open>farcasterd\<close> is the code's \<open>Runtime\<close> (over \<open>daemon\<close>), with the processes
    launched and the payments made. \<open>tsm_next\<close> and \<open>ssm_next\<close> are the machines' \<open>next\<close>, \<open>fd_handle\<close> is the
    handler of the service. What processes and wallets answer is a function in the record \<open>world\<close>.
  \<^item> \<open>Databased\<close>: \<open>databased/runtime.rs\<close>. LMDB is the record \<open>lmdb\<close> and the generated encodings are the
    record \<open>codecs\<close> of functions, arguments of every definition that uses them; \<open>lmdb_ok\<close> and \<open>codecs_ok\<close>
    state their documented behaviour.
  \<^item> \<open>Peerd\<close>: \<open>peerd/runtime.rs\<close>. The record \<open>peerd\<close> is the code's \<open>Runtime\<close>, with what was written on each
    connection; the network, the receiver thread and the random numbers are the record \<open>peer_world\<close>.
  \<^item> \<open>Synclet\<close>, \<open>BitcoinSyncer\<close>, \<open>MoneroSyncer\<close>, \<open>SyncerdRuntime\<close>: \<open>syncerd/bitcoin_syncer.rs\<close>,
    \<open>syncerd/monero_syncer.rs\<close> and \<open>syncerd/runtime.rs\<close>. Each task of a syncer is an action over a record that
    extends \<open>synclet\<close>; when it takes the lock of the shared \<open>SyncerState\<close>, what the other tasks did meanwhile
    happens first, as the function \<open>interference\<close> says. The servers are the records \<open>electrum\<close> and \<open>monerod\<close>,
    answers by the number of the call; the crate \<open>bitcoin\<close> is the record \<open>bitcoin_lib\<close>. \<open>btc_tasks\<close> and
    \<open>xmr_tasks\<close> list all the tasks spawned, with the one that receives tasks and the one that gives the
    events to the bridge; \<open>terminate_polling\<close>, which ends the Bitcoin syncer by a panic, is apart.
  \<^item> \<open>Walletd\<close>: \<open>walletd/runtime.rs\<close> and the file of secrets of \<open>walletd/opts.rs\<close>, on the record \<open>disk\<close>.
  \<^item> \<open>Cli\<close>: \<open>client.rs\<close>, \<open>cli/command.rs\<close> and the commands of \<open>cli/opts.rs\<close>. The record \<open>client\<close> holds what
    arrives and what is typed as functions, and what is printed as a list; \<open>exec\<close> is \<open>Command::exec\<close>.
  \<^item> \<open>Grpcd\<close>, \<open>GrpcRouting\<close>: \<open>grpcd/runtime.rs\<close>, the procedures of the service (\<open>grpc_serve\<close>) and the queues
    between the server and its daemon, as steps of the relation \<open>grpc_step\<close>.

  \<^bold>\<open>What the lemmas show\<close>

  \<^item> \<open>TemporalSafety\<close>: the subtractions do not wrap when the parameters are valid, and each safe
    window closes before the counterparty's timelock opens (locale \<open>race_window\<close>).
  \<^item> \<open>SyncerInvariants\<close>: the tables of every reachable syncer are consistent, so no operation
    panics while task ids are left; which tasks an abort, a new tip and a new status remove and whom they
    notify, of what.
  \<^item> \<open>Frames\<close>, \<open>SwapFrames\<close>: a calculus of what actions keep (locale \<open>frame\<close>); every handler of
    the state machine keeps the fixed part of the runtime.
  \<^item> \<open>SwapDiagram\<close>: the abstract diagram of a swap, split into the edges drawn at the head of the code
    (\<open>drawn\<close>), the aborts that comments describe (\<open>described_aborts\<close>) and three states that stay, and that
    every transition of the code is in it.
  \<^item> \<open>SwapMachine\<close>: what every message keeps (locale \<open>machine_frame\<close>, interpreted with the diagram
    and with the permanent part of the daemon). The control message that restores a checkpoint is taken in
    any state and replaces it; each property names this exception, and the reachable daemons
    (\<open>swapd_reach\<close>) include the restored ones, with the checkpoint last restored.
  \<^item> \<open>SwapReplay\<close>: the loop of the daemon ends.
  \<^item> \<open>SwapSends\<close>, \<open>SwapCheckpoints\<close>, \<open>SwapGuards\<close>: which messages and transactions each transition gives
    out, that the Lock leaves after its checkpoint, that checkpoints restore, what is refused.
  \<^item> \<open>TradeDiagram\<close>, \<open>TradeKeeping\<close>, \<open>FarcasterdInvariant\<close>: the diagram of a trade, that every transition is
    in it and no handled message loses a trade; which messages fail hard.
  \<^item> \<open>FarcasterdFrames\<close>, \<open>FarcasterdReach\<close>: what the handlers of farcasterd keep, and its invariant.
  \<^item> \<open>FarcasterdServices\<close>, \<open>SyncerAnswers\<close>: the start and the end of a swap, automatic funding, and who
    is answered by a syncer.
  \<^item> \<open>DatabasedStore\<close>, \<open>DatabasedAnswers\<close>, \<open>DatabasedServes\<close>: the database daemon refines an abstract store of
    typed maps; its answers are what the store holds; a checkpoint comes back as it was stored.
  \<^item> \<open>PeerdDelivery\<close>, \<open>PeerdCache\<close>, \<open>PeerdReturns\<close>, \<open>PeerdLiveness\<close>: what the connection daemon keeps until it
    is confirmed, what it writes again, what it gives back, and that its loops end when the network is back.
  \<^item> \<open>SyncletSafety\<close>, \<open>SyncletTasks\<close>, \<open>BitcoinTasks\<close>, \<open>MoneroTasks\<close>: a calculus of actions that keep an invariant
    and never panic (\<open>safe\<close>), under any interference that keeps the shared tables consistent (\<open>rely\<close>), and
    that every task of both syncers is one of them (locale \<open>chain_syncer\<close>, interpreted for each); which
    panics are left, as ends.
  \<^item> \<open>BitcoinQueries\<close>: the history of an address against a reference definition over a ledger, and what a
    sweep broadcasts.
  \<^item> \<open>WalletdKeys\<close>: no index of the seed is given out twice, over crashes and restarts.
  \<^item> \<open>Frontends\<close>: both front ends order only acceptable deals and never panic, by the same calculus; how
    a client that follows a swap ends, and what farcasterd sends to it.
  \<^item> \<open>GrpcAnswers\<close>: which answers the calls of the gRPC server get.
  \<^item> \<open>Examples\<close>, \<open>FarcasterdExamples\<close>, \<open>PeerdExamples\<close>, \<open>BitcoinExamples\<close>, \<open>MoneroExamples\<close>: concrete instances of the crates and of the daemons, for the
    witnesses.

  \<^bold>\<open>Fuel\<close>

  After a transition the daemon replays events, each of which can run the machine again. The
  recursion takes the fuel \<open>replay_fuel\<close> = 4096; each transition on a replayed event lowers a measure
  below 1536 (\<open>SwapReplay\<close>), so the fuel never runs out. The attempts of a Monero payment are the
  code's loop of ten. The loops of \<open>peerd\<close> have no bound in the code; they run with a fuel, and when
  from its \<open>N\<close>-th attempt on the network works, any fuel above \<open>2 * N\<close> and the probes of the old
  receiver thread is enough (\<open>PeerdLiveness\<close>). The tasks of the syncers never end in the code: their
  outer loops are run for one connection and their inner loops for a number of rounds, and the lemmas
  hold for every number. The loops that take notifications until there are none, that open a wallet or
  ask the user, and the one that follows a swap have a fuel; running out is the outcome \<open>Hang\<close>. For the
  one that follows a swap, more fuel than the messages heard before the news that ends it is enough.

  \<^bold>\<open>Conventions\<close>

  Logging is left out, formatted texts are kept with their arguments (\<open>fmt\<close>). Iterations over hash
  maps follow the order of the association list. Types of the crates whose contents the program never
  reads are byte strings. \<open>expect\<close>, \<open>unwrap\<close> and \<open>unreachable\<close> are the outcome \<open>Panic\<close>. Numbers are words of
  their width; the release build wraps.

  \<^bold>\<open>Not modelled\<close>

  The binaries, the parsing of options, the sockets and the loop of a service (\<open>service.rs\<close>), threads,
  pauses and the runtime of the gRPC server; text and YAML output; the removal of wallet files after a
  sweep, whose failure is only logged. Strict and consensus encodings are generated by macros. The
  steps of the gRPC server are those of one run of it: a failure of its request loop and a start anew,
  which happens only when its socket fails, are not among them.
\<close>

end
